(* ===== verification/Prelude.thy ===== *)
theory Prelude
  imports Main "HOL-Library.AList" "HOL-Library.Sublist"
begin

text \<open>
  Shared vocabulary of the development: results that carry a raised error, the string
  operations of Python the sources use (over byte strings, i.e. the UTF-8 encoding of a
  Python string; \<open>lower\<close> and \<open>strip\<close> act on ASCII), and insertion-ordered
  dictionaries as association lists.  The collection \<open>wb_result\<close> holds the facts that
  take a successful or failing chain of calls apart.
\<close>

named_theorems wb_result

section \<open>Results: a raised exception is the left summand\<close>

fun r_bind :: "'e + 'a \<Rightarrow> ('a \<Rightarrow> 'e + 'b) \<Rightarrow> 'e + 'b" where
  "r_bind (Inl e) f = Inl e"
| "r_bind (Inr x) f = f x"

definition r_guard :: "bool \<Rightarrow> 'e \<Rightarrow> 'e + unit" where
  "r_guard ok e = (if ok then Inr () else Inl e)"

definition is_ok :: "'e + 'a \<Rightarrow> bool" where
  "is_ok r = (case r of Inl _ \<Rightarrow> False | Inr _ \<Rightarrow> True)"

fun r_map :: "('a \<Rightarrow> 'e + 'b) \<Rightarrow> 'a list \<Rightarrow> 'e + 'b list" where
  "r_map f [] = Inr []"
| "r_map f (x # xs) = r_bind (f x) (\<lambda>y. r_bind (r_map f xs) (\<lambda>ys. Inr (y # ys)))"

lemma r_bind_Inr_iff [wb_result]:
  "r_bind m f = Inr y \<longleftrightarrow> (\<exists>x. m = Inr x \<and> f x = Inr y)"
  by (cases m) auto

lemma r_bind_Inl_iff [wb_result]:
  "r_bind m f = Inl e \<longleftrightarrow> m = Inl e \<or> (\<exists>x. m = Inr x \<and> f x = Inl e)"
  by (cases m) auto

lemma r_guard_Inr_iff [wb_result]: "r_guard ok e = Inr u \<longleftrightarrow> ok"
  by (simp add: r_guard_def)

lemma r_guard_Inl_iff [wb_result]: "r_guard ok e = Inl e' \<longleftrightarrow> \<not> ok \<and> e' = e"
  by (auto simp: r_guard_def)

lemma r_guard_simps [simp]: "r_guard True e = Inr ()" "r_guard False e = Inl e"
  by (simp_all add: r_guard_def)

lemma is_ok_simps [simp]: "is_ok (Inl e) = False" "is_ok (Inr x) = True"
  by (simp_all add: is_ok_def)

lemma is_ok_iff: "is_ok r \<longleftrightarrow> (\<exists>x. r = Inr x)"
  by (cases r) auto

lemma r_map_Inr_length: "r_map f xs = Inr ys \<Longrightarrow> length ys = length xs"
  by (induction xs arbitrary: ys) (auto simp: wb_result)

lemma r_map_Inr_set: "r_map f xs = Inr ys \<Longrightarrow> y \<in> set ys \<Longrightarrow> \<exists>x\<in>set xs. f x = Inr y"
  by (induction xs arbitrary: ys) (auto simp: wb_result)

section \<open>Stateful calls\<close>

text \<open>
  A method that mutates state and may raise: the state reached is kept on both outcomes,
  as Python keeps what was done before an exception.
\<close>

type_synonym ('s, 'e, 'a) act = "'s \<Rightarrow> 's \<times> ('e + 'a)"

definition a_ret :: "'a \<Rightarrow> ('s, 'e, 'a) act" where
  "a_ret x s = (s, Inr x)"

definition a_fail :: "'e \<Rightarrow> ('s, 'e, 'a) act" where
  "a_fail e s = (s, Inl e)"

definition a_bind :: "('s, 'e, 'a) act \<Rightarrow> ('a \<Rightarrow> ('s, 'e, 'b) act) \<Rightarrow> ('s, 'e, 'b) act" where
  "a_bind m f s = (case m s of (s', Inl e) \<Rightarrow> (s', Inl e) | (s', Inr x) \<Rightarrow> f x s')"

definition a_guard :: "bool \<Rightarrow> 'e \<Rightarrow> ('s, 'e, unit) act" where
  "a_guard ok e s = (s, if ok then Inr () else Inl e)"

definition a_get :: "('s, 'e, 's) act" where
  "a_get s = (s, Inr s)"

definition a_modify :: "('s \<Rightarrow> 's) \<Rightarrow> ('s, 'e, unit) act" where
  "a_modify f s = (f s, Inr ())"

text \<open>Lift a step that yields a new state or an error, and one that only reads.\<close>

definition a_step :: "('s \<Rightarrow> 'e + 's) \<Rightarrow> ('s, 'e, unit) act" where
  "a_step f s = (case f s of Inl e \<Rightarrow> (s, Inl e) | Inr s' \<Rightarrow> (s', Inr ()))"

definition a_read :: "('s \<Rightarrow> 'e + 'a) \<Rightarrow> ('s, 'e, 'a) act" where
  "a_read f s = (s, f s)"

named_theorems wb_act

lemma a_simps [wb_act]:
  "a_ret x s = (s, Inr x)" "a_fail e s = (s, Inl e)" "a_get s = (s, Inr s)"
  "a_modify g s = (g s, Inr ())" "a_read r s = (s, r s)"
  "a_guard ok e s = (s, if ok then Inr () else Inl e)"
  by (simp_all add: a_ret_def a_fail_def a_get_def a_modify_def a_read_def a_guard_def)

lemma a_bind_Inr_iff:
  "a_bind m f s = (t, Inr y) \<longleftrightarrow> (\<exists>s' x. m s = (s', Inr x) \<and> f x s' = (t, Inr y))"
  by (auto simp: a_bind_def split: prod.splits sum.splits)

lemma a_bind_Inl_iff:
  "a_bind m f s = (t, Inl e) \<longleftrightarrow> m s = (t, Inl e) \<or> (\<exists>s' x. m s = (s', Inr x) \<and> f x s' = (t, Inl e))"
  by (auto simp: a_bind_def split: prod.splits sum.splits)

lemma a_bind_run [wb_act]:
  "m s = (s', Inr x) \<Longrightarrow> a_bind m f s = f x s'"
  "m s = (s', Inl e) \<Longrightarrow> a_bind m f s = (s', Inl e)"
  by (simp_all add: a_bind_def)

lemma a_guard_Inr_iff: "a_guard ok e s = (s', Inr u) \<longleftrightarrow> ok \<and> s' = s"
  by (auto simp: a_guard_def)

lemma a_step_Inr_iff: "a_step f s = (s', Inr u) \<longleftrightarrow> f s = Inr s'"
  by (auto simp: a_step_def split: sum.splits)

lemma a_read_Inr_iff: "a_read r s = (s', Inr x) \<longleftrightarrow> s' = s \<and> r s = Inr x"
  by (auto simp: a_read_def)

lemmas wb_act_Inr = a_bind_Inr_iff a_guard_Inr_iff a_step_Inr_iff a_read_Inr_iff

definition a_finally :: "('s, 'e, 'a) act \<Rightarrow> ('s \<Rightarrow> 's) \<Rightarrow> ('s, 'e, 'a) act" where
  "a_finally m g s = (case m s of (s', r) \<Rightarrow> (g s', r))"

text \<open>
  A state invariant with a fact about the value: \<open>keeps I m V\<close> says that \<open>m\<close> keeps \<open>I\<close> whether
  it raises or not, and that a value it returns satisfies \<open>V\<close>.  The rules in \<open>wb_keeps\<close>
  follow the structure of a method.
\<close>

definition keeps :: "('s \<Rightarrow> bool) \<Rightarrow> ('s, 'e, 'a) act \<Rightarrow> ('a \<Rightarrow> bool) \<Rightarrow> bool" where
  "keeps I m V = (\<forall>s. I s \<longrightarrow> I (fst (m s)) \<and> (\<forall>x. snd (m s) = Inr x \<longrightarrow> V x))"

named_theorems wb_keeps

lemma keepsD: "keeps I m V \<Longrightarrow> I s \<Longrightarrow> m s = (s', r) \<Longrightarrow> I s' \<and> (\<forall>x. r = Inr x \<longrightarrow> V x)"
  by (auto simp: keeps_def)

lemma keepsI:
  "(\<And>s s' r. I s \<Longrightarrow> m s = (s', r) \<Longrightarrow> I s' \<and> (\<forall>x. r = Inr x \<longrightarrow> V x)) \<Longrightarrow> keeps I m V"
  by (simp add: keeps_def) (metis prod.collapse)

lemma keeps_weaken: "keeps I m V \<Longrightarrow> (\<And>x. V x \<Longrightarrow> W x) \<Longrightarrow> keeps I m W"
  by (auto simp: keeps_def)

lemma keeps_bind [wb_keeps]:
  assumes "keeps I m V" "\<And>x. V x \<Longrightarrow> keeps I (f x) W"
  shows "keeps I (a_bind m f) W"
proof (rule keepsI)
  fix s s' r assume I: "I s" and run: "a_bind m f s = (s', r)"
  obtain t x where m: "m s = (t, x)" by (cases "m s")
  with keepsD [OF assms(1) I] have t: "I t" "\<And>y. x = Inr y \<Longrightarrow> V y" by auto
  show "I s' \<and> (\<forall>x. r = Inr x \<longrightarrow> W x)"
  proof (cases x)
    case (Inl e)
    with m run t show ?thesis by (auto simp: a_bind_def)
  next
    case (Inr y)
    with m run have "f y t = (s', r)" by (simp add: a_bind_def)
    with keepsD [OF assms(2)] t Inr show ?thesis by blast
  qed
qed

lemma keeps_ret [wb_keeps]: "W x \<Longrightarrow> keeps I (a_ret x) W"
  by (auto simp: keeps_def wb_act)

lemma keeps_fail [wb_keeps]: "keeps I (a_fail e) W"
  by (auto simp: keeps_def wb_act)

lemma keeps_get [wb_keeps]: "(\<And>s. I s \<Longrightarrow> W s) \<Longrightarrow> keeps I a_get W"
  by (auto simp: keeps_def wb_act)

lemma keeps_guard [wb_keeps]: "(ok \<Longrightarrow> W ()) \<Longrightarrow> keeps I (a_guard ok e) W"
  by (auto simp: keeps_def wb_act)

lemma keeps_read [wb_keeps]: "(\<And>s x. I s \<Longrightarrow> rd s = Inr x \<Longrightarrow> W x) \<Longrightarrow> keeps I (a_read rd) W"
  by (auto simp: keeps_def wb_act)

lemma keeps_step [wb_keeps]:
  "(\<And>s s'. I s \<Longrightarrow> st s = Inr s' \<Longrightarrow> I s') \<Longrightarrow> W () \<Longrightarrow> keeps I (a_step st) W"
  by (auto simp: keeps_def a_step_def split: sum.splits)

lemma keeps_modify [wb_keeps]: "(\<And>s. I s \<Longrightarrow> I (g s)) \<Longrightarrow> W () \<Longrightarrow> keeps I (a_modify g) W"
  by (auto simp: keeps_def wb_act)

lemma keeps_finally [wb_keeps]: "keeps I m W \<Longrightarrow> (\<And>s. I s \<Longrightarrow> I (g s)) \<Longrightarrow> keeps I (a_finally m g) W"
  unfolding keeps_def a_finally_def by (auto split: prod.splits)

lemma keeps_if [wb_keeps]: "(b \<Longrightarrow> keeps I m W) \<Longrightarrow> (\<not> b \<Longrightarrow> keeps I n W) \<Longrightarrow> keeps I (if b then m else n) W"
  by simp

lemma keeps_option [wb_keeps]:
  "(x = None \<Longrightarrow> keeps I m W) \<Longrightarrow> (\<And>y. x = Some y \<Longrightarrow> keeps I (n y) W) \<Longrightarrow>
   keeps I (case x of None \<Rightarrow> m | Some y \<Rightarrow> n y) W"
  by (cases x) auto

lemma keeps_sum [wb_keeps]:
  "(\<And>e. x = Inl e \<Longrightarrow> keeps I (m e) W) \<Longrightarrow> (\<And>y. x = Inr y \<Longrightarrow> keeps I (n y) W) \<Longrightarrow>
   keeps I (case x of Inl e \<Rightarrow> m e | Inr y \<Rightarrow> n y) W"
  by (cases x) auto

section \<open>Python string operations\<close>

definition lower_char :: "char \<Rightarrow> char" where
  "lower_char c = (if 65 \<le> (of_char c :: nat) \<and> (of_char c :: nat) \<le> 90
                   then char_of ((of_char c :: nat) + 32) else c)"

definition lower :: "string \<Rightarrow> string" where
  "lower s = map lower_char s"

definition is_ws :: "char \<Rightarrow> bool" where
  "is_ws c = (let n = (of_char c :: nat) in n = 32 \<or> (9 \<le> n \<and> n \<le> 13) \<or> (28 \<le> n \<and> n \<le> 31))"

definition strip :: "string \<Rightarrow> string" where
  "strip s = rev (dropWhile is_ws (rev (dropWhile is_ws s)))"

definition replace_char :: "char \<Rightarrow> char \<Rightarrow> string \<Rightarrow> string" where
  "replace_char a b s = map (\<lambda>c. if c = a then b else c) s"

fun contains :: "string \<Rightarrow> string \<Rightarrow> bool" where
  "contains p [] = (p = [])"
| "contains p (c # cs) = (prefix p (c # cs) \<or> contains p cs)"

fun split_on :: "char \<Rightarrow> string \<Rightarrow> string list" where
  "split_on c [] = [[]]"
| "split_on c (x # xs) =
     (if x = c then [] # split_on c xs
      else (case split_on c xs of [] \<Rightarrow> [[x]] | w # ws \<Rightarrow> (x # w) # ws))"

fun join :: "string \<Rightarrow> string list \<Rightarrow> string" where
  "join sep [] = []"
| "join sep [w] = w"
| "join sep (w # v # ws) = w @ sep @ join sep (v # ws)"

text \<open>\<^verbatim>\<open>str.replace\<close> for a non-empty pattern: leftmost, non-overlapping occurrences.\<close>

fun str_replace :: "string \<Rightarrow> string \<Rightarrow> string \<Rightarrow> string" where
  "str_replace p q [] = []"
| "str_replace p q (c # cs) =
     (if p \<noteq> [] \<and> prefix p (c # cs) then q @ str_replace p q (drop (length p - 1) cs)
      else c # str_replace p q cs)"

definition is_digit :: "char \<Rightarrow> bool" where
  "is_digit c = (48 \<le> (of_char c :: nat) \<and> (of_char c :: nat) \<le> 57)"

definition is_alpha :: "char \<Rightarrow> bool" where
  "is_alpha c = (let n = (of_char c :: nat) in (65 \<le> n \<and> n \<le> 90) \<or> (97 \<le> n \<and> n \<le> 122))"

definition is_alnum :: "char \<Rightarrow> bool" where
  "is_alnum c = (is_alpha c \<or> is_digit c)"

lemma contains_iff: "contains p s \<longleftrightarrow> (\<exists>u v. s = u @ p @ v)"
proof (induction s)
  case Nil
  show ?case by auto
next
  case (Cons c cs)
  show ?case
  proof
    assume "contains p (c # cs)"
    then consider "prefix p (c # cs)" | "contains p cs" by auto
    then show "\<exists>u v. c # cs = u @ p @ v"
    proof cases
      case 1
      then show ?thesis by (metis append_Nil prefix_def)
    next
      case 2
      with Cons.IH obtain u v where "cs = u @ p @ v" by blast
      then have "c # cs = (c # u) @ p @ v" by simp
      then show ?thesis by blast
    qed
  next
    assume "\<exists>u v. c # cs = u @ p @ v"
    then obtain u v where uv: "c # cs = u @ p @ v" by blast
    show "contains p (c # cs)"
    proof (cases u)
      case Nil
      with uv have "prefix p (c # cs)" by (simp add: prefix_def)
      then show ?thesis by simp
    next
      case (Cons d u')
      with uv have "cs = u' @ p @ v" by simp
      with Cons.IH show ?thesis by auto
    qed
  qed
qed

lemma contains_refl [simp]: "contains s s"
  by (cases s) auto

lemma split_on_nonempty [simp]: "split_on c s \<noteq> []"
  by (induction s) (auto split: list.splits)

lemma join_split_on: "join [c] (split_on c s) = s"
proof (induction s)
  case Nil
  show ?case by simp
next
  case (Cons x xs)
  obtain w ws where w: "split_on c xs = w # ws"
    by (cases "split_on c xs") (use split_on_nonempty in auto)
  with Cons.IH show ?case by (cases ws) auto
qed

lemma split_on_no_sep: "w \<in> set (split_on c s) \<Longrightarrow> c \<notin> set w"
  by (induction s arbitrary: w) (auto split: list.splits if_splits)

lemma split_on_fresh: "c \<notin> set s \<Longrightarrow> split_on c s = [s]"
  by (induction s) auto

lemma split_on_append: "c \<notin> set w \<Longrightarrow> split_on c (w @ c # s) = w # split_on c s"
  by (induction w) auto

text \<open>Splitting undoes joining when no part holds the separator, so the join is injective there.\<close>

lemma split_on_join:
  "ws \<noteq> [] \<Longrightarrow> \<forall>w\<in>set ws. c \<notin> set w \<Longrightarrow> split_on c (join [c] ws) = ws"
  by (induction "[c]" ws rule: join.induct) (auto simp: split_on_fresh split_on_append)

lemma join_inject:
  assumes "join [c] ws = join [c] vs" "ws \<noteq> []" "vs \<noteq> []"
    and "\<forall>w\<in>set ws. c \<notin> set w" "\<forall>w\<in>set vs. c \<notin> set w"
  shows "ws = vs"
  using assms split_on_join by metis

lemma str_replace_absent:
  "\<not> contains p s \<Longrightarrow> str_replace p q s = s"
  by (induction p q s rule: str_replace.induct) auto

lemma lower_length [simp]: "length (lower s) = length s"
  by (simp add: lower_def)

lemma strip_empty_iff: "strip s = [] \<longleftrightarrow> (\<forall>c\<in>set s. is_ws c)"
proof -
  have "strip s = [] \<longleftrightarrow> (\<forall>c\<in>set (dropWhile is_ws s). is_ws c)"
    by (simp add: strip_def dropWhile_eq_Nil_conv)
  also have "\<dots> \<longleftrightarrow> (\<forall>c\<in>set s. is_ws c)"
    by (induction s) auto
  finally show ?thesis .
qed

section \<open>Insertion-ordered dictionaries\<close>

text \<open>
  A Python dictionary keeps the position of a key it already holds and appends a new one:
  \<^const>\<open>AList.update\<close>.  Its keys are distinct; \<^const>\<open>map_of\<close> reads it.
\<close>

definition dict_ok :: "('k \<times> 'v) list \<Rightarrow> bool" where
  "dict_ok d = distinct (map fst d)"

lemma dict_ok_Nil [simp]: "dict_ok []"
  by (simp add: dict_ok_def)

lemma dict_ok_update: "dict_ok d \<Longrightarrow> dict_ok (AList.update k v d)"
  by (simp add: dict_ok_def distinct_update)

lemma dict_get_update: "map_of (AList.update k v d) = (map_of d)(k \<mapsto> v)"
  by (rule update_conv')

lemma dict_ok_filter: "dict_ok d \<Longrightarrow> dict_ok (filter P d)"
  by (simp add: dict_ok_def distinct_map_filter)

end
