(* ===== verification/Json_Canonical.thy ===== *)
theory Json_Canonical
  imports Json
begin

text \<open>
  The canonical text of a value determines the value.  The proof reads the text from the
  left: an atom ends at the first delimiter, a string at its unescaped closing quote, and
  the head character tells the constructors apart.
\<close>

section \<open>Numerals\<close>

definition read_digits :: "string \<Rightarrow> nat" where
  "read_digits s = foldl (\<lambda>a c. 10 * a + ((of_char c :: nat) - 48)) 0 s"

lemma of_digit_char: "n < 10 \<Longrightarrow> (of_char (digit_char n) :: nat) = 48 + n"
  by (simp add: digit_char_def)

lemma read_digits_snoc: "read_digits (s @ [c]) = 10 * read_digits s + ((of_char c :: nat) - 48)"
  by (simp add: read_digits_def)

lemma read_dec_nat: "read_digits (dec_nat n) = n"
proof (induction n rule: dec_nat.induct)
  case (1 n)
  show ?case
  proof (cases "n < 10")
    case True
    then show ?thesis by (subst dec_nat.simps) (simp add: read_digits_def of_digit_char)
  next
    case False
    with "1.IH" have IH: "read_digits (dec_nat (n div 10)) = n div 10" by blast
    have "read_digits (dec_nat n) = 10 * (n div 10) + n mod 10"
      using False by (subst dec_nat.simps) (simp add: read_digits_snoc IH of_digit_char)
    then show ?thesis by simp
  qed
qed

lemma dec_nat_inject: "dec_nat m = dec_nat n \<longleftrightarrow> m = n"
  by (metis read_dec_nat)

lemma digit_char_is_digit: "n < 10 \<Longrightarrow> is_digit (digit_char n)"
  by (simp add: is_digit_def of_digit_char)

lemma dec_nat_digits: "c \<in> set (dec_nat n) \<Longrightarrow> is_digit c"
proof (induction n rule: dec_nat.induct)
  case (1 n)
  show ?case
  proof (cases "n < 10")
    case True
    with "1.prems" show ?thesis by (subst (asm) dec_nat.simps) (simp add: digit_char_is_digit)
  next
    case False
    with "1.prems" have "c \<in> set (dec_nat (n div 10)) \<or> c = digit_char (n mod 10)"
      by (subst (asm) dec_nat.simps) auto
    with False "1.IH" show ?thesis by (auto simp: digit_char_is_digit)
  qed
qed

lemma dec_nat_nonempty [simp]: "dec_nat n \<noteq> []"
  by (subst dec_nat.simps) simp

lemma minus_not_digit [simp]: "\<not> is_digit CHR ''-''"
  by (simp add: is_digit_def)

lemma dec_int_inject: "dec_int i = dec_int j \<longleftrightarrow> i = j"
proof -
  have h: "hd (dec_nat n) \<noteq> CHR ''-''" for n
    using dec_nat_digits [of "hd (dec_nat n)" n] hd_in_set [OF dec_nat_nonempty, of n]
      minus_not_digit by auto
  show ?thesis
    by (auto simp: dec_int_def dec_nat_inject) (metis h list.sel(1))+
qed

lemma dec_int_chars: "c \<in> set (dec_int i) \<Longrightarrow> is_digit c \<or> c = CHR ''-''"
  by (auto simp: dec_int_def dest: dec_nat_digits split: if_splits)

section \<open>Atoms end at a delimiter\<close>

definition delim :: "char \<Rightarrow> bool" where
  "delim c = (c \<in> set '',]}'')"

definition ok_tail :: "string \<Rightarrow> bool" where
  "ok_tail t = (case t of [] \<Rightarrow> True | c # _ \<Rightarrow> delim c)"

lemma ok_tail_simps [simp]: "ok_tail []" "ok_tail (c # t) = delim c"
  by (simp_all add: ok_tail_def)

lemma delim_simps [simp]: "delim CHR '',''" "delim CHR '']''" "delim CHR ''}''"
  by (simp_all add: delim_def)

fun is_atom :: "json \<Rightarrow> bool" where
  "is_atom (JStr s) = False"
| "is_atom (JList xs) = False"
| "is_atom (JObj d) = False"
| "is_atom v = True"

lemma is_digit_not_delim: "is_digit c \<Longrightarrow> \<not> delim c"
  by (auto simp: is_digit_def delim_def)

lemma atom_chars:
  assumes "json_ok v" "is_atom v" "c \<in> set (json_text v)"
  shows "\<not> delim c \<and> c \<noteq> quote_char \<and> c \<noteq> CHR ''['' \<and> c \<noteq> CHR ''{''"
proof (cases v)
  case (JInt i)
  with assms have "is_digit c \<or> c = CHR ''-''" using dec_int_chars by auto
  then show ?thesis by (auto simp: is_digit_def delim_def quote_char_def)
next
  case (JFloat r)
  with assms have "is_digit c \<or> c \<in> set ''.e+-''" by (auto simp: float_text_def)
  then show ?thesis by (auto simp: is_digit_def delim_def quote_char_def)
qed (use assms in \<open>auto simp: delim_def quote_char_def split: if_splits\<close>)

lemma atom_text_nonempty: "json_ok v \<Longrightarrow> is_atom v \<Longrightarrow> json_text v \<noteq> []"
  by (cases v) (auto simp: float_text_def dec_int_def)

lemma atom_text_inject:
  assumes "json_ok v" "is_atom v" "json_ok w" "is_atom w" "json_text v = json_text w"
  shows "v = w"
proof -
  have num: "\<forall>c\<in>set (json_text x). is_digit c \<or> c \<in> set ''.e+-''"
    if "json_ok x" "x = JInt i \<or> x = JFloat r" for x i r
    using that by (auto simp: float_text_def dest!: dec_int_chars)
  have nonnum: "\<exists>c\<in>set (json_text x). \<not> (is_digit c \<or> c \<in> set ''.e+-'')"
    if "x = JNull \<or> x = JBool b" for x b
    using that by (auto simp: is_digit_def)
  have intfloat: "dec_int i \<noteq> r" if "float_text r" for i r
    using that dec_int_chars by (fastforce simp: float_text_def is_digit_def)
  show ?thesis
    using assms num [of v] num [of w] nonnum [of v] nonnum [of w]
    by (cases v; cases w) (auto simp: dec_int_inject intfloat intfloat [symmetric] split: if_splits)
qed

lemma atom_tail:
  assumes "\<forall>c\<in>set u. \<not> delim c" "\<forall>c\<in>set v. \<not> delim c" "ok_tail s" "ok_tail t"
    and "u @ s = v @ t"
  shows "u = v \<and> s = t"
proof -
  have tw: "takeWhile (\<lambda>c. \<not> delim c) (x @ y) = x" if "\<forall>c\<in>set x. \<not> delim c" "ok_tail y" for x y
    using that by (cases y) (auto simp: takeWhile_append2 takeWhile_eq_all_conv)
  from assms tw [of u s] tw [of v t] have "u = v" by metis
  with assms show ?thesis by simp
qed

section \<open>Strings end at their closing quote\<close>

definition unhex :: "char \<Rightarrow> nat" where
  "unhex c = (let n = (of_char c :: nat) in if n < 58 then n - 48 else n - 87)"

definition unesc :: "string \<Rightarrow> char \<times> string" where
  "unesc s = (case s of
      [] \<Rightarrow> (CHR 0x00, [])
    | c # r \<Rightarrow> if c \<noteq> bslash then (c, r) else (case r of
        [] \<Rightarrow> (CHR 0x00, [])
      | d # r' \<Rightarrow>
          if d = CHR ''n'' then (CHR 0x0A, r')
          else if d = CHR ''r'' then (CHR 0x0D, r')
          else if d = CHR ''t'' then (CHR 0x09, r')
          else if d = CHR ''f'' then (CHR 0x0C, r')
          else if d = CHR ''b'' then (CHR 0x08, r')
          else if d = CHR ''u'' then
            (char_of (16 * unhex (r' ! 2) + unhex (r' ! 3)), drop 4 r')
          else (d, r')))"

lemma hex_unhex: "n < 16 \<Longrightarrow> unhex (hex_char n) = n"
  by (auto simp: unhex_def hex_char_def Let_def)

lemma unesc_esc: "unesc (esc_char c @ r) = (c, r)"
proof -
  consider "c = quote_char" | "c = bslash" | "c = CHR 0x0A" | "c = CHR 0x0D" | "c = CHR 0x09"
    | "c = CHR 0x0C" | "c = CHR 0x08"
    | "c \<notin> {quote_char, bslash, CHR 0x0A, CHR 0x0D, CHR 0x09, CHR 0x0C, CHR 0x08}" by blast
  then show ?thesis
  proof cases
    case 8
    show ?thesis
    proof (cases "(of_char c :: nat) < 32")
      case True
      define n where "n = (of_char c :: nat)"
      have "n div 16 < 16" "n mod 16 < 16" using True by (auto simp: n_def)
      then have "16 * unhex (hex_char (n div 16)) + unhex (hex_char (n mod 16)) = n"
        by (simp add: hex_unhex)
      moreover have "char_of n = c" by (simp add: n_def)
      ultimately show ?thesis
        using 8 True by (simp add: esc_char_def unesc_def Let_def n_def bslash_def)
    next
      case False
      with 8 show ?thesis by (simp add: esc_char_def unesc_def Let_def)
    qed
  qed (simp_all add: esc_char_def unesc_def quote_char_def bslash_def)
qed

lemma esc_char_head: "esc_char c \<noteq> [] \<and> hd (esc_char c) \<noteq> quote_char"
  by (simp add: esc_char_def quote_char_def bslash_def Let_def)

lemma esc_string_inject:
  "concat (map esc_char s) @ quote_char # r = concat (map esc_char s') @ quote_char # r' \<Longrightarrow> s = s' \<and> r = r'"
proof (induction s arbitrary: s')
  case Nil
  show ?case
  proof (cases s')
    case (Cons d ds)
    with Nil esc_char_head [of d] show ?thesis by (cases "esc_char d") auto
  qed (use Nil in auto)
next
  case (Cons c cs)
  show ?case
  proof (cases s')
    case Nil
    with Cons.prems esc_char_head [of c] show ?thesis by (cases "esc_char c") auto
  next
    case (Cons d ds)
    have eq: "esc_char c @ (concat (map esc_char cs) @ quote_char # r) =
        esc_char d @ (concat (map esc_char ds) @ quote_char # r')"
      using Cons.prems Cons by simp
    have "c = d \<and> concat (map esc_char cs) @ quote_char # r = concat (map esc_char ds) @ quote_char # r'"
      using arg_cong [OF eq, of unesc] by (simp add: unesc_esc)
    with Cons.IH Cons show ?thesis by blast
  qed
qed

lemma json_str_inject: "json_str s @ r = json_str s' @ r' \<Longrightarrow> s = s' \<and> r = r'"
  using esc_string_inject [of s r s' r'] by (simp add: json_str_def)

lemma json_str_head: "\<exists>t. json_str s = quote_char # t"
  by (simp add: json_str_def)

section \<open>The text determines the value\<close>

lemma atom_not_str: "is_atom v \<Longrightarrow> json_ok v \<Longrightarrow> json_text v @ s = quote_char # t \<Longrightarrow> False"
  using atom_chars [of v quote_char] atom_text_nonempty [of v] by (cases "json_text v") auto

lemma atom_not_list: "is_atom v \<Longrightarrow> json_ok v \<Longrightarrow> json_text v @ s = CHR ''['' # t \<Longrightarrow> False"
  using atom_chars [of v "CHR ''[''"] atom_text_nonempty [of v] by (cases "json_text v") auto

lemma atom_not_obj: "is_atom v \<Longrightarrow> json_ok v \<Longrightarrow> json_text v @ s = CHR ''{'' # t \<Longrightarrow> False"
  using atom_chars [of v "CHR ''{''"] atom_text_nonempty [of v] by (cases "json_text v") auto

lemma json_text_head_not_delim:
  assumes "json_ok v"
  shows "\<exists>c t. json_text v = c # t \<and> \<not> delim c"
proof (cases "is_atom v")
  case True
  with assms atom_text_nonempty obtain c t where "json_text v = c # t"
    by (cases "json_text v") auto
  with atom_chars [OF assms True, of c] show ?thesis by auto
next
  case False
  then show ?thesis
    by (cases v) (use json_str_head in \<open>auto simp: json_str_def delim_def quote_char_def\<close>)
qed

text \<open>A comma-separated sequence closed by a delimiter, whose parts are each uniquely readable.\<close>

lemma join_unique:
  assumes inj: "\<And>x y s t. x \<in> set xs \<Longrightarrow> y \<in> set ys \<Longrightarrow> ok_tail s \<Longrightarrow> ok_tail t \<Longrightarrow>
      f x @ s = f y @ t \<Longrightarrow> x = y \<and> s = t"
    and hdx: "\<And>x. x \<in> set xs \<Longrightarrow> \<exists>c t. f x = c # t \<and> \<not> delim c"
    and hdy: "\<And>y. y \<in> set ys \<Longrightarrow> \<exists>c t. f y = c # t \<and> \<not> delim c"
    and e: "delim e" "e \<noteq> CHR '',''"
    and eq: "join '','' (map f xs) @ e # s = join '','' (map f ys) @ e # t"
  shows "xs = ys \<and> s = t"
  using inj hdx hdy eq
proof (induction xs arbitrary: ys)
  case Nil
  show ?case
  proof (cases ys)
    case (Cons y ys')
    then obtain c r where "f y = c # r" "\<not> delim c" using Nil.prems(3) [of y] by auto
    with Nil.prems(4) Cons e show ?thesis by (cases ys') auto
  qed (use Nil in auto)
next
  case (Cons x xs')
  obtain c r where c: "f x = c # r" "\<not> delim c" using Cons.prems(2) [of x] by auto
  show ?case
  proof (cases ys)
    case Nil
    with Cons.prems(4) c e show ?thesis by (cases xs') auto
  next
    case (Cons y ys')
    define sx where "sx = (if xs' = [] then e # s else CHR '','' # join '','' (map f xs') @ e # s)"
    define sy where "sy = (if ys' = [] then e # t else CHR '','' # join '','' (map f ys') @ e # t)"
    have "f x @ sx = f y @ sy"
      using Cons.prems(4) Cons by (cases xs'; cases ys') (auto simp: sx_def sy_def)
    moreover have "ok_tail sx" "ok_tail sy" using e by (auto simp: sx_def sy_def)
    ultimately have xy: "x = y" and tails: "sx = sy"
      using Cons.prems(1) [of x y sx sy] Cons by auto
    have "xs' = ys' \<and> s = t"
    proof (cases "xs' = [] \<or> ys' = []")
      case True
      with tails e show ?thesis by (auto simp: sx_def sy_def split: if_splits)
    next
      case False
      with tails have "join '','' (map f xs') @ e # s = join '','' (map f ys') @ e # t"
        by (auto simp: sx_def sy_def)
      with Cons.IH [of ys'] Cons.prems(1,2,3) Cons show ?thesis by auto
    qed
    with xy Cons show ?thesis by simp
  qed
qed

lemma atom_partner:
  assumes "is_atom v" "json_ok v" "json_text v @ s = json_text w @ t"
  shows "is_atom w"
proof (rule ccontr)
  assume "\<not> is_atom w"
  then consider b where "w = JStr b" | xs where "w = JList xs" | d where "w = JObj d"
    by (cases w) auto
  then show False
  proof cases
    case 1
    with assms show False using atom_not_str [of v s] by (simp add: json_str_def)
  next
    case 2
    with assms show False using atom_not_list [of v s] by simp
  next
    case 3
    with assms show False using atom_not_obj [of v s] by simp
  qed
qed

lemma atom_unique:
  assumes "is_atom v" "json_ok v" "json_ok w" "ok_tail s" "ok_tail t"
    and eq: "json_text v @ s = json_text w @ t"
  shows "v = w \<and> s = t"
proof -
  have "is_atom w" using assms atom_partner by blast
  moreover have "json_text v = json_text w \<and> s = t"
    using atom_tail [OF _ _ _ _ eq] assms calculation atom_chars by blast
  ultimately show ?thesis using assms atom_text_inject by blast
qed

lemma json_text_unique:
  "json_ok v \<Longrightarrow> json_ok w \<Longrightarrow> ok_tail s \<Longrightarrow> ok_tail t \<Longrightarrow>
   json_text v @ s = json_text w @ t \<Longrightarrow> v = w \<and> s = t"
proof (induction v arbitrary: w s t)
  case (JStr a)
  from JStr.prems have "\<not> is_atom w" using atom_partner [of w t "JStr a" s] by force
  then obtain b where b: "w = JStr b"
    using JStr.prems(5) by (cases w) (simp_all add: json_str_def quote_char_def)
  with JStr.prems(5) json_str_inject [of a s b t] show ?case by simp
next
  case (JList xs)
  from JList.prems have "\<not> is_atom w" using atom_partner [of w t "JList xs" s] by force
  then obtain ys where w: "w = JList ys"
    using JList.prems(5) by (cases w) (simp_all add: json_str_def quote_char_def)
  have "xs = ys \<and> s = t"
  proof (rule join_unique [where f = json_text and e = "CHR '']''"])
    show "join '','' (map json_text xs) @ CHR '']'' # s = join '','' (map json_text ys) @ CHR '']'' # t"
      using JList.prems(5) w by simp
  qed (use JList w json_text_head_not_delim in auto)
  with w show ?case by simp
next
  case (JObj d)
  let ?f = "\<lambda>p. json_str (fst p) @ '':'' @ json_text (snd p)"
  from JObj.prems have "\<not> is_atom w" using atom_partner [of w t "JObj d" s] by force
  then obtain d' where w: "w = JObj d'"
    using JObj.prems(5) by (cases w) (simp_all add: json_str_def quote_char_def)
  have "d = d' \<and> s = t"
  proof (rule join_unique [where f = ?f and e = "CHR ''}''"])
    show "join '','' (map ?f d) @ CHR ''}'' # s = join '','' (map ?f d') @ CHR ''}'' # t"
      using JObj.prems(5) w by simp
    fix p q :: "string \<times> json" and s t
    assume p: "p \<in> set d" and q: "q \<in> set d'" and tails: "ok_tail s" "ok_tail t"
      and eq: "?f p @ s = ?f q @ t"
    have "fst p = fst q" "json_text (snd p) @ s = json_text (snd q) @ t"
      using json_str_inject [of "fst p" "'':'' @ json_text (snd p) @ s" "fst q"
          "'':'' @ json_text (snd q) @ t"] eq by auto
    moreover have "json_ok (snd p)" "json_ok (snd q)" using JObj.prems(1,2) w p q by auto
    moreover have "snd p \<in> Basic_BNFs.snds p" by (simp add: snds.intros)
    ultimately show "p = q \<and> s = t"
      using JObj.IH [OF p, of "snd p" "snd q" s t] tails by (auto simp: prod_eq_iff)
  qed (auto simp: json_str_def quote_char_def delim_def)
  with w show ?case by simp
qed (rule atom_unique; (assumption | simp only: is_atom.simps json_ok.simps))+

lemma json_text_inject: "json_ok v \<Longrightarrow> json_ok w \<Longrightarrow> json_text v = json_text w \<longleftrightarrow> v = w"
  using json_text_unique [of v w "[]" "[]"] by auto

section \<open>Key order does not matter\<close>

lemma map_fst_sort_keys: "map fst (map (\<lambda>p. (fst p, sort_keys (snd p))) d) = map fst d"
  by simp

lemma dict_ok_sort_key: "dict_ok d \<Longrightarrow> dict_ok (sort_key fst d)"
  by (metis dict_ok_def distinct_map distinct_sort set_sort)

lemma sort_keys_ok: "json_ok v \<Longrightarrow> json_ok (sort_keys v)"
proof (induction v)
  case (JObj d)
  have "dict_ok (map (\<lambda>p. (fst p, sort_keys (snd p))) d)"
    using JObj.prems by (simp add: dict_ok_def o_def)
  moreover have "json_ok (sort_keys (snd p))" if "p \<in> set d" for p
    using JObj.IH [OF that, of "snd p"] JObj.prems that by (simp add: snds.intros)
  ultimately show ?case by (auto intro: dict_ok_sort_key)
qed auto

lemma canonical_json_inject:
  "json_ok v \<Longrightarrow> json_ok w \<Longrightarrow> canonical_json v = canonical_json w \<longleftrightarrow> sort_keys v = sort_keys w"
  by (simp add: canonical_json_def json_text_inject sort_keys_ok)

lemma sort_key_map_of:
  assumes "dict_ok d"
  shows "map_of (sort_key fst d) = map_of d"
  using assms by (intro map_of_inject_set [THEN iffD2]) (auto simp: dict_ok_def intro: dict_ok_sort_key [unfolded dict_ok_def])

lemma sort_key_unique:
  assumes "dict_ok d" "dict_ok d'"
  shows "sort_key fst d = sort_key fst d' \<longleftrightarrow> map_of d = map_of d'"
proof
  assume "sort_key fst d = sort_key fst d'"
  with assms sort_key_map_of show "map_of d = map_of d'" by metis
next
  assume eq: "map_of d = map_of d'"
  then have s: "set d = set d'" using assms by (simp add: dict_ok_def map_of_inject_set)
  have dist: "distinct (sort_key fst d)" "distinct (sort_key fst d')"
    using assms by (auto simp: dict_ok_def distinct_map)
  have inj: "inj_on fst (set d)" using assms by (simp add: dict_ok_def distinct_map)
  show "sort_key fst d = sort_key fst d'"
  proof (rule map_sorted_distinct_set_unique [where f = fst])
    show "inj_on fst (set (sort_key fst d) \<union> set (sort_key fst d'))" using inj s by simp
  qed (use assms s in \<open>auto simp: dict_ok_def dest: dict_ok_sort_key [unfolded dict_ok_def]\<close>)
qed

lemma map_of_map_snd: "map_of (map (\<lambda>p. (fst p, f (snd p))) d) k = map_option f (map_of d k)"
  by (induction d) auto

text \<open>Two objects have the same canonical text exactly when they hold the same keys with
  values of the same canonical text, in whatever order.\<close>

lemma canonical_obj_iff:
  assumes "json_ok (JObj d)" "json_ok (JObj d')"
  shows "canonical_json (JObj d) = canonical_json (JObj d') \<longleftrightarrow>
    (\<forall>k. map_option canonical_json (map_of d k) = map_option canonical_json (map_of d' k))"
proof -
  let ?m = "map (\<lambda>p. (fst p, sort_keys (snd p)))"
  have ok: "dict_ok (?m d)" "dict_ok (?m d')" using assms by (auto simp: dict_ok_def o_def)
  have val: "json_ok v" if "map_of d k = Some v \<or> map_of d' k = Some v" for k v
    using that assms map_of_SomeD by fastforce
  have "canonical_json (JObj d) = canonical_json (JObj d') \<longleftrightarrow> map_of (?m d) = map_of (?m d')"
    using assms sort_key_unique [OF ok] by (simp add: canonical_json_inject del: json_ok.simps)
  also have "\<dots> \<longleftrightarrow> (\<forall>k. map_option sort_keys (map_of d k) = map_option sort_keys (map_of d' k))"
    by (simp add: fun_eq_iff map_of_map_snd)
  also have "\<dots> \<longleftrightarrow> (\<forall>k. map_option canonical_json (map_of d k) = map_option canonical_json (map_of d' k))"
  proof -
    have "map_option sort_keys (map_of d k) = map_option sort_keys (map_of d' k) \<longleftrightarrow>
        map_option canonical_json (map_of d k) = map_option canonical_json (map_of d' k)" for k
      using val [of k] by (cases "map_of d k"; cases "map_of d' k") (auto simp: canonical_json_inject)
    then show ?thesis by simp
  qed
  finally show ?thesis .
qed

end
