(* ===== verification/Interop.thy ===== *)
theory Interop
  imports Json_Canonical
begin

text \<open>
  \<^verbatim>\<open>interop.py\<close>: deterministic intake identity.  The hash, the base64 text of a digest,
  \<^verbatim>\<open>json.dumps\<close> with its default ASCII escaping and \<^verbatim>\<open>datetime.fromisoformat\<close> belong to
  Python's library and are fields of \<open>host\<close>, so every statement holds for all of them;
  the JSON-Schema validators (a third-party package) are predicates \<open>env_schema\<close> and
  \<open>entity_schema\<close>.  An unexpected Python exception is \<open>Raised\<close> with its type's name.
\<close>

datatype ingest_error = Validation string | Raised string

fun is_validation :: "ingest_error \<Rightarrow> bool" where
  "is_validation (Validation m) = True"
| "is_validation (Raised n) = False"

text \<open>
  A parsed ISO text: invalid, without a timezone, or with one.  The text carried is
  \<^verbatim>\<open>isoformat()\<close> of the instant in UTC (a naive value read as UTC).
\<close>

datatype iso_time = IsoInvalid | IsoNaive string | IsoAware string

record host =
  sha_hex :: "string \<Rightarrow> string"
  sha_b64 :: "string \<Rightarrow> string"
  dumps_ascii :: "json \<Rightarrow> string"
  iso_parse :: "string \<Rightarrow> iso_time"
  env_schema :: "dict \<Rightarrow> bool"
  entity_schema :: "dict \<Rightarrow> bool"

section \<open>Hashing and identity\<close>

definition payload_sha256 :: "host \<Rightarrow> json \<Rightarrow> string" where
  "payload_sha256 h payload = sha_hex h (canonical_json payload)"

fun nonempty_str :: "json \<Rightarrow> bool" where
  "nonempty_str (JStr s) = (s \<noteq> [])"
| "nonempty_str v = False"

fun the_str :: "json \<Rightarrow> string" where
  "the_str (JStr s) = s"
| "the_str v = []"

definition idempotency_key ::
  "host \<Rightarrow> json \<Rightarrow> json \<Rightarrow> json \<Rightarrow> json \<Rightarrow> json \<Rightarrow> json \<Rightarrow> ingest_error + string" where
  "idempotency_key h integration_id direction source_system source_entity source_id source_revision =
     (let parts = [integration_id, direction, source_system, source_entity, source_id, source_revision] in
      if \<not> list_all nonempty_str parts
      then Inl (Validation ''idempotency inputs must be non-empty strings'')
      else Inr (''v1:'' @ sha_b64 h (join ''|'' (map the_str parts))))"

section \<open>Timestamps\<close>

fun utc_timestamp :: "host \<Rightarrow> json \<Rightarrow> ingest_error + (string \<times> string)" where
  "utc_timestamp h (JStr raw) =
     (if strip raw = [] then Inl (Validation ''timestamp must be a non-empty string'')
      else let value = strip raw;
               parsed_value = (if suffix ''Z'' value then butlast value @ ''+00:00'' else value)
           in (case iso_parse h parsed_value of
                 IsoInvalid \<Rightarrow> Inl (Validation (''invalid timestamp: '' @ repr_str raw))
               | IsoNaive t \<Rightarrow> Inl (Validation ''timestamp must include a timezone'')
               | IsoAware t \<Rightarrow> Inr (raw, str_replace ''+00:00'' ''Z'' t)))"
| "utc_timestamp h v = Inl (Validation ''timestamp must be a non-empty string'')"

section \<open>Credential-bearing keys\<close>

definition secret_words :: "string list" where
  "secret_words = [''password'', ''passwd'', ''token'', ''api_key'', ''apikey'', ''secret'',
                   ''private_key'', ''cookie'']"

definition secret_key :: "string \<Rightarrow> bool" where
  "secret_key k =
     (let key_text = replace_char CHR ''-'' CHR ''_'' (lower k)
      in list_ex (\<lambda>word. contains word key_text) secret_words)"

fun reject_secret_keys :: "json \<Rightarrow> string \<Rightarrow> ingest_error + unit"
and reject_items :: "dict \<Rightarrow> string \<Rightarrow> ingest_error + unit"
and reject_elems :: "json list \<Rightarrow> nat \<Rightarrow> string \<Rightarrow> ingest_error + unit" where
  "reject_secret_keys (JObj d) path = reject_items d path"
| "reject_secret_keys (JList xs) path = reject_elems xs 0 path"
| "reject_secret_keys v path = Inr ()"
| "reject_items [] path = Inr ()"
| "reject_items ((key, child) # d) path =
     (if secret_key key then Inl (Validation (''forbidden secret field at '' @ path @ ''.'' @ key))
      else r_bind (reject_secret_keys child (path @ ''.'' @ key)) (\<lambda>_. reject_items d path))"
| "reject_elems [] i path = Inr ()"
| "reject_elems (x # xs) i path =
     r_bind (reject_secret_keys x (path @ ''['' @ dec_nat i @ '']'')) (\<lambda>_. reject_elems xs (Suc i) path)"

text \<open>The keys at any depth of a value.\<close>

fun deep_keys :: "json \<Rightarrow> string set" where
  "deep_keys (JObj d) = (\<Union>p\<in>set d. insert (fst p) (deep_keys (snd p)))"
| "deep_keys (JList xs) = (\<Union>x\<in>set xs. deep_keys x)"
| "deep_keys v = {}"

section \<open>Validators\<close>

definition validate_ingest_envelope :: "host \<Rightarrow> dict \<Rightarrow> ingest_error + unit" where
  "validate_ingest_envelope h e =
     r_guard (env_schema h e) (Validation ''ingest-envelope.schema.json validation failed'')"

definition validate_interop_entity :: "host \<Rightarrow> dict \<Rightarrow> ingest_error + unit" where
  "validate_interop_entity h e =
     r_guard (entity_schema h e) (Validation ''interop-entity.schema.json validation failed'')"

section \<open>Lemmas\<close>

lemma reject_secret_keys_iff:
  "reject_secret_keys v path = Inr () \<longleftrightarrow> (\<forall>k\<in>deep_keys v. \<not> secret_key k)"
  "reject_items d path = Inr () \<longleftrightarrow> (\<forall>k\<in>deep_keys (JObj d). \<not> secret_key k)"
  "reject_elems xs i path = Inr () \<longleftrightarrow> (\<forall>k\<in>deep_keys (JList xs). \<not> secret_key k)"
  by (induction v path and d path and xs i path rule: reject_secret_keys_reject_items_reject_elems.induct)
    (auto simp: wb_result)

lemma reject_secret_keys_error:
  "reject_secret_keys v path = Inl e \<Longrightarrow> is_validation e"
  "reject_items d path = Inl e \<Longrightarrow> is_validation e"
  "reject_elems xs i path = Inl e \<Longrightarrow> is_validation e"
  by (induction v path and d path and xs i path rule: reject_secret_keys_reject_items_reject_elems.induct)
    (auto simp: wb_result split: if_splits)

lemma idempotency_key_Inr:
  "idempotency_key h a b c d e f = Inr k \<longleftrightarrow>
     list_all nonempty_str [a, b, c, d, e, f] \<and>
     k = ''v1:'' @ sha_b64 h (join ''|'' (map the_str [a, b, c, d, e, f]))"
  by (auto simp: idempotency_key_def Let_def)

lemma nonempty_strE:
  assumes "nonempty_str v" obtains s where "v = JStr s" "s \<noteq> []"
  using assms by (cases v) auto

lemma utc_timestamp_Inr:
  "utc_timestamp h v = Inr (r, u) \<Longrightarrow> \<exists>t x. v = JStr r \<and> strip r \<noteq> [] \<and>
     iso_parse h x = IsoAware t \<and> u = str_replace ''+00:00'' ''Z'' t"
  by (cases v) (auto simp: Let_def split: if_splits iso_time.splits)

text \<open>
  The pre-image of the key is the six parts joined by a bar: with parts free of bars, two
  keys agree only when all six parts agree, as far as the digest separates texts.
\<close>

lemma idempotency_preimage_inject:
  assumes "length ps = length qs" "ps \<noteq> []" "list_all nonempty_str ps" "list_all nonempty_str qs"
    and "\<forall>v\<in>set (ps @ qs). CHR ''|'' \<notin> set (the_str v)"
    and "join ''|'' (map the_str ps) = join ''|'' (map the_str qs)"
  shows "ps = qs"
proof -
  have "map the_str ps = map the_str qs"
    using assms by (intro join_inject [of "CHR ''|''"]) auto
  then show ?thesis
    using assms(1,3,4)
  proof (induction ps qs rule: list_induct2')
    case (4 p ps q qs)
    then show ?case by (auto elim!: nonempty_strE)
  qed auto
qed

end
