(* ===== verification/Tables.thy ===== *)
theory Tables
  imports Prelude
begin

text \<open>
  The SQL statements the repositories issue, over a table as the list of its rows in
  insertion order, and the interface \<open>unique_table\<close> of a table with a UNIQUE constraint:
  whatever the key, insertion under \<^verbatim>\<open>ON CONFLICT DO NOTHING\<close> and updates that leave the
  key alone keep at most one row per key.  The repositories of \<^verbatim>\<open>db.py\<close> and the job store
  of \<^verbatim>\<open>openrelik_adapter.py\<close> interpret it.
\<close>

definition select_rows :: "('r \<Rightarrow> bool) \<Rightarrow> 'r list \<Rightarrow> 'r list" where
  "select_rows P t = filter P t"

definition select_one :: "('r \<Rightarrow> bool) \<Rightarrow> 'r list \<Rightarrow> 'r option" where
  "select_one P t = List.find P t"

definition update_rows :: "('r \<Rightarrow> bool) \<Rightarrow> ('r \<Rightarrow> 'r) \<Rightarrow> 'r list \<Rightarrow> 'r list" where
  "update_rows P f t = map (\<lambda>r. if P r then f r else r) t"

definition holds_key :: "('r \<Rightarrow> 'k) \<Rightarrow> 'k \<Rightarrow> 'r list \<Rightarrow> bool" where
  "holds_key key k t = list_ex (\<lambda>r. key r = k) t"

definition insert_or_ignore :: "('r \<Rightarrow> 'k) \<Rightarrow> 'r \<Rightarrow> 'r list \<Rightarrow> 'r list" where
  "insert_or_ignore key r t = (if holds_key key (key r) t then t else t @ [r])"

definition unique_by :: "('r \<Rightarrow> 'k) \<Rightarrow> 'r list \<Rightarrow> bool" where
  "unique_by key t = distinct (map key t)"

lemma holds_key_iff: "holds_key key k t \<longleftrightarrow> k \<in> key ` set t"
  by (auto simp: holds_key_def list_ex_iff)

lemma unique_by_Nil [simp]: "unique_by key []"
  by (simp add: unique_by_def)

lemma unique_by_insert: "unique_by key t \<Longrightarrow> unique_by key (insert_or_ignore key r t)"
  by (auto simp: unique_by_def insert_or_ignore_def holds_key_iff)

lemma unique_by_append: "unique_by key (t @ [r]) \<longleftrightarrow> unique_by key t \<and> \<not> holds_key key (key r) t"
  by (auto simp: unique_by_def holds_key_iff)

lemma select_one_SomeD: "select_one P t = Some r \<Longrightarrow> r \<in> set t \<and> P r"
  by (auto simp: select_one_def find_Some_iff) 

lemma select_one_None_iff: "select_one P t = None \<longleftrightarrow> (\<forall>r\<in>set t. \<not> P r)"
  by (auto simp: select_one_def find_None_iff)

lemma select_one_append:
  "select_one P (t @ u) = (case select_one P t of Some r \<Rightarrow> Some r | None \<Rightarrow> select_one P u)"
  by (induction t) (auto simp: select_one_def)

lemma set_update_rows: "set (update_rows P f t) = (\<lambda>r. if P r then f r else r) ` set t"
  by (simp add: update_rows_def)

lemma length_update_rows [simp]: "length (update_rows P f t) = length t"
  by (simp add: update_rows_def)

lemma update_rows_cong:
  "(\<And>r. r \<in> set t \<Longrightarrow> P r = Q r) \<Longrightarrow> update_rows P f t = update_rows Q f t"
  by (simp add: update_rows_def)

lemma update_rows_none: "(\<And>r. r \<in> set t \<Longrightarrow> \<not> P r) \<Longrightarrow> update_rows P f t = t"
  by (simp add: update_rows_def map_idI)

lemma filter_update_rows:
  assumes "\<And>r. Q (f r) = Q r"
  shows "filter Q (update_rows P f t) = update_rows P f (filter Q t)"
  using assms by (induction t) (auto simp: update_rows_def)

lemma filter_update_rows_other:
  assumes "\<And>r. P r \<Longrightarrow> \<not> Q r" "\<And>r. P r \<Longrightarrow> \<not> Q (f r)"
  shows "filter Q (update_rows P f t) = filter Q t"
  using assms by (induction t) (auto simp: update_rows_def)

lemma select_one_filter:
  assumes "\<And>r. P r \<Longrightarrow> Q r"
  shows "select_one P (filter Q t) = select_one P t"
  using assms by (induction t) (auto simp: select_one_def)

lemma holds_key_filter:
  assumes "\<And>r. key r = k \<Longrightarrow> Q r"
  shows "holds_key key k (filter Q t) = holds_key key k t"
  using assms by (induction t) (auto simp: holds_key_def)

lemma map_key_update_rows:
  assumes "\<And>r. P r \<Longrightarrow> key (f r) = key r"
  shows "map key (update_rows P f t) = map key t"
  using assms by (induction t) (auto simp: update_rows_def)

lemma select_one_update_key:
  assumes "\<And>r. key (f r) = key r"
  shows "select_one (\<lambda>r. key r = k) (update_rows (\<lambda>r. key r = k') f t) =
    (if k = k' then map_option f (select_one (\<lambda>r. key r = k) t) else select_one (\<lambda>r. key r = k) t)"
  using assms by (induction t) (auto simp: update_rows_def select_one_def)

section \<open>A table with a UNIQUE constraint\<close>

locale unique_table =
  fixes key :: "'r \<Rightarrow> 'k" and ins :: "'r \<Rightarrow> 'r list \<Rightarrow> 'r list" and upd :: "'u \<Rightarrow> 'r \<Rightarrow> 'r"
  assumes ins_absent: "key r \<notin> key ` set t \<Longrightarrow> ins r t = t @ [r]"
    and ins_present: "key r \<in> key ` set t \<Longrightarrow> ins r t = t"
    and upd_key: "key (upd u r) = key r"
begin

definition put :: "'u \<Rightarrow> ('r \<Rightarrow> bool) \<Rightarrow> 'r list \<Rightarrow> 'r list" where
  "put u P t = update_rows P (upd u) t"

lemma ins_unique: "unique_by key t \<Longrightarrow> unique_by key (ins r t)"
  by (cases "key r \<in> key ` set t") (auto simp: ins_absent ins_present unique_by_def)

lemma put_unique: "unique_by key t \<Longrightarrow> unique_by key (put u P t)"
  by (simp add: put_def unique_by_def map_key_update_rows upd_key)

lemma ins_idempotent: "ins r (ins r t) = ins r t"
  by (cases "key r \<in> key ` set t") (simp_all add: ins_absent ins_present)

lemma ins_keys: "key ` set (ins r t) = insert (key r) (key ` set t)"
  by (cases "key r \<in> key ` set t") (auto simp: ins_absent ins_present)

lemma put_keys: "key ` set (put u P t) = key ` set t"
  using map_key_update_rows [of P key "upd u" t] upd_key
  unfolding put_def by (metis list.set_map)

text \<open>A lookup by key after an insertion: the old row if there was one, else the new row.\<close>

lemma lookup_ins:
  "select_one (\<lambda>x. key x = key r) (ins r t) =
     (case select_one (\<lambda>x. key x = key r) t of Some x \<Rightarrow> Some x | None \<Rightarrow> Some r)"
proof (cases "key r \<in> key ` set t")
  case True
  then have "select_one (\<lambda>x. key x = key r) t \<noteq> None"
    by (auto simp: select_one_None_iff)
  with True show ?thesis by (auto simp: ins_present)
next
  case False
  have "key x \<noteq> key r" if "x \<in> set t" for x
  proof
    assume "key x = key r"
    with imageI [OF that, of key] have "key r \<in> key ` set t" by simp
    with False show False by blast
  qed
  then have "select_one (\<lambda>x. key x = key r) t = None"
    by (simp add: select_one_None_iff)
  with False show ?thesis
    by (simp add: ins_absent select_one_append) (simp add: select_one_def)
qed

text \<open>Under the constraint the row of a key is the only one: membership is lookup.\<close>

lemma lookup_unique:
  assumes "unique_by key t" "r \<in> set t"
  shows "select_one (\<lambda>x. key x = key r) t = Some r"
  using assms by (induction t) (auto simp: unique_by_def select_one_def)

end

end
