(* ===== verification/Tenancy.thy ===== *)
theory Tenancy
  imports Prelude
begin

text \<open>
  The trusted principal of a request, and tenant isolation as one interface.  An operation
  carries its caller; \<open>owner\<close> is the tenant it runs for and \<open>view b\<close> is what the store holds
  for tenant \<open>b\<close>.  The laws are the two halves of isolation: an operation leaves the view of
  every other tenant alone, and what it does to its own tenant's view, and what it answers,
  depends on that view only.  They give noninterference of whole runs: deleting the
  operations of all other tenants from a history changes neither a tenant's data nor the
  answers it saw.  The repositories, the evidence store, the local runner and the AI request
  store interpret it.
\<close>

record principal =
  tenant_id :: string
  analyst_id :: string
  is_synthetic :: bool
  subject :: "string option"
  roles :: "string list"
  scopes :: "string list"

fun run_ops :: "('op \<Rightarrow> 's \<Rightarrow> 's \<times> 'o) \<Rightarrow> 'op list \<Rightarrow> 's \<Rightarrow> 's \<times> ('op \<times> 'o) list" where
  "run_ops step [] s = (s, [])"
| "run_ops step (op # ops) s =
     (let (s', x) = step op s; (s'', xs) = run_ops step ops s' in (s'', (op, x) # xs))"

text \<open>The answers one tenant saw in a run, and the run without the others.\<close>

definition seen_by :: "('op \<Rightarrow> 't) \<Rightarrow> 't \<Rightarrow> ('op \<times> 'o) list \<Rightarrow> ('op \<times> 'o) list" where
  "seen_by owner b xs = filter (\<lambda>x. owner (fst x) = b) xs"

definition only_of :: "('op \<Rightarrow> 't) \<Rightarrow> 't \<Rightarrow> 'op list \<Rightarrow> 'op list" where
  "only_of owner b ops = filter (\<lambda>op. owner op = b) ops"

lemma run_ops_append:
  "run_ops step (xs @ ys) s =
    (let (s', out) = run_ops step xs s; (s'', out') = run_ops step ys s' in (s'', out @ out'))"
  by (induction xs arbitrary: s) (auto simp: Let_def split_beta)

text \<open>An invariant every operation keeps holds after every run.\<close>

lemma run_ops_invariant:
  assumes "\<And>op s. I s \<Longrightarrow> I (fst (step op s))" and "I s"
  shows "I (fst (run_ops step ops s))"
  using assms(2) by (induction ops arbitrary: s) (auto simp: Let_def split_beta assms(1))

locale tenant_isolated =
  fixes step :: "'op \<Rightarrow> 's \<Rightarrow> 's \<times> 'o" and owner :: "'op \<Rightarrow> 't" and view :: "'t \<Rightarrow> 's \<Rightarrow> 'v"
  assumes frame: "owner op \<noteq> b \<Longrightarrow> view b (fst (step op s)) = view b s"
    and local_state: "owner op = b \<Longrightarrow> view b s = view b s' \<Longrightarrow>
      view b (fst (step op s)) = view b (fst (step op s'))"
    and local_answer: "owner op = b \<Longrightarrow> view b s = view b s' \<Longrightarrow> snd (step op s) = snd (step op s')"
begin

lemma run_same_view:
  "view b s = view b s' \<Longrightarrow>
    view b (fst (run_ops step ops s)) = view b (fst (run_ops step (only_of owner b ops) s')) \<and>
    seen_by owner b (snd (run_ops step ops s)) = snd (run_ops step (only_of owner b ops) s')"
proof (induction ops arbitrary: s s')
  case Nil
  then show ?case by (simp add: only_of_def seen_by_def)
next
  case (Cons op ops)
  show ?case
  proof (cases "owner op = b")
    case True
    have v: "view b (fst (step op s)) = view b (fst (step op s'))"
      and o: "snd (step op s) = snd (step op s')"
      using Cons.prems True by (auto intro: local_state local_answer)
    from Cons.IH [OF v] o True show ?thesis
      by (simp add: Let_def split_beta only_of_def seen_by_def)
  next
    case False
    with Cons.prems have "view b (fst (step op s)) = view b s'" by (simp add: frame)
    from Cons.IH [OF this] False show ?thesis
      by (simp add: Let_def split_beta only_of_def seen_by_def)
  qed
qed

lemma noninterference:
  "view b (fst (run_ops step ops s)) = view b (fst (run_ops step (only_of owner b ops) s)) \<and>
   seen_by owner b (snd (run_ops step ops s)) = snd (run_ops step (only_of owner b ops) s)"
  by (rule run_same_view) (rule refl)

lemma run_frame:
  "\<forall>op\<in>set ops. owner op \<noteq> b \<Longrightarrow> view b (fst (run_ops step ops s)) = view b s"
  using noninterference [of b ops s] by (simp add: only_of_def filter_False)

end

text \<open>
  A stronger contract that is easier to check: the store can be cut down to one tenant, and
  the operations of that tenant run on the cut-down store exactly as on the whole one.
\<close>

locale tenant_restricted =
  fixes step :: "'op \<Rightarrow> 's \<Rightarrow> 's \<times> 'o" and owner :: "'op \<Rightarrow> 't" and cut :: "'t \<Rightarrow> 's \<Rightarrow> 's"
  assumes cut_frame: "owner op \<noteq> b \<Longrightarrow> cut b (fst (step op s)) = cut b s"
    and cut_commute: "owner op = b \<Longrightarrow>
      step op (cut b s) = (cut b (fst (step op s)), snd (step op s))"

sublocale tenant_restricted \<subseteq> tenant_isolated step owner cut
proof
  fix op b s s'
  assume "owner op = b" "cut b s = cut b s'"
  then have "(cut b (fst (step op s)), snd (step op s)) = (cut b (fst (step op s')), snd (step op s'))"
    using cut_commute by metis
  then show "cut b (fst (step op s)) = cut b (fst (step op s'))" "snd (step op s) = snd (step op s')"
    by simp_all
qed (rule cut_frame)

end
