(* ===== verification/Ingest_Repo.thy ===== *)
theory Ingest_Repo
  imports Interop Tables Tenancy
begin

text \<open>
  \<^verbatim>\<open>IngestRepository\<close> of \<^verbatim>\<open>db.py\<close> over the table of
  \<^verbatim>\<open>migrations/0002_create_ingest_envelopes.sql\<close>: rows, constraints and the five methods.
  PostgreSQL's casts and psycopg's adaptation of a Python value to a text parameter are the
  fields of \<open>pg\<close>; uuid4, the wall clock and \<^verbatim>\<open>clock_timestamp()\<close> are arguments of the call
  that reads them.  Each method is one transaction: an error leaves the state as it was.
\<close>

record ingest_envelope =
  ig_tenant_id :: string
  ig_envelope_id :: string
  ig_received_at_utc :: string
  ig_source_system :: string
  ig_source_entity :: string
  ig_source_id :: string
  ig_source_scope :: string
  ig_source_revision :: string
  ig_payload_sha256 :: string
  ig_payload :: json
  ig_processing_status :: string
  ig_mapping_version :: string
  ig_idempotency_key :: string
  ig_target_id :: "string option"
  ig_error_code :: "string option"
  ig_quarantine_reference :: "string option"
  ig_analyst_id :: string
  ig_created_at :: string
  ig_updated_at :: string

record ingest_db =
  ingest_rows :: "ingest_envelope list"
  ingest_analysts :: "(string \<times> string) list"

datatype repo_error =
    ValueError string
  | RuntimeError string
  | DatabaseError string
  | PyError string

text \<open>\<^verbatim>\<open>type(exc).__name__\<close>\<close>

fun repo_error_name :: "repo_error \<Rightarrow> string" where
  "repo_error_name (ValueError m) = ''ValueError''"
| "repo_error_name (RuntimeError m) = ''RuntimeError''"
| "repo_error_name (DatabaseError n) = n"
| "repo_error_name (PyError n) = n"

text \<open>
  \<open>uuid_cast\<close>: the canonical text of \<^verbatim>\<open>%s::uuid\<close>, \<open>None\<close> for a syntax error;
  \<open>ts_cast\<close>: likewise for \<^verbatim>\<open>%s::timestamptz\<close>; \<open>text_param\<close>: a Python value bound to a text
  column (\<open>None\<close>: not adaptable, \<open>Some None\<close>: SQL NULL).
\<close>

record pg =
  uuid_cast :: "string \<Rightarrow> string option"
  ts_cast :: "json \<Rightarrow> string option"
  text_param :: "json \<Rightarrow> string option option"

definition ingest_statuses :: "string list" where
  "ingest_statuses = [''received'', ''validated'', ''preview'', ''approved'', ''applied'',
     ''duplicate'', ''rejected'', ''quarantined'', ''conflict'']"

definition is_hex_char :: "char \<Rightarrow> bool" where
  "is_hex_char c = (is_digit c \<or> (let n = (of_char c :: nat) in (65 \<le> n \<and> n \<le> 70) \<or> (97 \<le> n \<and> n \<le> 102)))"

definition sha_check :: "string \<Rightarrow> bool" where
  "sha_check s = (length s = 64 \<and> list_all is_hex_char s)"

definition ingest_idem_key :: "ingest_envelope \<Rightarrow> string \<times> string" where
  "ingest_idem_key r = (ig_tenant_id r, ig_idempotency_key r)"

definition ingest_pkey :: "ingest_envelope \<Rightarrow> string \<times> string" where
  "ingest_pkey r = (ig_tenant_id r, ig_envelope_id r)"

section \<open>The table: one INSERT and the constraints of migration 0002\<close>

text \<open>NOT NULL and CHECK are tested before the row is inserted, the unique indexes while it
  is, the foreign key at the end of the statement.\<close>

definition ingest_checks :: "ingest_envelope \<Rightarrow> bool" where
  "ingest_checks r = (ig_processing_status r \<in> set ingest_statuses \<and> sha_check (ig_payload_sha256 r))"

definition insert_ingest :: "ingest_envelope \<Rightarrow> ingest_db \<Rightarrow> repo_error + (ingest_db \<times> ingest_envelope option)" where
  "insert_ingest r db =
     (if \<not> ingest_checks r then Inl (DatabaseError ''CheckViolation'')
      else if holds_key ingest_idem_key (ingest_idem_key r) (ingest_rows db) then Inr (db, None)
      else if holds_key ingest_pkey (ingest_pkey r) (ingest_rows db) then Inl (DatabaseError ''UniqueViolation'')
      else if (ig_tenant_id r, ig_analyst_id r) \<notin> set (ingest_analysts db)
        then Inl (DatabaseError ''ForeignKeyViolation'')
      else Inr (db\<lparr>ingest_rows := insert_or_ignore ingest_idem_key r (ingest_rows db)\<rparr>, Some r))"

section \<open>Reading the envelope argument\<close>

fun as_dict :: "json \<Rightarrow> repo_error + dict" where
  "as_dict (JObj d) = Inr d"
| "as_dict v = Inl (PyError ''AttributeError'')"

text \<open>A NOT NULL text column bound from a Python value.\<close>

definition text_column :: "pg \<Rightarrow> json \<Rightarrow> repo_error + string" where
  "text_column g v = (case text_param g v of
     None \<Rightarrow> Inl (DatabaseError ''ProgrammingError'')
   | Some None \<Rightarrow> Inl (DatabaseError ''NotNullViolation'')
   | Some (Some s) \<Rightarrow> Inr s)"

definition uuid_column :: "pg \<Rightarrow> string \<Rightarrow> repo_error + string" where
  "uuid_column g s = (case uuid_cast g s of
     None \<Rightarrow> Inl (DatabaseError ''InvalidTextRepresentation'') | Some u \<Rightarrow> Inr u)"

definition ts_column :: "pg \<Rightarrow> json \<Rightarrow> repo_error + string" where
  "ts_column g v = (case ts_cast g v of
     None \<Rightarrow> Inl (DatabaseError ''InvalidDatetimeFormat'') | Some t \<Rightarrow> Inr t)"

definition default_idem :: "host \<Rightarrow> string \<Rightarrow> dict \<Rightarrow> json \<Rightarrow> string" where
  "default_idem h tenant src env_id =
     ''v1:'' @ sha_b64 h (join ''|''
       [tenant, ''in'', py_str (dget_or src ''system'' (JStr ''other'')),
        py_str (dget_or src ''entity'' (JStr ''unknown'')), py_str (dget_or src ''id'' env_id),
        py_str (dget_or src ''revision'' (JStr ''1''))])"

text \<open>\<^verbatim>\<open>_row_to_envelope\<close> copies the columns; \<^verbatim>\<open>dict(row["payload"])\<close> raises on a payload that
  is neither an object nor falsy.\<close>

fun row_to_envelope :: "ingest_envelope \<Rightarrow> repo_error + ingest_envelope" where
  "row_to_envelope r = (case ig_payload r of
     JObj d \<Rightarrow> Inr r
   | v \<Rightarrow> if truthy v then Inl (PyError ''TypeError'') else Inr (r\<lparr>ig_payload := JObj []\<rparr>))"

section \<open>The methods\<close>

type_synonym ingest_answer = "repo_error + ingest_envelope option"

definition envelope_sha :: "host \<Rightarrow> dict \<Rightarrow> json" where
  "envelope_sha h envelope =
     py_or (dget envelope ''payload_sha256'')
       (JStr (sha_hex h (dumps_ascii h (dget_or envelope ''payload'' (JObj [])))))"

definition envelope_row :: "host \<Rightarrow> pg \<Rightarrow> principal \<Rightarrow> dict \<Rightarrow> string \<Rightarrow> string \<Rightarrow> string \<Rightarrow> repo_error + ingest_envelope" where
  "envelope_row h g p envelope uuid_hex now_iso clock =
     r_bind (as_dict (dget_or envelope ''source'' (JObj []))) (\<lambda>src.
     r_bind (as_dict (dget_or envelope ''processing'' (JObj []))) (\<lambda>proc.
     let env_id = py_or (dget envelope ''envelope_id'') (JStr (''env-'' @ take 12 uuid_hex));
         idem0 = py_or (dget proc ''idempotency_key'') (dget envelope ''idempotency_key'');
         idem = (if truthy idem0 then idem0 else JStr (default_idem h (tenant_id p) src env_id));
         payload = dget_or envelope ''payload'' (JObj []);
         sha = envelope_sha h envelope;
         received = (if truthy (dget envelope ''received_at_utc'') then dget envelope ''received_at_utc''
                     else JStr now_iso)
     in r_bind (uuid_column g (tenant_id p)) (\<lambda>tenant.
        r_bind (text_column g env_id) (\<lambda>eid.
        r_bind (ts_column g received) (\<lambda>rec.
        r_bind (text_column g (dget src ''system'')) (\<lambda>sys.
        r_bind (text_column g (dget src ''entity'')) (\<lambda>ent.
        r_bind (text_column g (dget src ''id'')) (\<lambda>sid.
        r_bind (text_column g (dget src ''scope'')) (\<lambda>scp.
        r_bind (text_column g (dget src ''revision'')) (\<lambda>rev.
        r_bind (text_column g sha) (\<lambda>shat.
        r_bind (text_column g (dget_or proc ''status'' (JStr ''preview''))) (\<lambda>st.
        r_bind (text_column g (dget_or proc ''mapping_version'' (JStr ''1.0.0''))) (\<lambda>mv.
        r_bind (text_column g idem) (\<lambda>ik.
        r_bind (uuid_column g (analyst_id p)) (\<lambda>an.
        Inr \<lparr>ig_tenant_id = tenant, ig_envelope_id = eid, ig_received_at_utc = rec,
             ig_source_system = sys, ig_source_entity = ent, ig_source_id = sid,
             ig_source_scope = scp, ig_source_revision = rev, ig_payload_sha256 = shat,
             ig_payload = payload, ig_processing_status = st, ig_mapping_version = mv,
             ig_idempotency_key = ik, ig_target_id = None, ig_error_code = None,
             ig_quarantine_reference = None, ig_analyst_id = an, ig_created_at = clock,
             ig_updated_at = clock\<rparr>))))))))))))))) "

text \<open>The second half of \<^verbatim>\<open>store_preview\<close>: the row already holding the idempotency key.\<close>

definition mark_conflict :: "string \<Rightarrow> ingest_envelope \<Rightarrow> ingest_envelope" where
  "mark_conflict clock r = r\<lparr>ig_processing_status := ''conflict'',
     ig_error_code := Some ''idempotency_key_reuse_mismatch'', ig_updated_at := clock\<rparr>"

definition mark_duplicate :: "string \<Rightarrow> ingest_envelope \<Rightarrow> ingest_envelope" where
  "mark_duplicate clock r = r\<lparr>ig_processing_status := ''duplicate'', ig_updated_at := clock\<rparr>"

definition resolve_existing :: "json \<Rightarrow> string \<Rightarrow> ingest_envelope \<Rightarrow> (ingest_envelope \<Rightarrow> ingest_envelope)" where
  "resolve_existing sha clock row =
     (if JStr (ig_payload_sha256 row) \<noteq> sha then mark_conflict clock
      else if ig_processing_status row \<notin> {''duplicate'', ''applied'', ''conflict''} then mark_duplicate clock
      else id)"

definition store_preview ::
  "host \<Rightarrow> pg \<Rightarrow> principal \<Rightarrow> dict \<Rightarrow> string \<Rightarrow> string \<Rightarrow> string \<Rightarrow> ingest_db \<Rightarrow> ingest_db \<times> ingest_answer" where
  "store_preview h g p envelope uuid_hex now_iso clock db =
     (case r_bind (envelope_row h g p envelope uuid_hex now_iso clock) (\<lambda>new.
           r_bind (insert_ingest new db) (\<lambda>(db', ret).
             case ret of
               Some row \<Rightarrow> r_bind (row_to_envelope row) (\<lambda>e. Inr (db', e))
             | None \<Rightarrow>
                 (let same = (\<lambda>r. ingest_idem_key r = ingest_idem_key new) in
                  case select_one same (ingest_rows db') of
                    None \<Rightarrow> Inl (RuntimeError ''ingest insert conflict resolution produced no row'')
                  | Some row \<Rightarrow>
                      (let f = resolve_existing (envelope_sha h envelope) clock row in
                       r_bind (row_to_envelope (f row))
                         (\<lambda>e. Inr (db'\<lparr>ingest_rows := update_rows same f (ingest_rows db')\<rparr>, e))))))
      of Inl e \<Rightarrow> (db, Inl e) | Inr (db', e) \<Rightarrow> (db', Inr (Some e)))"

definition get_envelope :: "pg \<Rightarrow> principal \<Rightarrow> string \<Rightarrow> ingest_db \<Rightarrow> ingest_answer" where
  "get_envelope g p envelope_id db =
     r_bind (uuid_column g (tenant_id p)) (\<lambda>tenant.
       case select_one (\<lambda>r. ingest_pkey r = (tenant, envelope_id)) (ingest_rows db) of
         None \<Rightarrow> Inr None
       | Some row \<Rightarrow> r_bind (row_to_envelope row) (\<lambda>e. Inr (Some e)))"

text \<open>\<^verbatim>\<open>UPDATE ... WHERE tenant AND envelope_id AND status IN ... RETURNING\<close>\<close>

definition update_envelope ::
  "string \<Rightarrow> string \<Rightarrow> (string \<Rightarrow> bool) \<Rightarrow> (ingest_envelope \<Rightarrow> ingest_envelope) \<Rightarrow> ingest_db \<Rightarrow>
   ingest_db \<times> ingest_envelope option" where
  "update_envelope tenant envelope_id allowed f db =
     (let hit = (\<lambda>r. ingest_pkey r = (tenant, envelope_id) \<and> allowed (ig_processing_status r)) in
      (db\<lparr>ingest_rows := update_rows hit f (ingest_rows db)\<rparr>,
       map_option f (select_one hit (ingest_rows db))))"

definition approve_envelope :: "pg \<Rightarrow> principal \<Rightarrow> string \<Rightarrow> string \<Rightarrow> ingest_db \<Rightarrow> ingest_db \<times> ingest_answer" where
  "approve_envelope g p envelope_id clock db =
     (case uuid_column g (tenant_id p) of
        Inl e \<Rightarrow> (db, Inl e)
      | Inr tenant \<Rightarrow>
          (let (db', ret) = update_envelope tenant envelope_id (\<lambda>s. s = ''preview'')
                 (\<lambda>r. r\<lparr>ig_processing_status := ''approved'', ig_updated_at := clock\<rparr>) db in
           case ret of
             Some row \<Rightarrow> (db', r_bind (row_to_envelope row) (\<lambda>e. Inr (Some e)))
           | None \<Rightarrow>
               (db', case get_envelope g p envelope_id db' of
                  Inl e \<Rightarrow> Inl e
                | Inr None \<Rightarrow> Inl (ValueError (''envelope '' @ envelope_id @ '' not found for tenant''))
                | Inr (Some current) \<Rightarrow>
                    Inl (ValueError (''cannot approve envelope '' @ envelope_id @ '' in status '' @
                      ig_processing_status current @ ''; must be preview'')))))"

definition coalesce :: "'a option \<Rightarrow> 'a option \<Rightarrow> 'a option" where
  "coalesce a b = (case a of None \<Rightarrow> b | Some x \<Rightarrow> Some x)"

definition apply_commit ::
  "pg \<Rightarrow> principal \<Rightarrow> string \<Rightarrow> string option \<Rightarrow> string \<Rightarrow> ingest_db \<Rightarrow> ingest_db \<times> ingest_answer" where
  "apply_commit g p envelope_id target_id clock db =
     (case uuid_column g (tenant_id p) of
        Inl e \<Rightarrow> (db, Inl e)
      | Inr tenant \<Rightarrow>
          (let (db', ret) = update_envelope tenant envelope_id (\<lambda>s. s \<in> {''approved'', ''preview''})
                 (\<lambda>r. r\<lparr>ig_processing_status := ''applied'',
                         ig_target_id := coalesce target_id (ig_target_id r), ig_updated_at := clock\<rparr>) db in
           case ret of
             Some row \<Rightarrow> (db', r_bind (row_to_envelope row) (\<lambda>e. Inr (Some e)))
           | None \<Rightarrow>
               (db', case get_envelope g p envelope_id db' of
                  Inl e \<Rightarrow> Inl e
                | Inr None \<Rightarrow> Inl (ValueError (''envelope '' @ envelope_id @ '' not found''))
                | Inr (Some current) \<Rightarrow>
                    Inl (ValueError (''cannot apply '' @ envelope_id @ '' from status '' @
                      ig_processing_status current)))))"

definition mark_quarantined ::
  "pg \<Rightarrow> principal \<Rightarrow> string \<Rightarrow> string option \<Rightarrow> string \<Rightarrow> string \<Rightarrow> ingest_db \<Rightarrow> ingest_db \<times> ingest_answer" where
  "mark_quarantined g p envelope_id reason uuid_hex clock db =
     (case uuid_column g (tenant_id p) of
        Inl e \<Rightarrow> (db, Inl e)
      | Inr tenant \<Rightarrow>
          (let (db', ret) = update_envelope tenant envelope_id (\<lambda>s. True)
                 (\<lambda>r. r\<lparr>ig_processing_status := ''quarantined'',
                         ig_quarantine_reference := Some (''quarantine-'' @ take 8 uuid_hex),
                         ig_error_code := coalesce reason (ig_error_code r), ig_updated_at := clock\<rparr>) db in
           case ret of
             Some row \<Rightarrow> (db', r_bind (row_to_envelope row) (\<lambda>e. Inr (Some e)))
           | None \<Rightarrow> (db', Inl (ValueError (''envelope not found for quarantine: '' @ envelope_id)))))"

section \<open>The repository as a machine over calls\<close>

datatype ingest_call =
    StorePreview principal dict string string string
  | GetEnvelope principal string
  | Approve principal string string
  | Commit principal string "string option" string
  | Quarantine principal string "string option" string string

fun ingest_caller :: "ingest_call \<Rightarrow> principal" where
  "ingest_caller (StorePreview p e u n c) = p"
| "ingest_caller (GetEnvelope p i) = p"
| "ingest_caller (Approve p i c) = p"
| "ingest_caller (Commit p i t c) = p"
| "ingest_caller (Quarantine p i r u c) = p"

fun ingest_step :: "host \<Rightarrow> pg \<Rightarrow> ingest_call \<Rightarrow> ingest_db \<Rightarrow> ingest_db \<times> ingest_answer" where
  "ingest_step h g (StorePreview p e u n c) db = store_preview h g p e u n c db"
| "ingest_step h g (GetEnvelope p i) db = (db, get_envelope g p i db)"
| "ingest_step h g (Approve p i c) db = approve_envelope g p i c db"
| "ingest_step h g (Commit p i t c) db = apply_commit g p i t c db"
| "ingest_step h g (Quarantine p i r u c) db = mark_quarantined g p i r u c db"

end
