(* ===== verification/Ingest_Repo_Props.thy ===== *)
theory Ingest_Repo_Props
  imports Ingest_Repo
begin

text \<open>
  What the ingest repository keeps: every call either appends one row under fresh keys or
  rewrites the mutable columns of rows of the caller's tenant along the status moves.  From
  that one classification follow the table invariant, the append-only history, the status
  life cycle and, with the commutation lemmas, tenant isolation.
\<close>

declare row_to_envelope.simps [simp del]

section \<open>Status moves\<close>

inductive status_move :: "string \<Rightarrow> string \<Rightarrow> bool" where
  stay: "status_move s s"
| approve: "status_move ''preview'' ''approved''"
| apply_preview: "status_move ''preview'' ''applied''"
| apply_approved: "status_move ''approved'' ''applied''"
| quarantine: "status_move s ''quarantined''"
| conflict: "status_move s ''conflict''"
| duplicate: "s \<notin> {''duplicate'', ''applied'', ''conflict''} \<Longrightarrow> status_move s ''duplicate''"

inductive_cases status_move_approvedE: "status_move s ''approved''"
inductive_cases status_move_appliedE: "status_move s ''applied''"
inductive_cases status_move_previewE: "status_move s ''preview''"
inductive_simps status_move_from_duplicate: "status_move ''duplicate'' s"

lemma apply_move: "s = ''approved'' \<or> s = ''preview'' \<Longrightarrow> status_move s ''applied''"
  by (auto intro: status_move.intros)

lemma status_move_valid: "status_move s s' \<Longrightarrow> s \<in> set ingest_statuses \<Longrightarrow> s' \<in> set ingest_statuses"
  by (induction rule: status_move.induct) (auto simp: ingest_statuses_def)

text \<open>Only a row in preview or approved can still come to be applied.\<close>

lemma status_moves_to_applied:
  "status_move\<^sup>*\<^sup>* s s' \<Longrightarrow> s' \<in> {''preview'', ''approved'', ''applied''} \<Longrightarrow>
     s \<in> {''preview'', ''approved'', ''applied''}"
proof (induction rule: rtranclp_induct)
  case base
  then show ?case .
next
  case (step y z)
  from step.hyps(2) step.prems have "y \<in> {''preview'', ''approved'', ''applied''}"
    by (auto elim: status_move_approvedE status_move_appliedE status_move_previewE)
  with step.IH show ?case by blast
qed

section \<open>The effect of a call\<close>

text \<open>The columns no call writes after the INSERT.\<close>

definition ig_fixed :: "ingest_envelope \<Rightarrow> ingest_envelope" where
  "ig_fixed r = r\<lparr>ig_processing_status := [], ig_target_id := None, ig_error_code := None,
     ig_quarantine_reference := None, ig_updated_at := []\<rparr>"

definition row_touch :: "string option \<Rightarrow> ingest_envelope \<Rightarrow> ingest_envelope \<Rightarrow> bool" where
  "row_touch t r r' = (ig_fixed r' = ig_fixed r \<and>
     status_move (ig_processing_status r) (ig_processing_status r') \<and>
     (Some (ig_tenant_id r) = t \<or> r' = r))"

inductive ingest_effect :: "string option \<Rightarrow> ingest_db \<Rightarrow> ingest_db \<Rightarrow> bool" where
  touch: "(\<And>r. r \<in> set (ingest_rows db) \<Longrightarrow> row_touch t r (f r)) \<Longrightarrow>
    ingest_effect t db (db\<lparr>ingest_rows := map f (ingest_rows db)\<rparr>)"
| append: "ingest_checks r \<Longrightarrow> Some (ig_tenant_id r) = t \<Longrightarrow>
    \<not> holds_key ingest_idem_key (ingest_idem_key r) (ingest_rows db) \<Longrightarrow>
    \<not> holds_key ingest_pkey (ingest_pkey r) (ingest_rows db) \<Longrightarrow>
    ingest_effect t db (db\<lparr>ingest_rows := ingest_rows db @ [r]\<rparr>)"

lemma ig_fixed_keys:
  "ig_fixed r = ig_fixed r' \<Longrightarrow> ingest_idem_key r = ingest_idem_key r' \<and> ingest_pkey r = ingest_pkey r' \<and>
     ig_payload_sha256 r = ig_payload_sha256 r' \<and> ig_tenant_id r = ig_tenant_id r' \<and>
     ig_payload r = ig_payload r'"
  by (cases r; cases r') (auto simp: ig_fixed_def ingest_idem_key_def ingest_pkey_def)

lemma row_touch_refl [simp]: "row_touch t r r"
  by (simp add: row_touch_def status_move.stay)

lemma ingest_effect_refl: "ingest_effect t db db"
  using ingest_effect.touch [of db t id] by simp

lemma ingest_effect_update:
  assumes "\<And>r. r \<in> set (ingest_rows db) \<Longrightarrow> P r \<Longrightarrow> row_touch t r (f r)"
  shows "ingest_effect t db (db\<lparr>ingest_rows := update_rows P f (ingest_rows db)\<rparr>)"
  unfolding update_rows_def by (rule ingest_effect.touch) (use assms in auto)

lemma update_envelope_effect:
  assumes "\<And>r. ingest_pkey r = (tenant, i) \<Longrightarrow> allowed (ig_processing_status r) \<Longrightarrow>
      ig_fixed (f r) = ig_fixed r \<and> status_move (ig_processing_status r) (ig_processing_status (f r))"
  shows "ingest_effect (Some tenant) db (fst (update_envelope tenant i allowed f db))"
  unfolding update_envelope_def Let_def fst_conv
  by (rule ingest_effect_update) (use assms in \<open>auto simp: row_touch_def ingest_pkey_def\<close>)

lemma resolve_existing_touch:
  assumes "ingest_idem_key r = ingest_idem_key row" "ig_processing_status r = ig_processing_status row"
  shows "ig_fixed (resolve_existing sha clock row r) = ig_fixed r \<and>
    status_move (ig_processing_status r) (ig_processing_status (resolve_existing sha clock row r))"
  using assms
  by (auto simp: resolve_existing_def mark_conflict_def mark_duplicate_def ig_fixed_def
      intro: status_move.intros)

lemma envelope_row_tenant:
  "envelope_row h g p e u n c = Inr r \<Longrightarrow> uuid_cast g (tenant_id p) = Some (ig_tenant_id r)"
  by (auto simp: envelope_row_def uuid_column_def wb_result Let_def split: option.splits)

lemma row_to_envelope_cases:
  "row_to_envelope r = Inr e \<Longrightarrow> e = r \<or> e = r\<lparr>ig_payload := JObj []\<rparr>"
  by (auto simp: row_to_envelope.simps split: json.splits if_splits)

lemma insert_ingest_cases:
  assumes "insert_ingest r db = Inr (db', ret)"
  shows "(db' = db \<and> ret = None \<and> holds_key ingest_idem_key (ingest_idem_key r) (ingest_rows db)) \<or>
    (db' = db\<lparr>ingest_rows := ingest_rows db @ [r]\<rparr> \<and> ret = Some r \<and> ingest_checks r \<and>
     \<not> holds_key ingest_idem_key (ingest_idem_key r) (ingest_rows db) \<and>
     \<not> holds_key ingest_pkey (ingest_pkey r) (ingest_rows db) \<and>
     (ig_tenant_id r, ig_analyst_id r) \<in> set (ingest_analysts db))"
  using assms by (auto simp: insert_ingest_def insert_or_ignore_def split: if_splits)

definition ingest_ok :: "ingest_db \<Rightarrow> bool" where
  "ingest_ok db = (unique_by ingest_idem_key (ingest_rows db) \<and> unique_by ingest_pkey (ingest_rows db) \<and>
     (\<forall>r\<in>set (ingest_rows db). ingest_checks r))"

lemma unique_status:
  assumes "unique_by key t" "r \<in> set t" "r' \<in> set t" "key r = key r'"
  shows "r = r'"
  using assms by (auto simp: unique_by_def distinct_map inj_on_def)


lemma store_preview_effect:
  assumes "ingest_ok db"
  shows "ingest_effect (uuid_cast g (tenant_id p)) db (fst (store_preview h g p e u n c db))"
proof (cases "snd (store_preview h g p e u n c db)")
  case (Inl err)
  then have "fst (store_preview h g p e u n c db) = db"
    by (auto simp: store_preview_def split: sum.splits prod.splits)
  then show ?thesis by (simp add: ingest_effect_refl)
next
  case (Inr x)
  then obtain new db' ret where new: "envelope_row h g p e u n c = Inr new"
    and ins: "insert_ingest new db = Inr (db', ret)"
    by (auto simp: store_preview_def wb_result split: sum.splits prod.splits)
  have t: "uuid_cast g (tenant_id p) = Some (ig_tenant_id new)"
    using new by (rule envelope_row_tenant)
  show ?thesis
  proof (cases ret)
    case (Some row)
    with insert_ingest_cases [OF ins] have a: "db' = db\<lparr>ingest_rows := ingest_rows db @ [new]\<rparr>"
        "ingest_checks new" "\<not> holds_key ingest_idem_key (ingest_idem_key new) (ingest_rows db)"
        "\<not> holds_key ingest_pkey (ingest_pkey new) (ingest_rows db)" by auto
    have "fst (store_preview h g p e u n c db) = db'"
      using Inr new ins Some by (auto simp: store_preview_def wb_result split: sum.splits prod.splits)
    with a t show ?thesis by (simp add: ingest_effect.append)
  next
    case None
    with insert_ingest_cases [OF ins] have db': "db' = db" by auto
    define same where "same = (\<lambda>r. ingest_idem_key r = ingest_idem_key new)"
    from Inr new ins None db' obtain row where row: "select_one same (ingest_rows db) = Some row"
      by (auto simp: store_preview_def same_def Let_def split: sum.splits prod.splits option.splits)
    define f where "f = resolve_existing (envelope_sha h e) c row"
    have "fst (store_preview h g p e u n c db) =
        db\<lparr>ingest_rows := update_rows same f (ingest_rows db)\<rparr>"
      using Inr new ins None db' row
      by (auto simp: store_preview_def same_def f_def Let_def wb_result split: sum.splits prod.splits option.splits)
    moreover have "row_touch (Some (ig_tenant_id new)) r (f r)"
      if "r \<in> set (ingest_rows db)" "same r" for r
    proof -
      have "r = row"
        using unique_status [of ingest_idem_key "ingest_rows db" r row] assms that
          select_one_SomeD [OF row] by (auto simp: ingest_ok_def same_def)
      with that resolve_existing_touch [of r row] show ?thesis
        by (auto simp: row_touch_def f_def same_def ingest_idem_key_def)
    qed
    ultimately show ?thesis using t by (simp add: ingest_effect_update)
  qed
qed

lemma ingest_step_effect:
  assumes "ingest_ok db"
  shows "ingest_effect (uuid_cast g (tenant_id (ingest_caller c))) db (fst (ingest_step h g c db))"
proof (cases c)
  case (Approve p i cl)
  then show ?thesis
    using update_envelope_effect [of _ i "\<lambda>s. s = ''preview''"
        "\<lambda>r. r\<lparr>ig_processing_status := ''approved'', ig_updated_at := cl\<rparr>" db]
    by (auto simp: approve_envelope_def uuid_column_def ingest_effect_refl ig_fixed_def status_move.intros
        Let_def split_beta split: option.splits)
next
  case (Commit p i t cl)
  then show ?thesis
    using update_envelope_effect [of _ i "\<lambda>s. s \<in> {''approved'', ''preview''}"
        "\<lambda>r. r\<lparr>ig_processing_status := ''applied'', ig_target_id := coalesce t (ig_target_id r), ig_updated_at := cl\<rparr>" db]
    by (auto simp: apply_commit_def uuid_column_def ingest_effect_refl ig_fixed_def apply_move
        Let_def split_beta split: option.splits)
next
  case (Quarantine p i r u cl)
  then show ?thesis
    using update_envelope_effect [of _ i "\<lambda>s. True"
        "\<lambda>x. x\<lparr>ig_processing_status := ''quarantined'',
           ig_quarantine_reference := Some (''quarantine-'' @ take 8 u),
           ig_error_code := coalesce r (ig_error_code x), ig_updated_at := cl\<rparr>" db]
    by (auto simp: mark_quarantined_def uuid_column_def ingest_effect_refl ig_fixed_def status_move.intros
        Let_def split_beta split: option.splits)
qed (use assms in \<open>auto simp: ingest_effect_refl store_preview_effect\<close>)

section \<open>Consequences of an effect\<close>

lemma ingest_effect_ok: "ingest_effect t db db' \<Longrightarrow> ingest_ok db \<Longrightarrow> ingest_ok db'"
proof (induction rule: ingest_effect.induct)
  case (touch db t f)
  then have keys: "ingest_idem_key (f r) = ingest_idem_key r" "ingest_pkey (f r) = ingest_pkey r"
    and chk: "ingest_checks r \<Longrightarrow> ingest_checks (f r)" if "r \<in> set (ingest_rows db)" for r
    using that ig_fixed_keys [of "f r" r] status_move_valid
    by (auto simp: row_touch_def ingest_checks_def)
  then have eqs: "map (ingest_idem_key \<circ> f) (ingest_rows db) = map ingest_idem_key (ingest_rows db)"
    "map (ingest_pkey \<circ> f) (ingest_rows db) = map ingest_pkey (ingest_rows db)"
    by auto
  show ?case
    using touch.prems chk by (simp add: ingest_ok_def unique_by_def eqs)
next
  case (append r t db)
  then show ?case by (auto simp: ingest_ok_def unique_by_append)
qed

lemma ingest_effect_fixed:
  "ingest_effect t db db' \<Longrightarrow> prefix (map ig_fixed (ingest_rows db)) (map ig_fixed (ingest_rows db'))"
proof (induction rule: ingest_effect.induct)
  case (touch db t f)
  then have eq: "map (ig_fixed \<circ> f) (ingest_rows db) = map ig_fixed (ingest_rows db)"
    by (auto simp: row_touch_def)
  show ?case by (simp add: eq)
qed simp

lemma ingest_effect_row:
  "ingest_effect t db db' \<Longrightarrow> i < length (ingest_rows db) \<Longrightarrow>
    i < length (ingest_rows db') \<and>
    status_move (ig_processing_status (ingest_rows db ! i)) (ig_processing_status (ingest_rows db' ! i))"
  by (induction rule: ingest_effect.induct) (auto simp: row_touch_def nth_append status_move.stay)

lemma ingest_effect_analysts: "ingest_effect t db db' \<Longrightarrow> ingest_analysts db' = ingest_analysts db"
  by (induction rule: ingest_effect.induct) auto

section \<open>Runs\<close>

lemma ingest_run_ok: "ingest_ok db \<Longrightarrow> ingest_ok (fst (run_ops (ingest_step h g) cs db))"
  by (rule run_ops_invariant) (auto intro: ingest_effect_ok ingest_step_effect)

lemma ingest_run_fixed:
  "ingest_ok db \<Longrightarrow>
   prefix (map ig_fixed (ingest_rows db)) (map ig_fixed (ingest_rows (fst (run_ops (ingest_step h g) cs db))))"
proof (induction cs arbitrary: db)
  case (Cons c cs)
  let ?db = "fst (ingest_step h g c db)"
  have "ingest_ok ?db" using Cons.prems by (blast intro: ingest_effect_ok ingest_step_effect)
  from Cons.IH [OF this] ingest_effect_fixed [OF ingest_step_effect [OF Cons.prems, where c = c and h = h and g = g]]
  show ?case by (auto simp: Let_def split_beta intro: prefix_order.trans)
qed simp

lemma ingest_run_row:
  "ingest_ok db \<Longrightarrow> i < length (ingest_rows db) \<Longrightarrow>
    i < length (ingest_rows (fst (run_ops (ingest_step h g) cs db))) \<and>
    status_move\<^sup>*\<^sup>* (ig_processing_status (ingest_rows db ! i))
      (ig_processing_status (ingest_rows (fst (run_ops (ingest_step h g) cs db)) ! i))"
proof (induction cs arbitrary: db)
  case (Cons c cs)
  let ?db = "fst (ingest_step h g c db)"
  have "ingest_ok ?db" using Cons.prems by (blast intro: ingest_effect_ok ingest_step_effect)
  moreover have "i < length (ingest_rows ?db)"
    "status_move (ig_processing_status (ingest_rows db ! i)) (ig_processing_status (ingest_rows ?db ! i))"
    using ingest_effect_row [OF ingest_step_effect [OF Cons.prems(1)] Cons.prems(2)] by auto
  ultimately show ?case using Cons.IH [of ?db]
    by (auto simp: Let_def split_beta intro: converse_rtranclp_into_rtranclp)
qed simp

section \<open>Isolation\<close>

definition ingest_cut :: "string option \<Rightarrow> ingest_db \<Rightarrow> ingest_db" where
  "ingest_cut t db = db\<lparr>ingest_rows := filter (\<lambda>r. Some (ig_tenant_id r) = t) (ingest_rows db),
     ingest_analysts := filter (\<lambda>a. Some (fst a) = t) (ingest_analysts db)\<rparr>"

definition ingest_owner :: "pg \<Rightarrow> ingest_call \<Rightarrow> string option" where
  "ingest_owner g c = uuid_cast g (tenant_id (ingest_caller c))"

lemma ingest_cut_sel [simp]:
  "ingest_rows (ingest_cut t db) = filter (\<lambda>r. Some (ig_tenant_id r) = t) (ingest_rows db)"
  "ingest_analysts (ingest_cut t db) = filter (\<lambda>a. Some (fst a) = t) (ingest_analysts db)"
  by (simp_all add: ingest_cut_def)

lemma ingest_cut_update [simp]:
  "(ingest_cut t db)\<lparr>ingest_rows := filter (\<lambda>r. Some (ig_tenant_id r) = t) rs\<rparr> =
    ingest_cut t (db\<lparr>ingest_rows := rs\<rparr>)"
  by (simp add: ingest_cut_def)

lemma cut_select:
  assumes "\<And>r. P r \<Longrightarrow> Some (ig_tenant_id r) = t"
  shows "select_one P (ingest_rows (ingest_cut t db)) = select_one P (ingest_rows db)"
  using assms by (simp add: select_one_filter)

lemma cut_update_rows:
  assumes "\<And>r. P r \<Longrightarrow> Some (ig_tenant_id r) = t" "\<And>r. P r \<Longrightarrow> ig_tenant_id (f r) = ig_tenant_id r"
  shows "(ingest_cut t db)\<lparr>ingest_rows := update_rows P f (ingest_rows (ingest_cut t db))\<rparr> =
    ingest_cut t (db\<lparr>ingest_rows := update_rows P f (ingest_rows db)\<rparr>)"
proof -
  let ?Q = "\<lambda>r. Some (ig_tenant_id r) = t"
  have "filter ?Q (update_rows P f rs) = update_rows P f (filter ?Q rs)" for rs
    using assms by (induction rs) (auto simp: update_rows_def)
  then show ?thesis by (simp add: ingest_cut_def)
qed

lemma cut_update_envelope:
  assumes "\<And>r. ig_tenant_id (f r) = ig_tenant_id r"
  shows "update_envelope t i allowed f (ingest_cut (Some t) db) =
    (ingest_cut (Some t) (fst (update_envelope t i allowed f db)), snd (update_envelope t i allowed f db))"
proof -
  define hit where "hit = (\<lambda>r. ingest_pkey r = (t, i) \<and> allowed (ig_processing_status r))"
  have P: "hit r \<Longrightarrow> Some (ig_tenant_id r) = Some t" for r
    by (simp add: hit_def ingest_pkey_def)
  show ?thesis
    using cut_update_rows [of hit "Some t" f db, OF P assms] cut_select [of hit "Some t" db, OF P]
    by (simp add: update_envelope_def Let_def hit_def [symmetric])
qed

lemma cut_get:
  assumes "uuid_cast g (tenant_id p) = Some t"
  shows "get_envelope g p i (ingest_cut (Some t) db) = get_envelope g p i db"
proof -
  have "select_one (\<lambda>r. ingest_pkey r = (t, i)) (ingest_rows (ingest_cut (Some t) db)) =
      select_one (\<lambda>r. ingest_pkey r = (t, i)) (ingest_rows db)"
    by (rule cut_select) (simp add: ingest_pkey_def)
  with assms show ?thesis by (simp add: get_envelope_def uuid_column_def)
qed

lemma cut_frame_rows:
  assumes "\<And>r. P r \<Longrightarrow> Some (ig_tenant_id r) \<noteq> b" "\<And>r. ig_tenant_id (f r) = ig_tenant_id r"
  shows "ingest_cut b (db\<lparr>ingest_rows := update_rows P f (ingest_rows db)\<rparr>) = ingest_cut b db"
  using assms by (simp add: ingest_cut_def filter_update_rows_other)

lemma update_envelope_frame:
  assumes "Some t \<noteq> b" "\<And>r. ig_tenant_id (f r) = ig_tenant_id r"
  shows "ingest_cut b (fst (update_envelope t i allowed f db)) = ingest_cut b db"
  unfolding update_envelope_def Let_def fst_conv
  by (rule cut_frame_rows) (use assms in \<open>auto simp: ingest_pkey_def\<close>)

lemma cut_insert:
  assumes "Some (ig_tenant_id r) = t"
  shows "insert_ingest r (ingest_cut t db) =
    (case insert_ingest r db of Inl e \<Rightarrow> Inl e | Inr (db', x) \<Rightarrow> Inr (ingest_cut t db', x))"
proof -
  have k: "holds_key ingest_idem_key (ingest_idem_key r) (ingest_rows (ingest_cut t db)) =
      holds_key ingest_idem_key (ingest_idem_key r) (ingest_rows db)"
    "holds_key ingest_pkey (ingest_pkey r) (ingest_rows (ingest_cut t db)) =
      holds_key ingest_pkey (ingest_pkey r) (ingest_rows db)"
    using assms by (auto simp: ingest_idem_key_def ingest_pkey_def intro!: holds_key_filter)
  then show ?thesis
    using assms by (auto simp: insert_ingest_def insert_or_ignore_def ingest_cut_def)
qed

lemma resolve_existing_tenant: "ig_tenant_id (resolve_existing sha c row r) = ig_tenant_id r"
  by (simp add: resolve_existing_def mark_conflict_def mark_duplicate_def)

lemma cut_store_preview:
  assumes t: "uuid_cast g (tenant_id p) = t"
  shows "store_preview h g p e u n c (ingest_cut t db) =
    (ingest_cut t (fst (store_preview h g p e u n c db)), snd (store_preview h g p e u n c db))"
proof (cases "envelope_row h g p e u n c")
  case (Inl a)
  then show ?thesis by (simp add: store_preview_def)
next
  case (Inr new)
  with t have tn: "Some (ig_tenant_id new) = t" using envelope_row_tenant by fastforce
  define same where "same = (\<lambda>r. ingest_idem_key r = ingest_idem_key new)"
  have P: "\<And>r. same r \<Longrightarrow> Some (ig_tenant_id r) = t"
    using tn by (auto simp: same_def ingest_idem_key_def)
  have sel: "select_one same (filter (\<lambda>r. Some (ig_tenant_id r) = t) (ingest_rows db')) =
      select_one same (ingest_rows db')" for db'
    by (rule select_one_filter) (rule P)
  have upd: "(ingest_cut t db')\<lparr>ingest_rows := update_rows same (resolve_existing s c row)
        (filter (\<lambda>r. Some (ig_tenant_id r) = t) (ingest_rows db'))\<rparr> =
      ingest_cut t (db'\<lparr>ingest_rows := update_rows same (resolve_existing s c row) (ingest_rows db')\<rparr>)"
    for s row db'
    using cut_update_rows [of same t "resolve_existing s c row" db'] P
    by (simp add: resolve_existing_tenant)
  show ?thesis
    by (auto simp: store_preview_def Inr cut_insert [OF tn] Let_def same_def [symmetric] sel upd wb_result
        split: sum.splits prod.splits option.splits)
qed

lemma store_preview_frame:
  assumes "uuid_cast g (tenant_id p) \<noteq> b"
  shows "ingest_cut b (fst (store_preview h g p e u n c db)) = ingest_cut b db"
proof (cases "envelope_row h g p e u n c")
  case (Inl a)
  then show ?thesis by (simp add: store_preview_def)
next
  case (Inr new)
  with assms have tn: "Some (ig_tenant_id new) \<noteq> b" using envelope_row_tenant by fastforce
  then have upd: "ingest_cut b (db'\<lparr>ingest_rows :=
      update_rows (\<lambda>r. ingest_idem_key r = ingest_idem_key new) (resolve_existing s c row) (ingest_rows db')\<rparr>) =
      ingest_cut b db'" for s row db'
    by (intro cut_frame_rows) (auto simp: ingest_idem_key_def resolve_existing_tenant)
  have ins: "ingest_cut b db' = ingest_cut b db" if "insert_ingest new db = Inr (db', ret)" for db' ret
    using insert_ingest_cases [OF that] tn by (auto simp: ingest_cut_def)
  show ?thesis
    by (auto simp: store_preview_def Inr wb_result Let_def upd ins
        split: sum.splits prod.splits option.splits)
qed

lemma ingest_step_frame:
  assumes "ingest_owner g c \<noteq> b"
  shows "ingest_cut b (fst (ingest_step h g c db)) = ingest_cut b db"
  using assms
  by (cases c) (auto simp: ingest_owner_def store_preview_frame approve_envelope_def apply_commit_def
      mark_quarantined_def uuid_column_def update_envelope_frame Let_def split_beta split: option.splits)

interpretation ingest_iso: tenant_restricted "ingest_step h g" "ingest_owner g" ingest_cut for h g
proof
  fix c b db
  show "ingest_cut b (fst (ingest_step h g c db)) = ingest_cut b db" if "ingest_owner g c \<noteq> b"
    using that by (rule ingest_step_frame)
next
  fix c b db
  assume "ingest_owner g c = b"
  then have b: "uuid_cast g (tenant_id (ingest_caller c)) = b" by (simp add: ingest_owner_def)
  show "ingest_step h g c (ingest_cut b db) =
      (ingest_cut b (fst (ingest_step h g c db)), snd (ingest_step h g c db))"
  proof (cases b)
    case None
    then show ?thesis
      using b by (cases c) (auto simp: cut_store_preview get_envelope_def approve_envelope_def apply_commit_def
        mark_quarantined_def uuid_column_def)
  next
    case (Some t)
    then show ?thesis
      using b by (cases c) (auto simp: cut_store_preview cut_get approve_envelope_def apply_commit_def
        mark_quarantined_def uuid_column_def cut_update_envelope Let_def split_beta split: option.splits)
  qed
qed

end
