(* ===== verification/Timeline_Flags.thy ===== *)
theory Timeline_Flags
  imports Ingest_Repo
begin

text \<open>
  \<^verbatim>\<open>TimelineFlagRepository\<close> of \<^verbatim>\<open>db.py\<close> over the table of
  \<^verbatim>\<open>migrations/0001_create_timeline_entry_flags.sql\<close>.  \<^verbatim>\<open>created_at\<close> is the instant
  itself (microseconds), by which the list is ordered; \<^verbatim>\<open>gen_random_uuid()\<close> and the clock
  are arguments of the call.  Then the facts that make it correct: one flag per analyst and
  entry, no cross-tenant effect, and creation followed by listing.
\<close>

record timeline_flag =
  fl_tenant_id :: string
  fl_flag_id :: string
  fl_timeline_entry_id :: string
  fl_analyst_id :: string
  fl_analyst_name :: string
  fl_created_at :: int
  fl_note :: "string option"

record flag_db =
  flag_rows :: "timeline_flag list"
  flag_analysts :: "(string \<times> string) list"

section \<open>uuid.UUID\<close>

text \<open>\<^verbatim>\<open>int(text, 16)\<close> succeeds: surrounding blanks, a sign, a \<^verbatim>\<open>0x\<close> prefix and single
  underscores between digits are allowed; \<open>UUID\<close> refuses a negative number.\<close>

fun hex_digits_ok :: "bool \<Rightarrow> string \<Rightarrow> bool" where
  "hex_digits_ok after_digit [] = after_digit"
| "hex_digits_ok after_digit (c # cs) =
     (if c = CHR ''_'' then after_digit \<and> hex_digits_ok False cs
      else is_hex_char c \<and> hex_digits_ok True cs)"

definition drop_hex_prefix :: "string \<Rightarrow> string" where
  "drop_hex_prefix s =
     (if prefix ''0x'' s \<or> prefix ''0X'' s
      then (case drop 2 s of [] \<Rightarrow> [] | c # cs \<Rightarrow> if c = CHR ''_'' then cs else c # cs) else s)"

definition int16_ok :: "string \<Rightarrow> bool" where
  "int16_ok s = (let t = strip s in
     case t of [] \<Rightarrow> False
     | c # cs \<Rightarrow>
         if c = CHR ''-'' then hex_digits_ok False (drop_hex_prefix cs) \<and>
           list_all (\<lambda>d. d \<in> set ''0_xX'') cs
         else if c = CHR ''+'' then hex_digits_ok False (drop_hex_prefix cs)
         else hex_digits_ok False (drop_hex_prefix t))"

definition strip_braces :: "string \<Rightarrow> string" where
  "strip_braces s =
     (let b = (\<lambda>c. c \<in> set ''{}'') in rev (dropWhile b (rev (dropWhile b s))))"

definition is_uuid :: "string \<Rightarrow> bool" where
  "is_uuid val =
     (let hex = filter (\<lambda>c. c \<noteq> CHR ''-'')
                  (strip_braces (str_replace ''uuid:'' [] (str_replace ''urn:'' [] val)))
      in length hex = 32 \<and> int16_ok hex)"

section \<open>The table\<close>

definition flag_key :: "timeline_flag \<Rightarrow> string \<times> string \<times> string" where
  "flag_key r = (fl_tenant_id r, fl_timeline_entry_id r, fl_analyst_id r)"

definition flag_pkey :: "timeline_flag \<Rightarrow> string \<times> string" where
  "flag_pkey r = (fl_tenant_id r, fl_flag_id r)"

definition btrim :: "string \<Rightarrow> string" where
  "btrim s = (let b = (\<lambda>c. c = CHR '' '') in rev (dropWhile b (rev (dropWhile b s))))"

definition flag_checks :: "timeline_flag \<Rightarrow> bool" where
  "flag_checks r = (btrim (fl_timeline_entry_id r) \<noteq> [] \<and> btrim (fl_analyst_name r) \<noteq> [])"

definition insert_flag :: "timeline_flag \<Rightarrow> flag_db \<Rightarrow> repo_error + (flag_db \<times> timeline_flag option)" where
  "insert_flag r db =
     (if \<not> flag_checks r then Inl (DatabaseError ''CheckViolation'')
      else if holds_key flag_key (flag_key r) (flag_rows db) then Inr (db, None)
      else if holds_key flag_pkey (flag_pkey r) (flag_rows db) then Inl (DatabaseError ''UniqueViolation'')
      else if (fl_tenant_id r, fl_analyst_id r) \<notin> set (flag_analysts db)
        then Inl (DatabaseError ''ForeignKeyViolation'')
      else Inr (db\<lparr>flag_rows := insert_or_ignore flag_key r (flag_rows db)\<rparr>, Some r))"

section \<open>The methods\<close>

fun entry_id_ok :: "json \<Rightarrow> bool" where
  "entry_id_ok (JStr s) = (strip s \<noteq> [])"
| "entry_id_ok v = False"

definition flag_name :: "principal \<Rightarrow> string option \<Rightarrow> string" where
  "flag_name p analyst_name =
     strip (case analyst_name of None \<Rightarrow> analyst_id p | Some n \<Rightarrow> if n = [] then analyst_id p else n)"

text \<open>The note is bound to a nullable text column.\<close>

definition note_column :: "pg \<Rightarrow> json \<Rightarrow> repo_error + string option" where
  "note_column g v = (case text_param g v of
     None \<Rightarrow> Inl (DatabaseError ''ProgrammingError'') | Some t \<Rightarrow> Inr t)"

text \<open>The checks and the row to insert, then the INSERT and the fetch of the row that was there.\<close>

definition new_flag :: "pg \<Rightarrow> principal \<Rightarrow> json \<Rightarrow> json \<Rightarrow> string option \<Rightarrow> string \<Rightarrow> int \<Rightarrow> repo_error + timeline_flag" where
  "new_flag g p timeline_entry_id note analyst_name new_id clock =
     (if \<not> entry_id_ok timeline_entry_id
      then Inl (ValueError ''timeline_entry_id must be non-empty string'')
      else if flag_name p analyst_name = [] then Inl (ValueError ''analyst_name must be non-empty'')
      else if \<not> is_uuid (tenant_id p) \<or> \<not> is_uuid (analyst_id p)
      then Inl (ValueError ''For DB-backed operations, principal.tenant_id and analyst_id must be UUID strings'')
      else
        r_bind (uuid_column g (tenant_id p)) (\<lambda>tenant.
        r_bind (uuid_column g (analyst_id p)) (\<lambda>analyst.
        r_bind (note_column g note) (\<lambda>nt.
        Inr \<lparr>fl_tenant_id = tenant, fl_flag_id = new_id,
             fl_timeline_entry_id = strip (the_str timeline_entry_id),
             fl_analyst_id = analyst, fl_analyst_name = flag_name p analyst_name,
             fl_created_at = clock, fl_note = nt\<rparr>))))"

definition save_flag :: "timeline_flag \<Rightarrow> flag_db \<Rightarrow> repo_error + (flag_db \<times> timeline_flag)" where
  "save_flag r db =
     r_bind (insert_flag r db) (\<lambda>(db', ret).
       case ret of Some row \<Rightarrow> Inr (db', row)
       | None \<Rightarrow>
           (case select_one (\<lambda>x. flag_key x = flag_key r) (flag_rows db') of
              None \<Rightarrow> Inl (RuntimeError ''insert returned no row and no existing row found'')
            | Some row \<Rightarrow> Inr (db', row)))"

definition create_flag ::
  "pg \<Rightarrow> principal \<Rightarrow> json \<Rightarrow> json \<Rightarrow> string option \<Rightarrow> string \<Rightarrow> int \<Rightarrow> flag_db \<Rightarrow>
   flag_db \<times> (repo_error + timeline_flag)" where
  "create_flag g p timeline_entry_id note analyst_name new_id clock db =
     (case r_bind (new_flag g p timeline_entry_id note analyst_name new_id clock) (\<lambda>r. save_flag r db)
      of Inl e \<Rightarrow> (db, Inl e) | Inr (db', row) \<Rightarrow> (db', Inr row))"

definition list_for_entry ::
  "pg \<Rightarrow> principal \<Rightarrow> json \<Rightarrow> flag_db \<Rightarrow> repo_error + timeline_flag list" where
  "list_for_entry g p timeline_entry_id db =
     (if \<not> entry_id_ok timeline_entry_id then Inr []
      else if \<not> is_uuid (tenant_id p) then Inr []
      else r_bind (uuid_column g (tenant_id p)) (\<lambda>tenant.
        Inr (sort_key (\<lambda>r. - fl_created_at r)
          (select_rows (\<lambda>r. fl_tenant_id r = tenant \<and>
             fl_timeline_entry_id r = strip (the_str timeline_entry_id)) (flag_rows db)))))"

datatype flag_call =
    CreateFlag principal json json "string option" string int
  | ListFlags principal json

datatype flag_answer = OneFlag "repo_error + timeline_flag" | FlagList "repo_error + timeline_flag list"

fun flag_caller :: "flag_call \<Rightarrow> principal" where
  "flag_caller (CreateFlag p e n a i c) = p"
| "flag_caller (ListFlags p e) = p"

fun flag_step :: "pg \<Rightarrow> flag_call \<Rightarrow> flag_db \<Rightarrow> flag_db \<times> flag_answer" where
  "flag_step g (CreateFlag p e n a i c) db = (let (db', r) = create_flag g p e n a i c db in (db', OneFlag r))"
| "flag_step g (ListFlags p e) db = (db, FlagList (list_for_entry g p e db))"

section \<open>Lemmas\<close>

interpretation flag_table: unique_table flag_key "insert_or_ignore flag_key" "\<lambda>u r. r\<lparr>fl_note := u\<rparr>"
  by unfold_locales (auto simp: insert_or_ignore_def holds_key_iff flag_key_def)

definition flag_ok :: "flag_db \<Rightarrow> bool" where
  "flag_ok db = (unique_by flag_key (flag_rows db) \<and> unique_by flag_pkey (flag_rows db) \<and>
     (\<forall>r\<in>set (flag_rows db). flag_checks r))"

lemma insert_flag_cases:
  assumes "insert_flag r db = Inr (db', ret)"
  shows "(db' = db \<and> ret = None \<and> holds_key flag_key (flag_key r) (flag_rows db)) \<or>
    (db' = db\<lparr>flag_rows := insert_or_ignore flag_key r (flag_rows db)\<rparr> \<and> ret = Some r \<and>
     \<not> holds_key flag_key (flag_key r) (flag_rows db) \<and>
     \<not> holds_key flag_pkey (flag_pkey r) (flag_rows db) \<and> flag_checks r)"
  using assms by (auto simp: insert_flag_def split: if_splits)

lemma new_flag_Inr:
  assumes "new_flag g p e n a i c = Inr r"
  shows "uuid_cast g (tenant_id p) = Some (fl_tenant_id r) \<and> uuid_cast g (analyst_id p) = Some (fl_analyst_id r) \<and>
    fl_timeline_entry_id r = strip (the_str e) \<and> entry_id_ok e \<and> is_uuid (tenant_id p) \<and>
    fl_created_at r = c \<and> fl_analyst_name r = flag_name p a \<and> fl_analyst_name r \<noteq> []"
  using assms
  by (auto simp: new_flag_def wb_result uuid_column_def split: if_splits option.splits)

text \<open>The table holds the row of the key afterwards, and it is the answer.\<close>

lemma save_flag_Inr:
  assumes "save_flag r db = Inr (db', row)"
  shows "db' = db\<lparr>flag_rows := insert_or_ignore flag_key r (flag_rows db)\<rparr> \<and>
    select_one (\<lambda>x. flag_key x = flag_key r) (flag_rows db') = Some row \<and>
    (db' = db \<or> row = r \<and> flag_checks r \<and> \<not> holds_key flag_key (flag_key r) (flag_rows db) \<and>
       \<not> holds_key flag_pkey (flag_pkey r) (flag_rows db))"
proof -
  from assms obtain db1 ret where i: "insert_flag r db = Inr (db1, ret)"
    and k: "(case ret of Some row \<Rightarrow> Inr (db1, row)
       | None \<Rightarrow>
           (case select_one (\<lambda>x. flag_key x = flag_key r) (flag_rows db1) of
              None \<Rightarrow> Inl (RuntimeError ''insert returned no row and no existing row found'')
            | Some row \<Rightarrow> Inr (db1, row))) = Inr (db', row)"
    by (auto simp: save_flag_def wb_result)
  from k have sel: "ret = Some row \<or> ret = None \<and> select_one (\<lambda>x. flag_key x = flag_key r) (flag_rows db') = Some row"
    and "db1 = db'" by (auto split: option.splits)
  with i have ins: "insert_flag r db = Inr (db', ret)" by simp
  from insert_flag_cases [OF ins] show ?thesis
  proof (elim disjE conjE)
    assume "db' = db" "ret = None" "holds_key flag_key (flag_key r) (flag_rows db)"
    with sel show ?thesis by (simp add: insert_or_ignore_def)
  next
    assume new: "db' = db\<lparr>flag_rows := insert_or_ignore flag_key r (flag_rows db)\<rparr>" "ret = Some r"
      "\<not> holds_key flag_key (flag_key r) (flag_rows db)" "\<not> holds_key flag_pkey (flag_pkey r) (flag_rows db)"
      "flag_checks r"
    then have "select_one (\<lambda>x. flag_key x = flag_key r) (flag_rows db) = None"
      by (auto simp: select_one_None_iff holds_key_def list_ex_iff)
    with new sel flag_table.lookup_ins [of r "flag_rows db"] show ?thesis by auto
  qed
qed

lemma create_flag_Inr_iff:
  "create_flag g p e n a i c db = (db', Inr row) \<longleftrightarrow>
     (\<exists>r. new_flag g p e n a i c = Inr r \<and> save_flag r db = Inr (db', row))"
  by (auto simp: create_flag_def wb_result split: sum.splits)

lemma create_flag_error: "snd (create_flag g p e n a i c db) = Inl err \<Longrightarrow> fst (create_flag g p e n a i c db) = db"
  by (auto simp: create_flag_def split: sum.splits)

text \<open>The one place that writes: the state after a call is the old one, or the old one with
  one row of the caller's tenant appended under fresh keys.\<close>

lemma create_flag_effect:
  "fst (create_flag g p e n a i c db) = db \<or>
   (\<exists>r. uuid_cast g (tenant_id p) = Some (fl_tenant_id r) \<and> flag_checks r \<and>
      \<not> holds_key flag_key (flag_key r) (flag_rows db) \<and>
      \<not> holds_key flag_pkey (flag_pkey r) (flag_rows db) \<and>
      fst (create_flag g p e n a i c db) = db\<lparr>flag_rows := flag_rows db @ [r]\<rparr>)"
proof (cases "create_flag g p e n a i c db")
  case (Pair db' res)
  show ?thesis
  proof (cases res)
    case (Inl err)
    with Pair create_flag_error [of g p e n a i c db err] show ?thesis by simp
  next
    case (Inr row)
    with Pair obtain r where r: "new_flag g p e n a i c = Inr r" "save_flag r db = Inr (db', row)"
      by (auto simp: create_flag_Inr_iff)
    from save_flag_Inr [OF r(2)] new_flag_Inr [OF r(1)] Pair show ?thesis
      by (auto simp: insert_or_ignore_def)
  qed
qed

lemma create_flag_ok: "flag_ok db \<Longrightarrow> flag_ok (fst (create_flag g p e n a i c db))"
  using create_flag_effect [of g p e n a i c db]
  by (auto simp: flag_ok_def unique_by_append)

lemma flag_step_ok: "flag_ok db \<Longrightarrow> flag_ok (fst (flag_step g c db))"
  by (cases c) (auto simp: Let_def split_beta create_flag_ok)

section \<open>Isolation\<close>

definition flag_cut :: "string option \<Rightarrow> flag_db \<Rightarrow> flag_db" where
  "flag_cut t db = db\<lparr>flag_rows := filter (\<lambda>r. Some (fl_tenant_id r) = t) (flag_rows db),
     flag_analysts := filter (\<lambda>a. Some (fst a) = t) (flag_analysts db)\<rparr>"

definition flag_owner :: "pg \<Rightarrow> flag_call \<Rightarrow> string option" where
  "flag_owner g c = uuid_cast g (tenant_id (flag_caller c))"

lemma cut_insert_flag:
  assumes "Some (fl_tenant_id r) = t"
  shows "insert_flag r (flag_cut t db) =
    (case insert_flag r db of Inl e \<Rightarrow> Inl e | Inr (db', x) \<Rightarrow> Inr (flag_cut t db', x))"
proof -
  let ?Q = "\<lambda>r. Some (fl_tenant_id r) = t"
  have k: "holds_key flag_key (flag_key r) (filter ?Q (flag_rows db)) = holds_key flag_key (flag_key r) (flag_rows db)"
    "holds_key flag_pkey (flag_pkey r) (filter ?Q (flag_rows db)) = holds_key flag_pkey (flag_pkey r) (flag_rows db)"
    using assms by (auto simp: flag_key_def flag_pkey_def intro!: holds_key_filter)
  then show ?thesis
    using assms by (auto simp: insert_flag_def insert_or_ignore_def flag_cut_def)
qed

lemma flag_step_frame:
  "flag_owner g c \<noteq> b \<Longrightarrow> flag_cut b (fst (flag_step g c db)) = flag_cut b db"
proof (cases c)
  case (CreateFlag p e n a i cl)
  assume "flag_owner g c \<noteq> b"
  with CreateFlag create_flag_effect [of g p e n a i cl db] show ?thesis
    by (auto simp: flag_owner_def flag_cut_def Let_def split_beta)
qed simp

lemma cut_select_flag:
  assumes "\<And>r. P r \<Longrightarrow> Some (fl_tenant_id r) = t"
  shows "select_one P (flag_rows (flag_cut t db)) = select_one P (flag_rows db)"
    "select_rows P (flag_rows (flag_cut t db)) = select_rows P (flag_rows db)"
proof -
  show "select_one P (flag_rows (flag_cut t db)) = select_one P (flag_rows db)"
    using assms by (simp add: flag_cut_def select_one_filter)
  have "(\<lambda>r. Some (fl_tenant_id r) = t \<and> P r) = P" using assms by blast
  then show "select_rows P (flag_rows (flag_cut t db)) = select_rows P (flag_rows db)"
    by (simp add: flag_cut_def select_rows_def)
qed

lemma save_flag_cut:
  assumes "Some (fl_tenant_id r) = t"
  shows "save_flag r (flag_cut t db) =
    (case save_flag r db of Inl e \<Rightarrow> Inl e | Inr (db', x) \<Rightarrow> Inr (flag_cut t db', x))"
proof -
  have sel: "select_one (\<lambda>x. flag_key x = flag_key r) (flag_rows (flag_cut t db')) =
      select_one (\<lambda>x. flag_key x = flag_key r) (flag_rows db')" for db'
    by (rule cut_select_flag) (use assms in \<open>simp add: flag_key_def\<close>)
  show ?thesis
    by (auto simp: save_flag_def cut_insert_flag [OF assms] sel split: sum.splits prod.splits option.splits)
qed

lemma create_flag_cut:
  assumes t: "uuid_cast g (tenant_id p) = t"
  shows "create_flag g p e n a i c (flag_cut t db) =
    (flag_cut t (fst (create_flag g p e n a i c db)), snd (create_flag g p e n a i c db))"
proof (cases "new_flag g p e n a i c")
  case (Inl err)
  then show ?thesis by (simp add: create_flag_def)
next
  case (Inr r)
  with t new_flag_Inr [OF Inr] have "Some (fl_tenant_id r) = t" by simp
  from save_flag_cut [OF this] Inr show ?thesis
    by (auto simp: create_flag_def split: sum.splits)
qed

lemma list_flags_cut:
  assumes t: "uuid_cast g (tenant_id p) = t"
  shows "list_for_entry g p e (flag_cut t db) = list_for_entry g p e db"
proof (cases t)
  case (Some tn)
  have "select_rows (\<lambda>r. fl_tenant_id r = tn \<and> fl_timeline_entry_id r = x) (flag_rows (flag_cut (Some tn) db)) =
      select_rows (\<lambda>r. fl_tenant_id r = tn \<and> fl_timeline_entry_id r = x) (flag_rows db)" for x
    by (rule cut_select_flag) simp
  with t Some show ?thesis by (simp add: list_for_entry_def uuid_column_def)
qed (use t in \<open>simp add: list_for_entry_def uuid_column_def\<close>)

interpretation flag_iso: tenant_restricted "flag_step g" "flag_owner g" flag_cut for g
proof
  show "flag_owner g c = b \<Longrightarrow> flag_step g c (flag_cut b db) =
      (flag_cut b (fst (flag_step g c db)), snd (flag_step g c db))" for c b db
    by (cases c) (auto simp: flag_owner_def create_flag_cut list_flags_cut Let_def split_beta)
qed (rule flag_step_frame)

end
