(* ===== verification/File_System.thy ===== *)
theory File_System
  imports Json
begin

text \<open>
  The file system the evidence store and the staging harness work on: an association list
  from paths to nodes (so a directory can be listed), with owner permission bits.  What the
  operating system decides is in \<open>os\<close>: \<^verbatim>\<open>Path.resolve\<close> (symbolic links), and from Python's
  library the JSON codec, the digest of a file's bytes and the ISO rendering of instants.
\<close>

type_synonym path = "string list"

datatype node = File string nat | Dir nat | Link path

type_synonym fs = "(path \<times> node) list"

datatype sys_error = CodeError string string | OsError string | PyErr string

record os =
  realpath :: "fs \<Rightarrow> path \<Rightarrow> path"
  dumps :: "json \<Rightarrow> string"
  loads :: "string \<Rightarrow> json option"
  sha_bytes :: "string \<Rightarrow> string"
  iso_of :: "int \<Rightarrow> string"
  of_iso :: "string \<Rightarrow> int option"

definition lookup :: "fs \<Rightarrow> path \<Rightarrow> node option" where
  "lookup f p = map_of f p"

definition set_node :: "path \<Rightarrow> node \<Rightarrow> fs \<Rightarrow> fs" where
  "set_node p n f = AList.update p n f"

definition del_node :: "path \<Rightarrow> fs \<Rightarrow> fs" where
  "del_node p f = filter (\<lambda>x. fst x \<noteq> p) f"

definition del_tree :: "path \<Rightarrow> fs \<Rightarrow> fs" where
  "del_tree p f = filter (\<lambda>x. \<not> prefix p (fst x)) f"

definition w_bit :: "nat \<Rightarrow> bool" where "w_bit m = (m div 128 mod 2 = 1)"
definition r_bit :: "nat \<Rightarrow> bool" where "r_bit m = (m div 256 mod 2 = 1)"

text \<open>\<^verbatim>\<open>stat\<close> follows links, \<^verbatim>\<open>lstat\<close> does not.\<close>

definition stat_node :: "os \<Rightarrow> fs \<Rightarrow> path \<Rightarrow> node option" where
  "stat_node w f p = lookup f (realpath w f p)"

definition p_exists :: "os \<Rightarrow> fs \<Rightarrow> path \<Rightarrow> bool" where
  "p_exists w f p = (stat_node w f p \<noteq> None)"

definition is_file :: "os \<Rightarrow> fs \<Rightarrow> path \<Rightarrow> bool" where
  "is_file w f p = (case stat_node w f p of Some (File c m) \<Rightarrow> True | _ \<Rightarrow> False)"

definition is_dir :: "os \<Rightarrow> fs \<Rightarrow> path \<Rightarrow> bool" where
  "is_dir w f p = (case stat_node w f p of Some (Dir m) \<Rightarrow> True | _ \<Rightarrow> False)"

definition is_symlink :: "fs \<Rightarrow> path \<Rightarrow> bool" where
  "is_symlink f p = (case lookup f p of Some (Link t) \<Rightarrow> True | _ \<Rightarrow> False)"

text \<open>\<^verbatim>\<open>Path.is_symlink\<close> follows the links above the last component only.\<close>

definition lstat_link :: "os \<Rightarrow> fs \<Rightarrow> path \<Rightarrow> bool" where
  "lstat_link w f p = (p \<noteq> [] \<and> is_symlink f (realpath w f (butlast p) @ [last p]))"

definition mkdir :: "os \<Rightarrow> nat \<Rightarrow> path \<Rightarrow> bool \<Rightarrow> fs \<Rightarrow> sys_error + fs" where
  "mkdir w mode p exist_ok f =
     (if p_exists w f p
      then (if exist_ok \<and> is_dir w f p then Inr f else Inl (OsError ''FileExistsError''))
      else if list_ex (\<lambda>q. is_file w f q) (prefixes p) then Inl (OsError ''NotADirectoryError'')
      else Inr (fold (\<lambda>q g. if lookup g q = None
                  then set_node q (Dir (if q = p then mode else 493)) g else g) (prefixes p) f))"

definition write_file :: "os \<Rightarrow> path \<Rightarrow> string \<Rightarrow> fs \<Rightarrow> sys_error + fs" where
  "write_file w p c f =
     (let q = realpath w f p in
      case lookup f q of
        Some (File old m) \<Rightarrow> if w_bit m then Inr (set_node q (File c m) f) else Inl (OsError ''PermissionError'')
      | Some (Dir m) \<Rightarrow> Inl (OsError ''IsADirectoryError'')
      | Some (Link t) \<Rightarrow> Inl (OsError ''OSError'')
      | None \<Rightarrow>
          (case lookup f (butlast q) of
             Some (Dir m) \<Rightarrow> if w_bit m then Inr (set_node q (File c 420) f) else Inl (OsError ''PermissionError'')
           | _ \<Rightarrow> Inl (OsError ''FileNotFoundError'')))"

definition read_file :: "os \<Rightarrow> path \<Rightarrow> fs \<Rightarrow> sys_error + string" where
  "read_file w p f =
     (case stat_node w f p of
        Some (File c m) \<Rightarrow> if r_bit m then Inr c else Inl (OsError ''PermissionError'')
      | Some (Dir m) \<Rightarrow> Inl (OsError ''IsADirectoryError'')
      | _ \<Rightarrow> Inl (OsError ''FileNotFoundError''))"

definition file_size :: "os \<Rightarrow> path \<Rightarrow> fs \<Rightarrow> sys_error + int" where
  "file_size w p f =
     (case stat_node w f p of
        Some (File c m) \<Rightarrow> Inr (int (length c))
      | Some n \<Rightarrow> Inr 0
      | None \<Rightarrow> Inl (OsError ''FileNotFoundError''))"

definition chmod :: "os \<Rightarrow> path \<Rightarrow> nat \<Rightarrow> fs \<Rightarrow> sys_error + fs" where
  "chmod w p mode f =
     (let q = realpath w f p in
      case lookup f q of
        Some (File c m) \<Rightarrow> Inr (set_node q (File c mode) f)
      | Some (Dir m) \<Rightarrow> Inr (set_node q (Dir mode) f)
      | _ \<Rightarrow> Inl (OsError ''FileNotFoundError''))"

text \<open>\<^verbatim>\<open>os.replace\<close> of a regular file inside one directory.\<close>

definition replace_file :: "path \<Rightarrow> path \<Rightarrow> fs \<Rightarrow> sys_error + fs" where
  "replace_file src dst f =
     (case lookup f src of
        Some (File c m) \<Rightarrow> Inr (set_node dst (File c m) (del_node src f))
      | _ \<Rightarrow> Inl (OsError ''FileNotFoundError''))"

definition unlink_missing_ok :: "path \<Rightarrow> fs \<Rightarrow> fs" where
  "unlink_missing_ok p f = del_node p f"

text \<open>\<^verbatim>\<open>shutil.rmtree\<close> needs write permission on every directory it empties.\<close>

definition rmtree :: "path \<Rightarrow> fs \<Rightarrow> sys_error + fs" where
  "rmtree p f =
     (case lookup f p of
        Some (Dir m) \<Rightarrow>
          (if list_all (\<lambda>x. prefix p (fst x) \<longrightarrow> (case snd x of Dir d \<Rightarrow> w_bit d | _ \<Rightarrow> True)) f
           then Inr (del_tree p f) else Inl (OsError ''PermissionError''))
      | Some n \<Rightarrow> Inl (OsError ''NotADirectoryError'')
      | None \<Rightarrow> Inl (OsError ''FileNotFoundError''))"

definition rmtree_ignore :: "path \<Rightarrow> fs \<Rightarrow> fs" where
  "rmtree_ignore p f = (case rmtree p f of Inl e \<Rightarrow> f | Inr f' \<Rightarrow> f')"

definition iterdir :: "path \<Rightarrow> fs \<Rightarrow> path list" where
  "iterdir p f = filter (\<lambda>q. q \<noteq> [] \<and> butlast q = p) (map fst f)"

text \<open>\<^verbatim>\<open>Path.rglob("*")\<close> passes silently over what it may not list: a path is found when no directory
  between the start and it is unreadable.\<close>

definition opaque_dir :: "fs \<Rightarrow> path \<Rightarrow> bool" where
  "opaque_dir f p = (case lookup f p of Some (Dir m) \<Rightarrow> \<not> r_bit m | _ \<Rightarrow> False)"

definition listable :: "path \<Rightarrow> fs \<Rightarrow> path \<Rightarrow> bool" where
  "listable src f p = list_all (\<lambda>q. prefix src q \<and> q \<noteq> p \<longrightarrow> \<not> opaque_dir f q) (prefixes p)"

definition rglob :: "path \<Rightarrow> fs \<Rightarrow> path list" where
  "rglob src f = filter (\<lambda>p. strict_prefix src p \<and> listable src f p) (map fst f)"

section \<open>Lookups\<close>

named_theorems wb_fs

lemma lookup_set_node [wb_fs]: "lookup (set_node p n f) q = (if q = p then Some n else lookup f q)"
  by (simp add: lookup_def set_node_def dict_get_update)

lemma map_of_filter_key: "map_of (filter (\<lambda>x. P (fst x)) f) k = (if P k then map_of f k else None)"
  by (induction f) auto

lemma lookup_del_node [wb_fs]: "lookup (del_node p f) q = (if q = p then None else lookup f q)"
  using map_of_filter_key [of "\<lambda>k. k \<noteq> p" f q] by (simp add: lookup_def del_node_def)

lemma lookup_del_tree [wb_fs]: "lookup (del_tree p f) q = (if prefix p q then None else lookup f q)"
  using map_of_filter_key [of "\<lambda>k. \<not> prefix p k" f q] by (simp add: lookup_def del_tree_def)

lemma lookup_mkdirs:
  "lookup (fold (\<lambda>q g. if lookup g q = None then set_node q (Dir (m q)) g else g) ps f) q =
    (if lookup f q = None \<and> q \<in> set ps then Some (Dir (m q)) else lookup f q)"
  by (induction ps arbitrary: f) (auto simp: wb_fs)

lemma lookup_mkdir:
  "mkdir w mode p ok f = Inr f' \<Longrightarrow> lookup f' q =
    (if lookup f q = None \<and> prefix q p \<and> \<not> p_exists w f p
     then Some (Dir (if q = p then mode else 493)) else lookup f q)"
  unfolding mkdir_def
  by (auto simp: lookup_mkdirs [of "\<lambda>q. if q = p then mode else 493"] split: if_splits)

lemma listable_iff: "listable src f p \<longleftrightarrow> (\<forall>q. prefix src q \<and> strict_prefix q p \<longrightarrow> \<not> opaque_dir f q)"
  by (auto simp: listable_def list_all_iff strict_prefix_def)

lemma in_rglob: "p \<in> set (rglob src f) \<longleftrightarrow> strict_prefix src p \<and> listable src f p \<and> lookup f p \<noteq> None"
  by (auto simp: rglob_def lookup_def map_of_eq_None_iff)

text \<open>When nothing that is found is an unreadable directory, everything is found.\<close>

lemma nothing_hidden:
  assumes "\<not> opaque_dir f src" "\<And>q. q \<in> set (rglob src f) \<Longrightarrow> \<not> opaque_dir f q" "prefix src p"
  shows "listable src f p"
  using assms(3)
proof (induction p rule: length_induct)
  case (1 p)
  have "\<not> opaque_dir f q" if q: "prefix src q" "strict_prefix q p" for q
  proof
    assume opq: "opaque_dir f q"
    then have "lookup f q \<noteq> None" by (auto simp: opaque_dir_def split: option.splits)
    moreover have "listable src f q" using 1 q prefix_length_less by blast
    moreover have "q \<noteq> src" using opq assms(1) by blast
    ultimately have "q \<in> set (rglob src f)" using q(1) by (simp add: in_rglob strict_prefix_def)
    with assms(2) opq show False by blast
  qed
  then show ?case by (simp add: listable_iff)
qed

lemma listable_cong:
  "(\<And>q. prefix src q \<Longrightarrow> lookup g q = lookup f q) \<Longrightarrow> listable src g p = listable src f p"
  by (auto simp: listable_iff opaque_dir_def)

text \<open>Every writing call changes nothing outside a tree that holds its path.\<close>

definition same_outside :: "path \<Rightarrow> fs \<Rightarrow> fs \<Rightarrow> bool" where
  "same_outside r f f' = (\<forall>q. \<not> prefix r q \<longrightarrow> lookup f' q = lookup f q)"

lemma same_outside_refl: "reflp (same_outside r)"
  by (simp add: reflp_def same_outside_def)

lemma same_outside_trans: "transp (same_outside r)"
  by (auto simp: transp_def same_outside_def)

lemma write_file_outside:
  "write_file w p c f = Inr f' \<Longrightarrow> prefix r (realpath w f p) \<Longrightarrow> same_outside r f f'"
  by (auto simp: write_file_def Let_def same_outside_def wb_fs split: option.splits node.splits if_splits)

lemma chmod_outside:
  "chmod w p m f = Inr f' \<Longrightarrow> prefix r (realpath w f p) \<Longrightarrow> same_outside r f f'"
  by (auto simp: chmod_def Let_def same_outside_def wb_fs split: option.splits node.splits)

lemma replace_file_outside:
  "replace_file a b f = Inr f' \<Longrightarrow> prefix r a \<Longrightarrow> prefix r b \<Longrightarrow> same_outside r f f'"
  by (auto simp: replace_file_def same_outside_def wb_fs split: option.splits node.splits)

lemma del_node_outside: "prefix r p \<Longrightarrow> same_outside r f (del_node p f)"
  by (auto simp: same_outside_def wb_fs)

lemma rmtree_outside: "rmtree p f = Inr f' \<Longrightarrow> prefix r p \<Longrightarrow> same_outside r f f'"
  by (auto simp: rmtree_def same_outside_def wb_fs split: option.splits node.splits if_splits
      dest: prefix_order.trans)

lemma rmtree_ignore_outside: "prefix r p \<Longrightarrow> same_outside r f (rmtree_ignore p f)"
  using rmtree_outside [of p f _ r] same_outside_refl
  by (auto simp: rmtree_ignore_def reflp_def split: sum.splits)

text \<open>A directory's missing ancestors lie outside the tree unless the root is there already.\<close>

lemma mkdir_outside:
  assumes "mkdir w m p ok f = Inr f'" "prefix r p" "\<And>q. prefix q r \<Longrightarrow> q \<noteq> r \<Longrightarrow> lookup f q \<noteq> None"
  shows "same_outside r f f'"
  unfolding same_outside_def
proof (intro allI impI)
  fix q assume q: "\<not> prefix r q"
  show "lookup f' q = lookup f q"
  proof (cases "prefix q p")
    case True
    with assms(2) q have "prefix q r" using prefix_same_cases by blast
    with q assms(3) [of q] lookup_mkdir [OF assms(1), of q] show ?thesis by auto
  qed (use lookup_mkdir [OF assms(1), of q] in auto)
qed

end
