(* ===== verification/Evidence_Store.thy ===== *)
theory Evidence_Store
  imports File_System Tenancy
begin

text \<open>
  \<^verbatim>\<open>evidence_store.py\<close>: the tenant-scoped evidence boundary.  A store value is what
  \<^verbatim>\<open>EvidenceStore.__init__\<close> fixes (root, tenant, limits); each method is an action on the
  file system that keeps what it did before an error.  uuid4, the mkstemp name and the clock
  are arguments.  A manifest or meta file whose JSON has fields of other types than the
  class writes is a \<open>PyErr\<close>.
\<close>

section \<open>Identifiers\<close>

text \<open>
  \<^verbatim>\<open>_ID_RE.match\<close>: one to 64 characters, alphanumeric at both ends, with \<^verbatim>\<open>_\<close> and
  \<^verbatim>\<open>-\<close> inside; \<^verbatim>\<open>$\<close> also matches before a final newline.
\<close>

definition slug :: "string \<Rightarrow> bool" where
  "slug s = (s \<noteq> [] \<and> length s \<le> 64 \<and> is_alnum (hd s) \<and> is_alnum (last s) \<and>
     list_all (\<lambda>c. is_alnum c \<or> c = CHR ''_'' \<or> c = CHR ''-'') s)"

definition newline :: char where "newline = CHR 0x0A"

definition id_match :: "string \<Rightarrow> bool" where
  "id_match v = (slug v \<or> (v \<noteq> [] \<and> last v = newline \<and> slug (butlast v)))"

definition validate_id :: "string \<Rightarrow> string \<Rightarrow> sys_error + string" where
  "validate_id value field =
     (if id_match value then Inr value
      else Inl (CodeError ''INVALID_ID'' (field @ '' must match ^[A-Za-z0-9](?:[A-Za-z0-9_-]{0,62}[A-Za-z0-9])?$'')))"

section \<open>Records\<close>

record quarantine_record =
  q_id :: string
  q_tenant :: string
  q_sha :: string
  q_size :: int
  q_received :: string

record evidence_manifest =
  m_tenant :: string
  m_case :: string
  m_evidence :: string
  m_sha :: string
  m_size :: int
  m_promoted :: string
  m_retention_until :: string
  m_legal_hold :: bool
  m_source_quarantine :: string

record store =
  st_root :: path
  tenant_root :: path
  st_tenant :: string
  st_max :: int
  st_retention_days :: int

definition manifest_json :: "evidence_manifest \<Rightarrow> json" where
  "manifest_json m = JObj
     [(''tenant_id'', JStr (m_tenant m)), (''case_id'', JStr (m_case m)),
      (''evidence_id'', JStr (m_evidence m)), (''sha256'', JStr (m_sha m)), (''size'', JInt (m_size m)),
      (''promoted_at_utc'', JStr (m_promoted m)), (''retention_until_utc'', JStr (m_retention_until m)),
      (''legal_hold'', JBool (m_legal_hold m)), (''source_quarantine_id'', JStr (m_source_quarantine m))]"

text \<open>\<^verbatim>\<open>EvidenceManifest(**data)\<close>: exactly the nine fields, here with the types the class writes.\<close>

definition manifest_keys :: "string list" where
  "manifest_keys = [''tenant_id'', ''case_id'', ''evidence_id'', ''sha256'', ''size'', ''promoted_at_utc'',
     ''retention_until_utc'', ''legal_hold'', ''source_quarantine_id'']"

definition manifest_of :: "dict \<Rightarrow> sys_error + evidence_manifest" where
  "manifest_of d =
     (if \<not> (list_all (\<lambda>k. has_key d k) manifest_keys \<and> list_all (\<lambda>p. fst p \<in> set manifest_keys) d)
      then Inl (PyErr ''TypeError'')
      else case (dget d ''tenant_id'', dget d ''case_id'', dget d ''evidence_id'', dget d ''sha256'', dget d ''size'',
                 dget d ''promoted_at_utc'', dget d ''retention_until_utc'', dget d ''legal_hold'',
                 dget d ''source_quarantine_id'') of
        (JStr t, JStr c, JStr e, JStr h, JInt n, JStr pr, JStr rt, JBool lh, JStr q) \<Rightarrow>
          Inr \<lparr>m_tenant = t, m_case = c, m_evidence = e, m_sha = h, m_size = n, m_promoted = pr,
               m_retention_until = rt, m_legal_hold = lh, m_source_quarantine = q\<rparr>
      | _ \<Rightarrow> Inl (PyErr ''TypeError''))"

definition meta_json :: "quarantine_record \<Rightarrow> json" where
  "meta_json q = JObj [(''quarantine_id'', JStr (q_id q)), (''tenant_id'', JStr (q_tenant q)),
     (''sha256'', JStr (q_sha q)), (''size'', JInt (q_size q)), (''received_at_utc'', JStr (q_received q))]"

definition load_obj :: "os \<Rightarrow> string \<Rightarrow> sys_error + dict" where
  "load_obj w text = (case loads w text of
     None \<Rightarrow> Inl (PyErr ''JSONDecodeError'')
   | Some (JObj d) \<Rightarrow> Inr d
   | Some v \<Rightarrow> Inl (PyErr ''AttributeError''))"

section \<open>Paths\<close>

type_synonym 'a fsact = "(fs, sys_error, 'a) act"

definition require_contained :: "os \<Rightarrow> path \<Rightarrow> path \<Rightarrow> path fsact" where
  "require_contained w p root =
     a_read (\<lambda>f. let r = realpath w f p in
       if prefix root r then Inr r
       else Inl (CodeError ''PATH_TRAVERSAL_REJECTED'' ''resolved path escapes storage root''))"

definition reject_symlink :: "os \<Rightarrow> path \<Rightarrow> unit fsact" where
  "reject_symlink w p =
     a_read (\<lambda>f. if p_exists w f p \<and> is_symlink f p
       then Inl (CodeError ''SYMLINK_REJECTED'' ''symlinked evidence paths are not permitted'') else Inr ())"

definition a_validate :: "string \<Rightarrow> string \<Rightarrow> string fsact" where
  "a_validate v field = a_read (\<lambda>f. validate_id v field)"

definition quarantine_dir :: "os \<Rightarrow> store \<Rightarrow> string \<Rightarrow> path fsact" where
  "quarantine_dir w st quarantine_id =
     a_bind (a_validate quarantine_id ''quarantine_id'') (\<lambda>qid.
       require_contained w (tenant_root st @ [''quarantine'', qid]) (tenant_root st))"

definition case_dir :: "os \<Rightarrow> store \<Rightarrow> string \<Rightarrow> path fsact" where
  "case_dir w st case_id =
     a_bind (a_validate case_id ''case_id'') (\<lambda>cid.
       require_contained w (tenant_root st @ [''cases'', cid]) (tenant_root st))"

definition evidence_dir :: "os \<Rightarrow> store \<Rightarrow> string \<Rightarrow> string \<Rightarrow> path fsact" where
  "evidence_dir w st case_id evidence_id =
     a_bind (a_validate evidence_id ''evidence_id'') (\<lambda>eid.
     a_bind (case_dir w st case_id) (\<lambda>c.
       require_contained w (c @ [''evidence'', eid]) (tenant_root st)))"

definition manifest_path :: "os \<Rightarrow> store \<Rightarrow> string \<Rightarrow> string \<Rightarrow> path fsact" where
  "manifest_path w st case_id evidence_id =
     a_bind (evidence_dir w st case_id evidence_id) (\<lambda>edir.
       a_ret (butlast edir @ [last edir @ ''.manifest.json'']))"

text \<open>\<^verbatim>\<open>EvidenceStore.__init__\<close>; the principal's tenant is the only tenant of the store.\<close>

definition open_store :: "os \<Rightarrow> path \<Rightarrow> principal \<Rightarrow> int \<Rightarrow> int \<Rightarrow> store fsact" where
  "open_store w root p max_bytes retention_days =
     a_bind (a_validate (tenant_id p) ''tenant_id'') (\<lambda>tenant.
     a_bind (a_read (\<lambda>f. Inr (realpath w f root))) (\<lambda>r.
     a_bind (a_step (mkdir w 448 r True)) (\<lambda>_.
     a_bind (a_read (\<lambda>f. Inr (realpath w f (r @ [''tenants'', tenant])))) (\<lambda>troot.
     a_bind (a_guard (prefix r troot)
       (CodeError ''PATH_TRAVERSAL_REJECTED'' ''tenant root escapes storage root'')) (\<lambda>_.
     a_bind (a_step (mkdir w 448 troot True)) (\<lambda>_.
       a_ret \<lparr>st_root = r, tenant_root = troot, st_tenant = tenant, st_max = max_bytes, st_retention_days = retention_days\<rparr>))))))"

section \<open>Quarantine\<close>

definition utc_z :: "os \<Rightarrow> int \<Rightarrow> string" where
  "utc_z w t = str_replace ''+00:00'' ''Z'' (iso_of w t)"

definition ingest_to_quarantine :: "os \<Rightarrow> store \<Rightarrow> path \<Rightarrow> string \<Rightarrow> string \<Rightarrow> int \<Rightarrow> quarantine_record fsact" where
  "ingest_to_quarantine w st src uuid_hex tmp_name now =
     a_bind a_get (\<lambda>f.
     a_bind (a_guard (is_file w f src \<and> \<not> is_symlink f src)
       (CodeError ''SOURCE_INVALID'' ''source must be a regular, non-symlink file'')) (\<lambda>_.
     a_bind (a_read (file_size w src)) (\<lambda>size.
     a_bind (a_guard (size \<le> st_max st)
       (CodeError ''QUARANTINE_LIMIT_EXCEEDED'' ''source exceeds configured quarantine byte limit'')) (\<lambda>_.
     a_bind (quarantine_dir w st uuid_hex) (\<lambda>qdir.
     a_bind (a_step (mkdir w 448 qdir False)) (\<lambda>_.
     let blob = qdir @ [''blob'']; tmp = qdir @ [''.partial-'' @ tmp_name] in
     a_bind (a_step (write_file w tmp [])) (\<lambda>_.
     a_bind (a_step (chmod w tmp 384)) (\<lambda>_.
     a_bind (a_finally
       (a_bind (a_read (read_file w src)) (\<lambda>bytes.
        a_bind (a_step (write_file w tmp bytes)) (\<lambda>_. a_step (replace_file tmp blob))))
       (\<lambda>f. if p_exists w f tmp then del_node tmp f else f)) (\<lambda>_.
     a_bind (require_contained w blob (tenant_root st)) (\<lambda>_.
     a_bind (a_read (read_file w blob)) (\<lambda>c.
     a_bind (a_read (file_size w blob)) (\<lambda>n.
     let rec = \<lparr>q_id = uuid_hex, q_tenant = st_tenant st, q_sha = sha_bytes w c, q_size = n,
                q_received = utc_z w now\<rparr> in
     a_bind (a_step (write_file w (qdir @ [''meta.json'']) (dumps w (meta_json rec)))) (\<lambda>_.
       a_ret rec)))))))))))))"

text \<open>\<^verbatim>\<open>QuarantineRecord(...)\<close> of the five keys; a missing key raises \<^verbatim>\<open>KeyError\<close>, caught by the
  loop.  The loop also skips unreadable and malformed files, but not a file whose JSON is no
  object: \<^verbatim>\<open>data.get\<close> raises \<^verbatim>\<open>AttributeError\<close>, which is not among the caught types.\<close>

definition quarantine_of :: "dict \<Rightarrow> quarantine_record option" where
  "quarantine_of d =
     (case (dget d ''quarantine_id'', dget d ''tenant_id'', dget d ''sha256'', dget d ''size'', dget d ''received_at_utc'') of
        (JStr q, JStr t, JStr h, JInt n, JStr r) \<Rightarrow>
          Some \<lparr>q_id = q, q_tenant = t, q_sha = h, q_size = n, q_received = r\<rparr>
      | _ \<Rightarrow> None)"

fun find_meta :: "os \<Rightarrow> store \<Rightarrow> string \<Rightarrow> fs \<Rightarrow> path list \<Rightarrow> sys_error + quarantine_record option" where
  "find_meta w st sha f [] = Inr None"
| "find_meta w st sha f (qdir # ds) =
     (let meta = qdir @ [''meta.json''] in
      if \<not> is_dir w f qdir \<or> \<not> is_file w f meta then find_meta w st sha f ds
      else case r_bind (read_file w meta f) (load_obj w) of
        Inl e \<Rightarrow> if e = PyErr ''AttributeError'' then Inl e else find_meta w st sha f ds
      | Inr d \<Rightarrow>
          (if dget d ''tenant_id'' = JStr (st_tenant st) \<and> dget d ''sha256'' = JStr sha
           then (case quarantine_of d of Some q \<Rightarrow> Inr (Some q) | None \<Rightarrow> find_meta w st sha f ds)
           else find_meta w st sha f ds))"

definition find_quarantine_by_sha :: "os \<Rightarrow> store \<Rightarrow> string \<Rightarrow> fs \<Rightarrow> sys_error + quarantine_record option" where
  "find_quarantine_by_sha w st sha f =
     (let root = tenant_root st @ [''quarantine''] in
      if \<not> is_dir w f root then Inr None else find_meta w st sha f (iterdir root f))"

section \<open>Reading\<close>

definition read_manifest :: "os \<Rightarrow> store \<Rightarrow> string \<Rightarrow> string \<Rightarrow> evidence_manifest fsact" where
  "read_manifest w st case_id evidence_id =
     a_bind (manifest_path w st case_id evidence_id) (\<lambda>mpath.
     a_bind a_get (\<lambda>f.
     a_bind (a_guard (is_file w f mpath)
       (CodeError ''EVIDENCE_NOT_FOUND'' ''no evidence object at that case/evidence id in this tenant'')) (\<lambda>_.
     a_bind (a_read (\<lambda>f. r_bind (read_file w mpath f) (load_obj w))) (\<lambda>d.
     a_bind (a_guard (dget d ''tenant_id'' = JStr (st_tenant st))
       (CodeError ''EVIDENCE_NOT_FOUND'' ''no evidence object at that case/evidence id in this tenant'')) (\<lambda>_.
       a_read (\<lambda>f. manifest_of d))))))"

definition original_path :: "os \<Rightarrow> store \<Rightarrow> string \<Rightarrow> string \<Rightarrow> path fsact" where
  "original_path w st case_id evidence_id =
     a_bind (read_manifest w st case_id evidence_id) (\<lambda>_.
     a_bind (evidence_dir w st case_id evidence_id) (\<lambda>edir.
     let original = edir @ [''original''] in
     a_bind (reject_symlink w original) (\<lambda>_.
     a_bind a_get (\<lambda>f.
     a_bind (a_guard (is_file w f original)
       (CodeError ''EVIDENCE_NOT_FOUND'' ''evidence original missing on disk'')) (\<lambda>_.
       require_contained w original (tenant_root st))))))"

definition sha256_file :: "os \<Rightarrow> path \<Rightarrow> string fsact" where
  "sha256_file w p = a_read (\<lambda>f. r_bind (read_file w p f) (\<lambda>c. Inr (sha_bytes w c)))"

definition verify_integrity :: "os \<Rightarrow> store \<Rightarrow> string \<Rightarrow> string \<Rightarrow> bool fsact" where
  "verify_integrity w st case_id evidence_id =
     a_bind (read_manifest w st case_id evidence_id) (\<lambda>m.
     a_bind (original_path w st case_id evidence_id) (\<lambda>original.
     a_bind (sha256_file w original) (\<lambda>h. a_ret (h = m_sha m))))"

section \<open>Promotion\<close>

text \<open>The check both idempotency branches make of an object that is already there.\<close>

definition existing_matches :: "os \<Rightarrow> store \<Rightarrow> string \<Rightarrow> string \<Rightarrow> string \<Rightarrow> evidence_manifest option fsact" where
  "existing_matches w st case_id evidence_id expected =
     a_bind (read_manifest w st case_id evidence_id) (\<lambda>existing.
     a_bind (original_path w st case_id evidence_id) (\<lambda>original.
     a_bind (a_read (file_size w original)) (\<lambda>n.
     if m_sha existing \<noteq> expected \<or> m_size existing \<noteq> n then a_ret None
     else a_bind (verify_integrity w st case_id evidence_id) (\<lambda>ok. a_ret (if ok then Some existing else None)))))"

definition day_us :: int where "day_us = 86400000000"

text \<open>The part of \<^verbatim>\<open>promote_to_evidence\<close> after the evidence directory was created.\<close>

definition publish_original ::
  "os \<Rightarrow> store \<Rightarrow> string \<Rightarrow> string \<Rightarrow> string \<Rightarrow> string \<Rightarrow> int option \<Rightarrow> int \<Rightarrow> path \<Rightarrow> path \<Rightarrow> evidence_manifest fsact" where
  "publish_original w st case_id evidence_id quarantine_id actual_sha retention_days now qdir edir =
     (let original = edir @ [''original'']; blob = qdir @ [''blob''] in
      a_bind (a_read (read_file w blob)) (\<lambda>bytes.
      a_bind (a_step (write_file w original bytes)) (\<lambda>_.
      a_bind (require_contained w original (tenant_root st)) (\<lambda>_.
      a_bind (a_step (chmod w original 256)) (\<lambda>_.
      a_bind (a_step (chmod w edir 320)) (\<lambda>_.
      a_bind (a_read (file_size w original)) (\<lambda>n.
      let until = now + (case retention_days of Some d \<Rightarrow> d | None \<Rightarrow> st_retention_days st) * day_us;
          manifest = \<lparr>m_tenant = st_tenant st, m_case = case_id, m_evidence = evidence_id, m_sha = actual_sha,
                      m_size = n, m_promoted = utc_z w now, m_retention_until = utc_z w until,
                      m_legal_hold = False, m_source_quarantine = quarantine_id\<rparr>;
          mpath = butlast edir @ [last edir @ ''.manifest.json''] in
      a_bind (a_step (chmod w edir 448)) (\<lambda>_.
      a_bind (a_step (write_file w mpath (dumps w (manifest_json manifest)))) (\<lambda>_.
      a_bind (a_step (chmod w mpath 256)) (\<lambda>_.
      a_bind (a_step (chmod w edir 320)) (\<lambda>_.
      a_bind (a_modify (rmtree_ignore qdir)) (\<lambda>_.
        a_ret manifest))))))))))))"

definition promote_to_evidence ::
  "os \<Rightarrow> store \<Rightarrow> string \<Rightarrow> string \<Rightarrow> string \<Rightarrow> string \<Rightarrow> int option \<Rightarrow> int \<Rightarrow> evidence_manifest fsact" where
  "promote_to_evidence w st case_id evidence_id quarantine_id expected retention_days now =
     a_bind (manifest_path w st case_id evidence_id) (\<lambda>existing_path.
     a_bind a_get (\<lambda>f.
     if is_file w f existing_path then
       a_bind (existing_matches w st case_id evidence_id expected) (\<lambda>found. case found of
         Some existing \<Rightarrow> a_ret existing
       | None \<Rightarrow> a_fail (CodeError ''EVIDENCE_CONFLICT'' ''existing evidence does not match the declared checksum or size''))
     else
       a_bind (quarantine_dir w st quarantine_id) (\<lambda>qdir.
       let blob = qdir @ [''blob'']; meta_path = qdir @ [''meta.json''] in
       a_bind (a_guard (is_file w f blob \<and> is_file w f meta_path)
         (CodeError ''QUARANTINE_NOT_FOUND'' ''no quarantined object for that id in this tenant'')) (\<lambda>_.
       a_bind (reject_symlink w blob) (\<lambda>_.
       a_bind (a_read (\<lambda>f. r_bind (read_file w meta_path f) (load_obj w))) (\<lambda>meta.
       a_bind (a_guard (dget meta ''tenant_id'' = JStr (st_tenant st))
         (CodeError ''QUARANTINE_NOT_FOUND'' ''no quarantined object for that id in this tenant'')) (\<lambda>_.
       a_bind (sha256_file w blob) (\<lambda>actual_sha.
       a_bind (a_guard (JStr actual_sha = dget meta ''sha256'' \<and> actual_sha = expected)
         (CodeError ''CHECKSUM_MISMATCH'' ''quarantined bytes do not match the declared checksum'')) (\<lambda>_.
       a_bind (evidence_dir w st case_id evidence_id) (\<lambda>edir.
       a_bind a_get (\<lambda>f2.
       case mkdir w 448 edir False f2 of
         Inr f3 \<Rightarrow>
           a_bind (a_modify (\<lambda>_. f3)) (\<lambda>_.
             publish_original w st case_id evidence_id quarantine_id actual_sha retention_days now qdir edir)
       | Inl e \<Rightarrow>
           if e = OsError ''FileExistsError'' then
             a_bind (if is_file w f2 existing_path
                     then existing_matches w st case_id evidence_id expected
                     else a_ret None) (\<lambda>found. case found of
                 Some existing \<Rightarrow> a_ret existing
               | None \<Rightarrow> a_fail (CodeError ''EVIDENCE_EXISTS'' ''an evidence object already exists at this id; originals are immutable''))
           else a_fail e)))))))))))"

definition register_to_evidence ::
  "os \<Rightarrow> store \<Rightarrow> string \<Rightarrow> string \<Rightarrow> string \<Rightarrow> string \<Rightarrow> int option \<Rightarrow> int \<Rightarrow> evidence_manifest fsact" where
  "register_to_evidence w st case_id evidence_id quarantine_id expected retention_days now =
     promote_to_evidence w st case_id evidence_id quarantine_id expected retention_days now"

section \<open>Legal hold, retention, deletion\<close>

definition set_legal_hold :: "os \<Rightarrow> store \<Rightarrow> string \<Rightarrow> string \<Rightarrow> bool \<Rightarrow> evidence_manifest fsact" where
  "set_legal_hold w st case_id evidence_id hold =
     a_bind (read_manifest w st case_id evidence_id) (\<lambda>m.
     let updated = m\<lparr>m_legal_hold := hold\<rparr> in
     a_bind (manifest_path w st case_id evidence_id) (\<lambda>mpath.
     a_bind (a_step (chmod w mpath 384)) (\<lambda>_.
     a_bind (a_step (write_file w mpath (dumps w (manifest_json updated)))) (\<lambda>_.
     a_bind (a_step (chmod w mpath 256)) (\<lambda>_. a_ret updated)))))"

definition delete_evidence :: "os \<Rightarrow> store \<Rightarrow> string \<Rightarrow> string \<Rightarrow> bool \<Rightarrow> int \<Rightarrow> unit fsact" where
  "delete_evidence w st case_id evidence_id force_after_hold_cleared now =
     a_bind (read_manifest w st case_id evidence_id) (\<lambda>m.
     a_bind (a_guard (\<not> m_legal_hold m)
       (CodeError ''LEGAL_HOLD_ACTIVE'' ''evidence is under legal hold and cannot be deleted'')) (\<lambda>_.
     a_bind (a_read (\<lambda>f. case of_iso w (str_replace ''Z'' ''+00:00'' (m_retention_until m)) of
         None \<Rightarrow> Inl (PyErr ''ValueError'') | Some t \<Rightarrow> Inr t)) (\<lambda>until.
     a_bind (a_guard (until \<le> now) (CodeError ''RETENTION_ACTIVE'' ''retention period has not elapsed'')) (\<lambda>_.
     a_bind (a_guard force_after_hold_cleared
       (CodeError ''DELETE_NOT_CONFIRMED'' ''explicit force_after_hold_cleared=True required to delete evidence'')) (\<lambda>_.
     a_bind (evidence_dir w st case_id evidence_id) (\<lambda>edir.
     a_bind (a_step (chmod w edir 448)) (\<lambda>_.
     a_bind (a_step (rmtree edir)) (\<lambda>_.
     a_bind (manifest_path w st case_id evidence_id) (\<lambda>mpath.
       a_modify (unlink_missing_ok mpath))))))))))"

end
