(* ===== verification/Evidence_Store_Props.thy ===== *)
theory Evidence_Store_Props
  imports Evidence_Store
begin

text \<open>
  The contract of the evidence store.  \<open>store_client\<close> is the interface between an invariant
  of the volume and the store's methods: which paths a method may write, create or clear
  while the invariant holds.  Inside it every method but deletion is shown to keep the
  invariant; \<open>store_owner\<close> adds deletion.  It is interpreted twice on the model's own
  definitions: for containment below the tenant's root, and for the immutability of one
  promoted original.
\<close>

section \<open>Identifiers are single safe path components\<close>

lemma alnum_not_special:
  assumes "is_alnum c"
  shows "c \<noteq> CHR ''/''" "c \<noteq> CHR ''.''" "c \<noteq> CHR 0x00" "c \<noteq> CHR 0x5C"
  using assms by (auto simp: is_alnum_def is_alpha_def is_digit_def)

lemma slug_chars: "slug s \<Longrightarrow> c \<in> set s \<Longrightarrow> c \<noteq> CHR ''/'' \<and> c \<noteq> CHR ''.'' \<and> c \<noteq> CHR 0x00 \<and> c \<noteq> CHR 0x5C"
  by (auto simp: slug_def list_all_iff bslash_def dest: alnum_not_special)

lemma id_match_chars:
  assumes "id_match v" "c \<in> set v"
  shows "c \<noteq> CHR ''/'' \<and> c \<noteq> CHR ''.'' \<and> c \<noteq> CHR 0x00 \<and> c \<noteq> CHR 0x5C"
proof (cases "slug v")
  case True
  with assms slug_chars show ?thesis by blast
next
  case False
  with assms have v: "v \<noteq> []" "last v = newline" "slug (butlast v)" by (auto simp: id_match_def)
  then have "c \<in> set (butlast v) \<or> c = newline"
    using assms(2) append_butlast_last_id [of v] by (metis in_set_butlastD in_set_conv_decomp rotate1.simps(2) set_ConsD set_rotate1)
  with v slug_chars show ?thesis by (auto simp: newline_def bslash_def)
qed

lemma id_match_clean: "id_match v \<Longrightarrow> v \<noteq> ''..''"
  using id_match_chars [of v "CHR ''.''"] by auto

lemma id_match_nonempty: "id_match v \<Longrightarrow> v \<noteq> [] \<and> length v \<le> 65"
  by (auto simp: id_match_def slug_def)

lemma validate_id_Inr: "validate_id v field = Inr x \<longleftrightarrow> id_match v \<and> x = v"
  by (auto simp: validate_id_def)

section \<open>The volume as the methods see it\<close>

definition no_links :: "fs \<Rightarrow> bool" where
  "no_links f = (\<forall>p. \<not> is_symlink f p)"

text \<open>
  Paths are lists of components; \<^verbatim>\<open>pathlib\<close> drops empty and \<^verbatim>\<open>.\<close> components when it builds
  a path and keeps \<^verbatim>\<open>..\<close>, which only \<^verbatim>\<open>Path.resolve\<close> removes.  On a volume without symbolic
  links resolving an absolute path is exactly that: every \<^verbatim>\<open>..\<close> takes the component before it
  away, and the parent of the root is the root.
\<close>

fun collapse_from :: "path \<Rightarrow> path \<Rightarrow> path" where
  "collapse_from acc [] = acc"
| "collapse_from acc (c # p) = collapse_from (if c = ''..'' then butlast acc else acc @ [c]) p"

definition collapse :: "path \<Rightarrow> path" where
  "collapse p = collapse_from [] p"

definition os_plain :: "os \<Rightarrow> bool" where
  "os_plain w = (\<forall>f p. no_links f \<longrightarrow> realpath w f p = collapse p)"

definition clean_path :: "path \<Rightarrow> bool" where
  "clean_path p = (''..'' \<notin> set p)"

lemma clean_path_simps [simp]:
  "clean_path []" "clean_path (c # p) \<longleftrightarrow> c \<noteq> ''..'' \<and> clean_path p"
  "clean_path (p @ q) \<longleftrightarrow> clean_path p \<and> clean_path q"
  by (auto simp: clean_path_def)

lemma clean_butlast: "clean_path p \<Longrightarrow> clean_path (butlast p)"
  by (auto simp: clean_path_def dest: in_set_butlastD)

lemma clean_prefix: "prefix q p \<Longrightarrow> clean_path p \<Longrightarrow> clean_path q"
  by (auto simp: prefix_def)

lemma collapse_from_clean: "clean_path p \<Longrightarrow> collapse_from acc p = acc @ p"
  by (induction p arbitrary: acc) auto

lemma collapse_clean [simp]: "clean_path p \<Longrightarrow> collapse p = p"
  by (simp add: collapse_def collapse_from_clean)

lemma clean_collapse_from: "clean_path acc \<Longrightarrow> clean_path (collapse_from acc p)"
  by (induction p arbitrary: acc) (auto simp: clean_butlast)

lemma clean_collapse [simp]: "clean_path (collapse p)"
  by (simp add: collapse_def clean_collapse_from)

lemma plain_resolve: "os_plain w \<Longrightarrow> no_links f \<Longrightarrow> realpath w f p = collapse p"
  by (simp add: os_plain_def)

lemma plain_fs: "os_plain w \<Longrightarrow> no_links f \<Longrightarrow> clean_path p \<Longrightarrow> realpath w f p = p"
  by (simp add: os_plain_def)

lemma p_exists_plain: "os_plain w \<Longrightarrow> no_links f \<Longrightarrow> clean_path p \<Longrightarrow> p_exists w f p \<longleftrightarrow> lookup f p \<noteq> None"
  by (simp add: p_exists_def stat_node_def plain_fs)

definition evidence_at :: "store \<Rightarrow> string \<Rightarrow> string \<Rightarrow> path" where
  "evidence_at st c e = tenant_root st @ [''cases'', c, ''evidence'', e]"

definition manifest_at :: "store \<Rightarrow> string \<Rightarrow> string \<Rightarrow> path" where
  "manifest_at st c e = tenant_root st @ [''cases'', c, ''evidence'', e @ ''.manifest.json'']"

definition quarantine_at :: "store \<Rightarrow> string \<Rightarrow> path" where
  "quarantine_at st q = tenant_root st @ [''quarantine'', q]"

lemma no_links_set: "no_links f \<Longrightarrow> (\<And>t. n \<noteq> Link t) \<Longrightarrow> no_links (set_node p n f)"
  by (auto simp: no_links_def is_symlink_def wb_fs split: option.splits node.splits)

lemma no_links_del: "no_links f \<Longrightarrow> no_links (del_node p f)" "no_links f \<Longrightarrow> no_links (del_tree p f)"
  by (auto simp: no_links_def is_symlink_def wb_fs split: option.splits node.splits if_splits)

lemma plain_write_file:
  assumes "os_plain w" "no_links f" "clean_path p" "write_file w p c f = Inr f'"
  shows "\<exists>m. f' = set_node p (File c m) f" "no_links f'"
  using assms by (auto simp: write_file_def Let_def plain_fs split: option.splits node.splits if_splits intro: no_links_set)

locale store_client =
  fixes w :: os and st :: store and I :: "fs \<Rightarrow> bool" and touch :: "path \<Rightarrow> bool" and clear :: "path \<Rightarrow> bool"
  assumes resolved: "I f \<Longrightarrow> clean_path q \<Longrightarrow> realpath w f (tenant_root st @ q) = tenant_root st @ q"
    and unlinked: "I f \<Longrightarrow> \<not> is_symlink f p"
    and root_there: "I f \<Longrightarrow> prefix q (tenant_root st) \<Longrightarrow> lookup f q \<noteq> None"
    and touched: "touch p \<Longrightarrow> \<exists>q. p = tenant_root st @ q \<and> clean_path q"
    and put: "I f \<Longrightarrow> touch p \<Longrightarrow> (\<And>t. n \<noteq> Link t) \<Longrightarrow> I (set_node p n f)"
    and fresh: "I f \<Longrightarrow> lookup f p = None \<Longrightarrow> prefix (tenant_root st) p \<Longrightarrow> I (set_node p (Dir m) f)"
    and del: "I f \<Longrightarrow> touch p \<Longrightarrow> I (del_node p f)"
    and tree: "I f \<Longrightarrow> clear p \<Longrightarrow> I (del_tree p f)"
    and quarantine_free: "id_match qid \<Longrightarrow> k \<noteq> ''..'' \<Longrightarrow> touch (quarantine_at st qid @ [k])"
      "id_match qid \<Longrightarrow> clear (quarantine_at st qid)"
    and manifest_free: "id_match c \<Longrightarrow> id_match e \<Longrightarrow> touch (manifest_at st c e)"
    and new_free: "I f \<Longrightarrow> id_match c \<Longrightarrow> id_match e \<Longrightarrow> lookup f (evidence_at st c e) = None \<Longrightarrow>
      touch (evidence_at st c e) \<and> touch (evidence_at st c e @ [''original''])"
begin

lemma touch_resolved: "I f \<Longrightarrow> touch p \<Longrightarrow> realpath w f p = p"
  using touched resolved by blast

lemma write_keeps: "I f \<Longrightarrow> write_file w p c f = Inr f' \<Longrightarrow> touch p \<Longrightarrow> I f'"
  by (auto simp: write_file_def Let_def touch_resolved intro!: put split: option.splits node.splits if_splits)

lemma chmod_keeps: "I f \<Longrightarrow> chmod w p m f = Inr f' \<Longrightarrow> touch p \<Longrightarrow> I f'"
  by (auto simp: chmod_def Let_def touch_resolved intro!: put split: option.splits node.splits)

lemma replace_keeps: "I f \<Longrightarrow> replace_file a b f = Inr f' \<Longrightarrow> touch a \<Longrightarrow> touch b \<Longrightarrow> I f'"
  by (auto simp: replace_file_def intro!: put del split: option.splits node.splits)

lemma rmtree_keeps: "I f \<Longrightarrow> rmtree p f = Inr f' \<Longrightarrow> clear p \<Longrightarrow> I f'"
  by (auto simp: rmtree_def intro: tree split: option.splits node.splits if_splits)

lemma rmtree_ignore_keeps: "I f \<Longrightarrow> clear p \<Longrightarrow> I (rmtree_ignore p f)"
  by (auto simp: rmtree_ignore_def intro: rmtree_keeps split: sum.splits)

lemma mkdirs_keeps:
  "I f \<Longrightarrow> \<forall>q\<in>set ps. prefix (tenant_root st) q \<or> prefix q (tenant_root st) \<Longrightarrow>
    I (fold (\<lambda>q g. if lookup g q = None then set_node q (Dir (m q)) g else g) ps f)"
proof (induction ps arbitrary: f)
  case (Cons q ps)
  let ?g = "if lookup f q = None then set_node q (Dir (m q)) f else f"
  have "I ?g" using Cons.prems root_there [of f q] fresh [of f q "m q"] by auto
  with Cons.IH [of ?g] Cons.prems show ?case by simp
qed simp

lemma mkdir_keeps:
  assumes "I f" "mkdir w m p ok f = Inr f'" "prefix (tenant_root st) p"
  shows "I f'"
proof -
  have "I (fold (\<lambda>q g. if lookup g q = None then set_node q (Dir (if q = p then m else 493)) g else g) (prefixes p) f)"
    using assms(3) by (intro mkdirs_keeps [OF assms(1), of _ "\<lambda>q. if q = p then m else 493"])
      (auto dest: prefix_same_cases)
  with assms show ?thesis unfolding mkdir_def by (simp split: if_splits)
qed

lemma contained_keeps:
  "clean_path q \<Longrightarrow> keeps I (require_contained w (tenant_root st @ q) r) (\<lambda>x. x = tenant_root st @ q)"
  by (auto simp: require_contained_def keeps_def wb_act Let_def resolved split: if_splits)

lemma symlink_keeps: "keeps I (reject_symlink w p) (\<lambda>_. True)"
  by (auto simp: reject_symlink_def keeps_def wb_act)

lemma validate_keeps: "keeps I (a_validate v s) (\<lambda>x. x = v \<and> id_match v)"
  by (auto simp: a_validate_def keeps_def wb_act validate_id_Inr)

lemma quarantine_dir_keeps: "keeps I (quarantine_dir w st q) (\<lambda>p. p = quarantine_at st q \<and> id_match q)"
  unfolding quarantine_dir_def
  by (intro keeps_bind [OF validate_keeps] keeps_weaken [OF contained_keeps])
    (auto simp: quarantine_at_def dest: id_match_clean)

lemma case_dir_keeps: "keeps I (case_dir w st c) (\<lambda>p. p = tenant_root st @ [''cases'', c] \<and> id_match c)"
  unfolding case_dir_def
  by (intro keeps_bind [OF validate_keeps] keeps_weaken [OF contained_keeps]) (auto dest: id_match_clean)

lemma evidence_dir_keeps:
  "keeps I (evidence_dir w st c e) (\<lambda>p. p = evidence_at st c e \<and> id_match c \<and> id_match e)"
  unfolding evidence_dir_def
proof (intro keeps_bind [OF validate_keeps] keeps_bind [OF case_dir_keeps])
  fix v p assume v: "v = e \<and> id_match e" and p: "p = tenant_root st @ [''cases'', c] \<and> id_match c"
  have "clean_path [''cases'', c, ''evidence'', e]" using v p by (auto dest: id_match_clean)
  from contained_keeps [OF this] v p
  show "keeps I (require_contained w (p @ [''evidence'', v]) (tenant_root st))
      (\<lambda>p. p = evidence_at st c e \<and> id_match c \<and> id_match e)"
    by (auto simp: evidence_at_def keeps_def)
qed

lemma manifest_path_keeps:
  "keeps I (manifest_path w st c e) (\<lambda>p. p = manifest_at st c e \<and> id_match c \<and> id_match e)"
  unfolding manifest_path_def
  by (intro keeps_bind [OF evidence_dir_keeps] wb_keeps)
    (auto simp: evidence_at_def manifest_at_def butlast_append)

lemma contained_original:
  assumes "id_match c" "id_match e"
  shows "keeps I (require_contained w (evidence_at st c e @ [''original'']) r) (\<lambda>x. x = evidence_at st c e @ [''original''])"
proof -
  have "clean_path [''cases'', c, ''evidence'', e, ''original'']" using assms by (auto dest: id_match_clean)
  from contained_keeps [OF this] show ?thesis by (simp add: evidence_at_def)
qed

lemma contained_blob:
  assumes "id_match q"
  shows "keeps I (require_contained w (quarantine_at st q @ [''blob'']) r) (\<lambda>_. True)"
proof -
  have "clean_path [''quarantine'', q, ''blob'']" using assms by (auto dest: id_match_clean)
  from keeps_weaken [OF contained_keeps [OF this]] show ?thesis by (simp add: quarantine_at_def)
qed

lemma read_manifest_keeps: "keeps I (read_manifest w st c e) (\<lambda>_. True)"
  unfolding read_manifest_def
  by (intro keeps_bind [OF manifest_path_keeps] wb_keeps) auto

lemma original_path_keeps: "keeps I (original_path w st c e) (\<lambda>p. p = evidence_at st c e @ [''original''])"
  unfolding original_path_def Let_def
  by (intro keeps_bind [OF read_manifest_keeps] keeps_bind [OF evidence_dir_keeps]
      keeps_bind [OF symlink_keeps] keeps_bind [where V = I] keeps_bind [where V = "\<lambda>_. True"]
      wb_keeps(2-)) (auto intro: contained_original)

lemma sha_keeps: "keeps I (sha256_file w p) (\<lambda>_. True)"
  unfolding sha256_file_def by (intro wb_keeps) auto

lemma verify_keeps: "keeps I (verify_integrity w st c e) (\<lambda>_. True)"
  unfolding verify_integrity_def
  by (intro keeps_bind [OF read_manifest_keeps] keeps_bind [OF original_path_keeps] keeps_bind [OF sha_keeps] wb_keeps)
    auto

lemma matches_keeps: "keeps I (existing_matches w st c e h) (\<lambda>_. True)"
  unfolding existing_matches_def
  by (intro keeps_bind [OF read_manifest_keeps] keeps_bind [OF original_path_keeps]
      keeps_bind [OF verify_keeps] keeps_bind [where V = "\<lambda>_. True"] wb_keeps) auto

lemma under_tenant:
  "prefix (tenant_root st) (quarantine_at st q)" "prefix (tenant_root st) (evidence_at st c e)"
  by (simp_all add: quarantine_at_def evidence_at_def)

lemma ingest_keeps: "keeps I (ingest_to_quarantine w st src u t now) (\<lambda>_. True)"
  unfolding ingest_to_quarantine_def Let_def
  by (intro keeps_bind [OF quarantine_dir_keeps] keeps_bind [where V = "\<lambda>_. True"]
      keeps_finally wb_keeps)
    (auto intro: write_keeps chmod_keeps replace_keeps mkdir_keeps quarantine_free under_tenant del contained_blob)

lemma publish_keeps:
  assumes "touch (evidence_at st c e)" "touch (evidence_at st c e @ [''original''])" "id_match c" "id_match e" "id_match q"
  shows "keeps I (publish_original w st c e q h rd now (quarantine_at st q) (evidence_at st c e)) (\<lambda>_. True)"
proof -
  have m: "butlast (evidence_at st c e) @ [last (evidence_at st c e) @ ''.manifest.json''] = manifest_at st c e"
    by (simp add: evidence_at_def manifest_at_def butlast_append)
  note c = keeps_weaken [OF contained_original [OF assms(3,4)]]
  show ?thesis
    unfolding publish_original_def Let_def m
    by (intro keeps_bind [where V = "\<lambda>_. True"] wb_keeps c)
      (auto intro: write_keeps chmod_keeps assms manifest_free rmtree_ignore_keeps quarantine_free)
qed

lemma new_dir_keeps:
  assumes "I f" "mkdir w 448 (evidence_at st c e) False f = Inr f'" "id_match c" "id_match e"
  shows "I f' \<and> touch (evidence_at st c e) \<and> touch (evidence_at st c e @ [''original''])"
proof -
  have "clean_path [''cases'', c, ''evidence'', e]" using assms(3,4) by (auto dest: id_match_clean)
  from resolved [OF assms(1) this] assms(2) have "lookup f (evidence_at st c e) = None"
    by (auto simp: mkdir_def p_exists_def stat_node_def evidence_at_def split: if_splits)
  with assms mkdir_keeps under_tenant(2) new_free show ?thesis by blast
qed

lemma promote_keeps: "keeps I (promote_to_evidence w st c e q h rd now) (\<lambda>_. True)"
  unfolding promote_to_evidence_def Let_def
  apply (intro keeps_bind [OF manifest_path_keeps] keeps_bind [OF matches_keeps] keeps_bind [OF quarantine_dir_keeps]
      keeps_bind [OF symlink_keeps] keeps_bind [OF sha_keeps] keeps_bind [OF evidence_dir_keeps]
      keeps_bind [OF keeps_get [where W = I]] keeps_bind [where V = "\<lambda>_. True"] wb_keeps matches_keeps)
  apply (auto dest: new_dir_keeps intro: publish_keeps)
  done

lemma hold_keeps: "keeps I (set_legal_hold w st c e b) (\<lambda>_. True)"
  unfolding set_legal_hold_def Let_def
  by (intro keeps_bind [OF read_manifest_keeps] keeps_bind [OF manifest_path_keeps]
      keeps_bind [where V = "\<lambda>_. True"] wb_keeps)
    (auto intro: write_keeps chmod_keeps manifest_free)

lemma delete_keeps:
  "(id_match c \<Longrightarrow> id_match e \<Longrightarrow> touch (evidence_at st c e)) \<Longrightarrow>
    (id_match c \<Longrightarrow> id_match e \<Longrightarrow> clear (evidence_at st c e)) \<Longrightarrow>
    keeps I (delete_evidence w st c e b now) (\<lambda>_. True)"
  unfolding delete_evidence_def
  by (intro keeps_bind [OF read_manifest_keeps] keeps_bind [OF manifest_path_keeps] keeps_bind [OF evidence_dir_keeps]
      keeps_bind [where V = "\<lambda>_. True"] wb_keeps)
    (auto intro: chmod_keeps rmtree_keeps del manifest_free simp: unlink_missing_ok_def)

end

text \<open>Under an invariant that also lets evidence directories go, every method keeps it.\<close>

locale store_owner = store_client +
  assumes owned: "id_match c \<Longrightarrow> id_match e \<Longrightarrow> touch (evidence_at st c e)"
      "id_match c \<Longrightarrow> id_match e \<Longrightarrow> clear (evidence_at st c e)"
begin

lemmas owner_delete_keeps = delete_keeps [OF owned]

end

end
