(* ===== verification/Evidence_Volume.thy ===== *)
theory Evidence_Volume
  imports Evidence_Store_Props
begin

text \<open>
  The evidence store's methods as one step relation over a shared volume, and the two
  interpretations of the store's contract: nothing outside the tenant's root changes, and a
  promoted original stays what it is until it is deleted.
\<close>

section \<open>The store's interface\<close>

datatype store_call =
  Ingest path string string int
| Promote string string string string "int option" int
| Hold string string bool
| Delete string string bool int
| Verify string string

definition any_result :: "'a fsact \<Rightarrow> (fs, sys_error, unit) act" where
  "any_result m = a_bind m (\<lambda>_. a_ret ())"

fun store_act :: "os \<Rightarrow> store \<Rightarrow> store_call \<Rightarrow> (fs, sys_error, unit) act" where
  "store_act w st (Ingest src u t now) = any_result (ingest_to_quarantine w st src u t now)"
| "store_act w st (Promote c e q h rd now) = any_result (promote_to_evidence w st c e q h rd now)"
| "store_act w st (Hold c e b) = any_result (set_legal_hold w st c e b)"
| "store_act w st (Delete c e b now) = delete_evidence w st c e b now"
| "store_act w st (Verify c e) = any_result (verify_integrity w st c e)"

type_synonym store_op = "store \<times> store_call"

definition store_step :: "os \<Rightarrow> store_op \<Rightarrow> fs \<Rightarrow> fs \<times> (sys_error + unit)" where
  "store_step w op f = store_act w (fst op) (snd op) f"

lemma any_result_keeps: "keeps I m V \<Longrightarrow> keeps I (any_result m) (\<lambda>_. True)"
  unfolding any_result_def by (erule keeps_bind) (rule keeps_ret, simp)

section \<open>Containment\<close>

definition volume_ok :: "os \<Rightarrow> store \<Rightarrow> fs \<Rightarrow> bool" where
  "volume_ok w st f = (os_plain w \<and> no_links f \<and> tenant_root st = st_root st @ [''tenants'', st_tenant st] \<and>
     clean_path (tenant_root st) \<and>
     (\<forall>p. prefix p (tenant_root st) \<longrightarrow> lookup f p \<noteq> None))"

definition inside :: "os \<Rightarrow> store \<Rightarrow> fs \<Rightarrow> fs \<Rightarrow> bool" where
  "inside w st f0 f = (volume_ok w st f \<and> same_outside (tenant_root st) f0 f)"

definition below :: "store \<Rightarrow> path \<Rightarrow> bool" where
  "below st p = (strict_prefix (tenant_root st) p \<and> clean_path (drop (length (tenant_root st)) p))"

lemma below_parts [simp]:
  "below st (quarantine_at st q @ x) \<longleftrightarrow> q \<noteq> ''..'' \<and> clean_path x" "below st (quarantine_at st q) \<longleftrightarrow> q \<noteq> ''..''"
  "below st (evidence_at st c e @ x) \<longleftrightarrow> c \<noteq> ''..'' \<and> e \<noteq> ''..'' \<and> clean_path x"
  "below st (evidence_at st c e) \<longleftrightarrow> c \<noteq> ''..'' \<and> e \<noteq> ''..''" "below st (manifest_at st c e) \<longleftrightarrow> c \<noteq> ''..''"
  by (auto simp: below_def evidence_at_def manifest_at_def quarantine_at_def strict_prefix_def)

lemma below_facts: "below st p \<Longrightarrow> prefix (tenant_root st) p \<and> \<not> prefix p (tenant_root st)"
  by (auto simp: below_def strict_prefix_def dest: prefix_order.antisym)

lemma below_touched: "below st p \<Longrightarrow> \<exists>q. p = tenant_root st @ q \<and> clean_path q"
  by (auto simp: below_def strict_prefix_def prefix_def)

lemma volume_resolved:
  "volume_ok w st f \<Longrightarrow> clean_path q \<Longrightarrow> realpath w f (tenant_root st @ q) = tenant_root st @ q"
  unfolding volume_ok_def by (rule plain_fs) auto

lemma volume_clean: "volume_ok w st f \<Longrightarrow> clean_path (tenant_root st)"
  unfolding volume_ok_def by blast

lemma volume_put:
  "volume_ok w st f \<Longrightarrow> (\<And>t. n \<noteq> Link t) \<Longrightarrow> volume_ok w st (set_node p n f)"
  by (auto simp: volume_ok_def wb_fs intro: no_links_set)

lemma volume_del:
  assumes "volume_ok w st f" "below st p"
  shows "volume_ok w st (del_node p f)" "volume_ok w st (del_tree p f)"
  using assms below_facts [OF assms(2)] prefix_order.trans [of p _ "tenant_root st"]
  by (auto simp: volume_ok_def wb_fs intro: no_links_del)

interpretation contained: store_owner w st "inside w st f0" "below st" "below st" for w st f0
proof
  fix f p n m c e qid k
  show "inside w st f0 f \<Longrightarrow> clean_path p \<Longrightarrow> realpath w f (tenant_root st @ p) = tenant_root st @ p"
    by (simp add: inside_def volume_resolved)
  show "inside w st f0 f \<Longrightarrow> \<not> is_symlink f p"
    by (simp add: inside_def volume_ok_def no_links_def)
  show "below st p \<Longrightarrow> \<exists>q. p = tenant_root st @ q \<and> clean_path q" by (rule below_touched)
  show "inside w st f0 f \<Longrightarrow> prefix p (tenant_root st) \<Longrightarrow> lookup f p \<noteq> None"
    by (auto simp: inside_def volume_ok_def)
  show "inside w st f0 f \<Longrightarrow> below st p \<Longrightarrow> (\<And>t. n \<noteq> Link t) \<Longrightarrow> inside w st f0 (set_node p n f)"
    using below_facts [of st p] by (auto simp: inside_def same_outside_def wb_fs intro: volume_put)
  show "inside w st f0 f \<Longrightarrow> lookup f p = None \<Longrightarrow> prefix (tenant_root st) p \<Longrightarrow> inside w st f0 (set_node p (Dir m) f)"
    by (auto simp: inside_def same_outside_def wb_fs intro: volume_put)
  show "inside w st f0 f \<Longrightarrow> below st p \<Longrightarrow> inside w st f0 (del_node p f)"
    using below_facts [of st p] by (auto simp: inside_def same_outside_def wb_fs intro: volume_del)
  show "inside w st f0 f \<Longrightarrow> below st p \<Longrightarrow> inside w st f0 (del_tree p f)"
    using below_facts [of st p]
    by (auto simp: inside_def same_outside_def wb_fs intro: volume_del dest: prefix_order.trans)
qed (simp_all add: id_match_clean)

lemma store_act_contained: "keeps (inside w st f0) (store_act w st call) (\<lambda>_. True)"
  by (cases call) (simp_all add: contained.owner_delete_keeps any_result_keeps [OF contained.ingest_keeps]
      any_result_keeps [OF contained.promote_keeps] any_result_keeps [OF contained.hold_keeps]
      any_result_keeps [OF contained.verify_keeps])

lemma store_step_inside: "inside w st f0 f \<Longrightarrow> inside w st f0 (fst (store_step w (st, call) f))"
  using store_act_contained [of w st f0 call] by (simp add: keeps_def store_step_def)

section \<open>A promoted original is immutable\<close>

definition original_at :: "store \<Rightarrow> string \<Rightarrow> string \<Rightarrow> path" where
  "original_at st c e = evidence_at st c e @ [''original'']"

definition worm :: "os \<Rightarrow> store \<Rightarrow> string \<Rightarrow> string \<Rightarrow> node \<Rightarrow> fs \<Rightarrow> bool" where
  "worm w st c e n f = (volume_ok w st f \<and> id_match e \<and> lookup f (evidence_at st c e) \<noteq> None \<and>
     lookup f (original_at st c e) = Some n)"

definition worm_touch :: "store \<Rightarrow> string \<Rightarrow> string \<Rightarrow> path \<Rightarrow> bool" where
  "worm_touch st c e p = (below st p \<and> p \<noteq> original_at st c e \<and> (id_match e \<longrightarrow> p \<noteq> evidence_at st c e))"

definition worm_clear :: "store \<Rightarrow> string \<Rightarrow> string \<Rightarrow> path \<Rightarrow> bool" where
  "worm_clear st c e p = (below st p \<and> \<not> prefix p (original_at st c e))"

lemma id_no_dot: "id_match e \<Longrightarrow> e \<noteq> e' @ ''.manifest.json''"
  using id_match_chars [of e "CHR ''.''"] by auto

lemma worm_paths:
  "quarantine_at st q @ [k] \<noteq> original_at st c e" "quarantine_at st q @ [k] \<noteq> evidence_at st c e"
  "\<not> prefix (quarantine_at st q) (original_at st c e)"
  "manifest_at st c' e' \<noteq> original_at st c e" "id_match e \<Longrightarrow> manifest_at st c' e' \<noteq> evidence_at st c e"
  "evidence_at st c' e' \<noteq> original_at st c e"
  "evidence_at st c' e' @ [''original''] \<noteq> evidence_at st c e"
  "evidence_at st c' e' @ [''original''] = original_at st c e \<longleftrightarrow> evidence_at st c' e' = evidence_at st c e"
  using id_no_dot [of e e']
  by (auto simp: quarantine_at_def original_at_def evidence_at_def manifest_at_def)

interpretation immutable: store_client w st "worm w st c0 e0 n0" "worm_touch st c0 e0" "worm_clear st c0 e0"
  for w st c0 e0 n0
proof
  fix f p n m c e qid k
  show "worm w st c0 e0 n0 f \<Longrightarrow> clean_path p \<Longrightarrow> realpath w f (tenant_root st @ p) = tenant_root st @ p"
    by (simp add: worm_def volume_resolved)
  show "worm w st c0 e0 n0 f \<Longrightarrow> \<not> is_symlink f p"
    by (simp add: worm_def volume_ok_def no_links_def)
  show "worm_touch st c0 e0 p \<Longrightarrow> \<exists>q. p = tenant_root st @ q \<and> clean_path q"
    by (simp add: worm_touch_def below_touched)
  show "worm w st c0 e0 n0 f \<Longrightarrow> prefix p (tenant_root st) \<Longrightarrow> lookup f p \<noteq> None"
    by (auto simp: worm_def volume_ok_def)
  show "worm w st c0 e0 n0 f \<Longrightarrow> worm_touch st c0 e0 p \<Longrightarrow> (\<And>t. n \<noteq> Link t) \<Longrightarrow> worm w st c0 e0 n0 (set_node p n f)"
    by (auto simp: worm_def worm_touch_def wb_fs intro: volume_put)
  show "worm w st c0 e0 n0 f \<Longrightarrow> lookup f p = None \<Longrightarrow> prefix (tenant_root st) p \<Longrightarrow> worm w st c0 e0 n0 (set_node p (Dir m) f)"
    by (auto simp: worm_def wb_fs intro: volume_put)
  show "worm w st c0 e0 n0 f \<Longrightarrow> worm_touch st c0 e0 p \<Longrightarrow> worm w st c0 e0 n0 (del_node p f)"
    by (auto simp: worm_def worm_touch_def wb_fs intro: volume_del)
  show "worm w st c0 e0 n0 f \<Longrightarrow> worm_clear st c0 e0 p \<Longrightarrow> worm w st c0 e0 n0 (del_tree p f)"
    using prefix_order.trans [of p "evidence_at st c0 e0" "original_at st c0 e0"]
    by (auto simp: worm_def worm_clear_def wb_fs original_at_def intro: volume_del)
  show "id_match qid \<Longrightarrow> k \<noteq> ''..'' \<Longrightarrow> worm_touch st c0 e0 (quarantine_at st qid @ [k])"
    "id_match qid \<Longrightarrow> worm_clear st c0 e0 (quarantine_at st qid)"
    "id_match c \<Longrightarrow> id_match e \<Longrightarrow> worm_touch st c0 e0 (manifest_at st c e)"
    by (auto simp: worm_touch_def worm_clear_def worm_paths id_match_clean)
  show "worm w st c0 e0 n0 f \<Longrightarrow> id_match c \<Longrightarrow> id_match e \<Longrightarrow> lookup f (evidence_at st c e) = None \<Longrightarrow>
    worm_touch st c0 e0 (evidence_at st c e) \<and> worm_touch st c0 e0 (evidence_at st c e @ [''original''])"
    by (auto simp: worm_def worm_touch_def worm_paths id_match_clean)
qed

fun deletes :: "string \<Rightarrow> string \<Rightarrow> store_call \<Rightarrow> bool" where
  "deletes c e (Delete c' e' b now) = (c' = c \<and> e' = e)"
| "deletes c e _ = False"

lemma worm_other_evidence:
  assumes "c \<noteq> c0 \<or> e \<noteq> e0" "id_match c" "id_match e"
  shows "worm_touch st c0 e0 (evidence_at st c e)" "worm_clear st c0 e0 (evidence_at st c e)"
  using assms worm_paths id_match_clean
  by (auto simp: worm_touch_def worm_clear_def) (auto simp: evidence_at_def original_at_def)

lemma store_act_worm:
  "\<not> deletes c0 e0 call \<Longrightarrow> keeps (worm w st c0 e0 n0) (store_act w st call) (\<lambda>_. True)"
  by (cases call) (auto simp: immutable.delete_keeps worm_other_evidence any_result_keeps [OF immutable.ingest_keeps]
      any_result_keeps [OF immutable.promote_keeps] any_result_keeps [OF immutable.hold_keeps]
      any_result_keeps [OF immutable.verify_keeps])

section \<open>Runs of several tenants over one volume\<close>

lemma tenant_roots_apart:
  assumes "tenant_root a = r @ [''tenants'', st_tenant a]" "tenant_root b = r @ [''tenants'', st_tenant b]"
    and "prefix (tenant_root a) p" "prefix p (tenant_root b)"
  shows "tenant_root a = tenant_root b"
proof -
  from assms have "prefix (tenant_root a) (tenant_root b)" using prefix_order.trans by blast
  with assms(1,2) show ?thesis by simp
qed

lemma volume_ok_frame:
  assumes "volume_ok w b f" "inside w a f f'" "st_root a = st_root b"
  shows "volume_ok w b f'"
proof -
  have "lookup f' p \<noteq> None" if p: "prefix p (tenant_root b)" for p
  proof (cases "prefix (tenant_root a) p")
    case True
    moreover have "tenant_root a = st_root a @ [''tenants'', st_tenant a]"
      "tenant_root b = st_root a @ [''tenants'', st_tenant b]"
      using assms by (simp_all add: inside_def volume_ok_def)
    ultimately have "tenant_root a = tenant_root b" using tenant_roots_apart p by blast
    with p assms(2) show ?thesis by (simp add: inside_def volume_ok_def)
  next
    case False
    with assms(1,2) p show ?thesis by (simp add: inside_def same_outside_def volume_ok_def)
  qed
  then show ?thesis using assms(1,2) unfolding inside_def volume_ok_def by blast
qed

lemma inside_refl: "volume_ok w st f \<Longrightarrow> inside w st f f"
  by (simp add: inside_def same_outside_def)

lemma store_step_volume:
  assumes "volume_ok w (fst op) f" "volume_ok w b f" "st_root (fst op) = st_root b"
  shows "volume_ok w b (fst (store_step w op f))"
    "\<not> prefix (tenant_root (fst op)) p \<Longrightarrow> lookup (fst (store_step w op f)) p = lookup f p"
proof -
  have *: "inside w (fst op) f (fst (store_step w op f))"
    using store_step_inside [OF inside_refl [OF assms(1)], of "snd op"] by simp
  from volume_ok_frame [OF assms(2) * assms(3)] show "volume_ok w b (fst (store_step w op f))" .
  show "lookup (fst (store_step w op f)) p = lookup f p" if "\<not> prefix (tenant_root (fst op)) p"
    using * that by (simp add: inside_def same_outside_def)
qed

definition one_volume :: "os \<Rightarrow> path \<Rightarrow> store_op list \<Rightarrow> fs \<Rightarrow> bool" where
  "one_volume w r ops f = (\<forall>op\<in>set ops. st_root (fst op) = r \<and> volume_ok w (fst op) f)"

lemma one_volume_step:
  "one_volume w r (op # ops) f \<Longrightarrow> one_volume w r ops (fst (store_step w op f))"
  using store_step_volume(1) [of w op f] by (auto simp: one_volume_def)

lemma store_run_outside:
  "one_volume w r ops f \<Longrightarrow> \<forall>op\<in>set ops. \<not> prefix (tenant_root (fst op)) p \<Longrightarrow>
    lookup (fst (run_ops (store_step w) ops f)) p = lookup f p"
proof (induction ops arbitrary: f)
  case (Cons op ops)
  have "lookup (fst (store_step w op f)) p = lookup f p"
    using store_step_volume(2) [of w op f "fst op" p] Cons.prems by (simp add: one_volume_def)
  with Cons.IH [OF one_volume_step [OF Cons.prems(1)]] Cons.prems(2)
  show ?case by (simp add: Let_def split_beta)
qed simp

lemma worm_same_root:
  "tenant_root a = tenant_root b \<Longrightarrow> st_root a = st_root b \<Longrightarrow> st_tenant a = st_tenant b \<Longrightarrow>
    worm w a c e n f = worm w b c e n f"
  by (simp add: worm_def volume_ok_def evidence_at_def original_at_def)

lemma worm_step:
  assumes "worm w st c e n f" "st_root (fst op) = st_root st" "volume_ok w (fst op) f"
    and "st_tenant (fst op) = st_tenant st \<longrightarrow> \<not> deletes c e (snd op)"
  shows "worm w st c e n (fst (store_step w op f))"
proof (cases "st_tenant (fst op) = st_tenant st")
  case True
  with assms(1-3) have r: "tenant_root (fst op) = tenant_root st" by (simp add: worm_def volume_ok_def)
  with True store_act_worm [of c e "snd op" w "fst op" n] assms(1,4) show ?thesis
    by (auto simp: keeps_def store_step_def worm_same_root [OF r assms(2) True])
next
  case False
  with assms(1-3) have np: "\<not> prefix (tenant_root (fst op)) (tenant_root st @ x)" for x
    by (simp add: worm_def volume_ok_def)
  from assms(1) have v: "volume_ok w st f" by (simp add: worm_def)
  note st = store_step_volume [OF assms(3) v assms(2)]
  from st(1) st(2) [OF np] assms(1) show ?thesis
    by (simp add: worm_def original_at_def evidence_at_def)
qed

lemma worm_run:
  "one_volume w (st_root st) ops f \<Longrightarrow> worm w st c e n f \<Longrightarrow>
    \<forall>op\<in>set ops. st_tenant (fst op) = st_tenant st \<longrightarrow> \<not> deletes c e (snd op) \<Longrightarrow>
    worm w st c e n (fst (run_ops (store_step w) ops f))"
proof (induction ops arbitrary: f)
  case (Cons op ops)
  have "worm w st c e n (fst (store_step w op f))"
    using worm_step [of w st c e n f op] Cons.prems by (simp add: one_volume_def)
  with Cons.IH [OF one_volume_step [OF Cons.prems(1)]] Cons.prems(3)
  show ?case by (simp add: Let_def split_beta)
qed simp

section \<open>Opening a store makes its volume ready\<close>

lemma mkdir_no_links: "mkdir w m p ok f = Inr f' \<Longrightarrow> no_links f \<Longrightarrow> no_links f'"
  unfolding no_links_def is_symlink_def
  by (auto simp: lookup_mkdir split: option.splits node.splits if_splits)

definition tree_ok :: "fs \<Rightarrow> bool" where
  "tree_ok f = (\<forall>p q. lookup f p \<noteq> None \<longrightarrow> prefix q p \<longrightarrow> lookup f q \<noteq> None)"

lemma mkdir_there:
  assumes "mkdir w m p ok f = Inr f'" "realpath w f p = p" "tree_ok f" "prefix q p"
  shows "lookup f' q \<noteq> None"
  using assms by (auto simp: lookup_mkdir p_exists_def stat_node_def tree_ok_def)

lemma mkdir_tree:
  assumes "mkdir w m p ok f = Inr f'" "tree_ok f"
  shows "tree_ok f'"
  using assms(2) prefix_order.trans [of _ _ p] unfolding tree_ok_def lookup_mkdir [OF assms(1)]
  by (auto split: if_splits)

lemma open_store_ready:
  assumes "open_store w root p mb rd f = (f', Inr st)" "os_plain w" "no_links f" "tree_ok f"
  shows "volume_ok w st f' \<and> tree_ok f' \<and> st_root st = collapse root \<and> st_tenant st = tenant_id p \<and> id_match (st_tenant st)"
proof -
  let ?r = "collapse root"
  have r0: "realpath w f root = ?r" using assms(2,3) by (simp add: plain_resolve)
  from assms(1) r0 obtain g where g: "mkdir w 448 ?r True f = Inr g"
    and h: "mkdir w 448 (realpath w g (?r @ [''tenants'', tenant_id p])) True g = Inr f'"
    and st: "st = \<lparr>st_root = ?r, tenant_root = realpath w g (?r @ [''tenants'', tenant_id p]),
      st_tenant = tenant_id p, st_max = mb, st_retention_days = rd\<rparr>" and i: "id_match (tenant_id p)"
    by (auto simp: open_store_def wb_act_Inr a_validate_def validate_id_Inr a_ret_def)
  have ng: "no_links g" "tree_ok g" using mkdir_no_links [OF g assms(3)] mkdir_tree [OF g assms(4)] by auto
  have cl: "clean_path (?r @ [''tenants'', tenant_id p])" using id_match_clean [OF i] by simp
  with ng(1) assms(2) have r: "realpath w g (?r @ [''tenants'', tenant_id p]) = ?r @ [''tenants'', tenant_id p]"
    by (simp add: plain_fs)
  from h r have h': "mkdir w 448 (?r @ [''tenants'', tenant_id p]) True g = Inr f'" by simp
  from mkdir_no_links [OF h' ng(1)] have "no_links f'" .
  with h' r have r': "realpath w g (?r @ [''tenants'', tenant_id p]) = ?r @ [''tenants'', tenant_id p]" by simp
  from mkdir_there [OF h' r' ng(2)] mkdir_no_links [OF h' ng(1)] mkdir_tree [OF h' ng(2)] assms(2) i st r cl
  show ?thesis by (auto simp: volume_ok_def)
qed

end
