(* ===== verification/Evidence_Promote.thy ===== *)
theory Evidence_Promote
  imports Evidence_Volume
begin

text \<open>
  What promotion, reading and deletion achieve on a volume without symbolic links: the
  successful run step by step, reading back what was promoted, the retry, and the guards of
  deletion.
\<close>

section \<open>Calls on a plain volume\<close>

lemma plain_realpath: "volume_ok w st f \<Longrightarrow> clean_path p \<Longrightarrow> realpath w f p = p"
  by (simp add: volume_ok_def plain_fs)

lemma plain_symlink: "volume_ok w st f \<Longrightarrow> \<not> is_symlink f p"
  by (simp add: volume_ok_def no_links_def)

lemma plain_write:
  "volume_ok w st f \<Longrightarrow> clean_path p \<Longrightarrow> write_file w p c f = Inr f' \<Longrightarrow>
    \<exists>m. f' = set_node p (File c m) f \<and> volume_ok w st f'"
  by (auto simp: write_file_def Let_def plain_realpath split: option.splits node.splits if_splits
      intro!: volume_put)

lemma plain_chmod:
  "volume_ok w st f \<Longrightarrow> clean_path p \<Longrightarrow> chmod w p m f = Inr f' \<Longrightarrow>
    volume_ok w st f' \<and>
    (case lookup f p of Some (File c k) \<Rightarrow> f' = set_node p (File c m) f
     | Some (Dir k) \<Rightarrow> f' = set_node p (Dir m) f | _ \<Rightarrow> False)"
  by (auto simp: chmod_def Let_def plain_realpath split: option.splits node.splits intro!: volume_put)

lemma plain_chmod_lookup:
  assumes "volume_ok w st f" "clean_path p" "chmod w p m f = Inr f'"
  shows "lookup f' q = (if q = p then (case lookup f p of Some (File c k) \<Rightarrow> Some (File c m) | _ \<Rightarrow> Some (Dir m)) else lookup f q)"
  using plain_chmod [OF assms] by (auto simp: wb_fs split: option.splits node.splits)

lemma plain_read:
  "volume_ok w st f \<Longrightarrow> clean_path p \<Longrightarrow> read_file w p f = Inr c \<longleftrightarrow> (\<exists>m. lookup f p = Some (File c m) \<and> r_bit m)"
  by (auto simp: read_file_def stat_node_def plain_realpath split: option.splits node.splits if_splits)

lemma plain_is_file: "volume_ok w st f \<Longrightarrow> clean_path p \<Longrightarrow> is_file w f p \<longleftrightarrow> (\<exists>c m. lookup f p = Some (File c m))"
  by (auto simp: is_file_def stat_node_def plain_realpath split: option.splits node.splits)

lemma plain_size: "volume_ok w st f \<Longrightarrow> clean_path p \<Longrightarrow> lookup f p = Some (File c m) \<Longrightarrow> file_size w p f = Inr (int (length c))"
  by (simp add: file_size_def stat_node_def plain_realpath)

lemma plain_mkdir:
  assumes "volume_ok w st f" "clean_path p" "mkdir w m p ok f = Inr f'" "prefix (tenant_root st) p" "p \<noteq> tenant_root st"
  shows "volume_ok w st f'" "lookup f p = None \<longrightarrow> lookup f' p = Some (Dir m)"
    "\<And>q n. lookup f q = Some n \<Longrightarrow> lookup f' q = Some n"
proof -
  show "volume_ok w st f'"
    using contained.mkdir_keeps [OF inside_refl [OF assms(1)] assms(3,4)] by (simp add: inside_def)
  show "lookup f p = None \<longrightarrow> lookup f' p = Some (Dir m)" "\<And>q n. lookup f q = Some n \<Longrightarrow> lookup f' q = Some n"
    using assms(1,2) by (simp_all add: lookup_mkdir [OF assms(3)] p_exists_def stat_node_def plain_realpath)
qed

lemma lookup_rmtree_ignore:
  "\<not> prefix p q \<Longrightarrow> lookup (rmtree_ignore p f) q = lookup f q"
  by (auto simp: rmtree_ignore_def rmtree_def wb_fs split: sum.splits option.splits node.splits if_splits)

section \<open>The paths of an object\<close>

lemma at_clean:
  assumes "volume_ok w st f"
  shows "id_match c \<Longrightarrow> id_match e \<Longrightarrow> clean_path (evidence_at st c e)"
    "id_match c \<Longrightarrow> id_match e \<Longrightarrow> clean_path (original_at st c e)"
    "id_match c \<Longrightarrow> clean_path (manifest_at st c e)"
    "id_match q \<Longrightarrow> clean_path (quarantine_at st q)"
proof -
  note volume_clean [OF assms]
  then show "id_match c \<Longrightarrow> id_match e \<Longrightarrow> clean_path (evidence_at st c e)"
    "id_match c \<Longrightarrow> id_match e \<Longrightarrow> clean_path (original_at st c e)"
    "id_match c \<Longrightarrow> clean_path (manifest_at st c e)"
    "id_match q \<Longrightarrow> clean_path (quarantine_at st q)"
    by (auto simp: original_at_def evidence_at_def manifest_at_def quarantine_at_def dest: id_match_clean)
qed

lemma contained_run:
  "volume_ok w st f \<Longrightarrow> prefix (tenant_root st) p \<Longrightarrow> clean_path p \<Longrightarrow> require_contained w p (tenant_root st) f = (f, Inr p)"
  by (simp add: require_contained_def wb_act plain_realpath)

lemma symlink_run: "volume_ok w st f \<Longrightarrow> reject_symlink w p f = (f, Inr ())"
  by (simp add: reject_symlink_def wb_act plain_symlink)

definition bad_id :: "string \<Rightarrow> sys_error" where
  "bad_id field = CodeError ''INVALID_ID'' (field @ '' must match ^[A-Za-z0-9](?:[A-Za-z0-9_-]{0,62}[A-Za-z0-9])?$'')"

lemma validate_run: "a_validate v s f = (f, if id_match v then Inr v else Inl (bad_id s))"
  by (simp add: a_validate_def wb_act validate_id_def bad_id_def)

lemma case_dir_run:
  assumes "volume_ok w st f" "id_match c"
  shows "require_contained w (tenant_root st @ [''cases'', c]) (tenant_root st) f = (f, Inr (tenant_root st @ [''cases'', c]))"
    "id_match e \<Longrightarrow> require_contained w (tenant_root st @ [''cases'', c, ''evidence'', e]) (tenant_root st) f =
      (f, Inr (evidence_at st c e))"
proof -
  have "clean_path (tenant_root st)" "c \<noteq> ''..''" "id_match e \<Longrightarrow> e \<noteq> ''..''"
    using volume_clean [OF assms(1)] assms(2) id_match_clean [of c] id_match_clean [of e] by auto
  then show "require_contained w (tenant_root st @ [''cases'', c]) (tenant_root st) f = (f, Inr (tenant_root st @ [''cases'', c]))"
    "id_match e \<Longrightarrow> require_contained w (tenant_root st @ [''cases'', c, ''evidence'', e]) (tenant_root st) f =
      (f, Inr (evidence_at st c e))"
    by (simp_all add: contained_run [OF assms(1)] evidence_at_def)
qed

lemma evidence_dir_run:
  assumes "volume_ok w st f"
  shows "evidence_dir w st c e f =
    (f, if \<not> id_match e then Inl (bad_id ''evidence_id'') else if \<not> id_match c then Inl (bad_id ''case_id'')
        else Inr (evidence_at st c e))"
  using case_dir_run [OF assms]
  by (simp add: evidence_dir_def case_dir_def a_bind_def validate_run)

lemma manifest_path_run:
  assumes "volume_ok w st f"
  shows "manifest_path w st c e f =
    (f, if \<not> id_match e then Inl (bad_id ''evidence_id'') else if \<not> id_match c then Inl (bad_id ''case_id'')
        else Inr (manifest_at st c e))"
  using assms
  by (simp add: manifest_path_def a_bind_def evidence_dir_run wb_act evidence_at_def manifest_at_def
      butlast_append)

lemma quarantine_dir_run:
  assumes "volume_ok w st f"
  shows "quarantine_dir w st q f = (f, if id_match q then Inr (quarantine_at st q) else Inl (bad_id ''quarantine_id''))"
  using contained_run [OF assms _ at_clean(4) [OF assms]]
  by (simp add: quarantine_dir_def a_bind_def validate_run quarantine_at_def)

lemma manifest_of_json: "manifest_json m = JObj d \<Longrightarrow> manifest_of d = Inr m"
  by (auto simp: manifest_json_def manifest_of_def manifest_keys_def has_key_def dget_def)

section \<open>Reading back\<close>

definition stored :: "os \<Rightarrow> store \<Rightarrow> string \<Rightarrow> string \<Rightarrow> evidence_manifest \<Rightarrow> string \<Rightarrow> fs \<Rightarrow> bool" where
  "stored w st c e m bytes f = (volume_ok w st f \<and> id_match c \<and> id_match e \<and>
     lookup f (original_at st c e) = Some (File bytes 256) \<and>
     lookup f (evidence_at st c e) = Some (Dir 320) \<and>
     lookup f (manifest_at st c e) = Some (File (dumps w (manifest_json m)) 256) \<and>
     m_tenant m = st_tenant st \<and> m_case m = c \<and> m_evidence m = e \<and> m_size m = int (length bytes) \<and>
     m_sha m = sha_bytes w bytes \<and> \<not> m_legal_hold m)"

definition decodes :: "os \<Rightarrow> evidence_manifest \<Rightarrow> bool" where
  "decodes w m = (loads w (dumps w (manifest_json m)) = Some (manifest_json m))"

lemma r_bit_256 [simp]: "r_bit 256" "\<not> w_bit 256"
  by (simp_all add: r_bit_def w_bit_def)

lemma read_stored:
  assumes "stored w st c e m bytes f" "decodes w m"
  shows "read_manifest w st c e f = (f, Inr m)"
    "original_path w st c e f = (f, Inr (original_at st c e))"
    "verify_integrity w st c e f = (f, Inr True)"
proof -
  from assms(1) have v: "volume_ok w st f" and i: "id_match c" "id_match e" by (simp_all add: stored_def)
  note cl = at_clean(2) [OF v i] at_clean(3) [OF v i(1), of e]
  obtain d where d: "manifest_json m = JObj d" by (simp add: manifest_json_def)
  have t: "dget d ''tenant_id'' = JStr (st_tenant st)"
    using d assms(1) by (auto simp: manifest_json_def dget_def stored_def)
  have rd: "r_bind (read_file w (manifest_at st c e) f) (load_obj w) = Inr d"
    using assms d plain_read [OF v cl(2), of "dumps w (manifest_json m)"]
    by (simp add: stored_def decodes_def load_obj_def)
  have fl: "is_file w f (manifest_at st c e)" "is_file w f (original_at st c e)"
    using assms(1) cl by (simp_all add: plain_is_file [OF v] stored_def)
  have under: "prefix (tenant_root st) (original_at st c e)"
    by (simp add: original_at_def evidence_at_def)
  show m: "read_manifest w st c e f = (f, Inr m)"
    using v i rd t fl
    by (simp add: read_manifest_def a_bind_def manifest_path_run wb_act manifest_of_json [OF d])
  show o: "original_path w st c e f = (f, Inr (original_at st c e))"
    using v i fl m under cl
    by (simp add: original_path_def a_bind_def evidence_dir_run symlink_run wb_act Let_def
        original_at_def [symmetric] contained_run)
  have "read_file w (original_at st c e) f = Inr bytes"
    using plain_read [OF v cl(1)] assms(1) by (simp add: stored_def)
  then show "verify_integrity w st c e f = (f, Inr True)"
    using m o assms(1) by (simp add: verify_integrity_def a_bind_def sha256_file_def wb_act stored_def)
qed

lemma retry_stored:
  assumes "stored w st c e m bytes f" "decodes w m"
  shows "promote_to_evidence w st c e q (m_sha m) rd now f = (f, Inr m)"
proof -
  note r = read_stored [OF assms]
  from assms(1) have v: "volume_ok w st f" and i: "id_match c" "id_match e" by (simp_all add: stored_def)
  have "is_file w f (manifest_at st c e)"
    using assms(1) by (simp add: plain_is_file [OF v at_clean(3) [OF v i(1)]] stored_def)
  moreover have "file_size w (original_at st c e) f = Inr (m_size m)"
    using plain_size [OF v at_clean(2) [OF v i]] assms(1) by (simp add: stored_def)
  ultimately show ?thesis
    using r i by (simp add: promote_to_evidence_def a_bind_def manifest_path_run [OF v] wb_act existing_matches_def)
qed

section \<open>A successful promotion\<close>

lemma at_distinct [simp]:
  "manifest_at st c e \<noteq> original_at st c e" "original_at st c e \<noteq> manifest_at st c e"
  "evidence_at st c e \<noteq> original_at st c e" "original_at st c e \<noteq> evidence_at st c e"
  "evidence_at st c e \<noteq> manifest_at st c e" "manifest_at st c e \<noteq> evidence_at st c e"
  "\<not> prefix (quarantine_at st q) (original_at st c e)" "\<not> prefix (quarantine_at st q) (evidence_at st c e)"
  "\<not> prefix (quarantine_at st q) (manifest_at st c e)"
  by (auto simp: original_at_def evidence_at_def manifest_at_def quarantine_at_def)

lemma publish_success:
  assumes run: "publish_original w st c e q h rd now (quarantine_at st q) (evidence_at st c e) f = (f', Inr m)"
    and v: "volume_ok w st f" and d: "lookup f (evidence_at st c e) = Some (Dir k)"
    and ids: "id_match c" "id_match e" "id_match q"
    and blob: "lookup f (quarantine_at st q @ [''blob'']) = Some (File bytes k')" and h: "h = sha_bytes w bytes"
  shows "stored w st c e m bytes f' \<and> m_sha m = h"
proof -
  let ?o = "original_at st c e" and ?d = "evidence_at st c e" and ?m = "manifest_at st c e"
  have mp: "butlast ?d @ [last ?d @ ''.manifest.json''] = ?m"
    by (simp add: evidence_at_def manifest_at_def butlast_append)
  note oc = at_clean(2) [OF v ids(1,2)] and dc = at_clean(1) [OF v ids(1,2)] and mc = at_clean(3) [OF v ids(1), of e]
  have qc: "clean_path (quarantine_at st q @ [''blob''])" using at_clean(4) [OF v ids(3)] by simp
  from run obtain f1 f2 f3 f4 f5 f6 f7 n where
    w1: "write_file w ?o bytes f = Inr f1" and c2: "chmod w ?o 256 f1 = Inr f2"
    and c3: "chmod w ?d 320 f2 = Inr f3" and sz: "file_size w ?o f3 = Inr n"
    and c4: "chmod w ?d 448 f3 = Inr f4" and w5: "write_file w ?m (dumps w (manifest_json m)) f4 = Inr f5"
    and c6: "chmod w ?m 256 f5 = Inr f6" and c7: "chmod w ?d 320 f6 = Inr f7"
    and fin: "f' = rmtree_ignore (quarantine_at st q) f7"
    and mm: "m_tenant m = st_tenant st" "m_case m = c" "m_evidence m = e" "m_sha m = h" "m_size m = n" "\<not> m_legal_hold m"
    using plain_read [OF v qc] blob
    unfolding publish_original_def Let_def mp original_at_def [symmetric] require_contained_def
    by (auto simp: wb_act_Inr wb_act split: if_splits)
  from plain_write [OF v oc w1] obtain k1 where f1: "f1 = set_node ?o (File bytes k1) f" and v1: "volume_ok w st f1" by auto
  note l2 = plain_chmod_lookup [OF v1 oc c2] and v2 = plain_chmod [OF v1 oc c2, THEN conjunct1]
  note l3 = plain_chmod_lookup [OF v2 dc c3] and v3 = plain_chmod [OF v2 dc c3, THEN conjunct1]
  note l4 = plain_chmod_lookup [OF v3 dc c4] and v4 = plain_chmod [OF v3 dc c4, THEN conjunct1]
  from plain_write [OF v4 mc w5] obtain k5 where f5: "f5 = set_node ?m (File (dumps w (manifest_json m)) k5) f4"
    and v5: "volume_ok w st f5" by auto
  note l6 = plain_chmod_lookup [OF v5 mc c6] and v6 = plain_chmod [OF v5 mc c6, THEN conjunct1]
  note l7 = plain_chmod_lookup [OF v6 dc c7] and v7 = plain_chmod [OF v6 dc c7, THEN conjunct1]
  have o3: "lookup f3 ?o = Some (File bytes 256)" by (simp add: l3 l2 f1 wb_fs)
  with sz plain_size [OF v3 oc] have n: "n = int (length bytes)" by simp
  have d3: "lookup f3 ?d = Some (Dir 320)" by (simp add: l3 l2 f1 wb_fs d)
  have look: "lookup f7 ?o = Some (File bytes 256)" "lookup f7 ?d = Some (Dir 320)"
    "lookup f7 ?m = Some (File (dumps w (manifest_json m)) 256)"
    by (simp_all add: l7 l6 f5 l4 o3 d3 wb_fs)
  have "volume_ok w st f'"
    using contained.rmtree_ignore_keeps [OF inside_refl [OF v7], of "quarantine_at st q"] fin id_match_clean [OF ids(3)]
    by (simp add: inside_def)
  with look n mm ids h fin show ?thesis by (simp add: stored_def lookup_rmtree_ignore)
qed

lemma promote_success:
  assumes run: "promote_to_evidence w st c e q expected rd now f = (f', Inr m)"
    and v: "volume_ok w st f" and new: "\<not> is_file w f (manifest_at st c e)"
  obtains bytes k where "lookup f (quarantine_at st q @ [''blob'']) = Some (File bytes k)"
    "sha_bytes w bytes = expected" "stored w st c e m bytes f'" "m_sha m = expected"
proof -
  from run have ids: "id_match c" "id_match e"
    by (auto simp: promote_to_evidence_def a_bind_Inr_iff manifest_path_run [OF v] split: if_splits)
  from run new ids obtain bytes f3 where q: "id_match q"
    and rd: "read_file w (quarantine_at st q @ [''blob'']) f = Inr bytes"
    and h: "sha_bytes w bytes = expected" and mk: "mkdir w 448 (evidence_at st c e) False f = Inr f3"
    and p: "publish_original w st c e q expected rd now (quarantine_at st q) (evidence_at st c e) f3 = (f', Inr m)"
    unfolding promote_to_evidence_def Let_def
    by (auto simp: wb_act_Inr wb_act manifest_path_run [OF v] quarantine_dir_run [OF v] evidence_dir_run [OF v]
        symlink_run [OF v] sha256_file_def a_bind_def r_bind_Inr_iff split: if_splits sum.splits)
  from rd plain_read [OF v] at_clean(4) [OF v q] obtain k where blob: "lookup f (quarantine_at st q @ [''blob'']) = Some (File bytes k)" by auto
  have none: "lookup f (evidence_at st c e) = None"
    using mk plain_realpath [OF v at_clean(1) [OF v ids]] by (auto simp: mkdir_def p_exists_def stat_node_def split: if_splits)
  have neq: "evidence_at st c e \<noteq> tenant_root st" by (simp add: evidence_at_def)
  note mkd = plain_mkdir [OF v at_clean(1) [OF v ids] mk contained.under_tenant(2) neq]
  from publish_success [OF p mkd(1) mkd(2) [rule_format, OF none] ids q mkd(3) [OF blob]] h
  have "stored w st c e m bytes f'" "m_sha m = expected" by auto
  with that blob h show thesis by blast
qed

text \<open>An evidence directory without a manifest file is never completed, and never replaced.\<close>

lemma promote_stuck:
  assumes v: "volume_ok w st f" and d: "lookup f (evidence_at st c e) \<noteq> None"
    and new: "\<not> is_file w f (manifest_at st c e)"
  shows "\<exists>err. promote_to_evidence w st c e q expected rd now f = (f, Inl err)"
proof (cases "id_match c \<and> id_match e")
  case True
  then have ex: "p_exists w f (evidence_at st c e)"
    using d by (simp add: p_exists_def stat_node_def plain_realpath [OF v at_clean(1) [OF v]])
  then have mk: "mkdir w 448 (evidence_at st c e) False f = Inl (OsError ''FileExistsError'')"
    by (simp add: mkdir_def)
  show ?thesis
    unfolding promote_to_evidence_def Let_def
    using new
    by (simp add: a_bind_def wb_act manifest_path_run [OF v] quarantine_dir_run [OF v] evidence_dir_run [OF v]
        symlink_run [OF v] sha256_file_def mk split: sum.splits)
next
  case False
  then show ?thesis
    unfolding promote_to_evidence_def by (auto simp: a_bind_def manifest_path_run [OF v])
qed

section \<open>Deletion fails closed\<close>

lemma delete_guards:
  assumes run: "delete_evidence w st c e forced now f = (f', r)" and changed: "f' \<noteq> f \<or> is_ok r"
    and v: "volume_ok w st f"
  shows "\<exists>m until. read_manifest w st c e f = (f, Inr m) \<and> \<not> m_legal_hold m \<and> forced \<and>
    of_iso w (str_replace ''Z'' ''+00:00'' (m_retention_until m)) = Some until \<and> until \<le> now"
proof -
  have rm: "fst (read_manifest w st c e f) = f"
    by (simp add: read_manifest_def a_bind_def wb_act manifest_path_run [OF v] split: sum.splits)
  obtain x where x: "read_manifest w st c e f = (f, x)" using rm by (cases "read_manifest w st c e f") auto
  show ?thesis
    using run changed x unfolding delete_evidence_def
    by (auto simp: a_bind_def wb_act split: sum.splits option.splits if_splits)
qed

end
