(* ===== verification/Fixtures.thy ===== *)
theory Fixtures
  imports Ingest_Repo_Props Timeline_Flags Evidence_Promote
begin

text \<open>
  Concrete instances of the parameters, for the inputs at which the conditional properties
  are applied: a library whose digest, casts and clocks are simple total functions, a volume
  of a few paths, and two principals.
\<close>

definition demo_host :: host where
  "demo_host = \<lparr>sha_hex = (\<lambda>s. replicate 64 (CHR ''a'')), sha_b64 = (\<lambda>s. s), dumps_ascii = canonical_json,
     iso_parse = (\<lambda>s. IsoAware s), env_schema = (\<lambda>d. True), entity_schema = (\<lambda>d. True)\<rparr>"

definition demo_pg :: pg where
  "demo_pg = \<lparr>uuid_cast = Some, ts_cast = (\<lambda>v. case v of JStr s \<Rightarrow> Some s | _ \<Rightarrow> None),
     text_param = (\<lambda>v. case v of JStr s \<Rightarrow> Some (Some s) | JNull \<Rightarrow> Some None | _ \<Rightarrow> None)\<rparr>"

definition tenant_one :: string where "tenant_one = ''00000000-0000-4000-8000-000000000001''"
definition analyst_one :: string where "analyst_one = ''00000000-0000-4000-8000-000000000002''"

definition demo_principal :: principal where
  "demo_principal = \<lparr>tenant_id = tenant_one, analyst_id = analyst_one, is_synthetic = True, subject = None,
     roles = [], scopes = []\<rparr>"

definition demo_source :: dict where
  "demo_source = [(''system'', JStr ''thehive''), (''entity'', JStr ''case''), (''id'', JStr ''42''),
     (''scope'', JStr ''org''), (''revision'', JStr ''1'')]"

definition demo_envelope :: dict where
  "demo_envelope = [(''envelope_id'', JStr ''env-1''), (''source'', JObj demo_source),
     (''payload'', JObj [(''title'', JStr ''x'')])]"

definition empty_ingest :: ingest_db where
  "empty_ingest = \<lparr>ingest_rows = [], ingest_analysts = [(tenant_one, analyst_one)]\<rparr>"

definition empty_flags :: flag_db where
  "empty_flags = \<lparr>flag_rows = [], flag_analysts = [(tenant_one, analyst_one)]\<rparr>"

text \<open>A volume whose root and tenant directories exist, with one file outside to take in.\<close>

definition demo_manifest :: evidence_manifest where
  "demo_manifest = \<lparr>m_tenant = ''t1'', m_case = ''c1'', m_evidence = ''e1'', m_sha = ''abc'', m_size = 3,
     m_promoted = ''now'', m_retention_until = ''now'', m_legal_hold = False, m_source_quarantine = ''q1''\<rparr>"

definition demo_meta :: quarantine_record where
  "demo_meta = \<lparr>q_id = ''q1'', q_tenant = ''t1'', q_sha = ''abc'', q_size = 3, q_received = ''now''\<rparr>"

definition demo_os :: os where
  "demo_os = \<lparr>realpath = (\<lambda>f p. collapse p), dumps = canonical_json,
     loads = (\<lambda>s. if s = canonical_json (meta_json demo_meta) then Some (meta_json demo_meta)
       else if s = canonical_json (manifest_json demo_manifest) then Some (manifest_json demo_manifest) else None),
     sha_bytes = (\<lambda>s. s), iso_of = (\<lambda>t. ''now''), of_iso = (\<lambda>s. Some 0)\<rparr>"

definition demo_store :: store where
  "demo_store = \<lparr>st_root = [''v''], tenant_root = [''v'', ''tenants'', ''t1''], st_tenant = ''t1'', st_max = 100,
     st_retention_days = 30\<rparr>"

definition demo_volume :: fs where
  "demo_volume = [([], Dir 493), ([''v''], Dir 448), ([''v'', ''tenants''], Dir 493),
     ([''v'', ''tenants'', ''t1''], Dir 448), ([''v'', ''tenants'', ''t1'', ''quarantine''], Dir 448),
     ([''v'', ''tenants'', ''t1'', ''quarantine'', ''q1''], Dir 448),
     ([''v'', ''tenants'', ''t1'', ''quarantine'', ''q1'', ''blob''], File ''abc'' 384),
     ([''v'', ''tenants'', ''t1'', ''quarantine'', ''q1'', ''meta.json''], File (canonical_json (meta_json demo_meta)) 420),
     ([''src''], File ''xyz'' 420)]"

lemma demo_plain: "os_plain demo_os"
  by (simp add: os_plain_def demo_os_def)

lemma demo_no_links: "no_links demo_volume"
  by (auto simp: no_links_def is_symlink_def lookup_def demo_volume_def split: option.splits node.splits if_splits)

lemma demo_there: "prefix p [''v'', ''tenants'', ''t1''] \<Longrightarrow> lookup demo_volume p \<noteq> None"
  by (auto simp: demo_volume_def lookup_def prefix_Cons split: if_splits)

lemma demo_volume_ok: "volume_ok demo_os demo_store demo_volume"
  using demo_there by (simp add: volume_ok_def demo_plain demo_no_links demo_store_def)

end
