(* ===== verification/Intake_Correct.thy ===== *)
theory Intake_Correct
  imports Fixtures
begin

text \<open>
  The properties of the repositories and of intake identity, each applied at concrete inputs
  where it is conditional.
\<close>

section \<open>The ingest repository from an empty table\<close>

definition ingest_run :: "host \<Rightarrow> pg \<Rightarrow> (string \<times> string) list \<Rightarrow> ingest_call list \<Rightarrow> ingest_db" where
  "ingest_run h g analysts cs = fst (run_ops (ingest_step h g) cs \<lparr>ingest_rows = [], ingest_analysts = analysts\<rparr>)"

lemma ingest_run_reaches_ok: "ingest_ok (ingest_run h g as cs)"
  unfolding ingest_run_def by (rule ingest_run_ok) (simp add: ingest_ok_def)

lemma ingest_run_append: "ingest_run h g as (cs @ ds) = fst (run_ops (ingest_step h g) ds (ingest_run h g as cs))"
  by (simp add: ingest_run_def run_ops_append Let_def split_beta)

text \<open>C1: whatever calls any principals make on an empty ingest table, in whatever order, the
  table keeps its promise: one row per tenant and idempotency key, one row per tenant and
  envelope id, and every row has a known status and a 64-digit hexadecimal payload hash.\<close>

theorem ingest_runs_keep_constraints:
  "ingest_ok (fst (run_ops (ingest_step h g) cs \<lparr>ingest_rows = [], ingest_analysts = analysts\<rparr>))"
  using ingest_run_reaches_ok [of h g analysts cs] by (simp add: ingest_run_def)

text \<open>C2: the table is an append-only history: after any further calls the earlier rows are
  still there, at their places, with the same identity, source, payload and payload hash, and
  the status of each has only moved along the life cycle.\<close>

theorem ingest_history_is_append_only:
  "list_all2 (\<lambda>r r'. ig_fixed r' = ig_fixed r \<and> status_move\<^sup>*\<^sup>* (ig_processing_status r) (ig_processing_status r'))
     (ingest_rows (ingest_run h g analysts cs))
     (take (length (ingest_rows (ingest_run h g analysts cs))) (ingest_rows (ingest_run h g analysts (cs @ ds))))"
proof -
  let ?a = "ingest_rows (ingest_run h g analysts cs)" and ?b = "ingest_rows (ingest_run h g analysts (cs @ ds))"
  have pre: "prefix (map ig_fixed ?a) (map ig_fixed ?b)"
    unfolding ingest_run_append by (rule ingest_run_fixed [OF ingest_run_reaches_ok])
  have row: "i < length ?b" "status_move\<^sup>*\<^sup>* (ig_processing_status (?a ! i)) (ig_processing_status (?b ! i))"
    if "i < length ?a" for i
    using ingest_run_row [OF ingest_run_reaches_ok that, of h g ds] by (simp_all add: ingest_run_append)
  from pre obtain zs where zs: "map ig_fixed ?b = map ig_fixed ?a @ zs" by (auto simp: prefix_def)
  then have len: "length ?a \<le> length ?b" by (metis length_append length_map le_add1)
  have "ig_fixed (?b ! i) = ig_fixed (?a ! i)" if "i < length ?a" for i
    using arg_cong [OF zs, of "\<lambda>xs. xs ! i"] that len by (simp add: nth_append)
  with row len show ?thesis by (auto simp: list_all2_conv_all_nth)
qed

text \<open>An envelope that has left preview and approved without being applied (it is a
  duplicate, a conflict, rejected, quarantined, received or validated) is never applied
  afterwards, whatever calls follow.\<close>

theorem ingest_dead_rows_stay_unapplied:
  assumes "i < length (ingest_rows (ingest_run h g analysts cs))"
    and "ig_processing_status (ingest_rows (ingest_run h g analysts cs) ! i) \<notin> {''preview'', ''approved'', ''applied''}"
  shows "ig_processing_status (ingest_rows (ingest_run h g analysts (cs @ ds)) ! i) \<notin> {''preview'', ''approved'', ''applied''}"
  using ingest_run_row [OF ingest_run_reaches_ok assms(1), of h g ds] status_moves_to_applied assms(2)
  by (auto simp: ingest_run_append)

text \<open>C4: tenants do not interfere through the ingest repository: deleting all calls of the
  other tenants from a history changes neither what the table holds for a tenant nor any answer
  the tenant got.\<close>

theorem ingest_tenants_do_not_interfere:
  "ingest_cut b (fst (run_ops (ingest_step h g) cs db)) =
     ingest_cut b (fst (run_ops (ingest_step h g) (only_of (ingest_owner g) b cs) db)) \<and>
   seen_by (ingest_owner g) b (snd (run_ops (ingest_step h g) cs db)) =
     snd (run_ops (ingest_step h g) (only_of (ingest_owner g) b cs) db)"
  by (rule ingest_iso.noninterference)

lemma update_hit_one:
  assumes "unique_by ingest_pkey rows" "select_one (\<lambda>r. ingest_pkey r = k) rows = Some row"
  shows "update_rows (\<lambda>r. ingest_pkey r = k \<and> allowed (ig_processing_status r)) f rows =
      (if allowed (ig_processing_status row) then update_rows (\<lambda>r. r = row) f rows else rows)"
    "select_one (\<lambda>r. ingest_pkey r = k \<and> allowed (ig_processing_status r)) rows =
      (if allowed (ig_processing_status row) then Some row else None)"
proof -
  note row = select_one_SomeD [OF assms(2)]
  have hit: "(ingest_pkey r = k \<and> allowed (ig_processing_status r)) = (r = row \<and> allowed (ig_processing_status row))"
    if "r \<in> set rows" for r
    using unique_status [OF assms(1) that, of row] row by auto
  show "update_rows (\<lambda>r. ingest_pkey r = k \<and> allowed (ig_processing_status r)) f rows =
      (if allowed (ig_processing_status row) then update_rows (\<lambda>r. r = row) f rows else rows)"
    using update_rows_cong [OF hit] update_rows_none [of rows "\<lambda>r. False"]
    by (cases "allowed (ig_processing_status row)") (simp_all add: update_rows_none hit cong: update_rows_cong)
  show "select_one (\<lambda>r. ingest_pkey r = k \<and> allowed (ig_processing_status r)) rows =
      (if allowed (ig_processing_status row) then Some row else None)"
  proof (cases "select_one (\<lambda>r. ingest_pkey r = k \<and> allowed (ig_processing_status r)) rows")
    case None
    then have "\<not> (ingest_pkey row = k \<and> allowed (ig_processing_status row))"
      using row by (auto simp: select_one_None_iff)
    with None row show ?thesis by simp
  next
    case (Some x)
    with hit [of x] select_one_SomeD [OF Some] show ?thesis by simp
  qed
qed

text \<open>Approval is the reference operation on the tenant's one row of that id: it turns a row in
  preview into an approved one, and from every other status, or when the tenant has no such
  row, it changes nothing and raises the \<^verbatim>\<open>ValueError\<close> that says so.\<close>

theorem approve_only_from_preview:
  "approve_envelope g p i clock (ingest_run h g analysts cs) =
    (let db = ingest_run h g analysts cs; new = (\<lambda>r. r\<lparr>ig_processing_status := ''approved'', ig_updated_at := clock\<rparr>) in
     case uuid_cast g (tenant_id p) of
       None \<Rightarrow> (db, Inl (DatabaseError ''InvalidTextRepresentation''))
     | Some t \<Rightarrow>
         (case select_one (\<lambda>r. ingest_pkey r = (t, i)) (ingest_rows db) of
            None \<Rightarrow> (db, Inl (ValueError (''envelope '' @ i @ '' not found for tenant'')))
          | Some row \<Rightarrow>
              if ig_processing_status row = ''preview''
              then (db\<lparr>ingest_rows := update_rows (\<lambda>r. r = row) new (ingest_rows db)\<rparr>,
                    r_bind (row_to_envelope (new row)) (\<lambda>e. Inr (Some e)))
              else (db, r_bind (row_to_envelope row) (\<lambda>e. Inl (ValueError (''cannot approve envelope '' @ i @
                     '' in status '' @ ig_processing_status e @ ''; must be preview''))))))"
proof (cases "uuid_cast g (tenant_id p)")
  case None
  then show ?thesis by (simp add: approve_envelope_def uuid_column_def Let_def)
next
  case (Some t)
  let ?db = "ingest_run h g analysts cs"
  have u: "unique_by ingest_pkey (ingest_rows ?db)"
    using ingest_run_reaches_ok [of h g analysts cs] by (simp add: ingest_ok_def)
  show ?thesis
  proof (cases "select_one (\<lambda>r. ingest_pkey r = (t, i)) (ingest_rows ?db)")
    case None
    then have "\<forall>r\<in>set (ingest_rows ?db). ingest_pkey r \<noteq> (t, i)" by (simp add: select_one_None_iff)
    then have "update_rows (\<lambda>r. ingest_pkey r = (t, i) \<and> ig_processing_status r = ''preview'') f (ingest_rows ?db) = ingest_rows ?db"
      "select_one (\<lambda>r. ingest_pkey r = (t, i) \<and> ig_processing_status r = ''preview'') (ingest_rows ?db) = None" for f
      by (auto simp: select_one_None_iff intro: update_rows_none)
    with Some None show ?thesis
      by (simp add: approve_envelope_def uuid_column_def update_envelope_def Let_def get_envelope_def)
  next
    case (Some row)
    note hit = update_hit_one [OF u Some, of "\<lambda>s. s = ''preview''"]
    show ?thesis
      using \<open>uuid_cast g (tenant_id p) = Some t\<close> Some
      by (cases "row_to_envelope row")
        (simp_all add: approve_envelope_def uuid_column_def update_envelope_def Let_def get_envelope_def hit)
  qed
qed

text \<open>Submitting under an idempotency key that is taken never stores a second payload: the row
  that holds the key keeps its payload and identity, and becomes a conflict when the payload hash
  differs, a duplicate when it is the same and the row was still live.\<close>

theorem resubmission_marks_the_existing_row:
  assumes "envelope_row h g p envelope u n clock = Inr new" "ingest_checks new"
    and "select_one (\<lambda>r. ingest_idem_key r = ingest_idem_key new) (ingest_rows db) = Some row"
    and "ig_payload row = JObj d"
  shows "store_preview h g p envelope u n clock db =
    (let f = (if JStr (ig_payload_sha256 row) \<noteq> envelope_sha h envelope then mark_conflict clock
              else if ig_processing_status row \<in> {''duplicate'', ''applied'', ''conflict''} then id
              else mark_duplicate clock) in
     (db\<lparr>ingest_rows := update_rows (\<lambda>r. ingest_idem_key r = ingest_idem_key row) f (ingest_rows db)\<rparr>,
      Inr (Some (f row))))"
proof -
  have k: "ingest_idem_key row = ingest_idem_key new" using select_one_SomeD [OF assms(3)] by simp
  have "holds_key ingest_idem_key (ingest_idem_key new) (ingest_rows db)"
    using select_one_SomeD [OF assms(3)] by (auto simp: holds_key_def list_ex_iff)
  then have ins: "insert_ingest new db = Inr (db, None)" using assms(2) by (simp add: insert_ingest_def)
  have "row_to_envelope (resolve_existing (envelope_sha h envelope) clock row row) =
      Inr (resolve_existing (envelope_sha h envelope) clock row row)"
    using assms(4) by (simp add: row_to_envelope.simps resolve_existing_def mark_conflict_def mark_duplicate_def)
  then show ?thesis
    using assms(1,3) ins k by (simp add: store_preview_def Let_def resolve_existing_def)
qed

text \<open>A retried submission blocks the review it was waiting for: when the tenant's row in preview
  is submitted again with the same payload, it is a duplicate and approving it fails.\<close>

theorem retried_preview_cannot_be_approved:
  assumes "envelope_row h g p envelope u n clock = Inr new" "ingest_checks new"
    and "select_one (\<lambda>r. ingest_idem_key r = ingest_idem_key new) (ingest_rows (ingest_run h g analysts cs)) = Some row"
    and "ig_payload row = JObj d" "JStr (ig_payload_sha256 row) = envelope_sha h envelope"
    and "ig_processing_status row = ''preview''"
  shows "snd (approve_envelope g p (ig_envelope_id row) clock'
      (fst (store_preview h g p envelope u n clock (ingest_run h g analysts cs)))) =
    Inl (ValueError (''cannot approve envelope '' @ ig_envelope_id row @ '' in status duplicate; must be preview''))"
proof -
  let ?db = "ingest_run h g analysts cs" and ?k = "\<lambda>r. ingest_idem_key r = ingest_idem_key row"
  note sel = select_one_SomeD [OF assms(3)]
  have ok: "ingest_ok ?db" by (rule ingest_run_reaches_ok)
  have same: "r = row" if "r \<in> set (ingest_rows ?db)" "?k r \<or> ingest_pkey r = ingest_pkey row" for r
    using that sel ok unique_status [of ingest_idem_key "ingest_rows ?db" r row]
      unique_status [of ingest_pkey "ingest_rows ?db" r row] by (auto simp: ingest_ok_def)
  have holds: "holds_key ingest_idem_key (ingest_idem_key new) (ingest_rows ?db)"
    using sel by (auto simp: holds_key_def list_ex_iff)
  have ins: "insert_ingest new ?db = Inr (?db, None)" using assms(2) holds by (simp add: insert_ingest_def)
  have t: "uuid_cast g (tenant_id p) = Some (ig_tenant_id row)"
    using envelope_row_tenant [OF assms(1)] sel by (simp add: ingest_idem_key_def)
  define rows where "rows = update_rows ?k (mark_duplicate clock) (ingest_rows ?db)"
  have db': "fst (store_preview h g p envelope u n clock ?db) = ?db\<lparr>ingest_rows := rows\<rparr>"
    using assms(1,3-6) ins sel
    by (simp add: store_preview_def Let_def resolve_existing_def rows_def row_to_envelope.simps mark_duplicate_def)
  have rows: "r = mark_duplicate clock row" if "r \<in> set rows" "ingest_pkey r = ingest_pkey row" for r
    using that same by (auto simp: rows_def set_update_rows mark_duplicate_def ingest_pkey_def split: if_splits)
  have mem: "mark_duplicate clock row \<in> set rows"
    using sel unfolding rows_def set_update_rows by (intro image_eqI [of _ _ row]) auto
  have key: "ingest_pkey row = (ig_tenant_id row, ig_envelope_id row)" by (simp add: ingest_pkey_def)
  have st: "ig_processing_status (mark_duplicate clock row) = ''duplicate''" by (simp add: mark_duplicate_def)
  have no: "select_one (\<lambda>r. ingest_pkey r = ingest_pkey row \<and> ig_processing_status r = ''preview'') rows = None"
    unfolding select_one_None_iff using rows st by fastforce
  have upd: "update_rows (\<lambda>r. ingest_pkey r = ingest_pkey row \<and> ig_processing_status r = ''preview'') f rows = rows" for f
    using no by (auto simp: select_one_None_iff intro: update_rows_none)
  have pk: "ingest_pkey (mark_duplicate clock row) = ingest_pkey row" by (simp add: mark_duplicate_def ingest_pkey_def)
  have "select_one (\<lambda>r. ingest_pkey r = ingest_pkey row) rows \<noteq> None"
    using mem pk unfolding select_one_None_iff by blast
  then obtain y where y: "select_one (\<lambda>r. ingest_pkey r = ingest_pkey row) rows = Some y" by blast
  with rows select_one_SomeD [OF y] have one: "select_one (\<lambda>r. ingest_pkey r = ingest_pkey row) rows = Some (mark_duplicate clock row)"
    by simp
  have conv: "row_to_envelope (mark_duplicate clock row) = Inr (mark_duplicate clock row)"
    using assms(4) by (simp add: row_to_envelope.simps mark_duplicate_def)
  show ?thesis
    unfolding db'
    using t no upd one conv st
    by (simp add: approve_envelope_def uuid_column_def update_envelope_def get_envelope_def key [symmetric])
qed

section \<open>The conditional properties at a concrete history\<close>

definition demo_preview :: ingest_call where
  "demo_preview = StorePreview demo_principal demo_envelope ''u'' ''2024'' ''t0''"

definition demo_row :: ingest_envelope where
  "demo_row = the (select_one (\<lambda>r. True) (ingest_rows (ingest_run demo_host demo_pg [(tenant_one, analyst_one)] [demo_preview])))"

lemma demo_sha: "sha_check (replicate 64 (CHR ''a''))"
  by (simp add: sha_check_def list_all_iff is_hex_char_def)

lemmas demo_ingest_eval = demo_preview_def demo_host_def demo_pg_def demo_principal_def demo_envelope_def
  demo_source_def store_preview_def envelope_row_def ingest_run_def dget_def dget_or_def py_or_def Let_def
  uuid_column_def text_column_def ts_column_def insert_ingest_def ingest_checks_def ingest_statuses_def
  demo_sha insert_or_ignore_def holds_key_def row_to_envelope.simps
  envelope_sha_def ingest_idem_key_def ingest_pkey_def select_one_def update_rows_def default_idem_def

lemma demo_rows:
  "\<exists>r. ingest_rows (ingest_run demo_host demo_pg [(tenant_one, analyst_one)] [demo_preview]) = [r] \<and>
     envelope_row demo_host demo_pg demo_principal demo_envelope ''u'' ''2024'' ''t0'' = Inr r \<and>
     ingest_checks r \<and> ig_payload r = JObj [(''title'', JStr ''x'')] \<and> ig_processing_status r = ''preview'' \<and>
     JStr (ig_payload_sha256 r) = envelope_sha demo_host demo_envelope"
  by (simp add: demo_ingest_eval)

theorem retried_preview_cannot_be_approved_witness:
  "\<exists>row. ingest_rows (ingest_run demo_host demo_pg [(tenant_one, analyst_one)] [demo_preview]) = [row] \<and>
    snd (approve_envelope demo_pg demo_principal (ig_envelope_id row) ''t2''
      (fst (store_preview demo_host demo_pg demo_principal demo_envelope ''u'' ''2024'' ''t0''
        (ingest_run demo_host demo_pg [(tenant_one, analyst_one)] [demo_preview])))) =
    Inl (ValueError (''cannot approve envelope '' @ ig_envelope_id row @ '' in status duplicate; must be preview''))"
proof -
  obtain r where r: "ingest_rows (ingest_run demo_host demo_pg [(tenant_one, analyst_one)] [demo_preview]) = [r]"
    "envelope_row demo_host demo_pg demo_principal demo_envelope ''u'' ''2024'' ''t0'' = Inr r"
    "ingest_checks r" "ig_payload r = JObj [(''title'', JStr ''x'')]" "ig_processing_status r = ''preview''"
    "JStr (ig_payload_sha256 r) = envelope_sha demo_host demo_envelope" using demo_rows by blast
  have "select_one (\<lambda>x. ingest_idem_key x = ingest_idem_key r)
      (ingest_rows (ingest_run demo_host demo_pg [(tenant_one, analyst_one)] [demo_preview])) = Some r"
    using r(1) by (simp add: select_one_def)
  from retried_preview_cannot_be_approved [OF r(2,3) this r(4,6,5)] r(1) show ?thesis by blast
qed

theorem resubmission_marks_the_existing_row_witness:
  "\<exists>row. ingest_rows (ingest_run demo_host demo_pg [(tenant_one, analyst_one)] [demo_preview]) = [row] \<and>
    snd (store_preview demo_host demo_pg demo_principal demo_envelope ''u'' ''2024'' ''t0''
        (ingest_run demo_host demo_pg [(tenant_one, analyst_one)] [demo_preview])) =
    Inr (Some (mark_duplicate ''t0'' row))"
proof -
  obtain r where r: "ingest_rows (ingest_run demo_host demo_pg [(tenant_one, analyst_one)] [demo_preview]) = [r]"
    "envelope_row demo_host demo_pg demo_principal demo_envelope ''u'' ''2024'' ''t0'' = Inr r"
    "ingest_checks r" "ig_payload r = JObj [(''title'', JStr ''x'')]" "ig_processing_status r = ''preview''"
    "JStr (ig_payload_sha256 r) = envelope_sha demo_host demo_envelope" using demo_rows by blast
  have "select_one (\<lambda>x. ingest_idem_key x = ingest_idem_key r)
      (ingest_rows (ingest_run demo_host demo_pg [(tenant_one, analyst_one)] [demo_preview])) = Some r"
    using r(1) by (simp add: select_one_def)
  from resubmission_marks_the_existing_row [OF r(2,3) this r(4)] r(1,5,6) show ?thesis by (simp add: Let_def)
qed

lemma demo_dead_row:
  "map ig_processing_status (ingest_rows (ingest_run demo_host demo_pg [(tenant_one, analyst_one)]
     [demo_preview, Quarantine demo_principal ''env-1'' None ''u'' ''t1''])) = [''quarantined'']"
  by (simp add: demo_ingest_eval mark_quarantined_def update_envelope_def)

theorem ingest_dead_rows_stay_unapplied_witness:
  "ig_processing_status (ingest_rows (ingest_run demo_host demo_pg [(tenant_one, analyst_one)]
     ([demo_preview, Quarantine demo_principal ''env-1'' None ''u'' ''t1''] @ [Commit demo_principal ''env-1'' None ''t2''])) ! 0)
   \<notin> {''preview'', ''approved'', ''applied''}"
proof (rule ingest_dead_rows_stay_unapplied)
  let ?rows = "ingest_rows (ingest_run demo_host demo_pg [(tenant_one, analyst_one)]
     [demo_preview, Quarantine demo_principal ''env-1'' None ''u'' ''t1''])"
  from arg_cong [OF demo_dead_row, of length] show l: "0 < length ?rows" by simp
  from arg_cong [OF demo_dead_row, of "\<lambda>xs. xs ! 0"] l have "ig_processing_status (?rows ! 0) = ''quarantined''" by simp
  then show "ig_processing_status (?rows ! 0) \<notin> {''preview'', ''approved'', ''applied''}" by simp
qed

section \<open>Intake identity\<close>

text \<open>C5: the canonical JSON text that payload hashes are taken of identifies an object up to the
  order of its keys: two objects have the same text exactly when they hold the same keys with
  values of the same canonical text.\<close>

theorem canonical_text_identifies_objects:
  assumes "json_ok (JObj d)" "json_ok (JObj d')"
  shows "canonical_json (JObj d) = canonical_json (JObj d') \<longleftrightarrow>
    (\<lambda>k. map_option canonical_json (map_of d k)) = (\<lambda>k. map_option canonical_json (map_of d' k))"
  using canonical_obj_iff [OF assms] by (auto simp: fun_eq_iff)

theorem canonical_text_identifies_objects_witness:
  "canonical_json (JObj [(''b'', JInt 1), (''a'', JList [])]) = canonical_json (JObj [(''a'', JList []), (''b'', JInt 1)])"
  by (subst canonical_text_identifies_objects) (auto simp: dict_ok_def fun_eq_iff)

text \<open>C6: the credential screen is complete: a value passes exactly when no object key at any depth
  of it, in objects and in lists, contains one of the secret words after lower-casing and with
  hyphens read as underscores.\<close>

theorem secret_screen_is_complete:
  "reject_secret_keys v path = Inr () \<longleftrightarrow> deep_keys v \<inter> Collect secret_key = {}"
  using reject_secret_keys_iff(1) [of v path] by auto

text \<open>As far as the digest separates texts, an idempotency key determines the six parts it was
  made of when none of them holds a bar.\<close>

theorem idempotency_key_determines_its_parts:
  assumes "inj_on (sha_b64 h) {join ''|'' (map the_str [a, b, c, d, e, f]), join ''|'' (map the_str [a', b', c', d', e', f'])}"
    and "idempotency_key h a b c d e f = Inr k" "idempotency_key h a' b' c' d' e' f' = Inr k"
    and "CHR ''|'' \<notin> \<Union> (set ` the_str ` {a, b, c, d, e, f, a', b', c', d', e', f'})"
  shows "[a, b, c, d, e, f] = [a', b', c', d', e', f']"
proof -
  define ps qs where "ps = [a, b, c, d, e, f]" and "qs = [a', b', c', d', e', f']"
  from assms(2) have p: "list_all nonempty_str ps" "k = ''v1:'' @ sha_b64 h (join ''|'' (map the_str ps))"
    unfolding idempotency_key_Inr ps_def by blast+
  from assms(3) have q: "list_all nonempty_str qs" "k = ''v1:'' @ sha_b64 h (join ''|'' (map the_str qs))"
    unfolding idempotency_key_Inr qs_def by blast+
  from p(2) q(2) have "sha_b64 h (join ''|'' (map the_str ps)) = sha_b64 h (join ''|'' (map the_str qs))" by simp
  then have eq: "join ''|'' (map the_str ps) = join ''|'' (map the_str qs)"
    by (rule inj_onD [OF assms(1) [folded ps_def qs_def]]) blast+
  have bars: "\<forall>v\<in>set (ps @ qs). CHR ''|'' \<notin> set (the_str v)"
    using assms(4) by (simp add: ps_def qs_def)
  have "length ps = length qs" "ps \<noteq> []" by (simp_all add: ps_def qs_def)
  from idempotency_preimage_inject [OF this p(1) q(1) bars eq] have "ps = qs" .
  then show ?thesis by (simp only: ps_def qs_def)
qed

theorem idempotency_key_determines_its_parts_witness:
  "map (\<lambda>n. [JStr ''t'', JStr ''in'', JStr ''thehive'', JStr ''case'', JStr n, JStr ''1'']) [''41''] =
   [[JStr ''t'', JStr ''in'', JStr ''thehive'', JStr ''case'', JStr ''41'', JStr ''1'']]"
  using idempotency_key_determines_its_parts [of demo_host "JStr ''t''" "JStr ''in''" "JStr ''thehive''"
      "JStr ''case''" "JStr ''41''" "JStr ''1''" "JStr ''t''" "JStr ''in''" "JStr ''thehive''"
      "JStr ''case''" "JStr ''41''" "JStr ''1''" "''v1:t|in|thehive|case|41|1''"]
  by (simp add: demo_host_def idempotency_key_def)

text \<open>Parts with bars collide: moving the boundary between the source id and the revision
  across a bar gives another source record the same key.\<close>

theorem idempotency_keys_collide_across_bars:
  "idempotency_key h i d s e (JStr (x # a @ ''|'' @ y # b)) (JStr (z # c)) =
   idempotency_key h i d s e (JStr (x # a)) (JStr (y # b @ ''|'' @ z # c))"
  by (simp add: idempotency_key_def)

section \<open>Timeline flags\<close>

text \<open>Whatever calls are made on an empty flag table, it holds at most one flag per tenant, entry
  and analyst, unique flag ids, and no blank entry id or analyst name.\<close>

theorem flag_runs_keep_constraints:
  "flag_ok (fst (run_ops (flag_step g) cs \<lparr>flag_rows = [], flag_analysts = analysts\<rparr>))"
  by (rule run_ops_invariant, erule flag_step_ok) (simp add: flag_ok_def)

text \<open>Tenants do not interfere through the flag table.\<close>

theorem flag_tenants_do_not_interfere:
  "flag_cut b (fst (run_ops (flag_step g) cs db)) =
     flag_cut b (fst (run_ops (flag_step g) (only_of (flag_owner g) b cs) db)) \<and>
   seen_by (flag_owner g) b (snd (run_ops (flag_step g) cs db)) =
     snd (run_ops (flag_step g) (only_of (flag_owner g) b cs) db)"
  by (rule flag_iso.noninterference)

text \<open>Flagging is idempotent and visible: after a successful flag, every further valid flag of the
  same analyst on the same entry, with whatever note, name, id and time, answers the first row
  and changes nothing, and listing the entry shows the row, newest first.\<close>

theorem flag_creation_is_idempotent_and_listed:
  assumes "create_flag g p e n a i c db = (db', Inr row)"
    and "new_flag g p e n' a' i' c' = Inr r'" "flag_checks r'"
  shows "create_flag g p e n' a' i' c' db' = (db', Inr row) \<and>
    (\<exists>rows. list_for_entry g p e db' = Inr rows \<and> row \<in> set rows \<and>
       sorted (map (\<lambda>r. - fl_created_at r) rows))"
proof -
  obtain r where r: "new_flag g p e n a i c = Inr r" "save_flag r db = Inr (db', row)"
    using assms(1) by (auto simp: create_flag_Inr_iff)
  note f = new_flag_Inr [OF r(1)] and f' = new_flag_Inr [OF assms(2)]
  have key: "flag_key r' = flag_key r" using f f' by (auto simp: flag_key_def)
  have sel: "select_one (\<lambda>x. flag_key x = flag_key r) (flag_rows db') = Some row"
    using save_flag_Inr [OF r(2)] by (elim conjE)
  note row = select_one_SomeD [OF sel]
  have "holds_key flag_key (flag_key r) (flag_rows db')"
    using row by (auto simp: holds_key_def list_ex_iff)
  then have "save_flag r' db' = Inr (db', row)"
    using assms(3) sel key by (simp add: save_flag_def insert_flag_def)
  then have again: "create_flag g p e n' a' i' c' db' = (db', Inr row)"
    using assms(2) by (simp add: create_flag_def)
  have "row \<in> set (select_rows (\<lambda>x. fl_tenant_id x = fl_tenant_id r \<and>
      fl_timeline_entry_id x = strip (the_str e)) (flag_rows db'))"
    using row f by (simp add: select_rows_def flag_key_def)
  with f again show ?thesis
    by (auto simp: list_for_entry_def uuid_column_def)
qed

definition demo_flag :: "string \<Rightarrow> int \<Rightarrow> string option \<Rightarrow> timeline_flag" where
  "demo_flag i c n = \<lparr>fl_tenant_id = tenant_one, fl_flag_id = i, fl_timeline_entry_id = ''e1'',
     fl_analyst_id = analyst_one, fl_analyst_name = analyst_one, fl_created_at = c, fl_note = n\<rparr>"

lemma demo_uuids: "is_uuid tenant_one" "is_uuid analyst_one"
  by code_simp+

lemma demo_flag_text: "strip ''e1'' = ''e1''" "strip analyst_one = analyst_one" "analyst_one \<noteq> []"
  "btrim ''e1'' = ''e1''" "btrim analyst_one = analyst_one"
  by code_simp+

lemma demo_new_flag:
  "new_flag demo_pg demo_principal (JStr ''e1'') JNull None i c = Inr (demo_flag i c None)"
  "new_flag demo_pg demo_principal (JStr ''e1'') (JStr ''see'') None i c = Inr (demo_flag i c (Some ''see''))"
  "flag_checks (demo_flag i c n)"
  by (simp_all add: new_flag_def demo_flag_text flag_name_def demo_principal_def demo_uuids uuid_column_def
      note_column_def demo_pg_def demo_flag_def flag_checks_def)

theorem flag_creation_is_idempotent_and_listed_witness:
  "create_flag demo_pg demo_principal (JStr ''e1'') (JStr ''see'') None ''f2'' 2
     \<lparr>flag_rows = [demo_flag ''f1'' 1 None], flag_analysts = [(tenant_one, analyst_one)]\<rparr> =
   (\<lparr>flag_rows = [demo_flag ''f1'' 1 None], flag_analysts = [(tenant_one, analyst_one)]\<rparr>, Inr (demo_flag ''f1'' 1 None))"
proof -
  have "create_flag demo_pg demo_principal (JStr ''e1'') JNull None ''f1'' 1 empty_flags =
    (\<lparr>flag_rows = [demo_flag ''f1'' 1 None], flag_analysts = [(tenant_one, analyst_one)]\<rparr>, Inr (demo_flag ''f1'' 1 None))"
    by (simp add: create_flag_def demo_new_flag save_flag_def insert_flag_def empty_flags_def holds_key_def
        insert_or_ignore_def) (simp add: demo_flag_def)
  from flag_creation_is_idempotent_and_listed [OF this demo_new_flag(2,3)] show ?thesis by blast
qed

end
