(* ===== verification/Ingest_Refine.thy ===== *)
theory Ingest_Refine
  imports Ingest_Repo_Props
begin

text \<open>
  The abstract specification of the ingest repository: a register that maps the key of an envelope to
  its content and the idempotency key to the envelope it was first used for, without rows, their order
  or statements.  The repository implements it call by call, and so run by run.
\<close>

section \<open>Refinement of one machine by another\<close>

locale refines =
  fixes step :: "'op \<Rightarrow> 's \<Rightarrow> 's \<times> 'o" and spec :: "'op \<Rightarrow> 'a \<Rightarrow> 'a \<times> 'o" and abs :: "'s \<Rightarrow> 'a" and ok :: "'s \<Rightarrow> bool"
  assumes stays_ok: "ok s \<Longrightarrow> ok (fst (step op s))"
    and simulates: "ok s \<Longrightarrow> spec op (abs s) = (abs (fst (step op s)), snd (step op s))"
begin

lemma run_simulates: "ok s \<Longrightarrow> run_ops spec ops (abs s) = (abs (fst (run_ops step ops s)), snd (run_ops step ops s))"
  by (induction ops arbitrary: s) (simp_all add: simulates stays_ok Let_def split_beta)

lemma run_reaches:
  "ok s \<Longrightarrow> P (fst (run_ops spec ops (abs s))) \<Longrightarrow> P (abs (fst (run_ops step ops s)))"
  by (simp add: run_simulates)

end

section \<open>A table as a map\<close>

lemma map_of_rows: "map_of (map (\<lambda>r. (key r, v r)) t) k = map_option v (select_one (\<lambda>r. key r = k) t)"
  by (induction t) (auto simp: select_one_def)

lemma map_of_append:
  "\<not> holds_key key (key r) t \<Longrightarrow>
    map_of (map (\<lambda>r. (key r, v r)) (t @ [r])) = (map_of (map (\<lambda>r. (key r, v r)) t))(key r \<mapsto> v r)"
proof (induction t)
  case (Cons a t)
  then have "key a \<noteq> key r" by (simp add: holds_key_def)
  with Cons show ?case by (auto simp: holds_key_def fun_eq_iff)
qed simp

lemma map_of_update:
  assumes "unique_by key t" "row \<in> set t" "P row" "\<And>r. r \<in> set t \<Longrightarrow> P r \<Longrightarrow> r = row" "key (f row) = key row"
  shows "map_of (map (\<lambda>r. (key r, r)) (update_rows P f t)) = (map_of (map (\<lambda>r. (key r, r)) t))(key row \<mapsto> f row)"
  using assms(1-4)
proof (induction t)
  case (Cons r t)
  show ?case
  proof (cases "r = row")
    case True
    with Cons.prems(1) have "row \<notin> set t" by (auto simp: unique_by_def)
    then have "update_rows P f t = t" using Cons.prems(4) by (intro update_rows_none) (metis list.set_intros(2))
    with True Cons.prems(3) have "update_rows P f (r # t) = f row # t" by (simp add: update_rows_def)
    with True show ?thesis by (auto simp: assms(5) fun_eq_iff)
  next
    case False
    then have r: "\<not> P r" "row \<in> set t" using Cons.prems(2) Cons.prems(4) [of r] by auto
    then have other: "key r \<noteq> key row" using Cons.prems(1) by (auto simp: unique_by_def)
    have "map_of (map (\<lambda>r. (key r, r)) (update_rows P f t)) = (map_of (map (\<lambda>r. (key r, r)) t))(key row \<mapsto> f row)"
    proof (rule Cons.IH)
      show "unique_by key t" using Cons.prems(1) by (simp add: unique_by_def)
    qed (use Cons.prems(3,4) r(2) in \<open>blast intro: list.set_intros\<close>)+
    moreover have "update_rows P f (r # t) = r # update_rows P f t" using r(1) by (simp add: update_rows_def)
    ultimately show ?thesis using other by (auto simp: fun_eq_iff)
  qed
qed simp

lemma map_of_keys_update:
  assumes "\<And>r. r \<in> set t \<Longrightarrow> P r \<Longrightarrow> key (f r) = key r \<and> v (f r) = v r"
  shows "map (\<lambda>r. (key r, v r)) (update_rows P f t) = map (\<lambda>r. (key r, v r)) t"
  using assms by (auto simp: update_rows_def)

section \<open>The register\<close>

record register =
  reg_row :: "string \<times> string \<Rightarrow> ingest_envelope option"
  reg_key :: "string \<times> string \<Rightarrow> (string \<times> string) option"
  reg_staff :: "(string \<times> string) set"

definition register_of :: "ingest_db \<Rightarrow> register" where
  "register_of db = \<lparr>reg_row = map_of (map (\<lambda>r. (ingest_pkey r, r)) (ingest_rows db)),
     reg_key = map_of (map (\<lambda>r. (ingest_idem_key r, ingest_pkey r)) (ingest_rows db)), reg_staff = set (ingest_analysts db)\<rparr>"

text \<open>An answer is the envelope; the register keeps its old state when there is none to give.\<close>

definition answer_with :: "register \<Rightarrow> register \<Rightarrow> ingest_envelope \<Rightarrow> register \<times> ingest_answer" where
  "answer_with B B' r = (case row_to_envelope r of Inl e \<Rightarrow> (B, Inl e) | Inr x \<Rightarrow> (B', Inr (Some x)))"

definition reg_store :: "host \<Rightarrow> pg \<Rightarrow> principal \<Rightarrow> dict \<Rightarrow> string \<Rightarrow> string \<Rightarrow> string \<Rightarrow> register \<Rightarrow> register \<times> ingest_answer" where
  "reg_store h g p envelope uuid now clock B =
     (case envelope_row h g p envelope uuid now clock of
        Inl e \<Rightarrow> (B, Inl e)
      | Inr new \<Rightarrow>
          if \<not> ingest_checks new then (B, Inl (DatabaseError ''CheckViolation''))
          else (case reg_key B (ingest_idem_key new) of
            Some k \<Rightarrow> let row = the (reg_row B k); row' = resolve_existing (envelope_sha h envelope) clock row row in
              answer_with B (B\<lparr>reg_row := (reg_row B)(k \<mapsto> row')\<rparr>) row'
          | None \<Rightarrow>
              if reg_row B (ingest_pkey new) \<noteq> None then (B, Inl (DatabaseError ''UniqueViolation''))
              else if (ig_tenant_id new, ig_analyst_id new) \<notin> reg_staff B then (B, Inl (DatabaseError ''ForeignKeyViolation''))
              else answer_with B (B\<lparr>reg_row := (reg_row B)(ingest_pkey new \<mapsto> new),
                reg_key := (reg_key B)(ingest_idem_key new \<mapsto> ingest_pkey new)\<rparr>) new))"

text \<open>The transitions of one envelope: what may be changed, how, and the refusal otherwise.\<close>

definition reg_move :: "pg \<Rightarrow> principal \<Rightarrow> string \<Rightarrow> (string \<Rightarrow> bool) \<Rightarrow> (ingest_envelope \<Rightarrow> ingest_envelope) \<Rightarrow>
   (ingest_envelope option \<Rightarrow> repo_error) \<Rightarrow> register \<Rightarrow> register \<times> ingest_answer" where
  "reg_move g p i allowed f refuse B =
     (case uuid_column g (tenant_id p) of
        Inl e \<Rightarrow> (B, Inl e)
      | Inr t \<Rightarrow> (case reg_row B (t, i) of
            None \<Rightarrow> (B, Inl (refuse None))
          | Some r \<Rightarrow>
              if allowed (ig_processing_status r)
              then (B\<lparr>reg_row := (reg_row B)((t, i) \<mapsto> f r)\<rparr>, r_bind (row_to_envelope (f r)) (\<lambda>x. Inr (Some x)))
              else (B, r_bind (row_to_envelope r) (\<lambda>x. Inl (refuse (Some x))))))"

definition approval_refused :: "string \<Rightarrow> ingest_envelope option \<Rightarrow> repo_error" where
  "approval_refused i r = ValueError (case r of
     None \<Rightarrow> ''envelope '' @ i @ '' not found for tenant''
   | Some x \<Rightarrow> ''cannot approve envelope '' @ i @ '' in status '' @ ig_processing_status x @ ''; must be preview'')"

definition commit_refused :: "string \<Rightarrow> ingest_envelope option \<Rightarrow> repo_error" where
  "commit_refused i r = ValueError (case r of
     None \<Rightarrow> ''envelope '' @ i @ '' not found'' | Some x \<Rightarrow> ''cannot apply '' @ i @ '' from status '' @ ig_processing_status x)"

fun register_step :: "host \<Rightarrow> pg \<Rightarrow> ingest_call \<Rightarrow> register \<Rightarrow> register \<times> ingest_answer" where
  "register_step h g (StorePreview p e u n c) B = reg_store h g p e u n c B"
| "register_step h g (GetEnvelope p i) B = (B, r_bind (uuid_column g (tenant_id p)) (\<lambda>t.
     case reg_row B (t, i) of None \<Rightarrow> Inr None | Some r \<Rightarrow> r_bind (row_to_envelope r) (\<lambda>x. Inr (Some x))))"
| "register_step h g (Approve p i c) B = reg_move g p i (\<lambda>s. s = ''preview'')
     (\<lambda>r. r\<lparr>ig_processing_status := ''approved'', ig_updated_at := c\<rparr>) (approval_refused i) B"
| "register_step h g (Commit p i t c) B = reg_move g p i (\<lambda>s. s = ''approved'' \<or> s = ''preview'')
     (\<lambda>r. r\<lparr>ig_processing_status := ''applied'', ig_target_id := coalesce t (ig_target_id r), ig_updated_at := c\<rparr>) (commit_refused i) B"
| "register_step h g (Quarantine p i r u c) B = reg_move g p i (\<lambda>s. True)
     (\<lambda>x. x\<lparr>ig_processing_status := ''quarantined'', ig_quarantine_reference := Some (''quarantine-'' @ take 8 u),
        ig_error_code := coalesce r (ig_error_code x), ig_updated_at := c\<rparr>) (\<lambda>x. ValueError (''envelope not found for quarantine: '' @ i)) B"

definition empty_register :: "(string \<times> string) list \<Rightarrow> register" where
  "empty_register analysts = \<lparr>reg_row = Map.empty, reg_key = Map.empty, reg_staff = set analysts\<rparr>"

lemma register_of_sel [simp]:
  "reg_row (register_of db) k = select_one (\<lambda>r. ingest_pkey r = k) (ingest_rows db)"
  "reg_key (register_of db) k = map_option ingest_pkey (select_one (\<lambda>r. ingest_idem_key r = k) (ingest_rows db))"
  "reg_staff (register_of db) = set (ingest_analysts db)"
  by (simp_all add: register_of_def map_of_rows option.map_ident)

section \<open>The repository implements the register\<close>

lemma select_unique:
  assumes "unique_by key t" "r \<in> set t" "key r = k" shows "select_one (\<lambda>x. key x = k) t = Some r"
proof (cases "select_one (\<lambda>x. key x = k) t")
  case None
  with assms(2,3) show ?thesis by (simp add: select_one_None_iff)
next
  case (Some x)
  with select_one_SomeD [OF Some] unique_status [OF assms(1), of x r] assms(2,3) show ?thesis by auto
qed

lemma register_update:
  assumes "ingest_ok db" "row \<in> set (ingest_rows db)" "P row" "\<And>r. r \<in> set (ingest_rows db) \<Longrightarrow> P r \<Longrightarrow> r = row"
    and "ingest_pkey (f row) = ingest_pkey row" "ingest_idem_key (f row) = ingest_idem_key row"
  shows "register_of (db\<lparr>ingest_rows := update_rows P f (ingest_rows db)\<rparr>) =
    (register_of db)\<lparr>reg_row := (reg_row (register_of db))(ingest_pkey row \<mapsto> f row)\<rparr>"
proof -
  have u: "unique_by ingest_pkey (ingest_rows db)" using assms(1) by (simp add: ingest_ok_def)
  have "map_of (map (\<lambda>r. (ingest_pkey r, r)) (update_rows P f (ingest_rows db))) =
      (map_of (map (\<lambda>r. (ingest_pkey r, r)) (ingest_rows db)))(ingest_pkey row \<mapsto> f row)"
    by (rule map_of_update) (use u assms(2-5) in blast)+
  moreover have "map (\<lambda>r. (ingest_idem_key r, ingest_pkey r)) (update_rows P f (ingest_rows db)) =
      map (\<lambda>r. (ingest_idem_key r, ingest_pkey r)) (ingest_rows db)"
    by (rule map_of_keys_update) (use assms(4-6) in blast)
  ultimately show ?thesis by (simp add: register_of_def)
qed

lemma move_implements:
  assumes ok: "ingest_ok db" and keys: "\<And>r. ingest_pkey (f r) = ingest_pkey r" "\<And>r. ingest_idem_key (f r) = ingest_idem_key r"
  shows "case select_one (\<lambda>r. ingest_pkey r = (t, i)) (ingest_rows db) of
     None \<Rightarrow> update_envelope t i allowed f db = (db, None)
   | Some r \<Rightarrow> if allowed (ig_processing_status r)
       then snd (update_envelope t i allowed f db) = Some (f r) \<and>
         register_of (fst (update_envelope t i allowed f db)) =
           (register_of db)\<lparr>reg_row := (reg_row (register_of db))((t, i) \<mapsto> f r)\<rparr>
       else update_envelope t i allowed f db = (db, None)"
proof -
  have u: "unique_by ingest_pkey (ingest_rows db)" using ok by (simp add: ingest_ok_def)
  let ?hit = "\<lambda>r. ingest_pkey r = (t, i) \<and> allowed (ig_processing_status r)"
  have none: "update_envelope t i allowed f db = (db, None)" if "\<And>r. r \<in> set (ingest_rows db) \<Longrightarrow> \<not> ?hit r"
    using that by (simp add: update_envelope_def Let_def update_rows_none select_one_None_iff)
  show ?thesis
  proof (cases "select_one (\<lambda>r. ingest_pkey r = (t, i)) (ingest_rows db)")
    case None
    then have "update_envelope t i allowed f db = (db, None)" by (intro none) (simp add: select_one_None_iff)
    with None show ?thesis by simp
  next
    case (Some r)
    note r = select_one_SomeD [OF Some]
    have only: "x = r" if "x \<in> set (ingest_rows db)" "ingest_pkey x = (t, i)" for x
      using unique_status [OF u that(1) conjunct1 [OF r]] that(2) r by simp
    show ?thesis
    proof (cases "allowed (ig_processing_status r)")
      case True
      have "select_one ?hit (ingest_rows db) = Some r"
        using r True only select_one_None_iff [of ?hit "ingest_rows db"] select_one_SomeD [of ?hit "ingest_rows db"] by (metis (no_types, lifting) option.exhaust)
      moreover have "register_of (db\<lparr>ingest_rows := update_rows ?hit f (ingest_rows db)\<rparr>) =
          (register_of db)\<lparr>reg_row := (reg_row (register_of db))(ingest_pkey r \<mapsto> f r)\<rparr>"
        by (rule register_update [OF ok]) (use r True only keys in auto)
      ultimately show ?thesis using Some True r by (simp add: update_envelope_def Let_def)
    next
      case False
      then have "\<not> ?hit x" if "x \<in> set (ingest_rows db)" for x using only [OF that] by blast
      with none Some False show ?thesis by simp
    qed
  qed
qed


lemma holds_key_select: "holds_key key k t \<longleftrightarrow> select_one (\<lambda>r. key r = k) t \<noteq> None"
  by (induction t) (auto simp: holds_key_def select_one_def)

lemma register_insert:
  assumes "\<not> holds_key ingest_idem_key (ingest_idem_key r) (ingest_rows db)" "\<not> holds_key ingest_pkey (ingest_pkey r) (ingest_rows db)"
  shows "register_of (db\<lparr>ingest_rows := ingest_rows db @ [r]\<rparr>) =
    (register_of db)\<lparr>reg_row := (reg_row (register_of db))(ingest_pkey r \<mapsto> r), reg_key := (reg_key (register_of db))(ingest_idem_key r \<mapsto> ingest_pkey r)\<rparr>"
  using map_of_append [OF assms(1), of ingest_pkey] map_of_append [OF assms(2), of "\<lambda>r. r"] by (simp add: register_of_def)

lemma store_implements:
  assumes ok: "ingest_ok db"
  shows "reg_store h g p e u n c (register_of db) =
    (register_of (fst (store_preview h g p e u n c db)), snd (store_preview h g p e u n c db))"
proof (cases "envelope_row h g p e u n c")
  case (Inl x)
  then show ?thesis by (simp add: reg_store_def store_preview_def)
next
  case new: (Inr new)
  let ?same = "\<lambda>r. ingest_idem_key r = ingest_idem_key new"
  show ?thesis
  proof (cases "ingest_checks new")
    case False
    with new show ?thesis by (simp add: reg_store_def store_preview_def insert_ingest_def)
  next
    case chk: True
    show ?thesis
    proof (cases "select_one ?same (ingest_rows db)")
      case (Some row)
      define f where "f = resolve_existing (envelope_sha h e) c row"
      note row = select_one_SomeD [OF Some]
      have only: "r = row" if "r \<in> set (ingest_rows db)" "?same r" for r
        using unique_status [of ingest_idem_key "ingest_rows db" r row] ok that row by (simp add: ingest_ok_def)
      have keys: "ingest_pkey (f row) = ingest_pkey row" "ingest_idem_key (f row) = ingest_idem_key row"
        using ig_fixed_keys [OF conjunct1 [OF resolve_existing_touch [of row row]]] by (simp_all add: f_def)
      have upd: "register_of (db\<lparr>ingest_rows := update_rows ?same f (ingest_rows db)\<rparr>) =
          (register_of db)\<lparr>reg_row := (reg_row (register_of db))(ingest_pkey row \<mapsto> f row)\<rparr>"
        by (rule register_update [OF ok]) (use row only keys in auto)
      have here: "select_one (\<lambda>r. ingest_pkey r = ingest_pkey row) (ingest_rows db) = Some row"
        using ok row by (intro select_unique) (simp_all add: ingest_ok_def)
      have ins: "insert_ingest new db = Inr (db, None)" using chk Some by (simp add: insert_ingest_def holds_key_select)
      have "store_preview h g p e u n c db = (case row_to_envelope (f row) of Inl x \<Rightarrow> (db, Inl x)
          | Inr x \<Rightarrow> (db\<lparr>ingest_rows := update_rows ?same f (ingest_rows db)\<rparr>, Inr (Some x)))"
        by (simp add: store_preview_def new ins Some Let_def f_def [symmetric] split: sum.split)
      moreover have "reg_store h g p e u n c (register_of db) = answer_with (register_of db)
          ((register_of db)\<lparr>reg_row := (reg_row (register_of db))(ingest_pkey row \<mapsto> f row)\<rparr>) (f row)"
        by (simp add: reg_store_def new chk Some here Let_def f_def [symmetric])
      ultimately show ?thesis by (simp add: answer_with_def upd split: sum.split)
    next
      case None
      then have free: "\<not> holds_key ingest_idem_key (ingest_idem_key new) (ingest_rows db)" by (simp add: holds_key_select)
      show ?thesis
      proof (cases "holds_key ingest_pkey (ingest_pkey new) (ingest_rows db)")
        case taken: True
        then have "insert_ingest new db = Inl (DatabaseError ''UniqueViolation'')" using chk free by (simp add: insert_ingest_def)
        with new chk None taken show ?thesis by (simp add: reg_store_def store_preview_def holds_key_select)
      next
        case pfree: False
        show ?thesis
        proof (cases "(ig_tenant_id new, ig_analyst_id new) \<in> set (ingest_analysts db)")
          case False
          then have "insert_ingest new db = Inl (DatabaseError ''ForeignKeyViolation'')" using chk free pfree by (simp add: insert_ingest_def)
          with new chk None pfree False show ?thesis by (simp add: reg_store_def store_preview_def holds_key_select)
        next
          case True
          then have "insert_ingest new db = Inr (db\<lparr>ingest_rows := ingest_rows db @ [new]\<rparr>, Some new)"
            using chk free pfree by (simp add: insert_ingest_def insert_or_ignore_def)
          with new chk None pfree True register_insert [OF free pfree] show ?thesis
            by (cases "row_to_envelope new") (simp_all add: reg_store_def store_preview_def answer_with_def holds_key_select)
        qed
      qed
    qed
  qed
qed

lemma r_bind_case: "r_bind r f = (case r of Inl e \<Rightarrow> Inl e | Inr x \<Rightarrow> f x)"
  by (cases r) simp_all

lemma move_refines:
  assumes ok: "ingest_ok db" and keys: "\<And>r. ingest_pkey (f r) = ingest_pkey r" "\<And>r. ingest_idem_key (f r) = ingest_idem_key r"
    and impl: "res = (case uuid_column g (tenant_id p) of
        Inl e \<Rightarrow> (db, Inl e)
      | Inr t \<Rightarrow> (let (db', ret) = update_envelope t i allowed f db in
           case ret of Some row \<Rightarrow> (db', r_bind (row_to_envelope row) (\<lambda>e. Inr (Some e))) | None \<Rightarrow> (db', miss t db')))"
    and absent: "\<And>t. select_one (\<lambda>r. ingest_pkey r = (t, i)) (ingest_rows db) = None \<Longrightarrow> uuid_column g (tenant_id p) = Inr t \<Longrightarrow> miss t db = Inl (refuse None)"
    and refused: "\<And>t r. select_one (\<lambda>r. ingest_pkey r = (t, i)) (ingest_rows db) = Some r \<Longrightarrow> uuid_column g (tenant_id p) = Inr t \<Longrightarrow>
      \<not> allowed (ig_processing_status r) \<Longrightarrow> miss t db = r_bind (row_to_envelope r) (\<lambda>x. Inl (refuse (Some x)))"
  shows "reg_move g p i allowed f refuse (register_of db) = (register_of (fst res), snd res)"
proof (cases "uuid_column g (tenant_id p)")
  case (Inl e)
  then show ?thesis by (simp add: reg_move_def impl)
next
  case (Inr t)
  note m = move_implements [OF ok keys, of t i allowed]
  show ?thesis
  proof (cases "select_one (\<lambda>r. ingest_pkey r = (t, i)) (ingest_rows db)")
    case None
    with m Inr absent [OF None Inr] show ?thesis by (simp add: reg_move_def impl)
  next
    case (Some r)
    with m Inr refused [OF Some Inr] show ?thesis
      by (cases "allowed (ig_processing_status r)") (simp_all add: reg_move_def impl split_beta)
  qed
qed

lemma repository_implements:
  assumes ok: "ingest_ok db"
  shows "register_step h g op (register_of db) = (register_of (fst (ingest_step h g op db)), snd (ingest_step h g op db))"
proof (cases op)
  case (StorePreview p e u n c)
  with store_implements [OF ok] show ?thesis by simp
next
  case (GetEnvelope p i)
  then show ?thesis by (simp add: get_envelope_def)
next
  case (Approve p i c)
  show ?thesis unfolding Approve register_step.simps ingest_step.simps
    by (rule move_refines [OF ok _ _ approve_envelope_def])
      (auto simp: ingest_pkey_def ingest_idem_key_def get_envelope_def approval_refused_def r_bind_case split: sum.split)
next
  case (Commit p i t c)
  show ?thesis unfolding Commit register_step.simps ingest_step.simps
    by (rule move_refines [OF ok _ _ apply_commit_def [unfolded insert_iff empty_iff simp_thms]])
      (auto simp: ingest_pkey_def ingest_idem_key_def get_envelope_def commit_refused_def r_bind_case split: sum.split)
next
  case (Quarantine p i r u c)
  show ?thesis unfolding Quarantine register_step.simps ingest_step.simps
    by (rule move_refines [OF ok _ _ mark_quarantined_def]) (simp_all add: ingest_pkey_def ingest_idem_key_def)
qed

interpretation register: refines "ingest_step h g" "register_step h g" register_of ingest_ok for h g
proof
  show "ingest_ok s \<Longrightarrow> ingest_ok (fst (ingest_step h g op s))" for s op
    by (blast intro: ingest_effect_ok ingest_step_effect)
qed (rule repository_implements)

text \<open>C3: The ingest repository implements the register of envelopes: whatever calls any principals make
  from an empty table, every answer, errors included, is the one of the register, which knows neither
  rows nor their order, and the table it leaves holds exactly what the register holds.\<close>

theorem repository_refines_the_register:
  "run_ops (register_step h g) ops (empty_register analysts) =
    (register_of (fst (run_ops (ingest_step h g) ops \<lparr>ingest_rows = [], ingest_analysts = analysts\<rparr>)),
     snd (run_ops (ingest_step h g) ops \<lparr>ingest_rows = [], ingest_analysts = analysts\<rparr>))"
proof -
  have "ingest_ok \<lparr>ingest_rows = [], ingest_analysts = analysts\<rparr>" by (simp add: ingest_ok_def)
  moreover have "register_of \<lparr>ingest_rows = [], ingest_analysts = analysts\<rparr> = empty_register analysts"
    by (simp add: register_of_def empty_register_def)
  ultimately show ?thesis by (metis register.run_simulates)
qed

end
