(* ===== verification/Evidence_Correct.thy ===== *)
theory Evidence_Correct
  imports Fixtures
begin

text \<open>
  The properties of the evidence store, over runs of its methods by any tenants on one
  volume, each applied at a concrete volume.
\<close>

text \<open>Opening a store on a volume without symbolic links makes exactly the directory
  \<^verbatim>\<open>tenants/<tenant_id>\<close> below the root ready, for a tenant id that is a single path component
  without separators, dots, backslashes or NUL bytes, and the volume keeps being link-free.\<close>

theorem opened_store_is_confined:
  assumes "open_store w root p max_bytes days f = (f', Inr st)" "os_plain w" "no_links f" "tree_ok f"
  shows "volume_ok w st f' \<and> tenant_root st = collapse root @ [''tenants'', tenant_id p] \<and>
    tenant_id p \<noteq> [] \<and> set (tenant_id p) \<inter> set ''/.'' = {} \<and> CHR 0x00 \<notin> set (tenant_id p) \<and>
    CHR 0x5C \<notin> set (tenant_id p)"
proof -
  note r = open_store_ready [OF assms]
  then have i: "id_match (tenant_id p)" by auto
  then have "\<forall>ch\<in>set (tenant_id p). ch \<noteq> CHR ''/'' \<and> ch \<noteq> CHR ''.'' \<and> ch \<noteq> CHR 0x00 \<and> ch \<noteq> CHR 0x5C"
    using id_match_chars by blast
  then have "set (tenant_id p) \<inter> set ''/.'' = {} \<and> CHR 0x00 \<notin> set (tenant_id p) \<and> CHR 0x5C \<notin> set (tenant_id p)"
    by force
  moreover from r have "volume_ok w st f'" "tenant_root st = collapse root @ [''tenants'', tenant_id p]"
    by (auto simp: volume_ok_def)
  ultimately show ?thesis using id_match_nonempty [OF i] by blast
qed


text \<open>C8: a promoted original is immutable: through any run of store calls of any tenants in which its
  own tenant does not delete that very object, the original keeps its bytes and its read-only
  mode.\<close>

theorem promoted_original_is_immutable:
  assumes "one_volume w (st_root st) ops f" "worm w st c e n f"
    and "\<not> (\<exists>op\<in>set ops. st_tenant (fst op) = st_tenant st \<and> deletes c e (snd op))"
  shows "lookup (fst (run_ops (store_step w) ops f)) (original_at st c e) = Some n"
  using worm_run [OF assms(1,2)] assms(3) by (auto simp: worm_def)

text \<open>C9: a successful first promotion does what it says: the quarantined bytes hash to the declared
  checksum, they are what the original holds with mode 0400, the manifest names the tenant, case,
  evidence, size and checksum and carries no hold, verification succeeds, and promoting again with
  that checksum from any quarantine id returns the same manifest and changes nothing.\<close>

theorem promotion_stores_the_declared_bytes:
  assumes "promote_to_evidence w st c e q expected rd now f = (f', Inr m)"
    and "volume_ok w st f" "\<not> is_file w f (manifest_at st c e)" "decodes w m"
  shows "\<exists>bytes k. lookup f (quarantine_at st q @ [''blob'']) = Some (File bytes k) \<and>
    sha_bytes w bytes = expected \<and> lookup f' (original_at st c e) = Some (File bytes 256) \<and>
    (m_tenant m, m_case m, m_evidence m, m_sha m, m_size m, m_legal_hold m) =
      (st_tenant st, c, e, expected, int (length bytes), False) \<and>
    verify_integrity w st c e f' = (f', Inr True) \<and>
    promote_to_evidence w st c e q' expected rd' now' f' = (f', Inr m)"
proof -
  obtain bytes k where b: "lookup f (quarantine_at st q @ [''blob'']) = Some (File bytes k)"
    "sha_bytes w bytes = expected" "stored w st c e m bytes f'" "m_sha m = expected"
    using promote_success [OF assms(1-3)] by blast
  with read_stored(3) [OF b(3) assms(4)] retry_stored [OF b(3) assms(4), of q' rd' now']
  show ?thesis by (auto simp: stored_def)
qed

text \<open>A promotion that stopped after creating the evidence directory and before writing the manifest
  is never resumed: while the directory is there without a manifest, promotion from any quarantine
  object fails and leaves the volume as it is.\<close>

theorem interrupted_promotion_is_stuck:
  assumes "volume_ok w st f" "lookup f (evidence_at st c e) \<noteq> None" "\<not> is_file w f (manifest_at st c e)"
  shows "\<exists>err. promote_to_evidence w st c e q expected rd now f = (f, Inl err)"
  using assms by (rule promote_stuck)

text \<open>C10: deletion fails closed: when it changes anything or succeeds, the manifest was readable in the
  caller's tenant, was not under legal hold, its retention period had passed and the caller
  confirmed explicitly.\<close>

theorem deletion_fails_closed:
  assumes "delete_evidence w st c e forced now f = (f', r)" "f' \<noteq> f \<or> is_ok r" "volume_ok w st f"
  shows "forced \<and> (\<exists>m until. read_manifest w st c e f = (f, Inr m) \<and> \<not> m_legal_hold m \<and>
    of_iso w (str_replace ''Z'' ''+00:00'' (m_retention_until m)) = Some until \<and> until \<le> now)"
  using delete_guards [OF assms] by blast

section \<open>At a concrete volume\<close>

definition demo_promoted :: fs where
  "demo_promoted = fst (promote_to_evidence demo_os demo_store ''c1'' ''e1'' ''q1'' ''abc'' None 0 demo_volume)"

lemma demo_promote: "promote_to_evidence demo_os demo_store ''c1'' ''e1'' ''q1'' ''abc'' None 0 demo_volume =
    (demo_promoted, Inr demo_manifest)"
  unfolding demo_promoted_def by code_simp

lemma demo_fresh: "\<not> is_file demo_os demo_volume (manifest_at demo_store ''c1'' ''e1'')"
  by code_simp

lemma demo_decodes: "decodes demo_os demo_manifest"
  unfolding decodes_def by code_simp

theorem promotion_stores_the_declared_bytes_witness:
  "verify_integrity demo_os demo_store ''c1'' ''e1'' demo_promoted = (demo_promoted, Inr True)"
  using promotion_stores_the_declared_bytes [OF demo_promote demo_volume_ok demo_fresh demo_decodes] by blast

definition bare_volume :: fs where
  "bare_volume = [([], Dir 493)]"

lemma bare_facts: "no_links bare_volume" "tree_ok bare_volume"
  by (auto simp: bare_volume_def no_links_def tree_ok_def is_symlink_def lookup_def split: option.splits)

definition demo_owner :: principal where
  "demo_owner = \<lparr>tenant_id = ''t1'', analyst_id = ''a1'', is_synthetic = True, subject = None, roles = [], scopes = []\<rparr>"

definition opened_volume :: fs where
  "opened_volume = fst (open_store demo_os [''v''] demo_owner 100 30 bare_volume)"

lemma demo_open: "open_store demo_os [''v''] demo_owner 100 30 bare_volume = (opened_volume, Inr demo_store)"
  unfolding opened_volume_def by code_simp

theorem opened_store_is_confined_witness:
  "volume_ok demo_os demo_store opened_volume \<and> tenant_root demo_store = [''v'', ''tenants'', ''t1'']"
  using opened_store_is_confined [OF demo_open demo_plain bare_facts] by (simp add: demo_owner_def)

lemma demo_volume_one: "one_volume demo_os [''v''] [(demo_store, Ingest [''src''] ''u1'' ''x'' 0)] demo_volume"
  using demo_volume_ok by (simp add: one_volume_def demo_store_def)


lemma demo_promoted_ok: "volume_ok demo_os demo_store demo_promoted"
proof -
  have "inside demo_os demo_store demo_volume (fst (promote_to_evidence demo_os demo_store ''c1'' ''e1'' ''q1'' ''abc'' None 0 demo_volume))"
    using contained.promote_keeps inside_refl [OF demo_volume_ok] by (auto simp: keeps_def)
  then show ?thesis by (simp add: inside_def demo_promoted_def)
qed

lemma demo_promoted_nodes:
  "lookup demo_promoted (original_at demo_store ''c1'' ''e1'') = Some (File ''abc'' 256)"
  "lookup demo_promoted (evidence_at demo_store ''c1'' ''e1'') = Some (Dir 320)"
  "id_match ''e1''"
  unfolding demo_promoted_def by code_simp+

theorem promoted_original_is_immutable_witness:
  "lookup (fst (run_ops (store_step demo_os) [(demo_store, Hold ''c1'' ''e1'' True),
      (demo_store, Promote ''c1'' ''e1'' ''q1'' ''zzz'' None 1)] demo_promoted)) (original_at demo_store ''c1'' ''e1'') =
   Some (File ''abc'' 256)"
proof (rule promoted_original_is_immutable)
  show "one_volume demo_os (st_root demo_store) [(demo_store, Hold ''c1'' ''e1'' True),
      (demo_store, Promote ''c1'' ''e1'' ''q1'' ''zzz'' None 1)] demo_promoted"
    using demo_promoted_ok by (simp add: one_volume_def)
  show "worm demo_os demo_store ''c1'' ''e1'' (File ''abc'' 256) demo_promoted"
    using demo_promoted_ok demo_promoted_nodes by (simp add: worm_def)
qed simp

definition demo_interrupted :: fs where
  "demo_interrupted = set_node (evidence_at demo_store ''c1'' ''e1'') (Dir 448) demo_volume"

theorem interrupted_promotion_is_stuck_witness:
  "\<exists>err. promote_to_evidence demo_os demo_store ''c1'' ''e1'' ''q1'' ''abc'' None 0 demo_interrupted = (demo_interrupted, Inl err)"
proof (rule interrupted_promotion_is_stuck)
  show v: "volume_ok demo_os demo_store demo_interrupted"
    unfolding demo_interrupted_def by (rule volume_put [OF demo_volume_ok]) simp
  show "lookup demo_interrupted (evidence_at demo_store ''c1'' ''e1'') \<noteq> None"
    by (simp add: demo_interrupted_def wb_fs)
  show "\<not> is_file demo_os demo_interrupted (manifest_at demo_store ''c1'' ''e1'')"
    unfolding demo_interrupted_def by code_simp
qed

lemma demo_delete: "is_ok (snd (delete_evidence demo_os demo_store ''c1'' ''e1'' True 5 demo_promoted))"
  unfolding demo_promoted_def by code_simp

theorem deletion_fails_closed_witness:
  "\<exists>m. read_manifest demo_os demo_store ''c1'' ''e1'' demo_promoted = (demo_promoted, Inr m) \<and> \<not> m_legal_hold m"
proof -
  obtain f' r where d: "delete_evidence demo_os demo_store ''c1'' ''e1'' True 5 demo_promoted = (f', r)" by fastforce
  with demo_delete have "f' \<noteq> demo_promoted \<or> is_ok r" by simp
  from deletion_fails_closed [OF d this demo_promoted_ok] show ?thesis by blast
qed

end
