(* ===== verification/Regex.thy ===== *)
theory Regex
  imports Prelude
begin

text \<open>
  The part of Python's \<^verbatim>\<open>re\<close> module the sources use: a backtracking matcher that lists what is
  left of the text after each way to match, in the order the engine tries them (alternatives
  left to right, repetition greedy), \<^verbatim>\<open>search\<close>, \<^verbatim>\<open>fullmatch\<close> and \<^verbatim>\<open>sub\<close>.  Patterns
  under \<^verbatim>\<open>re.I\<close> fold ASCII letters.
\<close>

datatype re =
    Ch "char \<Rightarrow> bool"
  | Eps
  | Bol
  | Cat re re
  | Alt re re
  | Star re

function rmatch :: "re \<Rightarrow> bool \<Rightarrow> string \<Rightarrow> string list" where
  "rmatch (Ch p) b s = (case s of [] \<Rightarrow> [] | c # cs \<Rightarrow> if p c then [cs] else [])"
| "rmatch Eps b s = [s]"
| "rmatch Bol b s = (if b then [s] else [])"
| "rmatch (Cat r1 r2) b s = concat (map (\<lambda>t. rmatch r2 (b \<and> length t = length s) t) (rmatch r1 b s))"
| "rmatch (Alt r1 r2) b s = rmatch r1 b s @ rmatch r2 b s"
| "rmatch (Star r) b s =
     concat (map (\<lambda>t. if length t < length s then rmatch (Star r) False t else []) (rmatch r b s)) @ [s]"
  by pat_completeness auto
termination
  by (relation "measures [\<lambda>(r, b, s). size r, \<lambda>(r, b, s). length s]") auto

fun re_search :: "re \<Rightarrow> bool \<Rightarrow> string \<Rightarrow> bool" where
  "re_search r b [] = (rmatch r b [] \<noteq> [])"
| "re_search r b (c # cs) = (rmatch r b (c # cs) \<noteq> [] \<or> re_search r False cs)"

definition re_fullmatch :: "re \<Rightarrow> string \<Rightarrow> bool" where
  "re_fullmatch r s = ([] \<in> set (rmatch r True s))"

text \<open>\<^verbatim>\<open>sub\<close> for a pattern that matches no empty text: the text with every leftmost match replaced,
  and how many there were.\<close>

function re_sub :: "re \<Rightarrow> string \<Rightarrow> bool \<Rightarrow> string \<Rightarrow> string \<times> nat" where
  "re_sub r new b [] = ([], 0)"
| "re_sub r new b (c # cs) =
     (case rmatch r b (c # cs) of
        t # _ \<Rightarrow> if length t \<le> length cs
                 then (let (rest, n) = re_sub r new False t in (new @ rest, Suc n))
                 else (let (rest, n) = re_sub r new False cs in (c # rest, n))
      | [] \<Rightarrow> (let (rest, n) = re_sub r new False cs in (c # rest, n)))"
  by pat_completeness auto
termination
  by (relation "measure (\<lambda>(r, new, b, s). length s)") auto

section \<open>Pattern constructors\<close>

definition fold_ch :: "char \<Rightarrow> re" where
  "fold_ch c = Ch (\<lambda>d. lower_char d = lower_char c)"

fun lit :: "string \<Rightarrow> re" where
  "lit [] = Eps"
| "lit [c] = fold_ch c"
| "lit (c # d # cs) = Cat (fold_ch c) (lit (d # cs))"

fun alts :: "re list \<Rightarrow> re" where
  "alts [] = Ch (\<lambda>c. False)"
| "alts [r] = r"
| "alts (r # q # rs) = Alt r (alts (q # rs))"

fun cats :: "re list \<Rightarrow> re" where
  "cats [] = Eps"
| "cats [r] = r"
| "cats (r # q # rs) = Cat r (cats (q # rs))"

definition opt :: "re \<Rightarrow> re" where "opt r = Alt r Eps"
definition plus1 :: "re \<Rightarrow> re" where "plus1 r = Cat r (Star r)"
definition one_of :: "string \<Rightarrow> re" where "one_of cs = Ch (\<lambda>c. c \<in> set cs)"
definition ws :: re where "ws = Ch is_ws"

lemma re_search_sub:
  "\<not> re_search r b s \<Longrightarrow> re_sub r new b s = (s, 0)"
proof (induction s arbitrary: b)
  case (Cons c cs)
  then have "rmatch r b (c # cs) = []" by auto
  with Cons show ?case by simp
qed simp

end
