(* ===== verification/Context_Correct.thy ===== *)
theory Context_Correct
  imports Context_Builder Fixtures
begin

text \<open>
  What a built context package is: authorised, within every limit, and holding only cleaned
  values; and a credential the redaction lets through.
\<close>

section \<open>Cleaned values\<close>

text \<open>A value as \<^const>\<open>clean\<close> may return it at nesting level \<open>n\<close>.\<close>

fun cleaned :: "context_limits \<Rightarrow> nat \<Rightarrow> json \<Rightarrow> bool" where
  "cleaned L n (JObj d) = (n \<le> max_depth L \<and>
     (\<forall>p\<in>set d. \<not> credential_key (fst p) \<and> lower (fst p) \<notin> set excluded_names \<and> cleaned L (Suc n) (snd p)))"
| "cleaned L n (JList xs) = (n \<le> max_depth L \<and> length xs \<le> max_records L \<and> (\<forall>x\<in>set xs. cleaned L (Suc n) x))"
| "cleaned L n (JStr s) = (n \<le> max_depth L \<and>
     (\<exists>v. s = redact_text v \<and> length v \<le> field_bytes L \<and> \<not> re_search path_re True v))"
| "cleaned L n v = (n \<le> max_depth L)"

lemma redact_string_Inr:
  "redact_string L path v a = (a', Inr s) \<longleftrightarrow> length v \<le> field_bytes L \<and>
     (path = ''question'' \<or> \<not> re_search path_re True v) \<and> s = redact_text v \<and> a' = redact_note path v a"
  by (auto simp: redact_string_def wb_act_Inr wb_act)

lemma clean_elems_length: "clean_elems L xs i path depth a = (a', Inr out) \<Longrightarrow> length out = length xs"
  by (induction xs arbitrary: i a out) (auto simp: wb_act_Inr wb_act)

lemma selection_path: "prefix ''selection'' path \<Longrightarrow> path \<noteq> ''question'' \<and> prefix ''selection'' (path @ x)"
  by (auto simp: prefix_def)

lemma clean_cleaned_all:
  "prefix ''selection'' path \<longrightarrow> (\<forall>a a' v'. clean L v path depth a = (a', Inr v') \<longrightarrow> cleaned L depth v')"
  "prefix ''selection'' path \<longrightarrow> (\<forall>a a' d'. clean_items L d path depth a = (a', Inr d') \<longrightarrow>
     (\<forall>p\<in>set d'. \<not> credential_key (fst p) \<and> lower (fst p) \<notin> set excluded_names \<and> cleaned L (Suc depth) (snd p)))"
  "prefix ''selection'' path \<longrightarrow> (\<forall>a a' xs'. clean_elems L xs i path depth a = (a', Inr xs') \<longrightarrow>
     (\<forall>x\<in>set xs'. cleaned L (Suc depth) x))"
proof (induction L v path depth and L d path depth and L xs i path depth
    rule: clean_clean_items_clean_elems.induct)
  case (2 L xs path depth)
  then show ?case by (auto simp: wb_act_Inr wb_act) (metis clean_elems_length)
next
  case (3 L s path depth)
  then show ?case using selection_path by (auto simp: wb_act_Inr wb_act redact_string_Inr)
next
  case (6 L key item d path depth)
  show ?case
  proof (cases "credential_key key \<or> lower key \<in> set excluded_names")
    case True
    with 6 show ?thesis by (auto simp: wb_act_Inr wb_act split: if_splits)
  next
    case False
    with 6 selection_path [of path] show ?thesis by (fastforce simp: wb_act_Inr wb_act)
  qed
next
  case (8 L x xs i path depth)
  with selection_path [of path] show ?case by (fastforce simp: wb_act_Inr wb_act)
qed (auto simp: wb_act_Inr wb_act)

lemma clean_cleaned:
  "clean L v path depth a = (a', Inr v') \<Longrightarrow> prefix ''selection'' path \<Longrightarrow> cleaned L depth v'"
  using clean_cleaned_all(1) by blast

lemma cleaned_without: "cleaned L n v \<Longrightarrow> cleaned L n (without ks v)"
  by (cases v) (auto simp: without_def)

section \<open>A successful build\<close>

lemma safe_selection_Inr:
  "safe_selection selection tenant (Some c) = Inr (cls, rid, data) \<Longrightarrow>
    dget selection ''tenant_id'' = JStr tenant \<and> dget selection ''case_id'' = JStr c \<and>
    dget_or data ''tenant_id'' (JStr tenant) = JStr tenant \<and> dget_or data ''case_id'' (JStr c) = JStr c \<and>
    cls \<in> set context_classes \<and> resource_id_ok rid"
  by (auto simp: safe_selection_def Let_def case_mismatch_def split: json.splits if_splits)

lemma build_context_Inr:
  assumes "build_context h L selection question tenant case_id analyst policy = Inr pkg"
  obtains c q cls rid data kept0 a where "case_id = JStr c" "c \<noteq> []" "question = JStr q" "length q \<le> question_bytes L"
    "safe_selection selection tenant (Some c) = Inr (cls, rid, data)"
    "clean L (JObj data) ''selection'' 0 new_audit = (a, Inr kept0)" "walk kept0 \<le> max_fields L"
    "length q \<le> field_bytes L"
    "cp_data pkg = without [''tenant_id'', ''case_id''] kept0" "cp_question pkg = redact_text q"
    "cp_class pkg = cls" "cp_resource pkg = rid"
    "length (canonical_json (package_prompt pkg)) \<le> serialized_bytes L"
    "(length (canonical_json (package_prompt pkg)) + 3) div 4 \<le> input_tokens L"
    "cp_provenance pkg = context_provenance h L selection cls rid tenant c analyst policy (canonical_json (package_prompt pkg))"
proof -
  from assms obtain c q cls rid data where 1: "case_id = JStr c" "c \<noteq> []" "question = JStr q" "length q \<le> question_bytes L"
    "safe_selection selection tenant (Some c) = Inr (cls, rid, data)"
    by (auto simp: build_context_def wb_result split: json.splits)
  show thesis
  proof (cases "clean L (JObj data) ''selection'' 0 new_audit")
    case (Pair a r)
    then obtain kept0 where r: "clean L (JObj data) ''selection'' 0 new_audit = (a, Inr kept0)"
      using assms 1 by (cases r) (auto simp: build_context_def a_bind_def)
    have "walk kept0 \<le> max_fields L" "length q \<le> field_bytes L"
      "cp_data pkg = without [''tenant_id'', ''case_id''] kept0" "cp_question pkg = redact_text q"
      "cp_class pkg = cls" "cp_resource pkg = rid"
      "length (canonical_json (package_prompt pkg)) \<le> serialized_bytes L"
      "(length (canonical_json (package_prompt pkg)) + 3) div 4 \<le> input_tokens L"
      "cp_provenance pkg = context_provenance h L selection cls rid tenant c analyst policy (canonical_json (package_prompt pkg))"
      using assms 1 r
      by (auto simp: build_context_def a_bind_def wb_act redact_string_def Let_def package_prompt_def split: if_splits)
    with that 1 r show thesis by blast
  qed
qed

text \<open>C11: a context package is built only for an analyst's own tenant and a named case: the selection,
  and the data inside it where it says so, belong to exactly the tenant and case of the request.\<close>

theorem context_is_built_only_in_scope:
  assumes "build_context h L selection question tenant case_id analyst policy = Inr pkg"
  shows "\<exists>c data. case_id = JStr c \<and> c \<noteq> [] \<and> dget selection ''tenant_id'' = JStr tenant \<and>
    dget selection ''case_id'' = JStr c \<and>
    dget_or selection ''data'' (dget_or selection ''resource'' (JObj selection)) = JObj data \<and>
    dget_or data ''tenant_id'' (JStr tenant) = JStr tenant \<and> dget_or data ''case_id'' (JStr c) = JStr c \<and>
    cp_class pkg \<in> set context_classes"
proof -
  from assms obtain c cls rid data where 1: "case_id = JStr c" "c \<noteq> []" "cp_class pkg = cls"
    "safe_selection selection tenant (Some c) = Inr (cls, rid, data)" by (rule build_context_Inr)
  have "dget_or selection ''data'' (dget_or selection ''resource'' (JObj selection)) = JObj data"
    using 1(4) by (auto simp: safe_selection_def Let_def split: json.splits if_splits)
  with 1 safe_selection_Inr [OF 1(4)] show ?thesis by blast
qed

text \<open>C12: what goes to the provider is redacted and bounded: every value of the package's data was
  cleaned at its nesting level (no credential key, no excluded name, every text redacted from one
  without a path or link, nesting and list lengths within the limits), the question was redacted,
  and the serialised prompt is within the byte and token limits.\<close>

theorem context_package_is_redacted_and_bounded:
  assumes "build_context h L selection question tenant case_id analyst policy = Inr pkg"
  shows "cleaned L 0 (cp_data pkg) \<and>
    (\<exists>q. question = JStr q \<and> length q \<le> min (question_bytes L) (field_bytes L) \<and> cp_question pkg = redact_text q) \<and>
    length (canonical_json (package_prompt pkg)) \<le> min (serialized_bytes L) (4 * input_tokens L)"
proof -
  from assms obtain q data kept0 a where 1: "question = JStr q" "length q \<le> question_bytes L"
    "clean L (JObj data) ''selection'' 0 new_audit = (a, Inr kept0)" "length q \<le> field_bytes L"
    "cp_data pkg = without [''tenant_id'', ''case_id''] kept0" "cp_question pkg = redact_text q"
    "length (canonical_json (package_prompt pkg)) \<le> serialized_bytes L"
    "(length (canonical_json (package_prompt pkg)) + 3) div 4 \<le> input_tokens L" by (rule build_context_Inr)
  have "cleaned L 0 (cp_data pkg)"
    unfolding 1(5) by (rule cleaned_without, rule clean_cleaned [OF 1(3)]) simp
  with 1 show ?thesis by auto
qed

text \<open>One pass of redaction is not enough: a scheme word that is repeated is taken for the
  credential, and the credential after it is left in the text.\<close>

theorem repeated_scheme_leaks_the_credential:
  "redact_text ''Bearer Bearer s3cret'' = ''[REDACTED:credential] s3cret''"
  by code_simp

section \<open>At a concrete selection\<close>

definition demo_selection :: dict where
  "demo_selection = [(''resource_class'', JStr ''finding''), (''resource_id'', JStr ''f-1''), (''tenant_id'', JStr ''t1''),
     (''case_id'', JStr ''c1''), (''data'', JObj [(''n'', JInt 1), (''tenant_id'', JStr ''t1'')])]"

definition demo_limits :: context_limits where
  "demo_limits = \<lparr>question_bytes = 9, serialized_bytes = 400, field_bytes = 20, max_fields = 9,
     max_records = 5, max_depth = 4, input_tokens = 100, output_tokens = 9\<rparr>"

definition demo_build :: "context_error + context_package" where
  "demo_build = build_context demo_host demo_limits demo_selection (JStr ''why'') ''t1'' (JStr ''c1'') None ''v1''"

lemma demo_patterns:
  "\<not> credential_key ''n''" "\<not> credential_key ''tenant_id''" "lower ''n'' \<notin> set excluded_names"
  "lower ''tenant_id'' \<notin> set excluded_names" "\<not> re_search path_re True ''t1''"
  "redact_text ''why'' = ''why''"
  by code_simp+

lemma demo_prompt_size:
  "length (canonical_json (prompt_of ''why'' ''finding'' ''f-1'' (JObj [(''n'', JInt 1)]))) \<le> 400"
  "(length (canonical_json (prompt_of ''why'' ''finding'' ''f-1'' (JObj [(''n'', JInt 1)]))) + 3) div 4 \<le> 100"
  by code_simp+

lemma demo_build_ok: "\<exists>pkg. demo_build = Inr pkg"
proof -
  have sel: "safe_selection demo_selection ''t1'' (Some ''c1'') =
      Inr (''finding'', ''f-1'', [(''n'', JInt 1), (''tenant_id'', JStr ''t1'')])"
    by code_simp
  show ?thesis
    unfolding demo_build_def build_context_def
    by (simp add: sel demo_limits_def a_bind_def wb_act redact_string_def demo_patterns without_def Let_def demo_prompt_size
        del: re_search.simps)
qed

theorem context_is_built_only_in_scope_witness:
  "\<exists>pkg. demo_build = Inr pkg \<and> cp_class pkg \<in> set context_classes"
  using demo_build_ok context_is_built_only_in_scope unfolding demo_build_def by blast

theorem context_package_is_redacted_and_bounded_witness:
  "\<exists>pkg. demo_build = Inr pkg \<and> cleaned demo_limits 0 (cp_data pkg)"
  using demo_build_ok context_package_is_redacted_and_bounded unfolding demo_build_def by blast

end
