(* ===== verification/Model_Gateway.thy ===== *)
theory Model_Gateway
  imports Interop
begin

text \<open>
  \<^verbatim>\<open>model_gateway.py\<close>: provider policy, the token and cost budget, and the client with its
  retries.  Floating-point arithmetic, \<^verbatim>\<open>urlsplit\<close>, \<^verbatim>\<open>ipaddress\<close>, the resolver, the secret
  resolver and the HTTP opener are fields of \<open>net\<close>; the opener is what it does at each
  attempt.  A call returns how many requests it sent.
\<close>

datatype gw_error = Configuration string | RequestError string | BudgetExceeded string | PyException string

text \<open>\<^verbatim>\<open>GatewayError\<close> and its subclasses.\<close>

fun is_gateway_error :: "gw_error \<Rightarrow> bool" where
  "is_gateway_error (PyException n) = False"
| "is_gateway_error e = True"

record url_parts =
  u_scheme :: string
  u_username :: "string option"
  u_password :: "string option"
  u_query :: string
  u_fragment :: string
  u_hostname :: "string option"
  u_port :: "unit + int option"

record ip_flags =
  ip_private :: bool
  ip_loopback :: bool
  ip_link_local :: bool
  ip_multicast :: bool
  ip_reserved :: bool
  ip_unspecified :: bool

datatype outcome = HttpError int | Unavailable | OtherFailure | Response string

record 'f net =
  f_lit :: "string \<Rightarrow> 'f"
  f_le :: "'f \<Rightarrow> 'f \<Rightarrow> bool"
  f_gt :: "'f \<Rightarrow> 'f \<Rightarrow> bool"
  f_add :: "'f \<Rightarrow> 'f \<Rightarrow> 'f"
  f_rate :: "'f \<Rightarrow> int \<Rightarrow> 'f"
  urlsplit :: "string \<Rightarrow> url_parts option"
  ip_of :: "string \<Rightarrow> ip_flags option"
  resolve :: "string \<Rightarrow> int \<Rightarrow> string list option"
  secret_of :: "(string \<Rightarrow> string option) option"
  open_url :: "nat \<Rightarrow> outcome"
  loads_json :: "string \<Rightarrow> json option"
  int_of_text :: "json \<Rightarrow> int option"

record 'f provider =
  pr_id :: string
  pr_url :: string
  pr_model :: string
  pr_timeout :: 'f
  pr_retries :: int
  pr_max_output :: int
  pr_secret :: "string option"
  pr_external :: bool
  pr_cost :: "'f option"
  pr_policy :: string
  pr_compat :: string

record usage =
  us_input :: int
  us_output :: int
  us_total :: int
  us_estimated :: bool

record completion =
  co_text :: string
  co_usage :: usage
  co_provider :: string
  co_model :: string
  co_policy :: string
  co_compat :: string
  co_egress :: string
  co_elapsed_ms :: int

section \<open>Destinations\<close>

definition blocked_ip :: "ip_flags \<Rightarrow> bool" where
  "blocked_ip ip = (ip_private ip \<or> ip_loopback ip \<or> ip_link_local ip \<or> ip_multicast ip \<or> ip_reserved ip \<or> ip_unspecified ip)"

definition given :: "string option \<Rightarrow> bool" where
  "given x = (case x of None \<Rightarrow> False | Some s \<Rightarrow> s \<noteq> [])"

definition validate_url :: "'f net \<Rightarrow> string \<Rightarrow> bool \<Rightarrow> gw_error + unit" where
  "validate_url n value external =
     (case urlsplit n value of None \<Rightarrow> Inl (PyException ''ValueError'')
      | Some u \<Rightarrow>
          if given (u_username u) \<or> given (u_password u) \<or> u_query u \<noteq> [] \<or> u_fragment u \<noteq> [] \<or> \<not> given (u_hostname u)
          then Inl (Configuration ''provider URL must not contain credentials, query, or fragment'')
          else if external \<and> lower (the (u_hostname u)) \<in> {''localhost'', ''localhost.localdomain''}
          then Inl (Configuration ''private or special provider destination is not allowed'')
          else if external \<and> u_scheme u \<noteq> ''https'' then Inl (Configuration ''external providers require HTTPS'')
          else if \<not> external \<and> u_scheme u \<noteq> ''mock''
          then Inl (Configuration ''non-external providers must use the local mock scheme'')
          else (case u_port u of
                  Inl _ \<Rightarrow> Inl (PyException ''ValueError'')
                | Inr port \<Rightarrow>
                    if (case port of None \<Rightarrow> False | Some p \<Rightarrow> p \<noteq> 0 \<and> \<not> (1 \<le> p \<and> p \<le> 65535))
                    then Inl (Configuration ''provider port is invalid'')
                    else (case ip_of n (the (u_hostname u)) of
                            None \<Rightarrow> Inr ()
                          | Some ip \<Rightarrow> if blocked_ip ip
                              then Inl (Configuration ''private or special provider destination is not allowed'') else Inr ())))"

definition or_empty :: "string option \<Rightarrow> string" where
  "or_empty h = (case h of None \<Rightarrow> [] | Some x \<Rightarrow> x)"

definition or_443 :: "int option \<Rightarrow> int" where
  "or_443 port = (case port of None \<Rightarrow> 443 | Some p \<Rightarrow> if p = 0 then 443 else p)"

definition validate_resolved_destination :: "'f net \<Rightarrow> string \<Rightarrow> gw_error + unit" where
  "validate_resolved_destination n url =
     (case urlsplit n url of None \<Rightarrow> Inl (PyException ''ValueError'')
      | Some u \<Rightarrow>
          (case u_port u of
             Inl _ \<Rightarrow> Inl (PyException ''ValueError'')
           | Inr port \<Rightarrow>
               (case resolve n (or_empty (u_hostname u)) (or_443 port) of
                  None \<Rightarrow> Inl (RequestError ''provider destination could not be resolved'')
                | Some addresses \<Rightarrow>
                    if addresses = [] then Inl (RequestError ''provider destination is not allowed'')
                    else if list_ex (\<lambda>a. ip_of n a = None) addresses then Inl (PyException ''ValueError'')
                    else if list_ex (\<lambda>a. blocked_ip (the (ip_of n a))) addresses
                    then Inl (RequestError ''provider destination is not allowed'') else Inr ())))"

section \<open>Provider policy and registry\<close>

definition id_char :: "char \<Rightarrow> bool" where
  "id_char c = (let n = (of_char c :: nat) in (97 \<le> n \<and> n \<le> 122) \<or> is_digit c \<or> c = CHR ''-'' \<or> c = CHR ''_'')"

definition check_provider :: "'f net \<Rightarrow> 'f provider \<Rightarrow> gw_error + unit" where
  "check_provider n p =
     (if pr_id p = [] \<or> \<not> list_all id_char (pr_id p) then Inl (Configuration ''provider_id is invalid'')
      else if pr_model p = [] \<or> 200 < length (pr_model p) then Inl (Configuration ''model is invalid'')
      else if \<not> (f_le n (f_lit n ''0.1'') (pr_timeout p) \<and> f_le n (pr_timeout p) (f_lit n ''30''))
      then Inl (Configuration ''timeout must be between 0.1 and 30 seconds'')
      else if \<not> (0 \<le> pr_retries p \<and> pr_retries p \<le> 3) then Inl (Configuration ''max_retries must be between 0 and 3'')
      else if \<not> (1 \<le> pr_max_output p \<and> pr_max_output p \<le> 2000)
      then Inl (Configuration ''max_output_tokens must be between 1 and 2000'')
      else if (case pr_cost p of None \<Rightarrow> False | Some c \<Rightarrow> f_gt n (f_lit n ''0'') c)
      then Inl (Configuration ''cost rate cannot be negative'')
      else r_bind (validate_url n (pr_url p) (pr_external p)) (\<lambda>_.
        r_guard (\<not> (pr_external p \<and> \<not> given (pr_secret p)))
          (Configuration ''external providers require a secret reference'')))"

type_synonym 'f registry = "(string \<times> 'f provider) list"

definition new_registry :: "'f provider list \<Rightarrow> gw_error + 'f registry" where
  "new_registry ps =
     (let reg = fold (\<lambda>p r. AList.update (pr_id p) p r) ps [] in
      if length reg \<noteq> length ps then Inl (Configuration ''duplicate provider_id'') else Inr reg)"

section \<open>Budget\<close>

record 'f budget =
  bu_max_tokens :: int
  bu_max_cost :: "'f option"
  bu_tokens :: int
  bu_cost :: 'f

definition new_budget :: "'f net \<Rightarrow> int \<Rightarrow> 'f option \<Rightarrow> gw_error + 'f budget" where
  "new_budget n max_tokens max_cost =
     (if max_tokens < 0 \<or> (case max_cost of None \<Rightarrow> False | Some c \<Rightarrow> f_gt n (f_lit n ''0'') c)
      then Inl (PyException ''ValueError'')
      else Inr \<lparr>bu_max_tokens = max_tokens, bu_max_cost = max_cost, bu_tokens = 0, bu_cost = f_lit n ''0.0''\<rparr>)"

definition reserve :: "'f net \<Rightarrow> int \<Rightarrow> 'f option \<Rightarrow> 'f budget \<Rightarrow> gw_error + 'f budget" where
  "reserve n tokens cost b =
     (if bu_max_tokens b < bu_tokens b + tokens then Inl (BudgetExceeded ''token budget exhausted'')
      else if (case (bu_max_cost b, cost) of (Some m, Some c) \<Rightarrow> f_gt n (f_add n (bu_cost b) c) m | _ \<Rightarrow> False)
      then Inl (BudgetExceeded ''cost budget exhausted'')
      else Inr (b\<lparr>bu_tokens := bu_tokens b + tokens,
                  bu_cost := (case cost of None \<Rightarrow> bu_cost b | Some c \<Rightarrow> f_add n (bu_cost b) c)\<rparr>))"

section \<open>Messages\<close>

definition roles3 :: "string list" where "roles3 = [''system'', ''user'', ''assistant'']"

text \<open>\<^verbatim>\<open>m.get("role") not in {...} or not isinstance(m.get("content"), str)\<close> for one message;
  an unhashable role raises.\<close>

definition bad_message :: "dict \<Rightarrow> gw_error + bool" where
  "bad_message m = (case dget m ''role'' of
     JList xs \<Rightarrow> Inl (PyException ''TypeError'')
   | JObj d \<Rightarrow> Inl (PyException ''TypeError'')
   | JStr r \<Rightarrow> Inr (r \<notin> set roles3 \<or> (case dget m ''content'' of JStr c \<Rightarrow> False | _ \<Rightarrow> True))
   | _ \<Rightarrow> Inr True)"

fun any_bad :: "dict list \<Rightarrow> gw_error + bool" where
  "any_bad [] = Inr False"
| "any_bad (m # ms) = r_bind (bad_message m) (\<lambda>b. if b then Inr True else any_bad ms)"

definition estimate_tokens :: "dict list \<Rightarrow> int" where
  "estimate_tokens ms = max 1 (int (sum_list (map (\<lambda>m. length (the_str (dget m ''content''))) ms)) div 4)"

definition cost_of :: "'f net \<Rightarrow> 'f provider \<Rightarrow> int \<Rightarrow> 'f option" where
  "cost_of n p tokens = map_option (\<lambda>c. f_rate n c tokens) (pr_cost p)"

definition mock_response :: string where
  "mock_response = ''[local-mock] Advisory answer generated from redacted context; verify against source evidence.''"

section \<open>Responses\<close>

definition malformed :: gw_error where "malformed = RequestError ''malformed provider response''"

definition item_str :: "string \<Rightarrow> json \<Rightarrow> gw_error + json" where
  "item_str k v = (case v of JObj d \<Rightarrow> (if has_key d k then Inr (dget d k) else Inl malformed) | _ \<Rightarrow> Inl malformed)"

definition item_zero :: "json \<Rightarrow> gw_error + json" where
  "item_zero v = (case v of
     JList [] \<Rightarrow> Inl (PyException ''IndexError'') | JList (x # xs) \<Rightarrow> Inr x
   | JStr [] \<Rightarrow> Inl (PyException ''IndexError'') | JStr (c # cs) \<Rightarrow> Inr (JStr [c])
   | _ \<Rightarrow> Inl malformed)"

definition to_int :: "'f net \<Rightarrow> json \<Rightarrow> gw_error + int" where
  "to_int n v =
     (let convert = (case int_of_text n v of None \<Rightarrow> Inl malformed | Some i \<Rightarrow> Inr i) in
      case v of JInt i \<Rightarrow> Inr i | JBool b \<Rightarrow> Inr (if b then 1 else 0)
      | JStr s \<Rightarrow> convert | JFloat r \<Rightarrow> convert | _ \<Rightarrow> Inl malformed)"

definition parse_response :: "'f net \<Rightarrow> string \<Rightarrow> gw_error + (string \<times> usage)" where
  "parse_response n raw =
     (case loads_json n raw of None \<Rightarrow> Inl malformed
      | Some payload \<Rightarrow>
          r_bind (item_str ''choices'' payload) (\<lambda>cs.
          r_bind (item_zero cs) (\<lambda>c.
          r_bind (item_str ''message'' c) (\<lambda>m.
          r_bind (item_str ''content'' m) (\<lambda>t.
          case t of
            JStr text \<Rightarrow>
              if text = [] then Inl malformed
              else (case payload of
                JObj p \<Rightarrow>
                  (case py_or (dget p ''usage'') (JObj []) of
                     JObj u \<Rightarrow>
                       r_bind (to_int n (dget_or u ''prompt_tokens'' (JInt 0))) (\<lambda>i.
                       r_bind (to_int n (dget_or u ''completion_tokens'' (JInt 0))) (\<lambda>out.
                       r_bind (to_int n (dget_or u ''total_tokens'' (JInt (i + out)))) (\<lambda>tot.
                         Inr (text, \<lparr>us_input = i, us_output = out, us_total = tot, us_estimated = False\<rparr>))))
                   | _ \<Rightarrow> Inl (PyException ''AttributeError''))
              | _ \<Rightarrow> Inl malformed)
          | _ \<Rightarrow> Inl malformed)))))"

section \<open>Sending\<close>

definition max_body :: nat where "max_body = 256 * 1024"

definition retryable :: "int \<Rightarrow> bool" where
  "retryable code = (code \<in> {408, 429, 500, 502, 503, 504})"

text \<open>\<^verbatim>\<open>for attempt in range(max_retries + 1)\<close>, with the attempts left; the first component is the
  number of requests sent so far.\<close>

fun send_loop :: "'f net \<Rightarrow> nat \<Rightarrow> nat \<Rightarrow> nat \<Rightarrow> nat \<times> (gw_error + (string \<times> usage))" where
  "send_loop n retries attempt 0 = (attempt, Inl (RequestError ''provider unavailable''))"
| "send_loop n retries attempt (Suc left) =
     (case open_url n attempt of
        Response body \<Rightarrow>
          (Suc attempt,
           if max_body < length body then Inl (RequestError ''provider response too large'') else parse_response n body)
      | HttpError code \<Rightarrow>
          (if \<not> retryable code \<or> attempt = retries then (Suc attempt, Inl (RequestError ''provider returned an error''))
           else send_loop n retries (Suc attempt) left)
      | Unavailable \<Rightarrow>
          (if attempt = retries then (Suc attempt, Inl (RequestError ''provider unavailable''))
           else send_loop n retries (Suc attempt) left)
      | OtherFailure \<Rightarrow> (Suc attempt, Inl (PyException ''Exception'')))"

definition send_request :: "'f net \<Rightarrow> 'f provider \<Rightarrow> nat \<times> (gw_error + (string \<times> usage))" where
  "send_request n p =
     (case validate_resolved_destination n (pr_url p) of
        Inl e \<Rightarrow> (0, Inl e)
      | Inr _ \<Rightarrow>
          (let key = (case (secret_of n, pr_secret p) of
                 (Some f, Some r) \<Rightarrow> if r = [] then Inr None else (case f r of None \<Rightarrow> Inl () | Some k \<Rightarrow> Inr (Some k))
               | _ \<Rightarrow> Inr None) in
           case key of
             Inl _ \<Rightarrow> (0, Inl (PyException ''Exception''))
           | Inr api_key \<Rightarrow>
               if pr_external p \<and> \<not> given api_key then (0, Inl (RequestError ''provider secret unavailable''))
               else send_loop n (nat (pr_retries p)) 0 (nat (pr_retries p + 1))))"

definition wrap_error :: "gw_error \<Rightarrow> gw_error" where
  "wrap_error e = (if is_gateway_error e then e else RequestError ''provider request failed'')"

record 'f call_result =
  ca_budget :: "'f budget option"
  ca_sent :: nat
  ca_answer :: "gw_error + completion"

definition complete :: "'f net \<Rightarrow> 'f registry \<Rightarrow> string \<Rightarrow> dict list \<Rightarrow> int \<Rightarrow> 'f budget option \<Rightarrow> 'f call_result" where
  "complete n reg provider_id messages elapsed b =
     (let stop = (\<lambda>e. \<lparr>ca_budget = b, ca_sent = 0, ca_answer = Inl e\<rparr>) in
      case map_of reg provider_id of
        None \<Rightarrow> stop (RequestError ''unknown provider'')
      | Some p \<Rightarrow>
          (case (if messages = [] then Inr True else any_bad messages) of
             Inl e \<Rightarrow> stop e
           | Inr True \<Rightarrow> stop (RequestError ''invalid messages'')
           | Inr False \<Rightarrow>
               (let input = estimate_tokens messages; requested = input + 1; cost = cost_of n p requested in
                case (case b of None \<Rightarrow> Inr None | Some bb \<Rightarrow> r_bind (reserve n requested cost bb) (\<lambda>x. Inr (Some x))) of
                  Inl e \<Rightarrow> stop e
                | Inr b' \<Rightarrow>
                    (let (sent, r) = (if prefix ''mock://'' (pr_url p)
                           then (0, Inr (mock_response, \<lparr>us_input = input, us_output = 1, us_total = input + 1, us_estimated = True\<rparr>))
                           else send_request n p) in
                     \<lparr>ca_budget = b', ca_sent = sent, ca_answer = (case r of
                        Inl e \<Rightarrow> Inl (wrap_error e)
                      | Inr (text, us) \<Rightarrow> Inr \<lparr>co_text = text, co_usage = us, co_provider = pr_id p, co_model = pr_model p,
                          co_policy = pr_policy p, co_compat = pr_compat p,
                          co_egress = (if pr_external p then ''external'' else ''local''), co_elapsed_ms = elapsed\<rparr>)\<rparr>))))"

text \<open>A sequence of completions against one budget.\<close>

fun complete_all :: "'f net \<Rightarrow> 'f registry \<Rightarrow> (string \<times> dict list \<times> int) list \<Rightarrow> 'f budget option \<Rightarrow> 'f call_result list" where
  "complete_all n reg [] b = []"
| "complete_all n reg ((i, ms, t) # rest) b =
     (let r = complete n reg i ms t b in r # complete_all n reg rest (ca_budget r))"

end
