(* ===== verification/Gateway_Correct.thy ===== *)
theory Gateway_Correct
  imports Model_Gateway
begin

text \<open>
  The contracts of the model gateway: the budget, the bound on egress, the errors it lets out,
  and what a call is charged.
\<close>

section \<open>Budget\<close>

definition within_budget :: "'f net \<Rightarrow> 'f budget \<Rightarrow> bool" where
  "within_budget n b = (0 \<le> bu_tokens b \<and> bu_tokens b \<le> bu_max_tokens b \<and>
     (case bu_max_cost b of None \<Rightarrow> True
      | Some m \<Rightarrow> bu_cost b = f_lit n ''0.0'' \<or> \<not> f_gt n (bu_cost b) m))"

lemma reserve_Inr:
  "reserve n t c b = Inr b' \<Longrightarrow> bu_tokens b' = bu_tokens b + t \<and> bu_tokens b' \<le> bu_max_tokens b' \<and>
     bu_max_tokens b' = bu_max_tokens b \<and> bu_max_cost b' = bu_max_cost b"
  by (auto simp: reserve_def split: if_splits)

lemma reserve_within: "reserve n t c b = Inr b' \<Longrightarrow> 0 \<le> t \<Longrightarrow> within_budget n b \<Longrightarrow> within_budget n b'"
  by (auto simp: reserve_def within_budget_def split: if_splits option.splits)

lemma estimate_pos: "1 \<le> estimate_tokens ms"
  by (simp add: estimate_tokens_def)

lemma complete_budget_cases:
  "ca_budget (complete n reg i ms t b) = b \<or>
   (\<exists>bb b' p. b = Some bb \<and> reserve n (estimate_tokens ms + 1) (cost_of n p (estimate_tokens ms + 1)) bb = Inr b' \<and>
      ca_budget (complete n reg i ms t b) = Some b')"
  by (auto simp: complete_def Let_def r_bind_Inr_iff split: option.splits sum.splits bool.splits prod.splits)

lemma complete_within:
  assumes "within_budget n bb"
  shows "\<exists>b'. ca_budget (complete n reg i ms t (Some bb)) = Some b' \<and> within_budget n b' \<and>
    bu_max_tokens b' = bu_max_tokens bb \<and> bu_max_cost b' = bu_max_cost bb"
proof (cases "ca_budget (complete n reg i ms t (Some bb)) = Some bb")
  case False
  with complete_budget_cases [of n reg i ms t "Some bb"] obtain b' p where
    b': "ca_budget (complete n reg i ms t (Some bb)) = Some b'"
      "reserve n (estimate_tokens ms + 1) (cost_of n p (estimate_tokens ms + 1)) bb = Inr b'" by auto
  with reserve_within [OF b'(2) _ assms] reserve_Inr [OF b'(2)] estimate_pos [of ms] show ?thesis by auto
qed (use assms in simp)

lemma complete_all_within:
  "within_budget n bb \<Longrightarrow> r \<in> set (complete_all n reg calls (Some bb)) \<Longrightarrow>
    \<exists>b'. ca_budget r = Some b' \<and> within_budget n b' \<and> bu_max_tokens b' = bu_max_tokens bb \<and> bu_max_cost b' = bu_max_cost bb"
proof (induction calls arbitrary: bb)
  case (Cons c calls)
  obtain i ms t where c: "c = (i, ms, t)" by (cases c)
  from complete_within [OF Cons.prems(1), of reg i ms t] obtain b' where
    b': "ca_budget (complete n reg i ms t (Some bb)) = Some b'" "within_budget n b'"
      "bu_max_tokens b' = bu_max_tokens bb" "bu_max_cost b' = bu_max_cost bb" by blast
  from Cons.prems(2) c b' Cons.IH [OF b'(2)] show ?case by (auto simp: Let_def)
qed simp

text \<open>C13: a deployment budget is never overspent: whatever completions run against a fresh budget, to
  whatever providers and with whatever outcome, after each of them the tokens charged are within
  the token limit and the cost charged does not exceed the cost limit.\<close>

theorem budget_is_never_overspent:
  assumes "new_budget n max_tokens max_cost = Inr b"
  shows "list_all (\<lambda>r. \<exists>b'. ca_budget r = Some b' \<and> 0 \<le> bu_tokens b' \<and> bu_tokens b' \<le> max_tokens \<and>
      (case max_cost of None \<Rightarrow> True | Some m \<Rightarrow> bu_cost b' = f_lit n ''0.0'' \<or> \<not> f_gt n (bu_cost b') m))
    (complete_all n reg calls (Some b))"
proof -
  from assms have "within_budget n b" "bu_max_tokens b = max_tokens" "bu_max_cost b = max_cost"
    by (auto simp: new_budget_def within_budget_def split: if_splits option.splits)
  with complete_all_within [of n b _ reg calls] show ?thesis
    by (fastforce simp: list_all_iff within_budget_def)
qed

section \<open>Egress\<close>

lemma send_loop_bound: "attempt + left = Suc retries \<Longrightarrow> fst (send_loop n retries attempt left) \<le> Suc retries"
proof (induction left arbitrary: attempt)
  case (Suc left)
  then show ?case by (auto split: outcome.splits)
qed simp

lemma send_request_bound: "0 \<le> pr_retries p \<Longrightarrow> fst (send_request n p) \<le> nat (pr_retries p) + 1"
  using send_loop_bound [of 0 "nat (pr_retries p + 1)" "nat (pr_retries p)" n]
  by (auto simp: send_request_def Let_def nat_add_distrib split: sum.splits)

lemma send_request_sent:
  assumes "0 < fst (send_request n p)"
  shows "validate_resolved_destination n (pr_url p) = Inr () \<and> (pr_external p \<longrightarrow> given (pr_secret p) \<and> secret_of n \<noteq> None)"
  using assms by (auto simp: send_request_def Let_def given_def split: sum.splits option.splits if_splits)

lemma resolved_not_blocked:
  assumes "validate_resolved_destination n url = Inr ()"
  shows "\<exists>u port addresses. urlsplit n url = Some u \<and> u_port u = Inr port \<and>
    resolve n (or_empty (u_hostname u)) (or_443 port) = Some addresses \<and> addresses \<noteq> [] \<and>
    list_all (\<lambda>a. \<exists>ip. ip_of n a = Some ip \<and> \<not> blocked_ip ip) addresses"
proof -
  from assms obtain u port addresses where u: "urlsplit n url = Some u" "u_port u = Inr port"
    "resolve n (or_empty (u_hostname u)) (or_443 port) = Some addresses" "addresses \<noteq> []"
    "\<not> list_ex (\<lambda>a. ip_of n a = None) addresses" "\<not> list_ex (\<lambda>a. blocked_ip (the (ip_of n a))) addresses"
    unfolding validate_resolved_destination_def by (auto split: option.splits sum.splits if_splits)
  have "list_all (\<lambda>a. \<exists>ip. ip_of n a = Some ip \<and> \<not> blocked_ip ip) addresses"
    using u(5,6) by (force simp: list_all_iff list_ex_iff)
  with u show ?thesis by blast
qed

lemma complete_sent:
  assumes "0 < ca_sent (complete n reg i ms t b)"
  obtains p where "map_of reg i = Some p" "ca_sent (complete n reg i ms t b) = fst (send_request n p)"
  using assms that
  by (auto simp: complete_def Let_def split: option.splits sum.splits bool.splits prod.splits if_splits)

text \<open>C14: egress is bounded and guarded: a completion of a registered, checked provider sends at most
  four requests, and it sends one only if the provider's host resolved to addresses none of which
  is private, loopback, link-local, multicast, reserved or unspecified, and, for an external
  provider, a secret reference and a resolver for it are there.\<close>

theorem egress_is_bounded_and_guarded:
  assumes "0 < ca_sent (complete n reg i ms t b)" "map_of reg i = Some p" "check_provider n p = Inr ()"
  shows "ca_sent (complete n reg i ms t b) \<le> 4 \<and>
    (\<exists>u port addresses. urlsplit n (pr_url p) = Some u \<and> u_port u = Inr port \<and>
      resolve n (or_empty (u_hostname u)) (or_443 port) = Some addresses \<and> addresses \<noteq> [] \<and>
      list_all (\<lambda>a. \<exists>ip. ip_of n a = Some ip \<and> \<not> blocked_ip ip) addresses) \<and>
    (pr_external p \<longrightarrow> given (pr_secret p) \<and> secret_of n \<noteq> None)"
proof -
  from assms(1,2) have s: "ca_sent (complete n reg i ms t b) = fst (send_request n p)"
    by (auto elim!: complete_sent)
  from assms(3) have r: "0 \<le> pr_retries p" "pr_retries p \<le> 3"
    by (auto simp: check_provider_def split: if_splits)
  from s assms(1) have *: "0 < fst (send_request n p)" by simp
  from send_request_sent [OF *] have v: "validate_resolved_destination n (pr_url p) = Inr ()"
    "pr_external p \<longrightarrow> given (pr_secret p) \<and> secret_of n \<noteq> None" by auto
  have "fst (send_request n p) \<le> 4" using send_request_bound [OF r(1), of n] r(2) by linarith
  with resolved_not_blocked [OF v(1)] v(2) s show ?thesis by simp
qed

section \<open>Errors and charging\<close>

text \<open>Whatever goes wrong at the provider, in name resolution, in the secret resolver or in a
  response, the caller sees one of the gateway's own bounded errors, as long as no message has a
  list or an object for its role.\<close>

theorem only_gateway_errors_come_out:
  assumes "ca_answer (complete n reg i ms t b) = Inl e"
    and "list_all (\<lambda>m. case dget m ''role'' of JList xs \<Rightarrow> False | JObj d \<Rightarrow> False | _ \<Rightarrow> True) ms"
  shows "is_gateway_error e"
proof -
  have bad: "any_bad ms \<noteq> Inl x" for x
    using assms(2) by (induction ms) (auto simp: bad_message_def wb_result split: json.splits if_splits)
  have res: "is_gateway_error x" if "reserve n k c bb = Inl x" for k c bb x
    using that by (auto simp: reserve_def split: if_splits)
  have "is_gateway_error (wrap_error x)" for x by (simp add: wrap_error_def)
  with assms(1) bad res show ?thesis
    by (auto simp: complete_def Let_def wb_result split: option.splits sum.splits bool.splits prod.splits if_splits)
qed

text \<open>A completion is charged its estimated input and one token of output: the usage the provider
  reports, which may be thousands of output tokens, is never reconciled with the budget.\<close>

theorem reported_usage_is_not_charged:
  assumes "ca_answer (complete n reg i ms t (Some b)) = Inr c"
  shows "\<exists>b'. ca_budget (complete n reg i ms t (Some b)) = Some b' \<and>
    bu_tokens b' = bu_tokens b + estimate_tokens ms + 1"
proof -
  from assms obtain p where p: "map_of reg i = Some p" by (cases "map_of reg i") (auto simp: complete_def Let_def)
  have ok: "ms \<noteq> []" "any_bad ms = Inr False"
    using assms p by (auto simp: complete_def Let_def split: sum.splits bool.splits if_splits)
  show ?thesis
  proof (cases "reserve n (estimate_tokens ms + 1) (cost_of n p (estimate_tokens ms + 1)) b")
    case (Inl e)
    with assms p ok show ?thesis by (simp add: complete_def Let_def)
  next
    case (Inr b')
    with p ok have "ca_budget (complete n reg i ms t (Some b)) = Some b'"
      by (simp add: complete_def Let_def split_beta)
    with reserve_Inr [OF Inr] show ?thesis by simp
  qed
qed

section \<open>At a concrete provider\<close>

text \<open>Costs in whole units; the provider answers the second attempt, after one 503.\<close>

definition demo_net :: "int net" where
  "demo_net = \<lparr>f_lit = (\<lambda>s. if s = ''30'' then 30 else if s = ''0.1'' then 1 else 0), f_le = (\<le>), f_gt = (>), f_add = (+),
     f_rate = (*),
     urlsplit = (\<lambda>u. Some \<lparr>u_scheme = ''https'', u_username = None, u_password = None, u_query = [], u_fragment = [],
       u_hostname = Some ''llm.example'', u_port = Inr None\<rparr>),
     ip_of = (\<lambda>h. if h = ''8.8.8.8'' then Some \<lparr>ip_private = False, ip_loopback = False, ip_link_local = False,
       ip_multicast = False, ip_reserved = False, ip_unspecified = False\<rparr> else None),
     resolve = (\<lambda>h p. Some [''8.8.8.8'']), secret_of = Some (\<lambda>r. Some ''key''),
     open_url = (\<lambda>k. if k = 0 then HttpError 503 else Response ''ok''),
     loads_json = (\<lambda>s. Some (JObj [(''choices'', JList [JObj [(''message'', JObj [(''content'', JStr ''answer'')])]])])),
     int_of_text = (\<lambda>v. None)\<rparr>"

definition demo_provider :: "int provider" where
  "demo_provider = \<lparr>pr_id = ''llm'', pr_url = ''https://llm.example'', pr_model = ''m'', pr_timeout = 15, pr_retries = 1,
     pr_max_output = 2000, pr_secret = Some ''ref'', pr_external = True, pr_cost = Some 2, pr_policy = ''default'',
     pr_compat = ''chat-completions-v1''\<rparr>"

definition demo_message :: dict where
  "demo_message = [(''role'', JStr ''user''), (''content'', JStr ''hello there'')]"

definition demo_budget :: "int budget" where
  "demo_budget = \<lparr>bu_max_tokens = 10, bu_max_cost = Some 9, bu_tokens = 0, bu_cost = 0\<rparr>"

lemma demo_send: "send_request demo_net demo_provider = (2, Inr (''answer'',
    \<lparr>us_input = 0, us_output = 0, us_total = 0, us_estimated = False\<rparr>))"
  by (simp add: send_request_def validate_resolved_destination_def or_empty_def or_443_def blocked_ip_def given_def
      retryable_def parse_response_def item_str_def item_zero_def has_key_def py_or_def to_int_def max_body_def
      dget_or_def dget_def demo_net_def demo_provider_def numeral_2_eq_2)

lemma demo_new_budget: "new_budget demo_net 10 (Some 9) = Inr demo_budget"
  by (simp add: new_budget_def demo_net_def demo_budget_def)

lemma demo_complete:
  "ca_sent (complete demo_net [(''llm'', demo_provider)] ''llm'' [demo_message] 5 (Some demo_budget)) = 2"
  "is_ok (ca_answer (complete demo_net [(''llm'', demo_provider)] ''llm'' [demo_message] 5 (Some demo_budget)))"
proof -
  have m: "any_bad [demo_message] = Inr False" "estimate_tokens [demo_message] = 2"
    by (simp_all add: demo_message_def bad_message_def dget_def roles3_def estimate_tokens_def)
  have u: "pr_url demo_provider = ''https://llm.example''" by (simp add: demo_provider_def)
  have b: "reserve demo_net 3 (cost_of demo_net demo_provider 3) demo_budget = Inr (demo_budget\<lparr>bu_tokens := 3, bu_cost := 6\<rparr>)"
    by (simp add: reserve_def cost_of_def demo_net_def demo_provider_def demo_budget_def)
  show "ca_sent (complete demo_net [(''llm'', demo_provider)] ''llm'' [demo_message] 5 (Some demo_budget)) = 2"
    "is_ok (ca_answer (complete demo_net [(''llm'', demo_provider)] ''llm'' [demo_message] 5 (Some demo_budget)))"
    by (simp_all add: complete_def Let_def m u b demo_send del: any_bad.simps)
qed

lemma demo_checked: "check_provider demo_net demo_provider = Inr ()"
  by (simp add: check_provider_def demo_net_def demo_provider_def id_char_def validate_url_def given_def
      lower_def lower_char_def)

theorem budget_is_never_overspent_witness:
  "list_all (\<lambda>r. \<exists>b'. ca_budget r = Some b' \<and> bu_tokens b' \<le> 10)
    (complete_all demo_net [(''llm'', demo_provider)] (replicate 4 (''llm'', [demo_message], 5)) (Some demo_budget))"
  using budget_is_never_overspent [OF demo_new_budget, of "[(''llm'', demo_provider)]" "replicate 4 (''llm'', [demo_message], 5)"]
  by (auto simp: list_all_iff)

theorem egress_is_bounded_and_guarded_witness:
  "ca_sent (complete demo_net [(''llm'', demo_provider)] ''llm'' [demo_message] 5 (Some demo_budget)) \<le> 4"
  using egress_is_bounded_and_guarded [of demo_net "[(''llm'', demo_provider)]" "''llm''" "[demo_message]" 5
      "Some demo_budget" demo_provider] demo_complete(1) demo_checked by simp

theorem only_gateway_errors_come_out_witness:
  "is_gateway_error (RequestError ''unknown provider'')"
  by (rule only_gateway_errors_come_out [of demo_net "[(''llm'', demo_provider)]" "''other''" "[demo_message]" 5 None])
    (simp_all add: complete_def demo_message_def dget_def)

theorem reported_usage_is_not_charged_witness:
  "\<exists>b'. ca_budget (complete demo_net [(''llm'', demo_provider)] ''llm'' [demo_message] 5 (Some demo_budget)) = Some b' \<and>
    bu_tokens b' = bu_tokens demo_budget + estimate_tokens [demo_message] + 1"
proof -
  obtain c where "ca_answer (complete demo_net [(''llm'', demo_provider)] ''llm'' [demo_message] 5 (Some demo_budget)) = Inr c"
    using demo_complete(2) by (auto simp: is_ok_iff)
  then show ?thesis by (rule reported_usage_is_not_charged)
qed

end
