(* ===== verification/Local_Runner.thy ===== *)
theory Local_Runner
  imports Json Tenancy
begin

text \<open>
  \<^verbatim>\<open>local_runner.py\<close>: the process-local jobs of the development workbench.  The state is
  \<^verbatim>\<open>LocalRunner\<close>'s two dictionaries and the work directories it made.  The corpus (the rows
  of its manifest and the verified row of a fixture) is \<open>corpus\<close>; uuid4 is an argument, and so
  is what processing the staged fixture did: it raised, or produced a result and a manifest
  path.  A tenant id is taken as one path component.
\<close>

record corpus_row =
  cr_class :: string
  cr_scenario :: json
  cr_format :: string
  cr_fixture :: string
  cr_sha :: string
  cr_path :: string

record corpus =
  co_manifest :: string
  co_groups :: "string list"
  co_rows :: "corpus_row list"
  co_verified :: "string \<Rightarrow> (string \<times> string) + corpus_row"

record registration =
  rg_id :: string
  rg_fixture :: string
  rg_class :: string
  rg_scenario :: json
  rg_sha :: string

record job =
  jb_id :: string
  jb_tenant :: string
  jb_fixture :: string
  jb_status :: string
  jb_progress :: int
  jb_attempt :: int
  jb_sha :: string
  jb_source :: string
  jb_catalog :: string
  jb_work :: "string \<times> string"
  jb_result :: "json option"
  jb_manifest :: "string option"
  jb_error :: "(string \<times> string) option"
  jb_review :: "string option"

record runner =
  rn_jobs :: "(string \<times> job) list"
  rn_registrations :: "(string \<times> registration list) list"
  rn_dirs :: "(string \<times> string) list"

datatype runner_error = KeyMissing string | BadValue string | StopIteration | CorpusError string string

text \<open>What \<^verbatim>\<open>_run_job\<close> meets while it processes the fixture.\<close>

datatype processing = Raised string string | Produced json string

definition manifest_row :: "corpus \<Rightarrow> string \<Rightarrow> runner_error + corpus_row" where
  "manifest_row c fixture = (case co_verified c fixture of Inl (n, m) \<Rightarrow> Inl (CorpusError n m) | Inr r \<Rightarrow> Inr r)"

definition catalog :: "corpus \<Rightarrow> runner_error + corpus_row list" where
  "catalog c = r_map (\<lambda>g. case List.find (\<lambda>r. cr_class r = g) (co_rows c) of
     None \<Rightarrow> Inl StopIteration | Some r \<Rightarrow> Inr r) (co_groups c)"

definition register_fixture :: "corpus \<Rightarrow> string \<Rightarrow> string \<Rightarrow> string \<Rightarrow> runner \<Rightarrow> runner \<times> (runner_error + registration)" where
  "register_fixture c tenant fixture uuid_hex s =
     (case manifest_row c fixture of
        Inl e \<Rightarrow> (s, Inl e)
      | Inr row \<Rightarrow>
          (let item = \<lparr>rg_id = ''reg-'' @ take 12 uuid_hex, rg_fixture = fixture, rg_class = cr_class row,
                       rg_scenario = cr_scenario row, rg_sha = cr_sha row\<rparr>;
               old = (case map_of (rn_registrations s) tenant of None \<Rightarrow> [] | Some xs \<Rightarrow> xs) in
           (s\<lparr>rn_registrations := AList.update tenant (old @ [item]) (rn_registrations s)\<rparr>, Inr item)))"

definition run_job :: "processing \<Rightarrow> job \<Rightarrow> job" where
  "run_job p j = (case p of
     Produced result manifest \<Rightarrow>
       j\<lparr>jb_status := ''ready_for_review'', jb_progress := 100, jb_result := Some result, jb_manifest := Some manifest\<rparr>
   | Raised code message \<Rightarrow>
       j\<lparr>jb_status := ''error'', jb_progress := 100, jb_error := Some (code, message)\<rparr>)"

definition make_dir :: "string \<times> string \<Rightarrow> runner \<Rightarrow> runner" where
  "make_dir d s = s\<lparr>rn_dirs := (if d \<in> set (rn_dirs s) then rn_dirs s else rn_dirs s @ [d])\<rparr>"

definition submit_job :: "corpus \<Rightarrow> string \<Rightarrow> string \<Rightarrow> string \<Rightarrow> processing \<Rightarrow> runner \<Rightarrow> runner \<times> (runner_error + job)" where
  "submit_job c tenant fixture uuid_hex p s =
     (case manifest_row c fixture of
        Inl e \<Rightarrow> (s, Inl e)
      | Inr row \<Rightarrow>
          (let jid = ''job-'' @ take 12 uuid_hex; work = (tenant, jid);
               job = run_job p \<lparr>jb_id = jid, jb_tenant = tenant, jb_fixture = fixture, jb_status = ''processing'',
                 jb_progress = 10, jb_attempt = 1, jb_sha = cr_sha row, jb_source = cr_path row, jb_catalog = co_manifest c, jb_work = work,
                 jb_result = None, jb_manifest = None, jb_error = None, jb_review = None\<rparr>;
               s1 = make_dir work s in
           (s1\<lparr>rn_jobs := AList.update jid job (rn_jobs s1)\<rparr>, Inr job)))"

text \<open>The job of an id, if it is the tenant's; a foreign job and a missing one both raise \<^verbatim>\<open>KeyError\<close>.\<close>

definition own_job :: "string \<Rightarrow> string \<Rightarrow> runner \<Rightarrow> runner_error + job" where
  "own_job tenant jid s = (case map_of (rn_jobs s) jid of
     None \<Rightarrow> Inl (KeyMissing jid)
   | Some j \<Rightarrow> if jb_tenant j \<noteq> tenant then Inl (KeyMissing jid) else Inr j)"

definition get_job :: "string \<Rightarrow> string \<Rightarrow> runner \<Rightarrow> runner \<times> (runner_error + job)" where
  "get_job tenant jid s = (s, own_job tenant jid s)"

definition review_job :: "string \<Rightarrow> string \<Rightarrow> string \<Rightarrow> runner \<Rightarrow> runner \<times> (runner_error + job)" where
  "review_job tenant jid decision s =
     (case own_job tenant jid s of
        Inl e \<Rightarrow> (s, Inl e)
      | Inr j \<Rightarrow>
          if decision \<notin> {''approve'', ''quarantine''} then (s, Inl (BadValue ''decision must be approve or quarantine''))
          else if jb_status j \<noteq> ''ready_for_review'' then (s, Inl (BadValue ''job is not ready for review''))
          else (let j' = j\<lparr>jb_status := (if decision = ''approve'' then ''approved'' else ''quarantined''),
                            jb_review := Some decision\<rparr> in
                (s\<lparr>rn_jobs := AList.update jid j' (rn_jobs s)\<rparr>, Inr j')))"

text \<open>The attempt is counted before the corpus is read again, so it stays counted when that raises.\<close>

definition retry_job :: "corpus \<Rightarrow> string \<Rightarrow> string \<Rightarrow> processing \<Rightarrow> runner \<Rightarrow> runner \<times> (runner_error + job)" where
  "retry_job c tenant jid p s =
     (case own_job tenant jid s of
        Inl e \<Rightarrow> (s, Inl e)
      | Inr j \<Rightarrow>
          if jb_status j \<notin> {''error'', ''quarantined''} then (s, Inl (KeyMissing jid))
          else
            (let j1 = j\<lparr>jb_attempt := jb_attempt j + 1\<rparr> in
             case manifest_row c (jb_fixture j) of
               Inl e \<Rightarrow> (s\<lparr>rn_jobs := AList.update jid j1 (rn_jobs s)\<rparr>, Inl e)
             | Inr row \<Rightarrow>
                 (let j2 = run_job p (j1\<lparr>jb_result := None, jb_error := None, jb_review := None,
                             jb_status := ''processing'', jb_progress := 10\<rparr>);
                      s1 = make_dir (jb_work j) (s\<lparr>rn_dirs := filter (\<lambda>d. d \<noteq> jb_work j) (rn_dirs s)\<rparr>) in
                  (s1\<lparr>rn_jobs := AList.update jid j2 (rn_jobs s1)\<rparr>, Inr j2))))"

definition teardown :: "string \<Rightarrow> runner \<Rightarrow> runner \<times> nat" where
  "teardown tenant s =
     (let mine = filter (\<lambda>x. jb_tenant (snd x) = tenant) (rn_jobs s) in
      (\<lparr>rn_jobs = filter (\<lambda>x. jb_tenant (snd x) \<noteq> tenant) (rn_jobs s),
        rn_registrations = filter (\<lambda>x. fst x \<noteq> tenant) (rn_registrations s),
        rn_dirs = filter (\<lambda>d. fst d \<noteq> tenant) (rn_dirs s)\<rparr>, length mine))"

text \<open>\<^verbatim>\<open>public\<close>: the keys a client sees; \<^verbatim>\<open>work_root\<close> and \<^verbatim>\<open>tenant_id\<close> are left out.\<close>

definition public_job :: "job \<Rightarrow> (string \<times> json) list" where
  "public_job j =
     [(''job_id'', JStr (jb_id j)), (''fixture_id'', JStr (jb_fixture j)), (''status'', JStr (jb_status j)),
      (''progress'', JInt (jb_progress j)), (''attempt'', JInt (jb_attempt j)), (''synthetic'', JBool True),
      (''provenance'', JObj [(''tenant_id'', JStr (jb_tenant j)), (''source_sha256'', JStr (jb_sha j)),
        (''source_path'', JStr (jb_source j)), (''manifest'', JStr (jb_catalog j))])] @
     (case jb_result j of None \<Rightarrow> [] | Some r \<Rightarrow> [(''result'', r)]) @
     (case jb_manifest j of None \<Rightarrow> [] | Some m \<Rightarrow> [(''manifest_path'', JStr m)]) @
     (case jb_error j of None \<Rightarrow> [] | Some (c, m) \<Rightarrow>
        [(''error'', JObj [(''code'', JStr c), (''message'', JStr m), (''retryable'', JBool True)])]) @
     (case jb_review j of None \<Rightarrow> [] | Some d \<Rightarrow>
        [(''review'', JObj [(''decision'', JStr d), (''analyst'', JStr ''trusted-principal'')])])"

section \<open>Calls\<close>

datatype runner_call =
    Register string string string
  | SubmitJob string string string processing
  | GetJob string string
  | ReviewJob string string string
  | RetryJob string string processing
  | Teardown string

fun runner_tenant :: "runner_call \<Rightarrow> string" where
  "runner_tenant (Register t f u) = t"
| "runner_tenant (SubmitJob t f u p) = t"
| "runner_tenant (GetJob t j) = t"
| "runner_tenant (ReviewJob t j d) = t"
| "runner_tenant (RetryJob t j p) = t"
| "runner_tenant (Teardown t) = t"

datatype runner_answer = Registered "runner_error + registration" | JobAnswer "runner_error + job" | TornDown nat

fun runner_step :: "corpus \<Rightarrow> runner_call \<Rightarrow> runner \<Rightarrow> runner \<times> runner_answer" where
  "runner_step c (Register t f u) s = (let (s', r) = register_fixture c t f u s in (s', Registered r))"
| "runner_step c (SubmitJob t f u p) s = (let (s', r) = submit_job c t f u p s in (s', JobAnswer r))"
| "runner_step c (GetJob t j) s = (let (s', r) = get_job t j s in (s', JobAnswer r))"
| "runner_step c (ReviewJob t j d) s = (let (s', r) = review_job t j d s in (s', JobAnswer r))"
| "runner_step c (RetryJob t j p) s = (let (s', r) = retry_job c t j p s in (s', JobAnswer r))"
| "runner_step c (Teardown t) s = (let (s', n) = teardown t s in (s', TornDown n))"

section \<open>The life cycle of a job\<close>

inductive job_move :: "job \<Rightarrow> job \<Rightarrow> bool" where
  same: "job_move j j"
| review: "jb_status j = ''ready_for_review'' \<Longrightarrow> d \<in> {''approve'', ''quarantine''} \<Longrightarrow>
    job_move j (j\<lparr>jb_status := (if d = ''approve'' then ''approved'' else ''quarantined''), jb_review := Some d\<rparr>)"
| counted: "jb_status j \<in> {''error'', ''quarantined''} \<Longrightarrow> job_move j (j\<lparr>jb_attempt := jb_attempt j + 1\<rparr>)"
| rerun: "jb_status j \<in> {''error'', ''quarantined''} \<Longrightarrow>
    job_move j (run_job p (j\<lparr>jb_attempt := jb_attempt j + 1, jb_result := None, jb_error := None, jb_review := None,
      jb_status := ''processing'', jb_progress := 10\<rparr>))"

inductive_cases job_moveE: "job_move j j'"

text \<open>A job as it can be seen: settled, with exactly the data of its status.\<close>

definition job_ok :: "job \<Rightarrow> bool" where
  "job_ok j = (jb_progress j = 100 \<and> 1 \<le> jb_attempt j \<and>
     (jb_status j = ''ready_for_review'' \<and> jb_result j \<noteq> None \<and> jb_error j = None \<and> jb_review j = None \<or>
      jb_status j = ''approved'' \<and> jb_result j \<noteq> None \<and> jb_review j = Some ''approve'' \<or>
      jb_status j = ''quarantined'' \<and> jb_result j \<noteq> None \<and> jb_review j = Some ''quarantine'' \<or>
      jb_status j = ''error'' \<and> jb_error j \<noteq> None \<and> jb_result j = None \<and> jb_review j = None))"

lemma job_move_ok: "job_move j j' \<Longrightarrow> job_ok j \<Longrightarrow> job_ok j'"
  by (induction rule: job_move.induct) (auto simp: job_ok_def run_job_def split: processing.splits)

lemma job_move_approved: "job_move j j' \<Longrightarrow> jb_status j = ''approved'' \<Longrightarrow> j' = j"
  by (auto elim!: job_moveE)

lemma job_move_tenant: "job_move j j' \<Longrightarrow> jb_tenant j' = jb_tenant j \<and> jb_id j' = jb_id j \<and> jb_attempt j \<le> jb_attempt j'"
  by (induction rule: job_move.induct) (auto simp: run_job_def split: processing.splits)

definition runner_ok :: "runner \<Rightarrow> bool" where
  "runner_ok s = (dict_ok (rn_jobs s) \<and> (\<forall>x\<in>set (rn_jobs s). jb_id (snd x) = fst x \<and> job_ok (snd x) \<and>
     jb_work (snd x) = (jb_tenant (snd x), fst x)))"

lemma own_job_Inr: "own_job t jid s = Inr j \<longleftrightarrow> map_of (rn_jobs s) jid = Some j \<and> jb_tenant j = t"
  by (auto simp: own_job_def split: option.splits)

lemma own_job_Inl: "own_job t jid s = Inl e \<longleftrightarrow> e = KeyMissing jid \<and> (\<forall>j. map_of (rn_jobs s) jid = Some j \<longrightarrow> jb_tenant j \<noteq> t)"
  by (auto simp: own_job_def split: option.splits)

lemma map_of_filter_dict:
  "dict_ok d \<Longrightarrow> map_of (filter P d) k = (case map_of d k of None \<Rightarrow> None | Some v \<Rightarrow> if P (k, v) then Some v else None)"
proof (induction d)
  case (Cons x d)
  then have ih: "map_of (filter P d) k = (case map_of d k of None \<Rightarrow> None | Some v \<Rightarrow> if P (k, v) then Some v else None)"
    by (simp add: dict_ok_def)
  show ?case
  proof (cases "fst x = k")
    case True
    with Cons.prems have "map_of d k = None" by (auto simp: dict_ok_def map_of_eq_None_iff)
    with ih True show ?thesis by (cases x) auto
  qed (use ih in \<open>cases x, auto\<close>)
qed simp

lemma review_moves:
  "jb_status j = ''ready_for_review'' \<Longrightarrow> job_move j (j\<lparr>jb_status := ''approved'', jb_review := Some ''approve''\<rparr>)"
  "jb_status j = ''ready_for_review'' \<Longrightarrow> job_move j (j\<lparr>jb_status := ''quarantined'', jb_review := Some ''quarantine''\<rparr>)"
  using job_move.review [of j "''approve''"] job_move.review [of j "''quarantine''"] by auto

lemma retry_moves:
  "jb_status j = ''error'' \<or> jb_status j = ''quarantined'' \<Longrightarrow> job_move j (j\<lparr>jb_attempt := jb_attempt j + 1\<rparr>)"
  "jb_status j = ''error'' \<or> jb_status j = ''quarantined'' \<Longrightarrow>
     job_move j (run_job p (j\<lparr>jb_attempt := jb_attempt j + 1, jb_result := None,
       jb_error := None, jb_review := None, jb_status := ''processing'', jb_progress := 10\<rparr>))"
  using job_move.counted [of j] job_move.rerun [of j p] by auto

text \<open>Each call: a job that was there is moved along the life cycle or removed by its tenant; a new id
  is the tenant's.\<close>

lemma runner_step_jobs:
  assumes "runner_ok s"
  shows "case map_of (rn_jobs (fst (runner_step c call s))) jid of
      None \<Rightarrow> (\<forall>j. map_of (rn_jobs s) jid = Some j \<longrightarrow> call = Teardown (jb_tenant j))
    | Some j' \<Rightarrow> (\<exists>j. map_of (rn_jobs s) jid = Some j \<and> job_move j j' \<and> (j' = j \<or> jb_tenant j = runner_tenant call)) \<or>
        (\<exists>f u p. call = SubmitJob (jb_tenant j') f u p \<and> jid = ''job-'' @ take 12 u \<and> job_ok j')"
proof (cases call)
  case (SubmitJob t f u p)
  then show ?thesis
    by (auto simp: submit_job_def Let_def dict_get_update make_dir_def run_job_def job_ok_def
        intro: job_move.same split: sum.splits option.splits processing.splits)
next
  case (ReviewJob t i d)
  then show ?thesis
    by (auto simp: review_job_def Let_def dict_get_update own_job_Inr intro: job_move.same review_moves
        split: sum.splits option.splits)
next
  case (RetryJob t i p)
  then show ?thesis
    by (auto simp: retry_job_def Let_def dict_get_update own_job_Inr make_dir_def intro: job_move.same retry_moves
        split: sum.splits option.splits)
next
  case (Teardown t)
  then show ?thesis using assms
    by (auto simp: teardown_def Let_def runner_ok_def map_of_filter_dict intro: job_move.same split: option.splits)
qed (auto simp: register_fixture_def get_job_def Let_def intro: job_move.same split: sum.splits option.splits)

end
