(* ===== verification/Runner_Correct.thy ===== *)
theory Runner_Correct
  imports Local_Runner
begin

text \<open>The local runner over runs: settled jobs, final approval, and tenants apart.\<close>

lemma runner_step_dict: "dict_ok (rn_jobs s) \<Longrightarrow> dict_ok (rn_jobs (fst (runner_step c call s)))"
  by (cases call) (auto simp: register_fixture_def submit_job_def get_job_def review_job_def retry_job_def teardown_def
      Let_def make_dir_def dict_ok_update dict_ok_filter split: sum.splits)

lemma runner_ok_lookup:
  "runner_ok s \<longleftrightarrow> dict_ok (rn_jobs s) \<and> (\<forall>jid j. map_of (rn_jobs s) jid = Some j \<longrightarrow>
     jb_id j = jid \<and> job_ok j \<and> jb_work j = (jb_tenant j, jid))"
  unfolding runner_ok_def
  by (rule conj_cong [OF refl]) (force simp: dict_ok_def dest: map_of_SomeD)

lemma job_move_work: "job_move j j' \<Longrightarrow> jb_work j' = jb_work j"
  by (induction rule: job_move.induct) (auto simp: run_job_def split: processing.splits)

lemma new_job_shape:
  "map_of (rn_jobs (fst (runner_step c (SubmitJob t f u p) s))) (''job-'' @ take 12 u) = Some j \<Longrightarrow>
    map_of (rn_jobs s) (''job-'' @ take 12 u) = Some j \<or>
    jb_id j = ''job-'' @ take 12 u \<and> jb_work j = (jb_tenant j, ''job-'' @ take 12 u)"
  by (auto simp: submit_job_def Let_def dict_get_update make_dir_def run_job_def split: sum.splits processing.splits)

lemma runner_step_ok:
  assumes "runner_ok s"
  shows "runner_ok (fst (runner_step c call s))"
  unfolding runner_ok_lookup
proof (intro conjI allI impI)
  show "dict_ok (rn_jobs (fst (runner_step c call s)))"
    using assms by (intro runner_step_dict) (simp add: runner_ok_def)
  fix jid j' assume j': "map_of (rn_jobs (fst (runner_step c call s))) jid = Some j'"
  have old: "jb_id j = jid \<and> job_ok j \<and> jb_work j = (jb_tenant j, jid)" if "map_of (rn_jobs s) jid = Some j" for j
    using assms that by (simp add: runner_ok_lookup)
  from runner_step_jobs [OF assms, where c = c and call = call and jid = jid] j' consider
    j where "map_of (rn_jobs s) jid = Some j" "job_move j j'"
    | f u p where "call = SubmitJob (jb_tenant j') f u p" "jid = ''job-'' @ take 12 u" "job_ok j'" by auto
  then have "jb_id j' = jid \<and> job_ok j' \<and> jb_work j' = (jb_tenant j', jid)"
  proof cases
    case 1
    with old [OF 1(1)] job_move_ok [OF 1(2)] job_move_tenant [OF 1(2)] job_move_work [OF 1(2)] show ?thesis by simp
  next
    case 2
    from new_job_shape [of c "jb_tenant j'" f u p s j'] j' 2 old show ?thesis by auto
  qed
  then show "jb_id j' = jid" "job_ok j'" "jb_work j' = (jb_tenant j', jid)" by auto
qed

definition empty_runner :: runner where
  "empty_runner = \<lparr>rn_jobs = [], rn_registrations = [], rn_dirs = []\<rparr>"

text \<open>From an empty runner, whatever calls tenants make and whatever processing does, every job that
  can be read is settled: its progress is 100, it has a result exactly when processing succeeded
  and an error when it failed, and a review that agrees with its status; its id is its key and its
  work directory is inside its own tenant's.\<close>

theorem runner_jobs_are_always_settled:
  "runner_ok (fst (run_ops (runner_step c) calls empty_runner))"
  by (rule run_ops_invariant, erule runner_step_ok) (simp add: runner_ok_def empty_runner_def)

lemma approved_step:
  assumes "runner_ok s" "map_of (rn_jobs s) jid = Some j" "jb_status j = ''approved''"
    and "call \<noteq> Teardown (jb_tenant j)" "\<not> (\<exists>t f u p. call = SubmitJob t f u p \<and> jid = ''job-'' @ take 12 u)"
  shows "map_of (rn_jobs (fst (runner_step c call s))) jid = Some j"
proof (cases "map_of (rn_jobs (fst (runner_step c call s))) jid")
  case None
  with runner_step_jobs [OF assms(1), where c = c and call = call and jid = jid] assms show ?thesis by auto
next
  case (Some j')
  with runner_step_jobs [OF assms(1), where c = c and call = call and jid = jid] assms(2,5) have "job_move j j'" by auto
  with job_move_approved assms(3) Some show ?thesis by blast
qed

text \<open>C15: an approval is final: an approved job stays exactly as it was approved, through every run of
  calls in which its tenant does not tear its jobs down and no new job is given its id.\<close>

theorem approved_jobs_are_final:
  assumes "runner_ok s" "map_of (rn_jobs s) jid = Some j" "jb_status j = ''approved''"
    and "Teardown (jb_tenant j) \<notin> set calls" "\<not> (\<exists>t f u p. SubmitJob t f u p \<in> set calls \<and> jid = ''job-'' @ take 12 u)"
  shows "map_of (rn_jobs (fst (run_ops (runner_step c) calls s))) jid = Some j"
  using assms
proof (induction calls arbitrary: s)
  case (Cons call calls)
  have "map_of (rn_jobs (fst (runner_step c call s))) jid = Some j"
    using Cons.prems by (intro approved_step) auto
  with Cons.IH [OF runner_step_ok [OF Cons.prems(1)] this Cons.prems(3)] Cons.prems(4,5)
  show ?case by (auto simp: Let_def split_beta)
qed simp

section \<open>Tenants apart\<close>

definition tenant_jobs :: "string \<Rightarrow> runner \<Rightarrow> (string \<times> job) list" where
  "tenant_jobs b s = filter (\<lambda>x. jb_tenant (snd x) = b) (rn_jobs s)"

lemma jobs_update_other:
  "jb_tenant v \<noteq> b \<Longrightarrow> \<forall>w. map_of js k = Some w \<longrightarrow> jb_tenant w \<noteq> b \<Longrightarrow>
    filter (\<lambda>x. jb_tenant (snd x) = b) (AList.update k v js) = filter (\<lambda>x. jb_tenant (snd x) = b) js"
  by (induction js) (auto split: if_splits)

lemma runner_step_frame:
  assumes "runner_tenant call \<noteq> b" "runner_ok s"
    and "\<not> (\<exists>t f u p. call = SubmitJob t f u p \<and> ''job-'' @ take 12 u \<in> fst ` set (tenant_jobs b s))"
  shows "tenant_jobs b (fst (runner_step c call s)) = tenant_jobs b s \<and>
    map_of (rn_registrations (fst (runner_step c call s))) b = map_of (rn_registrations s) b \<and>
    filter (\<lambda>d. fst d = b) (rn_dirs (fst (runner_step c call s))) = filter (\<lambda>d. fst d = b) (rn_dirs s)"
proof (cases call)
  case (SubmitJob t f u p)
  have "jb_tenant w \<noteq> b" if "map_of (rn_jobs s) (''job-'' @ take 12 u) = Some w" for w
    using assms(3) SubmitJob map_of_SomeD [OF that] by (force simp: tenant_jobs_def)
  with assms(1) SubmitJob show ?thesis
    by (auto simp: submit_job_def Let_def make_dir_def tenant_jobs_def run_job_def jobs_update_other
        split: sum.splits processing.splits)
next
  case (ReviewJob t i d)
  with assms(1) show ?thesis
    by (auto simp: review_job_def Let_def tenant_jobs_def own_job_Inr jobs_update_other split: sum.splits)
next
  case (RetryJob t i p)
  have dirs: "filter (\<lambda>d. d \<noteq> jb_work j \<and> fst d = b) ds = filter (\<lambda>d. fst d = b) ds"
    if "fst (jb_work j) \<noteq> b" for j ds using that by (auto intro!: filter_cong)
  have work: "fst (jb_work j) \<noteq> b" if "own_job t i s = Inr j" for j
    using that assms(1,2) RetryJob by (auto simp: own_job_Inr runner_ok_lookup)
  with assms(1) RetryJob show ?thesis
    by (auto simp: retry_job_def Let_def tenant_jobs_def own_job_Inr jobs_update_other make_dir_def run_job_def dirs
        split: sum.splits processing.splits)
next
  case (Teardown t)
  have "filter (\<lambda>d. fst d = b) (filter (\<lambda>d. fst d \<noteq> t) ds) = filter (\<lambda>d. fst d = b) ds" for ds :: "(string \<times> string) list"
    using assms(1) Teardown by (induction ds) auto
  moreover have "filter (\<lambda>x. jb_tenant (snd x) = b) (filter (\<lambda>x. jb_tenant (snd x) \<noteq> t) js) =
      filter (\<lambda>x. jb_tenant (snd x) = b) js" for js :: "(string \<times> job) list"
    using assms(1) Teardown by (induction js) auto
  moreover have "map_of (filter (\<lambda>x. fst x \<noteq> t) rs) b = map_of rs b" for rs :: "(string \<times> registration list) list"
    using assms(1) Teardown by (induction rs) auto
  ultimately show ?thesis using Teardown by (simp add: teardown_def Let_def tenant_jobs_def)
qed (use assms(1) in \<open>auto simp: register_fixture_def get_job_def Let_def tenant_jobs_def dict_get_update split: sum.splits\<close>)

lemma foreign_lookup:
  "dict_ok (rn_jobs s) \<Longrightarrow> runner_ok s \<Longrightarrow> own_job b jid s = (case map_of (tenant_jobs b s) jid of
     None \<Rightarrow> Inl (KeyMissing jid) | Some j \<Rightarrow> Inr j)"
  by (auto simp: own_job_def tenant_jobs_def map_of_filter_dict split: option.splits)

text \<open>Tenants are apart in the runner: through a run of calls of other tenants whose new job ids are
  not ids of the tenant's jobs, the tenant's jobs, registrations and work directories stay as they
  are, and what the tenant reads for any job id is the same before and after.\<close>

theorem runner_tenants_are_apart:
  assumes "runner_ok s" "b \<notin> runner_tenant ` set calls"
    and "\<not> (\<exists>t f u p. SubmitJob t f u p \<in> set calls \<and> ''job-'' @ take 12 u \<in> fst ` set (tenant_jobs b s))"
  shows "tenant_jobs b (fst (run_ops (runner_step c) calls s)) = tenant_jobs b s \<and>
    map_of (rn_registrations (fst (run_ops (runner_step c) calls s))) b = map_of (rn_registrations s) b \<and>
    filter (\<lambda>d. fst d = b) (rn_dirs (fst (run_ops (runner_step c) calls s))) = filter (\<lambda>d. fst d = b) (rn_dirs s) \<and>
    own_job b jid (fst (run_ops (runner_step c) calls s)) = own_job b jid s"
  using assms
proof (induction calls arbitrary: s)
  case (Cons call calls)
  let ?s = "fst (runner_step c call s)"
  have f: "tenant_jobs b ?s = tenant_jobs b s" "map_of (rn_registrations ?s) b = map_of (rn_registrations s) b"
    "filter (\<lambda>d. fst d = b) (rn_dirs ?s) = filter (\<lambda>d. fst d = b) (rn_dirs s)"
    using runner_step_frame [of call b s c] Cons.prems by auto
  have ok: "runner_ok ?s" by (rule runner_step_ok [OF Cons.prems(1)])
  have own: "own_job b jid ?s = own_job b jid s"
    using foreign_lookup [of ?s b jid] foreign_lookup [of s b jid] ok Cons.prems(1) f(1)
    by (simp add: runner_ok_def)
  have nb: "b \<notin> runner_tenant ` set calls" using Cons.prems(2) by auto
  have nc: "\<not> (\<exists>t f u p. SubmitJob t f u p \<in> set calls \<and> ''job-'' @ take 12 u \<in> fst ` set (tenant_jobs b ?s))"
    using Cons.prems(3) unfolding f(1) by auto
  have run: "fst (run_ops (runner_step c) (call # calls) s) = fst (run_ops (runner_step c) calls ?s)"
    by (simp add: Let_def split_beta)
  show ?case unfolding run using Cons.IH [OF ok nb nc] unfolding f own .
qed simp

section \<open>At a concrete history\<close>

definition demo_corpus :: corpus where
  "demo_corpus = \<lparr>co_manifest = ''m'', co_groups = [], co_rows = [], co_verified = (\<lambda>f. Inr \<lparr>cr_class = ''log'', cr_scenario = JStr ''s'',
     cr_format = ''evtx'', cr_fixture = f, cr_sha = ''ab'', cr_path = ''p''\<rparr>)\<rparr>"

definition demo_jobs :: runner where
  "demo_jobs = fst (run_ops (runner_step demo_corpus) [SubmitJob ''t1'' ''f'' ''0001'' (Produced JNull ''m''),
     ReviewJob ''t1'' ''job-0001'' ''approve''] empty_runner)"

lemma demo_jobs_eq: "rn_jobs demo_jobs = [(''job-0001'', \<lparr>jb_id = ''job-0001'', jb_tenant = ''t1'', jb_fixture = ''f'',
    jb_status = ''approved'', jb_progress = 100, jb_attempt = 1, jb_sha = ''ab'', jb_source = ''p'', jb_catalog = ''m'',
    jb_work = (''t1'', ''job-0001''), jb_result = Some JNull, jb_manifest = Some ''m'', jb_error = None,
    jb_review = Some ''approve''\<rparr>)]"
  unfolding demo_jobs_def empty_runner_def
  by (simp add: Let_def submit_job_def manifest_row_def demo_corpus_def run_job_def make_dir_def review_job_def own_job_def)

lemma demo_jobs_ok: "runner_ok demo_jobs"
  unfolding demo_jobs_def by (rule runner_jobs_are_always_settled)

theorem approved_jobs_are_final_witness:
  "map_option jb_status (map_of (rn_jobs (fst (run_ops (runner_step demo_corpus)
     [RetryJob ''t1'' ''job-0001'' (Raised ''E'' ''m''), ReviewJob ''t1'' ''job-0001'' ''quarantine''] demo_jobs))) ''job-0001'') =
   Some ''approved''"
proof -
  define j where "j = the (map_of (rn_jobs demo_jobs) ''job-0001'')"
  have j: "map_of (rn_jobs demo_jobs) ''job-0001'' = Some j" "jb_status j = ''approved''"
    by (simp_all add: j_def demo_jobs_eq)
  have "map_of (rn_jobs (fst (run_ops (runner_step demo_corpus)
     [RetryJob ''t1'' ''job-0001'' (Raised ''E'' ''m''), ReviewJob ''t1'' ''job-0001'' ''quarantine''] demo_jobs))) ''job-0001'' = Some j"
    by (rule approved_jobs_are_final [OF demo_jobs_ok j]) auto
  with j show ?thesis by simp
qed

theorem runner_tenants_are_apart_witness:
  "tenant_jobs ''t1'' (fst (run_ops (runner_step demo_corpus)
     [SubmitJob ''t2'' ''f'' ''0002'' (Raised ''E'' ''m''), ReviewJob ''t2'' ''job-0001'' ''approve'', Teardown ''t2''] demo_jobs)) =
   tenant_jobs ''t1'' demo_jobs"
  by (rule runner_tenants_are_apart [THEN conjunct1, OF demo_jobs_ok]) (auto simp: tenant_jobs_def demo_jobs_eq)

end
