(* ===== verification/Openrelik.thy ===== *)
theory Openrelik
  imports Json Tables Tenancy
begin

text \<open>
  \<^verbatim>\<open>openrelik_contract.py\<close> and \<^verbatim>\<open>openrelik_adapter.py\<close>: request validation, the
  idempotency key, the SQLite job store and the adapter over it.  The JSON-Schema validator
  and SHA-256 are fields of \<open>relik\<close>; what the transport answers is an argument of the call
  that asks it.  The emitted audit events are kept in the state.  \<^verbatim>\<open>updated_at\<close> is never
  read and is left out; a stored request is the JSON value it was serialised from.
\<close>

datatype or_error =
    ContractError string | PermissionErr string | ValueErr string | RuntimeErr string | KeyErr string
  | DatabaseErr string | TransportErr string | TypeErr

record relik =
  rk_sha :: "string \<Rightarrow> string"
  rk_request_schema :: "json \<Rightarrow> string option"
  rk_result_schema :: "json \<Rightarrow> string option"

section \<open>The contract\<close>

definition safe_id :: "string \<Rightarrow> bool" where
  "safe_id s = (case s of [] \<Rightarrow> False | c # cs \<Rightarrow> is_alnum c \<and> list_all (\<lambda>d. is_alnum d \<or> d \<in> set ''_.:-'') cs)"

definition jget :: "string \<Rightarrow> json \<Rightarrow> or_error + json" where
  "jget k v = (case v of JObj d \<Rightarrow> (if has_key d k then Inr (dget d k) else Inl (KeyErr k)) | _ \<Rightarrow> Inl TypeErr)"

fun jpath :: "string list \<Rightarrow> json \<Rightarrow> or_error + json" where
  "jpath [] v = Inr v"
| "jpath (k # ks) v = r_bind (jget k v) (jpath ks)"

fun as_str :: "json \<Rightarrow> or_error + string" where
  "as_str (JStr s) = Inr s"
| "as_str v = Inl TypeErr"

definition str_at :: "string list \<Rightarrow> json \<Rightarrow> or_error + string" where
  "str_at ks v = r_bind (jpath ks v) as_str"

definition validate_schema :: "(json \<Rightarrow> string option) \<Rightarrow> json \<Rightarrow> or_error + json" where
  "validate_schema schema v = (case v of
     JObj d \<Rightarrow> (case schema v of None \<Rightarrow> Inr v | Some m \<Rightarrow> Inl (ContractError m))
   | _ \<Rightarrow> Inl (ContractError ''contract value must be an object''))"

definition id_paths :: "string list list" where
  "id_paths = [[''tenant'', ''tenant_id''], [''case'', ''case_id''], [''asset'', ''asset_id''],
     [''evidence'', ''evidence_id''], [''acquisition'', ''acquisition_id'']]"

definition validate_ids :: "json \<Rightarrow> or_error + unit" where
  "validate_ids request =
     r_bind (r_map (\<lambda>p. jpath (''immutable_context'' # p) request) id_paths) (\<lambda>vs.
     r_bind (r_map as_str vs) (\<lambda>ids.
       r_guard (list_all safe_id ids) (ContractError ''identifiers must be safe opaque IDs'')))"

definition validate_job_request :: "relik \<Rightarrow> json \<Rightarrow> or_error + json" where
  "validate_job_request k v = r_bind (validate_schema (rk_request_schema k) v) (\<lambda>r. r_bind (validate_ids r) (\<lambda>_. Inr r))"

definition validate_job_result :: "relik \<Rightarrow> json \<Rightarrow> or_error + json" where
  "validate_job_result k v = validate_schema (rk_result_schema k) v"

definition build_idempotency_key :: "relik \<Rightarrow> string \<Rightarrow> string \<Rightarrow> string \<Rightarrow> string \<Rightarrow> string \<Rightarrow> string" where
  "build_idempotency_key k tenant case_id evidence sha workflow_name =
     ''v1:'' @ take 43 (rk_sha k (join ''|'' [tenant, case_id, evidence, sha, workflow_name]))"

section \<open>The job store\<close>

record or_job =
  or_id :: string
  or_tenant :: string
  or_case :: string
  or_analyst :: string
  or_evidence :: string
  or_asset :: string
  or_key :: string
  or_workflow :: "string option"
  or_task :: "string option"
  or_status :: string
  or_review :: string
  or_attempts :: int
  or_error_code :: "string option"
  or_outputs :: json
  or_request :: json

record relik_state =
  rs_jobs :: "or_job list"
  rs_audit :: "(string \<times> json) list"

text \<open>Python equality of decoded JSON: the order of keys does not count.\<close>

definition json_same :: "json \<Rightarrow> json \<Rightarrow> bool" where
  "json_same a b = (sort_keys a = sort_keys b)"

text \<open>A Python value bound to a TEXT column.\<close>

fun text_bind :: "json \<Rightarrow> or_error + string option" where
  "text_bind JNull = Inr None"
| "text_bind (JStr s) = Inr (Some s)"
| "text_bind (JInt i) = Inr (Some (dec_int i))"
| "text_bind (JBool b) = Inr (Some (if b then ''1'' else ''0''))"
| "text_bind (JFloat r) = Inr (Some r)"
| "text_bind v = Inl (DatabaseErr ''InterfaceError'')"

definition text_bind_required :: "json \<Rightarrow> or_error + string" where
  "text_bind_required v = r_bind (text_bind v) (\<lambda>t. case t of None \<Rightarrow> Inl (DatabaseErr ''IntegrityError'') | Some s \<Rightarrow> Inr s)"

definition get_row :: "string \<Rightarrow> or_job list \<Rightarrow> or_error + or_job" where
  "get_row jid t = (case select_one (\<lambda>r. or_id r = jid) t of None \<Rightarrow> Inl (KeyErr jid) | Some r \<Rightarrow> Inr r)"

definition scoped_get :: "string \<Rightarrow> string \<Rightarrow> string \<Rightarrow> or_job list \<Rightarrow> or_error + or_job" where
  "scoped_get jid tenant case_id t =
     (case select_one (\<lambda>r. or_id r = jid \<and> or_tenant r = tenant \<and> or_case r = case_id) t of
        None \<Rightarrow> Inl (KeyErr ''job not found'') | Some r \<Rightarrow> Inr r)"

definition by_key :: "string \<Rightarrow> or_job list \<Rightarrow> or_job option" where
  "by_key key t = select_one (\<lambda>r. or_key r = key) t"

definition new_row :: "json \<Rightarrow> string \<Rightarrow> string \<Rightarrow> string \<Rightarrow> string \<Rightarrow> or_error + or_job" where
  "new_row request tenant case_id analyst key =
     r_bind (str_at [''request_id''] request) (\<lambda>rid.
     r_bind (str_at [''immutable_context'', ''evidence'', ''evidence_id''] request) (\<lambda>ev.
     r_bind (str_at [''immutable_context'', ''asset'', ''asset_id''] request) (\<lambda>asset.
     Inr \<lparr>or_id = rid, or_tenant = tenant, or_case = case_id, or_analyst = analyst, or_evidence = ev,
          or_asset = asset, or_key = key, or_workflow = None, or_task = None, or_status = ''queued'',
          or_review = ''unreviewed'', or_attempts = 0, or_error_code = None, or_outputs = JList [],
          or_request = request\<rparr>)))"

definition create_job ::
  "json \<Rightarrow> string \<Rightarrow> string \<Rightarrow> string \<Rightarrow> string \<Rightarrow> or_job list \<Rightarrow> or_error + (or_job list \<times> or_job)" where
  "create_job request tenant case_id analyst key t =
     r_bind (new_row request tenant case_id analyst key) (\<lambda>row.
     if holds_key or_id (or_id row) t \<or> holds_key or_key key t
     then (case by_key key t of
             None \<Rightarrow> Inl (DatabaseErr ''IntegrityError'')
           | Some existing \<Rightarrow>
               (if \<not> json_same (or_request existing) request then Inl (ValueErr ''IDEMPOTENCY_CONFLICT'')
                else Inr (t, existing)))
     else Inr (insert_or_ignore or_key row t, row))"

definition update_job :: "string \<Rightarrow> (or_job \<Rightarrow> or_job) \<Rightarrow> or_job list \<Rightarrow> or_error + (or_job list \<times> or_job)" where
  "update_job jid f t =
     (let t' = update_rows (\<lambda>r. or_id r = jid) f t in r_bind (get_row jid t') (\<lambda>r. Inr (t', r)))"

definition add_outputs :: "string \<Rightarrow> string \<Rightarrow> string \<Rightarrow> json \<Rightarrow> or_job list \<Rightarrow> or_error + (or_job list \<times> or_job)" where
  "add_outputs jid tenant case_id outputs t =
     r_bind (scoped_get jid tenant case_id t) (\<lambda>_.
       update_job jid (\<lambda>r. r\<lparr>or_status := ''succeeded'', or_outputs := outputs\<rparr>) t)"

definition stored_request :: "string \<Rightarrow> string \<Rightarrow> string \<Rightarrow> or_job list \<Rightarrow> or_error + json" where
  "stored_request jid tenant case_id t =
     r_bind (scoped_get jid tenant case_id t) (\<lambda>_. r_bind (get_row jid t) (\<lambda>r. Inr (or_request r)))"

section \<open>The adapter\<close>

type_synonym 'a relik_act = "(relik_state, or_error, 'a) act"

datatype answer = Fails string | Answers json

definition terminal :: "string list" where "terminal = [''succeeded'', ''failed'', ''quarantined'']"

definition jobs_read :: "(or_job list \<Rightarrow> or_error + 'a) \<Rightarrow> 'a relik_act" where
  "jobs_read f = a_read (\<lambda>s. f (rs_jobs s))"

definition jobs_write :: "(or_job list \<Rightarrow> or_error + (or_job list \<times> 'a)) \<Rightarrow> 'a relik_act" where
  "jobs_write f s = (case f (rs_jobs s) of Inl e \<Rightarrow> (s, Inl e) | Inr (t, x) \<Rightarrow> (s\<lparr>rs_jobs := t\<rparr>, Inr x))"

definition emit :: "string \<Rightarrow> json \<Rightarrow> unit relik_act" where
  "emit event payload = a_modify (\<lambda>s. s\<lparr>rs_audit := rs_audit s @ [(event, payload)]\<rparr>)"

definition lift :: "or_error + 'a \<Rightarrow> 'a relik_act" where
  "lift r = a_read (\<lambda>s. r)"

definition scope :: "principal \<Rightarrow> (string \<times> string) relik_act" where
  "scope p = a_bind (a_guard (strip (tenant_id p) \<noteq> [] \<and> strip (analyst_id p) \<noteq> [])
     (PermissionErr ''authenticated principal required'')) (\<lambda>_. a_ret (tenant_id p, analyst_id p))"

fun error_name :: "or_error \<Rightarrow> string" where
  "error_name (ContractError m) = ''ContractValidationError''"
| "error_name (PermissionErr m) = ''PermissionError''"
| "error_name (ValueErr m) = ''ValueError''"
| "error_name (RuntimeErr m) = ''RuntimeError''"
| "error_name (KeyErr m) = ''KeyError''"
| "error_name (DatabaseErr m) = m"
| "error_name (TransportErr m) = m"
| "error_name TypeErr = ''TypeError''"

definition deny :: "string \<Rightarrow> json \<Rightarrow> or_error \<Rightarrow> unit relik_act" where
  "deny operation jid err = emit ''openrelik.deny''
     (JObj [(''operation'', JStr operation), (''job_id'', jid), (''error'', JStr (error_name err))])"

definition job_event :: "string \<Rightarrow> string \<Rightarrow> string \<Rightarrow> json" where
  "job_event jid tenant case_id = JObj [(''job_id'', JStr jid), (''tenant_id'', JStr tenant), (''case_id'', JStr case_id)]"

definition transport :: "answer \<Rightarrow> json relik_act" where
  "transport a = lift (case a of Fails m \<Rightarrow> Inl (TransportErr m) | Answers v \<Rightarrow> Inr v)"

definition resp_get :: "string \<Rightarrow> json \<Rightarrow> json \<Rightarrow> or_error + json" where
  "resp_get k dflt v = (case v of JObj d \<Rightarrow> Inr (dget_or d k dflt) | _ \<Rightarrow> Inl TypeErr)"

definition has_workflow :: "or_job \<Rightarrow> bool" where
  "has_workflow r = (case or_workflow r of None \<Rightarrow> False | Some w \<Rightarrow> w \<noteq> [])"

text \<open>The columns written after the transport took a job.\<close>

definition taken :: "json \<Rightarrow> json \<Rightarrow> int \<Rightarrow> or_error + (or_job \<Rightarrow> or_job)" where
  "taken workflow response attempts =
     r_bind (text_bind workflow) (\<lambda>w.
     r_bind (resp_get ''task_id'' JNull response) (\<lambda>t. r_bind (text_bind t) (\<lambda>task.
     r_bind (resp_get ''status'' (JStr ''queued'') response) (\<lambda>st. r_bind (text_bind_required st) (\<lambda>status.
       Inr (\<lambda>r. r\<lparr>or_workflow := w, or_task := task, or_status := status, or_attempts := attempts\<rparr>))))))"

text \<open>The checks of \<^verbatim>\<open>submit\<close>: the case and the idempotency key of an acceptable request.\<close>

definition submit_checks :: "relik \<Rightarrow> string \<Rightarrow> json \<Rightarrow> or_error + (string \<times> string)" where
  "submit_checks k tenant request =
     r_bind (validate_job_request k request) (\<lambda>req.
     r_bind (str_at [''immutable_context'', ''case'', ''case_id''] req) (\<lambda>case_id.
     r_bind (str_at [''immutable_context'', ''tenant'', ''tenant_id''] req) (\<lambda>req_tenant.
     r_bind (r_guard (req_tenant = tenant) (PermissionErr ''job scope denied'')) (\<lambda>_.
     r_bind (str_at [''immutable_context'', ''evidence'', ''evidence_id''] req) (\<lambda>ev.
     r_bind (str_at [''immutable_context'', ''evidence'', ''sha256''] req) (\<lambda>sha.
     r_bind (str_at [''execution'', ''tool_profile''] req) (\<lambda>profile.
     let key = build_idempotency_key k tenant case_id ev sha profile in
     r_bind (jpath [''idempotency'', ''key''] req) (\<lambda>given_key.
     r_bind (r_guard (given_key = JStr key) (ValueErr ''idempotency key mismatch'')) (\<lambda>_. Inr (case_id, key))))))))))"

text \<open>The text the key of a request is the digest of.\<close>

definition request_material :: "string \<Rightarrow> json \<Rightarrow> or_error + string" where
  "request_material tenant req =
     r_bind (str_at [''immutable_context'', ''case'', ''case_id''] req) (\<lambda>case_id.
     r_bind (str_at [''immutable_context'', ''evidence'', ''evidence_id''] req) (\<lambda>ev.
     r_bind (str_at [''immutable_context'', ''evidence'', ''sha256''] req) (\<lambda>sha.
     r_bind (str_at [''execution'', ''tool_profile''] req) (\<lambda>profile.
       Inr (join ''|'' [tenant, case_id, ev, sha, profile])))))"

definition hand_over :: "answer \<Rightarrow> or_job \<Rightarrow> or_job relik_act" where
  "hand_over resp record =
     a_bind (transport resp) (\<lambda>response.
     a_bind (lift (resp_get ''workflow_id'' JNull response)) (\<lambda>w.
     a_bind (a_guard (case w of JStr s \<Rightarrow> s \<noteq> [] | _ \<Rightarrow> False) (RuntimeErr ''transport returned no workflow_id'')) (\<lambda>_.
     a_bind (lift (taken w response (or_attempts record + 1))) (\<lambda>f.
       jobs_write (update_job (or_id record) f)))))"

definition submit_body :: "relik \<Rightarrow> string \<Rightarrow> string \<Rightarrow> json \<Rightarrow> answer \<Rightarrow> or_job relik_act" where
  "submit_body k tenant analyst request resp =
     a_bind (lift (submit_checks k tenant request)) (\<lambda>(case_id, key).
     a_bind (jobs_write (create_job request tenant case_id analyst key)) (\<lambda>record.
     a_bind (emit ''openrelik.submit'' (job_event (or_id record) tenant case_id)) (\<lambda>_.
     if has_workflow record then a_ret record else hand_over resp record)))"

definition submit :: "relik \<Rightarrow> principal \<Rightarrow> json \<Rightarrow> answer \<Rightarrow> or_job relik_act" where
  "submit k p request resp =
     a_bind (scope p) (\<lambda>(tenant, analyst). \<lambda>s.
       case submit_body k tenant analyst request resp s of
         (s', Inl (PermissionErr m)) \<Rightarrow>
           a_bind (deny ''submit'' (case request of JObj d \<Rightarrow> dget d ''request_id'' | _ \<Rightarrow> JNull) (PermissionErr m))
             (\<lambda>_. a_fail (PermissionErr m)) s'
       | other \<Rightarrow> other)"

definition scoped :: "string \<Rightarrow> principal \<Rightarrow> string \<Rightarrow> string \<Rightarrow> (or_job \<times> string \<times> string) relik_act" where
  "scoped operation p jid case_id =
     a_bind (scope p) (\<lambda>(tenant, _). \<lambda>s.
       case scoped_get jid tenant case_id (rs_jobs s) of
         Inr r \<Rightarrow> (s, Inr (r, tenant, case_id))
       | Inl e \<Rightarrow> a_bind (deny operation (JStr jid) e) (\<lambda>_. a_fail (PermissionErr ''job not found'')) s)"

definition poll :: "relik \<Rightarrow> principal \<Rightarrow> string \<Rightarrow> string \<Rightarrow> answer \<Rightarrow> or_job relik_act" where
  "poll k p jid case_id resp =
     a_bind (scoped ''poll'' p jid case_id) (\<lambda>(record, tenant, cid).
     a_bind (emit ''openrelik.poll'' (job_event jid tenant cid)) (\<lambda>_.
     if \<not> has_workflow record \<or> or_status record \<in> set terminal then a_ret record
     else
       a_bind (transport resp) (\<lambda>v.
       a_bind (lift (validate_job_result k v)) (\<lambda>raw.
       a_bind (lift (jpath [''workflow'', ''status''] raw)) (\<lambda>st.
       a_bind (lift (text_bind_required st)) (\<lambda>status.
       a_bind (lift (resp_get ''artifacts'' (JList []) raw)) (\<lambda>outputs.
       a_bind (lift (resp_get ''failure'' JNull raw)) (\<lambda>failure.
       a_bind (lift (resp_get ''code'' JNull (py_or failure (JObj [])))) (\<lambda>code.
       a_bind (lift (text_bind code)) (\<lambda>error_code.
         jobs_write (update_job jid
           (\<lambda>r. r\<lparr>or_status := status, or_outputs := outputs, or_error_code := error_code\<rparr>))))))))))))"

definition retry :: "int \<Rightarrow> principal \<Rightarrow> string \<Rightarrow> string \<Rightarrow> answer \<Rightarrow> or_job relik_act" where
  "retry max_attempts p jid case_id resp =
     a_bind (scoped ''retry'' p jid case_id) (\<lambda>(record, tenant, cid).
     a_bind (emit ''openrelik.retry'' (job_event jid tenant cid)) (\<lambda>_.
     if has_workflow record \<or> or_status record \<in> set terminal \<or> max 1 max_attempts \<le> or_attempts record then a_ret record
     else
       a_bind (jobs_read (stored_request jid tenant cid)) (\<lambda>_.
       a_bind (transport resp) (\<lambda>response.
       a_bind (lift (jget ''workflow_id'' response)) (\<lambda>w.
       a_bind (lift (taken w response (or_attempts record + 1))) (\<lambda>f.
         jobs_write (update_job jid f)))))))"

definition approve_job :: "principal \<Rightarrow> string \<Rightarrow> string \<Rightarrow> or_job relik_act" where
  "approve_job p jid case_id =
     a_bind (scoped ''approve'' p jid case_id) (\<lambda>(record, tenant, cid).
     a_bind (a_modify (\<lambda>s. s\<lparr>rs_jobs := update_rows (\<lambda>r. or_id r = jid \<and> or_tenant r = tenant \<and> or_case r = cid)
        (\<lambda>r. r\<lparr>or_review := ''approved''\<rparr>) (rs_jobs s)\<rparr>)) (\<lambda>_.
       jobs_read (scoped_get jid tenant cid)))"

text \<open>The calls of the program on the store: the adapter's four, and the two writes of the collection workflow
  (\<^verbatim>\<open>velociraptor_openrelik.py\<close>), which files its outputs and counts its attempt.\<close>

datatype relik_call =
    Submit principal json answer
  | Poll principal string string answer
  | Retry principal string string answer
  | ApproveJob principal string string
  | FileOutputs string string string json
  | CountAttempt string int

fun relik_step :: "relik \<Rightarrow> int \<Rightarrow> relik_call \<Rightarrow> relik_state \<Rightarrow> relik_state \<times> (or_error + or_job)" where
  "relik_step k m (Submit p r a) s = submit k p r a s"
| "relik_step k m (Poll p j c a) s = poll k p j c a s"
| "relik_step k m (Retry p j c a) s = retry m p j c a s"
| "relik_step k m (ApproveJob p j c) s = approve_job p j c s"
| "relik_step k m (FileOutputs j t c x) s = jobs_write (add_outputs j t c x) s"
| "relik_step k m (CountAttempt j n) s = jobs_write (update_job j (\<lambda>r. r\<lparr>or_attempts := n\<rparr>)) s"

interpretation job_table: unique_table or_key "insert_or_ignore or_key" "\<lambda>u r. r\<lparr>or_status := u\<rparr>"
  by unfold_locales (auto simp: insert_or_ignore_def holds_key_iff)

end
