(* ===== verification/Openrelik_Correct.thy ===== *)
theory Openrelik_Correct
  imports Openrelik
begin

text \<open>
  The job store under the adapter's calls: what one call may do to a row, and what follows for
  runs: unique keys, exactly one submission, final states, and scope.
\<close>

section \<open>The moves of a row\<close>

text \<open>A collection workflow may file outputs into the jobs in \<open>F\<close> and count attempts of those in \<open>C\<close>.\<close>

inductive row_move :: "string set \<Rightarrow> string set \<Rightarrow> or_job \<Rightarrow> or_job \<Rightarrow> bool" for F C where
  stay: "row_move F C r r"
| taken: "\<not> has_workflow r \<Longrightarrow> row_move F C r (r\<lparr>or_workflow := w, or_task := t, or_status := st, or_attempts := or_attempts r + 1\<rparr>)"
| polled: "has_workflow r \<Longrightarrow> or_status r \<notin> set terminal \<Longrightarrow>
    row_move F C r (r\<lparr>or_status := st, or_outputs := out, or_error_code := ec\<rparr>)"
| approved: "row_move F C r (r\<lparr>or_review := ''approved''\<rparr>)"
| filed: "or_id r \<in> F \<Longrightarrow> row_move F C r (r\<lparr>or_status := ''succeeded'', or_outputs := out\<rparr>)"
| counted: "or_id r \<in> C \<Longrightarrow> row_move F C r (r\<lparr>or_attempts := n\<rparr>)"

definition fresh_row :: "or_job \<Rightarrow> bool" where
  "fresh_row r = (\<not> has_workflow r \<and> or_status r = ''queued'' \<and> or_review r = ''unreviewed'' \<and> or_attempts r = 0)"

inductive table_move :: "string set \<Rightarrow> string set \<Rightarrow> or_job list \<Rightarrow> or_job list \<Rightarrow> bool" for F C where
  rows: "(\<And>r. r \<in> set t \<Longrightarrow> row_move F C r (f r)) \<Longrightarrow> table_move F C t (map f t)"
| append: "fresh_row row \<Longrightarrow> \<not> holds_key or_id (or_id row) t \<Longrightarrow> \<not> holds_key or_key (or_key row) t \<Longrightarrow>
    table_move F C t (t @ [row])"

definition jobs_ok :: "or_job list \<Rightarrow> bool" where
  "jobs_ok t = (unique_by or_id t \<and> unique_by or_key t)"

lemma row_move_ids: "row_move F C r r' \<Longrightarrow> or_id r' = or_id r \<and> or_key r' = or_key r \<and> or_tenant r' = or_tenant r \<and>
    or_case r' = or_case r \<and> or_request r' = or_request r \<and> or_evidence r' = or_evidence r \<and> or_asset r' = or_asset r \<and>
    or_analyst r' = or_analyst r"
  by (induction rule: row_move.induct) auto

lemma table_move_ok: "table_move F C t t' \<Longrightarrow> jobs_ok t \<Longrightarrow> jobs_ok t'"
proof (induction rule: table_move.induct)
  case (rows t f)
  then have eqs: "map (or_id \<circ> f) t = map or_id t" "map (or_key \<circ> f) t = map or_key t"
    by (auto dest: row_move_ids)
  show ?case using rows.prems unfolding jobs_ok_def unique_by_def map_map eqs .
qed (auto simp: jobs_ok_def unique_by_append)

lemma table_move_refl: "table_move F C t t"
  using table_move.rows [where t = t and f = id and F = F and C = C] row_move.stay by simp

lemma update_row_move:
  assumes "jobs_ok t" "row \<in> set t" "row_move F C row (f row)"
  shows "table_move F C t (update_rows (\<lambda>r. or_id r = or_id row) f t)"
proof -
  have "r = row" if "r \<in> set t" "or_id r = or_id row" for r
    using that assms(1,2) by (auto simp: jobs_ok_def unique_by_def distinct_map inj_on_def)
  with assms(3) show ?thesis
    unfolding update_rows_def by (intro table_move.rows) (auto intro: row_move.stay)
qed

lemma scoped_get_Inr:
  "scoped_get j t c jobs = Inr r \<Longrightarrow> r \<in> set jobs \<and> or_id r = j \<and> or_tenant r = t \<and> or_case r = c"
  by (auto simp: scoped_get_def split: option.splits dest: select_one_SomeD)

lemma taken_Inr:
  "taken w resp n = Inr f \<Longrightarrow> \<exists>wf task st. f = (\<lambda>r. r\<lparr>or_workflow := wf, or_task := task, or_status := st, or_attempts := n\<rparr>)"
  by (auto simp: taken_def wb_result)

section \<open>What a call does to the table\<close>

lemma emit_jobs [simp]: "rs_jobs (fst (emit e x s)) = rs_jobs s" "snd (emit e x s) = Inr ()"
  by (simp_all add: emit_def wb_act)

lemma deny_jobs [simp]: "rs_jobs (fst (a_bind (deny op j e) (\<lambda>_. a_fail x) s)) = rs_jobs s"
  by (simp add: deny_def a_bind_def emit_def wb_act)

lemma lift_run [simp]: "lift r s = (s, r)" "transport a s = (s, case a of Fails m \<Rightarrow> Inl (TransportErr m) | Answers v \<Rightarrow> Inr v)"
  by (simp_all add: lift_def transport_def wb_act)

lemma bind_lift [simp]: "a_bind (lift r) f s = (case r of Inl e \<Rightarrow> (s, Inl e) | Inr x \<Rightarrow> f x s)"
  by (simp add: a_bind_def)

lemma bind_emit [simp]: "a_bind (emit e x) f s = f () (s\<lparr>rs_audit := rs_audit s @ [(e, x)]\<rparr>)"
  by (simp add: a_bind_def emit_def wb_act)

lemma bind_transport [simp]:
  "a_bind (transport a) f s = (case a of Fails m \<Rightarrow> (s, Inl (TransportErr m)) | Answers v \<Rightarrow> f v s)"
  by (simp add: a_bind_def split: answer.splits)

lemma bind_guard [simp]: "a_bind (a_guard ok e) f s = (if ok then f () s else (s, Inl e))"
  by (simp add: a_bind_def wb_act)

lemma bind_read [simp]: "a_bind (jobs_read g) f s = (case g (rs_jobs s) of Inl e \<Rightarrow> (s, Inl e) | Inr x \<Rightarrow> f x s)"
  by (simp add: a_bind_def jobs_read_def wb_act)

lemma bind_scoped:
  "a_bind (scoped op p j c) f s =
    (if strip (tenant_id p) = [] \<or> strip (analyst_id p) = []
     then (s, Inl (PermissionErr ''authenticated principal required''))
     else case scoped_get j (tenant_id p) c (rs_jobs s) of
       Inr r \<Rightarrow> f (r, tenant_id p, c) s
     | Inl e \<Rightarrow> (s\<lparr>rs_audit := rs_audit s @ [(''openrelik.deny'',
         JObj [(''operation'', JStr op), (''job_id'', JStr j), (''error'', JStr (error_name e))])]\<rparr>,
         Inl (PermissionErr ''job not found'')))"
  by (auto simp: scoped_def scope_def deny_def a_bind_def emit_def wb_act split: sum.splits)

lemma write_jobs: "rs_jobs (fst (jobs_write g s)) = (case g (rs_jobs s) of Inl e \<Rightarrow> rs_jobs s | Inr (t, x) \<Rightarrow> t)"
  by (simp add: jobs_write_def split: sum.splits prod.splits)

lemma update_job_jobs: "update_job j f t = Inr (t', r) \<Longrightarrow> t' = update_rows (\<lambda>r. or_id r = j) f t"
  by (auto simp: update_job_def Let_def wb_result)

lemma poll_jobs:
  "rs_jobs (fst (poll k p j c a s)) = rs_jobs s \<or>
   (\<exists>r st out ec. r \<in> set (rs_jobs s) \<and> or_id r = j \<and> has_workflow r \<and> or_status r \<notin> set terminal \<and>
      rs_jobs (fst (poll k p j c a s)) =
        update_rows (\<lambda>x. or_id x = j) (\<lambda>x. x\<lparr>or_status := st, or_outputs := out, or_error_code := ec\<rparr>) (rs_jobs s))"
proof (cases "scoped_get j (tenant_id p) c (rs_jobs s)")
  case (Inr r)
  from scoped_get_Inr [OF Inr] show ?thesis
    by (auto simp: poll_def bind_scoped Inr a_ret_def write_jobs dest!: update_job_jobs split: sum.splits answer.splits)
qed (simp add: poll_def bind_scoped)

lemma retry_jobs:
  "rs_jobs (fst (retry m p j c a s)) = rs_jobs s \<or>
   (\<exists>r wf task st. r \<in> set (rs_jobs s) \<and> or_id r = j \<and> \<not> has_workflow r \<and>
      rs_jobs (fst (retry m p j c a s)) = update_rows (\<lambda>x. or_id x = j)
        (\<lambda>x. x\<lparr>or_workflow := wf, or_task := task, or_status := st, or_attempts := or_attempts r + 1\<rparr>) (rs_jobs s))"
proof (cases "scoped_get j (tenant_id p) c (rs_jobs s)")
  case (Inr r)
  from scoped_get_Inr [OF Inr] show ?thesis
    by (auto simp: retry_def bind_scoped Inr a_ret_def write_jobs dest!: update_job_jobs taken_Inr
        split: sum.splits answer.splits)
qed (simp add: retry_def bind_scoped)

lemma approve_jobs:
  "rs_jobs (fst (approve_job p j c s)) = rs_jobs s \<or>
   rs_jobs (fst (approve_job p j c s)) = update_rows (\<lambda>r. or_id r = j \<and> or_tenant r = tenant_id p \<and> or_case r = c)
     (\<lambda>r. r\<lparr>or_review := ''approved''\<rparr>) (rs_jobs s)"
  by (auto simp: approve_job_def bind_scoped jobs_read_def wb_act a_bind_def [of "a_modify _"] split: sum.splits)

lemma new_row_Inr:
  "new_row req t c a key = Inr r \<Longrightarrow> fresh_row r \<and> or_key r = key \<and> or_tenant r = t \<and> or_case r = c \<and> or_request r = req"
  by (auto simp: new_row_def wb_result fresh_row_def has_workflow_def)

lemma create_job_Inr:
  assumes "create_job req t c a key jobs = Inr (jobs', r)"
  shows "jobs' = jobs \<and> r \<in> set jobs \<and> or_key r = key \<and> json_same (or_request r) req \<or>
    jobs' = jobs @ [r] \<and> fresh_row r \<and> \<not> holds_key or_id (or_id r) jobs \<and> \<not> holds_key or_key (or_key r) jobs \<and>
    or_key r = key \<and> or_tenant r = t \<and> or_case r = c \<and> or_request r = req"
proof -
  from assms obtain row where row: "new_row req t c a key = Inr row" by (auto simp: create_job_def wb_result)
  show ?thesis
  proof (cases "holds_key or_id (or_id row) jobs \<or> holds_key or_key key jobs")
    case True
    with assms row have "by_key key jobs = Some r \<and> json_same (or_request r) req \<and> jobs' = jobs"
      by (auto simp: create_job_def split: option.splits if_splits)
    then show ?thesis by (auto simp: by_key_def dest: select_one_SomeD)
  next
    case False
    with assms row new_row_Inr [OF row] have "jobs' = jobs @ [row]" "row = r"
      by (auto simp: create_job_def insert_or_ignore_def)
    with False new_row_Inr [OF row] show ?thesis by auto
  qed
qed

lemma bind_write [simp]:
  "a_bind (jobs_write g) f s = (case g (rs_jobs s) of Inl e \<Rightarrow> (s, Inl e) | Inr (t, x) \<Rightarrow> f x (s\<lparr>rs_jobs := t\<rparr>))"
  by (simp add: a_bind_def jobs_write_def split: sum.splits prod.splits)

lemma hand_over_jobs:
  "rs_jobs (fst (hand_over a r s)) = rs_jobs s \<or>
   (\<exists>wf task st. rs_jobs (fst (hand_over a r s)) = update_rows (\<lambda>x. or_id x = or_id r)
      (\<lambda>x. x\<lparr>or_workflow := wf, or_task := task, or_status := st, or_attempts := or_attempts r + 1\<rparr>) (rs_jobs s))"
  by (auto simp: hand_over_def write_jobs dest!: update_job_jobs taken_Inr split: sum.splits answer.splits)

lemma submit_moves:
  assumes "jobs_ok (rs_jobs s)"
  shows "(table_move F C)\<^sup>*\<^sup>* (rs_jobs s) (rs_jobs (fst (submit_body k t an req a s)))"
proof (cases "submit_checks k t req")
  case (Inl e)
  then show ?thesis by (simp add: submit_body_def)
next
  case (Inr ck)
  obtain c key where ck: "ck = (c, key)" by (cases ck)
  show ?thesis
  proof (cases "create_job req t c an key (rs_jobs s)")
    case (Inl e)
    with Inr ck show ?thesis by (simp add: submit_body_def)
  next
    case (Inr jr)
    obtain jobs' r where jr: "jr = (jobs', r)" by (cases jr)
    note cr = create_job_Inr [OF Inr [unfolded jr]]
    have first: "table_move F C (rs_jobs s) jobs'" and mem: "r \<in> set jobs'"
      using cr by (auto intro: table_move.append table_move_refl)
    let ?s = "s\<lparr>rs_jobs := jobs', rs_audit := rs_audit s @ [(''openrelik.submit'', job_event (or_id r) t c)]\<rparr>"
    have end_state: "fst (submit_body k t an req a s) = (if has_workflow r then ?s else fst (hand_over a r ?s))"
      using \<open>submit_checks k t req = Inr ck\<close> ck Inr jr by (simp add: submit_body_def a_ret_def)
    show ?thesis
    proof (cases "has_workflow r \<or> rs_jobs (fst (hand_over a r ?s)) = jobs'")
      case True
      with end_state first show ?thesis by auto
    next
      case False
      with hand_over_jobs [of a r ?s] obtain wf task st where
        u: "rs_jobs (fst (hand_over a r ?s)) = update_rows (\<lambda>x. or_id x = or_id r)
          (\<lambda>x. x\<lparr>or_workflow := wf, or_task := task, or_status := st, or_attempts := or_attempts r + 1\<rparr>) jobs'" by auto
      have "table_move F C jobs' (rs_jobs (fst (hand_over a r ?s)))"
        unfolding u using False by (intro update_row_move [OF table_move_ok [OF first assms] mem]) (auto intro: row_move.taken)
      with first end_state False show ?thesis by auto
    qed
  qed
qed

text \<open>The jobs a call files outputs into, and those whose attempts it counts.\<close>

fun filed_by :: "relik_call \<Rightarrow> string set" where
  "filed_by (FileOutputs j t c x) = {j}"
| "filed_by call = {}"

fun counted_by :: "relik_call \<Rightarrow> string set" where
  "counted_by (CountAttempt j n) = {j}"
| "counted_by call = {}"

lemma add_outputs_jobs:
  "add_outputs j t c x jobs = Inr (jobs', r) \<Longrightarrow> jobs' = update_rows (\<lambda>r. or_id r = j) (\<lambda>r. r\<lparr>or_status := ''succeeded'', or_outputs := x\<rparr>) jobs"
  by (auto simp: add_outputs_def wb_result dest: update_job_jobs)

lemma relik_step_moves:
  assumes "jobs_ok (rs_jobs s)" "filed_by call \<subseteq> F" "counted_by call \<subseteq> C"
  shows "(table_move F C)\<^sup>*\<^sup>* (rs_jobs s) (rs_jobs (fst (relik_step k m call s)))"
proof (cases call)
  case (Submit p req a)
  have "rs_jobs (fst (submit k p req a s)) = rs_jobs s \<or>
      rs_jobs (fst (submit k p req a s)) = rs_jobs (fst (submit_body k (tenant_id p) (analyst_id p) req a s))"
    by (auto simp: submit_def scope_def a_bind_def wb_act deny_def emit_def split: prod.splits sum.splits or_error.splits)
  with submit_moves [OF assms(1)] Submit show ?thesis by (elim disjE) simp_all
next
  case (Poll p j c a)
  from poll_jobs [of k p j c a s] show ?thesis
  proof (elim disjE exE conjE)
    fix r st out ec assume r: "r \<in> set (rs_jobs s)" "or_id r = j" "has_workflow r" "or_status r \<notin> set terminal"
      and u: "rs_jobs (fst (poll k p j c a s)) =
        update_rows (\<lambda>x. or_id x = j) (\<lambda>x. x\<lparr>or_status := st, or_outputs := out, or_error_code := ec\<rparr>) (rs_jobs s)"
    from update_row_move [OF assms(1) r(1), where f = "\<lambda>x. x\<lparr>or_status := st, or_outputs := out, or_error_code := ec\<rparr>"] r u Poll
    show ?thesis by (auto intro: row_move.polled)
  qed (simp add: Poll)
next
  case (Retry p j c a)
  from retry_jobs [of m p j c a s] show ?thesis
  proof (elim disjE exE conjE)
    fix r wf task st assume r: "r \<in> set (rs_jobs s)" "or_id r = j" "\<not> has_workflow r"
      and u: "rs_jobs (fst (retry m p j c a s)) = update_rows (\<lambda>x. or_id x = j)
        (\<lambda>x. x\<lparr>or_workflow := wf, or_task := task, or_status := st, or_attempts := or_attempts r + 1\<rparr>) (rs_jobs s)"
    from update_row_move [OF assms(1) r(1), where f = "\<lambda>x. x\<lparr>or_workflow := wf, or_task := task, or_status := st, or_attempts := or_attempts r + 1\<rparr>"] r u Retry
    show ?thesis by (auto intro: row_move.taken)
  qed (simp add: Retry)
next
  case (ApproveJob p j c)
  from approve_jobs [of p j c s] show ?thesis
  proof (elim disjE)
    assume u: "rs_jobs (fst (approve_job p j c s)) = update_rows (\<lambda>r. or_id r = j \<and> or_tenant r = tenant_id p \<and> or_case r = c)
      (\<lambda>r. r\<lparr>or_review := ''approved''\<rparr>) (rs_jobs s)"
    have "table_move F C (rs_jobs s) (rs_jobs (fst (approve_job p j c s)))"
      unfolding u update_rows_def by (rule table_move.rows) (auto intro: row_move.intros)
    with ApproveJob show ?thesis by auto
  qed (simp add: ApproveJob)
next
  case (FileOutputs j t c x)
  show ?thesis
  proof (cases "add_outputs j t c x (rs_jobs s)")
    case (Inr w)
    with FileOutputs have "rs_jobs (fst (relik_step k m call s)) =
        update_rows (\<lambda>r. or_id r = j) (\<lambda>r. r\<lparr>or_status := ''succeeded'', or_outputs := x\<rparr>) (rs_jobs s)"
      by (cases w) (auto simp: write_jobs dest: add_outputs_jobs)
    moreover have "table_move F C (rs_jobs s) \<dots>"
      unfolding update_rows_def using assms(2) FileOutputs by (intro table_move.rows) (auto intro: row_move.stay row_move.filed)
    ultimately show ?thesis by auto
  qed (use FileOutputs in \<open>simp add: write_jobs\<close>)
next
  case (CountAttempt j n)
  show ?thesis
  proof (cases "update_job j (\<lambda>r. r\<lparr>or_attempts := n\<rparr>) (rs_jobs s)")
    case (Inr w)
    with CountAttempt have "rs_jobs (fst (relik_step k m call s)) = update_rows (\<lambda>r. or_id r = j) (\<lambda>r. r\<lparr>or_attempts := n\<rparr>) (rs_jobs s)"
      by (cases w) (auto simp: write_jobs dest: update_job_jobs)
    moreover have "table_move F C (rs_jobs s) \<dots>"
      unfolding update_rows_def using assms(3) CountAttempt by (intro table_move.rows) (auto intro: row_move.stay row_move.counted)
    ultimately show ?thesis by auto
  qed (use CountAttempt in \<open>simp add: write_jobs\<close>)
qed

section \<open>Runs\<close>

lemma table_moves_ok: "(table_move F C)\<^sup>*\<^sup>* t t' \<Longrightarrow> jobs_ok t \<Longrightarrow> jobs_ok t'"
  by (induction rule: rtranclp_induct) (auto intro: table_move_ok)

lemma table_move_row:
  assumes "table_move F C t t'" "r \<in> set t"
  shows "\<exists>r'\<in>set t'. row_move F C r r'"
  using assms by (induction rule: table_move.induct) (auto intro: row_move.stay)

lemma table_moves_row:
  "(table_move F C)\<^sup>*\<^sup>* t t' \<Longrightarrow> r \<in> set t \<Longrightarrow> \<exists>r'\<in>set t'. (row_move F C)\<^sup>*\<^sup>* r r'"
proof (induction rule: rtranclp_induct)
  case (step y z)
  then obtain r1 where r1: "r1 \<in> set y" "(row_move F C)\<^sup>*\<^sup>* r r1" by blast
  from table_move_row [OF step.hyps(2) r1(1)] r1(2) show ?case by (meson rtranclp.rtrancl_into_rtrancl)
qed auto

definition filed_in :: "relik_call list \<Rightarrow> string set" where
  "filed_in calls = \<Union> (filed_by ` set calls)"

definition counted_in :: "relik_call list \<Rightarrow> string set" where
  "counted_in calls = \<Union> (counted_by ` set calls)"

lemma run_moves_within:
  "jobs_ok (rs_jobs s) \<Longrightarrow> filed_in calls \<subseteq> F \<Longrightarrow> counted_in calls \<subseteq> C \<Longrightarrow>
    (table_move F C)\<^sup>*\<^sup>* (rs_jobs s) (rs_jobs (fst (run_ops (relik_step k m) calls s)))"
proof (induction calls arbitrary: s)
  case (Cons call calls)
  let ?s = "fst (relik_step k m call s)"
  have 1: "(table_move F C)\<^sup>*\<^sup>* (rs_jobs s) (rs_jobs ?s)"
    using Cons.prems by (intro relik_step_moves) (simp_all add: filed_in_def counted_in_def)
  have "(table_move F C)\<^sup>*\<^sup>* (rs_jobs ?s) (rs_jobs (fst (run_ops (relik_step k m) calls ?s)))"
    using Cons.prems by (intro Cons.IH table_moves_ok [OF 1]) (simp_all add: filed_in_def counted_in_def)
  with 1 show ?case by (simp add: Let_def split_beta)
qed simp

lemma relik_run_moves:
  "jobs_ok (rs_jobs s) \<Longrightarrow> (table_move (filed_in calls) (counted_in calls))\<^sup>*\<^sup>* (rs_jobs s) (rs_jobs (fst (run_ops (relik_step k m) calls s)))"
  by (rule run_moves_within) simp_all

text \<open>A submitted row keeps what it was submitted with; a finished one also its outcome.\<close>

definition submitted_part :: "or_job \<Rightarrow> or_job" where
  "submitted_part r = r\<lparr>or_status := [], or_outputs := JNull, or_error_code := None, or_review := [], or_attempts := 0\<rparr>"

definition final_part :: "or_job \<Rightarrow> or_job" where
  "final_part r = r\<lparr>or_review := []\<rparr>"

lemma row_move_submitted:
  assumes "row_move F C r r'" "has_workflow r"
  shows "submitted_part r' = submitted_part r \<and> has_workflow r' \<and> (or_id r \<notin> C \<longrightarrow> or_attempts r' = or_attempts r)"
  using assms by (induction rule: row_move.induct) (auto simp: submitted_part_def has_workflow_def)

lemma row_moves_submitted:
  assumes "(row_move F C)\<^sup>*\<^sup>* r r'" "has_workflow r"
  shows "submitted_part r' = submitted_part r \<and> has_workflow r' \<and> or_id r' = or_id r \<and> (or_id r \<notin> C \<longrightarrow> or_attempts r' = or_attempts r)"
  using assms
proof (induction rule: rtranclp_induct)
  case (step y z)
  with row_move_submitted [OF step.hyps(2)] row_move_ids [OF step.hyps(2)] show ?case by simp
qed simp

lemma row_move_final:
  assumes "row_move F C r r'" "has_workflow r" "or_status r \<in> set terminal" "or_id r \<notin> F \<union> C"
  shows "final_part r' = final_part r \<and> has_workflow r' \<and> or_status r' \<in> set terminal"
  using assms by (induction rule: row_move.induct) (auto simp: final_part_def has_workflow_def)

lemma row_moves_final:
  assumes "(row_move F C)\<^sup>*\<^sup>* r r'" "has_workflow r" "or_status r \<in> set terminal" "or_id r \<notin> F \<union> C"
  shows "final_part r' = final_part r \<and> has_workflow r' \<and> or_status r' \<in> set terminal \<and> or_id r' = or_id r"
  using assms
proof (induction rule: rtranclp_induct)
  case (step y z)
  with row_move_final [OF step.hyps(2)] row_move_ids [OF step.hyps(2)] show ?case by simp
qed simp

definition empty_relik :: relik_state where
  "empty_relik = \<lparr>rs_jobs = [], rs_audit = []\<rparr>"

lemma relik_run_ok: "jobs_ok (rs_jobs (fst (run_ops (relik_step k m) calls empty_relik)))"
  by (rule table_moves_ok [OF relik_run_moves]) (simp_all add: jobs_ok_def empty_relik_def)

lemma jobs_same_key: "jobs_ok t \<Longrightarrow> r \<in> set t \<Longrightarrow> x \<in> set t \<Longrightarrow> or_key x = or_key r \<Longrightarrow> x = r"
  "jobs_ok t \<Longrightarrow> r \<in> set t \<Longrightarrow> x \<in> set t \<Longrightarrow> or_id x = or_id r \<Longrightarrow> x = r"
  by (auto simp: jobs_ok_def unique_by_def distinct_map inj_on_def)

text \<open>What the transport would answer for a job it already has makes no difference: it is not asked.\<close>

definition unasked :: "relik \<Rightarrow> int \<Rightarrow> or_job \<Rightarrow> relik_state \<Rightarrow> bool" where
  "unasked k m r s =
     ((\<forall>p c a a'. relik_step k m (Retry p (or_id r) c a) s = relik_step k m (Retry p (or_id r) c a') s) \<and>
      (\<forall>p req c a a'. submit_checks k (tenant_id p) req = Inr (c, or_key r) \<longrightarrow>
         relik_step k m (Submit p req a) s = relik_step k m (Submit p req a') s))"

lemma retry_unasked:
  assumes "jobs_ok (rs_jobs s)" "r \<in> set (rs_jobs s)" "has_workflow r"
  shows "retry m p (or_id r) c a s = retry m p (or_id r) c a' s"
proof (cases "scoped_get (or_id r) (tenant_id p) c (rs_jobs s)")
  case (Inr x)
  with scoped_get_Inr [OF Inr] assms have "has_workflow x" using jobs_same_key(2) by metis
  with Inr show ?thesis by (simp add: retry_def bind_scoped a_ret_def)
qed (simp add: retry_def bind_scoped)

lemma submit_unasked:
  assumes "jobs_ok (rs_jobs s)" "r \<in> set (rs_jobs s)" "has_workflow r" "submit_checks k t req = Inr (c, or_key r)"
  shows "submit_body k t an req a s = submit_body k t an req a' s"
proof (cases "create_job req t c an (or_key r) (rs_jobs s)")
  case (Inr w)
  obtain jobs' x where w: "w = (jobs', x)" by (cases w)
  have "\<not> holds_key or_key (or_key x) (rs_jobs s) \<Longrightarrow> or_key x \<noteq> or_key r" using assms(2) by (auto simp: holds_key_iff)
  with create_job_Inr [OF Inr [unfolded w]] assms(1,2) have "x = r" using jobs_same_key(1) by metis
  with assms(3,4) Inr w show ?thesis by (simp add: submit_body_def a_ret_def)
qed (simp add: submit_body_def assms(4))

lemma job_unasked:
  assumes "jobs_ok (rs_jobs s)" "r \<in> set (rs_jobs s)" "has_workflow r"
  shows "unasked k m r s"
proof -
  have "submit k p req a s = submit k p req a' s" if "submit_checks k (tenant_id p) req = Inr (c, or_key r)" for p req c a a'
    unfolding submit_def scope_def using submit_unasked [OF assms that, of "analyst_id p" a a'] by (simp add: a_bind_def wb_act)
  moreover have "retry m p (or_id r) c a s = retry m p (or_id r) c a' s" for p c a a' by (rule retry_unasked [OF assms])
  ultimately show ?thesis unfolding unasked_def relik_step.simps by blast
qed

lemma later_row:
  assumes "r \<in> set (rs_jobs (fst (run_ops (relik_step k m) calls empty_relik)))"
  shows "\<exists>r'\<in>set (rs_jobs (fst (run_ops (relik_step k m) (calls @ later) empty_relik))). (row_move (filed_in later) (counted_in later))\<^sup>*\<^sup>* r r'"
  using table_moves_row [OF relik_run_moves [OF relik_run_ok] assms, of k m later] by (simp add: run_ops_append Let_def split_beta)



section \<open>Scope and review\<close>

lemma get_row_unique:
  assumes "jobs_ok t" "r \<in> set t" "\<And>x. or_id (f x) = or_id x"
  shows "update_job (or_id r) f t = Inr (update_rows (\<lambda>x. or_id x = or_id r) f t, f r)"
proof -
  have "select_one (\<lambda>x. or_id x = or_id r) t = Some r"
    using assms(1,2) by (induction t) (auto simp: jobs_ok_def unique_by_def select_one_def)
  moreover have "select_one (\<lambda>x. or_id x = or_id r) (update_rows (\<lambda>x. or_id x = or_id r) f t) =
      map_option f (select_one (\<lambda>x. or_id x = or_id r) t)"
    using select_one_update_key [of or_id f "or_id r" "or_id r" t] assms(3) by simp
  ultimately show ?thesis by (simp add: update_job_def Let_def get_row_def)
qed

text \<open>A job the transport reported as failed becomes succeeded when the collection workflow files into it.\<close>

lemma filing_overrides_the_outcome:
  assumes "jobs_ok (rs_jobs s)" "r \<in> set (rs_jobs s)"
  shows "snd (relik_step k m (FileOutputs (or_id r) (or_tenant r) (or_case r) x) s) = Inr (r\<lparr>or_status := ''succeeded'', or_outputs := x\<rparr>)"
proof -
  obtain y where "scoped_get (or_id r) (or_tenant r) (or_case r) (rs_jobs s) = Inr y"
    using assms(2) by (cases "scoped_get (or_id r) (or_tenant r) (or_case r) (rs_jobs s)")
      (auto simp: scoped_get_def select_one_None_iff split: option.splits)
  then show ?thesis
    using get_row_unique [OF assms, of "\<lambda>r. r\<lparr>or_status := ''succeeded'', or_outputs := x\<rparr>"] by (simp add: add_outputs_def jobs_write_def)
qed

lemma poll_Inr:
  assumes "jobs_ok (rs_jobs s)" "poll k p j c a s = (s', Inr r')"
  shows "\<exists>r. scoped_get j (tenant_id p) c (rs_jobs s) = Inr r \<and>
    (if has_workflow r \<and> or_status r \<notin> set terminal
     then \<exists>v st out ec. a = Answers v \<and> resp_get ''artifacts'' (JList []) v = Inr out \<and>
       r' = r\<lparr>or_status := st, or_outputs := out, or_error_code := ec\<rparr>
     else r' = r)"
proof (cases "scoped_get j (tenant_id p) c (rs_jobs s)")
  case (Inl e)
  with assms(2) show ?thesis by (auto simp: poll_def bind_scoped split: if_splits)
next
  case (Inr r)
  note g = scoped_get_Inr [OF Inr]
  have upd: "update_job j (\<lambda>x. x\<lparr>or_status := st, or_outputs := out, or_error_code := ec\<rparr>) (rs_jobs s) =
      Inr (update_rows (\<lambda>x. or_id x = j) (\<lambda>x. x\<lparr>or_status := st, or_outputs := out, or_error_code := ec\<rparr>) (rs_jobs s),
        r\<lparr>or_status := st, or_outputs := out, or_error_code := ec\<rparr>)" for st out ec
    using get_row_unique [OF assms(1), of r "\<lambda>x. x\<lparr>or_status := st, or_outputs := out, or_error_code := ec\<rparr>"] g by simp
  have res: "validate_job_result k v = Inr raw \<Longrightarrow> raw = v" for v raw
    by (auto simp: validate_job_result_def validate_schema_def split: json.splits option.splits)
  show ?thesis
    using assms(2) unfolding poll_def bind_scoped Inr
    by (auto simp: a_ret_def jobs_write_def upd dest: res split: if_splits sum.splits answer.splits)
qed

lemma approve_run:
  "scoped_get j (tenant_id p) c (rs_jobs s) = Inr r \<Longrightarrow> strip (tenant_id p) \<noteq> [] \<Longrightarrow> strip (analyst_id p) \<noteq> [] \<Longrightarrow>
    approve_job p j c s = (let t = update_rows (\<lambda>r. or_id r = j \<and> or_tenant r = tenant_id p \<and> or_case r = c)
      (\<lambda>r. r\<lparr>or_review := ''approved''\<rparr>) (rs_jobs s) in (s\<lparr>rs_jobs := t\<rparr>, scoped_get j (tenant_id p) c t))"
  by (simp add: approve_job_def bind_scoped jobs_read_def wb_act a_bind_def [of "a_modify _"] Let_def)

lemma approve_Inr:
  assumes "approve_job p j c s = (s1, Inr r1)"
  shows "scoped_get j (tenant_id p) c (rs_jobs s1) = Inr r1 \<and> or_review r1 = ''approved''"
proof -
  let ?t = "update_rows (\<lambda>r. or_id r = j \<and> or_tenant r = tenant_id p \<and> or_case r = c)
      (\<lambda>r. r\<lparr>or_review := ''approved''\<rparr>) (rs_jobs s)"
  from assms have ids: "strip (tenant_id p) \<noteq> []" "strip (analyst_id p) \<noteq> []"
    by (auto simp: approve_job_def bind_scoped split: if_splits)
  from assms ids obtain r where "scoped_get j (tenant_id p) c (rs_jobs s) = Inr r"
    by (cases "scoped_get j (tenant_id p) c (rs_jobs s)") (auto simp: approve_job_def bind_scoped)
  from approve_run [OF this ids] assms have s1: "rs_jobs s1 = ?t" and g: "scoped_get j (tenant_id p) c ?t = Inr r1"
    by (auto simp: Let_def)
  note r1 = scoped_get_Inr [OF g]
  then obtain x where "r1 = (if or_id x = j \<and> or_tenant x = tenant_id p \<and> or_case x = c
      then x\<lparr>or_review := ''approved''\<rparr> else x)"
    unfolding set_update_rows by blast
  with r1 have "or_review r1 = ''approved''" by (cases "or_id x = j \<and> or_tenant x = tenant_id p \<and> or_case x = c") simp_all
  with s1 g show ?thesis by simp
qed

text \<open>Approval does not wait for the result and survives it: a job that is still running can be
  approved, and a poll that afterwards brings in new outputs answers a job that counts as approved
  with outputs nobody reviewed.\<close>

theorem early_approval_covers_unseen_outputs:
  assumes "approve_job p j c (fst (run_ops (relik_step k m) calls empty_relik)) = (s1, Inr r1)"
    and "has_workflow r1" "or_status r1 \<notin> set terminal"
    and "poll k p j c (Answers v) s1 = (s2, Inr r2)"
  shows "or_review r2 = ''approved'' \<and> resp_get ''artifacts'' (JList []) v = Inr (or_outputs r2)"
proof -
  let ?s = "fst (run_ops (relik_step k m) calls empty_relik)"
  have ok: "jobs_ok (rs_jobs ?s)" by (rule relik_run_ok)
  have ok1: "jobs_ok (rs_jobs s1)"
    using table_moves_ok [OF relik_step_moves [OF ok, where k = k and m = m and call = "ApproveJob p j c" and F = "{}" and C = "{}"] ok] assms(1) by simp
  note a = approve_Inr [OF assms(1)]
  then have r1: "scoped_get j (tenant_id p) c (rs_jobs s1) = Inr r1" and rev: "or_review r1 = ''approved''" by auto
  from poll_Inr [OF ok1 assms(4)] r1 rev assms(2,3) show ?thesis by auto
qed

lemma safe_id_no_bar: "safe_id s \<Longrightarrow> CHR ''|'' \<notin> set s"
  by (auto simp: safe_id_def is_alnum_def is_alpha_def is_digit_def list_all_iff split: list.splits)

lemma bar_head:
  assumes "a @ ''|'' @ x = b @ ''|'' @ y" "CHR ''|'' \<notin> set a" "CHR ''|'' \<notin> set b"
  shows "a = b \<and> x = y"
proof -
  have a: "split_on (CHR ''|'') (a @ ''|'' @ x) = a # split_on (CHR ''|'') x"
    and b: "split_on (CHR ''|'') (b @ ''|'' @ y) = b # split_on (CHR ''|'') y"
    using assms(2,3) split_on_append by simp_all
  from a b have "a = b" unfolding assms(1) by simp
  with assms(1) show ?thesis by simp
qed

lemma submit_checks_Inr:
  assumes "submit_checks k t req = Inr (c, key)"
  obtains ev sha profile where "request_material t req = Inr (join ''|'' [t, c, ev, sha, profile])"
    "key = ''v1:'' @ take 43 (rk_sha k (join ''|'' [t, c, ev, sha, profile]))" "safe_id t" "safe_id c" "safe_id ev"
    "str_at [''immutable_context'', ''evidence'', ''evidence_id''] req = Inr ev"
proof -
  from assms obtain r where r: "validate_job_request k req = Inr r" by (auto simp: submit_checks_def wb_result)
  then have eq: "r = req" by (auto simp: validate_job_request_def validate_schema_def wb_result split: json.splits option.splits)
  from assms r eq obtain ev sha profile where 1:
    "str_at [''immutable_context'', ''case'', ''case_id''] req = Inr c"
    "str_at [''immutable_context'', ''tenant'', ''tenant_id''] req = Inr t"
    "str_at [''immutable_context'', ''evidence'', ''evidence_id''] req = Inr ev"
    "str_at [''immutable_context'', ''evidence'', ''sha256''] req = Inr sha"
    "str_at [''execution'', ''tool_profile''] req = Inr profile"
    "key = build_idempotency_key k t c ev sha profile"
    by (auto simp: submit_checks_def wb_result Let_def)
  from r eq have "validate_ids req = Inr ()" by (auto simp: validate_job_request_def wb_result)
  with 1 have "safe_id t" "safe_id c" "safe_id ev"
    by (auto simp: validate_ids_def id_paths_def wb_result str_at_def)
  with that 1 show thesis by (simp add: build_idempotency_key_def request_material_def)
qed

text \<open>As far as the truncated digest separates their texts, two acceptable requests with the same
  idempotency key are for the same tenant, the same case and the same evidence: ids that could
  shift the bars of the key's text are refused.\<close>

theorem request_keys_separate_tenants:
  assumes "submit_checks k t req = Inr (c, key)" "submit_checks k t' req' = Inr (c', key)"
    and "inj_on (\<lambda>x. take 43 (rk_sha k x)) {x. request_material t req = Inr x \<or> request_material t' req' = Inr x}"
  shows "t = t' \<and> c = c' \<and> str_at [''immutable_context'', ''evidence'', ''evidence_id''] req =
    str_at [''immutable_context'', ''evidence'', ''evidence_id''] req'"
proof -
  from assms(1) obtain ev sha pr where 1: "request_material t req = Inr (join ''|'' [t, c, ev, sha, pr])"
    "key = ''v1:'' @ take 43 (rk_sha k (join ''|'' [t, c, ev, sha, pr]))" "safe_id t" "safe_id c" "safe_id ev"
    "str_at [''immutable_context'', ''evidence'', ''evidence_id''] req = Inr ev" by (rule submit_checks_Inr)
  from assms(2) obtain ev' sha' pr' where 2: "request_material t' req' = Inr (join ''|'' [t', c', ev', sha', pr'])"
    "key = ''v1:'' @ take 43 (rk_sha k (join ''|'' [t', c', ev', sha', pr']))" "safe_id t'" "safe_id c'" "safe_id ev'"
    "str_at [''immutable_context'', ''evidence'', ''evidence_id''] req' = Inr ev'" by (rule submit_checks_Inr)
  from 1(2) 2(2) have "take 43 (rk_sha k (join ''|'' [t, c, ev, sha, pr])) = take 43 (rk_sha k (join ''|'' [t', c', ev', sha', pr']))"
    by simp
  then have "join ''|'' [t, c, ev, sha, pr] = join ''|'' [t', c', ev', sha', pr']"
    by (rule inj_onD [OF assms(3)]) (simp_all only: 1(1) 2(1) mem_Collect_eq simp_thms)
  then have j: "t @ ''|'' @ c @ ''|'' @ ev @ ''|'' @ sha @ ''|'' @ pr = t' @ ''|'' @ c' @ ''|'' @ ev' @ ''|'' @ sha' @ ''|'' @ pr'"
    by (simp only: join.simps)
  note b1 = bar_head [OF j safe_id_no_bar [OF 1(3)] safe_id_no_bar [OF 2(3)]]
  note b2 = bar_head [OF b1 [THEN conjunct2] safe_id_no_bar [OF 1(4)] safe_id_no_bar [OF 2(4)]]
  note b3 = bar_head [OF b2 [THEN conjunct2] safe_id_no_bar [OF 1(5)] safe_id_no_bar [OF 2(5)]]
  from b1 b2 b3 1(6) 2(6) show ?thesis by simp
qed

section \<open>At a concrete job\<close>

definition demo_relik :: relik where
  "demo_relik = \<lparr>rk_sha = (\<lambda>s. s), rk_request_schema = (\<lambda>v. None), rk_result_schema = (\<lambda>v. None)\<rparr>"

definition demo_analyst :: principal where
  "demo_analyst = \<lparr>tenant_id = ''t1'', analyst_id = ''a1'', is_synthetic = True, subject = None, roles = [], scopes = []\<rparr>"

definition demo_request :: json where
  "demo_request = JObj [(''request_id'', JStr ''r1''),
     (''immutable_context'', JObj [(''tenant'', JObj [(''tenant_id'', JStr ''t1'')]), (''case'', JObj [(''case_id'', JStr ''c1'')]),
       (''asset'', JObj [(''asset_id'', JStr ''s1'')]),
       (''evidence'', JObj [(''evidence_id'', JStr ''e1''), (''sha256'', JStr ''ab'')]),
       (''acquisition'', JObj [(''acquisition_id'', JStr ''q1'')])]),
     (''execution'', JObj [(''tool_profile'', JStr ''tp'')]),
     (''idempotency'', JObj [(''key'', JStr ''v1:t1|c1|e1|ab|tp'')])]"

definition demo_submit :: relik_call where
  "demo_submit = Submit demo_analyst demo_request (Answers (JObj [(''workflow_id'', JStr ''w1'')]))"

definition demo_done :: relik_call where
  "demo_done = Poll demo_analyst ''r1'' ''c1'' (Answers (JObj [(''workflow'', JObj [(''status'', JStr ''succeeded'')])]))"

lemma demo_checks: "submit_checks demo_relik ''t1'' demo_request = Inr (''c1'', ''v1:t1|c1|e1|ab|tp'')"
  by code_simp

lemma demo_runs:
  "list_ex (\<lambda>r. or_workflow r = Some ''w1'' \<and> or_status r = ''queued'')
     (rs_jobs (fst (run_ops (relik_step demo_relik 3) [demo_submit] empty_relik)))"
  "list_ex (\<lambda>r. or_workflow r = Some ''w1'' \<and> or_status r = ''succeeded'')
     (rs_jobs (fst (run_ops (relik_step demo_relik 3) [demo_submit, demo_done] empty_relik)))"
  by code_simp+



definition demo_early :: "relik_state \<times> (or_error + or_job)" where
  "demo_early = approve_job demo_analyst ''r1'' ''c1'' (fst (run_ops (relik_step demo_relik 3) [demo_submit] empty_relik))"

definition demo_late :: "relik_state \<times> (or_error + or_job)" where
  "demo_late = poll demo_relik demo_analyst ''r1'' ''c1'' (Answers (JObj [(''workflow'', JObj [(''status'', JStr ''succeeded'')]),
     (''artifacts'', JList [JStr ''out''])])) (fst demo_early)"

definition running :: "or_error + or_job \<Rightarrow> bool" where
  "running a = (case a of Inl e \<Rightarrow> False | Inr r \<Rightarrow> has_workflow r \<and> or_status r \<notin> set terminal)"

lemma demo_early_runs: "running (snd demo_early)" "is_ok (snd demo_late)"
  by code_simp+

theorem early_approval_covers_unseen_outputs_witness:
  "\<exists>r. snd demo_late = Inr r \<and> or_review r = ''approved'' \<and> or_outputs r = JList [JStr ''out'']"
proof -
  obtain r1 where r1: "snd demo_early = Inr r1" "has_workflow r1" "or_status r1 \<notin> set terminal"
    using demo_early_runs(1) by (cases "snd demo_early") (simp_all add: running_def)
  then have e: "demo_early = (fst demo_early, Inr r1)" by (metis prod.collapse)
  obtain r2 where r2: "snd demo_late = Inr r2" using demo_early_runs(2) by (auto simp: is_ok_iff)
  then have l: "demo_late = (fst demo_late, Inr r2)" by (metis prod.collapse)
  from early_approval_covers_unseen_outputs [OF trans [OF demo_early_def [symmetric] e] r1(2,3)
      trans [OF demo_late_def [symmetric] l]]
  have "or_review r2 = ''approved'' \<and> or_outputs r2 = JList [JStr ''out'']" by (auto simp: resp_get_def dget_or_def)
  with r2 show ?thesis by blast
qed

theorem request_keys_separate_tenants_witness:
  "str_at [''immutable_context'', ''evidence'', ''evidence_id''] demo_request = Inr ''e1'' \<and> ''t1'' = ''t1''"
proof -
  have m: "{x. request_material ''t1'' demo_request = Inr x} = {''t1|c1|e1|ab|tp''}"
  proof -
    have "request_material ''t1'' demo_request = Inr ''t1|c1|e1|ab|tp''" by code_simp
    then show ?thesis by auto
  qed
  have "''t1'' = ''t1''"
    using request_keys_separate_tenants [OF demo_checks demo_checks] m by simp
  moreover have "str_at [''immutable_context'', ''evidence'', ''evidence_id''] demo_request = Inr ''e1''" by code_simp
  ultimately show ?thesis by blast
qed

end
