(* ===== verification/Projection.thy ===== *)
theory Projection
  imports Interop
begin

text \<open>
  What \<^verbatim>\<open>thehive_ingest_adapter.py\<close> and \<^verbatim>\<open>dfir_iris_ingest_adapter.py\<close> share: an adapter
  with its integration id, text normalisation, the checks on the raw value, the provenance and
  the shape of a projected entity.  Python's \<^verbatim>\<open>int()\<close> of a text and of a finite float are
  fields of \<open>adapter\<close>; uuid4 is an argument.
\<close>

record adapter =
  ad_host :: host
  ad_int :: "string \<Rightarrow> int option"
  ad_trunc :: "string \<Rightarrow> int"
  ad_integration :: json

definition new_adapter :: "host \<Rightarrow> (string \<Rightarrow> int option) \<Rightarrow> (string \<Rightarrow> int) \<Rightarrow> json \<Rightarrow> ingest_error + adapter" where
  "new_adapter h int_of trunc integration_id =
     (if nonempty_str integration_id
      then Inr \<lparr>ad_host = h, ad_int = int_of, ad_trunc = trunc, ad_integration = integration_id\<rparr>
      else Inl (Validation ''integration_id must be non-empty string''))"

definition mapping_version :: string where "mapping_version = ''1.0.0''"

definition safe_str :: "json \<Rightarrow> string option" where
  "safe_str v = (if v = JNull then None else let s = strip (py_str v) in if s = [] then None else Some s)"

definition or_null :: "string option \<Rightarrow> json" where
  "or_null x = (case x of None \<Rightarrow> JNull | Some s \<Rightarrow> JStr s)"

text \<open>An item of a payload that is there only with a value: \<open>item_some\<close> for \<^verbatim>\<open>is not None\<close>,
  \<open>item_text\<close> for a test of truth.\<close>

definition item_some :: "string \<Rightarrow> string option \<Rightarrow> dict" where
  "item_some k x = (case x of None \<Rightarrow> [] | Some s \<Rightarrow> [(k, JStr s)])"

definition item_text :: "string \<Rightarrow> string option \<Rightarrow> dict" where
  "item_text k x = (case x of None \<Rightarrow> [] | Some s \<Rightarrow> if s = [] then [] else [(k, JStr s)])"

fun first_some :: "('a \<Rightarrow> 'b option) \<Rightarrow> 'a list \<Rightarrow> 'b option" where
  "first_some f [] = None"
| "first_some f (x # xs) = (case f x of None \<Rightarrow> first_some f xs | Some y \<Rightarrow> Some y)"

type_synonym stamp = "string \<times> string \<times> string"

definition fallback_stamp :: stamp where
  "fallback_stamp = (''2026-08-07T12:00:00Z'', ''2026-08-07T12:00:00Z'', ''UTC'')"

definition ends_utc :: "string \<Rightarrow> bool" where
  "ends_utc s = (suffix ''Z'' s \<or> suffix ''+00:00'' s \<or> suffix ''-00:00'' s)"

text \<open>The raw value: an object without credential-bearing keys.\<close>

definition checked_raw :: "string \<Rightarrow> json \<Rightarrow> ingest_error + dict" where
  "checked_raw what raw = (case raw of
     JObj d \<Rightarrow> r_bind (reject_secret_keys raw ''payload'') (\<lambda>_. Inr d)
   | _ \<Rightarrow> Inl (Validation (''raw '' @ what @ '' must be dict'')))"

text \<open>The truthy elements of a list as texts: \<^verbatim>\<open>[str(t) for t in tags if t]\<close>.\<close>

definition str_items :: "json list \<Rightarrow> json list" where
  "str_items ts = map (\<lambda>t. JStr (py_str t)) (filter truthy ts)"

definition has_any :: "string list \<Rightarrow> dict \<Rightarrow> bool" where
  "has_any ks d = list_ex (has_key d) ks"

definition note_if :: "bool \<Rightarrow> string \<Rightarrow> string list" where
  "note_if b m = (if b then [m] else [])"

definition without_prefixes :: "string list \<Rightarrow> dict \<Rightarrow> dict" where
  "without_prefixes ps d = filter (\<lambda>p. \<not> list_ex (\<lambda>pre. prefix pre (lower (fst p))) ps) d"

section \<open>Provenance and entity\<close>

definition provenance ::
  "adapter \<Rightarrow> string \<Rightarrow> string \<Rightarrow> json \<Rightarrow> json \<Rightarrow> stamp \<Rightarrow> json \<Rightarrow> string list \<Rightarrow> dict \<Rightarrow> ingest_error + dict" where
  "provenance w system kind source_id revision ts scope lossy redaction =
     r_bind (idempotency_key (ad_host w) (ad_integration w) (JStr ''in'') (JStr system) (JStr kind) source_id revision) (\<lambda>idem.
     case ts of (raw_ts, utc_ts, tz) \<Rightarrow> Inr
       [(''integration_id'', ad_integration w), (''source_system'', JStr system), (''source_entity'', JStr kind),
        (''source_id'', source_id), (''source_scope'', scope), (''source_revision'', revision),
        (''source_updated_at_raw'', JStr raw_ts), (''source_updated_at_utc'', JStr utc_ts), (''source_timezone'', JStr tz),
        (''mapping_version'', JStr mapping_version), (''idempotency_key'', JStr idem),
        (''redaction_flags'', JObj redaction), (''lossy_transformations'', JList (map JStr lossy))])"

definition interop_entity :: "string \<Rightarrow> dict \<Rightarrow> dict \<Rightarrow> dict" where
  "interop_entity kind prov payload =
     [(''schema_version'', JStr ''1.0''), (''entity_type'', JStr kind), (''provenance'', JObj prov), (''payload'', JObj payload)]"

definition finish ::
  "adapter \<Rightarrow> string \<Rightarrow> string \<Rightarrow> json \<Rightarrow> json \<Rightarrow> stamp \<Rightarrow> json \<Rightarrow> string list \<Rightarrow> dict \<Rightarrow> dict \<Rightarrow> ingest_error + dict" where
  "finish w system kind source_id revision ts scope lossy redaction payload =
     r_bind (provenance w system kind source_id revision ts scope lossy redaction)
       (\<lambda>prov. Inr (interop_entity kind prov payload))"

text \<open>The redaction decision of a type that may carry bytes.\<close>

definition decision :: "string \<Rightarrow> string \<Rightarrow> string \<Rightarrow> json" where
  "decision what policy reason =
     JObj [(''decision'', JStr what), (''policy_version'', JStr policy), (''reason'', JStr reason)]"

section \<open>Lemmas\<close>

lemma checked_raw_Inr:
  "checked_raw what raw = Inr d \<longleftrightarrow> raw = JObj d \<and> (\<forall>k\<in>deep_keys raw. \<not> secret_key k)"
  by (cases raw) (auto simp: checked_raw_def reject_secret_keys_iff wb_result)

lemma checked_raw_Inl: "checked_raw what raw = Inl e \<Longrightarrow> is_validation e"
  by (cases raw) (auto simp: checked_raw_def wb_result dest: reject_secret_keys_error)

lemma finish_Inr:
  assumes "finish w system kind sid srev ts scope lossy redaction payload = Inr ent"
  obtains prov where "ent = interop_entity kind prov payload" "provenance w system kind sid srev ts scope lossy redaction = Inr prov"
  using assms by (auto simp: finish_def wb_result)

lemma provenance_Inl: "provenance w system kind sid srev ts scope lossy redaction = Inl e \<Longrightarrow> is_validation e"
  by (cases ts) (auto simp: provenance_def idempotency_key_def Let_def wb_result split: if_splits)

lemma finish_Inl: "finish w system kind sid srev ts scope lossy redaction payload = Inl e \<Longrightarrow> is_validation e"
  by (auto simp: finish_def wb_result dest: provenance_Inl)

end
