(* ===== verification/Hive_Adapter.thy ===== *)
theory Hive_Adapter
  imports Projection
begin

text \<open>
  \<^verbatim>\<open>thehive_ingest_adapter.py\<close>: the projection of TheHive cases, alerts, observables and
  timeline entries to the interoperation entity.
\<close>

definition hive_policy :: string where "hive_policy = ''thehive-projection-1''"

definition tlp_name :: "int \<Rightarrow> string option" where
  "tlp_name i = map_of [(0, ''white''), (1, ''green''), (2, ''amber''), (3, ''red''), (-1, ''unknown'')] i"

definition unsupported_observables :: "string list" where
  "unsupported_observables = [''file'', ''attachment'', ''binary'', ''hash:other'']"

definition tlp_of_int :: "int \<Rightarrow> string" where
  "tlp_of_int i = (case tlp_name i of None \<Rightarrow> dec_int i | Some s \<Rightarrow> s)"

definition map_tlp_pap :: "adapter \<Rightarrow> json \<Rightarrow> string option" where
  "map_tlp_pap w v = (case v of
     JNull \<Rightarrow> None
   | JBool b \<Rightarrow> Some (tlp_of_int (if b then 1 else 0))
   | JInt i \<Rightarrow> Some (tlp_of_int i)
   | JFloat r \<Rightarrow> Some (tlp_of_int (ad_trunc w r))
   | JStr s \<Rightarrow>
       (let t = strip (lower s) in
        if t \<in> set [''white'', ''green'', ''amber'', ''red'', ''unknown''] then Some t
        else case ad_int w t of None \<Rightarrow> Some t
             | Some i \<Rightarrow> Some (case tlp_name i of None \<Rightarrow> t | Some n \<Rightarrow> n))
   | _ \<Rightarrow> Some (py_str v))"

definition hive_stamp_at :: "adapter \<Rightarrow> dict \<Rightarrow> string \<Rightarrow> stamp option" where
  "hive_stamp_at w raw k =
     (if \<not> truthy (dget raw k) then None
      else case safe_str (dget raw k) of None \<Rightarrow> None
      | Some t \<Rightarrow>
          (case utc_timestamp (ad_host w) (JStr t) of Inl e \<Rightarrow> None
           | Inr (r, u) \<Rightarrow> Some (r, u, if ends_utc t then ''UTC''
               else case safe_str (dget raw ''timezone'') of None \<Rightarrow> ''UTC'' | Some z \<Rightarrow> z)))"

definition hive_choose_ts :: "adapter \<Rightarrow> dict \<Rightarrow> string list \<Rightarrow> stamp" where
  "hive_choose_ts w raw keys =
     (case first_some (hive_stamp_at w raw) keys of None \<Rightarrow> fallback_stamp | Some ts \<Rightarrow> ts)"

definition hive_source_id :: "dict \<Rightarrow> json \<Rightarrow> string \<Rightarrow> json" where
  "hive_source_id raw override uuid_hex =
     py_or override (py_or (dget raw ''_id'') (py_or (dget raw ''id'') (JStr (''syn-'' @ take 12 uuid_hex))))"

definition hive_source_revision :: "dict \<Rightarrow> json \<Rightarrow> json" where
  "hive_source_revision raw override =
     py_or override (py_or (dget raw ''updatedAt'') (py_or (dget raw ''updated_at'') (py_or (dget raw ''createdAt'')
       (py_or (dget raw ''created_at'') (py_or (dget raw ''date'') (JStr ''rev-1''))))))"

definition hive_base_payload :: "adapter \<Rightarrow> dict \<Rightarrow> dict" where
  "hive_base_payload w raw =
     (if has_key raw ''title'' then [(''title'', or_null (safe_str (dget raw ''title'')))] else []) @
     (if has_key raw ''description'' \<or> has_key raw ''message''
      then [(''description'', or_null (safe_str (py_or (dget raw ''description'') (dget raw ''message''))))] else []) @
     (if has_key raw ''severity'' then [(''severity'', dget raw ''severity'')] else []) @
     item_some ''tlp'' (map_tlp_pap w (dget raw ''tlp'')) @
     item_some ''pap'' (map_tlp_pap w (dget raw ''pap'')) @
     [(''tags'', case py_or (dget raw ''tags'') (JList []) of JList ts \<Rightarrow> JList (str_items ts) | _ \<Rightarrow> JList []),
      (''custom_fields'', case py_or (dget raw ''customFields'') (py_or (dget raw ''custom_fields'') (JObj [])) of
         JObj d \<Rightarrow> JObj (without_prefixes [''_'', ''secret'', ''token''] d) | _ \<Rightarrow> JObj [])]"

definition hive_tags :: "dict \<Rightarrow> dict" where
  "hive_tags raw = (case py_or (dget raw ''tags'') (JList []) of
     JList ts \<Rightarrow> if ts = [] then [] else [(''tags'', JList (str_items ts))] | _ \<Rightarrow> [])"

section \<open>Projections\<close>

definition hive_case :: "adapter \<Rightarrow> json \<Rightarrow> json \<Rightarrow> json \<Rightarrow> json \<Rightarrow> string \<Rightarrow> ingest_error + dict" where
  "hive_case w value scope source_id revision uuid_hex =
     r_bind (checked_raw ''case'' value) (\<lambda>raw.
     let sid = hive_source_id raw source_id uuid_hex; srev = hive_source_revision raw revision;
         ts = hive_choose_ts w raw [''updatedAt'', ''createdAt'', ''startDate''];
         lossy = note_if (has_key raw ''status'') ''dropped:status'' @
           note_if (has_any [''owner'', ''createdBy'', ''updatedBy''] raw) ''dropped:ownership'' @
           note_if (has_any [''cortexJobs'', ''misp''] raw \<or> list_ex (\<lambda>p. contains ''misp'' (lower (fst p))) raw) ''dropped:misp-cortex'';
         payload = hive_base_payload w raw in
     r_bind (r_guard (truthy (dget payload ''title'')) (Validation ''case payload must include title'')) (\<lambda>_.
     finish w ''hive'' ''case'' sid srev ts scope lossy [] payload))"

definition hive_alert :: "adapter \<Rightarrow> json \<Rightarrow> json \<Rightarrow> json \<Rightarrow> json \<Rightarrow> string \<Rightarrow> ingest_error + dict" where
  "hive_alert w value scope source_id revision uuid_hex =
     r_bind (checked_raw ''alert'' value) (\<lambda>raw.
     let sid = hive_source_id raw source_id uuid_hex; srev = hive_source_revision raw revision;
         ts = hive_choose_ts w raw [''updatedAt'', ''createdAt'', ''date''];
         lossy = note_if (has_any [''artifacts'', ''observables''] raw) ''dropped:embedded-observables'' @
           note_if (has_key raw ''status'') ''dropped:status'' @
           note_if (has_any [''owner'', ''createdBy'', ''updatedBy''] raw) ''dropped:ownership'' @
           note_if (contains ''cortex'' (lower (py_str (JObj raw))) \<or> has_key raw ''mispEvent'') ''dropped:misp-cortex'';
         payload = hive_base_payload w raw in
     r_bind (r_guard (truthy (dget payload ''title'')) (Validation ''alert payload must include title'')) (\<lambda>_.
     finish w ''hive'' ''alert'' sid srev ts scope lossy [] payload))"

definition observable_redaction :: "string \<Rightarrow> dict" where
  "observable_redaction otype =
     (if otype \<in> set unsupported_observables
      then [(''dataType'', decision ''quarantined'' hive_policy
             (''unsupported observable type for interop: '' @ otype @ '' (no evidence bytes)''))]
      else [])"

definition hive_observable :: "adapter \<Rightarrow> json \<Rightarrow> json \<Rightarrow> json \<Rightarrow> json \<Rightarrow> string \<Rightarrow> ingest_error + dict" where
  "hive_observable w value scope source_id revision uuid_hex =
     r_bind (checked_raw ''observable'' value) (\<lambda>raw.
     let sid = hive_source_id raw source_id uuid_hex; srev = hive_source_revision raw revision;
         ts = hive_choose_ts w raw [''updatedAt'', ''createdAt''];
         otype = safe_str (py_or (dget raw ''dataType'') (py_or (dget raw ''type'') (dget raw ''data_type'')));
         ovalue = safe_str (py_or (dget raw ''data'') (dget raw ''value'')) in
     case (otype, ovalue) of
       (Some t, Some v) \<Rightarrow>
         (let kind = (if truthy (dget raw ''ioc'') then ''ioc'' else ''observable'');
              lossy = note_if (t \<in> set unsupported_observables) ''quarantined:unsupported-type'';
              payload = [(''value'', JStr v), (''type'', JStr t)] @
                item_text ''description'' (safe_str (py_or (dget raw ''message'') (dget raw ''description''))) @
                item_text ''tlp'' (map_tlp_pap w (dget raw ''tlp'')) @
                item_text ''pap'' (map_tlp_pap w (dget raw ''pap'')) @
                hive_tags raw @
                (if dget raw ''ioc'' \<noteq> JNull
                 then [(''classification'', if truthy (dget raw ''ioc'') then JStr ''ioc'' else JNull)] else []) @
                (case py_or (dget raw ''customFields'') (JObj []) of JObj d \<Rightarrow> [(''custom_fields'', JObj d)] | _ \<Rightarrow> [])
          in finish w ''hive'' kind sid srev ts scope lossy (observable_redaction t) payload)
     | _ \<Rightarrow> Inl (Validation ''observable requires dataType and data''))"

definition hive_timeline_event ::
  "adapter \<Rightarrow> string \<Rightarrow> json \<Rightarrow> json \<Rightarrow> json \<Rightarrow> json \<Rightarrow> string \<Rightarrow> ingest_error + dict" where
  "hive_timeline_event w category value scope source_id revision uuid_hex =
     r_bind (checked_raw ''timeline'' value) (\<lambda>raw.
     let sid = hive_source_id raw source_id uuid_hex; srev = hive_source_revision raw revision;
         ts = hive_choose_ts w raw [''updatedAt'', ''createdAt'', ''startDate'', ''date'', ''endDate''];
         title = (case safe_str (py_or (dget raw ''title'') (py_or (dget raw ''message'') (JStr category))) of
           None \<Rightarrow> ''untitled event'' | Some t \<Rightarrow> t);
         lossy = note_if (has_any [''status'', ''owner'', ''flag''] raw) ''dropped:task-status-ownership'';
         payload = [(''occurred_at_raw'', JStr (fst ts)), (''occurred_at_utc'', JStr (fst (snd ts))),
           (''timezone'', JStr (snd (snd ts))),
           (''category'', JStr (case safe_str (JStr category) of None \<Rightarrow> ''task'' | Some c \<Rightarrow> c)), (''title'', JStr title)] @
           item_text ''description'' (safe_str (py_or (dget raw ''description'') (dget raw ''message''))) @
           hive_tags raw
     in finish w ''hive'' ''timeline_event'' sid srev ts scope lossy [] payload)"

text \<open>The dispatch; \<^verbatim>\<open>category\<close> is the optional keyword, which only a timeline entry takes.\<close>

definition hive_project ::
  "adapter \<Rightarrow> json \<Rightarrow> string option \<Rightarrow> json \<Rightarrow> json \<Rightarrow> json \<Rightarrow> json \<Rightarrow> string \<Rightarrow> ingest_error + dict" where
  "hive_project w kind category value scope source_id revision uuid_hex =
     (case kind of
        JStr k \<Rightarrow>
          (let e = lower k; plain = (\<lambda>f. if category = None then f w value scope source_id revision uuid_hex
                                        else Inl (Raised ''TypeError'')) in
           if e = ''case'' then plain hive_case
           else if e = ''alert'' then plain hive_alert
           else if e \<in> {''observable'', ''ioc''} then plain hive_observable
           else if e \<in> {''timeline_event'', ''task'', ''log''}
           then hive_timeline_event w (case category of Some c \<Rightarrow> c | None \<Rightarrow> if e = ''task'' then ''task'' else ''log'')
                  value scope source_id revision uuid_hex
           else Inl (Validation (''unsupported entity for TheHive projection: '' @ e)))
      | _ \<Rightarrow> Inl (Raised ''AttributeError''))"

end
