(* ===== verification/Iris_Adapter.thy ===== *)
theory Iris_Adapter
  imports Projection
begin

text \<open>
  \<^verbatim>\<open>dfir_iris_ingest_adapter.py\<close>: the projection of DFIR-IRIS cases, alerts, indicators,
  assets, timeline events, notes and evidence records to the interoperation entity.
\<close>

definition iris_policy :: string where "iris_policy = ''dfir-iris-projection-1''"

definition unsupported_iocs :: "string list" where
  "unsupported_iocs = [''attachment'', ''file'', ''binary'', ''malware-sample'']"

definition nonempty_strips :: "string list \<Rightarrow> string list" where
  "nonempty_strips xs = filter (\<lambda>s. s \<noteq> []) (map strip xs)"

definition parse_iris_tags :: "json \<Rightarrow> string list" where
  "parse_iris_tags v = (case v of
     JList ts \<Rightarrow> nonempty_strips (map py_str ts)
   | JStr s \<Rightarrow> nonempty_strips (split_on (CHR '','') s)
   | _ \<Rightarrow> [])"

text \<open>\<^verbatim>\<open>^(\d{1,2})[/-](\d{1,2})[/-](\d{4})$\<close> on a stripped text.\<close>

definition digits :: "nat set \<Rightarrow> string \<Rightarrow> bool" where
  "digits ns s = (length s \<in> ns \<and> list_all is_digit s)"

definition date_parts :: "string \<Rightarrow> (string \<times> string \<times> string) option" where
  "date_parts s = (case split_on (CHR ''/'') (replace_char (CHR ''-'') (CHR ''/'') s) of
     [d, m, y] \<Rightarrow> if digits {1, 2} d \<and> digits {1, 2} m \<and> digits {4} y then Some (d, m, y) else None
   | _ \<Rightarrow> None)"

definition pad2 :: "string \<Rightarrow> string" where
  "pad2 s = (if length s = 1 then CHR ''0'' # s else s)"

definition normalize_iris_ts :: "json \<Rightarrow> string option" where
  "normalize_iris_ts v =
     (if \<not> truthy v then None
      else let s = strip (py_str v) in
        if s = [] then None
        else if CHR ''T'' \<in> set s \<or> suffix ''Z'' s \<or> (CHR ''+'' \<in> set s \<or> CHR ''-'' \<in> set s) \<and> 10 < length s
        then Some s
        else (case date_parts s of
                Some (d, m, y) \<Rightarrow> Some (y @ ''-'' @ pad2 m @ ''-'' @ pad2 d @ ''T00:00:00Z'')
              | None \<Rightarrow> Some s))"

definition rstrip_z :: "string \<Rightarrow> string" where
  "rstrip_z s = rev (dropWhile (\<lambda>c. c = CHR ''Z'') (rev s))"

text \<open>A candidate as it is handed to \<^verbatim>\<open>utc_timestamp\<close>.\<close>

definition iris_zoned :: "string \<Rightarrow> string" where
  "iris_zoned ts =
     (if \<not> (CHR ''Z'' \<in> set ts \<or> CHR ''+'' \<in> set ts \<or> contains ''-00:00'' ts \<or> contains ''+00:00'' ts) \<or> CHR ''T'' \<notin> set ts
      then (if CHR ''T'' \<in> set ts then rstrip_z ts @ ''Z'' else ts @ ''T00:00:00Z'')
      else ts)"

definition iris_stamp_at :: "adapter \<Rightarrow> dict \<Rightarrow> string \<Rightarrow> stamp option" where
  "iris_stamp_at w raw k =
     (if \<not> truthy (dget raw k) then None
      else case normalize_iris_ts (dget raw k) of None \<Rightarrow> None
      | Some cand \<Rightarrow>
          (let t = iris_zoned cand in
           case utc_timestamp (ad_host w) (JStr t) of Inl e \<Rightarrow> None
           | Inr (r, u) \<Rightarrow> Some (r, u, if ends_utc t then ''UTC''
               else case safe_str (dget raw ''event_tz'') of None \<Rightarrow> ''UTC'' | Some z \<Rightarrow> z)))"

definition iris_choose_ts :: "adapter \<Rightarrow> dict \<Rightarrow> string list \<Rightarrow> stamp" where
  "iris_choose_ts w raw keys =
     (case first_some (iris_stamp_at w raw) keys of None \<Rightarrow> fallback_stamp | Some ts \<Rightarrow> ts)"

definition iris_source_id :: "dict \<Rightarrow> json \<Rightarrow> string \<Rightarrow> json" where
  "iris_source_id raw override uuid_hex =
     (if truthy override then override
      else case first_some (\<lambda>k. if truthy (dget raw k) then Some (py_str (dget raw k)) else None)
             [''case_uuid'', ''ioc_uuid'', ''asset_uuid'', ''event_uuid'', ''note_uuid'', ''alert_uuid'', ''file_uuid'', ''uuid''] of
        Some s \<Rightarrow> JStr s
      | None \<Rightarrow>
          (case first_some (\<lambda>k. if dget raw k \<noteq> JNull then Some (py_str (dget raw k)) else None)
                  [''case_id'', ''ioc_id'', ''asset_id'', ''event_id'', ''note_id'', ''id''] of
             Some s \<Rightarrow> JStr s
           | None \<Rightarrow> JStr (''syn-'' @ take 12 uuid_hex)))"

definition or_rev1 :: "string option \<Rightarrow> string" where
  "or_rev1 x = (case x of None \<Rightarrow> ''rev-1'' | Some s \<Rightarrow> s)"

definition iris_source_revision :: "dict \<Rightarrow> json \<Rightarrow> json" where
  "iris_source_revision raw override =
     (if truthy override then override
      else case first_some (\<lambda>k. if truthy (dget raw k) then Some (or_rev1 (safe_str (dget raw k))) else None)
             [''updatedAt'', ''updated_at'', ''note_lastupdate'', ''event_date_wtz'', ''date_added'', ''modification_date'',
              ''createdAt'', ''created_at'', ''note_creationdate'', ''case_open_date'', ''acquisition_date''] of
        Some s \<Rightarrow> JStr s | None \<Rightarrow> JStr ''rev-1'')"

definition map_tlp :: "json \<Rightarrow> string option" where
  "map_tlp v = (case v of JNull \<Rightarrow> None | JStr s \<Rightarrow> Some (strip (lower s)) | _ \<Rightarrow> Some (py_str v))"

definition iris_tags :: "json \<Rightarrow> dict" where
  "iris_tags v = (let tags = parse_iris_tags v in
     if tags = [] then [] else [(''tags'', JList (map JStr (filter (\<lambda>t. t \<noteq> []) tags)))])"

text \<open>The first truthy of several fields: \<^verbatim>\<open>raw.get(a) or raw.get(b) or raw.get(c)\<close>.\<close>

fun get_or :: "dict \<Rightarrow> string list \<Rightarrow> json" where
  "get_or raw [] = JNull"
| "get_or raw [k] = dget raw k"
| "get_or raw (k # ks) = py_or (dget raw k) (get_or raw ks)"

definition iris_base_payload :: "dict \<Rightarrow> dict" where
  "iris_base_payload raw =
     item_text ''title'' (safe_str (get_or raw [''case_name'', ''title'', ''alert_title''])) @
     item_text ''description'' (safe_str (get_or raw [''case_description'', ''description'', ''alert_description''])) @
     (if has_key raw ''severity'' \<or> has_key raw ''priority'' then [(''severity'', get_or raw [''severity'', ''priority''])] else []) @
     item_text ''tlp'' (map_tlp (get_or raw [''tlp'', ''tlp_name''])) @
     item_text ''pap'' (map_tlp (get_or raw [''pap'', ''tlp_name''])) @
     iris_tags (get_or raw [''tags'', ''case_tags'', ''alert_tags'']) @
     [(''custom_fields'', case py_or (get_or raw [''customFields'', ''custom_attributes'', ''custom_fields'']) (JObj []) of
         JObj d \<Rightarrow> JObj (without_prefixes [''_'', ''secret'', ''token'', ''key''] d) | _ \<Rightarrow> JObj [])]"

definition iris_provenance ::
  "adapter \<Rightarrow> string \<Rightarrow> json \<Rightarrow> json \<Rightarrow> stamp \<Rightarrow> json \<Rightarrow> string list \<Rightarrow> dict \<Rightarrow> ingest_error + dict" where
  "iris_provenance w = provenance w ''iris''"

section \<open>Projections\<close>

text \<open>The client's name goes into the custom fields, over a field of that name.\<close>

definition with_client :: "dict \<Rightarrow> dict \<Rightarrow> dict" where
  "with_client raw payload =
     (case safe_str (dget raw ''client_name'') of None \<Rightarrow> payload
      | Some client \<Rightarrow>
          (case dget payload ''custom_fields'' of
             JObj d \<Rightarrow> AList.update ''custom_fields'' (JObj (AList.update ''client_name'' (JStr client) d)) payload
           | _ \<Rightarrow> payload))"

definition iris_case :: "adapter \<Rightarrow> json \<Rightarrow> json \<Rightarrow> json \<Rightarrow> json \<Rightarrow> string \<Rightarrow> ingest_error + dict" where
  "iris_case w value scope source_id revision uuid_hex =
     r_bind (checked_raw ''case'' value) (\<lambda>raw.
     let sid = iris_source_id raw source_id uuid_hex; srev = iris_source_revision raw revision;
         ts = iris_choose_ts w raw [''case_open_date'', ''updated_at'', ''created_at'', ''case_close_date''];
         lossy = note_if (has_any [''owner'', ''owner_id'', ''opened_by'', ''state_id''] raw) ''dropped:ownership-state'' @
           note_if (truthy (dget raw ''classification'') \<or> truthy (dget raw ''classification_id'')) ''dropped:classification'';
         payload = iris_base_payload raw in
     r_bind (r_guard (truthy (dget payload ''title'')) (Validation ''case payload must include title (case_name)'')) (\<lambda>_.
     finish w ''iris'' ''case'' sid srev ts scope lossy [] (with_client raw payload)))"

definition iris_alert :: "adapter \<Rightarrow> json \<Rightarrow> json \<Rightarrow> json \<Rightarrow> json \<Rightarrow> string \<Rightarrow> ingest_error + dict" where
  "iris_alert w value scope source_id revision uuid_hex =
     r_bind (checked_raw ''alert'' value) (\<lambda>raw.
     let sid = iris_source_id raw source_id uuid_hex; srev = iris_source_revision raw revision;
         ts = iris_choose_ts w raw [''alert_creation_time'', ''updated_at'', ''created_at''];
         lossy = note_if (truthy (dget raw ''comments'') \<or> truthy (dget raw ''observables'')) ''dropped:embedded-observables'' @
           note_if (contains ''status'' (lower (py_str (JObj raw))) \<or> has_key raw ''alert_status'') ''dropped:status'';
         payload = iris_base_payload raw in
     r_bind (r_guard (truthy (dget payload ''title'')) (Validation ''alert payload must include title'')) (\<lambda>_.
     finish w ''iris'' ''alert'' sid srev ts scope lossy [] payload))"

definition ioc_redaction :: "string \<Rightarrow> dict" where
  "ioc_redaction itype =
     (if lower itype \<in> set unsupported_iocs
      then [(''ioc_type'', decision ''quarantined'' iris_policy
             (''unsupported ioc type for interop: '' @ itype @ '' (no evidence bytes)''))]
      else [])"

definition iris_ioc :: "adapter \<Rightarrow> json \<Rightarrow> json \<Rightarrow> json \<Rightarrow> json \<Rightarrow> string \<Rightarrow> ingest_error + dict" where
  "iris_ioc w value scope source_id revision uuid_hex =
     r_bind (checked_raw ''ioc'' value) (\<lambda>raw.
     let sid = iris_source_id raw source_id uuid_hex; srev = iris_source_revision raw revision;
         ts = iris_choose_ts w raw [''updated_at'', ''created_at'', ''ioc_misp''];
         ivalue = safe_str (get_or raw [''ioc_value'', ''value'', ''data'']);
         itype = safe_str (get_or raw [''ioc_type'', ''type'', ''ioc_type_name'']) in
     case (ivalue, itype) of
       (Some v, Some t) \<Rightarrow>
         (let lossy = note_if (truthy (dget raw ''ioc_misp'') \<or> truthy (dget raw ''misp_link'')) ''dropped:misp-link'' @
                note_if (lower t \<in> set unsupported_iocs) ''quarantined:unsupported-type'';
              payload = [(''value'', JStr v), (''type'', JStr t)] @
                item_text ''description'' (safe_str (get_or raw [''ioc_description'', ''description''])) @
                item_text ''tlp'' (map_tlp (get_or raw [''tlp_name'', ''tlp''])) @
                iris_tags (get_or raw [''ioc_tags'', ''tags'']) @
                [(''classification'', JStr ''ioc'')] @
                (case py_or (dget raw ''custom_attributes'') (JObj []) of
                   JObj d \<Rightarrow> [(''custom_fields'', JObj (without_prefixes [''secret'', ''token''] d))] | _ \<Rightarrow> [])
          in finish w ''iris'' ''ioc'' sid srev ts scope lossy (ioc_redaction t) payload)
     | _ \<Rightarrow> Inl (Validation ''ioc requires ioc_value and ioc_type''))"

text \<open>The description is written into the custom fields first; the custom attributes, when they are an
  object, then replace that whole entry.\<close>

definition asset_fields :: "dict \<Rightarrow> dict \<Rightarrow> dict" where
  "asset_fields raw payload =
     (let p1 = payload @ (case safe_str (dget raw ''asset_description'') of None \<Rightarrow> []
                 | Some s \<Rightarrow> [(''custom_fields'', JObj [(''description'', JStr s)])]);
          p2 = p1 @ iris_tags (get_or raw [''asset_tags'', ''tags'']) in
      case py_or (dget raw ''custom_attributes'') (JObj []) of
        JObj d \<Rightarrow> AList.update ''custom_fields'' (JObj d) p2 | _ \<Rightarrow> p2)"

definition iris_asset :: "adapter \<Rightarrow> json \<Rightarrow> json \<Rightarrow> json \<Rightarrow> json \<Rightarrow> string \<Rightarrow> ingest_error + dict" where
  "iris_asset w value scope source_id revision uuid_hex =
     r_bind (checked_raw ''asset'' value) (\<lambda>raw.
     let sid = iris_source_id raw source_id uuid_hex; srev = iris_source_revision raw revision;
         ts = iris_choose_ts w raw [''updated_at'', ''date_added'', ''created_at''] in
     case (safe_str (get_or raw [''asset_name'', ''name'']), safe_str (get_or raw [''asset_type'', ''type''])) of
       (Some nm, Some t) \<Rightarrow>
         (let lossy = note_if (contains ''compromise_status'' (lower (py_str (JObj raw))) \<or> has_key raw ''analysis_status'')
                ''dropped:compromise-analysis-state'';
              payload = asset_fields raw ([(''asset_type'', JStr t), (''name'', JStr nm)] @
                item_text ''ip'' (safe_str (dget raw ''asset_ip'')) @
                item_text ''fqdn'' (safe_str (dget raw ''asset_domain'')) @
                item_text ''hostname'' (safe_str (dget raw ''hostname'')))
          in finish w ''iris'' ''asset'' sid srev ts scope lossy [] payload)
     | _ \<Rightarrow> Inl (Validation ''asset requires asset_name and asset_type''))"

definition iris_timeline_event ::
  "adapter \<Rightarrow> string \<Rightarrow> json \<Rightarrow> json \<Rightarrow> json \<Rightarrow> json \<Rightarrow> string \<Rightarrow> ingest_error + dict" where
  "iris_timeline_event w category value scope source_id revision uuid_hex =
     r_bind (checked_raw ''timeline'' value) (\<lambda>raw.
     let sid = iris_source_id raw source_id uuid_hex; srev = iris_source_revision raw revision;
         ts = iris_choose_ts w raw [''event_date'', ''event_date_wtz'', ''updated_at'', ''created_at''];
         title = (case safe_str (py_or (get_or raw [''event_title'', ''title'', ''message'']) (JStr category)) of
           None \<Rightarrow> ''untitled event'' | Some t \<Rightarrow> t);
         lossy = note_if (has_any [''state'', ''in_graph'', ''in_summary''] raw) ''dropped:timeline-internal-state'';
         payload = [(''occurred_at_raw'', JStr (fst ts)), (''occurred_at_utc'', JStr (fst (snd ts))),
           (''timezone'', JStr (snd (snd ts))),
           (''category'', JStr (case safe_str (py_or (dget raw ''category_name'') (JStr category)) of None \<Rightarrow> ''event'' | Some c \<Rightarrow> c)),
           (''title'', JStr title)] @
           item_text ''description'' (safe_str (get_or raw [''event_content'', ''description''])) @
           iris_tags (get_or raw [''event_tags'', ''tags'']) @
           item_text ''actor_reference'' (safe_str (get_or raw [''actor'', ''user'']))
     in finish w ''iris'' ''timeline_event'' sid srev ts scope lossy [] payload)"

definition iris_finding :: "adapter \<Rightarrow> json \<Rightarrow> json \<Rightarrow> json \<Rightarrow> json \<Rightarrow> string \<Rightarrow> ingest_error + dict" where
  "iris_finding w value scope source_id revision uuid_hex =
     r_bind (checked_raw ''finding/note'' value) (\<lambda>raw.
     let sid = iris_source_id raw source_id uuid_hex; srev = iris_source_revision raw revision;
         ts = iris_choose_ts w raw [''note_lastupdate'', ''note_creationdate'', ''updated_at'', ''created_at''] in
     case (safe_str (get_or raw [''note_title'', ''title'']), safe_str (get_or raw [''note_content'', ''content'', ''body''])) of
       (Some title, Some body) \<Rightarrow>
         (let lossy = note_if (has_any [''directory'', ''custom_attributes''] raw) ''dropped:note-directory-attrs'';
              payload = [(''title'', JStr title), (''body'', JStr body), (''approval_required'', JBool True)] @
                item_text ''author_reference'' (safe_str (get_or raw [''note_user'', ''user'', ''author''])) @
                iris_tags (dget raw ''tags'') @
                (if dget raw ''confidence'' \<noteq> JNull then [(''confidence'', dget raw ''confidence'')] else [])
          in finish w ''iris'' ''finding'' sid srev ts scope lossy [] payload)
     | _ \<Rightarrow> Inl (Validation ''finding requires title and body (note_title/note_content)''))"

text \<open>\<^verbatim>\<open>int(size)\<close> with every failure read as 0.\<close>

definition size_of_json :: "adapter \<Rightarrow> json \<Rightarrow> int" where
  "size_of_json w v = (case v of
     JInt i \<Rightarrow> i | JBool b \<Rightarrow> (if b then 1 else 0) | JFloat r \<Rightarrow> ad_trunc w r
   | JStr s \<Rightarrow> (case ad_int w s of None \<Rightarrow> 0 | Some i \<Rightarrow> i) | _ \<Rightarrow> 0)"

definition is_hex :: "char \<Rightarrow> bool" where
  "is_hex c = (c \<in> set ''0123456789abcdefABCDEF'')"

definition full_sha256 :: "string option \<Rightarrow> bool" where
  "full_sha256 x = (case x of None \<Rightarrow> False | Some s \<Rightarrow> s \<noteq> [] \<and> length s = 64 \<and> list_all is_hex s)"

definition empty_sha256 :: string where
  "empty_sha256 = ''e3b0c44298fc1c149afbf4c8996fb92427ae41e4649b934ca495991b7852b855''"

definition iris_evidence_reference :: "adapter \<Rightarrow> json \<Rightarrow> json \<Rightarrow> json \<Rightarrow> json \<Rightarrow> string \<Rightarrow> ingest_error + dict" where
  "iris_evidence_reference w value scope source_id revision uuid_hex =
     r_bind (checked_raw ''evidence'' value) (\<lambda>raw.
     let sid = iris_source_id raw source_id uuid_hex; srev = iris_source_revision raw revision;
         ts = iris_choose_ts w raw [''date_added'', ''acquisition_date'', ''updated_at'', ''created_at''];
         sha0 = safe_str (get_or raw [''sha256'', ''file_hash'', ''hash'']);
         weak = (\<not> full_sha256 sha0);
         sha = (if weak then empty_sha256 else the sha0);
         redaction = (if weak then [(''file_hash'', decision ''lossy'' iris_policy
             ''IRIS evidence provided md5/weak hash only; sha256 required for interop ref'')] else []) in
     case safe_str (get_or raw [''filename'', ''file_name'']) of
       None \<Rightarrow> Inl (Validation ''evidence_reference requires filename'')
     | Some fname \<Rightarrow>
         (let payload = [(''filename'', JStr fname), (''size_bytes'', JInt (size_of_json w (dget raw ''file_size''))),
                (''sha256'', JStr (lower sha)), (''content_transferred'', JBool False)] @
                item_text ''restricted_uri'' (safe_str (get_or raw [''restricted_uri'', ''link'', ''datastore_link'']))
          in finish w ''iris'' ''evidence_reference'' sid srev ts scope (note_if weak ''lossy:no-full-sha256'') redaction payload))"

definition iris_project ::
  "adapter \<Rightarrow> json \<Rightarrow> string option \<Rightarrow> json \<Rightarrow> json \<Rightarrow> json \<Rightarrow> json \<Rightarrow> string \<Rightarrow> ingest_error + dict" where
  "iris_project w kind category value scope source_id revision uuid_hex =
     (case kind of
        JStr k \<Rightarrow>
          (let e = strip (lower k); plain = (\<lambda>f. if category = None then f w value scope source_id revision uuid_hex
                                        else Inl (Raised ''TypeError'')) in
           if e = ''case'' then plain iris_case
           else if e = ''alert'' then plain iris_alert
           else if e \<in> {''ioc'', ''observable''} then plain iris_ioc
           else if e = ''asset'' then plain iris_asset
           else if e \<in> {''timeline_event'', ''event'', ''task'', ''log''}
           then iris_timeline_event w (case category of Some c \<Rightarrow> c | None \<Rightarrow> e) value scope source_id revision uuid_hex
           else if e \<in> {''finding'', ''note''} then plain iris_finding
           else if e \<in> {''evidence_reference'', ''evidence''} then plain iris_evidence_reference
           else Inl (Validation (''unsupported entity for DFIR-IRIS projection: '' @ e)))
      | _ \<Rightarrow> Inl (Raised ''AttributeError''))"

end
