(* ===== verification/Ingest.thy ===== *)
theory Ingest
  imports Hive_Adapter Iris_Adapter Ingest_Repo
begin

text \<open>
  \<^verbatim>\<open>ingest.py\<close>: the boundary before the commit.  A raw vendor value is projected by the adapter
  of its source system, wrapped in an envelope and stored as a preview; a batch does so for a list
  of items, one after the other, and counts the outcomes.  What uuid4 and the clock give for an
  item is its \<open>draw\<close>.
\<close>

record ingest_lib =
  il_host :: host
  il_int :: "string \<Rightarrow> int option"
  il_trunc :: "string \<Rightarrow> int"
  il_pg :: pg

record draw =
  dr_source :: string
  dr_env :: string
  dr_quarantine :: string
  dr_now :: string
  dr_row :: string
  dr_clock :: string

datatype vendor = Hive adapter | Iris adapter

section \<open>Projection\<close>

definition get_adapter :: "ingest_lib \<Rightarrow> json \<Rightarrow> json \<Rightarrow> ingest_error + vendor" where
  "get_adapter L source_system integration_id =
     (case py_or source_system (JStr []) of
        JStr s \<Rightarrow>
          (let ss = strip (lower s); w = new_adapter (il_host L) (il_int L) (il_trunc L) integration_id in
           if ss = ''hive'' then r_bind w (\<lambda>a. Inr (Hive a))
           else if ss = ''iris'' then r_bind w (\<lambda>a. Inr (Iris a))
           else Inl (Validation (''unknown source_system for projection: '' @ py_str source_system)))
      | _ \<Rightarrow> Inl (Raised ''AttributeError''))"

fun project_with ::
  "vendor \<Rightarrow> json \<Rightarrow> string option \<Rightarrow> json \<Rightarrow> json \<Rightarrow> json \<Rightarrow> json \<Rightarrow> string \<Rightarrow> ingest_error + dict" where
  "project_with (Hive w) = hive_project w"
| "project_with (Iris w) = iris_project w"

definition project_vendor_payload ::
  "ingest_lib \<Rightarrow> json \<Rightarrow> json \<Rightarrow> json \<Rightarrow> json \<Rightarrow> json \<Rightarrow> json \<Rightarrow> json \<Rightarrow> string option \<Rightarrow> string \<Rightarrow> ingest_error + dict" where
  "project_vendor_payload L raw source_system kind scope integration_id source_id revision category uuid_hex =
     r_bind (r_guard (case raw of JObj d \<Rightarrow> True | _ \<Rightarrow> False) (Validation ''raw payload must be dict'')) (\<lambda>_.
     r_bind (r_guard (truthy scope \<and> strip (py_str scope) \<noteq> []) (Validation ''source_scope is required (tenant/customer isolation)'')) (\<lambda>_.
     r_bind (get_adapter L source_system integration_id) (\<lambda>a.
     r_bind (project_with a kind category raw scope source_id revision uuid_hex) (\<lambda>ent.
     r_bind (validate_interop_entity (il_host L) ent) (\<lambda>_. Inr ent)))))"

section \<open>The envelope\<close>

definition source_fields :: "(string \<times> string) list" where
  "source_fields = [(''system'', ''source_system''), (''entity'', ''source_entity''), (''id'', ''source_id''),
     (''scope'', ''source_scope''), (''revision'', ''source_revision''), (''updated_at_raw'', ''source_updated_at_raw''),
     (''updated_at_utc'', ''source_updated_at_utc''), (''timezone'', ''source_timezone'')]"

definition blank :: "json \<Rightarrow> bool" where
  "blank v = (case v of JNull \<Rightarrow> True | JStr s \<Rightarrow> strip s = [] | _ \<Rightarrow> False)"

definition quarantine_flag :: "json \<Rightarrow> bool" where
  "quarantine_flag f = (case f of JObj d \<Rightarrow> dget d ''decision'' = JStr ''quarantined'' | _ \<Rightarrow> False)"

text \<open>Status, quarantine reference and error code, from the first flag that quarantines.\<close>

definition redaction_outcome :: "dict \<Rightarrow> string \<Rightarrow> json \<times> json \<times> json" where
  "redaction_outcome flags uuid_hex =
     (case List.find (\<lambda>p. quarantine_flag (snd p)) flags of
        None \<Rightarrow> (JStr ''preview'', JNull, JNull)
      | Some (k, f) \<Rightarrow> (JStr ''quarantined'', JStr (''quarantine-'' @ take 8 uuid_hex),
          case f of JObj d \<Rightarrow> dget d ''reason'' | _ \<Rightarrow> JNull))"

definition build_envelope_for_preview :: "host \<Rightarrow> json \<Rightarrow> json \<Rightarrow> json \<Rightarrow> draw \<Rightarrow> ingest_error + dict" where
  "build_envelope_for_preview h raw interop received dr =
     (case raw of JObj r \<Rightarrow>
       (case interop of JObj e \<Rightarrow>
         (case dget_or e ''provenance'' (JObj []) of JObj prov \<Rightarrow>
           (let src = map (\<lambda>(k, f). (k, dget prov f)) source_fields in
            case List.find (\<lambda>p. blank (snd p)) src of
              Some (k, v) \<Rightarrow> Inl (Validation (''incomplete source after projection: missing '' @ k))
            | None \<Rightarrow>
              (case py_or (dget prov ''redaction_flags'') (JObj []) of JObj flags \<Rightarrow>
                (let (status, qref, err) = redaction_outcome flags (dr_quarantine dr);
                     envelope =
                       [(''schema_version'', JStr ''1.0''), (''envelope_id'', JStr (''env-'' @ take 12 (dr_env dr))),
                        (''received_at_utc'', if received = JNull then JStr (str_replace ''+00:00'' ''Z'' (dr_now dr)) else received),
                        (''source'', JObj src), (''payload_sha256'', JStr (payload_sha256 h raw)), (''payload'', JObj r),
                        (''processing'', JObj [(''status'', status),
                           (''mapping_version'', py_or (dget prov ''mapping_version'') (JStr mapping_version)),
                           (''idempotency_key'', dget prov ''idempotency_key''), (''target_id'', JNull),
                           (''error_code'', err), (''quarantine_reference'', qref)])]
                 in r_bind (validate_ingest_envelope h envelope) (\<lambda>_. Inr envelope))
               | _ \<Rightarrow> Inl (Raised ''AttributeError'')))
          | _ \<Rightarrow> Inl (Raised ''AttributeError''))
        | _ \<Rightarrow> Inl (Validation ''interop_entity required''))
      | _ \<Rightarrow> Inl (Validation ''raw_payload must be dict for envelope''))"

definition is_quarantined :: "dict \<Rightarrow> bool" where
  "is_quarantined interop = (case dget_or interop ''provenance'' (JObj []) of
     JObj prov \<Rightarrow> (case py_or (dget_or prov ''redaction_flags'' (JObj [])) (JObj []) of
       JObj flags \<Rightarrow> list_ex (\<lambda>p. quarantine_flag (snd p)) flags | _ \<Rightarrow> False)
   | _ \<Rightarrow> False)"

record preview =
  pv_envelope :: dict
  pv_interop :: dict
  pv_status :: json
  pv_key :: json
  pv_sha :: json

definition processing_of :: "dict \<Rightarrow> dict" where
  "processing_of envelope = (case dget envelope ''processing'' of JObj d \<Rightarrow> d | _ \<Rightarrow> [])"

definition preview_vendor_payload ::
  "ingest_lib \<Rightarrow> json \<Rightarrow> json \<Rightarrow> json \<Rightarrow> json \<Rightarrow> json \<Rightarrow> json \<Rightarrow> json \<Rightarrow> draw \<Rightarrow> ingest_error + preview" where
  "preview_vendor_payload L raw source_system kind scope integration_id source_id revision dr =
     r_bind (project_vendor_payload L raw source_system kind scope integration_id source_id revision None (dr_source dr)) (\<lambda>ent.
     r_bind (build_envelope_for_preview (il_host L) raw (JObj ent) JNull dr) (\<lambda>envelope.
     Inr \<lparr>pv_envelope = envelope, pv_interop = ent, pv_status = dget (processing_of envelope) ''status'',
          pv_key = dget (processing_of envelope) ''idempotency_key'', pv_sha = dget envelope ''payload_sha256''\<rparr>))"

section \<open>The batch\<close>

type_synonym 'a intake = "(ingest_db, ingest_error, 'a) act"

definition internal_result :: "string \<Rightarrow> dict" where
  "internal_result n = [(''status'', JStr ''rejected''), (''error_code'', JStr (''internal:'' @ n))]"

definition rejected_result :: "ingest_error \<Rightarrow> dict" where
  "rejected_result e = (case e of
     Validation m \<Rightarrow> [(''status'', JStr ''rejected''), (''error_code'', JStr (take 200 m)), (''idempotency_key'', JNull)]
   | Raised n \<Rightarrow> internal_result n)"

definition stored_result :: "ingest_envelope \<Rightarrow> dict" where
  "stored_result r = [(''status'', JStr (ig_processing_status r)), (''envelope_id'', JStr (ig_envelope_id r)),
     (''idempotency_key'', JStr (ig_idempotency_key r)), (''payload_sha256'', JStr (ig_payload_sha256 r)),
     (''quarantine_reference'', or_null (ig_quarantine_reference r)), (''error_code'', or_null (ig_error_code r))]"

text \<open>One item; an error inside it becomes a rejected result, a missing entity or an item that is not
  an object ends the batch.\<close>

definition preview_item ::
  "ingest_lib \<Rightarrow> principal \<Rightarrow> json \<Rightarrow> json \<Rightarrow> json \<Rightarrow> json \<Rightarrow> json \<times> draw \<Rightarrow> dict intake" where
  "preview_item L p source_system kind scope integration_id x db =
     (case x of (it, dr) \<Rightarrow>
      case it of
        JObj d \<Rightarrow>
          (let raw = py_or (dget d ''raw'') (py_or (dget d ''payload'') it);
               ent = py_or (dget d ''entity'') kind in
           if \<not> truthy ent then (db, Inl (Validation ''entity required per-item or at batch level''))
           else (case preview_vendor_payload L raw source_system ent scope integration_id
                         (dget d ''source_id'') (dget d ''source_revision'') dr of
                   Inl e \<Rightarrow> (db, Inr (rejected_result e))
                 | Inr pv \<Rightarrow>
                     (case store_preview (il_host L) (il_pg L) p (pv_envelope pv) (dr_row dr) (dr_now dr) (dr_clock dr) db of
                        (db', Inl e) \<Rightarrow> (db', Inr (internal_result (repo_error_name e)))
                      | (db', Inr None) \<Rightarrow> (db', Inr (internal_result ''AttributeError''))
                      | (db', Inr (Some r)) \<Rightarrow> (db', Inr (stored_result r)))))
      | _ \<Rightarrow> (db, Inl (Raised ''AttributeError'')))"

fun preview_items ::
  "ingest_lib \<Rightarrow> principal \<Rightarrow> json \<Rightarrow> json \<Rightarrow> json \<Rightarrow> json \<Rightarrow> (json \<times> draw) list \<Rightarrow> dict list intake" where
  "preview_items L p source_system kind scope integration_id [] = a_ret []"
| "preview_items L p source_system kind scope integration_id (x # xs) =
     a_bind (preview_item L p source_system kind scope integration_id x) (\<lambda>r.
     a_bind (preview_items L p source_system kind scope integration_id xs) (\<lambda>rs. a_ret (r # rs)))"

definition count_names :: "string list" where
  "count_names = [''accepted'', ''duplicate'', ''rejected'', ''conflict'', ''quarantined'']"

definition count_name :: "json \<Rightarrow> string" where
  "count_name st = (case st of
     JStr s \<Rightarrow> if s \<in> {''preview'', ''validated'', ''received'', ''approved'', ''applied''} then ''accepted''
              else if s \<in> set count_names then s else ''rejected''
   | _ \<Rightarrow> ''rejected'')"

definition count_of :: "string \<Rightarrow> dict list \<Rightarrow> nat" where
  "count_of k rs = length (filter (\<lambda>r. count_name (dget_or r ''status'' (JStr ''rejected'')) = k) rs)"

record batch_answer =
  ba_counts :: "(string \<times> nat) list"
  ba_results :: "dict list"
  ba_source_system :: json

definition ingest_preview_batch ::
  "ingest_lib \<Rightarrow> principal \<Rightarrow> json \<Rightarrow> json \<Rightarrow> json \<Rightarrow> json \<Rightarrow> (json \<times> draw) list \<Rightarrow> batch_answer intake" where
  "ingest_preview_batch L p source_system kind scope integration_id items =
     a_bind (preview_items L p source_system kind scope integration_id items) (\<lambda>rs.
     a_ret \<lparr>ba_counts = map (\<lambda>k. (k, count_of k rs)) count_names, ba_results = rs, ba_source_system = source_system\<rparr>)"

end
