(* ===== verification/Ingest_Correct.thy ===== *)
theory Ingest_Correct
  imports Ingest Fixtures
begin

text \<open>
  What the intake boundary promises: the shape of every projected entity, that no value with a
  credential-bearing key is stored, that a quarantined redaction decision quarantines the
  envelope, and that a batch accounts for every item.
\<close>

section \<open>The shape of a payload\<close>

definition text_at :: "dict \<Rightarrow> string \<Rightarrow> bool" where
  "text_at d k = nonempty_str (dget d k)"

fun is_str :: "json \<Rightarrow> bool" where
  "is_str (JStr s) = True"
| "is_str v = False"

definition payload_ok :: "string \<Rightarrow> dict \<Rightarrow> bool" where
  "payload_ok kind d =
     (if kind \<in> {''case'', ''alert''} then text_at d ''title''
      else if kind \<in> {''observable'', ''ioc''} then text_at d ''value'' \<and> text_at d ''type''
      else if kind = ''asset'' then text_at d ''asset_type'' \<and> text_at d ''name''
      else if kind = ''timeline_event'' then text_at d ''title'' \<and> text_at d ''category'' \<and>
        is_str (dget d ''occurred_at_raw'') \<and> is_str (dget d ''occurred_at_utc'') \<and> is_str (dget d ''timezone'')
      else if kind = ''finding'' then text_at d ''title'' \<and> text_at d ''body'' \<and> dget d ''approval_required'' = JBool True
      else kind = ''evidence_reference'' \<and> text_at d ''filename'' \<and> dget d ''content_transferred'' = JBool False \<and>
        (\<exists>s. dget d ''sha256'' = JStr s \<and> sha_check s))"

text \<open>The types that may carry bytes.\<close>

definition unsupported :: "string \<Rightarrow> string \<Rightarrow> dict \<Rightarrow> bool" where
  "unsupported system kind payload = (case dget payload ''type'' of
     JStr t \<Rightarrow> (system = ''hive'' \<and> kind \<in> {''observable'', ''ioc''} \<and> t \<in> set unsupported_observables) \<or>
       (system = ''iris'' \<and> kind = ''ioc'' \<and> lower t \<in> set unsupported_iocs)
   | _ \<Rightarrow> False)"

definition quarantines :: "dict \<Rightarrow> bool" where
  "quarantines flags = list_ex (\<lambda>p. quarantine_flag (snd p)) flags"

definition projected :: "adapter \<Rightarrow> string \<Rightarrow> json \<Rightarrow> json \<Rightarrow> dict \<Rightarrow> bool" where
  "projected w system raw scope ent =
     (\<exists>kind prov payload sid srev ts lossy red. ent = interop_entity kind prov payload \<and>
        provenance w system kind sid srev ts scope lossy red = Inr prov \<and> payload_ok kind payload \<and>
        quarantines red = unsupported system kind payload \<and> (\<exists>d. raw = JObj d) \<and> (\<forall>k\<in>deep_keys raw. \<not> secret_key k))"

lemma safe_str_Some: "safe_str v = Some s \<Longrightarrow> s \<noteq> []"
  by (auto simp: safe_str_def Let_def split: if_splits)

lemma truthy_or_null: "truthy (or_null x) \<Longrightarrow> nonempty_str (or_null x)"
  by (cases x) (auto simp: or_null_def)

lemma dget_append: "dget (a @ b) k = (if has_key a k then dget a k else dget b k)"
  by (auto simp: dget_def has_key_def map_of_append map_add_def split: option.splits)

lemma dget_item [simp]:
  "dget (item_some k x) k' = (if k' = k then or_null x else JNull)"
  "dget (item_text k x) k' = (if k' = k \<and> x \<noteq> Some [] then or_null x else JNull)"
  "has_key (item_some k x) k' = (k' = k \<and> x \<noteq> None)"
  "has_key (item_text k x) k' = (k' = k \<and> x \<noteq> None \<and> x \<noteq> Some [])"
  by (auto simp: item_some_def item_text_def dget_def has_key_def or_null_def split: option.splits)

lemma dget_Cons: "dget ((k, v) # d) k' = (if k' = k then v else dget d k')"
  by (simp add: dget_def)

lemma dget_Nil: "dget [] k = JNull" "has_key [] k = False"
  by (simp_all add: dget_def has_key_def)

lemma has_key_Cons: "has_key ((k, v) # d) k' = (k' = k \<or> has_key d k')"
  by (simp add: has_key_def)

lemmas dget_simps = dget_append dget_Cons dget_Nil has_key_Cons

lemma iris_tags_title: "dget (iris_tags v) ''title'' = JNull" "has_key (iris_tags v) ''title'' = False"
  by (simp_all add: iris_tags_def Let_def dget_simps)

lemma base_title:
  "truthy (dget (hive_base_payload w raw) ''title'') \<Longrightarrow> text_at (hive_base_payload w raw) ''title''"
  "truthy (dget (iris_base_payload raw) ''title'') \<Longrightarrow> text_at (iris_base_payload raw) ''title''"
  unfolding hive_base_payload_def iris_base_payload_def text_at_def
  by (auto simp: dget_simps iris_tags_title intro: truthy_or_null split: if_splits)

lemma with_client_title: "dget (with_client raw p) ''title'' = dget p ''title''"
  by (auto simp: with_client_def dget_def dict_get_update split: option.splits json.splits)

lemma asset_fields_text:
  assumes "has_key p k" "k \<noteq> ''custom_fields''"
  shows "dget (asset_fields raw p) k = dget p k"
proof -
  have "map_of (asset_fields raw p) k = map_of p k"
    using assms by (auto simp: asset_fields_def Let_def dict_get_update has_key_def map_add_def split: json.splits option.splits)
  then show ?thesis by (simp add: dget_def)
qed

lemma quarantines_simps:
  "quarantines [] = False" "quarantines [(k, decision what policy reason)] = (what = ''quarantined'')"
  by (auto simp: quarantines_def quarantine_flag_def decision_def dget_def)

lemma redactions:
  "quarantines (observable_redaction t) = (t \<in> set unsupported_observables)"
  "quarantines (ioc_redaction t) = (lower t \<in> set unsupported_iocs)"
  by (simp_all add: observable_redaction_def ioc_redaction_def quarantines_simps)

lemma not_unsupported:
  "kind \<notin> {''observable'', ''ioc''} \<Longrightarrow> \<not> unsupported system kind payload"
  by (auto simp: unsupported_def split: json.splits)

lemma unsupported_type:
  "dget payload ''type'' = JStr t \<Longrightarrow> unsupported system kind payload =
     ((system = ''hive'' \<and> (kind = ''observable'' \<or> kind = ''ioc'') \<and> t \<in> set unsupported_observables) \<or>
      (system = ''iris'' \<and> kind = ''ioc'' \<and> lower t \<in> set unsupported_iocs))"
  by (simp add: unsupported_def)

lemma projected_finish:
  assumes "finish w system kind sid srev ts scope lossy red payload = Inr ent" "checked_raw what raw = Inr d"
    and "payload_ok kind payload \<and> quarantines red = unsupported system kind payload"
  shows "projected w system raw scope ent"
  using finish_Inr [OF assms(1)] assms(2,3) unfolding projected_def checked_raw_Inr by metis

lemma hive_case_ok: "hive_case w raw scope sid srev u = Inr ent \<Longrightarrow> projected w ''hive'' raw scope ent"
  unfolding hive_case_def Let_def wb_result
  by (auto intro!: projected_finish simp: payload_ok_def base_title quarantines_simps not_unsupported)

lemma hive_alert_ok: "hive_alert w raw scope sid srev u = Inr ent \<Longrightarrow> projected w ''hive'' raw scope ent"
  unfolding hive_alert_def Let_def wb_result
  by (auto intro!: projected_finish simp: payload_ok_def base_title quarantines_simps not_unsupported)

lemma text_at_simps:
  "text_at ((k, JStr s) # d) k' = (if k' = k then s \<noteq> [] else text_at d k')"
  by (simp add: text_at_def dget_simps)

text \<open>Required texts: the cases of a projection that goes on only with a text.\<close>

lemma both_text:
  "(case (safe_str a, safe_str b) of (Some x, Some y) \<Rightarrow> f x y | _ \<Rightarrow> Inl e) = Inr r \<longleftrightarrow>
     (\<exists>x y. safe_str a = Some x \<and> safe_str b = Some y \<and> x \<noteq> [] \<and> y \<noteq> [] \<and> f x y = Inr r)"
  by (auto dest: safe_str_Some split: option.splits)

lemma one_text:
  "(case safe_str a of None \<Rightarrow> Inl e | Some x \<Rightarrow> f x) = Inr r \<longleftrightarrow> (\<exists>x. safe_str a = Some x \<and> x \<noteq> [] \<and> f x = Inr r)"
  by (auto dest: safe_str_Some split: option.splits)

lemma default_text: "d \<noteq> [] \<Longrightarrow> (case safe_str v of None \<Rightarrow> d | Some t \<Rightarrow> t) \<noteq> []"
  by (auto dest: safe_str_Some split: option.splits)

lemmas payload_simps = quarantines_simps redactions not_unsupported unsupported_type payload_ok_def text_at_def dget_Cons has_key_Cons default_text

lemma hive_observable_ok: "hive_observable w raw scope sid srev u = Inr ent \<Longrightarrow> projected w ''hive'' raw scope ent"
  unfolding hive_observable_def Let_def wb_result both_text
  by (elim exE conjE, rule projected_finish, assumption, assumption)
    (simp (no_asm_simp) add: payload_simps)

lemma hive_timeline_event_ok: "hive_timeline_event w c raw scope sid srev u = Inr ent \<Longrightarrow> projected w ''hive'' raw scope ent"
  unfolding hive_timeline_event_def Let_def wb_result
  by (elim exE conjE, rule projected_finish, assumption, assumption)
    (simp (no_asm_simp) add: payload_simps)

lemma hive_project_ok: "hive_project w kind c raw scope sid srev u = Inr ent \<Longrightarrow> projected w ''hive'' raw scope ent"
  by (auto simp: hive_project_def Let_def hive_case_ok hive_alert_ok hive_observable_ok hive_timeline_event_ok
      split: json.splits if_splits)

lemma iris_case_ok: "iris_case w raw scope sid srev u = Inr ent \<Longrightarrow> projected w ''iris'' raw scope ent"
  unfolding iris_case_def Let_def wb_result
  by (auto intro!: projected_finish simp: payload_ok_def text_at_def with_client_title base_title [unfolded text_at_def]
      quarantines_simps not_unsupported)

lemma iris_alert_ok: "iris_alert w raw scope sid srev u = Inr ent \<Longrightarrow> projected w ''iris'' raw scope ent"
  unfolding iris_alert_def Let_def wb_result
  by (auto intro!: projected_finish simp: payload_ok_def base_title quarantines_simps not_unsupported)

lemma iris_ioc_ok: "iris_ioc w raw scope sid srev u = Inr ent \<Longrightarrow> projected w ''iris'' raw scope ent"
  unfolding iris_ioc_def Let_def wb_result both_text
  by (elim exE conjE, rule projected_finish, assumption, assumption)
    (simp (no_asm_simp) add: payload_simps)

lemma iris_asset_ok: "iris_asset w raw scope sid srev u = Inr ent \<Longrightarrow> projected w ''iris'' raw scope ent"
  unfolding iris_asset_def Let_def wb_result both_text
  by (elim exE conjE, rule projected_finish, assumption, assumption)
    (simp (no_asm_simp) add: payload_simps asset_fields_text)

lemma iris_timeline_event_ok: "iris_timeline_event w c raw scope sid srev u = Inr ent \<Longrightarrow> projected w ''iris'' raw scope ent"
  unfolding iris_timeline_event_def Let_def wb_result
  by (elim exE conjE, rule projected_finish, assumption, assumption)
    (simp (no_asm_simp) add: payload_simps)

lemma iris_finding_ok: "iris_finding w raw scope sid srev u = Inr ent \<Longrightarrow> projected w ''iris'' raw scope ent"
  unfolding iris_finding_def Let_def wb_result both_text
  by (elim exE conjE, rule projected_finish, assumption, assumption)
    (simp (no_asm_simp) add: payload_simps)

lemma lower_hex: "is_hex c \<Longrightarrow> is_hex_char (lower_char c)"
  by (auto simp: is_hex_def is_hex_char_def lower_char_def is_digit_def Let_def)

lemma evidence_sha:
  "sha_check (lower (if \<not> full_sha256 x then empty_sha256 else the x))"
  "sha_check (lower empty_sha256)" "full_sha256 x \<Longrightarrow> sha_check (lower (the x))"
proof -
  show e: "sha_check (lower empty_sha256)" by code_simp
  show f: "full_sha256 x \<Longrightarrow> sha_check (lower (the x))"
    by (auto simp: full_sha256_def sha_check_def lower_def list_all_iff lower_hex split: option.splits)
  from e f show "sha_check (lower (if \<not> full_sha256 x then empty_sha256 else the x))" by simp
qed

lemma iris_evidence_reference_ok:
  "iris_evidence_reference w raw scope sid srev u = Inr ent \<Longrightarrow> projected w ''iris'' raw scope ent"
  unfolding iris_evidence_reference_def Let_def wb_result one_text
  by (elim exE conjE, rule projected_finish, assumption, assumption)
    (simp (no_asm_simp) add: payload_simps evidence_sha)

lemma iris_project_ok: "iris_project w kind c raw scope sid srev u = Inr ent \<Longrightarrow> projected w ''iris'' raw scope ent"
  by (auto simp: iris_project_def Let_def iris_case_ok iris_alert_ok iris_ioc_ok iris_asset_ok iris_timeline_event_ok
      iris_finding_ok iris_evidence_reference_ok split: json.splits if_splits)

section \<open>Projection as the boundary calls it\<close>

lemma get_adapter_Inr:
  "get_adapter L ss integ = Inr a \<Longrightarrow> \<exists>w. (a = Hive w \<or> a = Iris w) \<and> ad_host w = il_host L \<and> ad_integration w = integ"
  by (auto simp: get_adapter_def new_adapter_def Let_def wb_result split: json.splits if_splits)

lemma project_vendor_payload_Inr:
  assumes "project_vendor_payload L raw ss kind scope integ sid srev cat u = Inr ent"
  obtains w system where "projected w system raw scope ent" "system = ''hive'' \<or> system = ''iris''"
    "ad_host w = il_host L" "ad_integration w = integ" "strip (py_str scope) \<noteq> []"
proof -
  from assms obtain a where a: "get_adapter L ss integ = Inr a" "project_with a kind cat raw scope sid srev u = Inr ent"
    "strip (py_str scope) \<noteq> []" by (auto simp: project_vendor_payload_def wb_result)
  from get_adapter_Inr [OF a(1)] obtain w where w: "a = Hive w \<or> a = Iris w" "ad_host w = il_host L" "ad_integration w = integ"
    by blast
  from w(1) a(2) have "projected w ''hive'' raw scope ent \<or> projected w ''iris'' raw scope ent"
    by (auto dest: hive_project_ok iris_project_ok)
  with w(2,3) a(3) that show ?thesis by blast
qed

lemma provenance_fields:
  assumes "provenance w system kind sid srev ts scope lossy red = Inr prov"
  shows "dget prov ''source_scope'' = scope" "dget prov ''integration_id'' = ad_integration w"
    "dget prov ''source_system'' = JStr system" "dget prov ''source_entity'' = JStr kind"
    "dget prov ''redaction_flags'' = JObj red" "has_key prov ''redaction_flags''"
    "\<exists>key. idempotency_key (ad_host w) (ad_integration w) (JStr ''in'') (JStr system) (JStr kind)
       (dget prov ''source_id'') (dget prov ''source_revision'') = Inr key \<and> dget prov ''idempotency_key'' = JStr key"
  using assms by (cases ts; auto simp: provenance_def wb_result dget_Cons has_key_Cons)+

text \<open>C18: whatever the vendor, the entity and the overrides, a projection that is returned has the
  neutral shape: the raw value was an object without a credential-bearing key at any depth, the
  entity's kind has its required fields (a finding requires approval, evidence never carries
  content and has a full digest), and the provenance names the caller's own scope and integration
  and carries the idempotency key of exactly those parts.\<close>

theorem projected_entities_are_well_formed:
  assumes "project_vendor_payload L raw source_system entity scope integration sid srev cat u = Inr ent"
  shows "\<exists>d kind prov payload key. raw = JObj d \<and> (\<forall>k\<in>deep_keys raw. \<not> secret_key k) \<and>
    ent = interop_entity kind prov payload \<and> payload_ok kind payload \<and>
    dget prov ''source_scope'' = scope \<and> strip (py_str scope) \<noteq> [] \<and> dget prov ''integration_id'' = integration \<and>
    dget prov ''source_entity'' = JStr kind \<and>
    idempotency_key (il_host L) integration (JStr ''in'') (dget prov ''source_system'') (JStr kind)
      (dget prov ''source_id'') (dget prov ''source_revision'') = Inr key \<and> dget prov ''idempotency_key'' = JStr key"
proof -
  from assms obtain w system where w: "projected w system raw scope ent" "ad_host w = il_host L"
    "ad_integration w = integration" "strip (py_str scope) \<noteq> []" by (rule project_vendor_payload_Inr)
  from w(1) obtain kind prov payload sid' rv ts lossy red d where 1: "ent = interop_entity kind prov payload"
    "provenance w system kind sid' rv ts scope lossy red = Inr prov" "payload_ok kind payload"
    "raw = JObj d" "\<forall>k\<in>deep_keys raw. \<not> secret_key k" unfolding projected_def by blast
  note f = provenance_fields [OF 1(2)]
  from f(7) w(2,3) obtain key where k: "idempotency_key (il_host L) integration (JStr ''in'') (dget prov ''source_system'') (JStr kind)
      (dget prov ''source_id'') (dget prov ''source_revision'') = Inr key" "dget prov ''idempotency_key'' = JStr key"
    by (auto simp: f(3))
  show ?thesis using 1(1,3,4,5) f(1,2,4) w(3,4) k by blast
qed

section \<open>The envelope\<close>

lemma build_envelope_Inr:
  assumes "build_envelope_for_preview h raw interop received dr = Inr env"
  obtains r e prov flags where "raw = JObj r" "interop = JObj e" "dget_or e ''provenance'' (JObj []) = JObj prov"
    "py_or (dget prov ''redaction_flags'') (JObj []) = JObj flags" "dget env ''payload'' = raw" "has_key env ''payload''"
    "dget (processing_of env) ''status'' = fst (redaction_outcome flags (dr_quarantine dr))"
  using assms
  by (auto simp: build_envelope_for_preview_def Let_def wb_result dget_Cons has_key_Cons processing_of_def
      split: json.splits option.splits prod.splits)

lemma preview_Inr:
  assumes "preview_vendor_payload L raw ss kind scope integ sid srev dr = Inr pv"
  shows "project_vendor_payload L raw ss kind scope integ sid srev None (dr_source dr) = Inr (pv_interop pv)"
    "build_envelope_for_preview (il_host L) raw (JObj (pv_interop pv)) JNull dr = Inr (pv_envelope pv)"
    "pv_status pv = dget (processing_of (pv_envelope pv)) ''status''"
  using assms by (auto simp: preview_vendor_payload_def wb_result)

lemma preview_clean:
  assumes "preview_vendor_payload L raw ss kind scope integ sid srev dr = Inr pv"
  shows "dget_or (pv_envelope pv) ''payload'' v = raw" "\<forall>k\<in>deep_keys raw. \<not> secret_key k"
proof -
  from preview_Inr(2) [OF assms] show "dget_or (pv_envelope pv) ''payload'' v = raw"
    by (rule build_envelope_Inr) (auto simp: dget_or_def dget_def has_key_def)
  from preview_Inr(1) [OF assms] show "\<forall>k\<in>deep_keys raw. \<not> secret_key k"
    by (rule project_vendor_payload_Inr) (auto simp: projected_def)
qed

lemma outcome_status:
  "fst (redaction_outcome flags u) = (if quarantines flags then JStr ''quarantined'' else JStr ''preview'')"
proof (cases "List.find (\<lambda>p. quarantine_flag (snd p)) flags")
  case None
  then have "\<not> quarantines flags" by (auto simp: quarantines_def find_None_iff list_ex_iff)
  with None show ?thesis by (simp add: redaction_outcome_def)
next
  case (Some p)
  then have "quarantines flags" by (auto simp: quarantines_def find_Some_iff list_ex_iff)
  with Some show ?thesis by (cases p) (simp add: redaction_outcome_def)
qed

text \<open>C19: the envelope's status says what the projection decided, as the two readings of the redaction
  flags agree: an envelope is quarantined exactly when \<^verbatim>\<open>_is_quarantined\<close> holds of its
  entity, that is exactly when the vendor's type may carry bytes, and is a preview otherwise.\<close>

theorem quarantine_follows_the_type:
  assumes "preview_vendor_payload L raw source_system entity scope integration sid srev dr = Inr pv"
  shows "\<exists>kind prov payload system. pv_interop pv = interop_entity kind prov payload \<and> dget prov ''source_system'' = JStr system \<and>
    is_quarantined (pv_interop pv) = unsupported system kind payload \<and>
    pv_status pv = (if is_quarantined (pv_interop pv) then JStr ''quarantined'' else JStr ''preview'')"
proof -
  from preview_Inr(1) [OF assms] obtain w system where w: "projected w system raw scope (pv_interop pv)"
    by (rule project_vendor_payload_Inr)
  then obtain kind prov payload sid' rv ts lossy red where 1: "pv_interop pv = interop_entity kind prov payload"
    "provenance w system kind sid' rv ts scope lossy red = Inr prov"
    "quarantines red = unsupported system kind payload" unfolding projected_def by blast
  note f = provenance_fields [OF 1(2)]
  have flags: "py_or (dget prov ''redaction_flags'') (JObj []) = JObj red"
    by (simp add: f(5) py_or_def)
  have prov: "dget_or (pv_interop pv) ''provenance'' (JObj []) = JObj prov"
    by (simp add: 1(1) interop_entity_def dget_or_def)
  have "dget_or prov ''redaction_flags'' (JObj []) = JObj red"
    using f(5,6) by (auto simp: dget_or_def dget_def has_key_def)
  then have q: "is_quarantined (pv_interop pv) = quarantines red"
    using prov by (simp add: is_quarantined_def quarantines_def py_or_def)
  from preview_Inr(2) [OF assms] have "dget (processing_of (pv_envelope pv)) ''status'' = fst (redaction_outcome red (dr_quarantine dr))"
    by (rule build_envelope_Inr) (use prov flags in auto)
  then have "pv_status pv = (if quarantines red then JStr ''quarantined'' else JStr ''preview'')"
    by (simp add: preview_Inr(3) [OF assms] outcome_status)
  with 1 f(3) q show ?thesis by auto
qed

section \<open>The batch\<close>

lemma store_preview_payloads:
  "ig_payload ` set (ingest_rows (fst (store_preview h g p e u n c db))) \<subseteq>
     insert (dget_or e ''payload'' (JObj [])) (ig_payload ` set (ingest_rows db))"
proof (cases "snd (store_preview h g p e u n c db)")
  case (Inl err)
  then have "fst (store_preview h g p e u n c db) = db"
    by (auto simp: store_preview_def split: sum.splits prod.splits)
  then show ?thesis by auto
next
  case (Inr x)
  then obtain new db' ret where new: "envelope_row h g p e u n c = Inr new"
    and ins: "insert_ingest new db = Inr (db', ret)"
    by (auto simp: store_preview_def wb_result split: sum.splits prod.splits)
  have pay: "ig_payload new = dget_or e ''payload'' (JObj [])"
    using new by (auto simp: envelope_row_def wb_result Let_def)
  have same: "ig_payload (resolve_existing a b row r) = ig_payload r" for a b row r
    by (simp add: resolve_existing_def mark_conflict_def mark_duplicate_def)
  have upd: "ig_payload ` set (update_rows P (resolve_existing a b row) t) = ig_payload ` set t" for P a b row t
    using map_key_update_rows [of P ig_payload "resolve_existing a b row" t] same by (metis list.set_map)
  have "ig_payload ` set (ingest_rows db') \<subseteq> insert (ig_payload new) (ig_payload ` set (ingest_rows db))"
    using insert_ingest_cases [OF ins] by auto
  moreover have "fst (store_preview h g p e u n c db) = db' \<or>
      (\<exists>P a b row. fst (store_preview h g p e u n c db) =
         db'\<lparr>ingest_rows := update_rows P (resolve_existing a b row) (ingest_rows db')\<rparr>)"
    using Inr new ins
    by (auto simp: store_preview_def Let_def wb_result split: sum.splits prod.splits option.splits)
  ultimately have "ig_payload ` set (ingest_rows (fst (store_preview h g p e u n c db))) \<subseteq>
      insert (ig_payload new) (ig_payload ` set (ingest_rows db))"
    by (elim disjE exE) (simp_all add: upd)
  with pay show ?thesis by simp
qed

definition item_raw :: "json \<Rightarrow> json" where
  "item_raw it = (case it of JObj d \<Rightarrow> py_or (dget d ''raw'') (py_or (dget d ''payload'') it) | _ \<Rightarrow> it)"

definition clean_value :: "json \<Rightarrow> bool" where
  "clean_value v = (\<forall>k\<in>deep_keys v. \<not> secret_key k)"

lemma clean_value_dec [code]: "clean_value v = is_ok (reject_secret_keys v [])"
  using reject_secret_keys_iff(1) [of v "[]"] by (cases "reject_secret_keys v []") (auto simp: clean_value_def is_ok_iff)

text \<open>One item: what it does to the table, and what it answers.\<close>

lemma preview_item_effect:
  assumes "preview_item L p ss kind scope integ (it, dr) db = (db', r)"
  shows "(db' = db \<or> clean_value (item_raw it) \<and>
      ig_payload ` set (ingest_rows db') \<subseteq> insert (item_raw it) (ig_payload ` set (ingest_rows db))) \<and>
    (r = Inr res \<longrightarrow> clean_value (item_raw it) \<or> db' = db \<and> dget res ''status'' = JStr ''rejected'')"
proof (cases "\<exists>d. it = JObj d")
  case False
  with assms show ?thesis by (auto simp: preview_item_def split: json.splits)
next
  case True
  then obtain d where it: "it = JObj d" ..
  then have raw: "item_raw it = py_or (dget d ''raw'') (py_or (dget d ''payload'') (JObj d))" by (simp add: item_raw_def)
  show ?thesis
  proof (cases "truthy (py_or (dget d ''entity'') kind)")
    case False
    with assms it show ?thesis by (auto simp: preview_item_def Let_def)
  next
    case ent: True
    show ?thesis
    proof (cases "preview_vendor_payload L (item_raw it) ss (py_or (dget d ''entity'') kind) scope integ
        (dget d ''source_id'') (dget d ''source_revision'') dr")
      case (Inl e)
      with assms it ent raw show ?thesis
        by (cases e) (auto simp: preview_item_def Let_def rejected_result_def internal_result_def dget_Cons)
    next
      case (Inr pv)
      let ?s = "store_preview (il_host L) (il_pg L) p (pv_envelope pv) (dr_row dr) (dr_now dr) (dr_clock dr) db"
      have "clean_value (item_raw it)" using preview_clean(2) [OF Inr] by (simp add: clean_value_def)
      moreover have "fst (preview_item L p ss kind scope integ (it, dr) db) = fst ?s"
        using Inr ent it raw by (auto simp: preview_item_def Let_def split: prod.splits sum.splits option.splits)
      ultimately show ?thesis
        using store_preview_payloads [of "il_host L" "il_pg L" p "pv_envelope pv" "dr_row dr" "dr_now dr" "dr_clock dr" db]
          preview_clean(1) [OF Inr] assms by simp
    qed
  qed
qed

lemma preview_items_Inr:
  "preview_items L p ss kind scope integ (x # xs) db = (db', Inr rs) \<longleftrightarrow>
    (\<exists>db1 r rs'. preview_item L p ss kind scope integ x db = (db1, Inr r) \<and>
       preview_items L p ss kind scope integ xs db1 = (db', Inr rs') \<and> rs = r # rs')"
  by (auto simp: wb_act_Inr a_simps)

lemma preview_items_length:
  "preview_items L p ss kind scope integ xs db = (db', Inr rs) \<Longrightarrow> length rs = length xs"
proof (induction xs arbitrary: db rs)
  case (Cons x xs)
  then show ?case unfolding preview_items_Inr by auto
qed (simp add: a_simps)

lemma preview_items_payloads:
  "row \<in> set (ingest_rows (fst (preview_items L p ss kind scope integ xs db))) \<Longrightarrow>
    ig_payload row \<in> ig_payload ` set (ingest_rows db) \<or> clean_value (ig_payload row)"
proof (induction xs arbitrary: db)
  case Nil
  then show ?case by (auto simp: a_simps)
next
  case (Cons x xs)
  obtain it dr where x: "x = (it, dr)" by (cases x)
  obtain db1 r where i: "preview_item L p ss kind scope integ x db = (db1, r)" by (cases "preview_item L p ss kind scope integ x db")
  note eff = preview_item_effect [OF i [unfolded x], of "[]"]
  have base: "v \<in> ig_payload ` set (ingest_rows db) \<or> clean_value v" if "v \<in> ig_payload ` set (ingest_rows db1)" for v
    using eff that by auto
  show ?case
  proof (cases r)
    case (Inl e)
    then have "fst (preview_items L p ss kind scope integ (x # xs) db) = db1" using i by (simp add: a_bind_def)
    with Cons.prems base show ?thesis by auto
  next
    case (Inr res)
    have "fst (preview_items L p ss kind scope integ (x # xs) db) = fst (preview_items L p ss kind scope integ xs db1)"
      using i Inr by (auto simp: a_bind_def a_simps split: prod.splits sum.splits)
    with Cons.prems Cons.IH [of db1] base show ?thesis by auto
  qed
qed

lemma preview_items_rejected:
  assumes "preview_items L p ss kind scope integ xs db = (db', Inr rs)" "i < length xs" "\<not> clean_value (item_raw (fst (xs ! i)))"
  shows "dget (rs ! i) ''status'' = JStr ''rejected''"
  using assms
proof (induction xs arbitrary: db rs i)
  case (Cons x xs)
  from Cons.prems(1) obtain db1 r rs' where 1: "preview_item L p ss kind scope integ x db = (db1, Inr r)"
    "preview_items L p ss kind scope integ xs db1 = (db', Inr rs')" "rs = r # rs'" unfolding preview_items_Inr by blast
  show ?case
  proof (cases i)
    case 0
    obtain it dr where x: "x = (it, dr)" by (cases x)
    from preview_item_effect [OF 1(1) [unfolded x]] Cons.prems(3) 0 x 1(3) show ?thesis by auto
  next
    case (Suc j)
    with Cons.IH [OF 1(2), of j] Cons.prems(2,3) 1(3) show ?thesis by simp
  qed
qed simp

text \<open>C20: no credential enters the store through the intake: after any batch, finished or cut off by an
  error, every stored payload either was there before or has no credential-bearing key at any
  depth; and in a finished batch every item with such a key is answered as rejected.\<close>

theorem intake_stores_no_credentials:
  assumes "ingest_preview_batch L p source_system entity scope integration items db = (db', r)"
  shows "(\<forall>row\<in>set (ingest_rows db'). ig_payload row \<in> ig_payload ` set (ingest_rows db) \<or> clean_value (ig_payload row)) \<and>
    (\<forall>a i. r = Inr a \<longrightarrow> i < length items \<longrightarrow> \<not> clean_value (item_raw (fst (items ! i))) \<longrightarrow>
       dget (ba_results a ! i) ''status'' = JStr ''rejected'')"
proof -
  let ?run = "preview_items L p source_system entity scope integration items db"
  have "db' = fst ?run"
    using assms by (auto simp: ingest_preview_batch_def a_bind_def a_simps split: prod.splits sum.splits)
  moreover have "\<exists>rs. ?run = (db', Inr rs) \<and> ba_results a = rs" if "r = Inr a" for a
    using assms that by (auto simp: ingest_preview_batch_def wb_act_Inr a_simps)
  ultimately show ?thesis
    using preview_items_payloads [of _ L p source_system entity scope integration items db]
      preview_items_rejected [of L p source_system entity scope integration items db db'] by blast
qed

lemma count_name_in: "count_name v \<in> set count_names"
  by (auto simp: count_name_def count_names_def split: json.splits)

lemma counts_sum:
  assumes "distinct ks" "\<And>r. f r \<in> set ks"
  shows "sum_list (map (\<lambda>k. length (filter (\<lambda>r. f r = k) rs)) ks) = length rs"
proof (induction rs)
  case (Cons r rs)
  have "sum_list (map (\<lambda>k. length (filter (\<lambda>r. f r = k) (r # rs))) ks) =
      sum_list (map (\<lambda>k. (if f r = k then 1 else 0) + length (filter (\<lambda>r. f r = k) rs)) ks)"
    by (intro arg_cong [of _ _ sum_list] map_cong) auto
  also have "\<dots> = sum_list (map (\<lambda>k. if f r = k then 1 else 0) ks) + length rs"
    by (simp add: sum_list_addf Cons.IH)
  also have "sum_list (map (\<lambda>k. if f r = k then 1 else 0) ks) = (1::nat)"
    using assms(1) assms(2) [of r] by (induction ks) (auto simp: sum_list_0 cong: map_cong)
  finally show ?case by simp
qed simp

text \<open>A batch accounts for every item: a finished batch answers one result per item, in order, and
  its five counts add up to the number of items, so that none is dropped or counted twice.\<close>

theorem batch_counts_every_item:
  assumes "ingest_preview_batch L p source_system entity scope integration items db = (db', Inr a)"
  shows "length (ba_results a) = length items \<and> map fst (ba_counts a) = count_names \<and>
    sum_list (map snd (ba_counts a)) = length items"
proof -
  from assms obtain rs where rs: "preview_items L p source_system entity scope integration items db = (db', Inr rs)"
    "a = \<lparr>ba_counts = map (\<lambda>k. (k, count_of k rs)) count_names, ba_results = rs, ba_source_system = source_system\<rparr>"
    by (auto simp: ingest_preview_batch_def wb_act_Inr a_simps)
  have "distinct count_names" by (simp add: count_names_def)
  then have "sum_list (map (\<lambda>k. count_of k rs) count_names) = length rs"
    unfolding count_of_def by (rule counts_sum) (rule count_name_in)
  with rs preview_items_length [OF rs(1)] show ?thesis by (simp add: comp_def)
qed

section \<open>Source timestamps\<close>

definition negative_offset :: "string \<Rightarrow> bool" where
  "negative_offset t = (strip t = t \<and> CHR ''T'' \<in> set t \<and> CHR ''Z'' \<notin> set t \<and> CHR ''+'' \<notin> set t \<and>
     \<not> contains ''-00:00'' t \<and> \<not> contains ''+00:00'' t)"

lemma strip_snoc_Z: "strip t = t \<Longrightarrow> t \<noteq> [] \<Longrightarrow> strip (t @ ''Z'') = t @ ''Z''"
proof -
  assume st: "strip t = t" and ne: "t \<noteq> []"
  have "\<not> is_ws (hd t)"
  proof
    assume w: "is_ws (hd t)"
    from ne obtain c cs where t: "t = c # cs" by (cases t) auto
    have "length (strip t) \<le> length (dropWhile is_ws t)" unfolding strip_def
      by (metis length_dropWhile_le length_rev)
    also have "\<dots> \<le> length cs" using w t by (simp add: length_dropWhile_le)
    finally show False using st t by simp
  qed
  moreover have "\<not> is_ws (CHR ''Z'')" by (simp add: is_ws_def)
  ultimately show ?thesis using ne by (cases t) (simp_all add: strip_def)
qed

text \<open>The two adapters treat the same source time differently: a text with a negative offset, such as
  \<^verbatim>\<open>2026-01-01T00:00:00-05:00\<close>, is kept by the TheHive projection, while the DFIR-IRIS
  projection appends a second zone to it, fails to parse the result, and silently replaces the
  time of the record by its fixed fallback when no other field has one.\<close>

theorem negative_offsets_are_lost_by_iris:
  assumes "dget raw k = JStr t" "negative_offset t"
    and "iso_parse (ad_host w) t = IsoAware utc" "iso_parse (ad_host w) (t @ ''+00:00'') = IsoInvalid"
    and "k \<in> set keys" "\<forall>k'\<in>set keys. k' \<noteq> k \<longrightarrow> \<not> truthy (dget raw k')"
  shows "fst (hive_choose_ts w raw keys) = t \<and> iris_choose_ts w raw keys = fallback_stamp"
proof -
  have st: "strip t = t" and T: "CHR ''T'' \<in> set t" and Z: "CHR ''Z'' \<notin> set t" and z: "iris_zoned t = t @ ''Z''"
    using assms(2) by (auto simp: negative_offset_def iris_zoned_def rstrip_z_def)
      (metis dropWhile_eq_self_iff hd_in_set rev_is_Nil_conv rev_rev_ident set_rev)
  then have ne: "t \<noteq> []" by auto
  have nz: "\<not> suffix ''Z'' t" using Z by (auto simp: suffix_def)
  have h: "\<exists>tz. hive_stamp_at w raw k = Some (t, str_replace ''+00:00'' ''Z'' utc, tz)"
    using assms(1,3) ne st nz by (simp add: hive_stamp_at_def safe_str_def Let_def)
  have hn: "hive_stamp_at w raw k' = None" "iris_stamp_at w raw k' = None" if "k' \<in> set keys" "k' \<noteq> k" for k'
    using assms(6) that by (simp_all add: hive_stamp_at_def iris_stamp_at_def)
  have "normalize_iris_ts (JStr t) = Some t" using st ne T by (simp add: normalize_iris_ts_def)
  moreover have "utc_timestamp (ad_host w) (JStr (t @ ''Z'')) = Inl (Validation (''invalid timestamp: '' @ repr_str (t @ ''Z'')))"
    using strip_snoc_Z [OF st ne] assms(4) by (simp add: Let_def)
  ultimately have i: "iris_stamp_at w raw k = None"
    using assms(1) ne z by (simp add: iris_stamp_at_def Let_def)
  have "first_some (iris_stamp_at w raw) ks = None" if "set ks \<subseteq> set keys" for ks
    using that
  proof (induction ks)
    case (Cons a ks)
    then show ?case using i hn(2) [of a] by (cases "a = k") auto
  qed simp
  then have "iris_choose_ts w raw keys = fallback_stamp" by (simp add: iris_choose_ts_def)
  moreover have "\<exists>u tz. first_some (hive_stamp_at w raw) ks = Some (t, u, tz)" if "set ks \<subseteq> set keys" "k \<in> set ks" for ks
    using that
  proof (induction ks)
    case (Cons a ks)
    then show ?case using h hn(1) [of a] by (cases "a = k") auto
  qed simp
  then have "fst (hive_choose_ts w raw keys) = t" using assms(5) by (fastforce simp: hive_choose_ts_def)
  ultimately show ?thesis by blast
qed

section \<open>At concrete values\<close>

definition demo_lib :: ingest_lib where
  "demo_lib = \<lparr>il_host = demo_host, il_int = (\<lambda>s. None), il_trunc = (\<lambda>r. 0), il_pg = demo_pg\<rparr>"

definition demo_draw :: draw where
  "demo_draw = \<lparr>dr_source = ''s'', dr_env = ''e'', dr_quarantine = ''q'', dr_now = ''n'', dr_row = ''r'', dr_clock = ''c''\<rparr>"

definition demo_file :: json where
  "demo_file = JObj [(''dataType'', JStr ''file''), (''data'', JStr ''x''), (''_id'', JStr ''7'')]"

definition demo_preview :: "ingest_error + preview" where
  "demo_preview = preview_vendor_payload demo_lib demo_file (JStr ''hive'') (JStr ''ioc'') (JStr ''org'') (JStr ''i'') JNull JNull demo_draw"

definition demo_entity :: "ingest_error + dict" where
  "demo_entity = project_vendor_payload demo_lib demo_file (JStr ''hive'') (JStr ''ioc'') (JStr ''org'') (JStr ''i'') JNull JNull None ''u''"

definition demo_items :: "(json \<times> draw) list" where
  "demo_items = [(demo_file, demo_draw), (JObj [(''dataType'', JStr ''ip''), (''data'', JStr ''x''), (''token'', JStr ''y'')], demo_draw)]"

definition demo_batch :: "ingest_db \<times> (ingest_error + batch_answer)" where
  "demo_batch = ingest_preview_batch demo_lib demo_principal (JStr ''hive'') (JStr ''ioc'') (JStr ''org'') (JStr ''i'') demo_items empty_ingest"

lemma demo_intake_runs: "is_ok demo_entity" "is_ok demo_preview" "is_ok (snd demo_batch)"
  by code_simp+

theorem projected_entities_are_well_formed_witness:
  "\<exists>ent kind prov payload. demo_entity = Inr ent \<and> ent = interop_entity kind prov payload \<and> payload_ok kind payload \<and>
     dget prov ''source_scope'' = JStr ''org''"
proof -
  obtain ent where e: "demo_entity = Inr ent" using demo_intake_runs(1) by (auto simp: is_ok_iff)
  from projected_entities_are_well_formed [OF e [unfolded demo_entity_def]] e show ?thesis by blast
qed

theorem quarantine_follows_the_type_witness:
  "\<exists>pv kind prov payload system. demo_preview = Inr pv \<and> pv_interop pv = interop_entity kind prov payload \<and>
     is_quarantined (pv_interop pv) = unsupported system kind payload"
proof -
  obtain pv where e: "demo_preview = Inr pv" using demo_intake_runs(2) by (auto simp: is_ok_iff)
  from quarantine_follows_the_type [OF e [unfolded demo_preview_def]] e show ?thesis by blast
qed

theorem intake_stores_no_credentials_witness:
  "\<exists>a. snd demo_batch = Inr a \<and> dget (ba_results a ! 1) ''status'' = JStr ''rejected''"
proof -
  obtain a where a: "snd demo_batch = Inr a" using demo_intake_runs(3) by (auto simp: is_ok_iff)
  then have "ingest_preview_batch demo_lib demo_principal (JStr ''hive'') (JStr ''ioc'') (JStr ''org'') (JStr ''i'') demo_items
      empty_ingest = (fst demo_batch, Inr a)" by (metis demo_batch_def prod.collapse)
  from intake_stores_no_credentials [OF this] have "1 < length demo_items \<Longrightarrow> \<not> clean_value (item_raw (fst (demo_items ! 1))) \<Longrightarrow>
      dget (ba_results a ! 1) ''status'' = JStr ''rejected''" by blast
  moreover have "1 < length demo_items" by (simp add: demo_items_def)
  moreover have "\<not> clean_value (item_raw (fst (demo_items ! 1)))" by code_simp
  ultimately show ?thesis using a by blast
qed

theorem batch_counts_every_item_witness:
  "\<exists>a. snd demo_batch = Inr a \<and> length (ba_results a) = 2 \<and> sum_list (map snd (ba_counts a)) = 2"
proof -
  obtain a where a: "snd demo_batch = Inr a" using demo_intake_runs(3) by (auto simp: is_ok_iff)
  then have "ingest_preview_batch demo_lib demo_principal (JStr ''hive'') (JStr ''ioc'') (JStr ''org'') (JStr ''i'') demo_items
      empty_ingest = (fst demo_batch, Inr a)" by (metis demo_batch_def prod.collapse)
  from batch_counts_every_item [OF this] a show ?thesis by (simp add: demo_items_def)
qed

definition demo_zones :: host where
  "demo_zones = demo_host\<lparr>iso_parse := (\<lambda>s. if s = ''2026-01-01T00:00:00-05:00'' then IsoAware ''2026-01-01T05:00:00+00:00'' else IsoInvalid)\<rparr>"

theorem negative_offsets_are_lost_by_iris_witness:
  "fst (hive_choose_ts \<lparr>ad_host = demo_zones, ad_int = (\<lambda>s. None), ad_trunc = (\<lambda>r. 0), ad_integration = JStr ''i''\<rparr>
      [(''created_at'', JStr ''2026-01-01T00:00:00-05:00'')] [''updated_at'', ''created_at'']) = ''2026-01-01T00:00:00-05:00'' \<and>
   iris_choose_ts \<lparr>ad_host = demo_zones, ad_int = (\<lambda>s. None), ad_trunc = (\<lambda>r. 0), ad_integration = JStr ''i''\<rparr>
      [(''created_at'', JStr ''2026-01-01T00:00:00-05:00'')] [''updated_at'', ''created_at''] = fallback_stamp"
proof -
  have "negative_offset ''2026-01-01T00:00:00-05:00''" by code_simp
  then show ?thesis
    by (intro negative_offsets_are_lost_by_iris [where k = "''created_at''" and utc = "''2026-01-01T05:00:00+00:00''"])
      (simp_all add: demo_zones_def dget_Cons dget_Nil)
qed

end
