(* ===== verification/Metrics.thy ===== *)
theory Metrics
  imports Json "HOL-Library.Product_Lexorder"
begin

text \<open>
  \<^verbatim>\<open>metrics.py\<close> and \<^verbatim>\<open>alerts.py\<close>: the registry of counters and histograms, its Prometheus
  text, and the two alert rules.  A number is of any ordered type with addition, zero and
  division; its texts and Python's \<^verbatim>\<open>sum\<close> are fields of \<open>numerals\<close>.  The registry is an insertion-ordered
  dictionary; the lock is not modelled.
\<close>

type_synonym labels = "(string \<times> string) list"

type_synonym series = "string \<times> labels"

record 'f registry_state =
  mt_counters :: "(series \<times> 'f) list"
  mt_histograms :: "(series \<times> 'f list) list"

record 'f numerals =
  nu_lit :: "string \<Rightarrow> 'f"
  nu_str :: "'f \<Rightarrow> string"
  nu_fixed3 :: "'f \<Rightarrow> string"
  nu_int :: "'f \<Rightarrow> string"
  nu_sum :: "'f list \<Rightarrow> 'f"

definition no_metrics :: "'f registry_state" where
  "no_metrics = \<lparr>mt_counters = [], mt_histograms = []\<rparr>"

definition label_key :: "labels \<Rightarrow> labels" where
  "label_key l = sort l"

definition inc_counter :: "string \<Rightarrow> labels \<Rightarrow> 'f::{plus,zero} \<Rightarrow> 'f registry_state \<Rightarrow> 'f registry_state" where
  "inc_counter name l v m =
     (let k = (name, label_key l); old = (case map_of (mt_counters m) k of None \<Rightarrow> 0 | Some x \<Rightarrow> x) in
      m\<lparr>mt_counters := AList.update k (old + v) (mt_counters m)\<rparr>)"

definition observe_histogram :: "string \<Rightarrow> 'f \<Rightarrow> labels \<Rightarrow> 'f registry_state \<Rightarrow> 'f registry_state" where
  "observe_histogram name v l m =
     (let k = (name, label_key l); old = (case map_of (mt_histograms m) k of None \<Rightarrow> [] | Some xs \<Rightarrow> xs) in
      m\<lparr>mt_histograms := AList.update k (old @ [v]) (mt_histograms m)\<rparr>)"

definition reset_metrics :: "'f registry_state \<Rightarrow> 'f registry_state" where
  "reset_metrics m = \<lparr>mt_counters = [], mt_histograms = []\<rparr>"

definition label_match :: "labels \<Rightarrow> labels \<Rightarrow> bool" where
  "label_match want l = list_all (\<lambda>(k, v). map_of l k = Some v) want"

text \<open>The sum of a loop that skips the series it is not about.\<close>

fun sum_series :: "(series \<Rightarrow> bool) \<Rightarrow> (series \<times> 'f::plus) list \<Rightarrow> 'f \<Rightarrow> 'f" where
  "sum_series P [] tot = tot"
| "sum_series P ((k, v) # cs) tot = sum_series P cs (if P k then tot + v else tot)"

definition counter_total :: "string \<Rightarrow> labels \<Rightarrow> 'f::{plus,zero} registry_state \<Rightarrow> 'f" where
  "counter_total name want m = sum_series (\<lambda>(n, l). n = name \<and> label_match want l) (mt_counters m) 0"

section \<open>Prometheus text\<close>

definition fmt_labels :: "labels \<Rightarrow> string" where
  "fmt_labels l = (if l = [] then []
     else ''{'' @ join '','' (map (\<lambda>(k, v). k @ [CHR ''='', CHR 0x22] @ v @ [CHR 0x22]) l) @ ''}'')"

definition bucket_bounds :: "string list" where
  "bucket_bounds = [''0.005'', ''0.01'', ''0.025'', ''0.05'', ''0.1'', ''0.25'', ''0.5'', ''1'', ''2.5'', ''5'', ''10'']"

definition names_of :: "(series \<times> 'a) list \<Rightarrow> string list" where
  "names_of d = sort (remdups (map (\<lambda>x. fst (fst x)) d))"

definition counter_lines :: "'f numerals \<Rightarrow> (series \<times> 'f) list \<Rightarrow> string list" where
  "counter_lines nu cs = concat (map (\<lambda>name.
     (''# TYPE '' @ name @ '' counter'') #
     map (\<lambda>((n, l), v). name @ fmt_labels l @ '' '' @ nu_str nu v)
       (filter (\<lambda>x. fst (fst x) = name) (sort_key fst cs))) (names_of cs))"

definition series_lines :: "'f::linorder numerals \<Rightarrow> string \<Rightarrow> labels \<Rightarrow> 'f list \<Rightarrow> string list" where
  "series_lines nu name l values =
     (let sorted_vals = sort values; tot = dec_nat (length sorted_vals);
          line = (\<lambda>suff lb n. name @ suff @ fmt_labels lb @ '' '' @ n) in
      map (\<lambda>bound. line ''_bucket'' (l @ [(''le'', bound)])
             (dec_nat (length (filter (\<lambda>v. v \<le> nu_lit nu bound) sorted_vals)))) bucket_bounds @
      [line ''_bucket'' (l @ [(''le'', ''+Inf'')]) tot, line ''_sum'' l (nu_str nu (nu_sum nu sorted_vals)),
       line ''_count'' l tot])"

definition histogram_lines :: "'f::linorder numerals \<Rightarrow> (series \<times> 'f list) list \<Rightarrow> string list" where
  "histogram_lines nu hs = concat (map (\<lambda>name.
     (''# TYPE '' @ name @ '' histogram'') #
     concat (map (\<lambda>((n, l), vs). series_lines nu name l vs)
       (filter (\<lambda>x. fst (fst x) = name) (sort_key fst hs)))) (names_of hs))"

definition newline :: string where "newline = [CHR 0x0A]"

definition render_prometheus_text :: "'f::linorder numerals \<Rightarrow> 'f registry_state \<Rightarrow> string" where
  "render_prometheus_text nu m =
     (let lines = counter_lines nu (mt_counters m) @ histogram_lines nu (mt_histograms m) in
      if lines = [] then [] else join newline lines @ newline)"

section \<open>Alert rules\<close>

record alert_result =
  al_name :: string
  al_firing :: bool
  al_detail :: string

definition audit_sink_degraded :: "'f::{linorder,plus,zero} numerals \<Rightarrow> 'f registry_state \<Rightarrow> alert_result" where
  "audit_sink_degraded nu m =
     (let failures = counter_total ''audit_write_failures_total'' [] m in
      \<lparr>al_name = ''audit_sink_degraded'', al_firing = (nu_lit nu ''1'' \<le> failures),
       al_detail = ''audit_write_failures_total='' @ nu_str nu failures\<rparr>)"

definition status_5xx :: "labels \<Rightarrow> bool" where
  "status_5xx l = (case map_of l ''status'' of None \<Rightarrow> False | Some s \<Rightarrow> prefix ''5'' s)"

text \<open>The loop over the counters: all requests and the failed ones.\<close>

fun request_sums :: "(series \<times> 'f::plus) list \<Rightarrow> 'f \<times> 'f \<Rightarrow> 'f \<times> 'f" where
  "request_sums [] (tot, errors) = (tot, errors)"
| "request_sums (((name, l), v) # cs) (tot, errors) =
     (if name \<noteq> ''http_requests_total'' then request_sums cs (tot, errors)
      else request_sums cs (tot + v, if status_5xx l then errors + v else errors))"

definition elevated_error_rate :: "'f::{linorder,plus,zero,divide} numerals \<Rightarrow> 'f registry_state \<Rightarrow> alert_result" where
  "elevated_error_rate nu m =
     (let (tot, errors) = request_sums (mt_counters m) (0, 0);
          rate = (if tot \<noteq> 0 then errors div tot else 0) in
      \<lparr>al_name = ''elevated_http_error_rate'', al_firing = (0 < tot \<and> nu_lit nu ''0.05'' \<le> rate),
       al_detail = ''error_rate='' @ nu_fixed3 nu rate @ '' over '' @ nu_int nu tot @ '' requests''\<rparr>)"

definition evaluate_all :: "'f::{linorder,plus,zero,divide} numerals \<Rightarrow> 'f registry_state \<Rightarrow> alert_result list" where
  "evaluate_all nu m = [audit_sink_degraded nu m, elevated_error_rate nu m]"

definition firing_alerts :: "'f::{linorder,plus,zero,divide} numerals \<Rightarrow> 'f registry_state \<Rightarrow> alert_result list" where
  "firing_alerts nu m = filter al_firing (evaluate_all nu m)"

section \<open>The registry as the log of its increments\<close>

record 'f increment =
  in_name :: string
  in_labels :: labels
  in_value :: 'f

fun count_all :: "'f::{plus,zero} increment list \<Rightarrow> 'f registry_state \<Rightarrow> 'f registry_state" where
  "count_all [] m = m"
| "count_all (i # rest) m = count_all rest (inc_counter (in_name i) (in_labels i) (in_value i) m)"

lemma sum_series_add:
  fixes t :: "'f::comm_monoid_add"
  shows "sum_series P cs (t + a) = sum_series P cs t + a"
  by (induction P cs t arbitrary: a rule: sum_series.induct) (auto simp: ac_simps)

lemma sum_series_map:
  fixes t :: "'f::comm_monoid_add"
  shows "sum_series P cs t = t + sum_list (map snd (filter (\<lambda>x. P (fst x)) cs))"
  by (induction P cs t rule: sum_series.induct) (auto simp: ac_simps)

text \<open>One increment adds its value to every sum over a set of series it belongs to.\<close>

lemma sum_series_update:
  fixes v :: "'f::comm_monoid_add"
  assumes "dict_ok cs"
  shows "sum_series P (AList.update k ((case map_of cs k of None \<Rightarrow> 0 | Some x \<Rightarrow> x) + v) cs) t =
    sum_series P cs t + (if P k then v else 0)"
  using assms
proof (induction cs arbitrary: t)
  case (Cons c cs)
  obtain k' x where c: "c = (k', x)" by (cases c)
  show ?case
  proof (cases "k' = k")
    case True
    then show ?thesis using c by (cases "P k") (simp_all add: sum_series_add add.assoc)
  next
    case False
    with Cons.prems have "dict_ok cs" by (simp add: dict_ok_def c)
    with Cons.IH False c show ?thesis by simp
  qed
qed simp

end
