(* ===== verification/Audit_Trail.thy ===== *)
theory Audit_Trail
  imports Ingest_Repo Metrics
begin

text \<open>
  \<^verbatim>\<open>audit.py\<close> over the table of \<^verbatim>\<open>migrations/0004_create_audit_events.sql\<close>: the insert-only
  sink with its fallback to the process log, and the tenant-scoped query.  A log line is the
  exception that caused it, if any, with the redacted event that is serialised into it.  Whether
  the connection fails is an argument of the call (\<open>fault\<close>), as are uuid4 and the clocks.
\<close>

definition redact_keys :: "string list" where
  "redact_keys = [''authorization'', ''cookie'', ''password'', ''secret'', ''token'', ''api_key'', ''access_token'', ''refresh_token'']"

definition valid_actor_types :: "string list" where
  "valid_actor_types = [''user'', ''service'', ''job'', ''system'']"

definition valid_results :: "string list" where
  "valid_results = [''success'', ''denied'', ''validation_failed'', ''not_found'', ''conflict'', ''error'', ''partial'']"

record audit_event =
  ev_id :: string
  ev_tenant :: "string option"
  ev_case :: "string option"
  ev_actor_type :: string
  ev_actor_id :: "string option"
  ev_object_type :: "string option"
  ev_object_id :: "string option"
  ev_action :: string
  ev_result :: string
  ev_correlation :: string
  ev_source :: string
  ev_occurred :: string
  ev_recorded :: "string option"
  ev_metadata :: dict

definition text_json :: "string option \<Rightarrow> json" where
  "text_json x = (case x of None \<Rightarrow> JNull | Some s \<Rightarrow> JStr s)"

definition event_json :: "audit_event \<Rightarrow> json" where
  "event_json e = JObj
     [(''event_id'', JStr (ev_id e)), (''tenant_id'', text_json (ev_tenant e)), (''case_id'', text_json (ev_case e)),
      (''actor_type'', JStr (ev_actor_type e)), (''actor_id'', text_json (ev_actor_id e)),
      (''object_type'', text_json (ev_object_type e)), (''object_id'', text_json (ev_object_id e)),
      (''action'', JStr (ev_action e)), (''result'', JStr (ev_result e)), (''correlation_id'', JStr (ev_correlation e)),
      (''source'', JStr (ev_source e)), (''occurred_at'', JStr (ev_occurred e)),
      (''recorded_at'', text_json (ev_recorded e)), (''metadata'', JObj (ev_metadata e))]"

fun redact :: "json \<Rightarrow> json" where
  "redact (JObj d) = JObj (map (\<lambda>p. (fst p, if lower (fst p) \<in> set redact_keys then JStr ''[REDACTED]'' else redact (snd p))) d)"
| "redact (JList xs) = JList (map redact xs)"
| "redact v = v"

text \<open>A row is the event and the instant it was recorded.\<close>

record 'f audit_state =
  au_rows :: "(audit_event \<times> int) list"
  au_log :: "(string option \<times> json) list"
  au_metrics :: "'f registry_state"

text \<open>What the outside world contributes to one call: uuid4, the two clocks, and a failure of the
  connection.\<close>

record audit_world =
  aw_uuid :: string
  aw_now :: string
  aw_clock :: int
  aw_fault :: "string option"

definition one_of_text :: "string \<Rightarrow> string list \<Rightarrow> string" where
  "one_of_text what xs = what @ '' must be one of '' @ py_repr (JList (map JStr (sort xs)))"

definition check_event :: "audit_event \<Rightarrow> repo_error + unit" where
  "check_event e =
     (if ev_actor_type e \<notin> set valid_actor_types then Inl (ValueError (one_of_text ''actor_type'' valid_actor_types))
      else if ev_result e \<notin> set valid_results then Inl (ValueError (one_of_text ''result'' valid_results))
      else if ev_action e = [] \<or> ev_correlation e = [] then Inl (ValueError ''action and correlation_id are required'')
      else Inr ())"

section \<open>The table\<close>

definition audit_checks :: "audit_event \<Rightarrow> bool" where
  "audit_checks e = (ev_actor_type e \<in> {''user'', ''service'', ''job'', ''system''} \<and>
     ev_result e \<in> {''success'', ''denied'', ''validation_failed'', ''not_found'', ''conflict'', ''error'', ''partial''})"

definition opt_uuid :: "pg \<Rightarrow> string option \<Rightarrow> repo_error + string option" where
  "opt_uuid g x = (case x of None \<Rightarrow> Inr None | Some s \<Rightarrow> r_bind (uuid_column g s) (\<lambda>u. Inr (Some u)))"

definition insert_audit :: "pg \<Rightarrow> audit_event \<Rightarrow> int \<Rightarrow> (audit_event \<times> int) list \<Rightarrow> repo_error + (audit_event \<times> int) list" where
  "insert_audit g e t rows =
     r_bind (uuid_column g (ev_id e)) (\<lambda>i.
     r_bind (opt_uuid g (ev_tenant e)) (\<lambda>ten.
     r_bind (ts_column g (JStr (ev_occurred e))) (\<lambda>occ.
     r_bind (r_guard (audit_checks e) (DatabaseError ''CheckViolation'')) (\<lambda>_.
     r_bind (r_guard (\<not> holds_key (\<lambda>r. ev_id (fst r)) i rows) (DatabaseError ''UniqueViolation'')) (\<lambda>_.
       Inr (rows @ [(e\<lparr>ev_id := i, ev_tenant := ten, ev_occurred := occ\<rparr>, t)]))))))"

section \<open>The repository\<close>

definition write_audit :: "pg \<Rightarrow> audit_world \<Rightarrow> audit_event \<Rightarrow> (audit_event \<times> int) list \<Rightarrow> string + (audit_event \<times> int) list" where
  "write_audit g w e rows = (case aw_fault w of Some n \<Rightarrow> Inl n
     | None \<Rightarrow> (case insert_audit g e (aw_clock w) rows of Inl err \<Rightarrow> Inl (repo_error_name err) | Inr rows' \<Rightarrow> Inr rows'))"

text \<open>\<^verbatim>\<open>record\<close>, for an event whose id and time are still to be set; \<open>pool\<close> tells whether there is a
  connection pool, \<open>recorded_text\<close> is \<^verbatim>\<open>recorded_at::text\<close>.\<close>

definition record_event ::
  "pg \<Rightarrow> (int \<Rightarrow> string) \<Rightarrow> bool \<Rightarrow> audit_event \<Rightarrow> audit_world \<Rightarrow> 'f::{plus,zero,one} audit_state \<Rightarrow>
   'f audit_state \<times> (repo_error + audit_event)" where
  "record_event g recorded_text pool args w s =
     (case check_event args of
        Inl err \<Rightarrow> (s, Inl err)
      | Inr _ \<Rightarrow>
          (let event = args\<lparr>ev_id := aw_uuid w, ev_occurred := str_replace ''+00:00'' ''Z'' (aw_now w), ev_recorded := None\<rparr> in
           if \<not> pool then (s\<lparr>au_log := au_log s @ [(None, redact (event_json event))]\<rparr>, Inr event)
           else (case write_audit g w event (au_rows s) of
                   Inl n \<Rightarrow> (s\<lparr>au_log := au_log s @ [(Some n, redact (event_json event))],
                              au_metrics := inc_counter ''audit_write_failures_total'' [] 1 (au_metrics s)\<rparr>, Inr event)
                 | Inr rows \<Rightarrow> (s\<lparr>au_rows := rows\<rparr>, Inr (event\<lparr>ev_recorded := Some (recorded_text (aw_clock w))\<rparr>)))))"

definition newest_first :: "(audit_event \<times> int) list \<Rightarrow> (audit_event \<times> int) list" where
  "newest_first rows = rev (sort_key (\<lambda>r. (snd r, ev_id (fst r))) rows)"

definition filter_text :: "string option \<Rightarrow> string option \<Rightarrow> bool" where
  "filter_text want x = (case want of None \<Rightarrow> True | Some v \<Rightarrow> v = [] \<or> x = Some v)"

definition audit_where :: "string \<Rightarrow> string option \<Rightarrow> string option \<Rightarrow> audit_event \<times> int \<Rightarrow> bool" where
  "audit_where tenant case_id action r = (ev_tenant (fst r) = Some tenant \<and> filter_text case_id (ev_case (fst r)) \<and>
     filter_text action (Some (ev_action (fst r))))"

record audit_page =
  pg_items :: "audit_event list"
  pg_count :: nat
  pg_limit :: int
  pg_offset :: int

definition query_events ::
  "pg \<Rightarrow> (int \<Rightarrow> string) \<Rightarrow> bool \<Rightarrow> string \<Rightarrow> string option \<Rightarrow> string option \<Rightarrow> int \<Rightarrow> int \<Rightarrow> 'f audit_state \<Rightarrow>
   repo_error + audit_page" where
  "query_events g recorded_text pool tenant case_id action limit offset s =
     (if \<not> pool then Inr \<lparr>pg_items = [], pg_count = 0, pg_limit = limit, pg_offset = offset\<rparr>
      else r_bind (uuid_column g tenant) (\<lambda>t.
        r_bind (r_guard (0 \<le> limit) (DatabaseError ''InvalidRowCountInLimitClause'')) (\<lambda>_.
        r_bind (r_guard (0 \<le> offset) (DatabaseError ''InvalidRowCountInResultOffsetClause'')) (\<lambda>_.
        let hits = filter (audit_where t case_id action) (au_rows s) in
        Inr \<lparr>pg_items = map (\<lambda>r. (fst r)\<lparr>ev_recorded := Some (recorded_text (snd r))\<rparr>)
               (take (nat limit) (drop (nat offset) (newest_first hits))),
             pg_count = length hits, pg_limit = limit, pg_offset = offset\<rparr>))))"

end
