(* ===== verification/Audit_Correct.thy ===== *)
theory Audit_Correct
  imports Audit_Trail Fixtures "HOL-Library.Multiset"
begin

text \<open>
  What the audit trail promises: no accepted event is lost, the table only grows, a write that
  failed is counted and raises the alert, log lines carry no credential, and the pages of a
  query are the tenant's own events, newest first.
\<close>

section \<open>Redaction\<close>

text \<open>Everywhere inside a value, an item with a credential's name holds the redaction mark.\<close>

fun redacted :: "json \<Rightarrow> bool" where
  "redacted (JObj d) = (\<forall>p\<in>set d. if lower (fst p) \<in> set redact_keys then snd p = JStr ''[REDACTED]'' else redacted (snd p))"
| "redacted (JList xs) = (\<forall>x\<in>set xs. redacted x)"
| "redacted v = True"

lemma redact_redacted: "redacted (redact v)"
  by (induction v rule: redact.induct) auto

section \<open>Runs of calls\<close>

datatype audit_call = AuditCall audit_event audit_world

fun audit_step :: "pg \<Rightarrow> (int \<Rightarrow> string) \<Rightarrow> bool \<Rightarrow> audit_call \<Rightarrow> 'f::{plus,zero,one} audit_state \<Rightarrow>
    'f audit_state \<times> (repo_error + audit_event)" where
  "audit_step g rt pool (AuditCall e w) s = record_event g rt pool e w s"

definition failed_writes :: "(string option \<times> json) list \<Rightarrow> nat" where
  "failed_writes log = length (filter (\<lambda>l. fst l \<noteq> None) log)"

definition no_audit :: "'f audit_state" where
  "no_audit = \<lparr>au_rows = [], au_log = [], au_metrics = no_metrics\<rparr>"

text \<open>The failures the metrics know of.\<close>

definition counted_failures :: "'f::{plus,zero} audit_state \<Rightarrow> 'f" where
  "counted_failures s = counter_total ''audit_write_failures_total'' [] (au_metrics s)"

definition audit_ok :: "'f::{plus,zero,one,semiring_1} audit_state \<Rightarrow> bool" where
  "audit_ok s = (dict_ok (mt_counters (au_metrics s)) \<and> counted_failures s = of_nat (failed_writes (au_log s)) \<and>
     unique_by (\<lambda>r. ev_id (fst r)) (au_rows s) \<and> (\<forall>l\<in>set (au_log s). redacted (snd l)))"

lemma failure_counted:
  fixes m :: "'f::semiring_1 registry_state"
  assumes "dict_ok (mt_counters m)"
  shows "counter_total ''audit_write_failures_total'' [] (inc_counter ''audit_write_failures_total'' [] 1 m) =
      counter_total ''audit_write_failures_total'' [] m + 1"
    "dict_ok (mt_counters (inc_counter ''audit_write_failures_total'' [] 1 m))"
  using sum_series_update [OF assms, of "\<lambda>(n, l). n = ''audit_write_failures_total'' \<and> label_match [] l"
      "(''audit_write_failures_total'', label_key [])" 1 0] assms
  by (simp_all add: counter_total_def inc_counter_def Let_def label_match_def dict_ok_update)

lemma insert_audit_Inr:
  assumes "insert_audit g e t rows = Inr rows'"
  obtains x where "rows' = rows @ [(x, t)]" "\<not> holds_key (\<lambda>r. ev_id (fst r)) (ev_id x) rows"
  using assms by (force simp: insert_audit_def wb_result)

text \<open>One call: refused and without effect, or kept in exactly one of the two places.\<close>

lemma record_event_cases:
  assumes "record_event g rt pool e w s = (s', r)"
  obtains (refused) err where "s' = s" "r = Inl err" "check_event e = Inl err"
    | (logged) x where "s' = s\<lparr>au_log := au_log s @ [(None, redact (event_json x))]\<rparr>" "r = Inr x" "\<not> pool"
    | (failed) x n where "s' = s\<lparr>au_log := au_log s @ [(Some n, redact (event_json x))],
        au_metrics := inc_counter ''audit_write_failures_total'' [] 1 (au_metrics s)\<rparr>" "r = Inr x"
    | (stored) x y where "s' = s\<lparr>au_rows := au_rows s @ [(x, aw_clock w)]\<rparr>" "r = Inr y"
        "\<not> holds_key (\<lambda>r. ev_id (fst r)) (ev_id x) (au_rows s)"
proof (cases "check_event e")
  case (Inl err)
  with assms have "s' = s" "r = Inl err" by (auto simp: record_event_def)
  with Inl refused show ?thesis by blast
next
  case (Inr u)
  define x where "x = e\<lparr>ev_id := aw_uuid w, ev_occurred := str_replace ''+00:00'' ''Z'' (aw_now w), ev_recorded := None\<rparr>"
  show ?thesis
  proof (cases pool)
    case False
    with assms Inr logged [of x] show ?thesis by (simp add: record_event_def x_def Let_def)
  next
    case pool: True
    show ?thesis
    proof (cases "write_audit g w x (au_rows s)")
      case (Inl n)
      with assms Inr pool failed [of n x] show ?thesis by (simp add: record_event_def x_def Let_def)
    next
      case ok: (Inr rows)
      then have "insert_audit g x (aw_clock w) (au_rows s) = Inr rows"
        by (auto simp: write_audit_def split: option.splits sum.splits)
      then obtain y where "rows = au_rows s @ [(y, aw_clock w)]" "\<not> holds_key (\<lambda>r. ev_id (fst r)) (ev_id y) (au_rows s)"
        by (rule insert_audit_Inr)
      with ok assms Inr pool stored show ?thesis by (auto simp: record_event_def x_def Let_def)
    qed
  qed
qed

lemma audit_step_ok:
  fixes s :: "'f::semiring_1 audit_state"
  assumes "audit_ok s" shows "audit_ok (fst (audit_step g rt pool c s))"
proof (cases c)
  case (AuditCall e w)
  obtain s' r where r: "record_event g rt pool e w s = (s', r)" by (cases "record_event g rt pool e w s")
  from r have "audit_ok s'"
  proof (cases rule: record_event_cases)
    case refused
    with assms show ?thesis by simp
  next
    case logged
    with assms show ?thesis by (auto simp: audit_ok_def counted_failures_def failed_writes_def redact_redacted)
  next
    case failed
    with assms failure_counted [of "au_metrics s"] show ?thesis
      by (auto simp: audit_ok_def counted_failures_def failed_writes_def redact_redacted add.commute)
  next
    case stored
    with assms show ?thesis by (auto simp: audit_ok_def counted_failures_def unique_by_def holds_key_iff)
  qed
  with AuditCall r show ?thesis by simp
qed

lemma no_audit_ok: "audit_ok no_audit"
  by (simp add: audit_ok_def no_audit_def counted_failures_def counter_total_def no_metrics_def failed_writes_def unique_by_def)

lemma failed_iff: "(1 \<le> failed_writes log) = list_ex (\<lambda>l. fst l \<noteq> None) log"
  by (induction log) (auto simp: failed_writes_def)

definition accepted :: "(audit_call \<times> (repo_error + audit_event)) list \<Rightarrow> nat" where
  "accepted out = length (filter (\<lambda>x. is_ok (snd x)) out)"

lemma audit_run_kept:
  "prefix (au_rows s) (au_rows (fst (run_ops (audit_step g rt pool) cs s))) \<and>
   prefix (au_log s) (au_log (fst (run_ops (audit_step g rt pool) cs s))) \<and>
   length (au_rows (fst (run_ops (audit_step g rt pool) cs s))) + length (au_log (fst (run_ops (audit_step g rt pool) cs s))) =
     length (au_rows s) + length (au_log s) + accepted (snd (run_ops (audit_step g rt pool) cs s))"
proof (induction cs arbitrary: s)
  case (Cons c cs)
  obtain e w where c: "c = AuditCall e w" by (cases c)
  obtain s1 r where r: "record_event g rt pool e w s = (s1, r)" by (cases "record_event g rt pool e w s")
  from r have step: "prefix (au_rows s) (au_rows s1) \<and> prefix (au_log s) (au_log s1) \<and>
      length (au_rows s1) + length (au_log s1) = length (au_rows s) + length (au_log s) + (if is_ok r then 1 else 0)"
    by (cases rule: record_event_cases) (auto simp: is_ok_def)
  from Cons.IH [of s1] step r c show ?case
    by (auto simp: Let_def split_beta accepted_def intro: prefix_order.trans)
qed (simp add: accepted_def)

lemma run_audit_ok: "audit_ok s \<Longrightarrow> audit_ok (fst (run_ops (audit_step g rt pool) cs s))"
  by (rule run_ops_invariant) (auto intro: audit_step_ok)

text \<open>C21: the audit trail loses nothing and tells when it is degraded: after any calls on an empty trail,
  the rows and log lines together are as many as the accepted events, rows are never changed or
  removed and have distinct ids, no log line carries a value under a credential's name, and the
  alert on the audit sink fires exactly when some write failed.\<close>

theorem audit_trail_is_complete:
  fixes nu :: "'f::linordered_semidom numerals"
  assumes "nu_lit nu ''1'' = 1"
    and "run_ops (audit_step g rt pool) (before @ calls) no_audit = (s, out)"
  shows "length (au_rows s) + length (au_log s) = accepted out \<and> unique_by (\<lambda>r. ev_id (fst r)) (au_rows s) \<and>
    prefix (au_rows (fst (run_ops (audit_step g rt pool) before (no_audit :: 'f audit_state)))) (au_rows s) \<and>
    list_all (\<lambda>l. redacted (snd l)) (au_log s) \<and>
    al_firing (audit_sink_degraded nu (au_metrics s)) = list_ex (\<lambda>l. fst l \<noteq> None) (au_log s)"
proof -
  let ?b = "run_ops (audit_step g rt pool) before (no_audit :: 'f audit_state)"
  let ?run = "run_ops (audit_step g rt pool) (before @ calls) (no_audit :: 'f audit_state)"
  have s: "fst ?run = s" "snd ?run = out" using assms(2) by simp_all
  have "audit_ok (fst ?run)" by (rule run_audit_ok [OF no_audit_ok])
  then have ok: "audit_ok s" using s by simp
  have "s = fst (run_ops (audit_step g rt pool) calls (fst ?b))"
    using s by (simp add: run_ops_append Let_def split_beta)
  then have "prefix (au_rows (fst ?b)) (au_rows s)" using audit_run_kept [of "fst ?b" g rt pool calls] by simp
  moreover have "length (au_rows s) + length (au_log s) = accepted out"
    using audit_run_kept [of "no_audit :: 'f audit_state" g rt pool "before @ calls"] s by (simp add: no_audit_def)
  moreover have "al_firing (audit_sink_degraded nu (au_metrics s)) = (1 \<le> failed_writes (au_log s))"
    using ok assms(1) by (simp add: audit_sink_degraded_def Let_def audit_ok_def counted_failures_def)
  moreover have "(1 \<le> failed_writes (au_log s)) = list_ex (\<lambda>l. fst l \<noteq> None) (au_log s)"
    by (rule failed_iff)
  ultimately show ?thesis using ok by (simp add: audit_ok_def list_all_iff)
qed

section \<open>Queries\<close>

definition page_items :: "repo_error + audit_page \<Rightarrow> audit_event list" where
  "page_items r = (case r of Inl e \<Rightarrow> [] | Inr p \<Rightarrow> pg_items p)"

definition shown :: "(int \<Rightarrow> string) \<Rightarrow> audit_event \<times> int \<Rightarrow> audit_event" where
  "shown rt r = (fst r)\<lparr>ev_recorded := Some (rt (snd r))\<rparr>"

lemma query_events_page:
  assumes "uuid_cast g tenant = Some t"
  shows "query_events g rt True tenant c a (int n) (int i) s =
    Inr \<lparr>pg_items = map (shown rt) (take n (drop i (newest_first (filter (audit_where t c a) (au_rows s))))),
         pg_count = length (filter (audit_where t c a) (au_rows s)), pg_limit = int n, pg_offset = int i\<rparr>"
  using assms by (simp add: query_events_def uuid_column_def Let_def shown_def)

lemma concat_pages: "concat (map (\<lambda>i. take n (drop (i * n) xs)) [0..<k]) = take (k * n) xs"
proof (induction k)
  case (Suc k)
  have "take (Suc k * n) xs = take (k * n + n) xs" by (simp add: add.commute)
  with Suc show ?case by (simp add: take_add)
qed simp

text \<open>A query reads the tenant's own trail: the pages of a fixed size, put together, are the tenant's
  matching events and no others, each once, newest first; and every page counts all of them.\<close>

theorem audit_pages_are_the_tenants_trail:
  assumes "uuid_cast g tenant = Some t"
  shows "\<exists>whole. mset whole = mset (filter (audit_where t case_id action) (au_rows s)) \<and>
    list_all (\<lambda>r. ev_tenant (fst r) = Some t) whole \<and> sorted (rev (map (\<lambda>r. (snd r, ev_id (fst r))) whole)) \<and>
    concat (map (\<lambda>i. page_items (query_events g rt True tenant case_id action (int n) (int (i * n)) s)) [0..<k]) =
      map (shown rt) (take (k * n) whole) \<and>
    (\<exists>p. query_events g rt True tenant case_id action (int n) (int i) s = Inr p \<and> pg_count p = length whole)"
proof -
  let ?hits = "filter (audit_where t case_id action) (au_rows s)"
  have "concat (map (\<lambda>i. page_items (query_events g rt True tenant case_id action (int n) (int (i * n)) s)) [0..<k]) =
      map (shown rt) (concat (map (\<lambda>i. take n (drop (i * n) (newest_first ?hits))) [0..<k]))"
    unfolding query_events_page [OF assms] page_items_def by (simp add: map_concat comp_def)
  moreover have "mset (newest_first ?hits) = mset ?hits" by (simp add: newest_first_def)
  moreover have "sorted (rev (map (\<lambda>r. (snd r, ev_id (fst r))) (newest_first ?hits)))"
    by (simp add: newest_first_def rev_map)
  moreover have "list_all (\<lambda>r. ev_tenant (fst r) = Some t) (newest_first ?hits)"
    by (simp add: newest_first_def list_all_iff audit_where_def)
  ultimately show ?thesis
    by (intro exI [of _ "newest_first ?hits"]) (simp add: concat_pages query_events_page [OF assms] newest_first_def)
qed

section \<open>At concrete events\<close>

definition demo_event :: "string \<Rightarrow> audit_event" where
  "demo_event i = \<lparr>ev_id = i, ev_tenant = Some ''t1'', ev_case = None, ev_actor_type = ''user'', ev_actor_id = None,
     ev_object_type = None, ev_object_id = None, ev_action = ''http.request'', ev_result = ''success'',
     ev_correlation = ''c'', ev_source = ''api'', ev_occurred = ''o'', ev_recorded = None, ev_metadata = []\<rparr>"

definition demo_world :: "string \<Rightarrow> string option \<Rightarrow> audit_world" where
  "demo_world i f = \<lparr>aw_uuid = i, aw_now = ''n'', aw_clock = 1, aw_fault = f\<rparr>"

definition demo_numerals :: "int numerals" where
  "demo_numerals = \<lparr>nu_lit = (\<lambda>s. 1), nu_str = dec_int, nu_fixed3 = dec_int, nu_int = dec_int, nu_sum = sum_list\<rparr>"

definition demo_calls :: "audit_call list" where
  "demo_calls = [AuditCall (demo_event ''a'') (demo_world ''a'' None), AuditCall (demo_event ''b'') (demo_world ''b'' (Some ''OperationalError''))]"

definition demo_trail :: "int audit_state \<times> (audit_call \<times> (repo_error + audit_event)) list" where
  "demo_trail = run_ops (audit_step demo_pg (\<lambda>t. ''r'') True) ([] @ demo_calls) no_audit"

theorem audit_trail_is_complete_witness:
  "length (au_rows (fst demo_trail)) + length (au_log (fst demo_trail)) = 2 \<and>
   al_firing (audit_sink_degraded demo_numerals (au_metrics (fst demo_trail)))"
proof -
  have one: "nu_lit demo_numerals ''1'' = 1" by (simp add: demo_numerals_def)
  have run: "run_ops (audit_step demo_pg (\<lambda>t. ''r'') True) ([] @ demo_calls) no_audit = (fst demo_trail, snd demo_trail)"
    by (simp add: demo_trail_def)
  have "accepted (snd demo_trail) = 2" "list_ex (\<lambda>l. fst l \<noteq> None) (au_log (fst demo_trail))" by code_simp+
  with audit_trail_is_complete [OF one run] show ?thesis by simp
qed

theorem audit_pages_are_the_tenants_trail_witness:
  "\<exists>p. query_events demo_pg (\<lambda>t. ''r'') True ''t1'' None None (int 1) (int 0) (fst demo_trail) = Inr p \<and> pg_count p = 1"
proof -
  have "uuid_cast demo_pg ''t1'' = Some ''t1''" by (simp add: demo_pg_def)
  from audit_pages_are_the_tenants_trail [OF this, of None None "fst demo_trail" "\<lambda>t. ''r''" 1 0 0]
  obtain whole p where w: "mset whole = mset (filter (audit_where ''t1'' None None) (au_rows (fst demo_trail)))"
    "query_events demo_pg (\<lambda>t. ''r'') True ''t1'' None None (int 1) (int 0) (fst demo_trail) = Inr p" "pg_count p = length whole"
    by blast
  have "length (filter (audit_where ''t1'' None None) (au_rows (fst demo_trail))) = 1" by code_simp
  with w show ?thesis by (metis size_mset)
qed

end
