(* ===== verification/Api_Auth.thy ===== *)
theory Api_Auth
  imports Json Tenancy
begin

text \<open>
  The authentication seam of \<^verbatim>\<open>api.py\<close>: bearer tokens, the principal they stand for, the
  synthetic principal of development, and the scope guard.  Base64, JSON decoding, HMAC-SHA256,
  RSA verification and the comparison of the clock with a float are fields of \<open>crypto\<close>; the
  clock is an argument.  Every exception inside the verification becomes one and the same 401.
\<close>

datatype http_error = Http int string

record crypto =
  cy_b64 :: "string \<Rightarrow> string option"
  cy_loads :: "string \<Rightarrow> json option"
  cy_hmac :: "string \<Rightarrow> string \<Rightarrow> string"
  cy_rsa :: "string \<Rightarrow> string \<Rightarrow> string \<Rightarrow> string \<Rightarrow> bool"
  cy_float_le :: "string \<Rightarrow> int \<Rightarrow> bool"

record settings =
  se_env :: string
  se_synthetic_tenant :: string
  se_issuer :: "string option"
  se_audience :: "string option"
  se_hs256_secret :: "string option"
  se_jwks_json :: "string option"
  se_ai_enabled :: bool
  se_ai_policy :: string

definition jwt_error :: http_error where
  "jwt_error = Http 401 ''invalid bearer token''"

section \<open>Tokens\<close>

definition b64_field :: "crypto \<Rightarrow> json \<Rightarrow> string option" where
  "b64_field c v = (case v of JStr s \<Rightarrow> cy_b64 c s | _ \<Rightarrow> None)"

definition json_object :: "json option \<Rightarrow> dict option" where
  "json_object v = (case v of Some (JObj d) \<Rightarrow> Some d | _ \<Rightarrow> None)"

text \<open>The first RSA key with the token's key id; a key that is not an object raises.\<close>

fun find_key :: "json \<Rightarrow> json list \<Rightarrow> dict option" where
  "find_key kid [] = None"
| "find_key kid (k # ks) = (case k of
     JObj d \<Rightarrow> if dget d ''kid'' = kid \<and> dget d ''kty'' = JStr ''RSA'' then Some d else find_key kid ks
   | _ \<Rightarrow> None)"

definition hs256_ok :: "crypto \<Rightarrow> settings \<Rightarrow> string \<Rightarrow> string \<Rightarrow> bool" where
  "hs256_ok c s input signature = (case se_hs256_secret s of
     None \<Rightarrow> False
   | Some secret \<Rightarrow> secret \<noteq> [] \<and> cy_b64 c signature = Some (cy_hmac c secret input))"

definition rs256_ok :: "crypto \<Rightarrow> settings \<Rightarrow> dict \<Rightarrow> string \<Rightarrow> string \<Rightarrow> bool" where
  "rs256_ok c s header input signature = (case se_jwks_json s of
     None \<Rightarrow> False
   | Some text \<Rightarrow> text \<noteq> [] \<and>
       (case json_object (cy_loads c text) of
          None \<Rightarrow> False
        | Some jwks \<Rightarrow>
            (case dget_or jwks ''keys'' (JList []) of
               JList ks \<Rightarrow>
                 (case find_key (dget header ''kid'') ks of
                    None \<Rightarrow> False
                  | Some k \<Rightarrow>
                      (case (b64_field c (dget k ''n''), b64_field c (dget k ''e''), cy_b64 c signature) of
                         (Some n, Some e, Some sig) \<Rightarrow> cy_rsa c n e sig input
                       | _ \<Rightarrow> False))
             | _ \<Rightarrow> False)))"

definition signature_ok :: "crypto \<Rightarrow> settings \<Rightarrow> dict \<Rightarrow> string \<Rightarrow> string \<Rightarrow> bool" where
  "signature_ok c s header input signature =
     (if dget header ''alg'' = JStr ''HS256'' then hs256_ok c s input signature
      else if dget header ''alg'' = JStr ''RS256'' then rs256_ok c s header input signature
      else False)"

text \<open>A numeric claim that is not after the clock; \<open>None\<close> when it is not a number.\<close>

definition num_le :: "crypto \<Rightarrow> json \<Rightarrow> int \<Rightarrow> bool option" where
  "num_le c v now = (case v of JInt i \<Rightarrow> Some (i \<le> now) | JBool b \<Rightarrow> Some ((if b then 1 else 0) \<le> now)
     | JFloat r \<Rightarrow> Some (cy_float_le c r now) | _ \<Rightarrow> None)"

definition audience_ok :: "string \<Rightarrow> json \<Rightarrow> bool" where
  "audience_ok a v = (case v of JList xs \<Rightarrow> JStr a \<in> set xs | _ \<Rightarrow> v = JStr a)"

definition claims_ok :: "crypto \<Rightarrow> settings \<Rightarrow> dict \<Rightarrow> int \<Rightarrow> bool" where
  "claims_ok c s claims now =
     ((case se_issuer s of None \<Rightarrow> False | Some i \<Rightarrow> dget claims ''iss'' = JStr i) \<and>
      (case se_audience s of None \<Rightarrow> False | Some a \<Rightarrow> audience_ok a (dget claims ''aud'')) \<and>
      num_le c (dget claims ''exp'') now = Some False \<and>
      (has_key claims ''nbf'' \<longrightarrow> num_le c (dget claims ''nbf'') now = Some True) \<and>
      (case dget claims ''sub'' of JStr x \<Rightarrow> x \<noteq> [] | _ \<Rightarrow> False))"

definition verify_jwt :: "crypto \<Rightarrow> settings \<Rightarrow> string \<Rightarrow> int \<Rightarrow> http_error + dict" where
  "verify_jwt c s token now =
     (case split_on (CHR ''.'') token of
        [head, body, signature] \<Rightarrow>
          (case (json_object (Option.bind (cy_b64 c head) (cy_loads c)), json_object (Option.bind (cy_b64 c body) (cy_loads c))) of
             (Some header, Some claims) \<Rightarrow>
               if signature_ok c s header (head @ ''.'' @ body) signature \<and> claims_ok c s claims now
               then Inr claims else Inl jwt_error
           | _ \<Rightarrow> Inl jwt_error)
      | _ \<Rightarrow> Inl jwt_error)"

section \<open>Principals\<close>

fun ws_words :: "string \<Rightarrow> string \<Rightarrow> string list" where
  "ws_words w [] = (if w = [] then [] else [w])"
| "ws_words w (c # cs) = (if is_ws c then (if w = [] then ws_words [] cs else w # ws_words [] cs) else ws_words (w @ [c]) cs)"

definition is_text :: "json \<Rightarrow> bool" where
  "is_text v = (case v of JStr s \<Rightarrow> True | _ \<Rightarrow> False)"

definition text_of :: "json \<Rightarrow> string" where
  "text_of v = (case v of JStr s \<Rightarrow> s | _ \<Rightarrow> [])"

definition claim_scopes :: "dict \<Rightarrow> string list" where
  "claim_scopes claims = (case dget_or claims ''scp'' (JStr []) of JStr s \<Rightarrow> ws_words [] s | _ \<Rightarrow> [])"

definition claim_roles :: "dict \<Rightarrow> string list" where
  "claim_roles claims = (case dget_or claims ''roles'' (JList []) of
     JList xs \<Rightarrow> if list_all is_text xs then map text_of xs else [] | _ \<Rightarrow> [])"

definition principal_from_claims :: "dict \<Rightarrow> http_error + principal" where
  "principal_from_claims claims =
     (case (py_or (dget claims ''tid'') (dget claims ''tenant_id''), py_or (dget claims ''analyst_id'') (dget claims ''sub'')) of
        (JStr t, JStr a) \<Rightarrow>
          if t = [] \<or> a = [] then Inl jwt_error
          else Inr \<lparr>tenant_id = t, analyst_id = a, is_synthetic = False, subject = Some (text_of (dget claims ''sub'')),
                    roles = claim_roles claims, scopes = claim_scopes claims\<rparr>
      | _ \<Rightarrow> Inl jwt_error)"

definition synthetic_principal :: "settings \<Rightarrow> principal" where
  "synthetic_principal s = \<lparr>tenant_id = se_synthetic_tenant s, analyst_id = ''bbbbbbbb-bbbb-bbbb-bbbb-bbbbbbbbbbbb'',
     is_synthetic = True, subject = None, roles = [], scopes = [''cases:read'', ''cases:write'']\<rparr>"

text \<open>\<^verbatim>\<open>auth.partition(" ")\<close>\<close>

definition partition_space :: "string \<Rightarrow> string \<times> string" where
  "partition_space s = (takeWhile (\<lambda>c. c \<noteq> CHR '' '') s, drop 1 (dropWhile (\<lambda>c. c \<noteq> CHR '' '') s))"

definition current_principal :: "crypto \<Rightarrow> settings \<Rightarrow> string \<Rightarrow> int \<Rightarrow> http_error + principal" where
  "current_principal c s auth now =
     (if auth \<noteq> [] then
        (let (scheme, token) = partition_space auth in
         if lower scheme \<noteq> ''bearer'' \<or> token = [] then Inl jwt_error
         else r_bind (verify_jwt c s token now) principal_from_claims)
      else if se_env s = ''prod'' then Inl (Http 401 ''authentication required'')
      else Inr (synthetic_principal s))"

definition require_scopes :: "string list \<Rightarrow> principal \<Rightarrow> http_error + principal" where
  "require_scopes required p =
     (if set required \<subseteq> set (scopes p) \<union> set (roles p) then Inr p else Inl (Http 403 ''insufficient scope''))"

text \<open>A route that depends on \<^verbatim>\<open>require_scopes\<close>.\<close>

definition authorize :: "crypto \<Rightarrow> settings \<Rightarrow> string list \<Rightarrow> string \<Rightarrow> int \<Rightarrow> http_error + principal" where
  "authorize c s required auth now = r_bind (current_principal c s auth now) (require_scopes required)"

section \<open>What an accepted request rests on\<close>

definition token_valid :: "crypto \<Rightarrow> settings \<Rightarrow> string \<Rightarrow> int \<Rightarrow> dict \<Rightarrow> bool" where
  "token_valid c s token now claims =
     (\<exists>head body signature header. token = head @ ''.'' @ body @ ''.'' @ signature \<and>
        json_object (Option.bind (cy_b64 c head) (cy_loads c)) = Some header \<and>
        json_object (Option.bind (cy_b64 c body) (cy_loads c)) = Some claims \<and>
        (dget header ''alg'' = JStr ''HS256'' \<and> hs256_ok c s (head @ ''.'' @ body) signature \<or>
         dget header ''alg'' = JStr ''RS256'' \<and> rs256_ok c s header (head @ ''.'' @ body) signature))"

lemma verify_jwt_Inr:
  assumes "verify_jwt c s token now = Inr claims"
  shows "token_valid c s token now claims \<and> claims_ok c s claims now"
proof -
  from assms obtain head body signature header where 1: "split_on (CHR ''.'') token = [head, body, signature]"
    "json_object (Option.bind (cy_b64 c head) (cy_loads c)) = Some header"
    "json_object (Option.bind (cy_b64 c body) (cy_loads c)) = Some claims"
    "signature_ok c s header (head @ ''.'' @ body) signature" "claims_ok c s claims now"
    by (auto simp: verify_jwt_def split: list.splits option.splits if_splits)
  from join_split_on [of "CHR ''.''" token] 1(1) have "token = head @ ''.'' @ body @ ''.'' @ signature" by simp
  with 1(2-5) show ?thesis unfolding token_valid_def signature_ok_def by (metis (no_types, lifting))
qed

lemma verify_jwt_Inl: "verify_jwt c s token now = Inl e \<Longrightarrow> e = jwt_error"
  by (auto simp: verify_jwt_def split: list.splits option.splits if_splits)

end
