(* ===== verification/Api_Routes.thy ===== *)
theory Api_Routes
  imports Api_Auth Ingest Timeline_Flags Audit_Trail
begin

text \<open>
  The database routes of \<^verbatim>\<open>api.py\<close>: listing and creating cases, evidence metadata and
  findings over the tables of \<^verbatim>\<open>migrations/0003_create_api_resources.sql\<close>, and the
  intake, flag and audit routes over their repositories.  An exception no route handles is
  the generic 500 of the application.  \<^verbatim>\<open>str(uuid.UUID(x))\<close>, the casts, \<^verbatim>\<open>ILIKE\<close> and the
  text of an instant are fields of \<open>api_lib\<close>; uuid4 and the clock are arguments.
\<close>

record api_lib =
  al_uuid :: "string \<Rightarrow> string option"
  al_pg :: pg
  al_ilike :: "json \<Rightarrow> string \<Rightarrow> bool"
  al_instant :: "int \<Rightarrow> string"
  al_ingest :: ingest_lib

definition internal_error :: http_error where
  "internal_error = Http 500 ''internal server error''"

definition unprocessable :: http_error where
  "unprocessable = Http 422 ''validation error''"

section \<open>Resource tables\<close>

datatype resource_table = CaseRecord | EvidenceMetadata | Finding

fun table_name :: "resource_table \<Rightarrow> string" where
  "table_name CaseRecord = ''case_record''"
| "table_name EvidenceMetadata = ''evidence_metadata''"
| "table_name Finding = ''finding''"

record resource_row =
  rr_tenant :: string
  rr_id :: string
  rr_case :: string
  rr_payload :: dict
  rr_created :: int

record resource_db =
  rd_cases :: "resource_row list"
  rd_evidence :: "resource_row list"
  rd_findings :: "resource_row list"

fun table_rows :: "resource_table \<Rightarrow> resource_db \<Rightarrow> resource_row list" where
  "table_rows CaseRecord db = rd_cases db"
| "table_rows EvidenceMetadata db = rd_evidence db"
| "table_rows Finding db = rd_findings db"

fun set_rows :: "resource_table \<Rightarrow> resource_row list \<Rightarrow> resource_db \<Rightarrow> resource_db" where
  "set_rows CaseRecord rs db = db\<lparr>rd_cases := rs\<rparr>"
| "set_rows EvidenceMetadata rs db = db\<lparr>rd_evidence := rs\<rparr>"
| "set_rows Finding rs db = db\<lparr>rd_findings := rs\<rparr>"

definition resource_key :: "resource_row \<Rightarrow> string \<times> string" where
  "resource_key r = (rr_tenant r, rr_id r)"

definition db_uuid :: "api_lib \<Rightarrow> principal \<Rightarrow> http_error + string" where
  "db_uuid A p = (case al_uuid A (tenant_id p) of
     None \<Rightarrow> Inl (Http 400 ''authenticated tenant is not database-addressable'') | Some u \<Rightarrow> Inr u)"

text \<open>A repository or database error that no route maps.\<close>

definition unhandled :: "repo_error + 'a \<Rightarrow> http_error + 'a" where
  "unhandled r = (case r of Inl e \<Rightarrow> Inl internal_error | Inr x \<Rightarrow> Inr x)"

definition page_ok :: "int \<Rightarrow> int \<Rightarrow> bool" where
  "page_ok limit offset = (1 \<le> limit \<and> limit \<le> 100 \<and> 0 \<le> offset)"

definition given_text :: "string option \<Rightarrow> string option" where
  "given_text x = (case x of None \<Rightarrow> None | Some s \<Rightarrow> if s = [] then None else Some s)"

definition resource_where :: "api_lib \<Rightarrow> string \<Rightarrow> string option \<Rightarrow> string option \<Rightarrow> resource_row \<Rightarrow> bool" where
  "resource_where A tenant case_id q r = (rr_tenant r = tenant \<and>
     (case given_text case_id of None \<Rightarrow> True | Some c \<Rightarrow> rr_case r = c) \<and>
     (case given_text q of None \<Rightarrow> True | Some t \<Rightarrow> al_ilike A (JObj (rr_payload r)) (''%'' @ t @ ''%'')))"

definition resource_item :: "api_lib \<Rightarrow> resource_row \<Rightarrow> dict" where
  "resource_item A r = AList.update ''created_at'' (JStr (al_instant A (rr_created r))) (rr_payload r)"

record resource_page =
  rp_items :: "dict list"
  rp_count :: nat
  rp_limit :: int
  rp_offset :: int

definition resource_list ::
  "api_lib \<Rightarrow> resource_table \<Rightarrow> principal \<Rightarrow> string option \<Rightarrow> string option \<Rightarrow> int \<Rightarrow> int \<Rightarrow> resource_db \<Rightarrow>
   http_error + resource_page" where
  "resource_list A t p case_id q limit offset db =
     r_bind (db_uuid A p) (\<lambda>tenant0.
     r_bind (unhandled (uuid_column (al_pg A) tenant0)) (\<lambda>tenant.
     let hits = filter (resource_where A tenant case_id q) (table_rows t db) in
     Inr \<lparr>rp_items = map (resource_item A) (take (nat limit) (drop (nat offset) (sort_key (\<lambda>r. - rr_created r) hits))),
          rp_count = length hits, rp_limit = limit, rp_offset = offset\<rparr>))"

text \<open>\<^verbatim>\<open>{**payload, "id": ..., "tenant_id": ...}\<close> and the case id.\<close>

definition stored_payload :: "principal \<Rightarrow> dict \<Rightarrow> string \<Rightarrow> string \<Rightarrow> dict" where
  "stored_payload p payload item_id case_id =
     (let d = AList.update ''tenant_id'' (JStr (tenant_id p)) (AList.update ''id'' (JStr item_id) payload) in
      if case_id = [] then d else AList.update ''case_id'' (JStr case_id) d)"

definition insert_resource :: "resource_row \<Rightarrow> resource_row list \<Rightarrow> repo_error + resource_row list" where
  "insert_resource r rows =
     (if holds_key resource_key (resource_key r) rows then Inl (DatabaseError ''UniqueViolation'') else Inr (rows @ [r]))"

definition resource_create ::
  "api_lib \<Rightarrow> resource_table \<Rightarrow> principal \<Rightarrow> dict \<Rightarrow> string \<Rightarrow> int \<Rightarrow> resource_db \<Rightarrow> resource_db \<times> (http_error + dict)" where
  "resource_create A t p payload uuid_hex clock db =
     (case db_uuid A p of
        Inl e \<Rightarrow> (db, Inl e)
      | Inr tenant0 \<Rightarrow>
          (let item_id = py_str (py_or (dget payload ''id'') (JStr (table_name t @ ''-'' @ take 12 uuid_hex)));
               case_id = py_str (py_or (dget payload ''case_id'') (JStr [])) in
           if t \<noteq> CaseRecord \<and> case_id = [] then (db, Inl (Http 400 ''case_id required''))
           else
             (case uuid_column (al_pg A) tenant0 of
                Inl e \<Rightarrow> (db, Inl internal_error)
              | Inr tenant \<Rightarrow>
                  (let row = \<lparr>rr_tenant = tenant, rr_id = item_id, rr_case = (if t = CaseRecord then item_id else case_id),
                              rr_payload = stored_payload p payload item_id case_id, rr_created = clock\<rparr> in
                   case insert_resource row (table_rows t db) of
                     Inl e \<Rightarrow> (db, Inl internal_error)
                   | Inr rows \<Rightarrow> (set_rows t rows db, Inr (resource_item A row))))))"

definition list_route ::
  "api_lib \<Rightarrow> resource_table \<Rightarrow> principal \<Rightarrow> string option \<Rightarrow> string option \<Rightarrow> int \<Rightarrow> int \<Rightarrow> resource_db \<Rightarrow> http_error + resource_page" where
  "list_route A t p case_id q limit offset db =
     r_bind (r_guard (page_ok limit offset) unprocessable) (\<lambda>_.
       resource_list A t p (if t = CaseRecord then None else case_id) q limit offset db)"

definition create_evidence ::
  "api_lib \<Rightarrow> principal \<Rightarrow> dict \<Rightarrow> string \<Rightarrow> int \<Rightarrow> resource_db \<Rightarrow> resource_db \<times> (http_error + dict)" where
  "create_evidence A p payload uuid_hex clock db =
     (if truthy (dget_or payload ''content_transferred'' (JBool False))
      then (db, Inl (Http 400 ''evidence content transfer is not supported''))
      else resource_create A EvidenceMetadata p (AList.update ''content_transferred'' (JBool False) payload) uuid_hex clock db)"

definition create_route ::
  "api_lib \<Rightarrow> resource_table \<Rightarrow> principal \<Rightarrow> dict \<Rightarrow> string \<Rightarrow> int \<Rightarrow> resource_db \<Rightarrow> resource_db \<times> (http_error + dict)" where
  "create_route A t p payload uuid_hex clock db =
     (if t = EvidenceMetadata then create_evidence A p payload uuid_hex clock db
      else resource_create A t p payload uuid_hex clock db)"

section \<open>Intake, flag and audit routes\<close>

definition route_error :: "int \<Rightarrow> repo_error \<Rightarrow> http_error" where
  "route_error code e = (case e of ValueError m \<Rightarrow> Http code m | _ \<Rightarrow> internal_error)"

definition route_answer :: "int \<Rightarrow> 's \<times> (repo_error + 'a) \<Rightarrow> 's \<times> (http_error + 'a)" where
  "route_answer code x = (fst x, case snd x of Inl e \<Rightarrow> Inl (route_error code e) | Inr r \<Rightarrow> Inr r)"

definition list_or_empty :: "json \<Rightarrow> json list option" where
  "list_or_empty v = (case v of JList xs \<Rightarrow> Some xs | _ \<Rightarrow> if truthy v then None else Some [])"

definition ingest_preview_route ::
  "api_lib \<Rightarrow> principal \<Rightarrow> dict \<Rightarrow> (nat \<Rightarrow> draw) \<Rightarrow> ingest_db \<Rightarrow> ingest_db \<times> (http_error + batch_answer)" where
  "ingest_preview_route A p payload draws db =
     (case list_or_empty (dget_or payload ''items'' (JList [])) of
        None \<Rightarrow> (db, Inl internal_error)
      | Some items \<Rightarrow>
          (case ingest_preview_batch (al_ingest A) p (dget_or payload ''source_system'' (JStr [])) (dget payload ''entity'')
                  (dget_or payload ''source_scope'' (JStr [])) (dget_or payload ''integration_id'' (JStr ''default''))
                  (zip items (map draws [0..<length items])) db of
             (db', Inl (Validation m)) \<Rightarrow> (db', Inl (Http 400 m))
           | (db', Inl (Raised n)) \<Rightarrow> (db', Inl internal_error)
           | (db', Inr a) \<Rightarrow> (db', Inr a)))"

definition ingest_approve_route ::
  "api_lib \<Rightarrow> principal \<Rightarrow> string \<Rightarrow> string \<Rightarrow> ingest_db \<Rightarrow> ingest_db \<times> (http_error + ingest_envelope option)" where
  "ingest_approve_route A p envelope_id clock db = route_answer 404 (approve_envelope (al_pg A) p envelope_id clock db)"

definition ingest_commit_route ::
  "api_lib \<Rightarrow> principal \<Rightarrow> string \<Rightarrow> dict \<Rightarrow> string \<Rightarrow> ingest_db \<Rightarrow> ingest_db \<times> (http_error + ingest_envelope option)" where
  "ingest_commit_route A p envelope_id payload clock db =
     (case text_param (al_pg A) (dget payload ''target_id'') of
        None \<Rightarrow> (db, Inl internal_error)
      | Some t \<Rightarrow> route_answer 409 (apply_commit (al_pg A) p envelope_id t clock db))"

definition ingest_quarantine_route ::
  "api_lib \<Rightarrow> principal \<Rightarrow> string \<Rightarrow> dict \<Rightarrow> string \<Rightarrow> string \<Rightarrow> ingest_db \<Rightarrow> ingest_db \<times> (http_error + ingest_envelope option)" where
  "ingest_quarantine_route A p envelope_id payload uuid_hex clock db =
     (case text_param (al_pg A) (dget payload ''reason'') of
        None \<Rightarrow> (db, Inl internal_error)
      | Some t \<Rightarrow> route_answer 404 (mark_quarantined (al_pg A) p envelope_id t uuid_hex clock db))"

definition create_flag_route ::
  "api_lib \<Rightarrow> principal \<Rightarrow> dict \<Rightarrow> string \<Rightarrow> int \<Rightarrow> flag_db \<Rightarrow> flag_db \<times> (http_error + timeline_flag)" where
  "create_flag_route A p payload new_id clock db = route_answer 400
     (create_flag (al_pg A) p (dget_or payload ''timeline_entry_id'' (JStr [])) (dget payload ''note'') None new_id clock db)"

definition list_flags_route :: "api_lib \<Rightarrow> principal \<Rightarrow> string \<Rightarrow> flag_db \<Rightarrow> http_error + timeline_flag list" where
  "list_flags_route A p timeline_entry_id db = unhandled (list_for_entry (al_pg A) p (JStr timeline_entry_id) db)"

definition audit_events_route ::
  "api_lib \<Rightarrow> bool \<Rightarrow> principal \<Rightarrow> string option \<Rightarrow> string option \<Rightarrow> int \<Rightarrow> int \<Rightarrow> 'f audit_state \<Rightarrow> http_error + audit_page" where
  "audit_events_route A pool p case_id action limit offset s =
     r_bind (r_guard (page_ok limit offset) unprocessable) (\<lambda>_.
     r_bind (db_uuid A p) (\<lambda>tenant.
       unhandled (query_events (al_pg A) (al_instant A) pool tenant case_id action limit offset s)))"

end
