(* ===== verification/Api_Ai.thy ===== *)
theory Api_Ai
  imports Api_Routes Context_Builder Model_Gateway
begin

text \<open>
  The AI routes of \<^verbatim>\<open>api.py\<close>: the per-analyst rate limiter, the resolution of a selected
  resource on the server, and asking, reading, cancelling and approving a request.  They compose
  the context builder, the model gateway with its local mock and the audit trail.  Clocks are
  microseconds.  \<^verbatim>\<open>_resolve_ai_resource\<close> calls \<^verbatim>\<open>_db_uuid\<close>, a name that exists only inside
  \<^verbatim>\<open>create_app\<close>: the branch of database tenants raises \<^verbatim>\<open>NameError\<close> before it reads a row,
  and the model does the same.
\<close>

section \<open>The rate limiter\<close>

type_synonym analyst_key = "string \<times> string"

record limiter =
  li_rate :: "(analyst_key \<times> int list) list"
  li_flight :: "analyst_key list"

definition rate_limit :: nat where "rate_limit = 20"
definition rate_window :: int where "rate_window = 3600 * 1000000"
definition request_ttl :: int where "request_ttl = 3600 * 1000000"

definition analyst_key :: "principal \<Rightarrow> analyst_key" where
  "analyst_key p = (tenant_id p, analyst_id p)"

definition rate_of :: "limiter \<Rightarrow> analyst_key \<Rightarrow> int list" where
  "rate_of l k = (case map_of (li_rate l) k of None \<Rightarrow> [] | Some ts \<Rightarrow> ts)"

text \<open>Expired times leave the queue even when the request is then refused.\<close>

definition begin_ai_request :: "principal \<Rightarrow> int \<Rightarrow> limiter \<Rightarrow> limiter \<times> (http_error + analyst_key)" where
  "begin_ai_request p now l =
     (let k = analyst_key p in
      if k \<in> set (li_flight l) then (l, Inl (Http 429 ''AI request limit exceeded''))
      else (let ts = dropWhile (\<lambda>t. rate_window \<le> now - t) (rate_of l k) in
            if rate_limit \<le> length ts
            then (l\<lparr>li_rate := AList.update k ts (li_rate l)\<rparr>, Inl (Http 429 ''AI request limit exceeded''))
            else (l\<lparr>li_rate := AList.update k (ts @ [now]) (li_rate l), li_flight := k # li_flight l\<rparr>, Inr k)))"

definition end_ai_request :: "analyst_key \<Rightarrow> limiter \<Rightarrow> limiter" where
  "end_ai_request k l = l\<lparr>li_flight := filter (\<lambda>x. x \<noteq> k) (li_flight l)\<rparr>"

section \<open>State\<close>

record ai_record =
  ar_id :: string
  ar_tenant :: string
  ar_analyst :: string
  ar_created :: int
  ar_case :: string
  ar_status :: string
  ar_question :: string
  ar_class :: string
  ar_resource :: string
  ar_manifest :: json
  ar_provenance :: json
  ar_answer :: string
  ar_citations :: json
  ar_provider :: string
  ar_model :: string
  ar_metadata :: json
  ar_approval :: "(string \<times> string) option"

type_synonym ai_requests = "(string \<times> (string \<times> ai_record) list) list"

record 'f ai_state =
  ai_requests :: ai_requests
  ai_limiter :: limiter
  ai_budget :: "'f budget"
  ai_audit :: "'f audit_state"

record 'f ai_env =
  ae_api :: api_lib
  ae_host :: host
  ae_net :: "'f net"
  ae_settings :: settings
  ae_pool :: bool

definition purge_ai_requests :: "int \<Rightarrow> ai_requests \<Rightarrow> ai_requests" where
  "purge_ai_requests now m = filter (\<lambda>x. snd x \<noteq> [])
     (map (\<lambda>(t, rs). (t, filter (\<lambda>r. \<not> request_ttl < now - ar_created (snd r)) rs)) m)"

definition find_ai_request :: "string \<Rightarrow> string \<Rightarrow> ai_requests \<Rightarrow> ai_record option" where
  "find_ai_request tenant rid m = (case map_of m tenant of None \<Rightarrow> None | Some rs \<Rightarrow> map_of rs rid)"

definition put_ai_request :: "ai_record \<Rightarrow> ai_requests \<Rightarrow> ai_requests" where
  "put_ai_request r m =
     (let rs = (case map_of m (ar_tenant r) of None \<Rightarrow> [] | Some rs \<Rightarrow> rs) in
      AList.update (ar_tenant r) (AList.update (ar_id r) r rs) m)"

definition approval_json :: "ai_record \<Rightarrow> json" where
  "approval_json r = (case ar_approval r of None \<Rightarrow> JNull
     | Some (target, by) \<Rightarrow> JObj [(''target'', JStr target), (''approved_by'', JStr by), (''approved'', JBool True)])"

text \<open>What a caller sees of a record: everything but the tenant and the analyst.\<close>

definition public_record :: "ai_record \<Rightarrow> dict" where
  "public_record r =
     [(''request_id'', JStr (ar_id r)), (''created_at_epoch'', JInt (ar_created r)), (''case_id'', JStr (ar_case r)),
      (''status'', JStr (ar_status r)), (''question'', JStr (ar_question r)),
      (''selected_context'', JObj [(''resource_class'', JStr (ar_class r)), (''resource_id'', JStr (ar_resource r))]),
      (''context_manifest'', ar_manifest r), (''provenance'', ar_provenance r), (''answer'', JStr (ar_answer r)),
      (''citations'', ar_citations r), (''confidence'', JStr ''limited''),
      (''limitations'', JList [JStr ''AI output is advisory and may be incomplete.'',
         JStr ''Evidence remains untrusted data; analyst verification is required.'']),
      (''provider'', JStr (ar_provider r)), (''model'', JStr (ar_model r)), (''raw_metadata'', ar_metadata r),
      (''approval'', approval_json r)]"

section \<open>The selected resource\<close>

datatype ask_error = CtxError context_error | GwError gw_error | WebError http_error

definition not_authorized :: ask_error where
  "not_authorized = CtxError (ContextBuildError ''NOT_AUTHORIZED'')"

definition synthetic_resources :: "((string \<times> string \<times> string \<times> string) \<times> dict) list" where
  "synthetic_resources = [((''synthetic-test-tenant'', ''case-demo'', ''artifact'', ''artifact-1''),
     [(''id'', JStr ''artifact-1''), (''case_id'', JStr ''case-demo''),
      (''description'', JStr ''server-authoritative synthetic artifact'')])]"

definition stored_classes :: "string list" where
  "stored_classes = [''case'', ''evidence'', ''artifact'', ''finding'']"

definition null_or :: "string \<Rightarrow> json \<Rightarrow> bool" where
  "null_or s v = (v = JNull \<or> v = JStr s)"

definition resolve_ai_resource :: "bool \<Rightarrow> principal \<Rightarrow> dict \<Rightarrow> string \<Rightarrow> ask_error + dict" where
  "resolve_ai_resource pool p selection case_id =
     (let cls0 = dget_or selection ''resource_class'' (dget selection ''class'');
          cls = (if cls0 = JStr ''report'' then JStr ''report_section'' else cls0);
          rid = dget_or selection ''resource_id'' (dget selection ''id'') in
      case (cls, rid) of
        (JStr c, JStr r) \<Rightarrow>
          if r = [] then Inl not_authorized
          else if \<not> null_or (tenant_id p) (dget selection ''tenant_id'') \<or> \<not> null_or case_id (dget selection ''case_id'')
          then Inl not_authorized
          else if is_uuid (tenant_id p) then
            (if \<not> pool then Inl (WebError (Http 503 ''AI resource store unavailable''))
             else if c \<notin> set stored_classes then Inl not_authorized
             else Inl (WebError internal_error))
          else (case map_of synthetic_resources (tenant_id p, case_id, c, r) of
                  None \<Rightarrow> Inl not_authorized
                | Some data \<Rightarrow> Inr [(''resource_class'', JStr c), (''resource_id'', JStr r), (''tenant_id'', JStr (tenant_id p)),
                    (''case_id'', JStr case_id), (''data'', JObj data)])
      | _ \<Rightarrow> Inl not_authorized)"

section \<open>Asking\<close>

definition local_mock :: "'f net \<Rightarrow> 'f registry" where
  "local_mock n = [(''local-mock'', \<lparr>pr_id = ''local-mock'', pr_url = ''mock://local'', pr_model = ''deterministic-mock'',
     pr_timeout = f_lit n ''15.0'', pr_retries = 1, pr_max_output = 2000, pr_secret = None, pr_external = False, pr_cost = None,
     pr_policy = ''default'', pr_compat = ''chat-completions-v1''\<rparr>)]"

definition obj_get :: "json \<Rightarrow> string \<Rightarrow> json" where
  "obj_get v k = (case v of JObj d \<Rightarrow> dget d k | _ \<Rightarrow> JNull)"

definition ask_messages :: "host \<Rightarrow> context_package \<Rightarrow> dict list" where
  "ask_messages h pkg =
     [[(''role'', JStr ''system''), (''content'', obj_get (package_prompt pkg) ''system'')],
      [(''role'', JStr ''user''), (''content'', JStr (dumps_ascii h (JObj
         [(''question'', obj_get (package_prompt pkg) ''question''), (''context'', obj_get (package_prompt pkg) ''context'')])))]]"

fun ask_http :: "ask_error \<Rightarrow> http_error" where
  "ask_http (CtxError e) = Http 400 ''context rejected''"
| "ask_http (GwError e) = (if is_gateway_error e then Http 503 ''AI provider unavailable or budget exceeded'' else internal_error)"
| "ask_http (WebError e) = e"

text \<open>The body of the \<^verbatim>\<open>try\<close>: package and completion, with the budget as it is then.\<close>

definition ask_body ::
  "'f ai_env \<Rightarrow> principal \<Rightarrow> string \<Rightarrow> dict \<Rightarrow> string \<Rightarrow> int \<Rightarrow> 'f budget \<Rightarrow>
   'f budget \<times> (ask_error + (context_package \<times> completion))" where
  "ask_body E p question selection case_id elapsed b =
     (case r_bind (resolve_ai_resource (ae_pool E) p selection case_id) (\<lambda>server.
           case build_context (ae_host E) default_limits server (JStr question) (tenant_id p) (JStr case_id)
                  (Some (analyst_id p)) (se_ai_policy (ae_settings E)) of
             Inl e \<Rightarrow> Inl (CtxError e) | Inr pkg \<Rightarrow> Inr pkg) of
        Inl e \<Rightarrow> (b, Inl e)
      | Inr pkg \<Rightarrow>
          (let r = complete (ae_net E) (local_mock (ae_net E)) ''local-mock'' (ask_messages (ae_host E) pkg) elapsed (Some b) in
           ((case ca_budget r of None \<Rightarrow> b | Some b' \<Rightarrow> b'),
            case ca_answer r of Inl e \<Rightarrow> Inl (GwError e) | Inr c \<Rightarrow> Inr (pkg, c))))"

definition ai_record_of :: "principal \<Rightarrow> string \<Rightarrow> int \<Rightarrow> string \<Rightarrow> context_package \<Rightarrow> completion \<Rightarrow> ai_record" where
  "ai_record_of p rid now case_id pkg c =
     \<lparr>ar_id = rid, ar_tenant = tenant_id p, ar_analyst = analyst_id p, ar_created = now, ar_case = case_id,
      ar_status = ''completed'', ar_question = cp_question pkg, ar_class = cp_class pkg, ar_resource = cp_resource pkg,
      ar_manifest = cp_manifest pkg, ar_provenance = cp_provenance pkg, ar_answer = co_text c,
      ar_citations = obj_get (cp_provenance pkg) ''source_references'', ar_provider = co_provider c, ar_model = co_model c,
      ar_metadata = JObj [(''provider_id'', JStr (co_provider c)), (''model'', JStr (co_model c)), (''policy_id'', JStr (co_policy c)),
        (''compatibility_version'', JStr (co_compat c)), (''egress'', JStr (co_egress c))], ar_approval = None\<rparr>"

definition ai_event :: "principal \<Rightarrow> string \<Rightarrow> string \<Rightarrow> string \<Rightarrow> dict \<Rightarrow> audit_event" where
  "ai_event p action case_id rid metadata =
     \<lparr>ev_id = [], ev_tenant = Some (tenant_id p), ev_case = Some case_id, ev_actor_type = ''user'', ev_actor_id = Some (analyst_id p),
      ev_object_type = Some ''ai_request'', ev_object_id = Some rid, ev_action = action, ev_result = ''success'', ev_correlation = rid,
      ev_source = ''analyst-ai'', ev_occurred = [], ev_recorded = None, ev_metadata = metadata\<rparr>"

definition completed_metadata :: "'f ai_env \<Rightarrow> ai_record \<Rightarrow> completion \<Rightarrow> dict" where
  "completed_metadata E r c =
     [(''status'', JStr ''completed''), (''provider'', JStr (ar_provider r)), (''model'', JStr (ar_model r)),
      (''policy_version'', JStr (se_ai_policy (ae_settings E))), (''package_sha256'', obj_get (ar_provenance r) ''package_sha256''),
      (''response_sha256'', JStr (sha_hex (ae_host E) (co_text c))), (''input_tokens'', JInt (us_input (co_usage c))),
      (''output_tokens'', JInt (us_output (co_usage c))), (''total_tokens'', JInt (us_total (co_usage c)))]"

text \<open>An audit event of a tenant with a UUID; the sink never raises for these events.\<close>

definition ai_audit_event ::
  "'f::{plus,zero,one} ai_env \<Rightarrow> principal \<Rightarrow> audit_event \<Rightarrow> audit_world \<Rightarrow> 'f ai_state \<Rightarrow> 'f ai_state" where
  "ai_audit_event E p e w s =
     (if is_uuid (tenant_id p)
      then s\<lparr>ai_audit := fst (record_event (al_pg (ae_api E)) (al_instant (ae_api E)) (ae_pool E) e w (ai_audit s))\<rparr> else s)"

record ask_draw =
  ad_uuid :: string
  ad_purge :: int
  ad_begin :: int
  ad_created :: int
  ad_elapsed :: int
  ad_world :: audit_world

definition ai_disabled :: http_error where
  "ai_disabled = Http 503 ''AI assistance is disabled by operator policy''"

definition ask_ai ::
  "'f::{plus,zero,one} ai_env \<Rightarrow> principal \<Rightarrow> dict \<Rightarrow> ask_draw \<Rightarrow> 'f ai_state \<Rightarrow> 'f ai_state \<times> (http_error + dict)" where
  "ask_ai E p payload d s =
     (if \<not> se_ai_enabled (ae_settings E) then (s, Inl ai_disabled)
      else case (dget payload ''question'', dget payload ''selection'', dget payload ''case_id'') of
        (JStr question, JObj selection, JStr case_id) \<Rightarrow>
          if case_id = [] then (s, Inl (Http 400 ''question, case_id, and selection are required''))
          else
            (let s1 = s\<lparr>ai_requests := purge_ai_requests (ad_purge d) (ai_requests s)\<rparr> in
             case begin_ai_request p (ad_begin d) (ai_limiter s1) of
               (l, Inl e) \<Rightarrow> (s1\<lparr>ai_limiter := l\<rparr>, Inl e)
             | (l, Inr k) \<Rightarrow>
                 (let (b, r) = ask_body E p question selection case_id (ad_elapsed d) (ai_budget s1);
                      s2 = s1\<lparr>ai_budget := b, ai_limiter := end_ai_request k l\<rparr> in
                  case r of
                    Inl e \<Rightarrow> (s2, Inl (ask_http e))
                  | Inr (pkg, c) \<Rightarrow>
                      (let rec = ai_record_of p (ad_uuid d) (ad_created d) case_id pkg c;
                           s3 = s2\<lparr>ai_requests := put_ai_request rec (ai_requests s2)\<rparr> in
                       (ai_audit_event E p (ai_event p ''ai.request.completed'' case_id (ad_uuid d) (completed_metadata E rec c))
                          (ad_world d) s3, Inr (public_record rec)))))
      | _ \<Rightarrow> (s, Inl (Http 400 ''question, case_id, and selection are required'')))"

section \<open>Reading, cancelling, approving\<close>

text \<open>Each of them first drops what is too old and then looks the request up for the caller's tenant.\<close>

definition on_request ::
  "'f ai_env \<Rightarrow> principal \<Rightarrow> string \<Rightarrow> int \<Rightarrow> (ai_record \<Rightarrow> 'f ai_state \<Rightarrow> 'f ai_state \<times> (http_error + 'a)) \<Rightarrow>
   'f ai_state \<Rightarrow> 'f ai_state \<times> (http_error + 'a)" where
  "on_request E p rid now f s =
     (if \<not> se_ai_enabled (ae_settings E) then (s, Inl ai_disabled)
      else (let s1 = s\<lparr>ai_requests := purge_ai_requests now (ai_requests s)\<rparr> in
            case find_ai_request (tenant_id p) rid (ai_requests s1) of
              None \<Rightarrow> (s1, Inl (Http 404 ''AI request not found''))
            | Some r \<Rightarrow> f r s1))"

definition get_ai_request ::
  "'f ai_env \<Rightarrow> principal \<Rightarrow> string \<Rightarrow> int \<Rightarrow> 'f ai_state \<Rightarrow> 'f ai_state \<times> (http_error + dict)" where
  "get_ai_request E p rid now = on_request E p rid now (\<lambda>r s. (s, Inr (public_record r)))"

definition cancel_ai_request ::
  "'f ai_env \<Rightarrow> principal \<Rightarrow> string \<Rightarrow> int \<Rightarrow> 'f ai_state \<Rightarrow> 'f ai_state \<times> (http_error + dict)" where
  "cancel_ai_request E p rid now = on_request E p rid now (\<lambda>r s.
     let r' = (if ar_status r = ''processing'' then r\<lparr>ar_status := ''cancelled''\<rparr> else r) in
     (s\<lparr>ai_requests := put_ai_request r' (ai_requests s)\<rparr>, Inr [(''request_id'', JStr rid), (''status'', JStr (ar_status r'))]))"

definition approve_ai_request ::
  "'f::{plus,zero,one} ai_env \<Rightarrow> principal \<Rightarrow> string \<Rightarrow> dict \<Rightarrow> int \<Rightarrow> audit_world \<Rightarrow> 'f ai_state \<Rightarrow> 'f ai_state \<times> (http_error + dict)" where
  "approve_ai_request E p rid payload now w = on_request E p rid now (\<lambda>r s.
     case dget payload ''target'' of
       JStr t \<Rightarrow>
         if t \<notin> {''report'', ''finding''} then (s, Inl (Http 400 ''target must be report or finding''))
         else (let r' = r\<lparr>ar_approval := Some (t, analyst_id p)\<rparr>;
                   s1 = s\<lparr>ai_requests := put_ai_request r' (ai_requests s)\<rparr> in
               (ai_audit_event E p (ai_event p ''ai.answer.approved'' (ar_case r) rid
                  [(''target'', JStr t), (''mutated_authoritative_record'', JBool False)]) w s1, Inr [(''request_id'', JStr rid), (''approval'', approval_json r'),
                 (''note'', JStr ''approval recorded; authoritative records were not mutated'')]))
     | JList xs \<Rightarrow> (s, Inl internal_error)
     | JObj d \<Rightarrow> (s, Inl internal_error)
     | _ \<Rightarrow> (s, Inl (Http 400 ''target must be report or finding'')))"

end
