(* ===== verification/Api_Correct.thy ===== *)
theory Api_Correct
  imports Api_Ai Fixtures Context_Correct Gateway_Correct Audit_Correct Ingest_Correct
begin

text \<open>
  What the routes promise: who is let in, that resources stay with their tenant, and that the AI
  routes are rate-limited, never lock an analyst out, and never take the client's word for the
  data they send.
\<close>

section \<open>Authentication\<close>

text \<open>C22: a request is let in only with the scopes its route requires, and only as a principal that is
  vouched for: outside production and without an authorization header the synthetic one, and
  otherwise one whose bearer token has three parts, a signature that verifies under the configured
  secret or key set, the configured issuer and audience, and a time of use between its bounds, with
  a tenant taken from its claims.\<close>

theorem accepted_requests_are_authenticated:
  assumes "authorize c s required auth now = Inr p"
  shows "set required \<subseteq> set (scopes p) \<union> set (roles p) \<and>
    (auth = [] \<and> se_env s \<noteq> ''prod'' \<and> p = synthetic_principal s \<or>
     (\<exists>token claims i a. partition_space auth = (fst (partition_space auth), token) \<and>
        lower (fst (partition_space auth)) = ''bearer'' \<and> token_valid c s token now claims \<and>
        se_issuer s = Some i \<and> dget claims ''iss'' = JStr i \<and> se_audience s = Some a \<and> audience_ok a (dget claims ''aud'') \<and>
        num_le c (dget claims ''exp'') now = Some False \<and>
        (has_key claims ''nbf'' \<longrightarrow> num_le c (dget claims ''nbf'') now = Some True) \<and>
        \<not> is_synthetic p \<and> tenant_id p \<noteq> [] \<and>
        JStr (tenant_id p) \<in> {dget claims ''tid'', dget claims ''tenant_id''}))"
proof -
  from assms have p: "current_principal c s auth now = Inr p" and sc: "set required \<subseteq> set (scopes p) \<union> set (roles p)"
    by (auto simp: authorize_def require_scopes_def wb_result split: if_splits)
  show ?thesis
  proof (cases "auth = []")
    case True
    with p sc show ?thesis by (auto simp: current_principal_def split: if_splits)
  next
    case False
    define token where "token = snd (partition_space auth)"
    from p False obtain claims where v: "verify_jwt c s token now = Inr claims" "principal_from_claims claims = Inr p"
      and b: "lower (fst (partition_space auth)) = ''bearer''"
      by (auto simp: current_principal_def wb_result token_def Let_def split_beta split: if_splits)
    from verify_jwt_Inr [OF v(1)] obtain i a where ia: "token_valid c s token now claims"
      "se_issuer s = Some i" "dget claims ''iss'' = JStr i" "se_audience s = Some a" "audience_ok a (dget claims ''aud'')"
      "num_le c (dget claims ''exp'') now = Some False" "has_key claims ''nbf'' \<longrightarrow> num_le c (dget claims ''nbf'') now = Some True"
      by (auto simp: claims_ok_def split: option.splits)
    have "\<not> is_synthetic p \<and> tenant_id p \<noteq> [] \<and> JStr (tenant_id p) \<in> {dget claims ''tid'', dget claims ''tenant_id''}"
      using v(2) by (auto simp: principal_from_claims_def py_or_def split: json.splits if_splits)
    moreover have "partition_space auth = (fst (partition_space auth), token)" by (simp add: token_def)
    ultimately show ?thesis using sc b ia by blast
  qed
qed

section \<open>Resources\<close>

definition tenant_row :: "api_lib \<Rightarrow> string \<Rightarrow> string option" where
  "tenant_row A t = (case al_uuid A t of None \<Rightarrow> None | Some u \<Rightarrow> uuid_cast (al_pg A) u)"

definition resource_ok :: "api_lib \<Rightarrow> resource_table \<Rightarrow> resource_row \<Rightarrow> bool" where
  "resource_ok A t r =
     (dget (rr_payload r) ''id'' = JStr (rr_id r) \<and>
      (\<exists>owner. dget (rr_payload r) ''tenant_id'' = JStr owner \<and> tenant_row A owner = Some (rr_tenant r)) \<and>
      (t = EvidenceMetadata \<longrightarrow> dget (rr_payload r) ''content_transferred'' = JBool False) \<and>
      (t \<noteq> CaseRecord \<longrightarrow> rr_case r \<noteq> [] \<and> dget (rr_payload r) ''case_id'' = JStr (rr_case r)))"

definition resources_ok :: "api_lib \<Rightarrow> resource_db \<Rightarrow> bool" where
  "resources_ok A db = (\<forall>t. unique_by resource_key (table_rows t db) \<and> (\<forall>r\<in>set (table_rows t db). resource_ok A t r))"

datatype create_call = Create resource_table principal dict string int

fun create_step :: "api_lib \<Rightarrow> create_call \<Rightarrow> resource_db \<Rightarrow> resource_db \<times> (http_error + dict)" where
  "create_step A (Create t p payload u clock) = create_route A t p payload u clock"

definition empty_resources :: resource_db where
  "empty_resources = \<lparr>rd_cases = [], rd_evidence = [], rd_findings = []\<rparr>"

lemma table_set_rows: "table_rows t (set_rows t' rs db) = (if t = t' then rs else table_rows t db)"
  by (cases t; cases t') auto

lemma stored_payload_fields:
  "dget (stored_payload p d i c) ''id'' = JStr i" "dget (stored_payload p d i c) ''tenant_id'' = JStr (tenant_id p)"
  "c \<noteq> [] \<Longrightarrow> dget (stored_payload p d i c) ''case_id'' = JStr c"
  "dget (stored_payload p d i c) ''content_transferred'' = dget d ''content_transferred''"
  by (simp_all add: stored_payload_def Let_def dget_update)

lemma resource_create_effect:
  assumes "resource_create A t p payload u clock db = (db', r)"
  shows "db' = db \<or> (\<exists>row. db' = set_rows t (table_rows t db @ [row]) db \<and> \<not> holds_key resource_key (resource_key row) (table_rows t db) \<and>
    tenant_row A (tenant_id p) = Some (rr_tenant row) \<and> (\<exists>c. rr_payload row = stored_payload p payload (rr_id row) c \<and>
      (t \<noteq> CaseRecord \<longrightarrow> c \<noteq> [] \<and> rr_case row = c)))"
proof (cases "db' = db")
  case False
  define item_id where "item_id = py_str (py_or (dget payload ''id'') (JStr (table_name t @ ''-'' @ take 12 u)))"
  define case_id where "case_id = py_str (py_or (dget payload ''case_id'') (JStr []))"
  from assms False obtain tenant0 tenant where u: "al_uuid A (tenant_id p) = Some tenant0" "uuid_cast (al_pg A) tenant0 = Some tenant"
    and c: "t \<noteq> CaseRecord \<longrightarrow> case_id \<noteq> []"
    by (auto simp: resource_create_def Let_def db_uuid_def uuid_column_def case_id_def split: option.splits if_splits sum.splits)
  define row where "row = \<lparr>rr_tenant = tenant, rr_id = item_id, rr_case = (if t = CaseRecord then item_id else case_id),
     rr_payload = stored_payload p payload item_id case_id, rr_created = clock\<rparr>"
  have run: "resource_create A t p payload u clock db = (case insert_resource row (table_rows t db) of
      Inl e \<Rightarrow> (db, Inl internal_error) | Inr rows \<Rightarrow> (set_rows t rows db, Inr (resource_item A row)))"
    using u c unfolding resource_create_def Let_def item_id_def [symmetric] case_id_def [symmetric]
    by (simp add: db_uuid_def uuid_column_def row_def split: sum.split)
  with assms False have "insert_resource row (table_rows t db) = Inr (table_rows t db @ [row])" "db' = set_rows t (table_rows t db @ [row]) db"
      "\<not> holds_key resource_key (resource_key row) (table_rows t db)"
    by (auto simp: insert_resource_def split: if_splits)
  moreover have "tenant_row A (tenant_id p) = Some (rr_tenant row)" using u by (simp add: tenant_row_def row_def)
  moreover have "rr_payload row = stored_payload p payload (rr_id row) case_id \<and> (t \<noteq> CaseRecord \<longrightarrow> case_id \<noteq> [] \<and> rr_case row = case_id)"
    using c by (simp add: row_def)
  ultimately show ?thesis by blast
qed simp

lemma append_resource_ok:
  assumes "resources_ok A db" "\<not> holds_key resource_key (resource_key row) (table_rows t db)" "resource_ok A t row"
  shows "resources_ok A (set_rows t (table_rows t db @ [row]) db)"
  using assms by (auto simp: resources_ok_def table_set_rows unique_by_def holds_key_iff)

lemma create_step_ok:
  assumes "resources_ok A db" shows "resources_ok A (fst (create_step A call db))"
proof (cases call)
  case (Create t p payload u clock)
  obtain d where d: "t = EvidenceMetadata \<Longrightarrow> dget d ''content_transferred'' = JBool False"
    and eff: "fst (create_step A call db) = db \<or> fst (create_step A call db) = fst (resource_create A t p d u clock db)"
  proof (cases "t = EvidenceMetadata")
    case True
    with that [of "AList.update ''content_transferred'' (JBool False) payload"] Create show ?thesis
      by (auto simp: create_route_def create_evidence_def dget_update)
  qed (use that [of payload] Create in \<open>auto simp: create_route_def\<close>)
  obtain db' r where c: "resource_create A t p d u clock db = (db', r)" by (cases "resource_create A t p d u clock db")
  from resource_create_effect [OF c] have "resources_ok A db'"
  proof
    assume "\<exists>row. db' = set_rows t (table_rows t db @ [row]) db \<and> \<not> holds_key resource_key (resource_key row) (table_rows t db) \<and>
      tenant_row A (tenant_id p) = Some (rr_tenant row) \<and> (\<exists>c. rr_payload row = stored_payload p d (rr_id row) c \<and>
        (t \<noteq> CaseRecord \<longrightarrow> c \<noteq> [] \<and> rr_case row = c))"
    then obtain row c where row: "db' = set_rows t (table_rows t db @ [row]) db"
      "\<not> holds_key resource_key (resource_key row) (table_rows t db)" "tenant_row A (tenant_id p) = Some (rr_tenant row)"
      "rr_payload row = stored_payload p d (rr_id row) c" "t \<noteq> CaseRecord \<longrightarrow> c \<noteq> [] \<and> rr_case row = c" by blast
    have "resource_ok A t row" using row(3-5) d by (auto simp: resource_ok_def stored_payload_fields)
    with append_resource_ok [OF assms row(2)] row(1) show ?thesis by simp
  qed (use assms in simp)
  with eff c assms show ?thesis by auto
qed

text \<open>C23: resources stay with their tenant: whatever principals have created, a listing of cases, evidence
  or findings answers at most a hundred items, all of the caller's tenant as the creating
  principal's own claims named it and never as the request body did, and no evidence item says that
  content was transferred.\<close>

theorem resources_stay_in_their_tenant:
  assumes "list_route A t p case_id q limit offset (fst (run_ops (create_step A) calls empty_resources)) = Inr page"
  shows "length (rp_items page) \<le> 100 \<and>
    list_all (\<lambda>item. \<exists>owner. dget item ''tenant_id'' = JStr owner \<and> tenant_row A owner = tenant_row A (tenant_id p) \<and>
       (t = EvidenceMetadata \<longrightarrow> dget item ''content_transferred'' = JBool False)) (rp_items page)"
proof -
  let ?db = "fst (run_ops (create_step A) calls empty_resources)"
  have empty: "resources_ok A empty_resources"
    unfolding resources_ok_def by (intro allI, case_tac t) (simp_all add: empty_resources_def unique_by_def)
  have ok: "resources_ok A ?db" by (rule run_ops_invariant [OF create_step_ok empty])
  from assms obtain u tenant case' where u: "al_uuid A (tenant_id p) = Some u" "uuid_cast (al_pg A) u = Some tenant"
    and lim: "limit \<le> 100" and page: "rp_items page = map (resource_item A) (take (nat limit) (drop (nat offset)
      (sort_key (\<lambda>r. - rr_created r) (filter (resource_where A tenant case' q) (table_rows t ?db)))))"
    by (auto simp: list_route_def resource_list_def db_uuid_def uuid_column_def unhandled_def page_ok_def Let_def wb_result
        split: option.splits sum.splits if_splits)
  have tr: "tenant_row A (tenant_id p) = Some tenant" using u by (simp add: tenant_row_def)
  have "\<exists>owner. dget (resource_item A r) ''tenant_id'' = JStr owner \<and> tenant_row A owner = tenant_row A (tenant_id p) \<and>
      (t = EvidenceMetadata \<longrightarrow> dget (resource_item A r) ''content_transferred'' = JBool False)"
    if "r \<in> set (table_rows t ?db)" "resource_where A tenant case' q r" for r
  proof -
    from ok that(1) have "resource_ok A t r" by (auto simp: resources_ok_def)
    moreover have "rr_tenant r = tenant" using that(2) by (simp add: resource_where_def)
    ultimately show ?thesis using tr by (auto simp: resource_ok_def resource_item_def dget_update)
  qed
  then have "list_all (\<lambda>item. \<exists>owner. dget item ''tenant_id'' = JStr owner \<and> tenant_row A owner = tenant_row A (tenant_id p) \<and>
       (t = EvidenceMetadata \<longrightarrow> dget item ''content_transferred'' = JBool False)) (rp_items page)"
    unfolding page list_all_iff by (auto dest!: in_set_takeD in_set_dropD)
  moreover have "length (rp_items page) \<le> 100" using lim page by simp
  ultimately show ?thesis by blast
qed

section \<open>The rate limiter\<close>

datatype limiter_op = BeginAi principal int | EndAi analyst_key

fun limiter_step :: "limiter_op \<Rightarrow> limiter \<Rightarrow> limiter \<times> (http_error + analyst_key)" where
  "limiter_step (BeginAi p now) l = begin_ai_request p now l"
| "limiter_step (EndAi k) l = (end_ai_request k l, Inr k)"

definition empty_limiter :: limiter where
  "empty_limiter = \<lparr>li_rate = [], li_flight = []\<rparr>"

fun begin_times :: "limiter_op list \<Rightarrow> int list" where
  "begin_times [] = []"
| "begin_times (BeginAi p now # ops) = now # begin_times ops"
| "begin_times (EndAi k # ops) = begin_times ops"

text \<open>The times at which requests of one analyst were accepted.\<close>

fun accepted_times :: "analyst_key \<Rightarrow> (limiter_op \<times> (http_error + analyst_key)) list \<Rightarrow> int list" where
  "accepted_times k [] = []"
| "accepted_times k ((BeginAi p now, Inr k') # out) = (if k' = k then now # accepted_times k out else accepted_times k out)"
| "accepted_times k (x # out) = accepted_times k out"

fun ends_of :: "analyst_key \<Rightarrow> limiter_op list \<Rightarrow> nat" where
  "ends_of k [] = 0"
| "ends_of k (EndAi k' # ops) = (if k' = k then 1 else 0) + ends_of k ops"
| "ends_of k (BeginAi p now # ops) = ends_of k ops"

text \<open>The queue is the end of the history \<open>h\<close> of accepted times, and what is no longer in it is older than
  the window at time \<open>T\<close>; the accepted requests exceed the \<open>n\<close> ended ones by the one in flight.\<close>

definition limiter_inv :: "analyst_key \<Rightarrow> int \<Rightarrow> int list \<Rightarrow> nat \<Rightarrow> limiter \<Rightarrow> bool" where
  "limiter_inv k T h n l =
     ((\<exists>old. h = old @ rate_of l k \<and> (\<forall>t\<in>set old. rate_window \<le> T - t)) \<and> (\<forall>t\<in>set h. t \<le> T) \<and>
      (\<forall>x. length (filter (\<lambda>t. x - rate_window < t \<and> t \<le> x) h) \<le> rate_limit) \<and>
      length h \<le> n + (if k \<in> set (li_flight l) then 1 else 0))"

lemma rate_of_update: "rate_of (l\<lparr>li_rate := AList.update k ts (li_rate l)\<rparr>) k' = (if k' = k then ts else rate_of l k')"
  "rate_of (l\<lparr>li_rate := AList.update k ts (li_rate l), li_flight := fl\<rparr>) k' = (if k' = k then ts else rate_of l k')"
  by (simp_all add: rate_of_def dict_get_update)

lemma begin_inv:
  assumes inv: "limiter_inv k T h n l" and T: "T \<le> now" and r: "begin_ai_request p now l = (l', r)"
  shows "limiter_inv k now (if r = Inr k then h @ [now] else h) n l'"
proof -
  from inv obtain old where h: "h = old @ rate_of l k" and o: "\<forall>t\<in>set old. rate_window \<le> T - t" and le: "\<forall>t\<in>set h. t \<le> T"
    and bound: "\<And>x. length (filter (\<lambda>t. x - rate_window < t \<and> t \<le> x) h) \<le> rate_limit"
    and fl: "length h \<le> n + (if k \<in> set (li_flight l) then 1 else 0)" by (auto simp: limiter_inv_def)
  have o': "\<forall>t\<in>set old. rate_window \<le> now - t" using o T by fastforce
  have le': "\<forall>t\<in>set h. t \<le> now" using le T by fastforce
  show ?thesis
  proof (cases "analyst_key p = k \<and> k \<notin> set (li_flight l)")
    case False
    with r have "r \<noteq> Inr k" "rate_of l' k = rate_of l k" "(k \<in> set (li_flight l')) = (k \<in> set (li_flight l))"
      by (auto simp: begin_ai_request_def Let_def rate_of_update split: if_splits)
    with h o' le' bound fl show ?thesis by (auto simp: limiter_inv_def)
  next
    case True
    let ?old = "takeWhile (\<lambda>t. rate_window \<le> now - t) (rate_of l k)"
    let ?ts = "dropWhile (\<lambda>t. rate_window \<le> now - t) (rate_of l k)"
    have split: "h = (old @ ?old) @ ?ts" using h by simp
    have oo: "\<forall>t\<in>set (old @ ?old). rate_window \<le> now - t" using o' by (auto dest: set_takeWhileD)
    show ?thesis
    proof (cases "rate_limit \<le> length ?ts")
      case full: True
      with r True have "r \<noteq> Inr k" "rate_of l' k = ?ts" "li_flight l' = li_flight l"
        by (auto simp: begin_ai_request_def Let_def rate_of_update)
      moreover from this have "h = (old @ ?old) @ rate_of l' k" using split by simp
      ultimately show ?thesis using oo le' bound fl unfolding limiter_inv_def by (auto simp del: append_assoc)
    next
      case room: False
      with r True have r': "r = Inr k" "rate_of l' k = ?ts @ [now]" "k \<in> set (li_flight l')"
        by (auto simp: begin_ai_request_def Let_def rate_of_update)
      have "length (filter (\<lambda>t. x - rate_window < t \<and> t \<le> x) (h @ [now])) \<le> rate_limit" for x
      proof (cases "now \<le> x")
        case True
        have "filter (\<lambda>t. x - rate_window < t \<and> t \<le> x) (old @ ?old) = []"
          unfolding filter_empty_conv
        proof
          fix t assume "t \<in> set (old @ ?old)"
          with oo have "rate_window \<le> now - t" by blast
          with True show "\<not> (x - rate_window < t \<and> t \<le> x)" by linarith
        qed
        then have "filter (\<lambda>t. x - rate_window < t \<and> t \<le> x) (h @ [now]) = filter (\<lambda>t. x - rate_window < t \<and> t \<le> x) (?ts @ [now])"
          by (subst split) (simp only: filter_append append_Nil)
        also have "length \<dots> \<le> length (?ts @ [now])" by (rule length_filter_le)
        finally show ?thesis using room by simp
      qed (use bound [of x] in simp)
      moreover have "h @ [now] = (old @ ?old) @ rate_of l' k" using split r'(2) by simp
      ultimately have "\<exists>old. h @ [now] = old @ rate_of l' k \<and> (\<forall>t\<in>set old. rate_window \<le> now - t)"
        "\<forall>x. length (filter (\<lambda>t. x - rate_window < t \<and> t \<le> x) (h @ [now])) \<le> rate_limit" using oo by blast+
      then show ?thesis using r' le' fl True unfolding limiter_inv_def by simp
    qed
  qed
qed

lemma limiter_run_inv:
  assumes "limiter_inv k T h n l" "sorted (T # begin_times ops)"
  shows "\<exists>T'. limiter_inv k T' (h @ accepted_times k (snd (run_ops limiter_step ops l))) (n + ends_of k ops) (fst (run_ops limiter_step ops l))"
  using assms
proof (induction ops arbitrary: T h n l)
  case Nil
  then show ?case by auto
next
  case (Cons op ops)
  show ?case
  proof (cases op)
    case (BeginAi p now)
    obtain l' r where r: "begin_ai_request p now l = (l', r)" by (cases "begin_ai_request p now l")
    from Cons.prems BeginAi have "T \<le> now" "sorted (now # begin_times ops)" by auto
    from Cons.IH [OF begin_inv [OF Cons.prems(1) this(1) r] this(2)] BeginAi r show ?thesis
      by (cases r) (auto simp: Let_def split_beta split: if_splits)
  next
    case (EndAi k')
    have "limiter_inv k T h (n + (if k' = k then 1 else 0)) (end_ai_request k' l)"
      using Cons.prems(1) by (auto simp: limiter_inv_def end_ai_request_def rate_of_def split: if_splits)
    from Cons.IH [OF this] Cons.prems(2) EndAi show ?thesis by (auto simp: Let_def split_beta add.assoc)
  qed
qed

text \<open>C24: the AI rate is bounded: however begins and ends of requests interleave, as long as the clock does
  not go back, in no hour are more than twenty requests of one analyst accepted, and the accepted
  ones exceed the ended ones by at most one.\<close>

theorem ai_rate_is_bounded:
  assumes "sorted (begin_times ops)"
  shows "length (filter (\<lambda>t. x - rate_window < t \<and> t \<le> x) (accepted_times k (snd (run_ops limiter_step ops empty_limiter)))) \<le> 20 \<and>
    length (accepted_times k (snd (run_ops limiter_step ops empty_limiter))) \<le> ends_of k ops + 1"
proof -
  have start: "limiter_inv k T [] 0 empty_limiter" for T
    by (simp add: limiter_inv_def rate_of_def empty_limiter_def)
  obtain T where T: "sorted (T # begin_times ops)"
    using assms by (cases "begin_times ops") (auto intro: that [of "hd (begin_times ops)"])
  from limiter_run_inv [OF start T] show ?thesis by (auto simp: limiter_inv_def rate_limit_def split: if_splits)
qed

section \<open>The AI routes\<close>

datatype ai_call =
    Ask principal dict ask_draw
  | Fetch principal string int
  | Cancel principal string int
  | Approve principal string dict int audit_world

fun ai_step :: "'f::{plus,zero,one} ai_env \<Rightarrow> ai_call \<Rightarrow> 'f ai_state \<Rightarrow> 'f ai_state \<times> (http_error + dict)" where
  "ai_step E (Ask p payload d) s = ask_ai E p payload d s"
| "ai_step E (Fetch p rid now) s = get_ai_request E p rid now s"
| "ai_step E (Cancel p rid now) s = cancel_ai_request E p rid now s"
| "ai_step E (Approve p rid payload now w) s = approve_ai_request E p rid payload now w s"

text \<open>The times at which an analyst asked, whatever came of it.\<close>

fun ask_times :: "analyst_key \<Rightarrow> ai_call list \<Rightarrow> int list" where
  "ask_times k [] = []"
| "ask_times k (Ask p payload d # calls) = (if analyst_key p = k then ad_begin d # ask_times k calls else ask_times k calls)"
| "ask_times k (c # calls) = ask_times k calls"

lemma ai_audit_limiter [simp]: "ai_limiter (ai_audit_event E p e w s) = ai_limiter s"
  by (simp add: ai_audit_event_def)

lemma on_request_limiter:
  assumes "\<And>r s. ai_limiter (fst (f r s)) = ai_limiter s"
  shows "ai_limiter (fst (on_request E p rid now f s)) = ai_limiter s"
  using assms by (simp add: on_request_def Let_def split: option.split)

lemma other_calls_keep_the_limiter:
  "ai_limiter (fst (get_ai_request E p rid now s)) = ai_limiter s"
  "ai_limiter (fst (cancel_ai_request E p rid now s)) = ai_limiter s"
  "ai_limiter (fst (approve_ai_request E p rid payload now w s)) = ai_limiter s"
  unfolding get_ai_request_def cancel_ai_request_def approve_ai_request_def
  by (rule on_request_limiter; simp add: Let_def split: json.split)+

text \<open>An ask takes the slot and gives it back on every path.\<close>

definition asked :: "analyst_key \<Rightarrow> int \<Rightarrow> limiter \<Rightarrow> limiter" where
  "asked k now l = l\<lparr>li_rate := AList.update k
     (let ts = dropWhile (\<lambda>t. rate_window \<le> now - t) (rate_of l k) in
      if rate_limit \<le> length ts then ts else ts @ [now]) (li_rate l)\<rparr>"

lemma ask_limiter:
  assumes "li_flight (ai_limiter s) = []"
  shows "ai_limiter (fst (ask_ai E p payload d s)) \<in> {ai_limiter s, asked (analyst_key p) (ad_begin d) (ai_limiter s)}"
  using assms by (auto simp: ask_ai_def begin_ai_request_def end_ai_request_def asked_def Let_def split_beta
      split: json.splits sum.splits prod.splits if_splits)

text \<open>What the limiter remembers of an analyst is part of the asks made.\<close>

lemma ai_run_limiter:
  assumes "li_flight (ai_limiter s) = []"
  shows "li_flight (ai_limiter (fst (run_ops (ai_step E) calls s))) = [] \<and>
    subseq (rate_of (ai_limiter (fst (run_ops (ai_step E) calls s))) k) (rate_of (ai_limiter s) k @ ask_times k calls)"
  using assms
proof (induction calls arbitrary: s)
  case (Cons c calls)
  define s' where "s' = fst (ai_step E c s)"
  have step: "li_flight (ai_limiter s') = [] \<and> subseq (rate_of (ai_limiter s') k) (rate_of (ai_limiter s) k @ ask_times k [c])"
  proof (cases c)
    case (Ask p payload d)
    have "subseq (dropWhile P xs) xs" for P and xs :: "int list" by (simp add: suffix_dropWhile suffix_imp_subseq)
    then have "subseq (rate_of (asked (analyst_key p) (ad_begin d) (ai_limiter s)) k) (rate_of (ai_limiter s) k @ ask_times k [c])"
      using Ask by (auto simp: asked_def rate_of_update Let_def subseq_rev_drop_many)
    with ask_limiter [OF Cons.prems, of E p payload d] Ask Cons.prems show ?thesis
      by (auto simp: s'_def Let_def split_beta asked_def subseq_rev_drop_many)
  qed (use Cons.prems in \<open>auto simp: s'_def Let_def split_beta other_calls_keep_the_limiter\<close>)
  have "ask_times k (c # calls) = ask_times k [c] @ ask_times k calls" by (cases c) auto
  moreover have "subseq (rate_of (ai_limiter (fst (run_ops (ai_step E) calls s'))) k) (rate_of (ai_limiter s') k @ ask_times k calls)"
    using Cons.IH step by blast
  moreover have "subseq (rate_of (ai_limiter s') k @ ask_times k calls) ((rate_of (ai_limiter s) k @ ask_times k [c]) @ ask_times k calls)"
    using step by (simp only: subseq_append)
  ultimately have "subseq (rate_of (ai_limiter (fst (run_ops (ai_step E) calls s'))) k) (rate_of (ai_limiter s) k @ ask_times k (c # calls))"
    by (metis append.assoc subseq_order.order_trans)
  with step Cons.IH [of s'] show ?case by (simp add: s'_def Let_def split_beta)
qed simp

lemma sorted_dropWhile_filter:
  assumes "sorted (xs :: int list)" shows "dropWhile (\<lambda>t. t \<le> y) xs = filter (\<lambda>t. y < t) xs"
  using assms by (induction xs) (fastforce simp: filter_id_conv intro: filter_True [symmetric])+

lemma sorted_subseq: "subseq xs ys \<Longrightarrow> sorted ys \<Longrightarrow> sorted (xs :: int list)"
  by (induction rule: list_emb.induct) (auto dest: list_emb_set)

text \<open>C25: no analyst is ever locked out of the AI routes: however the asks, reads, cancellations and
  approvals of all analysts went, errors included, no slot is left taken, and an analyst with fewer than
  twenty asks in the last hour is accepted.\<close>

theorem ai_slot_is_always_released:
  assumes "ai_limiter s = empty_limiter" and "sorted (ask_times (analyst_key p) calls)"
    and "length (filter (\<lambda>t. now - rate_window < t) (ask_times (analyst_key p) calls)) < 20"
  shows "li_flight (ai_limiter (fst (run_ops (ai_step E) calls s))) = [] \<and>
    snd (begin_ai_request p now (ai_limiter (fst (run_ops (ai_step E) calls s)))) = Inr (analyst_key p)"
proof -
  let ?l = "ai_limiter (fst (run_ops (ai_step E) calls s))" and ?k = "analyst_key p"
  from assms(1) have "li_flight (ai_limiter s) = []" "rate_of (ai_limiter s) ?k = []"
    by (simp_all add: empty_limiter_def rate_of_def)
  with ai_run_limiter [of s E calls ?k] have fl: "li_flight ?l = []" and sub: "subseq (rate_of ?l ?k) (ask_times ?k calls)" by auto
  have "dropWhile (\<lambda>t. rate_window \<le> now - t) (rate_of ?l ?k) = filter (\<lambda>t. now - rate_window < t) (rate_of ?l ?k)"
    using sorted_dropWhile_filter [OF sorted_subseq [OF sub assms(2)], of "now - rate_window"]
    by (simp add: le_diff_eq add.commute)
  moreover have "length (filter (\<lambda>t. now - rate_window < t) (rate_of ?l ?k)) < 20"
    using list_emb_length [OF subseq_filter [OF sub, of "\<lambda>t. now - rate_window < t"]] assms(3) by simp
  ultimately show ?thesis using fl by (simp add: begin_ai_request_def Let_def rate_limit_def)
qed

definition selection_fields :: "string list" where
  "selection_fields = [''resource_class'', ''class'', ''resource_id'', ''id'', ''tenant_id'', ''case_id'']"

lemma resolve_reads_selection_fields:
  assumes "\<forall>f\<in>set selection_fields. map_of sel f = map_of sel' f"
  shows "resolve_ai_resource pool p sel case_id = resolve_ai_resource pool p sel' case_id"
proof -
  have same: "dget sel f = dget sel' f" "dget_or sel f = dget_or sel' f" if "f \<in> set selection_fields" for f
    using assms that by (simp_all add: dget_def dget_or_def fun_eq_iff)
  have fields: "''resource_class'' \<in> set selection_fields" "''class'' \<in> set selection_fields" "''resource_id'' \<in> set selection_fields"
    "''id'' \<in> set selection_fields" "''tenant_id'' \<in> set selection_fields" "''case_id'' \<in> set selection_fields"
    by (simp_all add: selection_fields_def)
  show ?thesis unfolding resolve_ai_resource_def same(1) [OF fields(2)] same(1) [OF fields(4)] same(1) [OF fields(5)]
    same(1) [OF fields(6)] same(2) [OF fields(1)] same(2) [OF fields(3)] ..
qed

lemma resolve_Inr:
  assumes "resolve_ai_resource pool p sel case_id = Inr server"
  shows "\<not> is_uuid (tenant_id p) \<and> (\<exists>c r data. map_of synthetic_resources (tenant_id p, case_id, c, r) = Some data \<and>
    server = [(''resource_class'', JStr c), (''resource_id'', JStr r), (''tenant_id'', JStr (tenant_id p)),
      (''case_id'', JStr case_id), (''data'', JObj data)])"
  using assms unfolding resolve_ai_resource_def Let_def
  by (auto split: json.splits if_splits option.splits)

lemma build_context_names:
  assumes "build_context h L [(''resource_class'', JStr c), (''resource_id'', JStr r), (''tenant_id'', t), (''case_id'', k), (''data'', v)]
    question tenant case_id analyst policy = Inr pkg" and "c \<noteq> ''report''"
  shows "cp_class pkg = c \<and> cp_resource pkg = r"
proof (rule build_context_Inr [OF assms(1)])
  fix cid cls rid data assume "safe_selection [(''resource_class'', JStr c), (''resource_id'', JStr r), (''tenant_id'', t), (''case_id'', k), (''data'', v)]
    tenant (Some cid) = Inr (cls, rid, data)" and names: "cp_class pkg = cls" "cp_resource pkg = rid"
  then have "cls = c" "rid = r"
    using assms(2) by (auto simp: safe_selection_def Let_def dget_def dget_or_def split: json.splits if_splits)
  with names show ?thesis by simp
qed

text \<open>C26: what is sent to the model rests on the server's data alone: of the client's selection only the six
  fields that name a resource matter, whatever else the request carries; and an ask that is answered
  was about a resource the server itself holds for the caller's tenant and the named case.\<close>

theorem ai_answers_rest_on_server_data:
  assumes "dget a ''question'' = dget b ''question''" "dget a ''case_id'' = dget b ''case_id''"
    and "dget a ''selection'' = JObj sel" "dget b ''selection'' = JObj sel'"
    and "\<forall>f\<in>set selection_fields. map_of sel f = map_of sel' f"
  shows "ask_ai E p a d s = ask_ai E p b d s \<and>
    (\<forall>out. snd (ask_ai E p a d s) = Inr out \<longrightarrow>
      (\<exists>case_id c r data. dget a ''case_id'' = JStr case_id \<and>
         map_of synthetic_resources (tenant_id p, case_id, c, r) = Some data \<and>
         dget out ''selected_context'' = JObj [(''resource_class'', JStr c), (''resource_id'', JStr r)]))"
proof (rule conjI)
  have body: "ask_body E p q sel c el bu = ask_body E p q sel' c el bu" for q c el bu
    unfolding ask_body_def resolve_reads_selection_fields [OF assms(5)] ..
  show "ask_ai E p a d s = ask_ai E p b d s" unfolding ask_ai_def assms(1-4) prod.case json.case body ..
next
  have "\<exists>c r data. map_of synthetic_resources (tenant_id p, case_id, c, r) = Some data \<and> cp_class pkg = c \<and> cp_resource pkg = r"
    if body: "ask_body E p q sel case_id el bu = (bu', Inr (pkg, co))" for q case_id el bu bu' pkg co
  proof -
    obtain server where sv: "resolve_ai_resource (ae_pool E) p sel case_id = Inr server"
      using body by (cases "resolve_ai_resource (ae_pool E) p sel case_id") (auto simp: ask_body_def)
    then have built: "build_context (ae_host E) default_limits server (JStr q) (tenant_id p) (JStr case_id)
                  (Some (analyst_id p)) (se_ai_policy (ae_settings E)) = Inr pkg"
      using body by (auto simp: ask_body_def Let_def split: sum.splits)
    from resolve_Inr [OF sv] obtain c r data where "map_of synthetic_resources (tenant_id p, case_id, c, r) = Some data"
      and server: "server = [(''resource_class'', JStr c), (''resource_id'', JStr r), (''tenant_id'', JStr (tenant_id p)),
        (''case_id'', JStr case_id), (''data'', JObj data)]" by blast
    moreover from this have "c = ''artifact''" by (auto simp: synthetic_resources_def split: if_splits)
    then have "cp_class pkg = c \<and> cp_resource pkg = r"
      using build_context_names [OF built [unfolded server]] by simp
    ultimately show ?thesis by blast
  qed
  then show "\<forall>out. snd (ask_ai E p a d s) = Inr out \<longrightarrow>
      (\<exists>case_id c r data. dget a ''case_id'' = JStr case_id \<and>
         map_of synthetic_resources (tenant_id p, case_id, c, r) = Some data \<and>
         dget out ''selected_context'' = JObj [(''resource_class'', JStr c), (''resource_id'', JStr r)])"
    using assms(3) by (fastforce simp: ask_ai_def Let_def public_record_def ai_record_of_def dget_def
        split: json.splits sum.splits prod.splits if_splits)
qed

section \<open>Concrete requests\<close>

definition demo_settings :: settings where
  "demo_settings = \<lparr>se_env = ''dev'', se_synthetic_tenant = ''synthetic-test-tenant'', se_issuer = Some ''iss'', se_audience = Some ''aud'',
     se_hs256_secret = Some ''key'', se_jwks_json = None, se_ai_enabled = True, se_ai_policy = ''v1''\<rparr>"

definition demo_crypto :: crypto where
  "demo_crypto = \<lparr>cy_b64 = Some, cy_loads = (\<lambda>s. if s = ''h'' then Some (JObj [(''alg'', JStr ''HS256'')])
     else if s = ''b'' then Some (JObj [(''iss'', JStr ''iss''), (''aud'', JStr ''aud''), (''exp'', JInt 9), (''sub'', JStr ''me''),
       (''tid'', JStr ''t1''), (''scp'', JStr ''cases:read cases:write'')]) else None),
     cy_hmac = (\<lambda>k m. if k = ''key'' \<and> m = ''h.b'' then ''sig'' else []), cy_rsa = (\<lambda>n e sig m. False), cy_float_le = (\<lambda>r now. False)\<rparr>"

definition demo_token :: string where "demo_token = ''bearer h.b.sig''"

definition demo_api :: api_lib where
  "demo_api = \<lparr>al_uuid = Some, al_pg = demo_pg, al_ilike = (\<lambda>v q. True), al_instant = (\<lambda>t. ''r''), al_ingest = demo_lib\<rparr>"

definition demo_ai :: "int ai_env" where
  "demo_ai = \<lparr>ae_api = demo_api, ae_host = demo_host, ae_net = demo_net, ae_settings = demo_settings, ae_pool = True\<rparr>"

definition demo_ai_state :: "int ai_state" where
  "demo_ai_state = \<lparr>ai_requests = [], ai_limiter = empty_limiter, ai_budget = demo_budget, ai_audit = no_audit\<rparr>"

definition demo_ask :: "dict \<Rightarrow> dict" where
  "demo_ask extra = [(''question'', JStr ''what''), (''case_id'', JStr ''case-demo''),
     (''selection'', JObj ([(''resource_class'', JStr ''artifact''), (''resource_id'', JStr ''artifact-1'')] @ extra))]"

definition demo_draw_at :: "int \<Rightarrow> ask_draw" where
  "demo_draw_at t = \<lparr>ad_uuid = ''r1'', ad_purge = t, ad_begin = t, ad_created = t, ad_elapsed = 1, ad_world = demo_world ''a'' None\<rparr>"

theorem ai_answers_rest_on_server_data_witness:
  "ask_ai demo_ai demo_principal (demo_ask []) (demo_draw_at 1) demo_ai_state =
   ask_ai demo_ai demo_principal (demo_ask [(''data'', JStr ''forged'')]) (demo_draw_at 1) demo_ai_state"
  using ai_answers_rest_on_server_data [of "demo_ask []" "demo_ask [(''data'', JStr ''forged'')]" _ _ demo_ai demo_principal
      "demo_draw_at 1" demo_ai_state]
  by (simp add: demo_ask_def dget_def selection_fields_def)

theorem ai_slot_is_always_released_witness:
  "snd (begin_ai_request demo_principal 5 (ai_limiter (fst (run_ops (ai_step demo_ai)
     [Ask demo_principal (demo_ask []) (demo_draw_at 1), Ask demo_principal [] (demo_draw_at 2)] demo_ai_state)))) =
   Inr (analyst_key demo_principal)"
  using ai_slot_is_always_released [of demo_ai_state demo_principal
      "[Ask demo_principal (demo_ask []) (demo_draw_at 1), Ask demo_principal [] (demo_draw_at 2)]" 5 demo_ai]
  by (simp add: demo_ai_state_def demo_draw_at_def rate_window_def)

theorem ai_rate_is_bounded_witness:
  "length (accepted_times (''t'', ''a'') (snd (run_ops limiter_step
     [BeginAi demo_principal 1, EndAi (''t'', ''a''), BeginAi demo_principal 2] empty_limiter))) \<le> 2"
  using ai_rate_is_bounded [of "[BeginAi demo_principal 1, EndAi (''t'', ''a''), BeginAi demo_principal 2]" 0 "(''t'', ''a'')"]
  by simp

definition demo_created :: resource_db where
  "demo_created = fst (run_ops (create_step demo_api)
     [Create CaseRecord demo_principal [(''title'', JStr ''x''), (''tenant_id'', JStr ''forged'')] ''0123456789abcdef'' 1] empty_resources)"

theorem resources_stay_in_their_tenant_witness:
  "\<exists>page. list_route demo_api CaseRecord demo_principal None None 50 0 demo_created = Inr page \<and>
     length (rp_items page) = 1 \<and> dget (rp_items page ! 0) ''tenant_id'' \<noteq> JStr ''forged''"
proof -
  have run: "list_route demo_api CaseRecord demo_principal None None 50 0 demo_created =
      Inr \<lparr>rp_items = [[(''title'', JStr ''x''), (''tenant_id'', JStr tenant_one), (''id'', JStr ''case_record-0123456789ab''),
        (''created_at'', JStr ''r'')]], rp_count = 1, rp_limit = 50, rp_offset = 0\<rparr>"
    by code_simp
  then obtain page where page: "list_route demo_api CaseRecord demo_principal None None 50 0 demo_created = Inr page"
    "length (rp_items page) = 1" by simp
  from resources_stay_in_their_tenant [OF page(1) [unfolded demo_created_def]] page(2)
  have "\<exists>owner. dget (rp_items page ! 0) ''tenant_id'' = JStr owner \<and> tenant_row demo_api owner = tenant_row demo_api (tenant_id demo_principal)"
    by (auto simp: list_all_length)
  moreover have "tenant_row demo_api ''forged'' \<noteq> tenant_row demo_api (tenant_id demo_principal)" by code_simp
  ultimately show ?thesis using page by auto
qed

theorem accepted_requests_are_authenticated_witness:
  "\<exists>p. authorize demo_crypto demo_settings [''cases:read''] demo_token 3 = Inr p \<and> ''cases:read'' \<in> set (scopes p) \<union> set (roles p)"
proof -
  have "is_ok (authorize demo_crypto demo_settings [''cases:read''] demo_token 3)" by code_simp
  then obtain p where p: "authorize demo_crypto demo_settings [''cases:read''] demo_token 3 = Inr p" by (auto simp: is_ok_iff)
  from accepted_requests_are_authenticated [OF this] p show ?thesis by auto
qed

end
