(* ===== verification/Posix_Path.thy ===== *)
theory Posix_Path
  imports Prelude
begin

text \<open>
  \<^verbatim>\<open>pathlib.PurePosixPath\<close> on the names of archive members, as the staging harness, the artifact
  parser and the archive adapters use it: empty parts and single dots disappear, two dots stay.
\<close>

definition slash :: char where "slash = CHR ''/''"

definition root_of :: "string \<Rightarrow> string" where
  "root_of n = (if prefix ''///'' n then ''/'' else if prefix ''//'' n then ''//'' else if prefix ''/'' n then ''/'' else [])"

definition is_absolute :: "string \<Rightarrow> bool" where
  "is_absolute n = (root_of n \<noteq> [])"

text \<open>The parts without the root.\<close>

definition path_parts :: "string \<Rightarrow> string list" where
  "path_parts n = filter (\<lambda>p. p \<noteq> [] \<and> p \<noteq> ''.'') (split_on slash n)"

text \<open>\<^verbatim>\<open>root / name\<close>: an absolute name replaces the root.\<close>

definition join_path :: "string list \<Rightarrow> string \<Rightarrow> string list" where
  "join_path root n = (if is_absolute n then path_parts n else root @ path_parts n)"

definition as_posix :: "string \<Rightarrow> string" where
  "as_posix n = (let s = root_of n @ join ''/'' (path_parts n) in if s = [] then ''.'' else s)"

definition base_name :: "string \<Rightarrow> string" where
  "base_name n = (case path_parts n of [] \<Rightarrow> [] | p # ps \<Rightarrow> last (p # ps))"

text \<open>\<^verbatim>\<open>PurePath.suffix\<close>: from the last dot, unless it is the first or the last character.\<close>

definition path_suffix :: "string \<Rightarrow> string" where
  "path_suffix n =
     (let b = base_name n; ext = takeWhile (\<lambda>c. c \<noteq> CHR ''.'') (rev b) in
      if ext \<noteq> [] \<and> length ext + 1 < length b then CHR ''.'' # rev ext else [])"

definition unbackslash :: "string \<Rightarrow> string" where
  "unbackslash n = replace_char (CHR 0x5C) slash n"

lemma split_join_parts:
  assumes "ws \<noteq> []" "\<forall>w\<in>set ws. c \<notin> set w" shows "split_on c (join [c] ws) = ws"
  using assms
proof (induction ws rule: induct_list012)
  case (2 w)
  have "c \<notin> set w \<Longrightarrow> split_on c w = [w]" by (induction w) auto
  with 2 show ?case by simp
next
  case (3 w v ws)
  have "c \<notin> set w \<Longrightarrow> split_on c (w @ c # s) = w # split_on c s" for s by (induction w) auto
  with 3 show ?case by simp
qed simp

lemma split_on_clean: "w \<in> set (split_on c s) \<Longrightarrow> c \<notin> set w"
proof (induction s arbitrary: w)
  case (Cons x s)
  then show ?case by (cases "split_on c s") (auto split: if_splits)
qed simp

lemma path_parts_clean: "p \<in> set (path_parts n) \<Longrightarrow> slash \<notin> set p \<and> p \<noteq> [] \<and> p \<noteq> ''.''"
  by (auto simp: path_parts_def dest: split_on_clean)

text \<open>Normalising a relative name does not change its parts.\<close>

lemma path_parts_join:
  assumes "\<forall>p\<in>set ps. slash \<notin> set p \<and> p \<noteq> [] \<and> p \<noteq> ''.''" shows "path_parts (join ''/'' ps) = ps"
proof (cases "ps = []")
  case False
  with assms have "split_on slash (join [slash] ps) = ps" by (intro split_join_parts) auto
  then show ?thesis using assms by (simp add: path_parts_def slash_def filter_id_conv)
qed (simp add: path_parts_def)

lemma path_parts_as_posix: "\<not> is_absolute n \<Longrightarrow> path_parts (as_posix n) = path_parts n"
proof -
  assume "\<not> is_absolute n"
  then have r: "root_of n = []" by (simp add: is_absolute_def)
  show ?thesis
  proof (cases "join ''/'' (path_parts n) = []")
    case True
    have "path_parts (join ''/'' (path_parts n)) = path_parts n" by (rule path_parts_join) (use path_parts_clean in blast)
    with True have "path_parts n = []" by (simp add: path_parts_def)
    with True r show ?thesis by (simp add: as_posix_def path_parts_def slash_def)
  next
    case False
    with r have "as_posix n = join ''/'' (path_parts n)" by (simp add: as_posix_def)
    moreover have "path_parts (join ''/'' (path_parts n)) = path_parts n" by (rule path_parts_join) (use path_parts_clean in blast)
    ultimately show ?thesis by simp
  qed
qed

end
