(* ===== verification/Staging.thy ===== *)
theory Staging
  imports File_System Posix_Path "HOL-Library.Word"
begin

text \<open>
  \<^verbatim>\<open>staging.py\<close>: one source is snapshotted, its archive members are checked, it is copied below
  an analysis root, a processor runs, and the source is snapshotted again.  The ZIP and TAR readers,
  modification times and the two manifest renderings are parameters; the processor is an arbitrary
  function on the volume.  Names are printable ASCII, for which \<^verbatim>\<open>json.dumps\<close> with and without
  \<^verbatim>\<open>ensure_ascii\<close> agree.
\<close>

unbundle bit_operations_syntax

section \<open>Errors, limits, parameters\<close>

datatype stage_error = Staging string string string | OsFail sys_error

record stage_limits =
  max_file_bytes :: int
  max_total_bytes :: int
  max_archive_members :: nat

definition standard_limits :: stage_limits where
  "standard_limits = \<lparr>max_file_bytes = 512 * 1024 * 1024, max_total_bytes = 4 * 1024 * 1024 * 1024,
     max_archive_members = 100000\<rparr>"

text \<open>\<^verbatim>\<open>external_attr\<close> of a ZIP member is a 32-bit word whose upper half is the Unix mode.\<close>

record zip_item =
  zi_name :: string
  zi_attr :: "32 word"
  zi_dir :: bool
  zi_size :: int

datatype tar_kind = TarFile | TarDir | TarLink | TarSpecial

record tar_item =
  ti_name :: string
  ti_kind :: tar_kind
  ti_size :: int

datatype crc = CrcOk | CrcBad | CrcBadZip | CrcRaises string

record stage_lib =
  sl_os :: os
  sl_mtime :: "fs \<Rightarrow> path \<Rightarrow> string"
  sl_pretty :: "json \<Rightarrow> string"
  sl_line :: "json \<Rightarrow> string"
  sl_zip :: "string \<Rightarrow> (zip_item list \<times> crc) option option"
  sl_tar :: "string \<Rightarrow> tar_item list option option"

definition path_str :: "path \<Rightarrow> string" where
  "path_str p = ''/'' @ join ''/'' p"

definition path_name :: "path \<Rightarrow> string" where
  "path_name p = (if p = [] then [] else last p)"

section \<open>Snapshots\<close>

record tree_entry =
  te_path :: string
  te_dir :: bool
  te_size :: int
  te_sha :: "string option"
  te_mode :: nat
  te_mtime :: string

datatype snapshot =
    FileSnap int string nat string
  | TreeSnap int string "tree_entry list"

definition sys :: "sys_error + 'a \<Rightarrow> stage_error + 'a" where
  "sys r = (case r of Inl e \<Rightarrow> Inl (OsFail e) | Inr x \<Rightarrow> Inr x)"

definition regular_source :: "stage_lib \<Rightarrow> path \<Rightarrow> fs \<Rightarrow> stage_error + unit" where
  "regular_source L p f =
     (if is_symlink f p \<or> \<not> p_exists (sl_os L) f p \<or> \<not> (is_file (sl_os L) f p \<or> is_dir (sl_os L) f p)
      then Inl (Staging ''SOURCE_INVALID'' ''source must be a regular file or directory'' (path_str p)) else Inr ())"

definition file_sha :: "stage_lib \<Rightarrow> path \<Rightarrow> fs \<Rightarrow> stage_error + string" where
  "file_sha L p f = r_bind (sys (read_file (sl_os L) p f)) (\<lambda>c. Inr (sha_bytes (sl_os L) c))"

text \<open>\<^verbatim>\<open>sorted(source.rglob("*"))\<close>: paths compare by their parts.\<close>

definition descendants :: "path \<Rightarrow> fs \<Rightarrow> path list" where
  "descendants src f = sort (rglob src f)"

definition relative_to :: "path \<Rightarrow> path \<Rightarrow> string" where
  "relative_to src p = join ''/'' (drop (length src) p)"

fun scan_tree :: "stage_lib \<Rightarrow> stage_limits \<Rightarrow> path \<Rightarrow> fs \<Rightarrow> int \<Rightarrow> path list \<Rightarrow> stage_error + (tree_entry list \<times> int)" where
  "scan_tree L lim src f total_bytes [] = Inr ([], total_bytes)"
| "scan_tree L lim src f total_bytes (p # ps) =
     (let rel = relative_to src p in
      if is_symlink f p then Inl (Staging ''SYMLINK_REJECTED'' ''source trees may not contain symlinks'' rel)
      else
        (case stat_node (sl_os L) f p of
           None \<Rightarrow> Inl (OsFail (OsError ''FileNotFoundError''))
         | Some (Dir m) \<Rightarrow>
             r_bind (scan_tree L lim src f total_bytes ps) (\<lambda>(es, t).
               Inr (\<lparr>te_path = rel, te_dir = True, te_size = 0, te_sha = None, te_mode = m, te_mtime = sl_mtime L f p\<rparr> # es, t))
         | Some (Link q) \<Rightarrow> Inl (Staging ''SOURCE_INVALID'' ''source tree contains a special file'' rel)
         | Some (File c m) \<Rightarrow>
             (let size = int (length c) in
              if max_file_bytes lim < size \<or> max_total_bytes lim < total_bytes + size
              then Inl (Staging ''FILE_LIMIT_EXCEEDED'' ''source tree exceeds configured size limit'' rel)
              else r_bind (file_sha L p f) (\<lambda>h.
                   r_bind (scan_tree L lim src f (total_bytes + size) ps) (\<lambda>(es, t).
                     Inr (\<lparr>te_path = rel, te_dir = False, te_size = size, te_sha = Some h, te_mode = m,
                            te_mtime = sl_mtime L f p\<rparr> # es, t))))))"

definition entry_kind :: "tree_entry \<Rightarrow> string" where
  "entry_kind e = (if te_dir e then ''directory'' else ''file'')"

definition sha_json :: "string option \<Rightarrow> json" where
  "sha_json h = (case h of None \<Rightarrow> JNull | Some s \<Rightarrow> JStr s)"

definition entry_json :: "tree_entry \<Rightarrow> json" where
  "entry_json e = JObj [(''path'', JStr (te_path e)), (''kind'', JStr (entry_kind e)), (''size'', JInt (te_size e)),
     (''sha256'', sha_json (te_sha e)), (''mode'', JInt (int (te_mode e))), (''mtime_utc'', JStr (te_mtime e))]"

definition digest_entry :: "tree_entry \<Rightarrow> json" where
  "digest_entry e = JObj [(''path'', JStr (te_path e)), (''kind'', JStr (entry_kind e)), (''size'', JInt (te_size e)),
     (''sha256'', sha_json (te_sha e))]"

definition tree_text :: "tree_entry list \<Rightarrow> string" where
  "tree_text es = concat (map (\<lambda>e. canonical_json (digest_entry e)) es)"

definition take_snapshot :: "stage_lib \<Rightarrow> stage_limits \<Rightarrow> path \<Rightarrow> fs \<Rightarrow> stage_error + snapshot" where
  "take_snapshot L lim src f =
     r_bind (regular_source L src f) (\<lambda>_.
       case stat_node (sl_os L) f src of
         Some (File c m) \<Rightarrow>
           (if max_file_bytes lim < int (length c)
            then Inl (Staging ''FILE_LIMIT_EXCEEDED'' ''source exceeds configured file limit'' (path_str src))
            else r_bind (file_sha L src f) (\<lambda>h. Inr (FileSnap (int (length c)) h m (sl_mtime L f src))))
       | _ \<Rightarrow> (let base = realpath (sl_os L) f src in
                r_bind (scan_tree L lim base f 0 (descendants base f)) (\<lambda>(es, t).
                  Inr (TreeSnap t (sha_bytes (sl_os L) (tree_text es)) es))))"

fun snap_sha :: "snapshot \<Rightarrow> string" where
  "snap_sha (FileSnap n h m t) = h"
| "snap_sha (TreeSnap n h es) = h"

fun snap_modes :: "snapshot \<Rightarrow> (string \<times> nat) list" where
  "snap_modes (FileSnap n h m t) = [(''.'', m)]"
| "snap_modes (TreeSnap n h es) = map (\<lambda>e. (te_path e, te_mode e)) es"

fun is_tree :: "snapshot \<Rightarrow> bool" where
  "is_tree (FileSnap n h m t) = False"
| "is_tree (TreeSnap n h es) = True"

fun snap_json :: "path \<Rightarrow> snapshot \<Rightarrow> json" where
  "snap_json src (FileSnap n h m t) = JObj [(''path'', JStr (path_str src)), (''name'', JStr (path_name src)), (''kind'', JStr ''file''),
     (''size'', JInt n), (''sha256'', JStr h), (''mode'', JInt (int m)), (''mtime_utc'', JStr t)]"
| "snap_json src (TreeSnap n h es) = JObj [(''path'', JStr (path_str src)), (''name'', JStr (path_name src)), (''kind'', JStr ''directory''),
     (''size'', JInt n), (''sha256'', JStr h), (''entries'', JList (map entry_json es))]"

section \<open>Archive members\<close>

definition unix_mode :: "32 word \<Rightarrow> 32 word" where
  "unix_mode a = drop_bit 16 a AND 0xFFFF"

definition file_type :: "32 word \<Rightarrow> 32 word" where
  "file_type m = m AND 0xF000"

definition mode_refused :: "32 word \<Rightarrow> bool" where
  "mode_refused m = (file_type m = 0xA000 \<or> m \<noteq> 0 \<and> \<not> (file_type m = 0x8000 \<or> file_type m = 0x4000))"

text \<open>A name that normalises to the current directory has no first part: \<^verbatim>\<open>path.parts[0]\<close> raises.\<close>

definition safe_member :: "string \<Rightarrow> stage_error + string" where
  "safe_member name =
     (let n = unbackslash name; bad = Inl (Staging ''PATH_TRAVERSAL_REJECTED'' ''unsafe archive member path'' name) in
      if n = [] \<or> is_absolute n then bad
      else (case path_parts n of
              [] \<Rightarrow> Inl (OsFail (PyErr ''IndexError''))
            | p # ps \<Rightarrow> if CHR '':'' \<in> set p \<or> list_ex (\<lambda>q. q \<in> {[], ''.'', ''..''}) (p # ps) then bad else Inr (as_posix n)))"

fun check_zip :: "stage_limits \<Rightarrow> int \<Rightarrow> zip_item list \<Rightarrow> stage_error + unit" where
  "check_zip lim used [] = Inr ()"
| "check_zip lim used (z # zs) =
     r_bind (safe_member (zi_name z)) (\<lambda>name.
       if mode_refused (unix_mode (zi_attr z))
       then Inl (Staging ''SYMLINK_REJECTED'' ''archive contains a non-regular member'' name)
       else if zi_dir z then check_zip lim used zs
       else if max_file_bytes lim < zi_size z \<or> max_total_bytes lim < used + zi_size z
       then Inl (Staging ''ARCHIVE_LIMIT_EXCEEDED'' ''archive expands beyond configured limits'' name)
       else check_zip lim (used + zi_size z) zs)"

fun check_tar :: "stage_limits \<Rightarrow> int \<Rightarrow> tar_item list \<Rightarrow> stage_error + unit" where
  "check_tar lim used [] = Inr ()"
| "check_tar lim used (t # ts) =
     r_bind (safe_member (ti_name t)) (\<lambda>name.
       if ti_kind t \<notin> {TarFile, TarDir}
       then Inl (Staging ''SYMLINK_REJECTED'' ''archive contains a link or special member'' name)
       else if ti_kind t = TarFile then
         (if max_file_bytes lim < ti_size t \<or> max_total_bytes lim < used + ti_size t
          then Inl (Staging ''ARCHIVE_LIMIT_EXCEEDED'' ''archive expands beyond configured limits'' name)
          else check_tar lim (used + ti_size t) ts)
       else check_tar lim used ts)"

definition archive_error :: "string \<Rightarrow> string \<Rightarrow> path \<Rightarrow> stage_error + 'a" where
  "archive_error code msg src = Inl (Staging code msg (path_str src))"

definition crc_checked :: "crc \<Rightarrow> path \<Rightarrow> stage_error + unit" where
  "crc_checked c src =
     (case c of CrcOk \<Rightarrow> Inr ()
      | CrcBad \<Rightarrow> archive_error ''ARCHIVE_INVALID'' ''archive CRC validation failed'' src
      | CrcBadZip \<Rightarrow> archive_error ''ARCHIVE_INVALID'' ''invalid ZIP archive'' src
      | CrcRaises n \<Rightarrow> Inl (OsFail (PyErr n)))"

definition archive_suffixes :: "string list" where
  "archive_suffixes = [''.tar'', ''.tar.gz'', ''.tgz'', ''.tar.xz'', ''.txz'']"

definition validate_content :: "stage_lib \<Rightarrow> stage_limits \<Rightarrow> path \<Rightarrow> string \<Rightarrow> stage_error + unit" where
  "validate_content L lim src c =
     (case sl_zip L c of
        Some None \<Rightarrow> archive_error ''ARCHIVE_INVALID'' ''invalid ZIP archive'' src
      | Some (Some (members, crc)) \<Rightarrow>
          (if max_archive_members lim < length members
           then archive_error ''ARCHIVE_LIMIT_EXCEEDED'' ''archive has too many members'' src
           else r_bind (check_zip lim 0 members) (\<lambda>_. crc_checked crc src))
      | None \<Rightarrow>
          (case sl_tar L c of
             Some None \<Rightarrow> archive_error ''ARCHIVE_INVALID'' ''invalid TAR archive'' src
           | Some (Some members) \<Rightarrow>
               (if max_archive_members lim < length members
                then archive_error ''ARCHIVE_LIMIT_EXCEEDED'' ''archive has too many members'' src
                else check_tar lim 0 members)
           | None \<Rightarrow>
               (if suffix ''.zip'' (lower (path_name src)) then archive_error ''ARCHIVE_INVALID'' ''invalid ZIP archive'' src
                else if list_ex (\<lambda>e. suffix e (lower (path_name src))) archive_suffixes
                then archive_error ''ARCHIVE_INVALID'' ''invalid TAR archive'' src
                else Inr ())))"

definition validate_archive :: "stage_lib \<Rightarrow> stage_limits \<Rightarrow> path \<Rightarrow> snapshot \<Rightarrow> fs \<Rightarrow> stage_error + unit" where
  "validate_archive L lim src snap f =
     (if is_tree snap then Inr ()
      else r_bind (sys (read_file (sl_os L) src f)) (validate_content L lim src))"

section \<open>The stager\<close>

record stager =
  sr_source :: path
  sr_root :: path
  sr_limits :: stage_limits

record stager_state =
  sg_fs :: fs
  sg_manifest :: "(snapshot \<times> dict) option"
  sg_events :: "dict list"

type_synonym 'a stage_act = "(stager_state, stage_error, 'a) act"

definition on_fs :: "(fs \<Rightarrow> stage_error + 'a) \<Rightarrow> 'a stage_act" where
  "on_fs g = a_read (\<lambda>s. g (sg_fs s))"

definition to_fs :: "(fs \<Rightarrow> sys_error + fs) \<Rightarrow> unit stage_act" where
  "to_fs g = a_step (\<lambda>s. case g (sg_fs s) of Inl e \<Rightarrow> Inl (OsFail e) | Inr f \<Rightarrow> Inr (s\<lparr>sg_fs := f\<rparr>))"

definition staged_path :: "stager \<Rightarrow> path" where
  "staged_path S = sr_root S @ [''source'']"

definition manifest_file :: "stager \<Rightarrow> path" where "manifest_file S = sr_root S @ [''evidence-manifest.json'']"
definition events_file :: "stager \<Rightarrow> path" where "events_file S = sr_root S @ [''custody-events.jsonl'']"

definition stage_event :: "string \<Rightarrow> string \<Rightarrow> dict \<Rightarrow> unit stage_act" where
  "stage_event name now details =
     a_modify (\<lambda>s. s\<lparr>sg_events := sg_events s @ [[(''event'', JStr name), (''at_utc'', JStr now)] @ details]\<rparr>)"

definition write_records :: "stage_lib \<Rightarrow> stager \<Rightarrow> unit stage_act" where
  "write_records L S = a_bind a_get (\<lambda>s.
     case sg_manifest s of
       None \<Rightarrow> a_ret ()
     | Some (snap, m) \<Rightarrow>
         a_bind (to_fs (write_file (sl_os L) (manifest_file S) (sl_pretty L (JObj m) @ [CHR 0x0A]))) (\<lambda>_.
           to_fs (write_file (sl_os L) (events_file S)
             (join [CHR 0x0A] (map (\<lambda>e. sl_line L (JObj e)) (sg_events s)) @ [CHR 0x0A]))))"

definition limits_json :: "stage_limits \<Rightarrow> json" where
  "limits_json lim = JObj [(''max_file_bytes'', JInt (max_file_bytes lim)), (''max_total_bytes'', JInt (max_total_bytes lim)),
     (''max_archive_members'', JInt (int (max_archive_members lim)))]"

text \<open>\<^verbatim>\<open>copytree\<close> with \<^verbatim>\<open>copyfile\<close>, and the permissions set afterwards: the copied root keeps the
  mode of the source directory, everything below gets 600 or 700.  A directory that cannot be listed
  makes it raise, a subdirectory only after the rest was copied.\<close>

definition copied_node :: "node \<Rightarrow> node" where
  "copied_node n = (case n of File c m \<Rightarrow> File c 384 | Dir m \<Rightarrow> Dir 448 | Link q \<Rightarrow> Link q)"

definition half_copied :: "node \<Rightarrow> node" where
  "half_copied n = (case n of File c m \<Rightarrow> File c 420 | Dir m \<Rightarrow> Dir m | Link q \<Rightarrow> Link q)"

definition copy_below :: "(node \<Rightarrow> node) \<Rightarrow> path \<Rightarrow> path \<Rightarrow> path list \<Rightarrow> fs \<Rightarrow> fs \<Rightarrow> fs" where
  "copy_below h src dst ps f g =
     fold (\<lambda>p g. case lookup f p of None \<Rightarrow> g | Some n \<Rightarrow> set_node (dst @ drop (length src) p) (h n) g) ps g"

definition copy_tree :: "path \<Rightarrow> path \<Rightarrow> fs \<Rightarrow> fs \<times> (sys_error + unit)" where
  "copy_tree src dst f =
     (case (lookup f (butlast dst), lookup f src) of
        (Some (Dir w), Some (Dir m)) \<Rightarrow>
          (if \<not> r_bit m \<or> \<not> w_bit w then (f, Inl (OsError ''PermissionError''))
           else let ps = descendants src f in
             if list_ex (opaque_dir f) ps
             then (copy_below half_copied src dst (filter (\<lambda>p. \<not> opaque_dir f p) ps) f (set_node dst (Dir m) f), Inl (OsError ''Error''))
             else (copy_below copied_node src dst ps f (set_node dst (Dir m) f), Inr ()))
      | _ \<Rightarrow> (f, Inl (OsError ''FileNotFoundError'')))"

definition copy_source_to :: "stage_lib \<Rightarrow> stager \<Rightarrow> snapshot \<Rightarrow> unit stage_act" where
  "copy_source_to L S snap =
     (let w = sl_os L; staged = staged_path S in
      if is_tree snap
      then (\<lambda>s. case copy_tree (realpath w (sg_fs s) (sr_source S)) staged (sg_fs s) of (g, r) \<Rightarrow> (s\<lparr>sg_fs := g\<rparr>, sys r))
      else a_bind (on_fs (\<lambda>f. sys (read_file w (sr_source S) f))) (\<lambda>c.
           a_bind (to_fs (write_file w staged c)) (\<lambda>_. to_fs (chmod w staged 384))))"

definition source_sha :: "stage_lib \<Rightarrow> stager \<Rightarrow> json stage_act" where
  "source_sha L S = on_fs (\<lambda>f.
     if is_file (sl_os L) f (sr_source S) then r_bind (file_sha L (sr_source S) f) (\<lambda>h. Inr (JStr h)) else Inr JNull)"

definition stage :: "stage_lib \<Rightarrow> stager \<Rightarrow> bool \<Rightarrow> (nat \<Rightarrow> string) \<Rightarrow> path stage_act" where
  "stage L S copied clock =
     (let w = sl_os L; src = sr_source S; root = sr_root S in
      a_bind (on_fs (take_snapshot L (sr_limits S) src)) (\<lambda>before.
      a_bind (on_fs (validate_archive L (sr_limits S) src before)) (\<lambda>_.
      a_bind a_get (\<lambda>s0.
      a_bind (a_guard (\<not> prefix (realpath w (sg_fs s0) src) root)
                (Staging ''ANALYSIS_ROOT_INVALID'' ''analysis root must not be inside source'' (path_str root))) (\<lambda>_.
      a_bind (to_fs (mkdir w 448 root True)) (\<lambda>_.
      a_bind a_get (\<lambda>s1.
      a_bind (a_guard (\<not> (p_exists w (sg_fs s1) (staged_path S) \<or> is_symlink (sg_fs s1) (staged_path S)))
                (Staging ''ANALYSIS_ROOT_NOT_EMPTY'' ''staged source already exists'' (path_str (staged_path S)))) (\<lambda>_.
      a_bind (if copied then copy_source_to L S before else a_ret ()) (\<lambda>_.
      let staged = (if copied then staged_path S else src) in
      a_bind (a_modify (\<lambda>s. s\<lparr>sg_manifest := Some (before, [(''schema_version'', JStr ''1.0''), (''source'', snap_json src before),
                (''staged_path'', JStr (path_str staged)), (''copied'', JBool copied), (''limits'', limits_json (sr_limits S))])\<rparr>)) (\<lambda>_.
      a_bind (source_sha L S) (\<lambda>h.
      a_bind (stage_event ''staged'' (clock 0) [(''sha256'', h)]) (\<lambda>_.
      a_bind (write_records L S) (\<lambda>_. a_ret staged)))))))))))))"

section \<open>A run\<close>

type_synonym processor = "path \<Rightarrow> fs \<Rightarrow> fs \<times> (sys_error + json)"

fun type_name :: "json \<Rightarrow> string" where
  "type_name JNull = ''NoneType''"
| "type_name (JBool b) = ''bool''"
| "type_name (JInt i) = ''int''"
| "type_name (JFloat r) = ''float''"
| "type_name (JStr s) = ''str''"
| "type_name (JList xs) = ''list''"
| "type_name (JObj d) = ''dict''"

definition process_staged :: "processor \<Rightarrow> path \<Rightarrow> json stage_act" where
  "process_staged g p s = (case g p (sg_fs s) of (f, r) \<Rightarrow> (s\<lparr>sg_fs := f\<rparr>, sys r))"

definition same_modes :: "(string \<times> nat) list \<Rightarrow> (string \<times> nat) list \<Rightarrow> bool" where
  "same_modes a b = (list_all (\<lambda>k. map_of a k = map_of b k) (map fst a) \<and> list_all (\<lambda>k. map_of a k = map_of b k) (map fst b))"

definition source_changed :: "stager \<Rightarrow> string \<Rightarrow> stage_error" where
  "source_changed S msg = Staging ''SOURCE_CHANGED'' msg (path_str (sr_source S))"

definition verification_json :: "path \<Rightarrow> snapshot \<Rightarrow> json" where
  "verification_json src after = JObj [(''after'', snap_json src after), (''source_unchanged'', JBool True)]"

definition run_stager :: "stage_lib \<Rightarrow> stager \<Rightarrow> processor option \<Rightarrow> bool \<Rightarrow> (nat \<Rightarrow> string) \<Rightarrow> dict stage_act" where
  "run_stager L S g copied clock =
     (let src = sr_source S in
      a_bind (stage L S copied clock) (\<lambda>staged.
      a_bind (stage_event ''processing_started'' (clock 1) [(''staged_path'', JStr (path_str staged))]) (\<lambda>_.
      a_bind (case g of None \<Rightarrow> a_ret (JObj [(''status'', JStr ''staged'')]) | Some p \<Rightarrow> process_staged p staged) (\<lambda>result.
      a_bind (stage_event ''processing_completed'' (clock 2) [(''result_type'', JStr (type_name result))]) (\<lambda>_.
      a_bind (on_fs (take_snapshot L (sr_limits S) src)) (\<lambda>after.
      a_bind (a_read (\<lambda>s. case sg_manifest s of None \<Rightarrow> Inl (OsFail (PyErr ''AssertionError'')) | Some m \<Rightarrow> Inr m)) (\<lambda>(before, m).
      a_bind (a_guard (snap_sha before = snap_sha after)
                (source_changed S ''source SHA-256 changed during processing'')) (\<lambda>_.
      a_bind (a_guard (is_tree before \<longrightarrow> same_modes (snap_modes before) (snap_modes after))
                (source_changed S ''source permissions changed during processing'')) (\<lambda>_.
      a_bind (stage_event ''source_verified'' (clock 3) [(''sha256'', JStr (snap_sha after)), (''unchanged'', JBool True)]) (\<lambda>_.
      let m' = AList.update ''verification'' (verification_json src after) m in
      a_bind (a_modify (\<lambda>s. s\<lparr>sg_manifest := Some (before, m')\<rparr>)) (\<lambda>_.
      a_bind (write_records L S) (\<lambda>_.
      a_bind a_get (\<lambda>s.
        a_ret [(''manifest'', JObj m'), (''events'', JList (map JObj (sg_events s))), (''result'', result),
               (''analysis_root'', JStr (path_str (sr_root S)))])))))))))))))"

section \<open>A fixture in a temporary root\<close>

text \<open>The temporary directory is removed with everything in it, whatever the run answers.\<close>

definition run_fixture :: "stage_lib \<Rightarrow> stage_limits \<Rightarrow> path \<Rightarrow> processor option \<Rightarrow> path \<Rightarrow> (nat \<Rightarrow> string) \<Rightarrow> fs \<Rightarrow>
    fs \<times> (stage_error + dict)" where
  "run_fixture L lim src g tmp clock f =
     (case mkdir (sl_os L) 448 tmp False f of
        Inl e \<Rightarrow> (f, Inl (OsFail e))
      | Inr f1 \<Rightarrow>
          (case run_stager L \<lparr>sr_source = src, sr_root = tmp, sr_limits = lim\<rparr> g True clock
                  \<lparr>sg_fs = f1, sg_manifest = None, sg_events = []\<rparr> of
             (s, r) \<Rightarrow> (rmtree_ignore tmp (sg_fs s), r)))"

end
