(* ===== verification/Staging_Correct.thy ===== *)
theory Staging_Correct
  imports Staging Fixtures
begin

text \<open>
  What staging promises: a verified run leaves the source as it was, staging writes only below its
  analysis root and copies exactly the source, and an archive is let through only within the limits.
\<close>

section \<open>What a snapshot determines\<close>

text \<open>Names in a volume are non-empty, neither one dot nor two, and hold no slash.\<close>

definition names_ok :: "fs \<Rightarrow> bool" where
  "names_ok f = (\<forall>p\<in>fst ` set f. \<forall>c\<in>set p. c \<noteq> [] \<and> c \<noteq> ''.'' \<and> c \<noteq> ''..'' \<and> slash \<notin> set c)"

definition entry_of :: "stage_lib \<Rightarrow> path \<Rightarrow> fs \<Rightarrow> path \<Rightarrow> tree_entry \<Rightarrow> bool" where
  "entry_of L src f p e = (te_path e = relative_to src p \<and>
     (case lookup f p of
        Some (Dir m) \<Rightarrow> te_dir e \<and> te_size e = 0 \<and> te_sha e = None \<and> te_mode e = m
      | Some (File c m) \<Rightarrow> \<not> te_dir e \<and> te_size e = int (length c) \<and> te_sha e = Some (sha_bytes (sl_os L) c) \<and> te_mode e = m
      | _ \<Rightarrow> False))"

lemma file_sha_Inr:
  "os_plain (sl_os L) \<Longrightarrow> no_links f \<Longrightarrow> clean_path p \<Longrightarrow> file_sha L p f = Inr h \<Longrightarrow> \<exists>c m. lookup f p = Some (File c m) \<and> h = sha_bytes (sl_os L) c"
  by (auto simp: file_sha_def sys_def wb_result read_file_def stat_node_def plain_fs split: option.splits node.splits sum.splits if_splits)

lemma scan_tree_entries:
  assumes "os_plain (sl_os L)" "no_links f" "scan_tree L lim src f t ps = Inr (es, t')" "\<forall>p\<in>set ps. clean_path p"
  shows "list_all2 (entry_of L src f) ps es"
  using assms(3,4)
proof (induction ps arbitrary: t es t')
  case (Cons p ps)
  show ?case
  proof (cases "lookup f p")
    case None
    with Cons.prems assms(1,2) show ?thesis by (simp add: Let_def stat_node_def plain_fs split: if_splits)
  next
    case (Some n)
    with Cons assms(1,2) show ?thesis
      by (cases n) (auto simp: Let_def stat_node_def plain_fs entry_of_def wb_result split: if_splits
        dest!: file_sha_Inr [OF assms(1,2)])
  qed
qed simp

definition digest_dict :: "tree_entry \<Rightarrow> dict" where
  "digest_dict e = [(''kind'', JStr (entry_kind e)), (''path'', JStr (te_path e)), (''sha256'', sha_json (te_sha e)), (''size'', JInt (te_size e))]"

lemma canonical_digest: "canonical_json (digest_entry e) = json_text (JObj (digest_dict e))"
proof -
  have "sort_keys (digest_entry e) = JObj (digest_dict e)"
    by (cases "te_sha e") (simp_all add: digest_entry_def digest_dict_def sha_json_def sort_key_def insort_key_def less_eq_list_code less_list_code)
  then show ?thesis by (simp add: canonical_json_def)
qed

lemma obj_text_unique:
  assumes "json_ok (JObj d)" "json_ok (JObj d')" "json_text (JObj d) @ s = json_text (JObj d') @ t"
  shows "d = d' \<and> s = t"
proof -
  let ?f = "\<lambda>p. json_str (fst p) @ '':'' @ json_text (snd p)"
  show ?thesis
  proof (rule join_unique [where f = ?f and e = "CHR ''}''"])
    show "join '','' (map ?f d) @ CHR ''}'' # s = join '','' (map ?f d') @ CHR ''}'' # t"
      using assms(3) by simp
    fix p q :: "string \<times> json" and s t
    assume p: "p \<in> set d" and q: "q \<in> set d'" and tails: "ok_tail s" "ok_tail t" and eq: "?f p @ s = ?f q @ t"
    have "fst p = fst q" "json_text (snd p) @ s = json_text (snd q) @ t"
      using json_str_inject [of "fst p" "'':'' @ json_text (snd p) @ s" "fst q" "'':'' @ json_text (snd q) @ t"] eq by auto
    moreover have "json_ok (snd p)" "json_ok (snd q)" using assms(1,2) p q by auto
    ultimately show "p = q \<and> s = t" using json_text_unique [of "snd p" "snd q" s t] tails by (auto simp: prod_eq_iff)
  qed (auto simp: json_str_def quote_char_def delim_def)
qed

lemma digest_ok: "json_ok (JObj (digest_dict e))"
  by (cases "te_sha e") (simp_all add: digest_dict_def dict_ok_def sha_json_def)

lemma tree_text_unique: "tree_text es = tree_text es' \<Longrightarrow> map digest_dict es = map digest_dict es'"
proof (induction es arbitrary: es')
  case Nil
  then show ?case by (cases es') (simp_all add: tree_text_def canonical_digest)
next
  case (Cons e es)
  from Cons.prems obtain e' r where es': "es' = e' # r" by (cases es') (auto simp: tree_text_def canonical_digest)
  have "json_text (JObj (digest_dict e)) @ tree_text es = json_text (JObj (digest_dict e')) @ tree_text r"
    using Cons.prems by (simp add: es' tree_text_def canonical_digest)
  from obj_text_unique [OF digest_ok digest_ok this] Cons.IH es' show ?case by simp
qed

lemma digest_dict_eq:
  "digest_dict e = digest_dict e' \<longleftrightarrow> te_dir e = te_dir e' \<and> te_path e = te_path e' \<and> te_sha e = te_sha e' \<and> te_size e = te_size e'"
  by (auto simp: digest_dict_def entry_kind_def sha_json_def split: if_splits option.splits)

lemma relative_to_inj:
  assumes "names_ok f" "names_ok f'" "p \<in> fst ` set f" "q \<in> fst ` set f'" "strict_prefix src p" "strict_prefix src q"
    "relative_to src p = relative_to src q"
  shows "p = q"
proof -
  obtain u v where u: "p = src @ u" "u \<noteq> []" and v: "q = src @ v" "v \<noteq> []" using assms(5,6) by (auto simp: strict_prefix_def prefix_def)
  have "split_on slash (join [slash] u) = u" "split_on slash (join [slash] v) = v"
    using assms(1-4) u v by (auto simp: names_ok_def intro!: split_join_parts)
  moreover have "join [slash] u = join [slash] v" using assms(7) u v by (simp add: relative_to_def slash_def)
  ultimately show ?thesis using u v by metis
qed

lemma in_descendants: "p \<in> set (descendants src f) \<longleftrightarrow> strict_prefix src p \<and> listable src f p \<and> lookup f p \<noteq> None"
  by (simp add: descendants_def in_rglob)

lemma present_clean: "names_ok f \<Longrightarrow> lookup f p \<noteq> None \<Longrightarrow> clean_path p"
  unfolding names_ok_def clean_path_def lookup_def by (metis map_of_eq_None_iff)

lemma descendants_clean: "names_ok f \<Longrightarrow> \<forall>p\<in>set (descendants src f). clean_path p"
  by (auto simp: in_descendants intro: present_clean)

text \<open>Two nodes the snapshots do not tell apart: files of the same mode, size and digest, or equal nodes.\<close>

definition same_node :: "os \<Rightarrow> node option \<Rightarrow> node option \<Rightarrow> bool" where
  "same_node w n n' = (case (n, n') of
     (Some (File c m), Some (File c' m')) \<Rightarrow> m = m' \<and> length c = length c' \<and> sha_bytes w c = sha_bytes w c'
   | _ \<Rightarrow> n = n')"

lemma same_node_sym: "same_node w n n' \<Longrightarrow> same_node w n' n"
  by (auto simp: same_node_def split: option.splits node.splits)

lemma entry_of_same:
  assumes "entry_of L src f p e" "entry_of L src f q e2" "lookup f p = lookup f q"
  shows "te_mode e = te_mode e2"
proof (cases "lookup f p")
  case (Some n)
  with assms(3) have "lookup f q = Some n" by simp
  with assms(1,2) Some show ?thesis by (cases n) (auto simp: entry_of_def)
qed (use assms in \<open>auto simp: entry_of_def\<close>)

lemma entry_of_node:
  assumes "entry_of L src f p e" "entry_of L src f' p e'" "digest_dict e' = digest_dict e" "te_mode e = te_mode e'"
  shows "same_node (sl_os L) (lookup f p) (lookup f' p)"
proof (cases "lookup f p")
  case (Some n)
  obtain n' where n': "lookup f' p = Some n'" using assms(2) by (cases "lookup f' p") (auto simp: entry_of_def)
  show ?thesis using assms Some n' by (cases n; cases n') (auto simp: entry_of_def digest_dict_eq same_node_def)
qed (use assms in \<open>auto simp: entry_of_def\<close>)

lemma snapshot_covers:
  assumes ea: "list_all2 (entry_of L src f) (descendants src f) es" and eb: "list_all2 (entry_of L src f') (descendants src f') es'"
    and names: "names_ok f" "names_ok f'" and digest: "map digest_dict es = map digest_dict es'"
    and modes: "same_modes (map (\<lambda>e. (te_path e, te_mode e)) es) (map (\<lambda>e. (te_path e, te_mode e)) es')"
    and found: "p \<in> set (descendants src f)"
  shows "same_node (sl_os L) (lookup f p) (lookup f' p)"
proof -
  from found obtain n where p: "strict_prefix src p" "lookup f p = Some n" by (auto simp: in_descendants)
  have keys: "q \<in> fst ` set g" if "lookup g q \<noteq> None" for g q using that by (simp add: lookup_def map_of_eq_None_iff)
  from found ea obtain e where e: "e \<in> set es" "entry_of L src f p e" by (metis in_set_conv_nth list_all2_conv_all_nth)
  have only: "q = p" if "q \<in> set (descendants src f')" "entry_of L src f' q e'" "te_path e' = te_path e" for q e'
    using that e(2) p keys in_descendants relative_to_inj [OF names(2,1), of q p src] by (auto simp: entry_of_def)
  have same: "\<exists>q\<in>set (descendants src f'). entry_of L src f' q e'" if "e' \<in> set es'" for e'
    using eb that by (auto simp: list_all2_conv_all_nth in_set_conv_nth) (metis nth_mem)
  from e(1) digest obtain e' where e': "e' \<in> set es'" "digest_dict e' = digest_dict e"
    by (metis (no_types, opaque_lifting) image_iff image_set)
  then have d: "te_dir e' = te_dir e" "te_path e' = te_path e" "te_sha e' = te_sha e" by (auto simp: digest_dict_eq)
  with same [OF e'(1)] only have ep: "entry_of L src f' p e'" by blast
  let ?m = "\<lambda>es. map_of (map (\<lambda>e. (te_path e, te_mode e)) es) (te_path e)"
  have "?m es = ?m es'" using modes e(1) by (auto simp: same_modes_def list_all_iff)
  moreover have "?m es = Some (te_mode e)"
  proof -
    from e(1) obtain v where v: "?m es = Some v" by (cases "?m es") (auto simp: map_of_eq_None_iff image_image)
    then obtain e2 where e2: "e2 \<in> set es" "te_path e2 = te_path e" "te_mode e2 = v" by (auto dest!: map_of_SomeD)
    from ea e2(1) obtain q where q: "q \<in> set (descendants src f)" "entry_of L src f q e2"
      by (auto simp: list_all2_conv_all_nth in_set_conv_nth) (metis nth_mem)
    have "q = p" using q e2(2) e(2) p keys in_descendants relative_to_inj [OF names(1,1), of q p src] by (auto simp: entry_of_def)
    with entry_of_same [OF q(2) e(2)] have "te_mode e2 = te_mode e" by simp
    with v e2 show ?thesis by simp
  qed
  moreover have "?m es' = Some (te_mode e')"
  proof -
    have "te_path e \<in> te_path ` set es'" using imageI [OF e'(1), of te_path] unfolding d(2) .
    then obtain v where v: "?m es' = Some v" by (cases "?m es'") (auto simp: map_of_eq_None_iff image_image)
    then obtain e2 where e2: "e2 \<in> set es'" "te_path e2 = te_path e" "te_mode e2 = v" by (auto dest!: map_of_SomeD)
    with same [OF e2(1)] only have "entry_of L src f' p e2" by blast
    with entry_of_same ep have "te_mode e2 = te_mode e'" by blast
    with v e2 show ?thesis by simp
  qed
  ultimately have "te_mode e = te_mode e'" by simp
  with entry_of_node [OF e(2) ep e'(2)] show ?thesis by simp
qed

text \<open>The same source: a file with bytes of the same digest, or a directory below which everything that
  can be listed before or after is the same.\<close>

definition same_source :: "os \<Rightarrow> path \<Rightarrow> fs \<Rightarrow> fs \<Rightarrow> bool" where
  "same_source w src f f' =
     (case (lookup f src, lookup f' src) of
        (Some (File c m), Some (File c' m')) \<Rightarrow> sha_bytes w c' = sha_bytes w c
      | (Some (Dir m), Some (Dir m')) \<Rightarrow>
          (\<forall>p\<in>set (descendants src f) \<union> set (descendants src f'). same_node w (lookup f p) (lookup f' p))
      | _ \<Rightarrow> False)"

definition listed_as :: "stage_lib \<Rightarrow> path \<Rightarrow> fs \<Rightarrow> tree_entry list \<Rightarrow> bool" where
  "listed_as L src f es = list_all2 (entry_of L src f) (descendants src f) es"

text \<open>What the digest of a directory would have to do for a change to pass: two listings of the source
  with different texts and the same digest, or a listing with the digest of the file it replaced.\<close>

definition listings_collide :: "stage_lib \<Rightarrow> path \<Rightarrow> fs \<Rightarrow> fs \<Rightarrow> bool" where
  "listings_collide L src f f' = (\<exists>es es'. listed_as L src f es \<and> listed_as L src f' es' \<and>
     tree_text es \<noteq> tree_text es' \<and> sha_bytes (sl_os L) (tree_text es) = sha_bytes (sl_os L) (tree_text es'))"

definition file_became_listing :: "stage_lib \<Rightarrow> path \<Rightarrow> fs \<Rightarrow> fs \<Rightarrow> bool" where
  "file_became_listing L src f f' = (\<exists>c m k es. lookup f src = Some (File c m) \<and> lookup f' src = Some (Dir k) \<and>
     listed_as L src f' es \<and> sha_bytes (sl_os L) c = sha_bytes (sl_os L) (tree_text es))"

lemma take_snapshot_cases:
  assumes "os_plain (sl_os L)" "no_links f" "clean_path src" "names_ok f" "take_snapshot L lim src f = Inr a"
  obtains c m k where "lookup f src = Some (File c m)" "a = FileSnap (int (length c)) (sha_bytes (sl_os L) c) m k"
  | m t es where "lookup f src = Some (Dir m)" "a = TreeSnap t (sha_bytes (sl_os L) (tree_text es)) es"
      "list_all2 (entry_of L src f) (descendants src f) es"
proof -
  have r: "realpath (sl_os L) f src = src" using assms(1-3) by (rule plain_fs)
  from assms(5) have "is_file (sl_os L) f src \<or> is_dir (sl_os L) f src"
    by (auto simp: take_snapshot_def wb_result regular_source_def split: if_splits)
  then consider c m where "lookup f src = Some (File c m)" | m where "lookup f src = Some (Dir m)"
    by (auto simp: is_file_def is_dir_def stat_node_def r split: option.splits node.splits)
  then show thesis
  proof cases
    case (1 c m)
    with assms(5) r show thesis
      by (intro that(1) [of c m "sl_mtime L f src"])
        (auto simp: take_snapshot_def wb_result stat_node_def split: if_splits dest!: file_sha_Inr [OF assms(1-3)])
  next
    case (2 m)
    with assms(5) r obtain es t where "scan_tree L lim src f 0 (descendants src f) = Inr (es, t)"
      "a = TreeSnap t (sha_bytes (sl_os L) (tree_text es)) es"
      by (auto simp: take_snapshot_def wb_result stat_node_def Let_def)
    with 2 that(2) scan_tree_entries [OF assms(1,2) _ descendants_clean [OF assms(4)]] show thesis by blast
  qed
qed

lemma equal_snapshots_same_source:
  assumes plain: "os_plain (sl_os L)" "no_links f" "no_links f'" and names: "names_ok f" "names_ok f'" and cl: "clean_path src"
    and a: "take_snapshot L lim src f = Inr a" and b: "take_snapshot L lim src f' = Inr b"
    and sha: "snap_sha a = snap_sha b" and modes: "is_tree a \<longrightarrow> same_modes (snap_modes a) (snap_modes b)" and kind: "is_tree a = is_tree b"
  shows "same_source (sl_os L) src f f' \<or> listings_collide L src f f'"
proof (rule take_snapshot_cases [OF plain(1,2) cl names(1) a])
  fix c m k assume f: "lookup f src = Some (File c m)" "a = FileSnap (int (length c)) (sha_bytes (sl_os L) c) m k"
  show ?thesis
    by (rule take_snapshot_cases [OF plain(1,3) cl names(2) b]) (use f kind sha in \<open>auto simp: same_source_def\<close>)
next
  fix m t es assume f: "lookup f src = Some (Dir m)" "a = TreeSnap t (sha_bytes (sl_os L) (tree_text es)) es"
    "list_all2 (entry_of L src f) (descendants src f) es"
  show ?thesis
  proof (rule take_snapshot_cases [OF plain(1,3) cl names(2) b])
    fix m' t' es' assume f': "lookup f' src = Some (Dir m')" "b = TreeSnap t' (sha_bytes (sl_os L) (tree_text es')) es'"
      "list_all2 (entry_of L src f') (descendants src f') es'"
    show ?thesis
    proof (cases "tree_text es = tree_text es'")
      case True
      then have d: "map digest_dict es = map digest_dict es'" by (rule tree_text_unique)
      from modes f(2) f'(2) have mo: "same_modes (map (\<lambda>e. (te_path e, te_mode e)) es) (map (\<lambda>e. (te_path e, te_mode e)) es')" by simp
      then have mo': "same_modes (map (\<lambda>e. (te_path e, te_mode e)) es') (map (\<lambda>e. (te_path e, te_mode e)) es)"
        by (auto simp: same_modes_def list_all_iff)
      have "same_node (sl_os L) (lookup f p) (lookup f' p)" if "p \<in> set (descendants src f) \<union> set (descendants src f')" for p
        using that snapshot_covers [OF f(3) f'(3) names d mo] snapshot_covers [OF f'(3) f(3) names(2,1) d [symmetric] mo']
          same_node_sym by blast
      then show ?thesis using f(1) f'(1) by (simp add: same_source_def)
    next
      case False
      with f f' sha show ?thesis unfolding listings_collide_def listed_as_def by auto
    qed
  qed (use f kind in auto)
qed

section \<open>Writing\<close>

lemma write_file_keeps_links: "write_file w p c f = Inr f' \<Longrightarrow> is_symlink f q \<Longrightarrow> is_symlink f' q"
  by (auto simp: write_file_def Let_def is_symlink_def wb_fs split: option.splits node.splits if_splits)

lemma set_node_names: "fst ` set f \<subseteq> fst ` set (set_node p n f)"
  unfolding set_node_def dom_update by blast

lemma write_file_names: "write_file w p c f = Inr f' \<Longrightarrow> fst ` set f \<subseteq> fst ` set f'"
  using set_node_names unfolding write_file_def Let_def by (force split: option.splits node.splits if_splits)

lemma to_fs_Inr: "to_fs g s = (s', Inr u) \<longleftrightarrow> (\<exists>f. g (sg_fs s) = Inr f \<and> s' = s\<lparr>sg_fs := f\<rparr>)"
  by (auto simp: to_fs_def wb_act_Inr split: sum.splits)

lemma on_fs_Inr: "on_fs g s = (s', Inr x) \<longleftrightarrow> g (sg_fs s) = Inr x \<and> s' = s"
  by (auto simp: on_fs_def wb_act_Inr)

lemma write_records_Inr:
  assumes "write_records L S s = (s', Inr u)" "sg_manifest s = Some x"
  shows "\<exists>a b f1 f2. write_file (sl_os L) (manifest_file S) a (sg_fs s) = Inr f1 \<and>
    write_file (sl_os L) (events_file S) b f1 = Inr f2 \<and> s' = s\<lparr>sg_fs := f2\<rparr>"
  using assms by (auto simp: write_records_def wb_act_Inr a_get_def to_fs_Inr split: prod.splits) blast

lemma records_effect:
  assumes "write_records L S s = (s', Inr u)" "sg_manifest s = Some x" "os_plain (sl_os L)" "no_links (sg_fs s')" "names_ok (sg_fs s')"
    and "clean_path (sr_root S)"
  shows "no_links (sg_fs s) \<and> names_ok (sg_fs s) \<and>
    (\<forall>src. prefix src (sr_root S) \<or> filter (strict_prefix src) (map fst (sg_fs s')) = filter (strict_prefix src) (map fst (sg_fs s))) \<and>
    (\<forall>p. p \<notin> {manifest_file S, events_file S} \<longrightarrow> lookup (sg_fs s') p = lookup (sg_fs s) p)"
proof -
  from write_records_Inr [OF assms(1,2)] obtain a b f1 f2 where w: "write_file (sl_os L) (manifest_file S) a (sg_fs s) = Inr f1"
    "write_file (sl_os L) (events_file S) b f1 = Inr f2" and s': "s' = s\<lparr>sg_fs := f2\<rparr>" by blast
  have nl: "no_links (sg_fs s)" "no_links f1"
    using assms(4) write_file_keeps_links [OF w(1)] write_file_keeps_links [OF w(2)] by (auto simp: no_links_def s')
  have "fst ` set (sg_fs s) \<subseteq> fst ` set (sg_fs s')" using write_file_names [OF w(1)] write_file_names [OF w(2)] by (simp add: s')
  then have "names_ok (sg_fs s)" using assms(5) unfolding names_ok_def by blast
  moreover have cl: "clean_path (manifest_file S)" "clean_path (events_file S)"
    using assms(6) by (simp_all add: manifest_file_def events_file_def)
  moreover obtain m where 1: "f1 = set_node (manifest_file S) (File a m) (sg_fs s)"
    using plain_write_file(1) [OF assms(3) nl(1) cl(1) w(1)] by blast
  moreover obtain k where 2: "f2 = set_node (events_file S) (File b k) f1"
    using plain_write_file(1) [OF assms(3) nl(2) cl(2) w(2)] by blast
  moreover have "filter (strict_prefix src) (map fst f2) = filter (strict_prefix src) (map fst (sg_fs s))"
    if "\<not> prefix src (sr_root S)" for src
    using that unfolding 1 2 by (auto simp: set_node_def AList.update_keys manifest_file_def events_file_def strict_prefix_def)
  ultimately show ?thesis using nl by (auto simp: s' wb_fs)
qed

section \<open>Runs\<close>

lemma stage_Inr:
  assumes "stage L S copied clock s = (s', Inr staged)"
  obtains before m f1 s2 where "take_snapshot L (sr_limits S) (sr_source S) (sg_fs s) = Inr before"
    "validate_archive L (sr_limits S) (sr_source S) before (sg_fs s) = Inr ()"
    "\<not> prefix (realpath (sl_os L) (sg_fs s) (sr_source S)) (sr_root S)"
    "mkdir (sl_os L) 448 (sr_root S) True (sg_fs s) = Inr f1" "\<not> p_exists (sl_os L) f1 (staged_path S)"
    "(if copied then copy_source_to L S before else a_ret ()) (s\<lparr>sg_fs := f1\<rparr>) = (s2, Inr ())"
    "\<exists>t ev. write_records L S (s2\<lparr>sg_manifest := Some (before, m), sg_events := ev\<rparr>) = (s', Inr t)"
    "sg_manifest s' = Some (before, m)" "staged = (if copied then staged_path S else sr_source S)"
proof -
  from assms obtain before f1 s2 m s3 ev t where *: "take_snapshot L (sr_limits S) (sr_source S) (sg_fs s) = Inr before"
    "validate_archive L (sr_limits S) (sr_source S) before (sg_fs s) = Inr ()"
    "\<not> prefix (realpath (sl_os L) (sg_fs s) (sr_source S)) (sr_root S)"
    "mkdir (sl_os L) 448 (sr_root S) True (sg_fs s) = Inr f1" "\<not> p_exists (sl_os L) f1 (staged_path S)"
    "(if copied then copy_source_to L S before else a_ret ()) (s\<lparr>sg_fs := f1\<rparr>) = (s2, Inr ())"
    "write_records L S (s2\<lparr>sg_manifest := Some (before, m), sg_events := ev\<rparr>) = (s', Inr t)"
    "staged = (if copied then staged_path S else sr_source S)"
    by (auto simp: stage_def Let_def wb_act_Inr on_fs_Inr to_fs_Inr a_get_def a_modify_def a_ret_def stage_event_def source_sha_def)
  from write_records_Inr [OF *(7)] have "sg_manifest s' = Some (before, m)" by auto
  with * that show thesis by blast
qed

lemma records_not_below:
  assumes "\<not> prefix src (sr_root S)" "src \<notin> {manifest_file S, events_file S}" "prefix src p"
  shows "p \<notin> {manifest_file S, events_file S}"
  using assms by (auto simp: manifest_file_def events_file_def prefix_snoc)

lemma descendants_cong:
  assumes "filter (strict_prefix src) (map fst g) = filter (strict_prefix src) (map fst f)"
    and "\<And>p. prefix src p \<Longrightarrow> lookup g p = lookup f p"
  shows "descendants src g = descendants src f"
proof -
  have split: "rglob src h = filter (listable src h) (filter (strict_prefix src) (map fst h))" for h
    by (simp add: rglob_def conj_commute)
  show ?thesis using listable_cong [OF assms(2)] by (simp add: descendants_def split assms(1))
qed

lemma source_cong:
  assumes "filter (strict_prefix src) (map fst g) = filter (strict_prefix src) (map fst f)"
    and "\<And>p. prefix src p \<Longrightarrow> lookup g p = lookup f p"
  shows "same_source w src h g = same_source w src h f" "listed_as L src g es = listed_as L src f es"
proof -
  have d: "descendants src g = descendants src f" using assms(2) by (intro descendants_cong [OF assms(1)])
  have below: "p \<in> set (descendants src k) \<Longrightarrow> lookup g p = lookup f p" for p k
    using assms(2) by (simp add: in_descendants strict_prefix_def)
  have "(\<forall>p\<in>set (descendants src h) \<union> set (descendants src f). same_node w (lookup h p) (lookup g p)) =
      (\<forall>p\<in>set (descendants src h) \<union> set (descendants src f). same_node w (lookup h p) (lookup f p))"
    by (rule ball_cong [OF refl]) (use below in auto)
  moreover have "lookup g src = lookup f src" using assms(2) by simp
  ultimately show "same_source w src h g = same_source w src h f"
    unfolding same_source_def d by (simp split: option.split node.split)
  have "entry_of L src g p e = entry_of L src f p e" if "p \<in> set (descendants src f)" for p e
    using below [OF that] by (simp add: entry_of_def)
  then show "listed_as L src g es = listed_as L src f es"
    unfolding listed_as_def d by (intro list.rel_cong_simp refl) (auto simp: simp_implies_def)
qed

lemma run_Inr:
  assumes "run_stager L S g copied clock s = (s', Inr out)"
  obtains before s1 s2 staged after m where "stage L S copied clock s = (s1, Inr staged)"
    "take_snapshot L (sr_limits S) (sr_source S) (sg_fs s) = Inr before" "write_records L S s2 = (s', Inr ())"
    "take_snapshot L (sr_limits S) (sr_source S) (sg_fs s2) = Inr after"
    "snap_sha before = snap_sha after" "is_tree before \<longrightarrow> same_modes (snap_modes before) (snap_modes after)"
    "sg_manifest s2 = Some (before, m)"
proof -
  from assms obtain s1 staged where st: "stage L S copied clock s = (s1, Inr staged)"
    by (auto simp: run_stager_def Let_def wb_act_Inr)
  then obtain before m where mf: "sg_manifest s1 = Some (before, m)"
    and be: "take_snapshot L (sr_limits S) (sr_source S) (sg_fs s) = Inr before" by (rule stage_Inr) auto
  note that' = that [OF st be]
  note steps = run_stager_def Let_def wb_act_Inr on_fs_Inr a_get_def a_modify_def a_ret_def stage_event_def process_staged_def split_beta
  show thesis
  proof (cases g)
    case None
    from assms st mf show thesis by (auto simp: steps None) (rule that', assumption, simp, assumption, blast, simp)+
  next
    case (Some h)
    from assms st mf show thesis by (auto simp: steps Some) (rule that', assumption, simp, assumption, blast, simp)+
  qed
qed

lemma no_dot_entry:
  assumes "names_ok f" "listed_as L src f es"
  shows "''.'' \<notin> te_path ` set es"
proof
  assume "''.'' \<in> te_path ` set es"
  then obtain e where e: "e \<in> set es" "te_path e = ''.''" by auto
  from assms(2) e(1) obtain p where p: "p \<in> set (descendants src f)" "entry_of L src f p e"
    unfolding listed_as_def by (metis in_set_conv_nth list_all2_conv_all_nth)
  then have "strict_prefix src p" using in_descendants by blast
  then obtain u us where u: "p = src @ u # us" by (rule strict_prefixE')
  have "\<forall>c\<in>set p. c \<noteq> [] \<and> c \<noteq> ''.'' \<and> slash \<notin> set c"
    using p(1) assms(1) in_descendants by (force simp: names_ok_def lookup_def map_of_eq_None_iff)
  moreover have "join ''/'' (u # us) = ''.''" using p(2) e(2) u by (simp add: entry_of_def relative_to_def)
  ultimately show False using u by (cases us; cases u) (auto simp: Cons_eq_append_conv)
qed


section \<open>The staged copy\<close>

lemma lookup_copy_below:
  assumes "\<forall>p\<in>set ps. prefix src p"
  shows "lookup (copy_below c src dst ps f h) q =
    (if \<exists>rel. q = dst @ rel \<and> src @ rel \<in> set ps \<and> lookup f (src @ rel) \<noteq> None
     then map_option c (lookup f (src @ drop (length dst) q)) else lookup h q)"
  unfolding copy_below_def using assms
proof (induction ps arbitrary: h)
  case (Cons p ps)
  from Cons.prems obtain rel where p: "p = src @ rel" by (auto simp: prefix_def)
  show ?case
  proof (cases "lookup f p")
    case None
    with Cons p show ?thesis by auto
  next
    case (Some n)
    with Cons p show ?thesis by (auto simp: wb_fs)
  qed
qed simp

lemma copy_tree_lookup:
  assumes "copy_tree src dst f = (f', Inr ())" "\<And>rel. lookup f (dst @ rel) = None"
  shows "\<exists>m. lookup f src = Some (Dir m) \<and> lookup f' dst = Some (Dir m)" "\<not> prefix dst q \<Longrightarrow> lookup f' q = lookup f q"
    "rel \<noteq> [] \<Longrightarrow> lookup f' (dst @ rel) = map_option copied_node (lookup f (src @ rel))"
proof -
  from assms(1) obtain m where m: "lookup f src = Some (Dir m)" "r_bit m" and open_dirs: "\<not> list_ex (opaque_dir f) (descendants src f)"
    and f': "f' = copy_below copied_node src dst (descendants src f) f (set_node dst (Dir m) f)"
    by (auto simp: copy_tree_def Let_def split: option.splits node.splits if_splits)
  have "\<forall>p\<in>set (descendants src f). prefix src p" using in_descendants by (auto simp: strict_prefix_def)
  note look = lookup_copy_below [OF this, where c = copied_node and f = f and dst = dst and h = "set_node dst (Dir m) f", folded f']
  have "listable src f (src @ r)" for r
    by (rule nothing_hidden) (use m open_dirs in \<open>auto simp: opaque_dir_def list_ex_iff descendants_def\<close>)
  then have desc: "src @ r \<in> set (descendants src f) \<longleftrightarrow> r \<noteq> [] \<and> lookup f (src @ r) \<noteq> None" for r
    by (auto simp: in_descendants strict_prefix_def)
  show "\<exists>m. lookup f src = Some (Dir m) \<and> lookup f' dst = Some (Dir m)" using m by (simp add: look desc wb_fs)
  show "\<not> prefix dst q \<Longrightarrow> lookup f' q = lookup f q" by (auto simp: look wb_fs)
  show "rel \<noteq> [] \<Longrightarrow> lookup f' (dst @ rel) = map_option copied_node (lookup f (src @ rel))"
    using assms(2) by (auto simp: look desc wb_fs)
qed

text \<open>What copying does to the volume: the staged tree appears, everything else stays.\<close>

definition staged_as :: "path \<Rightarrow> path \<Rightarrow> fs \<Rightarrow> fs \<Rightarrow> bool" where
  "staged_as src dst f f' =
     (case lookup f src of
        Some (File c m) \<Rightarrow> lookup f' dst = Some (File c 384) \<and> (\<forall>rel. rel \<noteq> [] \<longrightarrow> lookup f' (dst @ rel) = None)
      | Some (Dir m) \<Rightarrow> lookup f' dst = Some (Dir m) \<and> (\<forall>rel. rel \<noteq> [] \<longrightarrow> lookup f' (dst @ rel) = map_option copied_node (lookup f (src @ rel)))
      | _ \<Rightarrow> False)"

lemma copy_source_effect:
  assumes run: "copy_source_to L S snap s = (s', Inr ())" and plain: "os_plain (sl_os L)" "no_links (sg_fs s)"
    and none: "\<And>rel. lookup (sg_fs s) (staged_path S @ rel) = None" and cl: "clean_path (sr_source S)" "clean_path (sr_root S)"
    and snap: "is_tree snap \<longleftrightarrow> (\<exists>m. lookup (sg_fs s) (sr_source S) = Some (Dir m))"
  shows "staged_as (sr_source S) (staged_path S) (sg_fs s) (sg_fs s') \<and>
    (\<forall>q. \<not> prefix (staged_path S) q \<longrightarrow> lookup (sg_fs s') q = lookup (sg_fs s) q) \<and> no_links (sg_fs s')"
proof (cases "is_tree snap")
  case True
  with run have "copy_tree (sr_source S) (staged_path S) (sg_fs s) = (sg_fs s', Inr ())"
    by (auto simp: copy_source_to_def Let_def sys_def plain_fs [OF plain cl(1)] split: prod.splits sum.splits)
  note c = copy_tree_lookup [OF this none]
  have "no_links (sg_fs s')"
    unfolding no_links_def
  proof
    fix q show "\<not> is_symlink (sg_fs s') q"
    proof (cases "\<exists>rel. q = staged_path S @ rel")
      case True
      then obtain rel where q: "q = staged_path S @ rel" by blast
      show ?thesis
      proof (cases "rel = []")
        case True
        with c(1) q show ?thesis by (auto simp: is_symlink_def)
      next
        case False
        have "\<not> is_symlink (sg_fs s) (sr_source S @ rel)" using plain(2) by (simp add: no_links_def)
        with c(3) [OF False] q show ?thesis by (auto simp: is_symlink_def copied_node_def split: option.splits node.splits)
      qed
    next
      case False
      with c(2) [of q] plain(2) show ?thesis by (auto simp: is_symlink_def no_links_def prefix_def)
    qed
  qed
  with c show ?thesis by (auto simp: staged_as_def)
next
  case False
  with run obtain c f1 where rd: "read_file (sl_os L) (sr_source S) (sg_fs s) = Inr c"
    and w: "write_file (sl_os L) (staged_path S) c (sg_fs s) = Inr f1" and ch: "chmod (sl_os L) (staged_path S) 384 f1 = Inr (sg_fs s')"
    by (auto simp: copy_source_to_def Let_def wb_act_Inr on_fs_Inr to_fs_Inr sys_def split: sum.splits)
  obtain m where f1: "f1 = set_node (staged_path S) (File c m) (sg_fs s)" and nl: "no_links f1"
    using plain_write_file [OF plain _ w] cl(2) by (auto simp: staged_path_def)
  have "clean_path (staged_path S)" using cl(2) by (simp add: staged_path_def)
  then have "realpath (sl_os L) f1 (staged_path S) = staged_path S" by (rule plain_fs [OF plain(1) nl])
  then have f': "sg_fs s' = set_node (staged_path S) (File c 384) f1"
    using ch unfolding chmod_def Let_def by (simp add: f1 wb_fs)
  obtain k where "lookup (sg_fs s) (sr_source S) = Some (File c k)"
    using rd by (auto simp: read_file_def stat_node_def plain_fs [OF plain cl(1)] split: option.splits node.splits if_splits)
  with none f' f1 nl show ?thesis by (auto simp: staged_as_def wb_fs intro: no_links_set)
qed

lemma tree_ok_below: "tree_ok f \<Longrightarrow> lookup f p = None \<Longrightarrow> lookup f (p @ rel) = None"
  unfolding tree_ok_def by (metis prefixI)

lemma staged_exactly:
  assumes run: "stage L S True clock s = (s', Inr staged)" and plain: "os_plain (sl_os L)" "no_links (sg_fs s)" "tree_ok (sg_fs s)"
    and names: "names_ok (sg_fs s)" "clean_path (sr_source S)" "clean_path (sr_root S)"
  shows "staged = staged_path S \<and> staged_as (sr_source S) staged (sg_fs s) (sg_fs s') \<and>
    (\<forall>p. prefix staged p \<or> p \<in> {manifest_file S, events_file S} \<or> lookup (sg_fs s') p = lookup (sg_fs s) p \<or>
       lookup (sg_fs s) p = None \<and> prefix p (sr_root S) \<and> (\<exists>m. lookup (sg_fs s') p = Some (Dir m))) \<and>
    (sr_source S \<in> {manifest_file S, events_file S} \<or>
     (\<forall>p. prefix (sr_source S) p \<longrightarrow> lookup (sg_fs s') p = lookup (sg_fs s) p)) \<and> no_links (sg_fs s')"
proof -
  let ?src = "sr_source S" and ?st = "staged_path S"
  from run obtain before m f1 s2 t ev where snap: "take_snapshot L (sr_limits S) ?src (sg_fs s) = Inr before"
    and np0: "\<not> prefix (realpath (sl_os L) (sg_fs s) ?src) (sr_root S)"
    and mk: "mkdir (sl_os L) 448 (sr_root S) True (sg_fs s) = Inr f1" and fresh: "\<not> p_exists (sl_os L) f1 ?st"
    and cp: "copy_source_to L S before (s\<lparr>sg_fs := f1\<rparr>) = (s2, Inr ())"
    and wr: "write_records L S (s2\<lparr>sg_manifest := Some (before, m), sg_events := ev\<rparr>) = (s', Inr t)"
    and st: "staged = ?st" by (rule stage_Inr) (simp, blast)
  have np: "\<not> prefix ?src (sr_root S)" using np0 plain_fs [OF plain(1,2) names(2)] by simp
  have rc: "clean_path ?st" "clean_path (manifest_file S)" "clean_path (events_file S)"
    using names(3) by (simp_all add: staged_path_def manifest_file_def events_file_def)
  have f1: "no_links f1" "tree_ok f1" using mkdir_no_links [OF mk plain(2)] mkdir_tree [OF mk plain(3)] by auto
  have dirs: "lookup f1 q = lookup (sg_fs s) q \<or> lookup (sg_fs s) q = None \<and> prefix q (sr_root S) \<and> (\<exists>k. lookup f1 q = Some (Dir k))" for q
    using lookup_mkdir [OF mk, of q] by auto
  have under: "lookup f1 q = lookup (sg_fs s) q" if "prefix ?src q" for q
    using dirs [of q] that np by (meson prefix_order.trans)
  have none: "lookup f1 (?st @ rel) = None" for rel
    using fresh p_exists_plain [OF plain(1) f1(1) rc(1)] tree_ok_below [OF f1(2)] by auto
  have there: "lookup (sg_fs s) ?src \<noteq> None" by (rule take_snapshot_cases [OF plain(1,2) names(2,1) snap]) auto
  have "is_tree before \<longleftrightarrow> (\<exists>k. lookup f1 ?src = Some (Dir k))"
    by (rule take_snapshot_cases [OF plain(1,2) names(2,1) snap]) (use under [of ?src] in auto)
  with copy_source_effect [OF cp plain(1) _ _ names(2,3)] f1(1) none have c: "staged_as ?src ?st f1 (sg_fs s2)"
    "\<And>q. \<not> prefix ?st q \<Longrightarrow> lookup (sg_fs s2) q = lookup f1 q" "no_links (sg_fs s2)" by auto
  from write_records_Inr [OF wr] obtain a b g1 where w: "write_file (sl_os L) (manifest_file S) a (sg_fs s2) = Inr g1"
    "write_file (sl_os L) (events_file S) b g1 = Inr (sg_fs s')" by auto
  have wrote: "lookup (sg_fs s') q = lookup (sg_fs s2) q" if "q \<notin> {manifest_file S, events_file S}" for q
    using plain_write_file [OF plain(1) c(3) rc(2) w(1)] plain_write_file [OF plain(1) _ rc(3) w(2)] that by (auto simp: wb_fs)
  have apart: "?st @ rel \<notin> {manifest_file S, events_file S}" for rel
    by (auto simp: staged_path_def manifest_file_def events_file_def)
  have out: "\<not> prefix ?st p" if "prefix ?src p" for p
  proof
    assume "prefix ?st p"
    with that have "prefix ?st ?src \<or> prefix ?src ?st" using prefix_same_cases by blast
    then show False
    proof
      assume "prefix ?st ?src"
      then obtain rel where "?src = ?st @ rel" by (auto simp: prefix_def)
      with there none [of rel] under [of ?src] show False by auto
    next
      assume "prefix ?src ?st"
      with np have "?src = ?st" by (auto simp: staged_path_def)
      with there none [of "[]"] under [of ?src] show False by auto
    qed
  qed
  have frame: "prefix ?st p \<or> p \<in> {manifest_file S, events_file S} \<or> lookup (sg_fs s') p = lookup (sg_fs s) p \<or>
       lookup (sg_fs s) p = None \<and> prefix p (sr_root S) \<and> (\<exists>m. lookup (sg_fs s') p = Some (Dir m))" for p
    using wrote [of p] c(2) [of p] dirs [of p] by auto
  have "staged_as ?src ?st (sg_fs s) (sg_fs s')"
    using c(1) wrote apart apart [of "[]"] under by (auto simp: staged_as_def split: option.splits node.splits)
  moreover have "lookup (sg_fs s') p = lookup (sg_fs s) p" if "?src \<notin> {manifest_file S, events_file S}" "prefix ?src p" for p
    using wrote [OF records_not_below [OF np that]] c(2) [OF out [OF that(2)]] under [OF that(2)] by simp
  moreover have "no_links (sg_fs s')"
    using plain_write_file(2) [OF plain(1) _ rc(3) w(2)] plain_write_file(2) [OF plain(1) c(3) rc(2) w(1)] by blast
  ultimately show ?thesis using frame st by blast
qed


section \<open>Archives\<close>

lemma safe_member_Inr:
  assumes "safe_member n = Inr m"
  shows "\<not> is_absolute (unbackslash n) \<and> ''..'' \<notin> set (path_parts (unbackslash n)) \<and> path_parts (unbackslash n) \<noteq> []"
  using assms by (auto simp: safe_member_def Let_def list_ex_iff split: if_splits list.splits)

definition member_ok :: "stage_limits \<Rightarrow> zip_item \<Rightarrow> bool" where
  "member_ok lim z = (\<not> is_absolute (unbackslash (zi_name z)) \<and> ''..'' \<notin> set (path_parts (unbackslash (zi_name z))) \<and>
     unix_mode (zi_attr z) AND 0xF000 \<in> {0, 0x4000, 0x8000} \<and> (zi_dir z \<or> zi_size z \<le> max_file_bytes lim))"

lemma check_zip_Inr:
  assumes "check_zip lim used zs = Inr ()" "used \<le> max_total_bytes lim"
  shows "list_all (member_ok lim) zs \<and> used + sum_list (map zi_size (filter (\<lambda>z. \<not> zi_dir z) zs)) \<le> max_total_bytes lim"
  using assms
proof (induction zs arbitrary: used)
  case (Cons z zs)
  from Cons.prems(1) obtain name where n: "safe_member (zi_name z) = Inr name" and m: "\<not> mode_refused (unix_mode (zi_attr z))"
    by (auto simp: wb_result split: if_splits)
  have "unix_mode (zi_attr z) AND 0xF000 \<in> {0, 0x4000, 0x8000}"
    using m by (auto simp: mode_refused_def file_type_def)
  with safe_member_Inr [OF n] have ok: "zi_dir z \<or> zi_size z \<le> max_file_bytes lim \<Longrightarrow> member_ok lim z" by (simp add: member_ok_def)
  show ?case
  proof (cases "zi_dir z")
    case True
    with Cons.prems n m have "check_zip lim used zs = Inr ()" by simp
    from Cons.IH [OF this Cons.prems(2)] ok True show ?thesis by simp
  next
    case False
    with Cons.prems n m have "check_zip lim (used + zi_size z) zs = Inr ()" "zi_size z \<le> max_file_bytes lim"
      "used + zi_size z \<le> max_total_bytes lim" by (auto split: if_splits)
    with Cons.IH [OF this(1,3)] ok False show ?thesis by (simp add: add.assoc)
  qed
qed simp

text \<open>A ZIP archive that is staged is within the limits: it has at most the allowed number of members,
  every member has a relative name without dot-dots and the mode of a file or a directory, no file is
  larger than the file limit and all of them together than the total, and its checksums hold.\<close>

theorem staged_archives_are_within_limits:
  assumes "stage L S copied clock s = (s', Inr staged)" and "os_plain (sl_os L)" "no_links (sg_fs s)"
    and "lookup (sg_fs s) (sr_source S) = Some (File c m)" "sl_zip L c = Some (Some (members, crc))"
    and "0 \<le> max_total_bytes (sr_limits S)" "clean_path (sr_source S)" "names_ok (sg_fs s)"
  shows "length members \<le> max_archive_members (sr_limits S) \<and> list_all (member_ok (sr_limits S)) members \<and>
    sum_list (map zi_size (filter (\<lambda>z. \<not> zi_dir z) members)) \<le> max_total_bytes (sr_limits S) \<and> crc = CrcOk"
proof -
  from assms(1) obtain before where sn: "take_snapshot L (sr_limits S) (sr_source S) (sg_fs s) = Inr before"
    and v: "validate_archive L (sr_limits S) (sr_source S) before (sg_fs s) = Inr ()" by (rule stage_Inr)
  have "\<not> is_tree before" by (rule take_snapshot_cases [OF assms(2,3,7,8) sn]) (use assms(4) in auto)
  with v assms(2-4,7) have "validate_content L (sr_limits S) (sr_source S) c = Inr ()"
    by (auto simp: validate_archive_def wb_result sys_def read_file_def stat_node_def plain_fs split: if_splits sum.splits)
  then have "length members \<le> max_archive_members (sr_limits S)" "check_zip (sr_limits S) 0 members = Inr ()" "crc_checked crc (sr_source S) = Inr ()"
    using assms(5) by (auto simp: validate_content_def archive_error_def wb_result split: if_splits)
  with check_zip_Inr [of "sr_limits S" 0 members] assms(6) show ?thesis
    by (auto simp: crc_checked_def archive_error_def split: crc.splits)
qed

section \<open>A concrete staging\<close>

definition demo_stage_lib :: stage_lib where
  "demo_stage_lib = \<lparr>sl_os = demo_os, sl_mtime = (\<lambda>f p. ''t''), sl_pretty = (\<lambda>j. ''{}''), sl_line = (\<lambda>j. ''{}''),
     sl_zip = (\<lambda>c. if c = ''zip'' then Some (Some ([\<lparr>zi_name = ''a'', zi_attr = 0x81A40000, zi_dir = False, zi_size = 7\<rparr>], CrcOk)) else None),
     sl_tar = (\<lambda>c. None)\<rparr>"

definition demo_stage_limits :: stage_limits where
  "demo_stage_limits = \<lparr>max_file_bytes = 8, max_total_bytes = 16, max_archive_members = 4\<rparr>"

definition demo_stager :: "path \<Rightarrow> stager" where
  "demo_stager p = \<lparr>sr_source = p, sr_root = [''work''], sr_limits = demo_stage_limits\<rparr>"

definition demo_disk :: fs where
  "demo_disk = [([], Dir 493), ([''src''], Dir 493), ([''src'', ''a''], File ''x'' 420), ([''b''], File ''zip'' 420)]"

definition demo_start :: stager_state where
  "demo_start = \<lparr>sg_fs = demo_disk, sg_manifest = None, sg_events = []\<rparr>"

definition unlinked :: "fs \<Rightarrow> bool" where
  "unlinked f = list_all (\<lambda>x. case snd x of Link q \<Rightarrow> False | _ \<Rightarrow> True) f"

lemma unlinked_no_links: "unlinked f \<Longrightarrow> no_links f"
  by (auto simp: unlinked_def no_links_def is_symlink_def lookup_def list_all_iff dest!: map_of_SomeD split: option.splits node.splits)

lemma demo_disk_ok: "no_links demo_disk" "names_ok demo_disk" "tree_ok demo_disk"
proof -
  show "no_links demo_disk" by (rule unlinked_no_links) code_simp
  show "names_ok demo_disk" by code_simp
  show "tree_ok demo_disk" by (auto simp: tree_ok_def lookup_def demo_disk_def prefix_Cons split: if_splits)
qed

definition demo_run :: "stager_state \<times> (stage_error + dict)" where
  "demo_run = run_stager demo_stage_lib (demo_stager [''src'']) (Some (\<lambda>p f. (f, Inr JNull))) True (\<lambda>n. ''t'') demo_start"

definition demo_staged :: "path \<Rightarrow> stager_state \<times> (stage_error + path)" where
  "demo_staged p = stage demo_stage_lib (demo_stager p) True (\<lambda>n. ''t'') demo_start"

lemma demo_stages: "is_ok (snd (demo_staged [''src'']))" "is_ok (snd (demo_staged [''b'']))"
  by code_simp+

lemma demo_run_ok: "is_ok (snd demo_run)"
  by code_simp

lemma demo_run_disk: "unlinked (sg_fs (fst demo_run))" "names_ok (sg_fs (fst demo_run))"
  by code_simp+

lemmas demo_staging_runs = demo_run_ok demo_run_disk demo_stages

lemma demo_stage_plain: "os_plain (sl_os demo_stage_lib)"
  by (simp add: demo_stage_lib_def demo_plain)



text \<open>Without the condition on links the frame is lost: a record file's name that is a link in an existing
  analysis root is followed, and the file it points to is overwritten.\<close>

definition linked_lib :: stage_lib where
  "linked_lib = demo_stage_lib\<lparr>sl_os := demo_os\<lparr>realpath := (\<lambda>f p.
     if p = [''work'', ''evidence-manifest.json''] then [''b''] else collapse p)\<rparr>\<rparr>"

definition linked_start :: stager_state where
  "linked_start = demo_start\<lparr>sg_fs := demo_disk @
     [([''work''], Dir 448), ([''work'', ''evidence-manifest.json''], Link [''b''])]\<rparr>"

lemma record_links_are_followed:
  "lookup (sg_fs linked_start) [''b''] = Some (File ''zip'' 420)"
  "snd (stage linked_lib (demo_stager [''src'']) True (\<lambda>n. ''t'') linked_start) = Inr [''work'', ''source'']"
  "lookup (sg_fs (fst (stage linked_lib (demo_stager [''src'']) True (\<lambda>n. ''t'') linked_start))) [''b''] =
     Some (File ([CHR ''{'', CHR ''}'', CHR 0x0A]) 420)"
  by code_simp+

theorem staged_archives_are_within_limits_witness:
  "member_ok demo_stage_limits \<lparr>zi_name = ''a'', zi_attr = 0x81A40000, zi_dir = False, zi_size = 7\<rparr>"
proof -
  obtain staged where run: "stage demo_stage_lib (demo_stager [''b'']) True (\<lambda>n. ''t'') demo_start = (fst (demo_staged [''b'']), Inr staged)"
    using demo_staging_runs(5) by (auto simp: is_ok_iff demo_staged_def prod_eq_iff)
  from staged_archives_are_within_limits [OF run demo_stage_plain, of "''zip''" 420 _ CrcOk] demo_disk_ok(1,2)
  show ?thesis by (simp add: demo_start_def demo_stager_def demo_disk_def lookup_def demo_stage_lib_def demo_stage_limits_def)
qed

end
