(* ===== verification/Artifact_Timeline.thy ===== *)
theory Artifact_Timeline
  imports Json Posix_Path
begin

text \<open>
  \<^verbatim>\<open>artifact_timeline.py\<close>: parsing one artifact or ZIP archive into records with provenance, and
  the local job seam.  The digest, the UTF-8, JSON and CSV decoders, SQLite, the ZIP reader and
  the calendar are parameters; what they raise is part of their answer, so that an exception the
  code does not catch is an \<open>Inl\<close> with its name.
\<close>

section \<open>Parameters\<close>

text \<open>A parsed ISO text: none, or the instant in UTC, which is \<open>None\<close> when it leaves the calendar
  (\<^verbatim>\<open>OverflowError\<close> of \<^verbatim>\<open>astimezone\<close>).\<close>

datatype iso_value = NotIso | NaiveIso string | AwareIso "string option"

text \<open>What a decoder raises: an exception the caller catches, or another one.\<close>

datatype decode_error = Malformed string | Escapes string

text \<open>A row before it becomes a record: \<^verbatim>\<open>csv.DictReader\<close> puts surplus fields under the key
  \<^verbatim>\<open>None\<close>; \<open>rw_opaque\<close> says that a value is \<^verbatim>\<open>bytes\<close> (the payload then holds its \<^verbatim>\<open>str\<close>).\<close>

record raw_row =
  rw_payload :: dict
  rw_extra :: "json list"
  rw_opaque :: bool

datatype member_read = ReadOk string | ReadBad string | ReadRaises string

record zip_entry =
  ze_name :: string
  ze_dir :: bool
  ze_size :: int
  ze_read :: member_read

type_synonym table_view = "string \<times> string list \<times> (json \<times> bool) list list"

record tl_lib =
  tl_sha :: "string \<Rightarrow> string"
  tl_decode :: "string \<Rightarrow> string + string"
  tl_loads :: "string \<Rightarrow> decode_error + json"
  tl_csv :: "char \<Rightarrow> string \<Rightarrow> decode_error + raw_row list option"
  tl_epoch :: "nat \<Rightarrow> nat \<Rightarrow> string"
  tl_int :: "string \<Rightarrow> nat"
  tl_iso :: "string \<Rightarrow> iso_value"
  tl_sqlite :: "string \<Rightarrow> table_view list \<times> string option"
  tl_zip :: "string \<Rightarrow> (string + zip_entry list) option"

definition tl_version :: string where "tl_version = ''artifact-timeline/v1''"

section \<open>Timestamps\<close>

definition epoch_divisor :: "nat \<Rightarrow> nat option" where
  "epoch_divisor n = map_of [(10, 1), (13, 1000), (16, 1000000)] n"

definition assumed_zone :: "string \<Rightarrow> string" where
  "assumed_zone tz = tz @ '' (assumed for timezone-less value)''"

definition timestamp :: "tl_lib \<Rightarrow> json \<Rightarrow> string \<Rightarrow> string + (string option \<times> string option \<times> string)" where
  "timestamp L v tz =
     (if v = JNull \<or> v = JStr [] then Inr (None, None, tz)
      else
        (let raw = strip (py_str v) in
         case (if raw \<noteq> [] \<and> list_all is_digit raw then epoch_divisor (length raw) else None) of
           Some divisor \<Rightarrow> Inr (Some raw, Some (str_replace ''+00:00'' ''Z'' (tl_epoch L (tl_int L raw) divisor)), tz)
         | None \<Rightarrow>
             (case tl_iso L (if suffix ''Z'' raw then butlast raw @ ''+00:00'' else raw) of
                NotIso \<Rightarrow> Inr (Some raw, None, tz)
              | NaiveIso t \<Rightarrow> Inr (Some raw, Some (str_replace ''+00:00'' ''Z'' t), assumed_zone tz)
              | AwareIso None \<Rightarrow> Inl ''OverflowError''
              | AwareIso (Some t) \<Rightarrow> Inr (Some raw, Some (str_replace ''+00:00'' ''Z'' t), tz))))"

section \<open>Records\<close>

definition time_keys :: "string list" where
  "time_keys = [''timestamp'', ''time'', ''datetime'', ''date'', ''ts'', ''Timestamp'']"

definition time_value :: "dict \<Rightarrow> json" where
  "time_value d = (case filter (\<lambda>v. v \<noteq> JNull \<and> v \<noteq> JStr []) (map (dget d) time_keys) of [] \<Rightarrow> JNull | v # vs \<Rightarrow> v)"

definition opt_text :: "string option \<Rightarrow> json" where
  "opt_text x = (case x of None \<Rightarrow> JNull | Some s \<Rightarrow> JStr s)"

definition timed_body :: "dict \<Rightarrow> string option \<Rightarrow> string option \<Rightarrow> string \<Rightarrow> dict" where
  "timed_body d raw utc tz =
     (case raw of
        None \<Rightarrow> d
      | Some r \<Rightarrow> AList.update ''source_timezone'' (JStr tz)
                   (AList.update ''time_utc'' (opt_text utc) (AList.update ''time_raw'' (JStr r) d)))"

text \<open>\<^verbatim>\<open>json.dumps(sort_keys=True)\<close> of a body with the key \<^verbatim>\<open>None\<close>: it is written \<^verbatim>\<open>null\<close>
  when it is alone and cannot be ordered among text keys.\<close>

definition full_body :: "dict \<Rightarrow> raw_row \<Rightarrow> string + dict" where
  "full_body d r =
     (if rw_opaque r \<or> rw_extra r \<noteq> [] \<and> d \<noteq> [] then Inl ''TypeError''
      else Inr (if rw_extra r = [] then d else [(''null'', JList (rw_extra r))]))"

definition record_json :: "string \<Rightarrow> string \<Rightarrow> nat \<Rightarrow> string \<Rightarrow> dict \<Rightarrow> dict" where
  "record_json key path n digest body =
     [(''record_key'', JStr key), (''source_path'', JStr path), (''source_row'', JInt (int n)), (''source_sha256'', JStr digest),
      (''payload'', JObj body),
      (''provenance'', JObj [(''source_path'', JStr path), (''source_row'', JInt (int n)), (''source_sha256'', JStr digest),
         (''review_state'', JStr ''unreviewed'')])]"

definition make_record :: "tl_lib \<Rightarrow> string \<Rightarrow> string \<Rightarrow> string \<Rightarrow> nat \<times> raw_row \<Rightarrow> string + dict" where
  "make_record L path digest tz row =
     (let (n, r) = row in
      r_bind (timestamp L (time_value (rw_payload r)) tz) (\<lambda>(raw, utc, zone).
      r_bind (full_body (timed_body (rw_payload r) raw utc zone) r) (\<lambda>body.
        Inr (record_json (take 24 (tl_sha L (canonical_json (JObj
          [(''source_path'', JStr path), (''row'', JInt (int n)), (''payload'', JObj body)])))) path n digest body))))"

definition make_records :: "tl_lib \<Rightarrow> string \<Rightarrow> string \<Rightarrow> string \<Rightarrow> raw_row list \<Rightarrow> string + dict list" where
  "make_records L path digest tz rows = r_map (make_record L path digest tz) (zip [1..<Suc (length rows)] rows)"

section \<open>Text artifacts\<close>

text \<open>\<^verbatim>\<open>str.splitlines\<close> on ASCII: line feed, carriage return (with a line feed), vertical tab,
  form feed and the separators 28 to 30.\<close>

definition line_break :: "char \<Rightarrow> bool" where
  "line_break c = (let n = (of_char c :: nat) in n = 10 \<or> n = 11 \<or> n = 12 \<or> n = 13 \<or> n = 28 \<or> n = 29 \<or> n = 30)"

fun split_lines :: "string \<Rightarrow> string \<Rightarrow> string list" where
  "split_lines w [] = (if w = [] then [] else [w])"
| "split_lines w (c # cs) =
     (if line_break c
      then w # split_lines [] (if c = CHR 0x0D \<and> cs \<noteq> [] \<and> hd cs = CHR 0x0A then tl cs else cs)
      else split_lines (w @ [c]) cs)"

definition blank :: "string \<Rightarrow> bool" where "blank s = (strip s = [])"

definition plain_row :: "dict \<Rightarrow> raw_row" where
  "plain_row d = \<lparr>rw_payload = d, rw_extra = [], rw_opaque = False\<rparr>"

fun row_of_value :: "json \<Rightarrow> raw_row" where
  "row_of_value (JObj d) = plain_row d"
| "row_of_value v = plain_row [(''value'', v)]"

fun is_obj :: "json \<Rightarrow> bool" where
  "is_obj (JObj d) = True"
| "is_obj v = False"

definition tl_error :: "string \<Rightarrow> string \<Rightarrow> dict" where
  "tl_error code path = [(''code'', JStr code), (''source_path'', JStr path)]"

definition tl_failure :: "string \<Rightarrow> string \<Rightarrow> string \<Rightarrow> dict" where
  "tl_failure code msg path = [(''code'', JStr code), (''message'', JStr msg), (''source_path'', JStr path)]"

definition non_object :: "nat \<Rightarrow> string \<Rightarrow> dict" where
  "non_object n path = [(''code'', JStr ''NON_OBJECT_ROW''), (''source_row'', JInt (int n)), (''source_path'', JStr path)]"

definition parse_jsonl :: "tl_lib \<Rightarrow> string \<Rightarrow> string \<Rightarrow> decode_error + (raw_row list \<times> dict list)" where
  "parse_jsonl L path text =
     (let ls = split_lines [] text in
      r_bind (r_map (\<lambda>(n, l). r_bind (tl_loads L l) (\<lambda>v. Inr (n, v)))
               (filter (\<lambda>x. \<not> blank (snd x)) (zip [1..<Suc (length ls)] ls))) (\<lambda>vs.
        Inr (map (row_of_value \<circ> snd) vs, map (\<lambda>x. non_object (fst x) path) (filter (\<lambda>x. \<not> is_obj (snd x)) vs))))"

definition parse_rows :: "tl_lib \<Rightarrow> string \<Rightarrow> string \<Rightarrow> string \<Rightarrow> decode_error + (raw_row list \<times> dict list)" where
  "parse_rows L sfx path text =
     (if sfx \<in> {''.jsonl'', ''.ndjson''} then parse_jsonl L path text
      else if sfx = ''.json'' then
        r_bind (tl_loads L text) (\<lambda>v. Inr (map row_of_value (case v of JList vs \<Rightarrow> vs | _ \<Rightarrow> [v]), []))
      else if sfx \<in> {''.csv'', ''.tsv''} then
        r_bind (tl_csv L (if sfx = ''.tsv'' then CHR 0x09 else CHR '','') text) (\<lambda>rows.
          case rows of None \<Rightarrow> Inl (Malformed ''missing header'') | Some rs \<Rightarrow> Inr (rs, []))
      else Inr (map (\<lambda>l. plain_row [(''line'', JStr l)]) (filter (\<lambda>l. \<not> blank l) (split_lines [] text)), []))"

type_synonym parsed = "dict list \<times> dict list"

definition parse_text :: "tl_lib \<Rightarrow> string \<Rightarrow> string \<Rightarrow> string \<Rightarrow> string \<Rightarrow> string \<Rightarrow> string + parsed" where
  "parse_text L data sfx path digest tz =
     (case tl_decode L data of
        Inl msg \<Rightarrow> Inr ([], [tl_failure ''INVALID_UTF8'' msg path])
      | Inr text \<Rightarrow>
          (case parse_rows L sfx path text of
             Inl (Malformed msg) \<Rightarrow> Inr ([], [tl_failure ''MALFORMED_INPUT'' msg path])
           | Inl (Escapes n) \<Rightarrow> Inl n
           | Inr (rows, errors) \<Rightarrow> r_bind (make_records L path digest tz rows) (\<lambda>rs. Inr (rs, errors))))"

section \<open>Databases and archives\<close>

definition table_rows_of :: "string list \<Rightarrow> (json \<times> bool) list list \<Rightarrow> raw_row list" where
  "table_rows_of cols rows = map (\<lambda>vs.
     \<lparr>rw_payload = foldl (\<lambda>d (c, v). AList.update c (fst v) d) [] (zip cols vs), rw_extra = [],
      rw_opaque = list_ex snd (take (length cols) vs)\<rparr>) rows"

definition sqlite_records :: "tl_lib \<Rightarrow> string \<Rightarrow> string \<Rightarrow> string \<Rightarrow> string \<Rightarrow> string + parsed" where
  "sqlite_records L data path digest tz =
     (let (tables, failure) = tl_sqlite L data in
      r_bind (r_map (\<lambda>(t, cols, rows). make_records L (path @ ''#'' @ t) digest tz (table_rows_of cols rows)) tables) (\<lambda>rs.
        Inr (concat rs, case failure of None \<Rightarrow> [] | Some m \<Rightarrow> [tl_failure ''BROWSER_DB_UNREADABLE'' m path])))"

definition member_limit :: int where "member_limit = 512 * 1024 * 1024"
definition archive_limit :: int where "archive_limit = 4 * 1024 * 1024 * 1024"

definition member_unsafe :: "string \<Rightarrow> bool" where
  "member_unsafe m = (m = [] \<or> is_absolute m \<or> list_ex (\<lambda>p. p \<in> {[], ''.'', ''..''}) (path_parts m))"

datatype scan = Scan "dict list" "dict list" | BadScan "dict list" "dict list" string

text \<open>The loop over the members; \<open>BadScan\<close> is a \<^verbatim>\<open>BadZipFile\<close> or \<^verbatim>\<open>OSError\<close> that ends it.\<close>

fun scan_members :: "tl_lib \<Rightarrow> string \<Rightarrow> string \<Rightarrow> int \<Rightarrow> zip_entry list \<Rightarrow> dict list \<Rightarrow> dict list \<Rightarrow> string + scan" where
  "scan_members L path tz used [] rs es = Inr (Scan rs es)"
| "scan_members L path tz used (z # zs) rs es =
     (if ze_dir z then scan_members L path tz used zs rs es
      else
        (let member = as_posix (ze_name z) in
         if member_unsafe member
         then scan_members L path tz used zs rs (es @ [tl_error ''PATH_TRAVERSAL_REJECTED'' member])
         else if member_limit < ze_size z \<or> archive_limit < used + ze_size z
         then scan_members L path tz used zs rs (es @ [tl_error ''ARCHIVE_MEMBER_LIMIT_EXCEEDED'' member])
         else
           (case ze_read z of
              ReadBad msg \<Rightarrow> Inr (BadScan rs es msg)
            | ReadRaises n \<Rightarrow> Inl n
            | ReadOk data \<Rightarrow>
                r_bind (parse_text L data (lower (path_suffix member)) (path @ ''!/'' @ member) (tl_sha L data) tz) (\<lambda>(r, e).
                  scan_members L path tz (used + int (length data)) zs (rs @ r) (es @ e)))))"

definition archive_records :: "tl_lib \<Rightarrow> string + zip_entry list \<Rightarrow> string \<Rightarrow> string \<Rightarrow> string + parsed" where
  "archive_records L opened path tz =
     (case opened of
        Inl msg \<Rightarrow> Inr ([], [tl_failure ''ARCHIVE_INVALID'' msg path])
      | Inr members \<Rightarrow>
          r_bind (scan_members L path tz 0 (sort_key ze_name members) [] []) (\<lambda>s.
            case s of Scan rs es \<Rightarrow> Inr (rs, es)
            | BadScan rs es msg \<Rightarrow> Inr (rs, es @ [tl_failure ''ARCHIVE_INVALID'' msg path])))"

section \<open>One artifact\<close>

definition bad_code :: "dict \<Rightarrow> bool" where
  "bad_code e = (dget e ''code'' \<in> {JStr ''MALFORMED_INPUT'', JStr ''ARCHIVE_INVALID'', JStr ''INVALID_UTF8''})"

definition artifact_status :: "dict list \<Rightarrow> dict list \<Rightarrow> string" where
  "artifact_status errors unresolved =
     (if list_ex bad_code errors then ''invalid_input''
      else if errors \<noteq> [] \<or> unresolved \<noteq> [] then ''partial'' else ''complete'')"

definition objs :: "dict list \<Rightarrow> json" where "objs ds = JList (map JObj ds)"

definition artifact_result :: "string \<Rightarrow> string \<Rightarrow> string \<Rightarrow> string \<Rightarrow> dict list \<Rightarrow> dict list \<Rightarrow> dict list \<Rightarrow> dict" where
  "artifact_result path digest data tz records errors unresolved =
     [(''schema_version'', JStr ''1.0''), (''workflow'', JStr tl_version), (''status'', JStr (artifact_status errors unresolved)),
      (''source'', JObj [(''path'', JStr path), (''sha256'', JStr digest), (''size'', JInt (int (length data))),
         (''source_timezone'', JStr tz)]),
      (''records'', objs records), (''errors'', objs errors), (''unresolved'', objs unresolved),
      (''stats'', JObj [(''record_count'', JInt (int (length records))), (''error_count'', JInt (int (length errors))),
         (''unresolved_count'', JInt (int (length unresolved)))])]"

definition missing_source :: "string \<Rightarrow> dict" where
  "missing_source path =
     [(''schema_version'', JStr ''1.0''), (''workflow'', JStr tl_version), (''status'', JStr ''invalid_input''),
      (''source'', JObj [(''path'', JStr path)]), (''records'', JList []),
      (''errors'', JList [JObj (tl_error ''SOURCE_NOT_FOUND'' path)]), (''unresolved'', JList [])]"

definition no_parser :: "string \<Rightarrow> dict" where
  "no_parser sfx = [(''code'', JStr ''OPTIONAL_PARSER_UNAVAILABLE''), (''scope'', JStr sfx),
     (''message'', JStr ''Binary parser is not bundled; no records inferred.'')]"

text \<open>\<open>content\<close> is what the resolved path holds when it is a regular file.\<close>

definition process_artifact :: "tl_lib \<Rightarrow> string \<Rightarrow> string option \<Rightarrow> string \<Rightarrow> string + dict" where
  "process_artifact L path content tz =
     (case content of
        None \<Rightarrow> Inr (missing_source path)
      | Some data \<Rightarrow>
          (let digest = tl_sha L data; sfx = lower (path_suffix path) in
           if sfx \<in> {''.evtx'', ''.hive'', ''.regf''} then Inr (artifact_result path digest data tz [] [] [no_parser sfx])
           else r_bind (if sfx \<in> {''.sqlite'', ''.db''} then sqlite_records L data path digest tz
                        else case tl_zip L data of
                               Some opened \<Rightarrow> archive_records L opened path tz
                             | None \<Rightarrow> parse_text L data sfx path digest tz)
                  (\<lambda>(rs, es). Inr (artifact_result path digest data tz rs es []))))"

section \<open>The local job seam\<close>

type_synonym fast_jobs = "(string \<times> dict) list"

definition py_get :: "json \<Rightarrow> string \<Rightarrow> json \<Rightarrow> string + json" where
  "py_get v k x = (case v of JObj d \<Rightarrow> Inr (dget_or d k x) | _ \<Rightarrow> Inl ''AttributeError'')"

fun py_len :: "json \<Rightarrow> string + nat" where
  "py_len (JList xs) = Inr (length xs)"
| "py_len (JObj d) = Inr (length d)"
| "py_len (JStr s) = Inr (length s)"
| "py_len v = Inl ''TypeError''"

definition job_key :: "tl_lib \<Rightarrow> string \<Rightarrow> json \<Rightarrow> string" where
  "job_key L case_id sha = ''vr-'' @ tl_sha L (canonical_json (JObj [(''case_id'', JStr case_id), (''source_sha256'', sha)]))"

definition job_payload :: "string \<Rightarrow> json \<Rightarrow> json \<Rightarrow> json" where
  "job_payload case_id sha records =
     JObj [(''case_id'', JStr case_id), (''source_sha256'', sha), (''workflow'', JStr tl_version), (''records'', records)]"

definition fast_submit :: "tl_lib \<Rightarrow> dict \<Rightarrow> string \<Rightarrow> fast_jobs \<Rightarrow> fast_jobs \<times> (string + dict)" where
  "fast_submit L result case_id jobs =
     (case py_get (dget_or result ''source'' (JObj [])) ''sha256'' JNull of
        Inl n \<Rightarrow> (jobs, Inl n)
      | Inr sha \<Rightarrow>
          (let records = dget_or result ''records'' (JList []);
               key = job_key L case_id sha;
               payload_hash = tl_sha L (canonical_json (job_payload case_id sha records)) in
           case map_of jobs key of
             Some (x # xs) \<Rightarrow>
               (jobs, case map_of (x # xs) ''payload_sha256'' of
                  None \<Rightarrow> Inl ''KeyError''
                | Some h \<Rightarrow>
                    if h \<noteq> JStr payload_hash
                    then Inr [(''status'', JStr ''conflict''), (''code'', JStr ''IDEMPOTENCY_CONFLICT''), (''idempotency_key'', JStr key)]
                    else Inr (AList.update ''status'' (JStr ''duplicate'') (x # xs)))
           | _ \<Rightarrow>
               (case py_len records of
                  Inl n \<Rightarrow> (jobs, Inl n)
                | Inr n \<Rightarrow>
                    (let job = [(''status'', JStr ''accepted''), (''idempotency_key'', JStr key), (''payload_sha256'', JStr payload_hash),
                           (''openrelik'', JObj [(''case_id'', JStr case_id), (''input_hash'', sha), (''records'', JInt (int n))])] in
                     (AList.update key job jobs, Inr job)))))"

end
