(* ===== verification/Artifact_Correct.thy ===== *)
theory Artifact_Correct
  imports Artifact_Timeline Tenancy
begin

text \<open>
  What the artifact parser and the local job seam promise: an archive is read within its bounds and
  accounts for every member, and a submission is accepted once.
\<close>

section \<open>Archives\<close>

definition read_data :: "zip_entry \<Rightarrow> string" where
  "read_data z = (case ze_read z of ReadOk data \<Rightarrow> data | _ \<Rightarrow> [])"

definition member_path :: "string \<Rightarrow> zip_entry \<Rightarrow> string" where
  "member_path path z = path @ ''!/'' @ as_posix (ze_name z)"

definition member_parsed :: "tl_lib \<Rightarrow> string \<Rightarrow> string \<Rightarrow> zip_entry \<Rightarrow> string + parsed" where
  "member_parsed L path tz z = parse_text L (read_data z) (lower (path_suffix (as_posix (ze_name z)))) (member_path path z)
     (tl_sha L (read_data z)) tz"

definition parsed_of :: "string + parsed \<Rightarrow> parsed" where
  "parsed_of r = (case r of Inl n \<Rightarrow> ([], []) | Inr p \<Rightarrow> p)"

text \<open>A member that may be read: a file at a relative path without \<^verbatim>\<open>..\<close>, within the limit.\<close>

definition readable :: "zip_entry \<Rightarrow> bool" where
  "readable z = (\<not> ze_dir z \<and> \<not> is_absolute (ze_name z) \<and> ''..'' \<notin> set (path_parts (ze_name z)) \<and>
     ze_size z \<le> member_limit \<and> (\<exists>data. ze_read z = ReadOk data))"

definition refused_with :: "zip_entry \<Rightarrow> dict \<Rightarrow> bool" where
  "refused_with z e = (\<exists>code \<in> {''PATH_TRAVERSAL_REJECTED'', ''ARCHIVE_MEMBER_LIMIT_EXCEEDED''}. e = tl_error code (as_posix (ze_name z)))"

lemma is_absolute_as_posix: "is_absolute n \<Longrightarrow> is_absolute (as_posix n)"
proof -
  have ab: "is_absolute m = prefix ''/'' m" for m
    by (cases m; cases "tl m"; cases "tl (tl m)") (auto simp: is_absolute_def root_of_def)
  assume "is_absolute n"
  then show ?thesis by (auto simp: ab as_posix_def Let_def root_of_def)
qed

lemma member_safe:
  assumes "\<not> member_unsafe (as_posix n)" shows "\<not> is_absolute n \<and> ''..'' \<notin> set (path_parts n)"
proof -
  from assms have na: "\<not> is_absolute n" using is_absolute_as_posix by (auto simp: member_unsafe_def)
  with assms show ?thesis by (auto simp: member_unsafe_def list_ex_iff path_parts_as_posix)
qed

definition scan_parts :: "scan \<Rightarrow> dict list \<times> dict list" where
  "scan_parts s = (case s of Scan rs es \<Rightarrow> (rs, es) | BadScan rs es m \<Rightarrow> (rs, es))"

fun scan_done :: "scan \<Rightarrow> bool" where
  "scan_done (Scan rs es) = True"
| "scan_done (BadScan rs es m) = False"

text \<open>What a scan that starts after \<open>used\<close> bytes does with \<open>zs\<close>, when it takes \<open>taken\<close>.\<close>

definition scan_spec :: "tl_lib \<Rightarrow> string \<Rightarrow> string \<Rightarrow> int \<Rightarrow> zip_entry list \<Rightarrow> dict list \<Rightarrow> dict list \<Rightarrow> scan \<Rightarrow> zip_entry list \<Rightarrow> bool" where
  "scan_spec L path tz used zs rs es s taken =
     (subseq taken zs \<and> list_all readable taken \<and> used + sum_list (map (int \<circ> length \<circ> read_data) taken) \<le> archive_limit \<and>
      (\<forall>z\<in>set taken. is_ok (member_parsed L path tz z)) \<and>
      fst (scan_parts s) = rs @ concat (map (fst \<circ> parsed_of \<circ> member_parsed L path tz) taken) \<and> set es \<subseteq> set (snd (scan_parts s)) \<and>
      (scan_done s \<longrightarrow> (\<forall>z\<in>set zs. ze_dir z \<or> z \<in> set taken \<or> (\<exists>e\<in>set (snd (scan_parts s)). refused_with z e))))"

lemma scan_spec_skip:
  assumes "scan_spec L path tz used zs rs es' s taken" "set es \<subseteq> set es'" "ze_dir z \<or> (\<exists>e\<in>set es'. refused_with z e)"
  shows "scan_spec L path tz used (z # zs) rs es s taken"
  using assms by (auto simp: scan_spec_def)

lemma scan_spec_take:
  assumes "scan_spec L path tz (used + int (length (read_data z))) zs (rs @ r) (es @ e) s taken" "readable z"
    "member_parsed L path tz z = Inr (r, e)"
  shows "scan_spec L path tz used (z # zs) rs es s (z # taken)"
  using assms by (auto simp: scan_spec_def parsed_of_def is_ok_iff)

lemma scan_members_spec:
  assumes "scan_members L path tz used zs rs es = Inr s" "\<forall>z\<in>set zs. int (length (read_data z)) \<le> ze_size z" "used \<le> archive_limit"
  shows "\<exists>taken. scan_spec L path tz used zs rs es s taken"
  using assms
proof (induction zs arbitrary: used rs es)
  case Nil
  then show ?case by (auto simp: scan_parts_def scan_spec_def)
next
  case (Cons z zs)
  let ?m = "as_posix (ze_name z)"
  have sizes: "\<forall>z\<in>set zs. int (length (read_data z)) \<le> ze_size z" using Cons.prems(2) by simp
  consider (dir) "ze_dir z"
    | (refused) code where "\<not> ze_dir z" "code \<in> {''PATH_TRAVERSAL_REJECTED'', ''ARCHIVE_MEMBER_LIMIT_EXCEEDED''}"
        "scan_members L path tz used zs rs (es @ [tl_error code ?m]) = Inr s"
    | (tried) "\<not> ze_dir z" "\<not> member_unsafe ?m" "ze_size z \<le> member_limit" "used + ze_size z \<le> archive_limit"
    using Cons.prems(1) by (auto simp: Let_def not_less split: if_splits)
  then show ?case
  proof cases
    case dir
    with Cons.prems(1) have "scan_members L path tz used zs rs es = Inr s" by simp
    from Cons.IH [OF this sizes Cons.prems(3)] scan_spec_skip dir show ?thesis by blast
  next
    case (refused code)
    from Cons.IH [OF refused(3) sizes Cons.prems(3)] obtain taken
      where "scan_spec L path tz used zs rs (es @ [tl_error code ?m]) s taken" by blast
    moreover have "refused_with z (tl_error code ?m)" using refused(2) by (auto simp: refused_with_def)
    ultimately show ?thesis by (intro exI [of _ taken] scan_spec_skip) auto
  next
    case tried
    show ?thesis
    proof (cases "ze_read z")
      case (ReadOk data)
      have d: "read_data z = data" using ReadOk by (simp add: read_data_def)
      from Cons.prems(1) tried ReadOk obtain r e where p: "member_parsed L path tz z = Inr (r, e)"
        and run: "scan_members L path tz (used + int (length data)) zs (rs @ r) (es @ e) = Inr s"
        by (auto simp: Let_def wb_result member_parsed_def member_path_def d)
      have "used + int (length data) \<le> archive_limit" using Cons.prems(2) d tried by auto
      from Cons.IH [OF run sizes this] obtain taken where
        "scan_spec L path tz (used + int (length (read_data z))) zs (rs @ r) (es @ e) s taken" using d by auto
      moreover have "readable z" using tried member_safe ReadOk by (auto simp: readable_def)
      ultimately show ?thesis using scan_spec_take p by blast
    next
      case (ReadBad msg)
      with Cons.prems tried have "s = BadScan rs es msg" by (simp add: Let_def)
      with Cons.prems(3) show ?thesis by (auto simp: scan_parts_def scan_spec_def intro!: exI [of _ "[]"])
    next
      case (ReadRaises n)
      with Cons.prems(1) tried show ?thesis by (simp add: Let_def)
    qed
  qed
qed

text \<open>An archive is read within its bounds and nothing in it is lost silently: the members parsed are
  files at relative paths without dot-dots, each within 512 MiB and together within 4 GiB as far as the
  ZIP reader keeps to the declared sizes; the records are exactly theirs, in the order of the names; and
  unless the archive turns out invalid every other file has its own error entry.\<close>

theorem archive_is_bounded_and_accounted_for:
  assumes "archive_records L (Inr members) path tz = Inr (records, errors)"
    and "\<forall>z\<in>set members. int (length (read_data z)) \<le> ze_size z"
  shows "\<exists>taken. subseq taken (sort_key ze_name members) \<and> list_all readable taken \<and>
    sum_list (map (int \<circ> length \<circ> read_data) taken) \<le> archive_limit \<and>
    records = concat (map (fst \<circ> parsed_of \<circ> member_parsed L path tz) taken) \<and>
    ((\<forall>e\<in>set errors. dget e ''code'' \<noteq> JStr ''ARCHIVE_INVALID'') \<longrightarrow>
      (\<forall>z\<in>set members. ze_dir z \<or> z \<in> set taken \<or> (\<exists>e\<in>set errors. refused_with z e)))"
proof -
  from assms(1) obtain s where s: "scan_members L path tz 0 (sort_key ze_name members) [] [] = Inr s"
    by (cases "scan_members L path tz 0 (sort_key ze_name members) [] []") (auto simp: archive_records_def)
  from scan_members_spec [OF s] assms(2) obtain taken where t: "scan_spec L path tz 0 (sort_key ze_name members) [] [] s taken"
    by (auto simp: archive_limit_def)
  show ?thesis
  proof (intro exI [of _ taken])
    show "subseq taken (sort_key ze_name members) \<and> list_all readable taken \<and>
      sum_list (map (int \<circ> length \<circ> read_data) taken) \<le> archive_limit \<and>
      records = concat (map (fst \<circ> parsed_of \<circ> member_parsed L path tz) taken) \<and>
      ((\<forall>e\<in>set errors. dget e ''code'' \<noteq> JStr ''ARCHIVE_INVALID'') \<longrightarrow>
        (\<forall>z\<in>set members. ze_dir z \<or> z \<in> set taken \<or> (\<exists>e\<in>set errors. refused_with z e)))"
      using t assms(1) s
      by (cases s) (auto simp: archive_records_def scan_spec_def scan_parts_def tl_failure_def dget_def)
  qed
qed

section \<open>Submissions\<close>

datatype fast_op = FastSubmit dict string

fun fast_step :: "tl_lib \<Rightarrow> fast_op \<Rightarrow> fast_jobs \<Rightarrow> fast_jobs \<times> (string + dict)" where
  "fast_step L (FastSubmit result case_id) jobs = fast_submit L result case_id jobs"

lemma fast_step_keeps:
  assumes "map_of jobs k = Some j" "j \<noteq> []" shows "map_of (fst (fast_step L op jobs)) k = Some j"
proof (cases op)
  case (FastSubmit result case_id)
  with assms show ?thesis
    by (auto simp: fast_submit_def Let_def update_conv' split: sum.splits option.splits list.splits)
qed

lemma fast_run_keeps:
  "map_of jobs k = Some j \<Longrightarrow> j \<noteq> [] \<Longrightarrow> map_of (fst (run_ops (fast_step L) ops jobs)) k = Some j"
  using run_ops_invariant [of "\<lambda>jobs. map_of jobs k = Some j" "fast_step L" jobs ops] fast_step_keeps by blast

definition result_sha :: "dict \<Rightarrow> json" where
  "result_sha result = (case py_get (dget_or result ''source'' (JObj [])) ''sha256'' JNull of Inl n \<Rightarrow> JNull | Inr v \<Rightarrow> v)"

definition payload_hash :: "tl_lib \<Rightarrow> dict \<Rightarrow> string \<Rightarrow> string" where
  "payload_hash L result case_id =
     tl_sha L (canonical_json (job_payload case_id (result_sha result) (dget_or result ''records'' (JList []))))"

definition accepted_job :: "string \<Rightarrow> string \<Rightarrow> dict \<Rightarrow> bool" where
  "accepted_job key h j = (dget j ''status'' = JStr ''accepted'' \<and> dget j ''idempotency_key'' = JStr key \<and> dget j ''payload_sha256'' = JStr h)"

definition jobs_ok :: "fast_jobs \<Rightarrow> bool" where
  "jobs_ok jobs = (\<forall>k j. map_of jobs k = Some j \<longrightarrow> (\<exists>h. accepted_job k h j))"

text \<open>How an answer stands to the job map: it is the job stored for the submission, or that job marked
  as a duplicate, or a conflict with a job for another payload, or an exception.\<close>

definition fast_settled :: "tl_lib \<Rightarrow> fast_jobs \<Rightarrow> fast_op \<Rightarrow> string + dict \<Rightarrow> bool" where
  "fast_settled L jobs op r =
     (case (op, r) of
        (FastSubmit result case_id, Inr a) \<Rightarrow>
          (let k = job_key L case_id (result_sha result) in
           case map_of jobs k of
             None \<Rightarrow> False
           | Some job \<Rightarrow>
               if accepted_job k (payload_hash L result case_id) job
               then a = job \<or> a = AList.update ''status'' (JStr ''duplicate'') job
               else (\<exists>h. accepted_job k h job \<and> h \<noteq> payload_hash L result case_id) \<and> dget a ''status'' = JStr ''conflict'')
      | _ \<Rightarrow> True)"

fun accepted_keys :: "(fast_op \<times> (string + dict)) list \<Rightarrow> json list" where
  "accepted_keys [] = []"
| "accepted_keys ((op, Inr a) # out) =
     (if dget a ''status'' = JStr ''accepted'' then dget a ''idempotency_key'' # accepted_keys out else accepted_keys out)"
| "accepted_keys ((op, Inl n) # out) = accepted_keys out"

lemma accepted_nonempty: "accepted_job k h j \<Longrightarrow> j \<noteq> []"
  by (auto simp: accepted_job_def dget_def)

lemma jobs_ok_lookup: "jobs_ok jobs \<Longrightarrow> map_of jobs k = Some j \<Longrightarrow> \<exists>h. accepted_job k h j \<and> map_of j ''payload_sha256'' = Some (JStr h)"
  unfolding jobs_ok_def by (drule spec, drule spec, drule (1) mp) (auto simp: accepted_job_def dget_def split: option.splits)

lemma fast_submit_step:
  assumes ok: "jobs_ok jobs" and run: "fast_submit L result case_id jobs = (jobs', r)"
  shows "jobs_ok jobs' \<and> fast_settled L jobs' (FastSubmit result case_id) r \<and>
    (\<forall>k j. map_of jobs k = Some j \<longrightarrow> map_of jobs' k = Some j) \<and>
    (\<forall>a. r = Inr a \<and> dget a ''status'' = JStr ''accepted'' \<longrightarrow>
      (\<exists>k. dget a ''idempotency_key'' = JStr k \<and> map_of jobs k = None \<and> map_of jobs' k \<noteq> None))"
proof (cases "py_get (dget_or result ''source'' (JObj [])) ''sha256'' JNull")
  case (Inl n)
  with run ok show ?thesis by (auto simp: fast_submit_def fast_settled_def)
next
  case (Inr sha)
  then have sha: "result_sha result = sha" by (simp add: result_sha_def)
  define key where "key = job_key L case_id sha"
  define h where "h = payload_hash L result case_id"
  have hash: "tl_sha L (canonical_json (job_payload case_id sha (dget_or result ''records'' (JList [])))) = h"
    by (simp add: h_def payload_hash_def sha)
  show ?thesis
  proof (cases "map_of jobs key")
    case (Some j)
    from jobs_ok_lookup [OF ok Some] obtain h0 where h0: "accepted_job key h0 j" "map_of j ''payload_sha256'' = Some (JStr h0)" by blast
    obtain x xs where j: "j = x # xs" using accepted_nonempty [OF h0(1)] by (cases j) auto
    have r: "jobs' = jobs" "r = (if h0 \<noteq> h then Inr [(''status'', JStr ''conflict''), (''code'', JStr ''IDEMPOTENCY_CONFLICT''),
        (''idempotency_key'', JStr key)] else Inr (AList.update ''status'' (JStr ''duplicate'') j))"
      using run Some h0(2) unfolding fast_submit_def Inr sum.case Let_def key_def [symmetric] hash j by auto
    moreover have "fast_settled L jobs (FastSubmit result case_id) r"
      using Some h0 r(2) unfolding fast_settled_def prod.case fast_op.case Let_def sha key_def [symmetric] h_def [symmetric]
      by (auto simp: accepted_job_def dget_def)
    ultimately show ?thesis using ok by (auto simp: dget_def update_conv')
  next
    case None
    show ?thesis
    proof (cases "py_len (dget_or result ''records'' (JList []))")
      case (Inl n)
      with run None have "jobs' = jobs" "r = Inl n" unfolding fast_submit_def Inr sum.case Let_def key_def [symmetric] hash by auto
      with ok show ?thesis by (auto simp: fast_settled_def)
    next
      case (Inr n)
      define job where "job = [(''status'', JStr ''accepted''), (''idempotency_key'', JStr key), (''payload_sha256'', JStr h),
        (''openrelik'', JObj [(''case_id'', JStr case_id), (''input_hash'', sha), (''records'', JInt (int n))])]"
      have r: "jobs' = AList.update key job jobs" "r = Inr job"
        using run None \<open>py_get _ _ _ = _\<close> Inr unfolding fast_submit_def Let_def
        by (auto simp: key_def [symmetric] hash job_def)
      have acc: "accepted_job key h job" by (simp add: accepted_job_def job_def dget_def)
      have "fast_settled L jobs' (FastSubmit result case_id) r"
        using acc unfolding fast_settled_def prod.case fast_op.case Let_def sha key_def [symmetric] h_def [symmetric] r
        by (simp add: update_conv')
      moreover have "jobs_ok jobs'" using ok acc by (auto simp: jobs_ok_def r update_conv')
      ultimately show ?thesis using None acc by (auto simp: r update_conv' accepted_job_def)
    qed
  qed
qed

lemma fast_settled_mono:
  assumes "fast_settled L jobs op r" "\<forall>k j. map_of jobs k = Some j \<longrightarrow> map_of jobs' k = Some j"
  shows "fast_settled L jobs' op r"
  using assms by (auto simp: fast_settled_def Let_def split: fast_op.splits sum.splits option.splits)

lemma fast_run:
  assumes "jobs_ok jobs" "run_ops (fast_step L) ops jobs = (jobs', out)"
  shows "list_all (\<lambda>(op, r). fast_settled L jobs' op r) out \<and> (\<forall>k j. map_of jobs k = Some j \<longrightarrow> map_of jobs' k = Some j) \<and>
    distinct (accepted_keys out) \<and> (\<forall>v\<in>set (accepted_keys out). \<exists>k. v = JStr k \<and> map_of jobs k = None)"
  using assms
proof (induction ops arbitrary: jobs out)
  case (Cons op ops)
  obtain result case_id where op: "op = FastSubmit result case_id" by (cases op)
  obtain mid r where s: "fast_submit L result case_id jobs = (mid, r)" by (cases "fast_submit L result case_id jobs")
  obtain out' where run: "run_ops (fast_step L) ops mid = (jobs', out')" and out: "out = (op, r) # out'"
    using Cons.prems(2) op s by (auto simp: Let_def split: prod.splits)
  note step = fast_submit_step [OF Cons.prems(1) s]
  from Cons.IH [OF _ run] step have IH: "list_all (\<lambda>(op, r). fast_settled L jobs' op r) out'"
    "\<forall>k j. map_of mid k = Some j \<longrightarrow> map_of jobs' k = Some j" "distinct (accepted_keys out')"
    "\<forall>v\<in>set (accepted_keys out'). \<exists>k. v = JStr k \<and> map_of mid k = None" by auto
  have fresh: "\<forall>v\<in>set (accepted_keys out'). \<exists>k. v = JStr k \<and> map_of jobs k = None"
    using IH(4) step by (metis not_Some_eq)
  have "distinct (accepted_keys out) \<and> (\<forall>v\<in>set (accepted_keys out). \<exists>k. v = JStr k \<and> map_of jobs k = None)"
  proof (cases "\<exists>a. r = Inr a \<and> dget a ''status'' = JStr ''accepted''")
    case True
    then obtain a k where a: "r = Inr a" "dget a ''status'' = JStr ''accepted''" "dget a ''idempotency_key'' = JStr k"
      "map_of jobs k = None" "map_of mid k \<noteq> None" using step by blast
    then have "JStr k \<notin> set (accepted_keys out')" using IH(4) by auto
    with a IH(3) fresh show ?thesis by (simp add: out)
  next
    case False
    then have "accepted_keys out = accepted_keys out'" by (cases r) (auto simp: out)
    with IH(3) fresh show ?thesis by simp
  qed
  moreover have "fast_settled L jobs' op r" using fast_settled_mono step IH(2) op by blast
  ultimately show ?case using IH(1,2) step out by auto
qed simp

text \<open>The job seam accepts a submission once: over any run of submissions every job key is accepted at
  most once, and every answered submission is settled by the job stored in the end: it is that job, or a
  duplicate of it when the payload has the same hash, or a conflict when it has another.\<close>

theorem fast_path_accepts_once:
  "distinct (accepted_keys (snd (run_ops (fast_step L) ops []))) \<and>
   list_all (\<lambda>(op, r). fast_settled L (fst (run_ops (fast_step L) ops [])) op r) (snd (run_ops (fast_step L) ops []))"
  using fast_run [of "[]" L ops "fst (run_ops (fast_step L) ops [])" "snd (run_ops (fast_step L) ops [])"]
  by (simp add: jobs_ok_def)

section \<open>A concrete archive\<close>

definition demo_tl :: tl_lib where
  "demo_tl = \<lparr>tl_sha = (\<lambda>s. s), tl_decode = Inr, tl_loads = (\<lambda>s. Inr (JObj [])), tl_csv = (\<lambda>c s. Inr None), tl_epoch = (\<lambda>n d. ''t''),
     tl_int = length, tl_iso = (\<lambda>s. NotIso), tl_sqlite = (\<lambda>s. ([], None)), tl_zip = (\<lambda>s. None)\<rparr>"

definition demo_members :: "zip_entry list" where
  "demo_members = [\<lparr>ze_name = ''b/../../c'', ze_dir = False, ze_size = 1, ze_read = ReadOk ''x''\<rparr>,
     \<lparr>ze_name = ''a.txt'', ze_dir = False, ze_size = 4, ze_read = ReadOk ''line''\<rparr>]"

theorem archive_is_bounded_and_accounted_for_witness:
  "\<exists>records errors. archive_records demo_tl (Inr demo_members) ''z'' ''UTC'' = Inr (records, errors) \<and>
     (\<exists>taken. subseq taken (sort_key ze_name demo_members) \<and>
        records = concat (map (fst \<circ> parsed_of \<circ> member_parsed demo_tl ''z'' ''UTC'') taken))"
proof -
  have "is_ok (archive_records demo_tl (Inr demo_members) ''z'' ''UTC'')" by code_simp
  then obtain records errors where run: "archive_records demo_tl (Inr demo_members) ''z'' ''UTC'' = Inr (records, errors)"
    by (auto simp: is_ok_iff)
  have "\<forall>z\<in>set demo_members. int (length (read_data z)) \<le> ze_size z" by (simp add: demo_members_def read_data_def)
  from archive_is_bounded_and_accounted_for [OF run this] run show ?thesis by blast
qed

end
