(* ===== verification/Json_Schema.thy ===== *)
theory Json_Schema
  imports Json
begin

text \<open>
  The part of JSON Schema (draft 2020-12) that the files under \<^verbatim>\<open>schemas/\<close> use, read as the
  \<^verbatim>\<open>jsonschema\<close> package documents it: every keyword constrains the instances of its own type and
  accepts the others, a pattern is searched with \<^verbatim>\<open>re.search\<close>, and a float whose value is
  integral is an integer.  The value of a float text and the \<^verbatim>\<open>date-time\<close> format check are
  parameters.  References are unfolded: the schemas are not recursive.
\<close>

record schema_lib =
  sc_integral :: "string \<Rightarrow> int option"
  sc_date_time :: "string \<Rightarrow> bool"

datatype schema =
    SType "string list"
  | SConst json
  | SEnum "json list"
  | SPattern "string \<Rightarrow> bool"
  | SDateTime
  | SMinLength nat
  | SMinimum int
  | SRequired "string list"
  | SMinProps nat
  | SProps "(string \<times> schema) list" "schema option"
  | SItems schema
  | SMinItems nat
  | SUnique
  | SAll "schema list"
  | SIf schema schema

fun json_types :: "schema_lib \<Rightarrow> json \<Rightarrow> string list" where
  "json_types V JNull = [''null'']"
| "json_types V (JBool b) = [''boolean'']"
| "json_types V (JInt i) = [''integer'', ''number'']"
| "json_types V (JFloat r) = (if sc_integral V r = None then [''number''] else [''integer'', ''number''])"
| "json_types V (JStr s) = [''string'']"
| "json_types V (JList xs) = [''array'']"
| "json_types V (JObj d) = [''object'']"

definition on_str :: "(string \<Rightarrow> bool) \<Rightarrow> json \<Rightarrow> bool" where
  "on_str P v = (case v of JStr s \<Rightarrow> P s | _ \<Rightarrow> True)"

definition on_obj :: "(dict \<Rightarrow> bool) \<Rightarrow> json \<Rightarrow> bool" where
  "on_obj P v = (case v of JObj d \<Rightarrow> P d | _ \<Rightarrow> True)"

definition on_list :: "(json list \<Rightarrow> bool) \<Rightarrow> json \<Rightarrow> bool" where
  "on_list P v = (case v of JList xs \<Rightarrow> P xs | _ \<Rightarrow> True)"

definition at_least :: "schema_lib \<Rightarrow> int \<Rightarrow> json \<Rightarrow> bool" where
  "at_least V m v = (case v of JInt i \<Rightarrow> m \<le> i | JFloat r \<Rightarrow> (case sc_integral V r of Some i \<Rightarrow> m \<le> i | None \<Rightarrow> True) | _ \<Rightarrow> True)"

text \<open>The \<^verbatim>\<open>properties\<close> of an object with its \<^verbatim>\<open>additionalProperties\<close>: \<open>None\<close> is \<^verbatim>\<open>false\<close>.\<close>

definition fits :: "(string \<times> (json \<Rightarrow> bool)) list \<Rightarrow> (json \<Rightarrow> bool) option \<Rightarrow> string \<times> json \<Rightarrow> bool" where
  "fits ps extra kv = (case map_of ps (fst kv) of Some f \<Rightarrow> f (snd kv) | None \<Rightarrow> (case extra of None \<Rightarrow> False | Some f \<Rightarrow> f (snd kv)))"

primrec valid :: "schema_lib \<Rightarrow> schema \<Rightarrow> json \<Rightarrow> bool" where
  "valid V (SType ts) = (\<lambda>v. list_ex (\<lambda>t. t \<in> set (json_types V v)) ts)"
| "valid V (SConst c) = (\<lambda>v. v = c)"
| "valid V (SEnum cs) = (\<lambda>v. v \<in> set cs)"
| "valid V (SPattern P) = on_str P"
| "valid V SDateTime = on_str (sc_date_time V)"
| "valid V (SMinLength n) = on_str (\<lambda>s. n \<le> length s)"
| "valid V (SMinimum m) = at_least V m"
| "valid V (SRequired ks) = on_obj (\<lambda>d. list_all (has_key d) ks)"
| "valid V (SMinProps n) = on_obj (\<lambda>d. n \<le> length d)"
| "valid V (SProps ps extra) = on_obj (list_all (fits (map (map_prod id (valid V)) ps) (map_option (valid V) extra)))"
| "valid V (SItems s) = on_list (list_all (valid V s))"
| "valid V (SMinItems n) = on_list (\<lambda>xs. n \<le> length xs)"
| "valid V SUnique = on_list distinct"
| "valid V (SAll ss) = (\<lambda>v. list_all (\<lambda>f. f v) (map (valid V) ss))"
| "valid V (SIf a b) = (\<lambda>v. valid V a v \<longrightarrow> valid V b v)"

section \<open>Abbreviations of the schema files\<close>

definition s_type :: "string \<Rightarrow> schema" where "s_type t = SType [t]"

definition s_text :: schema where "s_text = SAll [s_type ''string'', SMinLength 1]"

definition s_enum :: "string list \<Rightarrow> schema" where "s_enum ws = SEnum (map JStr ws)"

definition s_list :: "schema \<Rightarrow> schema" where "s_list s = SAll [s_type ''array'', SItems s]"

definition s_match :: "(string \<Rightarrow> bool) \<Rightarrow> schema" where "s_match P = SAll [s_type ''string'', SPattern P]"

text \<open>A closed object: the required keys and the schemas of all the keys there may be.\<close>

definition s_object :: "string list \<Rightarrow> (string \<times> schema) list \<Rightarrow> schema" where
  "s_object req ps = SAll [s_type ''object'', SRequired req, SProps ps None]"

text \<open>A pattern that ends in \<^verbatim>\<open>$\<close> also matches before a final line feed.\<close>

definition ends :: "(string \<Rightarrow> bool) \<Rightarrow> string \<Rightarrow> bool" where
  "ends P s = (P s \<or> s \<noteq> [] \<and> last s = CHR 0x0A \<and> P (butlast s))"

section \<open>Lemmas\<close>

named_theorems schema_simps

lemma valid_s_type [schema_simps]: "valid V (s_type t) v \<longleftrightarrow> t \<in> set (json_types V v)"
  by (simp add: s_type_def)

lemma valid_s_text [schema_simps]: "valid V s_text v \<longleftrightarrow> (\<exists>s. v = JStr s \<and> s \<noteq> [])"
  by (cases v) (auto simp: s_text_def s_type_def on_str_def Suc_le_eq split: if_splits)

lemma valid_string [schema_simps]: "''string'' \<in> set (json_types V v) \<longleftrightarrow> (\<exists>s. v = JStr s)"
  by (cases v) auto

lemma valid_object [schema_simps]: "''object'' \<in> set (json_types V v) \<longleftrightarrow> (\<exists>d. v = JObj d)"
  by (cases v) auto

lemma valid_array [schema_simps]: "''array'' \<in> set (json_types V v) \<longleftrightarrow> (\<exists>xs. v = JList xs)"
  by (cases v) auto

lemma valid_boolean [schema_simps]: "''boolean'' \<in> set (json_types V v) \<longleftrightarrow> (\<exists>b. v = JBool b)"
  by (cases v) auto

lemma valid_integer [schema_simps]:
  "''integer'' \<in> set (json_types V v) \<longleftrightarrow> (\<exists>i. v = JInt i) \<or> (\<exists>r i. v = JFloat r \<and> sc_integral V r = Some i)"
  by (cases v) auto

lemma valid_s_match [schema_simps]: "valid V (s_match P) v \<longleftrightarrow> (\<exists>s. v = JStr s \<and> P s)"
  by (cases v) (auto simp: s_match_def s_type_def on_str_def split: if_splits)

lemma valid_s_enum [schema_simps]: "valid V (s_enum ws) v \<longleftrightarrow> (\<exists>w\<in>set ws. v = JStr w)"
  by (auto simp: s_enum_def)

lemma valid_s_list [schema_simps]: "valid V (s_list s) v \<longleftrightarrow> (\<exists>xs. v = JList xs \<and> list_all (valid V s) xs)"
  by (cases v) (auto simp: s_list_def s_type_def on_list_def split: if_splits)

lemma valid_s_object [schema_simps]:
  "valid V (s_object req ps) v \<longleftrightarrow>
     (\<exists>d. v = JObj d \<and> list_all (has_key d) req \<and> list_all (fits (map (map_prod id (valid V)) ps) None) d)"
  by (cases v) (auto simp: s_object_def s_type_def on_obj_def split: if_splits)

text \<open>What a closed object says of a key it requires.\<close>

lemma object_field:
  assumes "valid V (s_object req ps) v" "k \<in> set req" "map_of ps k = Some s"
  shows "\<exists>d x. v = JObj d \<and> map_of d k = Some x \<and> valid V s x"
proof -
  obtain d where d: "v = JObj d" "list_all (has_key d) req" "list_all (fits (map (map_prod id (valid V)) ps) None) d"
    using assms(1) by (auto simp: valid_s_object)
  obtain x where x: "map_of d k = Some x" using d(2) assms(2) by (auto simp: list_all_iff has_key_def)
  then have "(k, x) \<in> set d" by (rule map_of_SomeD)
  with d(3) have "fits (map (map_prod id (valid V)) ps) None (k, x)" by (auto simp: list_all_iff)
  moreover have "map_of (map (map_prod id (valid V)) ps) k = Some (valid V s)"
    using assms(3) by (induction ps) (auto split: if_splits)
  ultimately show ?thesis using d(1) x by (simp add: fits_def)
qed

end
