(* ===== verification/Mxray_Contract.thy ===== *)
theory Mxray_Contract
  imports Json_Schema Interop
begin

text \<open>
  \<^verbatim>\<open>mxray_contract.py\<close> and the two schema files it publishes: the request and the result of
  the email worker, the screen for raw evidence and secrets, and the idempotency key.
\<close>

text \<open>A failed validation keeps the name of the file; the text of the first error is the package's.\<close>

datatype contract_error = Contract string

record mx_lib =
  mx_host :: host
  mx_schema :: schema_lib

definition contract_version :: string where "contract_version = ''1.0.0''"

section \<open>Patterns of the schemas\<close>

definition id_head :: "char \<Rightarrow> bool" where "id_head c = is_alnum c"

definition id_tail :: "char \<Rightarrow> bool" where "id_tail c = (is_alnum c \<or> c \<in> set ''_.:-'')"

definition mx_safe_id :: "string \<Rightarrow> bool" where
  "mx_safe_id s = (case s of [] \<Rightarrow> False | c # cs \<Rightarrow> id_head c \<and> length cs \<le> 127 \<and> list_all id_tail cs)"

definition hex_digit :: "char \<Rightarrow> bool" where
  "hex_digit c = (is_digit c \<or> c \<in> set ''abcdefABCDEF'')"

definition sha_text :: "string \<Rightarrow> bool" where "sha_text s = (length s = 64 \<and> list_all hex_digit s)"

definition key_char :: "char \<Rightarrow> bool" where "key_char c = (is_alnum c \<or> c = CHR ''_'' \<or> c = CHR ''-'')"

definition key_text :: "string \<Rightarrow> bool" where
  "key_text s = (prefix ''v1:'' s \<and> length s = 46 \<and> list_all key_char (drop 3 s))"

definition version_text :: "string \<Rightarrow> bool" where
  "version_text s = (let ps = split_on CHR ''.'' s in length ps = 3 \<and> list_all (\<lambda>p. p \<noteq> [] \<and> list_all is_digit p) ps)"

definition s_id :: schema where "s_id = s_match (ends mx_safe_id)"
definition s_sha :: schema where "s_sha = s_match (ends sha_text)"
definition s_key :: schema where "s_key = s_match (ends key_text)"
definition s_instant :: schema where "s_instant = SAll [s_type ''string'', SDateTime]"
definition s_string :: schema where "s_string = s_type ''string''"
definition s_nullable :: schema where "s_nullable = SType [''string'', ''null'']"
definition s_count :: "int \<Rightarrow> schema" where "s_count m = SAll [s_type ''integer'', SMinimum m]"
definition s_set :: "schema \<Rightarrow> schema" where "s_set s = SAll [s_type ''array'', SUnique, SItems s]"

section \<open>The request schema\<close>

definition context_fields :: "string list" where
  "context_fields = [''tenant_id'', ''case_id'', ''evidence_id'', ''source_id'']"

definition s_context :: schema where
  "s_context = s_object context_fields (map (\<lambda>k. (k, s_id)) context_fields)"

definition s_input :: schema where
  "s_input = s_object [''media_type'', ''sha256'', ''size_bytes'', ''staged_uri'', ''read_only'']
     [(''media_type'', s_enum [''eml'', ''msg'', ''pst'', ''ost'', ''mbox'', ''mbx'']), (''sha256'', s_sha),
      (''size_bytes'', s_count 0), (''staged_uri'', s_text), (''read_only'', SConst (JBool True))]"

definition s_toolchain :: schema where
  "s_toolchain = s_object [''worker_version'', ''mxray_version'', ''parser_versions'']
     [(''worker_version'', s_text), (''mxray_version'', s_text),
      (''parser_versions'', SAll [s_type ''object'', SMinProps 1, SProps [] (Some s_text)])]"

definition capability_names :: "string list" where
  "capability_names = [''message_metadata'', ''authentication'', ''routing'', ''spoofing'', ''identity'', ''attachments'',
     ''archives'', ''macros'', ''pdf'', ''yara'', ''ioc'', ''safe_html'', ''reports'']"

definition s_policies :: schema where
  "s_policies = s_object [''analysis'', ''enrichment'']
     [(''analysis'', s_object [''capabilities'', ''policy_id'', ''version'']
        [(''capabilities'', s_set (s_enum capability_names)), (''policy_id'', s_text), (''version'', s_match (ends version_text))]),
      (''enrichment'', s_object [''enabled'', ''network_egress'', ''providers'', ''approval_required'']
        [(''enabled'', s_type ''boolean''), (''network_egress'', s_enum [''disabled'', ''allowlisted'']),
         (''providers'', s_set (s_enum [''virustotal'', ''dns''])), (''approval_required'', SConst (JBool True))])]"

definition limit_names :: "string list" where
  "limit_names = [''max_attachment_bytes'', ''max_total_attachment_bytes'', ''max_archive_members'', ''max_html_bytes'',
     ''max_findings'', ''max_report_bytes'']"

definition s_limits :: schema where
  "s_limits = s_object limit_names (map (\<lambda>k. (k, s_count 1)) limit_names)"

definition request_keys :: "string list" where
  "request_keys = [''contract_version'', ''request_id'', ''submitted_at_utc'', ''context'', ''input'', ''toolchain'', ''policies'',
     ''limits'', ''idempotency'', ''audit'']"

definition request_schema :: schema where
  "request_schema = s_object request_keys
     [(''contract_version'', SConst (JStr contract_version)), (''request_id'', s_id), (''submitted_at_utc'', s_instant),
      (''context'', s_context), (''input'', s_input), (''toolchain'', s_toolchain), (''policies'', s_policies),
      (''limits'', s_limits),
      (''idempotency'', s_object [''key'', ''scope''] [(''key'', s_key), (''scope'', s_text)]),
      (''audit'', s_object [''correlation_id'', ''requested_by'', ''event_type'']
         [(''correlation_id'', s_id), (''requested_by'', s_id), (''event_type'', SConst (JStr ''mxray.email.analyze''))])]"

section \<open>The result schema\<close>

definition s_workflow :: schema where
  "s_workflow = s_object [''workflow_id'', ''status'', ''worker_version'']
     [(''workflow_id'', s_id), (''status'', s_enum [''queued'', ''running'', ''succeeded'', ''failed'', ''quarantined'']),
      (''worker_version'', s_text)]"

definition s_message :: schema where
  "s_message = s_object [''message_id'', ''subject'', ''date_utc'', ''from'', ''to'', ''headers'']
     [(''message_id'', s_text), (''subject'', s_nullable), (''date_utc'', SAll [s_nullable, SDateTime]), (''from'', s_nullable),
      (''to'', s_list s_string), (''cc'', s_list s_string),
      (''headers'', SAll [s_type ''object'', SProps [] (Some s_string)]),
      (''authentication'', s_type ''object''), (''routing'', s_type ''object'')]"

definition s_finding :: schema where
  "s_finding = s_object [''finding_id'', ''category'', ''title'', ''confidence'', ''summary'', ''source_ids'']
     [(''finding_id'', s_id),
      (''category'', s_enum [''authentication'', ''routing'', ''spoofing'', ''identity'', ''archive'', ''macro'', ''pdf'', ''yara'', ''ioc'', ''other'']),
      (''title'', s_text), (''confidence'', s_enum [''confirmed'', ''high'', ''possible'', ''not_established'']), (''summary'', s_text),
      (''source_ids'', SAll [s_type ''array'', SMinItems 1, SItems s_text]), (''external'', s_type ''boolean''),
      (''unverified'', s_type ''boolean'')]"

definition s_attachment :: schema where
  "s_attachment = s_object [''attachment_id'', ''source_id'', ''media_type'', ''size_bytes'', ''sha256'', ''status'']
     [(''attachment_id'', s_id), (''source_id'', s_text), (''media_type'', s_text), (''size_bytes'', s_count 0), (''sha256'', s_sha),
      (''status'', s_enum [''analyzed'', ''skipped'', ''rejected'', ''quarantined'']), (''findings'', s_list s_id)]"

definition s_citation :: schema where
  "s_citation = s_object [''citation_id'', ''source_id'', ''kind'', ''detail'']
     [(''citation_id'', s_id), (''source_id'', s_text), (''kind'', s_enum [''header'', ''body'', ''attachment'', ''parser'', ''tool'']),
      (''detail'', s_text)]"

definition s_artifact :: schema where
  "s_artifact = s_object [''artifact_id'', ''artifact_type'', ''sha256'', ''size_bytes'', ''metadata_uri'']
     [(''artifact_id'', s_id), (''artifact_type'', s_enum [''report'', ''safe_html'', ''manifest'', ''log'', ''attachment_analysis'']),
      (''sha256'', s_sha), (''size_bytes'', s_count 0), (''metadata_uri'', s_text)]"

definition s_audit_event :: schema where
  "s_audit_event = s_object [''event_id'', ''event_type'', ''at_utc'']
     [(''event_id'', s_id), (''event_type'', s_text), (''at_utc'', s_instant), (''detail'', s_string), (''tenant_id'', s_string),
      (''case_id'', s_string), (''evidence_id'', s_string), (''source_sha256'', s_sha), (''decision'', s_string)]"

definition s_provenance :: schema where
  "s_provenance = s_object (context_fields @ [''source_sha256'', ''idempotency_key''])
     (map (\<lambda>k. (k, s_id)) context_fields @ [(''source_sha256'', s_sha), (''idempotency_key'', s_key)])"

definition s_failure :: schema where
  "s_failure = s_object [''code'', ''retryable'', ''message'']
     [(''code'', s_text), (''retryable'', s_type ''boolean''), (''message'', s_text), (''quarantine_reference'', s_text)]"

definition terminal_is :: "string list \<Rightarrow> schema" where
  "terminal_is ws = SProps [(''terminal_state'', s_enum ws)] (Some (SAll []))"

definition result_keys :: "string list" where
  "result_keys = [''contract_version'', ''request_id'', ''workflow'', ''toolchain'', ''capabilities'', ''message'', ''findings'',
     ''attachments'', ''safe_html'', ''citations'', ''limitations'', ''reports'', ''artifacts'', ''provenance'', ''audit'',
     ''terminal_state'']"

definition result_fields :: "(string \<times> schema) list" where
  "result_fields = [(''contract_version'', SConst (JStr contract_version)), (''request_id'', s_id), (''workflow'', s_workflow),
     (''toolchain'', s_type ''object''), (''capabilities'', s_set s_text), (''message'', s_message),
     (''findings'', s_list s_finding), (''attachments'', s_list s_attachment),
     (''safe_html'', s_object [''status'', ''artifact_id'']
        [(''status'', s_enum [''not_requested'', ''generated'', ''omitted'', ''failed'']), (''artifact_id'', s_nullable),
         (''sha256'', SAll [s_nullable, SPattern (ends sha_text)])]),
     (''citations'', s_list s_citation), (''limitations'', s_list s_text), (''reports'', s_list s_artifact),
     (''artifacts'', s_list s_artifact), (''provenance'', s_provenance),
     (''audit'', s_object [''events'', ''egress'']
        [(''events'', s_list s_audit_event), (''egress'', s_enum [''none'', ''allowlisted_external''])]),
     (''terminal_state'', s_enum [''succeeded'', ''failed'', ''quarantined'']), (''failure'', s_failure)]"

definition result_schema :: schema where
  "result_schema = SAll [s_object result_keys result_fields,
     SIf (terminal_is [''failed'', ''quarantined'']) (SRequired [''failure'']),
     SIf (terminal_is [''quarantined'']) (SProps [(''failure'', SRequired [''quarantine_reference''])] (Some (SAll [])))]"

section \<open>Unsafe fields\<close>

definition mx_secret_words :: "string list" where
  "mx_secret_words = [''password'', ''passwd'', ''token'', ''api_key'', ''apikey'', ''secret'', ''private_key'', ''cookie'', ''authorization'']"

definition raw_fields :: "string list" where
  "raw_fields = [''raw_bytes'', ''raw_message'', ''message_bytes'', ''raw_content'', ''source_bytes'']"

definition normal_key :: "string \<Rightarrow> string" where
  "normal_key k = replace_char CHR ''-'' CHR ''_'' (lower k)"

definition raw_key :: "string \<Rightarrow> bool" where
  "raw_key k = (normal_key k \<in> set raw_fields)"

definition mx_secret_key :: "string \<Rightarrow> bool" where
  "mx_secret_key k = list_ex (\<lambda>word. contains word (normal_key k)) mx_secret_words"

definition unsafe_key :: "string \<Rightarrow> bool" where
  "unsafe_key k = (raw_key k \<or> mx_secret_key k)"

definition at_field :: "string \<Rightarrow> string \<Rightarrow> string" where
  "at_field path key = path @ ''.'' @ key"

fun reject_unsafe :: "json \<Rightarrow> string \<Rightarrow> contract_error + unit"
and reject_unsafe_items :: "dict \<Rightarrow> string \<Rightarrow> contract_error + unit"
and reject_unsafe_elems :: "json list \<Rightarrow> nat \<Rightarrow> string \<Rightarrow> contract_error + unit" where
  "reject_unsafe (JObj d) path = reject_unsafe_items d path"
| "reject_unsafe (JList xs) path = reject_unsafe_elems xs 0 path"
| "reject_unsafe v path = Inr ()"
| "reject_unsafe_items [] path = Inr ()"
| "reject_unsafe_items ((key, child) # d) path =
     (if raw_key key then Inl (Contract (''raw evidence field is forbidden at '' @ at_field path key))
      else if mx_secret_key key then Inl (Contract (''secret field is forbidden at '' @ at_field path key))
      else r_bind (reject_unsafe child (at_field path key)) (\<lambda>_. reject_unsafe_items d path))"
| "reject_unsafe_elems [] i path = Inr ()"
| "reject_unsafe_elems (x # xs) i path =
     r_bind (reject_unsafe x (path @ ''['' @ dec_nat i @ '']'')) (\<lambda>_. reject_unsafe_elems xs (Suc i) path)"

section \<open>The validators\<close>

definition schema_failed :: "string \<Rightarrow> contract_error" where
  "schema_failed name = Contract (name @ '' validation failed'')"

text \<open>Fields of a value whose shape the schema has established.\<close>

definition fsub :: "dict \<Rightarrow> string \<Rightarrow> dict" where
  "fsub d k = (case dget d k of JObj e \<Rightarrow> e | _ \<Rightarrow> [])"

definition ftext :: "dict \<Rightarrow> string \<Rightarrow> string" where
  "ftext d k = the_str (dget d k)"

definition validated :: "mx_lib \<Rightarrow> schema \<Rightarrow> string \<Rightarrow> json \<Rightarrow> contract_error + dict" where
  "validated L s name v =
     (case v of
        JObj d \<Rightarrow> (if valid (mx_schema L) s v then Inr d else Inl (schema_failed name))
      | _ \<Rightarrow> Inl (Contract ''contract value must be an object''))"

definition mx_idempotency_key :: "mx_lib \<Rightarrow> json list \<Rightarrow> contract_error + string" where
  "mx_idempotency_key L parts =
     (if \<not> list_all nonempty_str parts then Inl (Contract ''idempotency inputs must be non-empty strings'')
      else Inr (''v1:'' @ sha_b64 (mx_host L) (join ''|'' (map the_str parts))))"

definition expected_key :: "mx_lib \<Rightarrow> dict \<Rightarrow> contract_error + string" where
  "expected_key L r = mx_idempotency_key L
     (map (dget (fsub r ''context'')) context_fields @ [dget (fsub r ''input'') ''sha256'', dget (fsub r ''toolchain'') ''worker_version''])"

definition unsafe_id :: "dict \<Rightarrow> string \<Rightarrow> contract_error + unit" where
  "unsafe_id c k = r_guard (mx_safe_id (ftext c k)) (Contract (''unsafe opaque identifier: '' @ k))"

definition mx_validate_request :: "mx_lib \<Rightarrow> json \<Rightarrow> contract_error + dict" where
  "mx_validate_request L v =
     r_bind (validated L request_schema ''mxray-email-job-request.schema.json'' v) (\<lambda>r.
     r_bind (reject_unsafe (JObj r) ''contract'') (\<lambda>_.
     (let enrichment = fsub (fsub r ''policies'') ''enrichment'' in
      r_bind (r_guard (\<not> (dget enrichment ''enabled'' = JBool True \<and> dget enrichment ''network_egress'' = JStr ''disabled''))
                (Contract ''enabled enrichment requires an explicitly allowlisted egress policy'')) (\<lambda>_.
      r_bind (r_map (unsafe_id (fsub r ''context'')) context_fields) (\<lambda>_.
      r_bind (expected_key L r) (\<lambda>key.
      r_bind (r_guard (dget (fsub r ''idempotency'') ''key'' = JStr key) (Contract ''idempotency key mismatch'')) (\<lambda>_. Inr r)))))))"

definition mx_validate_result :: "mx_lib \<Rightarrow> json \<Rightarrow> contract_error + dict" where
  "mx_validate_result L v =
     r_bind (validated L result_schema ''mxray-email-job-result.schema.json'' v) (\<lambda>r.
     r_bind (reject_unsafe (JObj r) ''contract'') (\<lambda>_.
     r_bind (r_guard (dget r ''terminal_state'' = JStr ''quarantined'' \<longrightarrow> has_key (fsub r ''failure'') ''quarantine_reference'')
               (Contract ''quarantined results require a quarantine reference'')) (\<lambda>_. Inr r)))"

section \<open>Lemmas\<close>

lemma reject_unsafe_iff:
  "reject_unsafe v path = Inr () \<longleftrightarrow> (\<forall>k\<in>deep_keys v. \<not> unsafe_key k)"
  "reject_unsafe_items d path = Inr () \<longleftrightarrow> (\<forall>k\<in>deep_keys (JObj d). \<not> unsafe_key k)"
  "reject_unsafe_elems xs i path = Inr () \<longleftrightarrow> (\<forall>k\<in>deep_keys (JList xs). \<not> unsafe_key k)"
  by (induction v path and d path and xs i path rule: reject_unsafe_reject_unsafe_items_reject_unsafe_elems.induct)
    (auto simp: wb_result unsafe_key_def)

lemma validated_Inr: "validated L s name v = Inr d \<longleftrightarrow> v = JObj d \<and> valid (mx_schema L) s v"
  by (cases v) (auto simp: validated_def)

lemma r_map_all: "r_map f xs = Inr ys \<Longrightarrow> x \<in> set xs \<Longrightarrow> \<exists>y. f x = Inr y"
  by (induction xs arbitrary: ys) (auto simp: wb_result)

lemma r_map_unit: "(\<And>x. x \<in> set xs \<Longrightarrow> f x = Inr ()) \<Longrightarrow> \<exists>ys. r_map f xs = Inr ys"
  by (induction xs) (auto simp: wb_result)

lemma mx_validate_request_Inr:
  assumes "mx_validate_request L v = Inr r"
  shows "v = JObj r" "valid (mx_schema L) request_schema (JObj r)" "\<forall>k\<in>deep_keys (JObj r). \<not> unsafe_key k"
    and "k \<in> set context_fields \<Longrightarrow> mx_safe_id (ftext (fsub r ''context'') k)"
    and "expected_key L r = Inr (ftext (fsub r ''idempotency'') ''key'')"
proof -
  show r: "v = JObj r" "valid (mx_schema L) request_schema (JObj r)" "\<forall>k\<in>deep_keys (JObj r). \<not> unsafe_key k"
    using assms by (auto simp: mx_validate_request_def wb_result validated_Inr reject_unsafe_iff Let_def)
  show "expected_key L r = Inr (ftext (fsub r ''idempotency'') ''key'')"
    using assms by (auto simp: mx_validate_request_def wb_result validated_Inr Let_def ftext_def)
  have "\<exists>ys. r_map (unsafe_id (fsub r ''context'')) context_fields = Inr ys"
    using assms by (auto simp: mx_validate_request_def wb_result validated_Inr Let_def)
  then show "mx_safe_id (ftext (fsub r ''context'') k)" if "k \<in> set context_fields"
    using that by (auto simp: unsafe_id_def wb_result dest!: r_map_all)
qed

lemma mx_validate_result_iff:
  "mx_validate_result L v = Inr r \<longleftrightarrow> v = JObj r \<and> valid (mx_schema L) result_schema (JObj r) \<and>
     (\<forall>k\<in>deep_keys (JObj r). \<not> unsafe_key k) \<and>
     (dget r ''terminal_state'' = JStr ''quarantined'' \<longrightarrow> has_key (fsub r ''failure'') ''quarantine_reference'')"
  by (auto simp: mx_validate_result_def wb_result validated_Inr reject_unsafe_iff)

end
