(* ===== verification/Mxray_Worker.thy ===== *)
theory Mxray_Worker
  imports Mxray_Contract Staging
begin

text \<open>
  \<^verbatim>\<open>mxray_worker.py\<close>: one staged mail is checked against the request, parsed, and turned into a
  result or a failure record, both of which pass the published contract.  Python's mail,
  mailbox, date, address and ZIP readers are parameters with the exceptions they raise:
  \<open>Soft\<close> for \<^verbatim>\<open>OSError\<close>, \<^verbatim>\<open>ValueError\<close>, \<^verbatim>\<open>UnicodeError\<close> and (of the ZIP reader)
  \<^verbatim>\<open>BadZipFile\<close>, which the worker catches, \<open>Hard\<close> for all others.
\<close>

section \<open>Parameters\<close>

datatype raised = Soft string | Hard string

record mail_part =
  mp_filename :: "string option"
  mp_payload :: string
  mp_type :: string

text \<open>A parsed message: its headers in order, its parts in the order of \<^verbatim>\<open>walk()\<close>, and the body that
  \<^verbatim>\<open>get_body\<close> prefers with its type and content (a body without headers counts as none: a
  message is true when it has headers).\<close>

record email =
  em_headers :: "(string \<times> string) list"
  em_parts :: "mail_part list"
  em_body :: "(string \<times> (raised + string)) option"

record mw_lib = mx_lib +
  mw_os :: os
  mw_parse :: "string \<Rightarrow> raised + email"
  mw_mbox :: "string \<Rightarrow> raised + nat"
  mw_date :: "string \<Rightarrow> string option"
  mw_addresses :: "string \<Rightarrow> string list"
  mw_guess :: "string \<Rightarrow> string option"
  mw_dumps :: "json \<Rightarrow> string"
  mw_zip :: "string \<Rightarrow> (raised + zip_item list) option"

record worker_error =
  we_code :: string
  we_message :: string
  we_retryable :: bool
  we_quarantine :: bool

datatype attempt_error = Stop worker_error | Caught string | Escaped string

definition work_error :: "string \<Rightarrow> string \<Rightarrow> bool \<Rightarrow> worker_error" where
  "work_error code msg quarantine = \<lparr>we_code = code, we_message = msg, we_retryable = False, we_quarantine = quarantine\<rparr>"

definition stopped :: "string \<Rightarrow> string \<Rightarrow> bool \<Rightarrow> attempt_error + 'a" where
  "stopped code msg quarantine = Inl (Stop (work_error code msg quarantine))"

definition by_reader :: "raised + 'a \<Rightarrow> attempt_error + 'a" where
  "by_reader x = (case x of Inl (Soft n) \<Rightarrow> Inl (Caught n) | Inl (Hard n) \<Rightarrow> Inl (Escaped n) | Inr y \<Rightarrow> Inr y)"

definition worker_version :: string where "worker_version = ''1.0.0''"

definition implemented_capabilities :: "string list" where
  "implemented_capabilities = [''message_metadata'', ''authentication'', ''routing'', ''attachments'', ''archives'', ''reports'']"

section \<open>Helpers\<close>

definition strs :: "string list \<Rightarrow> json" where "strs ws = JList (map JStr ws)"

definition sha_of :: "mw_lib \<Rightarrow> string \<Rightarrow> string" where
  "sha_of L s = sha_hex (mx_host L) s"

definition mx_id :: "mw_lib \<Rightarrow> string \<Rightarrow> string \<Rightarrow> string" where
  "mx_id L pre v = pre @ ''-'' @ take 16 (sha_of L v)"

definition mw_utc :: "mw_lib \<Rightarrow> string option \<Rightarrow> json" where
  "mw_utc L v = (case v of
     None \<Rightarrow> JNull
   | Some s \<Rightarrow> (if s = [] then JNull
                else case mw_date L s of None \<Rightarrow> JNull | Some t \<Rightarrow> JStr (str_replace ''+00:00'' ''Z'' t)))"

definition addresses :: "mw_lib \<Rightarrow> string option \<Rightarrow> string list" where
  "addresses L v = filter (\<lambda>a. a \<noteq> []) (mw_addresses L (case v of None \<Rightarrow> [] | Some s \<Rightarrow> s))"

definition artifact :: "mw_lib \<Rightarrow> string \<Rightarrow> string \<Rightarrow> string \<Rightarrow> json" where
  "artifact L kind v uri = JObj [(''artifact_id'', JStr (mx_id L kind uri)), (''artifact_type'', JStr kind),
     (''sha256'', JStr (sha_of L v)), (''size_bytes'', JInt (int (length v))), (''metadata_uri'', JStr uri)]"

definition header_words :: "string list" where
  "header_words = [''authorization'', ''cookie'', ''token'', ''api_key'', ''apikey'', ''secret'', ''password'']"

definition hidden_header :: "string \<Rightarrow> bool" where
  "hidden_header k = list_ex (\<lambda>word. contains word (normal_key k)) header_words"

definition safe_headers :: "email \<Rightarrow> dict" where
  "safe_headers m = foldl (\<lambda>d (k, v). if hidden_header k then d else AList.update k (JStr v) d) [] (em_headers m)"

definition safe_archive_name :: "string \<Rightarrow> bool" where
  "safe_archive_name name =
     (let n = unbackslash name in n \<noteq> [] \<and> \<not> is_absolute n \<and> list_all (\<lambda>p. p \<notin> {[], ''.'', ''..''}) (path_parts n))"

definition is_link :: "32 word \<Rightarrow> bool" where
  "is_link a = (file_type (unix_mode a) = 0xA000)"

text \<open>Header access ignores case; \<^verbatim>\<open>get\<close> answers the first of several.\<close>

definition headers_named :: "email \<Rightarrow> string \<Rightarrow> string list" where
  "headers_named m k = map snd (filter (\<lambda>h. lower (fst h) = lower k) (em_headers m))"

definition header :: "email \<Rightarrow> string \<Rightarrow> string option" where
  "header m k = (case headers_named m k of [] \<Rightarrow> None | v # vs \<Rightarrow> Some v)"

definition hd_given :: "string option \<Rightarrow> bool" where
  "hd_given h = (h \<noteq> None \<and> h \<noteq> Some [])"

definition hd_json :: "string option \<Rightarrow> json" where
  "hd_json h = (case h of None \<Rightarrow> JNull | Some s \<Rightarrow> JStr s)"

definition header_source :: "string \<Rightarrow> string" where "header_source name = ''header:'' @ name"

text \<open>The number a limit or a size of the request stands for.\<close>

definition num :: "mw_lib \<Rightarrow> json \<Rightarrow> int" where
  "num L v = (case v of JInt i \<Rightarrow> i | JFloat r \<Rightarrow> (case sc_integral (mx_schema L) r of Some i \<Rightarrow> i | None \<Rightarrow> 0) | _ \<Rightarrow> 0)"

definition limit :: "mw_lib \<Rightarrow> dict \<Rightarrow> string \<Rightarrow> int" where
  "limit L r k = num L (dget (fsub r ''limits'') k)"

section \<open>Findings\<close>

definition finding :: "string \<Rightarrow> string \<Rightarrow> string \<Rightarrow> string \<Rightarrow> string \<Rightarrow> string \<Rightarrow> json" where
  "finding i category title confidence summary src = JObj [(''finding_id'', JStr i), (''category'', JStr category), (''title'', JStr title),
     (''confidence'', JStr confidence), (''summary'', JStr summary), (''source_ids'', strs [src])]"

definition auth_findings :: "mw_lib \<Rightarrow> email \<Rightarrow> json list" where
  "auth_findings L m =
     (case header m ''Authentication-Results'' of
        Some auth \<Rightarrow>
          (if auth \<noteq> [] \<and> list_ex (\<lambda>w. contains w (lower auth)) [''fail'', ''softfail'', ''none'']
           then [finding (mx_id L ''finding'' (''auth'' @ auth)) ''authentication'' ''Authentication result requires review'' ''high''
                   ''Authentication-Results contains a non-passing result.'' (header_source ''Authentication-Results'')]
           else [])
      | None \<Rightarrow> [])"

definition routing_findings :: "mw_lib \<Rightarrow> email \<Rightarrow> json list" where
  "routing_findings L m =
     (case headers_named m ''Received'' of
        [] \<Rightarrow> []
      | r # rs \<Rightarrow> [finding (mx_id L ''finding'' (''received'' @ r)) ''routing'' ''Routing headers present'' ''confirmed''
                    (''Message contains '' @ dec_nat (length (r # rs)) @ '' Received header(s).'') (header_source ''Received'')])"

section \<open>Attachments\<close>

record attachment =
  at_source :: string
  at_filename :: string
  at_type :: string
  at_payload :: string
  at_status :: string

record walked =
  wk_total :: int
  wk_attachments :: "attachment list"
  wk_limitations :: "string list"
  wk_findings :: "json list"

definition media_type :: "mw_lib \<Rightarrow> mail_part \<Rightarrow> string \<Rightarrow> string" where
  "media_type L p filename =
     (if mp_type p \<noteq> [] then mp_type p
      else case mw_guess L filename of Some (c # cs) \<Rightarrow> c # cs | _ \<Rightarrow> ''application/octet-stream'')"

definition archive_finding :: "mw_lib \<Rightarrow> string \<Rightarrow> nat \<Rightarrow> json" where
  "archive_finding L src n = finding (mx_id L ''finding'' (src @ ''archive'')) ''archive'' ''Archive attachment inspected'' ''confirmed''
     (''Archive contains '' @ dec_nat n @ '' bounded member(s); no files were extracted.'') src"

text \<open>The inspection of one analyzed attachment: its final status, and what it adds.\<close>

definition inspect :: "mw_lib \<Rightarrow> dict \<Rightarrow> string \<Rightarrow> string \<Rightarrow> string \<Rightarrow> string + (string \<times> string list \<times> json list)" where
  "inspect L r src filename payload =
     (case mw_zip L payload of
        None \<Rightarrow> Inr (''analyzed'', [], [])
      | Some (Inl (Hard n)) \<Rightarrow> Inl n
      | Some (Inl (Soft n)) \<Rightarrow> Inr (''rejected'', [''Archive inspection failed for '' @ filename @ '': '' @ n @ ''.''], [])
      | Some (Inr members) \<Rightarrow>
          (if list_ex (\<lambda>z. \<not> safe_archive_name (zi_name z) \<or> is_link (zi_attr z)) members
           then Inr (''rejected'', [''Unsafe archive member rejected for '' @ filename @ ''.''], [])
           else if limit L r ''max_archive_members'' < int (length members)
           then Inr (''rejected'', [''Archive member limit exceeded for '' @ filename @ ''.''], [])
           else Inr (''analyzed'', [], [archive_finding L src (length members)])))"

fun mx_walk :: "mw_lib \<Rightarrow> dict \<Rightarrow> nat \<Rightarrow> mail_part list \<Rightarrow> walked \<Rightarrow> string + walked" where
  "mx_walk L r i [] w = Inr w"
| "mx_walk L r i (p # ps) w =
     (case mp_filename p of
        None \<Rightarrow> mx_walk L r (Suc i) ps w
      | Some [] \<Rightarrow> mx_walk L r (Suc i) ps w
      | Some (c # cs) \<Rightarrow>
          (let filename = c # cs;
               payload = mp_payload p;
               size = int (length payload);
               src = ''attachment:'' @ dec_nat i @ '':'' @ filename;
               over = (limit L r ''max_attachment_bytes'' < size \<or> limit L r ''max_total_attachment_bytes'' < wk_total w + size);
               at = (\<lambda>s. \<lparr>at_source = src, at_filename = filename, at_type = media_type L p filename, at_payload = payload, at_status = s\<rparr>)
           in
             r_bind (if over then Inr (''rejected'', [''Attachment limit exceeded for '' @ filename @ ''.''], [])
                     else inspect L r src filename payload) (\<lambda>(s, lims, fs).
             mx_walk L r (Suc i) ps \<lparr>wk_total = wk_total w + size, wk_attachments = wk_attachments w @ [at s],
                wk_limitations = wk_limitations w @ lims, wk_findings = wk_findings w @ fs\<rparr>)))"

definition attachment_json :: "mw_lib \<Rightarrow> attachment \<Rightarrow> json" where
  "attachment_json L a = JObj [(''attachment_id'', JStr (mx_id L ''attachment'' (at_source a))), (''source_id'', JStr (at_source a)),
     (''media_type'', JStr (at_type a)), (''size_bytes'', JInt (int (length (at_payload a)))), (''sha256'', JStr (sha_of L (at_payload a))),
     (''status'', JStr (at_status a))]"

section \<open>Safe HTML, citations, reports\<close>

definition safe_html_json :: "string \<Rightarrow> json" where
  "safe_html_json status = JObj [(''status'', JStr status), (''artifact_id'', JNull)]"

text \<open>The status of the rendered body and the limitation it adds.\<close>

definition safe_html :: "mw_lib \<Rightarrow> dict \<Rightarrow> email \<Rightarrow> attempt_error + (string \<times> string list)" where
  "safe_html L r m =
     (if \<not> (case dget (fsub (fsub r ''policies'') ''analysis'') ''capabilities'' of JList cs \<Rightarrow> JStr ''safe_html'' \<in> set cs | _ \<Rightarrow> False)
      then Inr (''not_requested'', [])
      else case em_body m of
        None \<Rightarrow> Inr (''not_requested'', [])
      | Some (kind, content) \<Rightarrow>
          r_bind (by_reader content) (\<lambda>raw.
            if kind \<noteq> ''text/html'' then Inr (''not_requested'', [])
            else if int (length raw) \<le> limit L r ''max_html_bytes''
            then Inr (''omitted'', [''Safe HTML was not persisted because this worker has no artifact store.''])
            else Inr (''omitted'', [''HTML exceeded configured safe-render limit.''])))"

definition citation :: "mw_lib \<Rightarrow> string \<Rightarrow> json" where
  "citation L key = JObj [(''citation_id'', JStr (mx_id L ''citation'' key)), (''source_id'', JStr (header_source key)), (''kind'', JStr ''header''),
     (''detail'', JStr (''Parsed '' @ key @ '' header''))]"

definition citations :: "mw_lib \<Rightarrow> email \<Rightarrow> json list" where
  "citations L m = map (citation L) (filter (\<lambda>k. hd_given (header m k)) [''From'', ''To'', ''Date''])"

definition artifact_uri :: "dict \<Rightarrow> string \<Rightarrow> string" where
  "artifact_uri r kind = ''artifact://'' @ ftext (fsub r ''context'') ''case_id'' @ ''/'' @ ftext (fsub r ''context'') ''source_id'' @ ''/'' @ kind"

definition manifest_text :: "mw_lib \<Rightarrow> dict \<Rightarrow> string" where
  "manifest_text L r = mw_dumps L (JObj [(''source_id'', dget (fsub r ''context'') ''source_id''),
     (''source_sha256'', dget (fsub r ''input'') ''sha256''), (''toolchain'', dget r ''toolchain'')])"

definition id_of :: "string \<Rightarrow> json \<Rightarrow> json" where
  "id_of k v = (case v of JObj d \<Rightarrow> dget d k | _ \<Rightarrow> JNull)"

definition report_text :: "mw_lib \<Rightarrow> string \<Rightarrow> json list \<Rightarrow> json list \<Rightarrow> string list \<Rightarrow> string" where
  "report_text L message_id findings attachments limitations = mw_dumps L (JObj [(''message_id'', JStr message_id),
     (''finding_ids'', JList (map (id_of ''finding_id'') findings)), (''attachment_ids'', JList (map (id_of ''attachment_id'') attachments)),
     (''limitations'', strs limitations)])"

section \<open>Results\<close>

definition provenance_json :: "dict \<Rightarrow> json \<Rightarrow> json" where
  "provenance_json r sha = (let c = fsub r ''context'' in
     JObj [(''tenant_id'', dget c ''tenant_id''), (''case_id'', dget c ''case_id''), (''evidence_id'', dget c ''evidence_id''),
       (''source_id'', dget c ''source_id''), (''source_sha256'', sha), (''idempotency_key'', dget (fsub r ''idempotency'') ''key'')])"

definition workflow_json :: "string \<Rightarrow> string \<Rightarrow> json" where
  "workflow_json job status = JObj [(''workflow_id'', JStr job), (''status'', JStr status), (''worker_version'', JStr worker_version)]"

definition event_id :: "mw_lib \<Rightarrow> dict \<Rightarrow> json" where
  "event_id L r = JStr (mx_id L ''event'' (ftext r ''request_id''))"

definition message_json :: "mw_lib \<Rightarrow> string \<Rightarrow> email \<Rightarrow> json" where
  "message_json L message_id m = JObj [(''message_id'', JStr message_id), (''subject'', hd_json (header m ''Subject'')),
     (''date_utc'', mw_utc L (header m ''Date'')),
     (''from'', case addresses L (header m ''From'') of [] \<Rightarrow> JNull | a # rest \<Rightarrow> JStr a),
     (''to'', strs (addresses L (header m ''To''))), (''cc'', strs (addresses L (header m ''Cc''))),
     (''headers'', JObj (safe_headers m))]"

definition analyze_event :: "mw_lib \<Rightarrow> dict \<Rightarrow> string \<Rightarrow> json" where
  "analyze_event L r now = (let c = fsub r ''context'' in
     JObj [(''event_id'', event_id L r), (''event_type'', JStr ''mxray.email.analyze''), (''at_utc'', JStr now),
       (''detail'', JStr ''local parser; no egress''), (''tenant_id'', dget c ''tenant_id''), (''case_id'', dget c ''case_id''),
       (''evidence_id'', dget c ''evidence_id''), (''source_sha256'', dget (fsub r ''input'') ''sha256''),
       (''decision'', JStr ''ready_for_review'')])"

definition result_json :: "mw_lib \<Rightarrow> dict \<Rightarrow> string \<Rightarrow> string \<Rightarrow> email \<Rightarrow> string \<Rightarrow> json list \<Rightarrow> json list \<Rightarrow> string \<Rightarrow> string list \<Rightarrow> json list \<Rightarrow> dict" where
  "result_json L r job now m message_id findings attachments html limitations reports =
     [(''contract_version'', JStr ''1.0.0''), (''request_id'', dget r ''request_id''), (''workflow'', workflow_json job ''succeeded''),
      (''toolchain'', dget r ''toolchain''), (''capabilities'', strs implemented_capabilities), (''message'', message_json L message_id m),
      (''findings'', JList findings), (''attachments'', JList attachments), (''safe_html'', safe_html_json html),
      (''citations'', JList (citations L m)), (''limitations'', strs limitations), (''reports'', JList reports),
      (''artifacts'', JList [artifact L ''manifest'' (manifest_text L r) (artifact_uri r ''manifest'')]),
      (''provenance'', provenance_json r (dget (fsub r ''input'') ''sha256'')),
      (''audit'', JObj [(''events'', JList [analyze_event L r now]), (''egress'', JStr ''none'')]),
      (''terminal_state'', JStr ''succeeded'')]"

definition message_id_of :: "mw_lib \<Rightarrow> dict \<Rightarrow> email \<Rightarrow> string" where
  "message_id_of L r m = (if hd_given (header m ''Message-ID'') then the (header m ''Message-ID'')
     else mx_id L ''message'' (ftext (fsub r ''context'') ''source_id''))"

definition start_walk :: "mw_lib \<Rightarrow> email \<Rightarrow> walked" where
  "start_walk L m = \<lparr>wk_total = 0, wk_attachments = [],
     wk_limitations = [''MXRay core is local stdlib parsing; external enrichment is disabled.''],
     wk_findings = auth_findings L m @ routing_findings L m\<rparr>"

definition mx_result :: "mw_lib \<Rightarrow> dict \<Rightarrow> string \<Rightarrow> string \<Rightarrow> email \<Rightarrow> attempt_error + dict" where
  "mx_result L r job now m =
     r_bind (case mx_walk L r 0 (em_parts m) (start_walk L m) of Inl n \<Rightarrow> Inl (Escaped n) | Inr w \<Rightarrow> Inr w) (\<lambda>w.
     if limit L r ''max_findings'' < int (length (wk_findings w))
     then stopped ''FINDING_LIMIT_EXCEEDED'' ''finding limit exceeded'' True
     else r_bind (safe_html L r m) (\<lambda>(html, lims).
       (let message_id = message_id_of L r m;
            attachments = map (attachment_json L) (wk_attachments w);
            limitations = wk_limitations w @ lims;
            report = report_text L message_id (wk_findings w) attachments limitations;
            fits_report = int (length report) \<le> limit L r ''max_report_bytes''
        in Inr (result_json L r job now m message_id (wk_findings w) attachments html
             (if fits_report then limitations else limitations @ [''Report exceeded configured report limit.''])
             (if fits_report then [artifact L ''report'' report (artifact_uri r ''report'')] else [])))))"

definition failure_json :: "dict \<Rightarrow> worker_error \<Rightarrow> json" where
  "failure_json r e = JObj ([(''code'', JStr (we_code e)), (''retryable'', JBool (we_retryable e)), (''message'', JStr (we_message e))] @
     (if we_quarantine e then [(''quarantine_reference'', JStr (''quarantine://'' @ ftext (fsub r ''context'') ''case_id'' @ ''/'' @ ftext r ''request_id''))]
      else []))"

definition end_state :: "worker_error \<Rightarrow> string" where
  "end_state e = (if we_quarantine e then ''quarantined'' else ''failed'')"

definition mx_failure :: "mw_lib \<Rightarrow> dict \<Rightarrow> string \<Rightarrow> string \<Rightarrow> string \<Rightarrow> worker_error \<Rightarrow> dict" where
  "mx_failure L r job now sha e =
     [(''contract_version'', JStr ''1.0.0''), (''request_id'', dget r ''request_id''), (''workflow'', workflow_json job (end_state e)),
      (''toolchain'', dget r ''toolchain''), (''capabilities'', strs implemented_capabilities),
      (''message'', JObj [(''message_id'', JStr (mx_id L ''message'' (ftext r ''request_id''))), (''subject'', JNull), (''date_utc'', JNull),
         (''from'', JNull), (''to'', JList []), (''headers'', JObj [])]),
      (''findings'', JList []), (''attachments'', JList []), (''safe_html'', safe_html_json ''failed''), (''citations'', JList []),
      (''limitations'', strs [''Analysis stopped before message parsing.'']), (''reports'', JList []), (''artifacts'', JList []),
      (''provenance'', provenance_json r (JStr sha)),
      (''audit'', JObj [(''events'', JList [JObj [(''event_id'', event_id L r), (''event_type'', JStr ''mxray.email.failure''),
         (''at_utc'', JStr now), (''detail'', JStr (we_code e))]]), (''egress'', JStr ''none'')]),
      (''terminal_state'', JStr (end_state e)), (''failure'', failure_json r e)]"

section \<open>The worker\<close>

definition accepted :: "mw_lib \<Rightarrow> dict \<Rightarrow> attempt_error + dict" where
  "accepted L res = (case mx_validate_result (mx_lib.truncate L) (JObj res) of
     Inl e \<Rightarrow> Inl (Caught ''MXRayContractError'') | Inr v \<Rightarrow> Inr v)"

text \<open>The body of the \<^verbatim>\<open>try\<close> once the bytes are read and hashed.\<close>

definition examine :: "mw_lib \<Rightarrow> dict \<Rightarrow> string \<Rightarrow> string \<Rightarrow> string \<Rightarrow> attempt_error + dict" where
  "examine L r job now bytes =
     (let input = fsub r ''input''; kind = ftext input ''media_type'' in
      if lower (sha_of L bytes) \<noteq> lower (ftext input ''sha256'')
      then stopped ''INTEGRITY_MISMATCH'' ''staged input SHA-256 does not match request'' True
      else if int (length bytes) \<noteq> num L (dget input ''size_bytes'')
      then stopped ''INTEGRITY_MISMATCH'' ''staged input size does not match request'' True
      else if kind \<notin> {''eml'', ''mbox'', ''mbx''}
      then stopped ''PARSER_UNSUPPORTED'' ''local worker supports EML and mbox only'' False
      else r_bind (if kind = ''eml'' then Inr 1 else by_reader (mw_mbox L bytes)) (\<lambda>n.
           if n \<noteq> 1 then stopped ''PARSER_UNSUPPORTED'' ''multi-message mbox is fail-closed; submit one message at a time'' False
           else r_bind (by_reader (mw_parse L bytes)) (\<lambda>m.
                r_bind (mx_result L r job now m) (accepted L))))"

definition os_error_name :: "sys_error \<Rightarrow> string" where
  "os_error_name e = (case e of CodeError c m \<Rightarrow> c | OsError n \<Rightarrow> n | PyErr n \<Rightarrow> n)"

text \<open>The attempt with the digest known when it ends.\<close>

definition attempt :: "mw_lib \<Rightarrow> dict \<Rightarrow> path \<Rightarrow> string \<Rightarrow> string \<Rightarrow> fs \<Rightarrow> string \<times> (attempt_error + dict)" where
  "attempt L r p job now f =
     (let requested = ftext (fsub r ''input'') ''sha256'' in
      if is_symlink f p \<or> \<not> is_file (mw_os L) f p
      then (requested, stopped ''SOURCE_INVALID'' ''staged input must be a regular file'' True)
      else case read_file (mw_os L) p f of
        Inl e \<Rightarrow> (requested, Inl (Caught (os_error_name e)))
      | Inr bytes \<Rightarrow> (sha_of L bytes, examine L r job now bytes))"

datatype mx_error = Refused contract_error | Uncaught string

definition reported :: "mw_lib \<Rightarrow> dict \<Rightarrow> mx_error + dict" where
  "reported L d = (case mx_validate_result (mx_lib.truncate L) (JObj d) of Inl e \<Rightarrow> Inl (Refused e) | Inr v \<Rightarrow> Inr v)"

definition mx_process :: "mw_lib \<Rightarrow> json \<Rightarrow> path \<Rightarrow> string \<Rightarrow> string \<Rightarrow> fs \<Rightarrow> mx_error + dict" where
  "mx_process L v p job now f =
     (case mx_validate_request (mx_lib.truncate L) v of
        Inl e \<Rightarrow> Inl (Refused e)
      | Inr r \<Rightarrow>
          (case attempt L r p job now f of
             (sha, Inr res) \<Rightarrow> Inr res
           | (sha, Inl (Stop e)) \<Rightarrow> reported L (mx_failure L r job now sha e)
           | (sha, Inl (Caught n)) \<Rightarrow> reported L (mx_failure L r job now (ftext (fsub r ''input'') ''sha256'')
                (work_error ''PARSER_ERROR'' (''parser failed safely: '' @ n) True))
           | (sha, Inl (Escaped n)) \<Rightarrow> Inl (Uncaught n)))"

text \<open>\<^verbatim>\<open>LocalTransport.submit\<close>.\<close>

definition transport_submit :: "mw_lib \<Rightarrow> string \<Rightarrow> json \<Rightarrow> path \<Rightarrow> string \<Rightarrow> fs \<Rightarrow> mx_error + dict" where
  "transport_submit L job v p now f =
     r_bind (mx_process L v p job now f) (\<lambda>res.
       Inr [(''workflow_id'', JStr job), (''status'', dget res ''terminal_state''), (''result'', JObj res)])"

end
