(* ===== verification/Mxray_Facts.thy ===== *)
theory Mxray_Facts
  imports Mxray_Worker
begin

text \<open>
  Facts about the email worker: what an accepted request holds, that failure records pass the
  contract, what the walk over the attachments keeps, and how a result that succeeded came about.
\<close>

section \<open>Accepted requests\<close>

lemma field_ok:
  assumes "map_of ps k = Some s" "valid V s x" shows "fits (map (map_prod id (valid V)) ps) None (k, x)"
proof -
  have "map_of (map (map_prod id (valid V)) ps) k = Some (valid V s)"
    using assms(1) by (induction ps) (auto split: if_splits)
  with assms(2) show ?thesis by (simp add: fits_def)
qed

lemma dget_some: "map_of d k = Some x \<Longrightarrow> dget d k = x"
  by (simp add: dget_def)

lemma object_dget:
  assumes "valid V (s_object req ps) (JObj d)" "k \<in> set req" "map_of ps k = Some s"
  shows "valid V s (dget d k)"
  using object_field [OF assms] by (auto simp: dget_some)

lemma fsub_object: "valid V (s_object req ps) (dget d k) \<Longrightarrow> valid V (s_object req ps) (JObj (fsub d k))"
  by (auto simp: valid_s_object fsub_def)

text \<open>The fields of an accepted request that the worker reads.\<close>

lemma request_shape:
  assumes "valid V request_schema (JObj r)"
  shows "valid V s_id (dget r ''request_id'')" "valid V s_context (dget r ''context'')" "valid V s_input (dget r ''input'')"
    "valid V s_toolchain (dget r ''toolchain'')" "valid V s_limits (dget r ''limits'')"
    "valid V (s_object [''key'', ''scope''] [(''key'', s_key), (''scope'', s_text)]) (dget r ''idempotency'')"
  by (rule object_dget [OF assms [unfolded request_schema_def]]; simp add: request_keys_def)+

lemma context_shape:
  assumes "valid V request_schema (JObj r)" "k \<in> set context_fields"
  shows "valid V s_id (dget (fsub r ''context'') k)"
  by (rule object_dget [OF fsub_object [OF request_shape(2) [OF assms(1), unfolded s_context_def]] assms(2)])
    (use assms(2) in \<open>auto simp: context_fields_def\<close>)

lemma input_shape:
  assumes "valid V request_schema (JObj r)"
  shows "valid V s_sha (dget (fsub r ''input'') ''sha256'')"
  by (rule object_dget [OF fsub_object [OF request_shape(3) [OF assms, unfolded s_input_def]]]) simp_all

lemma key_shape:
  assumes "valid V request_schema (JObj r)"
  shows "valid V s_key (dget (fsub r ''idempotency'') ''key'')"
  by (rule object_dget [OF fsub_object [OF request_shape(6) [OF assms]]]) simp_all

lemma toolchain_shape:
  assumes "valid V request_schema (JObj r)" shows "valid V (s_type ''object'') (dget r ''toolchain'')"
  using request_shape(4) [OF assms] by (auto simp: s_toolchain_def valid_s_object schema_simps)

section \<open>Failure records pass the contract\<close>

text \<open>A closed object is checked key by key.\<close>

definition field_fits :: "schema_lib \<Rightarrow> (string \<times> schema) list \<Rightarrow> string \<Rightarrow> json \<Rightarrow> bool" where
  "field_fits V ps k x = (case map_of ps k of None \<Rightarrow> False | Some s \<Rightarrow> valid V s x)"

lemma field_fits_rec:
  "field_fits V ((k', s) # ps) k x = (if k = k' then valid V s x else field_fits V ps k x)"
  by (simp add: field_fits_def)

lemma object_ok:
  assumes "list_all (\<lambda>k. k \<in> set (map fst d)) req" "list_all (\<lambda>kx. field_fits V ps (fst kx) (snd kx)) d"
  shows "valid V (s_object req ps) (JObj d)"
proof -
  have "map_of (map (map_prod id (valid V)) ps) k = map_option (valid V) (map_of ps k)" for k by (induction ps) auto
  then have "list_all (fits (map (map_prod id (valid V)) ps) None) d"
    using assms(2) by (auto simp: list_all_iff field_fits_def fits_def split: option.splits)
  moreover have "list_all (has_key d) req"
    using assms(1) by (auto simp: list_all_iff has_key_def map_of_eq_None_iff)
  ultimately show ?thesis by (simp add: valid_s_object)
qed

lemma hex_alnum: "hex_digit c \<Longrightarrow> is_alnum c"
proof -
  have "list_all is_alpha ''abcdefABCDEF''" by code_simp
  then show "hex_digit c \<Longrightarrow> is_alnum c" unfolding list_all_iff hex_digit_def is_alnum_def by blast
qed

lemma mx_id_ok:
  assumes "sha_text (sha_of L v)" "mx_safe_id pre" "length pre \<le> 16"
  shows "valid V s_id (JStr (mx_id L pre v))"
proof -
  have t: "length (take 16 (sha_of L v)) = 16" "list_all hex_digit (take 16 (sha_of L v))"
    using assms(1) by (auto simp: sha_text_def list_all_iff dest: in_set_takeD)
  then have "list_all id_tail (take 16 (sha_of L v))"
    by (simp add: list_all_iff id_tail_def hex_alnum)
  moreover have "id_tail (CHR ''-'')" by code_simp
  moreover obtain c cs where "pre = c # cs" using assms(2) by (cases pre) (auto simp: mx_safe_id_def)
  ultimately have "mx_safe_id (mx_id L pre v)"
    using t(1) assms(2,3) by (simp add: mx_safe_id_def mx_id_def del: length_take)
  then show ?thesis by (simp add: s_id_def valid_s_match ends_def)
qed

lemma id_prefixes: "list_all (\<lambda>p. mx_safe_id p \<and> length p \<le> 16)
    [''message'', ''event'', ''finding'', ''attachment'', ''citation'', ''report'', ''manifest'']"
  by code_simp

text \<open>A value without unsafe keys at any depth.\<close>

definition clean_json :: "json \<Rightarrow> bool" where
  "clean_json v = (\<forall>k\<in>deep_keys v. \<not> unsafe_key k)"

text \<open>What the failure records need of the request and of the job they are filed under.\<close>

definition reportable :: "mw_lib \<Rightarrow> dict \<Rightarrow> string \<Rightarrow> string \<Rightarrow> bool" where
  "reportable L r job now = (valid (mx_schema L) request_schema (JObj r) \<and> clean_json (JObj r) \<and>
     ends mx_safe_id job \<and> sc_date_time (mx_schema L) now)"

lemma workflow_ok:
  assumes "ends mx_safe_id job" "st \<in> {''succeeded'', ''failed'', ''quarantined''}"
  shows "valid V s_workflow (workflow_json job st)"
  unfolding s_workflow_def workflow_json_def using assms
  by (intro object_ok; simp add: field_fits_rec worker_version_def s_id_def schema_simps)

lemma provenance_ok:
  assumes "valid V request_schema (JObj r)" "valid V s_sha sha"
  shows "valid V s_provenance (provenance_json r sha)"
  unfolding s_provenance_def provenance_json_def Let_def
  using assms(2) context_shape [OF assms(1)] key_shape [OF assms(1)]
  by (intro object_ok; simp add: field_fits_rec context_fields_def)

lemma failure_event_ok:
  assumes "\<And>t. sha_text (sha_of L t)" "sc_date_time V now"
  shows "valid V s_audit_event (JObj [(''event_id'', event_id L r), (''event_type'', JStr ''mxray.email.failure''),
     (''at_utc'', JStr now), (''detail'', JStr c)])"
  unfolding s_audit_event_def event_id_def using assms(2) mx_id_ok [OF assms(1), of "''event''" V] id_prefixes
  by (intro object_ok; simp add: field_fits_rec s_instant_def s_string_def schema_simps on_str_def)

lemma no_message_ok:
  assumes "\<And>t. sha_text (sha_of L t)"
  shows "valid V s_message (JObj [(''message_id'', JStr (mx_id L ''message'' t)), (''subject'', JNull), (''date_utc'', JNull),
         (''from'', JNull), (''to'', JList []), (''headers'', JObj [])])"
  unfolding s_message_def
  by (intro object_ok; simp add: field_fits_rec s_nullable_def schema_simps on_str_def mx_id_def on_obj_def)

lemma failure_json_ok:
  assumes "we_code e \<noteq> []" "we_message e \<noteq> []"
  shows "valid V s_failure (failure_json r e)"
  unfolding s_failure_def failure_json_def using assms
  by (intro object_ok; simp add: field_fits_rec schema_simps)

lemma safe_html_ok:
  assumes "st \<in> {''not_requested'', ''omitted'', ''failed''}"
  shows "valid V (s_object [''status'', ''artifact_id'']
        [(''status'', s_enum [''not_requested'', ''generated'', ''omitted'', ''failed'']), (''artifact_id'', s_nullable),
         (''sha256'', SAll [s_nullable, SPattern (ends sha_text)])]) (safe_html_json st)"
  unfolding safe_html_json_def using assms
  by (intro object_ok; simp add: field_fits_rec s_nullable_def schema_simps; blast)

lemma capabilities_ok: "valid V (s_set s_text) (strs implemented_capabilities)"
  by (auto simp: s_set_def strs_def implemented_capabilities_def schema_simps on_list_def)

lemma list_field_ok:
  "valid V (s_list s) (JList []) \<longleftrightarrow> True" "valid V (s_list s) (JList (x # xs)) \<longleftrightarrow> valid V s x \<and> valid V (s_list s) (JList xs)"
  by (auto simp: valid_s_list)

lemma end_state_cases: "end_state e \<in> {''failed'', ''quarantined''}"
  by (simp add: end_state_def)

text \<open>Each key of a failure record fits its schema.\<close>

lemma failure_fields_ok:
  assumes "reportable L r job now" "\<And>t. sha_text (sha_of L t)" "ends sha_text sha" "we_code e \<noteq> []" "we_message e \<noteq> []"
  shows "list_all (\<lambda>kx. field_fits (mx_schema L) result_fields (fst kx) (snd kx)) (mx_failure L r job now sha e)"
proof -
  let ?V = "mx_schema L"
  have q: "valid ?V request_schema (JObj r)" "ends mx_safe_id job" "sc_date_time ?V now" using assms(1) by (auto simp: reportable_def)
  have "valid ?V s_workflow (workflow_json job (end_state e))" by (rule workflow_ok [OF q(2)]) (use end_state_cases in auto)
  moreover have "valid ?V s_provenance (provenance_json r (JStr sha))"
    by (rule provenance_ok [OF q(1)]) (use assms(3) in \<open>simp add: s_sha_def valid_s_match\<close>)
  moreover note request_shape(1) [OF q(1)] toolchain_shape [OF q(1)] capabilities_ok [of ?V] no_message_ok [OF assms(2)]
    failure_event_ok [OF assms(2) q(3)] failure_json_ok [OF assms(4,5), of ?V r] safe_html_ok [of "''failed''" ?V]
  moreover have "valid ?V (s_enum [''succeeded'', ''failed'', ''quarantined'']) (JStr (end_state e))"
    using end_state_cases [of e] by (auto simp: valid_s_enum)
  moreover have "valid ?V (s_object [''events'', ''egress'']
        [(''events'', s_list s_audit_event), (''egress'', s_enum [''none'', ''allowlisted_external''])])
      (JObj [(''events'', JList [JObj [(''event_id'', event_id L r), (''event_type'', JStr ''mxray.email.failure''),
         (''at_utc'', JStr now), (''detail'', JStr (we_code e))]]), (''egress'', JStr ''none'')])"
    using failure_event_ok [OF assms(2) q(3)] by (intro object_ok; simp add: field_fits_rec list_field_ok valid_s_enum)
  moreover have "valid ?V (s_list s_text) (strs [''Analysis stopped before message parsing.''])"
    by (simp add: strs_def list_field_ok valid_s_text)
  ultimately show ?thesis
    by (simp add: mx_failure_def result_fields_def field_fits_rec list_field_ok contract_version_def)
qed

lemma clean_json_simps [simp]:
  "clean_json (JObj [])" "clean_json (JObj ((k, x) # d)) \<longleftrightarrow> \<not> unsafe_key k \<and> clean_json x \<and> clean_json (JObj d)"
  "clean_json (JList xs) \<longleftrightarrow> list_all clean_json xs"
  "clean_json (JStr s)" "clean_json (JInt i)" "clean_json (JBool b)" "clean_json JNull"
  by (auto simp: clean_json_def list_all_iff)

lemma clean_strs [simp]: "clean_json (strs ws)"
  by (simp add: strs_def list_all_iff)

lemma clean_dget:
  assumes "clean_json (JObj d)" shows "clean_json (dget d k)"
proof (cases "map_of d k")
  case (Some v)
  from UN_upper [OF map_of_SomeD [OF this], of "\<lambda>p. insert (fst p) (deep_keys (snd p))"]
  have "deep_keys v \<subseteq> deep_keys (JObj d)" by simp
  with assms show ?thesis by (auto simp: dget_def Some clean_json_def simp del: deep_keys.simps)
qed (simp add: dget_def)

lemma clean_fsub: "clean_json (JObj d) \<Longrightarrow> clean_json (JObj (fsub d k))"
  using clean_dget [of d k] by (cases "dget d k") (simp_all add: fsub_def)

lemmas clean_reads = clean_dget clean_dget [OF clean_fsub]

text \<open>Names in lower case are their own normal form, so they are screened without rewriting them.\<close>

definition name_chars :: string where "name_chars = ''abcdefghijklmnopqrstuvwxyz_0123456789''"

definition plain_names :: "string list \<Rightarrow> bool" where
  "plain_names ks = list_all (\<lambda>k. list_all (\<lambda>c. c \<in> set name_chars) k \<and> k \<notin> set raw_fields \<and> \<not> list_ex (\<lambda>w. contains w k) mx_secret_words) ks"

lemma name_chars_plain: "list_all (\<lambda>c. lower_char c = c \<and> c \<noteq> CHR ''-'') name_chars"
  by code_simp

lemma plain_names: "plain_names ks \<Longrightarrow> list_all (\<lambda>k. \<not> unsafe_key k) ks"
proof -
  have "normal_key k = k" if "list_all (\<lambda>c. c \<in> set name_chars) k" for k
    using that name_chars_plain by (simp add: normal_key_def replace_char_def lower_def list_all_iff map_idI)
  then show "plain_names ks \<Longrightarrow> list_all (\<lambda>k. \<not> unsafe_key k) ks"
    by (auto simp: plain_names_def list_all_iff unsafe_key_def raw_key_def mx_secret_key_def)
qed

lemma safe_key_names_1: "list_all (\<lambda>k. \<not> unsafe_key k) [''contract_version'', ''request_id'', ''workflow'', ''toolchain'', ''capabilities'',
    ''message'', ''findings'', ''attachments'', ''safe_html'', ''citations'']"
  by (rule plain_names) code_simp

lemma safe_key_names_2: "list_all (\<lambda>k. \<not> unsafe_key k) [''limitations'', ''reports'', ''artifacts'', ''provenance'', ''audit'',
    ''terminal_state'', ''tenant_id'', ''case_id'', ''evidence_id'', ''source_id'']"
  by (rule plain_names) code_simp

lemma safe_key_names_3: "list_all (\<lambda>k. \<not> unsafe_key k) [''workflow_id'', ''status'', ''worker_version'', ''message_id'', ''subject'',
    ''date_utc'', ''from'', ''to'', ''headers'', ''artifact_id'']"
  by (rule plain_names) code_simp

lemma safe_key_names_4: "list_all (\<lambda>k. \<not> unsafe_key k) [''source_sha256'', ''idempotency_key'', ''events'', ''egress'', ''event_id'',
    ''event_type'', ''at_utc'', ''detail'', ''failure'', ''code'', ''retryable'', ''quarantine_reference'']"
  by (rule plain_names) code_simp

lemmas safe_key_names = safe_key_names_1 [simplified list.pred_inject] safe_key_names_2 [simplified list.pred_inject]
  safe_key_names_3 [simplified list.pred_inject] safe_key_names_4 [simplified list.pred_inject]

lemma failure_clean:
  assumes "clean_json (JObj r)" shows "clean_json (JObj (mx_failure L r job now sha e))"
  using clean_reads [OF assms]
  by (simp add: mx_failure_def workflow_json_def provenance_json_def safe_html_json_def failure_json_def event_id_def
      safe_key_names Let_def)

lemma failure_is_accepted:
  assumes "reportable L r job now" "\<And>t. sha_text (sha_of L t)" "ends sha_text sha" "we_code e \<noteq> []" "we_message e \<noteq> []"
  shows "reported L (mx_failure L r job now sha e) = Inr (mx_failure L r job now sha e)"
proof -
  let ?d = "mx_failure L r job now sha e" and ?V = "mx_schema L"
  have "valid ?V (s_object result_keys result_fields) (JObj ?d)"
    by (rule object_ok [OF _ failure_fields_ok [OF assms]]) (simp add: mx_failure_def result_keys_def)
  moreover have f: "dget ?d ''failure'' = failure_json r e" "has_key ?d ''failure''" "dget ?d ''terminal_state'' = JStr (end_state e)"
    by (simp_all add: mx_failure_def dget_def has_key_def)
  moreover have q: "end_state e = ''quarantined'' \<Longrightarrow> on_obj (\<lambda>d. has_key d ''quarantine_reference'') (failure_json r e)"
    by (simp add: end_state_def failure_json_def on_obj_def has_key_def split: if_splits)
  moreover have "valid ?V (SIf (terminal_is [''quarantined'']) (SProps [(''failure'', SRequired [''quarantine_reference''])] (Some (SAll [])))) (JObj ?d)"
    using q by (simp add: terminal_is_def on_obj_def fits_def s_enum_def mx_failure_def)
  ultimately have "valid ?V result_schema (JObj ?d)"
    by (simp add: result_schema_def on_obj_def)
  moreover have "\<forall>k\<in>deep_keys (JObj ?d). \<not> unsafe_key k"
    using failure_clean [of r L job now sha e] assms(1) unfolding reportable_def clean_json_def by blast
  moreover have "end_state e = ''quarantined'' \<Longrightarrow> has_key (fsub ?d ''failure'') ''quarantine_reference''"
    using q f(1) by (simp add: fsub_def failure_json_def on_obj_def)
  ultimately have "mx_validate_result (mx_lib.truncate L) (JObj ?d) = Inr ?d"
    using f(3) by (simp add: mx_validate_result_iff mx_lib.truncate_def)
  then show ?thesis by (simp add: reported_def)
qed

section \<open>Every accepted request is answered\<close>

text \<open>The staged bytes are the announced ones.\<close>

definition as_announced :: "mw_lib \<Rightarrow> dict \<Rightarrow> string \<Rightarrow> bool" where
  "as_announced L r bytes = (lower (sha_of L bytes) = lower (ftext (fsub r ''input'') ''sha256'') \<and>
     int (length bytes) = num L (dget (fsub r ''input'') ''size_bytes''))"

text \<open>The exceptions the worker does not catch: on this one mail, its body and its attachments, no reader
  raises one of them.\<close>

definition soft_on :: "mw_lib \<Rightarrow> string \<Rightarrow> bool" where
  "soft_on L bytes = ((\<forall>n. mw_mbox L bytes \<noteq> Inl (Hard n) \<and> mw_parse L bytes \<noteq> Inl (Hard n)) \<and>
     (\<forall>m n. mw_parse L bytes = Inr m \<longrightarrow> (\<forall>k. em_body m \<noteq> Some (k, Inl (Hard n))) \<and>
        (\<forall>q\<in>set (em_parts m). mw_zip L (mp_payload q) \<noteq> Some (Inl (Hard n)))))"

text \<open>The same of the staged file, if it holds the announced bytes.\<close>

definition soft_staged :: "mw_lib \<Rightarrow> dict \<Rightarrow> path \<Rightarrow> fs \<Rightarrow> bool" where
  "soft_staged L r p f = (\<forall>bytes. read_file (mw_os L) p f = Inr bytes \<and> as_announced L r bytes \<longrightarrow> soft_on L bytes)"

text \<open>How an answer that is no analysis ends.\<close>

definition ended_with :: "dict \<Rightarrow> string \<Rightarrow> string \<Rightarrow> bool" where
  "ended_with res state code = (dget res ''terminal_state'' = JStr state \<and> dget (fsub res ''failure'') ''code'' = JStr code)"

lemma stopped_iff [simp]: "stopped c m q = Inl x \<longleftrightarrow> x = Stop (work_error c m q)" "stopped c m q \<noteq> Inr y"
  by (auto simp: stopped_def)

lemma work_error_fields [simp]: "we_code (work_error c m q) = c" "we_message (work_error c m q) = m"
  by (simp_all add: work_error_def)

lemma by_reader_Stop [simp]: "by_reader x \<noteq> Inl (Stop e)"
  by (auto simp: by_reader_def split: sum.splits raised.splits)

lemma by_reader_Inr [simp]: "by_reader x = Inr y \<longleftrightarrow> x = Inr y"
  by (auto simp: by_reader_def split: sum.splits raised.splits)

lemma by_reader_Escaped [simp]: "by_reader x = Inl (Escaped n) \<longleftrightarrow> x = Inl (Hard n)"
  by (auto simp: by_reader_def split: sum.splits raised.splits)

lemma safe_html_not_stopped [simp]: "safe_html L r m \<noteq> Inl (Stop e)"
  by (auto simp: safe_html_def wb_result split: option.splits if_splits)

lemma mx_validate_result_Inr: "mx_validate_result K v = Inr d \<Longrightarrow> v = JObj d"
  using mx_validate_result_iff [of K v d] by blast

lemma accepted_simps [simp]:
  "accepted L d \<noteq> Inl (Stop e)" "accepted L d \<noteq> Inl (Escaped n)"
  "accepted L d = Inr v \<longleftrightarrow> v = d \<and> mx_validate_result (mx_lib.truncate L) (JObj d) = Inr d"
  using mx_validate_result_Inr [of "mx_lib.truncate L" "JObj d"]
  by (auto simp: accepted_def simp del: deep_keys.simps split: sum.splits)

lemma mx_result_Stop: "mx_result L r job now m = Inl (Stop e) \<Longrightarrow> we_code e \<noteq> [] \<and> we_message e \<noteq> []"
  by (auto simp: mx_result_def wb_result Let_def split: sum.splits if_splits)

lemma examine_Stop: "examine L r job now b = Inl (Stop e) \<Longrightarrow> we_code e \<noteq> [] \<and> we_message e \<noteq> []"
  by (auto simp: examine_def wb_result Let_def dest: mx_result_Stop split: sum.splits if_splits)

lemma inspect_Inl: "inspect L r src name b = Inl n \<Longrightarrow> mw_zip L b = Some (Inl (Hard n))"
  by (auto simp: inspect_def split: option.splits sum.splits raised.splits if_splits)

lemma mx_walk_Inl: "mx_walk L r i ps w = Inl n \<Longrightarrow> \<exists>q\<in>set ps. mw_zip L (mp_payload q) = Some (Inl (Hard n))"
proof (induction ps arbitrary: i w)
  case (Cons p ps)
  then show ?case
    by (auto simp: wb_result Let_def dest: inspect_Inl Cons.IH split: option.splits list.splits if_splits)
qed simp

lemma mx_result_Escaped: "soft_on L b \<Longrightarrow> mw_parse L b = Inr m \<Longrightarrow> mx_result L r job now m \<noteq> Inl (Escaped n)"
  by (auto simp: mx_result_def safe_html_def soft_on_def wb_result Let_def
      dest!: mx_walk_Inl split: sum.splits if_splits option.splits)

lemma examine_Escaped: "(as_announced L r b \<Longrightarrow> soft_on L b) \<Longrightarrow> examine L r job now b \<noteq> Inl (Escaped n)"
  using mx_result_Escaped [of L b _ r job now n]
  by (auto simp: examine_def as_announced_def soft_on_def wb_result Let_def split: sum.splits if_splits)

lemma examine_Inr:
  "examine L r job now b = Inr res \<Longrightarrow> mx_validate_result (mx_lib.truncate L) (JObj res) = Inr res"
  by (auto simp: examine_def wb_result Let_def mx_validate_result_iff split: sum.splits if_splits)

lemma process_answers:
  assumes "mx_validate_request (mx_lib.truncate L) v = Inr r" "soft_staged L r p f" "ends mx_safe_id job"
    and "sc_date_time (mx_schema L) now" "\<And>t. sha_text (sha_of L t)"
  shows "\<exists>res. mx_process L v p job now f = Inr res \<and> mx_validate_result (mx_lib.truncate L) (JObj res) = Inr res"
proof -
  have V: "valid (mx_schema L) request_schema (JObj r)"
    using mx_validate_request_Inr(2) [OF assms(1)] by (simp add: mx_lib.truncate_def)
  have rep: "reportable L r job now"
    using V mx_validate_request_Inr(3) [OF assms(1)] assms(3,4) by (simp add: reportable_def clean_json_def)
  have req: "ends sha_text (ftext (fsub r ''input'') ''sha256'')"
    using input_shape [OF V] by (auto simp: s_sha_def valid_s_match ftext_def)
  have shas: "ends sha_text (sha_of L t)" for t using assms(5) by (simp add: ends_def)
  have fail: "\<exists>res. reported L (mx_failure L r job now sha e) = Inr res \<and> mx_validate_result (mx_lib.truncate L) (JObj res) = Inr res"
    if "ends sha_text sha" "we_code e \<noteq> []" "we_message e \<noteq> []" for sha e
    using failure_is_accepted [OF rep assms(5) that] by (auto simp: reported_def mx_validate_result_Inr split: sum.splits)
  obtain sha out where run: "attempt L r p job now f = (sha, out)" by (cases "attempt L r p job now f")
  then have sha: "ends sha_text sha" using req shas by (auto simp: attempt_def Let_def split: if_splits sum.splits)
  show ?thesis
  proof (cases out)
    case (Inr res)
    with run have "mx_validate_result (mx_lib.truncate L) (JObj res) = Inr res"
      by (auto simp: attempt_def Let_def dest: examine_Inr split: if_splits sum.splits)
    with Inr run assms(1) show ?thesis by (simp add: mx_process_def)
  next
    case (Inl x)
    show ?thesis
    proof (cases x)
      case (Stop e)
      with Inl run have "we_code e \<noteq> [] \<and> we_message e \<noteq> []"
        by (auto simp: attempt_def Let_def dest: examine_Stop split: if_splits sum.splits)
      with Stop Inl run assms(1) fail [OF sha] show ?thesis by (simp add: mx_process_def)
    next
      case (Caught n)
      with Inl run assms(1) fail [OF req, of "work_error ''PARSER_ERROR'' (''parser failed safely: '' @ n) True"]
      show ?thesis by (simp add: mx_process_def)
    next
      case (Escaped n)
      with Inl run show ?thesis
        using assms(2) examine_Escaped [of L r _ job now n]
        by (auto simp: attempt_def soft_staged_def Let_def stopped_def split: if_splits sum.splits)
    qed
  qed
qed

section \<open>Results that succeeded\<close>

lemma failure_not_succeeded: "dget (mx_failure L r job now sha e) ''terminal_state'' \<noteq> JStr ''succeeded''"
  by (simp add: mx_failure_def dget_def end_state_def)

lemma reported_valid: "reported L d = Inr res \<Longrightarrow> res = d \<and> mx_validate_result (mx_lib.truncate L) (JObj res) = Inr res"
  by (auto simp: reported_def dest: mx_validate_result_Inr split: sum.splits)

lemma reported_Inr: "reported L d = Inr res \<Longrightarrow> res = d"
  using reported_valid by blast

lemma mx_result_InrE:
  assumes "mx_result L r job now m = Inr res"
  obtains w i html lims reports where "mx_walk L r 0 (em_parts m) (start_walk L m) = Inr w"
    "int (length (wk_findings w)) \<le> limit L r ''max_findings''"
    "res = result_json L r job now m i (wk_findings w) (map (attachment_json L) (wk_attachments w)) html lims reports"
    "reports = [] \<or> (\<exists>t. reports = [artifact L ''report'' t (artifact_uri r ''report'')] \<and> int (length t) \<le> limit L r ''max_report_bytes'')"
proof -
  from assms obtain w html lims where w: "mx_walk L r 0 (em_parts m) (start_walk L m) = Inr w"
    "int (length (wk_findings w)) \<le> limit L r ''max_findings''" and h: "safe_html L r m = Inr (html, lims)"
    unfolding mx_result_def by (auto simp: r_bind_Inr_iff split: if_splits sum.splits)
  define t where "t = report_text L (message_id_of L r m) (wk_findings w) (map (attachment_json L) (wk_attachments w)) (wk_limitations w @ lims)"
  have res: "res = result_json L r job now m (message_id_of L r m) (wk_findings w) (map (attachment_json L) (wk_attachments w)) html
      (if int (length t) \<le> limit L r ''max_report_bytes'' then wk_limitations w @ lims
       else (wk_limitations w @ lims) @ [''Report exceeded configured report limit.''])
      (if int (length t) \<le> limit L r ''max_report_bytes'' then [artifact L ''report'' t (artifact_uri r ''report'')] else [])"
    using assms w h by (auto simp: mx_result_def Let_def t_def)
  show thesis by (rule that [OF w res]) auto
qed

lemma result_json_fields [simp]:
  "dget (result_json L r job now m i fs as html lims reports) ''attachments'' = JList as"
  "dget (result_json L r job now m i fs as html lims reports) ''findings'' = JList fs"
  "dget (result_json L r job now m i fs as html lims reports) ''reports'' = JList reports"
  "dget (result_json L r job now m i fs as html lims reports) ''provenance'' = provenance_json r (dget (fsub r ''input'') ''sha256'')"
  "dget (fsub (result_json L r job now m i fs as html lims reports) ''audit'') ''egress'' = JStr ''none''"
  by (simp_all add: result_json_def dget_def fsub_def)

lemma failure_ended [simp]: "ended_with (mx_failure L r job now sha e) state code \<longleftrightarrow> state = end_state e \<and> code = we_code e"
  by (auto simp: ended_with_def mx_failure_def failure_json_def dget_def fsub_def)

text \<open>What the answer is, by what the attempt came to.\<close>

lemma process_outcome:
  assumes "mx_validate_request (mx_lib.truncate L) v = Inr r" "mx_process L v p job now f = Inr res"
  shows "attempt L r p job now f = (sha, Inl (Stop e)) \<Longrightarrow> ended_with res (end_state e) (we_code e)"
    and "attempt L r p job now f = (sha, Inl (Caught n)) \<Longrightarrow> ended_with res ''quarantined'' ''PARSER_ERROR''"
    and "attempt L r p job now f = (sha, Inr d) \<Longrightarrow> res = d"
proof -
  show "ended_with res (end_state e) (we_code e)" if "attempt L r p job now f = (sha, Inl (Stop e))"
    using assms that reported_Inr [of L "mx_failure L r job now sha e" res] by (simp add: mx_process_def)
  show "ended_with res ''quarantined'' ''PARSER_ERROR''" if "attempt L r p job now f = (sha, Inl (Caught n))"
    using assms that by (auto simp: mx_process_def end_state_def work_error_def dest!: reported_Inr)
  show "res = d" if "attempt L r p job now f = (sha, Inr d)"
    using assms that by (simp add: mx_process_def)
qed

lemma process_succeeded:
  assumes "mx_process L v p job now f = Inr res" "dget res ''terminal_state'' = JStr ''succeeded''"
  obtains r bytes m where "mx_validate_request (mx_lib.truncate L) v = Inr r" "\<not> is_symlink f p" "is_file (mw_os L) f p"
    "read_file (mw_os L) p f = Inr bytes" "examine L r job now bytes = Inr res"
    "mw_parse L bytes = Inr m" "mx_result L r job now m = Inr res"
proof -
  obtain r where r: "mx_validate_request (mx_lib.truncate L) v = Inr r"
    using assms(1) by (auto simp: mx_process_def split: sum.splits)
  obtain sha out where run: "attempt L r p job now f = (sha, out)" by (cases "attempt L r p job now f")
  have "out = Inr res"
    using assms r run by (auto simp: mx_process_def failure_not_succeeded dest!: reported_Inr split: sum.splits attempt_error.splits)
  with run obtain bytes where b: "\<not> is_symlink f p" "is_file (mw_os L) f p" "read_file (mw_os L) p f = Inr bytes" "examine L r job now bytes = Inr res"
    by (auto simp: attempt_def Let_def split: if_splits sum.splits)
  then obtain m where "mw_parse L bytes = Inr m" "mx_result L r job now m = Inr res"
    by (auto simp: examine_def wb_result Let_def split: if_splits)
  with that r b show ?thesis by blast
qed

section \<open>Bounds\<close>

definition analyzed :: "attachment \<Rightarrow> bool" where
  "analyzed a = (at_status a = ''analyzed'')"

definition bytes_of :: "attachment \<Rightarrow> int" where "bytes_of a = int (length (at_payload a))"

text \<open>An analyzed attachment is within its limit, and an archive among them was readable, has only relative
  member names without dot-dots, no links, and no more members than allowed.\<close>

definition attachment_ok :: "mw_lib \<Rightarrow> dict \<Rightarrow> attachment \<Rightarrow> bool" where
  "attachment_ok L r a = (analyzed a \<longrightarrow> bytes_of a \<le> limit L r ''max_attachment_bytes'' \<and>
     (case mw_zip L (at_payload a) of
        None \<Rightarrow> True
      | Some (Inl x) \<Rightarrow> False
      | Some (Inr members) \<Rightarrow> int (length members) \<le> limit L r ''max_archive_members'' \<and>
          list_all (\<lambda>z. safe_archive_name (zi_name z) \<and> \<not> is_link (zi_attr z)) members))"

definition analyzed_bytes :: "attachment list \<Rightarrow> int" where
  "analyzed_bytes ws = sum_list (map bytes_of (filter analyzed ws))"

lemma analyzed_bytes_append [simp]: "analyzed_bytes (ws @ [a]) = analyzed_bytes ws + (if analyzed a then bytes_of a else 0)"
  by (simp add: analyzed_bytes_def)

definition walked_ok :: "mw_lib \<Rightarrow> dict \<Rightarrow> walked \<Rightarrow> bool" where
  "walked_ok L r w = (list_all (attachment_ok L r) (wk_attachments w) \<and> analyzed_bytes (wk_attachments w) \<le> wk_total w \<and>
     analyzed_bytes (wk_attachments w) \<le> limit L r ''max_total_attachment_bytes'')"

lemma inspect_ok:
  assumes "inspect L r src name b = Inr (s, lims, fs)" "int (length b) \<le> limit L r ''max_attachment_bytes''"
  shows "attachment_ok L r \<lparr>at_source = src, at_filename = name, at_type = t, at_payload = b, at_status = s\<rparr>"
  using assms unfolding attachment_ok_def analyzed_def bytes_of_def inspect_def
  by (auto simp: list_ex_iff list_all_iff split: option.splits sum.splits raised.splits if_splits)

lemma rejected_ok [simp]: "at_status a = ''rejected'' \<Longrightarrow> attachment_ok L r a" "at_status a = ''rejected'' \<Longrightarrow> \<not> analyzed a"
  by (simp_all add: attachment_ok_def analyzed_def)

lemma mx_walk_ok: "walked_ok L r w \<Longrightarrow> mx_walk L r i ps w = Inr w' \<Longrightarrow> walked_ok L r w'"
proof (induction ps arbitrary: i w)
  case (Cons p ps)
  show ?case
  proof (cases "mp_filename p = None \<or> mp_filename p = Some []")
    case True
    with Cons.prems Cons.IH [of w "Suc i"] show ?thesis by auto
  next
    case False
    then obtain c cs where fn: "mp_filename p = Some (c # cs)" by (cases "mp_filename p") (auto simp: neq_Nil_conv)
    define b src at w2 where "b = mp_payload p" and "src = ''attachment:'' @ dec_nat i @ '':'' @ c # cs"
      and "at = (\<lambda>s. \<lparr>at_source = src, at_filename = c # cs, at_type = media_type L p (c # cs), at_payload = b, at_status = s\<rparr>)"
      and "w2 = (\<lambda>s lims fs. \<lparr>wk_total = wk_total w + int (length b), wk_attachments = wk_attachments w @ [at s],
                wk_limitations = wk_limitations w @ lims, wk_findings = wk_findings w @ fs\<rparr>)"
    define over where "over = (limit L r ''max_attachment_bytes'' < int (length b) \<or> limit L r ''max_total_attachment_bytes'' < wk_total w + int (length b))"
    from Cons.prems(2) fn obtain s lims fs where
      s: "(if over then Inr (''rejected'', [''Attachment limit exceeded for '' @ (c # cs) @ ''.''], []) else inspect L r src (c # cs) b) = Inr (s, lims, fs)"
      and rest: "mx_walk L r (Suc i) ps (w2 s lims fs) = Inr w'"
      unfolding b_def src_def at_def w2_def over_def mx_walk.simps fn Let_def by (auto simp: r_bind_Inr_iff)
    have "attachment_ok L r (at s)"
      using s unfolding at_def by (cases over) (auto simp: over_def intro: inspect_ok)
    moreover have "analyzed (at s) \<Longrightarrow> \<not> over" using s by (auto simp: analyzed_def at_def)
    ultimately have "walked_ok L r (w2 s lims fs)"
      using Cons.prems(1) by (auto simp: walked_ok_def w2_def at_def bytes_of_def over_def)
    with rest Cons.IH show ?thesis by blast
  qed
qed simp

lemma limit_positive:
  assumes "valid (mx_schema L) request_schema (JObj r)" "k \<in> set limit_names"
  shows "1 \<le> limit L r k"
proof -
  have "valid (mx_schema L) (s_count 1) (dget (fsub r ''limits'') k)"
    by (rule object_dget [OF fsub_object [OF request_shape(5) [OF assms(1), unfolded s_limits_def]] assms(2)])
      (use assms(2) in \<open>auto simp: limit_names_def\<close>)
  then show ?thesis
    by (auto simp: s_count_def s_type_def valid_integer at_least_def limit_def num_def split: option.splits)
qed

section \<open>What a result discloses\<close>

lemma process_discloses:
  assumes "mx_process L (JObj r) p job now f = Inr res"
  shows "(\<forall>k\<in>deep_keys (JObj res). \<not> unsafe_key k) \<and> dget (fsub res ''audit'') ''egress'' = JStr ''none'' \<and>
    (\<exists>sha. dget res ''provenance'' = provenance_json r sha)"
    "mx_validate_result (mx_lib.truncate L) (JObj res) = Inr res"
proof -
  obtain r' where v: "mx_validate_request (mx_lib.truncate L) (JObj r) = Inr r'"
    using assms by (auto simp: mx_process_def split: sum.splits)
  then have r: "r' = r" using mx_validate_request_Inr(1) [OF v] by simp
  let ?good = "\<lambda>d. dget (fsub d ''audit'') ''egress'' = JStr ''none'' \<and> (\<exists>sha. dget d ''provenance'' = provenance_json r sha)"
  have bad: "?good (mx_failure L r job now sha e)" for sha e
    by (auto simp: mx_failure_def dget_def fsub_def)
  have ok: "?good d" if "mx_result L r job now m = Inr d" for m d
    using that by (elim mx_result_InrE) auto
  have "?good res \<and> mx_validate_result (mx_lib.truncate L) (JObj res) = Inr res"
  proof (cases "dget res ''terminal_state'' = JStr ''succeeded''")
    case True
    obtain r2 bytes m where "mx_validate_request (mx_lib.truncate L) (JObj r) = Inr r2" "examine L r2 job now bytes = Inr res"
      "mx_result L r2 job now m = Inr res" using process_succeeded [OF assms True] by metis
    then show ?thesis using ok v r examine_Inr by fastforce
  next
    case False
    obtain sha out where run: "attempt L r p job now f = (sha, out)" by (cases "attempt L r p job now f")
    show ?thesis
    proof (cases out)
      case (Inr d)
      with run obtain b where "examine L r job now b = Inr d" by (auto simp: attempt_def Let_def split: if_splits sum.splits)
      moreover then obtain m where "mx_result L r job now m = Inr d" by (auto simp: examine_def wb_result Let_def split: if_splits)
      moreover have "d = res" using assms v r run Inr by (simp add: mx_process_def)
      ultimately show ?thesis using ok examine_Inr by blast
    next
      case (Inl x)
      with assms v r run obtain s e where "reported L (mx_failure L r job now s e) = Inr res"
        by (cases x) (auto simp: mx_process_def)
      with bad reported_valid show ?thesis by blast
    qed
  qed
  then show "mx_validate_result (mx_lib.truncate L) (JObj res) = Inr res"
    "(\<forall>k\<in>deep_keys (JObj res). \<not> unsafe_key k) \<and> dget (fsub res ''audit'') ''egress'' = JStr ''none'' \<and>
    (\<exists>sha. dget res ''provenance'' = provenance_json r sha)"
    by (auto simp: mx_validate_result_iff)
qed

end
