(* ===== verification/Mxray_Correct.thy ===== *)
theory Mxray_Correct
  imports Mxray_Facts Fixtures
begin

text \<open>
  The properties of the email worker: that an accepted request is always answered with a record
  that passes the contract, which bytes a result may speak of, its bounds, and what it may name;
  with a concrete mail, its request and its analysis, to which they apply.
\<close>

definition mail_parsed :: email where
  "mail_parsed = \<lparr>em_headers = [(''Subject'', ''x'')],
     em_parts = [\<lparr>mp_filename = Some ''a'', mp_payload = ''yy'', mp_type = ''text/plain''\<rparr>], em_body = None\<rparr>"

definition mail_lib :: mw_lib where
  "mail_lib = \<lparr>mx_host = \<lparr>sha_hex = (\<lambda>s. replicate 64 CHR ''0''), sha_b64 = (\<lambda>s. replicate 43 CHR ''A''), dumps_ascii = json_text,
       iso_parse = (\<lambda>s. IsoInvalid), env_schema = (\<lambda>d. True), entity_schema = (\<lambda>d. True)\<rparr>,
     mx_schema = \<lparr>sc_integral = (\<lambda>r. None), sc_date_time = (\<lambda>s. True)\<rparr>,
     mw_os = demo_os, mw_parse = (\<lambda>b. Inr mail_parsed), mw_mbox = (\<lambda>b. Inr 1), mw_date = (\<lambda>s. None),
     mw_addresses = (\<lambda>s. []), mw_guess = (\<lambda>s. None), mw_dumps = (\<lambda>j. ''{}''), mw_zip = (\<lambda>b. None)\<rparr>"

definition mail_request :: dict where
  "mail_request = [(''contract_version'', JStr ''1.0.0''), (''request_id'', JStr ''r''), (''submitted_at_utc'', JStr ''t''),
     (''context'', JObj [(''tenant_id'', JStr ''t''), (''case_id'', JStr ''c''), (''evidence_id'', JStr ''e''), (''source_id'', JStr ''s'')]),
     (''input'', JObj [(''media_type'', JStr ''eml''), (''sha256'', JStr (replicate 64 CHR ''0'')), (''size_bytes'', JInt 4),
        (''staged_uri'', JStr ''u''), (''read_only'', JBool True)]),
     (''toolchain'', JObj [(''worker_version'', JStr ''1''), (''mxray_version'', JStr ''1''), (''parser_versions'', JObj [(''email'', JStr ''1'')])]),
     (''policies'', JObj [(''analysis'', JObj [(''capabilities'', JList []), (''policy_id'', JStr ''p''), (''version'', JStr ''1.0.0'')]),
        (''enrichment'', JObj [(''enabled'', JBool False), (''network_egress'', JStr ''disabled''), (''providers'', JList []),
           (''approval_required'', JBool True)])]),
     (''limits'', JObj [(''max_attachment_bytes'', JInt 9), (''max_total_attachment_bytes'', JInt 9), (''max_archive_members'', JInt 9),
        (''max_html_bytes'', JInt 9), (''max_findings'', JInt 9), (''max_report_bytes'', JInt 9)]),
     (''idempotency'', JObj [(''key'', JStr (''v1:'' @ replicate 43 CHR ''A'')), (''scope'', JStr ''s'')]),
     (''audit'', JObj [(''correlation_id'', JStr ''c''), (''requested_by'', JStr ''a''), (''event_type'', JStr ''mxray.email.analyze'')])]"

definition mail_disk :: fs where
  "mail_disk = [([], Dir 493), ([''m''], File ''mail'' 420)]"

definition mail_run :: "mx_error + dict" where
  "mail_run = mx_process mail_lib (JObj mail_request) [''m''] ''job'' ''now'' mail_disk"

lemma mail_schemas: "valid (mx_schema mail_lib) request_schema (JObj mail_request)"
  by code_simp

lemma more_safe_names: "list_all (\<lambda>k. \<not> unsafe_key k) [''submitted_at_utc'', ''context'', ''input'', ''policies'', ''limits'', ''idempotency'',
    ''media_type'', ''sha256'', ''size_bytes'', ''staged_uri'', ''read_only'', ''mxray_version'', ''parser_versions'', ''email'']"
  by (rule plain_names) code_simp

lemma policy_safe_names: "list_all (\<lambda>k. \<not> unsafe_key k) [''analysis'', ''policy_id'', ''version'', ''enrichment'', ''enabled'',
    ''network_egress'', ''providers'', ''approval_required'', ''key'', ''scope'', ''correlation_id'', ''requested_by'']"
  by (rule plain_names) code_simp

lemma limit_safe_names: "list_all (\<lambda>k. \<not> unsafe_key k) [''max_attachment_bytes'', ''max_total_attachment_bytes'', ''max_archive_members'',
    ''max_html_bytes'', ''max_findings'', ''max_report_bytes'', ''citation_id'', ''kind'', ''attachment_id'', ''artifact_type'', ''metadata_uri'', ''cc'', ''decision'']"
  by (rule plain_names) code_simp

lemma subject_safe: "\<not> unsafe_key ''Subject''"
  by code_simp

lemmas all_safe_names = subject_safe safe_key_names more_safe_names [simplified list.pred_inject] policy_safe_names [simplified list.pred_inject]
  limit_safe_names [simplified list.pred_inject]

lemma mail_request_clean: "clean_json (JObj mail_request)"
  by (simp add: mail_request_def all_safe_names)

lemma mail_identified: "r_map (unsafe_id (fsub mail_request ''context'')) context_fields = Inr [(), (), (), ()]"
  by code_simp

lemma mail_key: "expected_key (mx_lib.truncate mail_lib) mail_request = Inr (''v1:'' @ replicate 43 CHR ''A'')"
  by code_simp

lemma mail_enrichment: "dget (fsub (fsub mail_request ''policies'') ''enrichment'') ''enabled'' = JBool False"
  "dget (fsub mail_request ''idempotency'') ''key'' = JStr (''v1:'' @ replicate 43 CHR ''A'')"
  by (simp_all add: mail_request_def fsub_def dget_def)

lemma mail_request_ok: "mx_validate_request (mx_lib.truncate mail_lib) (JObj mail_request) = Inr mail_request"
proof -
  have "reject_unsafe (JObj mail_request) ''contract'' = Inr ()"
    using mail_request_clean unfolding reject_unsafe_iff clean_json_def .
  moreover have "validated (mx_lib.truncate mail_lib) request_schema n (JObj mail_request) = Inr mail_request" for n
    using mail_schemas by (simp add: validated_Inr mx_lib.truncate_def)
  ultimately show ?thesis
    by (simp add: mx_validate_request_def mail_identified mail_key mail_enrichment Let_def)
qed

definition mail_attachment :: attachment where
  "mail_attachment = \<lparr>at_source = ''attachment:0:a'', at_filename = ''a'', at_type = ''text/plain'', at_payload = ''yy'', at_status = ''analyzed''\<rparr>"

definition mail_limitations :: "string list" where
  "mail_limitations = [''MXRay core is local stdlib parsing; external enrichment is disabled.'']"

definition mail_result :: dict where
  "mail_result = result_json mail_lib mail_request ''job'' ''now'' mail_parsed ''message-0000000000000000'' []
      [attachment_json mail_lib mail_attachment] ''not_requested'' mail_limitations
      [artifact mail_lib ''report'' ''{}'' (artifact_uri mail_request ''report'')]"

lemma mail_walk: "mx_walk mail_lib mail_request 0 (em_parts mail_parsed) (start_walk mail_lib mail_parsed) =
    Inr \<lparr>wk_total = 2, wk_attachments = [mail_attachment], wk_limitations = mail_limitations, wk_findings = []\<rparr>"
  by code_simp

lemma mail_parts: "limit mail_lib mail_request ''max_findings'' = 9" "limit mail_lib mail_request ''max_report_bytes'' = 9"
  "safe_html mail_lib mail_request mail_parsed = Inr (''not_requested'', [])"
  "message_id_of mail_lib mail_request mail_parsed = ''message-0000000000000000''"
  by code_simp+

lemma mail_result_ok: "mx_result mail_lib mail_request ''job'' ''now'' mail_parsed = Inr mail_result"
  "dget mail_result ''terminal_state'' = JStr ''succeeded''"
proof -
  have "report_text mail_lib i fs as ls = ''{}''" for i fs as ls by (simp add: report_text_def mail_lib_def)
  then show "mx_result mail_lib mail_request ''job'' ''now'' mail_parsed = Inr mail_result"
    by (simp add: mx_result_def mail_walk mail_parts mail_result_def Let_def)
  show "dget mail_result ''terminal_state'' = JStr ''succeeded''" by (simp add: mail_result_def result_json_def dget_def)
qed

lemma mail_result_valid: "valid (mx_schema mail_lib) result_schema (JObj mail_result)"
  by code_simp

lemma clean_leaves:
  "clean_json (hd_json h)" "clean_json (mw_utc L h)" "clean_json (artifact L k t u)" "clean_json (attachment_json L a)"
  "list_all clean_json (citations L m)"
  by (auto simp: hd_json_def mw_utc_def artifact_def attachment_json_def citations_def citation_def list_all_iff all_safe_names split: option.splits)

lemma clean_result:
  assumes "clean_json (JObj r)" "clean_json (JObj (safe_headers m))" "list_all clean_json (fs @ as @ reports)"
  shows "clean_json (JObj (result_json L r job now m i fs as html lims reports))"
  using clean_reads [OF assms(1)] assms(2,3)
  by (simp add: result_json_def workflow_json_def provenance_json_def safe_html_json_def event_id_def message_json_def
      analyze_event_def clean_leaves all_safe_names Let_def split: list.splits)

lemma mail_result_clean: "clean_json (JObj mail_result)"
  unfolding mail_result_def
  by (rule clean_result [OF mail_request_clean]) (simp_all add: clean_leaves safe_headers_def mail_parsed_def all_safe_names)

lemma mail_run_ok: "mail_run = Inr mail_result"
proof -
  have "accepted mail_lib mail_result = Inr mail_result"
    using mail_result_valid mail_result_ok(2) mail_result_clean by (simp add: mx_validate_result_iff mx_lib.truncate_def clean_json_def del: deep_keys.simps)
  moreover have "lower (sha_of mail_lib ''mail'') = lower (ftext (fsub mail_request ''input'') ''sha256'')"
    "num mail_lib (dget (fsub mail_request ''input'') ''size_bytes'') = 4" "ftext (fsub mail_request ''input'') ''media_type'' = ''eml''"
    by code_simp+
  moreover have "mw_parse mail_lib ''mail'' = Inr mail_parsed" by (simp add: mail_lib_def)
  ultimately have "examine mail_lib mail_request ''job'' ''now'' ''mail'' = Inr mail_result"
    by (simp add: examine_def mail_result_ok(1) by_reader_def)
  moreover have "\<not> is_symlink mail_disk [''m'']" "is_file (mw_os mail_lib) mail_disk [''m'']"
    "read_file (mw_os mail_lib) [''m''] mail_disk = Inr ''mail''"
    by code_simp+
  ultimately show ?thesis
    by (simp add: mail_run_def mx_process_def mail_request_ok attempt_def)
qed

section \<open>The properties\<close>

text \<open>What the answer to a readable staged file must be: not the announced digest or size, a kind of mail the
  worker does not read, several mails in one mailbox, a mail no reader understands, more findings than
  allowed and an analysis the contract refuses each have their failure; any other analysis is itself
  the answer.\<close>

definition kind_of :: "dict \<Rightarrow> string" where
  "kind_of r = ftext (fsub r ''input'') ''media_type''"

definition single_mail :: "mw_lib \<Rightarrow> dict \<Rightarrow> string \<Rightarrow> bool" where
  "single_mail L r bytes = (kind_of r = ''eml'' \<or> kind_of r \<in> {''mbox'', ''mbx''} \<and> mw_mbox L bytes = Inr 1)"

definition answers_bytes :: "mw_lib \<Rightarrow> dict \<Rightarrow> string \<Rightarrow> string \<Rightarrow> string \<Rightarrow> dict \<Rightarrow> bool" where
  "answers_bytes L r job now bytes res =
     ((\<not> as_announced L r bytes \<longrightarrow> ended_with res ''quarantined'' ''INTEGRITY_MISMATCH'') \<and>
      (as_announced L r bytes \<longrightarrow>
         (kind_of r \<notin> {''eml'', ''mbox'', ''mbx''} \<longrightarrow> ended_with res ''failed'' ''PARSER_UNSUPPORTED'') \<and>
         (\<forall>n. kind_of r \<in> {''mbox'', ''mbx''} \<and> mw_mbox L bytes = Inr n \<and> n \<noteq> 1 \<longrightarrow> ended_with res ''failed'' ''PARSER_UNSUPPORTED'') \<and>
         (\<forall>e. kind_of r \<in> {''mbox'', ''mbx''} \<and> mw_mbox L bytes = Inl e \<longrightarrow> ended_with res ''quarantined'' ''PARSER_ERROR'') \<and>
         (\<forall>e. single_mail L r bytes \<and> mw_parse L bytes = Inl e \<longrightarrow> ended_with res ''quarantined'' ''PARSER_ERROR'') \<and>
         (\<forall>m w. single_mail L r bytes \<and> mw_parse L bytes = Inr m \<and> mx_walk L r 0 (em_parts m) (start_walk L m) = Inr w \<and>
            limit L r ''max_findings'' < int (length (wk_findings w)) \<longrightarrow> ended_with res ''quarantined'' ''FINDING_LIMIT_EXCEEDED'') \<and>
         (\<forall>m d. single_mail L r bytes \<and> mw_parse L bytes = Inr m \<and> mx_result L r job now m = Inr d \<longrightarrow>
            (if mx_validate_result (mx_lib.truncate L) (JObj d) = Inr d then res = d
             else ended_with res ''quarantined'' ''PARSER_ERROR''))))"

lemma examine_mismatch:
  "\<not> as_announced L r bytes \<Longrightarrow> \<exists>m. examine L r job now bytes = stopped ''INTEGRITY_MISMATCH'' m True"
  by (auto simp: examine_def as_announced_def Let_def)

lemma examine_announced:
  assumes "as_announced L r bytes"
  shows "kind_of r \<notin> {''eml'', ''mbox'', ''mbx''} \<Longrightarrow> \<exists>m. examine L r job now bytes = stopped ''PARSER_UNSUPPORTED'' m False"
    and "kind_of r \<in> {''mbox'', ''mbx''} \<Longrightarrow> mw_mbox L bytes = Inr n \<Longrightarrow> n \<noteq> 1 \<Longrightarrow>
      \<exists>m. examine L r job now bytes = stopped ''PARSER_UNSUPPORTED'' m False"
    and "kind_of r \<in> {''mbox'', ''mbx''} \<Longrightarrow> mw_mbox L bytes = Inl e \<Longrightarrow> examine L r job now bytes = by_reader (Inl e)"
    and "single_mail L r bytes \<Longrightarrow> examine L r job now bytes =
      r_bind (by_reader (mw_parse L bytes)) (\<lambda>m. r_bind (mx_result L r job now m) (accepted L))"
proof -
  have b: "by_reader (Inr (Suc 0)) = Inr (Suc 0)" by (simp add: by_reader_def)
  note simps = examine_def as_announced_def kind_of_def Let_def single_mail_def b
  show "kind_of r \<notin> {''eml'', ''mbox'', ''mbx''} \<Longrightarrow> \<exists>m. examine L r job now bytes = stopped ''PARSER_UNSUPPORTED'' m False"
    using assms by (auto simp: simps)
  show "\<exists>m. examine L r job now bytes = stopped ''PARSER_UNSUPPORTED'' m False"
    if "kind_of r \<in> {''mbox'', ''mbx''}" "mw_mbox L bytes = Inr n" "n \<noteq> 1"
    using assms that by (auto simp: simps by_reader_def)
  show "examine L r job now bytes = by_reader (Inl e)" if "kind_of r \<in> {''mbox'', ''mbx''}" "mw_mbox L bytes = Inl e"
    using assms that by (auto simp: simps by_reader_def split: raised.splits)
  show "examine L r job now bytes = r_bind (by_reader (mw_parse L bytes)) (\<lambda>m. r_bind (mx_result L r job now m) (accepted L))"
    if "single_mail L r bytes" using assms that by (auto simp: simps)
qed

lemma process_of_bytes:
  assumes "mx_validate_request (mx_lib.truncate L) v = Inr r" "mx_process L v p job now f = Inr res"
    and "\<not> is_symlink f p" "is_file (mw_os L) f p" "read_file (mw_os L) p f = Inr bytes"
  shows "examine L r job now bytes = stopped c m q \<Longrightarrow> ended_with res (if q then ''quarantined'' else ''failed'') c"
    and "examine L r job now bytes = Inl (Caught n) \<Longrightarrow> ended_with res ''quarantined'' ''PARSER_ERROR''"
    and "examine L r job now bytes = Inr d \<Longrightarrow> res = d"
    and "examine L r job now bytes = by_reader (Inl e) \<Longrightarrow> ended_with res ''quarantined'' ''PARSER_ERROR''"
proof -
  have run: "attempt L r p job now f = (sha_of L bytes, examine L r job now bytes)" using assms(3-5) by (simp add: attempt_def Let_def)
  show "ended_with res (if q then ''quarantined'' else ''failed'') c" if "examine L r job now bytes = stopped c m q"
    using process_outcome(1) [OF assms(1,2) run [unfolded that stopped_def]] by (simp add: end_state_def work_error_def)
  show caught: "ended_with res ''quarantined'' ''PARSER_ERROR''" if "examine L r job now bytes = Inl (Caught n)" for n
    by (rule process_outcome(2) [OF assms(1,2) run [unfolded that]])
  show "res = d" if "examine L r job now bytes = Inr d"
    by (rule process_outcome(3) [OF assms(1,2) run [unfolded that]])
  show "ended_with res ''quarantined'' ''PARSER_ERROR''" if e: "examine L r job now bytes = by_reader (Inl e)"
  proof (cases e)
    case (Soft k)
    then show ?thesis using e caught by (simp add: by_reader_def)
  next
    case (Hard k)
    then show ?thesis using e assms(1,2) run by (simp add: mx_process_def by_reader_def)
  qed
qed

lemma process_answers_bytes:
  assumes "mx_validate_request (mx_lib.truncate L) v = Inr r" "mx_process L v p job now f = Inr res"
    and "\<not> is_symlink f p" "is_file (mw_os L) f p" "read_file (mw_os L) p f = Inr bytes"
  shows "answers_bytes L r job now bytes res"
proof -
  note outcome = process_of_bytes [OF assms]
  have parsed: "examine L r job now bytes = r_bind (mx_result L r job now m) (accepted L)"
    if "as_announced L r bytes" "single_mail L r bytes" "mw_parse L bytes = Inr m" for m
    using examine_announced(4) [OF that(1,2), of job now] that(3) by (simp add: by_reader_def)
  have limits: "ended_with res ''quarantined'' ''FINDING_LIMIT_EXCEEDED''"
    if "as_announced L r bytes" "single_mail L r bytes" "mw_parse L bytes = Inr m"
      "mx_walk L r 0 (em_parts m) (start_walk L m) = Inr w" "limit L r ''max_findings'' < int (length (wk_findings w))" for m w
    using outcome(1) [of "''FINDING_LIMIT_EXCEEDED''" "''finding limit exceeded''" True] parsed [OF that(1-3)] that(4,5)
    by (simp add: mx_result_def stopped_def)
  have analysed: "if mx_validate_result (mx_lib.truncate L) (JObj d) = Inr d then res = d else ended_with res ''quarantined'' ''PARSER_ERROR''"
    if "as_announced L r bytes" "single_mail L r bytes" "mw_parse L bytes = Inr m" "mx_result L r job now m = Inr d" for m d
    using outcome(2) [of "''MXRayContractError''"] outcome(3) [of d] parsed [OF that(1-3)] that(4)
      mx_validate_result_Inr [of "mx_lib.truncate L" "JObj d"] by (auto simp: accepted_def split: sum.splits)
  have mismatch: "ended_with res ''quarantined'' ''INTEGRITY_MISMATCH''" if "\<not> as_announced L r bytes"
    using examine_mismatch [OF that] outcome(1) by fastforce
  have kind: "ended_with res ''failed'' ''PARSER_UNSUPPORTED''" if "as_announced L r bytes" "kind_of r \<notin> {''eml'', ''mbox'', ''mbx''}"
    using examine_announced(1) [OF that] outcome(1) by fastforce
  have several: "ended_with res ''failed'' ''PARSER_UNSUPPORTED''"
    if "as_announced L r bytes" "kind_of r \<in> {''mbox'', ''mbx''}" "mw_mbox L bytes = Inr n" "n \<noteq> 1" for n
    using examine_announced(2) [OF that] outcome(1) by fastforce
  have mailbox: "ended_with res ''quarantined'' ''PARSER_ERROR''"
    if "as_announced L r bytes" "kind_of r \<in> {''mbox'', ''mbx''}" "mw_mbox L bytes = Inl e" for e
    using examine_announced(3) [OF that] outcome(4) by blast
  have unparsed: "ended_with res ''quarantined'' ''PARSER_ERROR''"
    if "as_announced L r bytes" "single_mail L r bytes" "mw_parse L bytes = Inl e" for e
  proof (rule outcome(4))
    show "examine L r job now bytes = by_reader (Inl e)"
      using examine_announced(4) [OF that(1,2)] that(3) by (simp add: by_reader_def split: raised.split)
  qed
  show ?thesis
    unfolding answers_bytes_def using mismatch kind several mailbox unparsed limits analysed by blast
qed

text \<open>C29: every request the contract accepts is answered with a result the contract accepts, and the answer
  is the right one: a staged path that is a link or no regular file ends as quarantined SOURCE_INVALID,
  one that cannot be read as PARSER_ERROR, one whose digest or size is not the announced one as
  INTEGRITY_MISMATCH; a kind of mail or a mailbox the worker does not read as PARSER_UNSUPPORTED, a
  mail its readers reject as PARSER_ERROR, one with too many findings as FINDING_LIMIT_EXCEEDED; the
  analysis of any other is the answer, unless the contract refuses it, which is a PARSER_ERROR.  If
  the staged file holds the announced bytes, the readers must raise on that mail only exceptions the
  worker catches.\<close>

theorem accepted_requests_are_answered:
  assumes "mx_validate_request (mx_lib.truncate L) v = Inr r" "soft_staged L r p f" "ends mx_safe_id job"
    and "sc_date_time (mx_schema L) now" "\<And>t. sha_text (sha_of L t)"
  shows "\<exists>res. mx_process L v p job now f = Inr res \<and> mx_validate_result (mx_lib.truncate L) (JObj res) = Inr res \<and>
    (is_symlink f p \<or> \<not> is_file (mw_os L) f p \<longrightarrow> ended_with res ''quarantined'' ''SOURCE_INVALID'') \<and>
    (\<not> is_symlink f p \<and> is_file (mw_os L) f p \<longrightarrow>
       (case read_file (mw_os L) p f of
          Inl e \<Rightarrow> ended_with res ''quarantined'' ''PARSER_ERROR''
        | Inr bytes \<Rightarrow> answers_bytes L r job now bytes res))"
proof -
  obtain res where res: "mx_process L v p job now f = Inr res" "mx_validate_result (mx_lib.truncate L) (JObj res) = Inr res"
    using process_answers [OF assms(1-4)] assms(5) by blast
  note outcome = process_outcome [OF assms(1) res(1)]
  have "ended_with res ''quarantined'' ''SOURCE_INVALID''" if "is_symlink f p \<or> \<not> is_file (mw_os L) f p"
  proof -
    have "attempt L r p job now f = (ftext (fsub r ''input'') ''sha256'',
        Inl (Stop (work_error ''SOURCE_INVALID'' ''staged input must be a regular file'' True)))"
      using that by (simp add: attempt_def Let_def stopped_def)
    from outcome(1) [OF this] show ?thesis by (simp add: end_state_def work_error_def)
  qed
  moreover have "ended_with res ''quarantined'' ''PARSER_ERROR''"
    if "\<not> is_symlink f p" "is_file (mw_os L) f p" "read_file (mw_os L) p f = Inl e" for e
    by (rule outcome(2)) (use that in \<open>simp add: attempt_def Let_def\<close>)
  ultimately show ?thesis
    using res process_answers_bytes [OF assms(1) res(1)] by (auto split: sum.splits)
qed

text \<open>A result that succeeded speaks of the bytes that were asked for: the staged path is a regular file, not
  a link, its digest and its size are those of the request, the request asked for a kind of mail the
  worker reads, and the result names tenant, case, evidence, source and digest as the request does.\<close>

theorem success_is_about_the_requested_bytes:
  assumes "mx_process L (JObj r) p job now f = Inr res" "dget res ''terminal_state'' = JStr ''succeeded''"
  shows "\<exists>bytes. \<not> is_symlink f p \<and> read_file (mw_os L) p f = Inr bytes \<and>
    lower (sha_of L bytes) = lower (ftext (fsub r ''input'') ''sha256'') \<and>
    int (length bytes) = num L (dget (fsub r ''input'') ''size_bytes'') \<and>
    ftext (fsub r ''input'') ''media_type'' \<in> {''eml'', ''mbox'', ''mbx''} \<and>
    dget res ''provenance'' = provenance_json r (dget (fsub r ''input'') ''sha256'')"
proof -
  obtain r' bytes m where b: "mx_validate_request (mx_lib.truncate L) (JObj r) = Inr r'" "\<not> is_symlink f p"
    "read_file (mw_os L) p f = Inr bytes" "examine L r' job now bytes = Inr res" "mx_result L r' job now m = Inr res"
    using process_succeeded [OF assms] by metis
  have "r' = r" using mx_validate_request_Inr(1) [OF b(1)] by simp
  moreover have "dget res ''provenance'' = provenance_json r' (dget (fsub r' ''input'') ''sha256'')"
    using b(5) by (elim mx_result_InrE) simp
  ultimately show ?thesis
    using b by (auto simp: examine_def wb_result Let_def split: if_splits)
qed

text \<open>C30: a result that succeeded is within the limits of its request: the attachments it calls analyzed are
  each no larger than the attachment limit and together than the total, archives among them have
  few enough members, all with safe names and none a link, and neither findings nor report exceed
  their limits.\<close>

theorem success_is_within_the_limits:
  assumes "mx_process L (JObj r) p job now f = Inr res" "dget res ''terminal_state'' = JStr ''succeeded''"
  shows "\<exists>ws findings. dget res ''attachments'' = JList (map (attachment_json L) ws) \<and> list_all (attachment_ok L r) ws \<and>
    analyzed_bytes ws \<le> limit L r ''max_total_attachment_bytes'' \<and>
    dget res ''findings'' = JList findings \<and> int (length findings) \<le> limit L r ''max_findings'' \<and>
    (dget res ''reports'' = JList [] \<or> (\<exists>t. dget res ''reports'' = JList [artifact L ''report'' t (artifact_uri r ''report'')] \<and>
       int (length t) \<le> limit L r ''max_report_bytes''))"
proof -
  obtain r' m where b: "mx_validate_request (mx_lib.truncate L) (JObj r) = Inr r'" "mx_result L r' job now m = Inr res"
    using process_succeeded [OF assms] by metis
  have r: "r' = r" using mx_validate_request_Inr(1) [OF b(1)] by simp
  have "valid (mx_schema L) request_schema (JObj r)"
    using mx_validate_request_Inr(2) [OF b(1)] by (simp add: r mx_lib.truncate_def)
  from limit_positive [OF this, of "''max_total_attachment_bytes''"]
  have start: "walked_ok L r (start_walk L m)"
    by (simp add: walked_ok_def start_walk_def analyzed_bytes_def limit_names_def)
  from b(2) [unfolded r] obtain w i html lims reports where w: "mx_walk L r 0 (em_parts m) (start_walk L m) = Inr w"
    "int (length (wk_findings w)) \<le> limit L r ''max_findings''"
    and res: "res = result_json L r job now m i (wk_findings w) (map (attachment_json L) (wk_attachments w)) html lims reports"
      "reports = [] \<or> (\<exists>t. reports = [artifact L ''report'' t (artifact_uri r ''report'')] \<and> int (length t) \<le> limit L r ''max_report_bytes'')"
    by (elim mx_result_InrE) blast
  from mx_walk_ok [OF start w(1)] have "walked_ok L r w" .
  with w(2) res(2) show ?thesis
    by (intro exI [of _ "wk_attachments w"] exI [of _ "wk_findings w"]) (auto simp: walked_ok_def res(1))
qed

text \<open>No answer of the worker, whether the analysis succeeded or not, has a key at any depth that names raw
  message bytes or a credential; it declares that nothing left the machine, and it names the
  tenant, case, evidence, source and idempotency key of the request.\<close>

theorem answers_disclose_no_secrets:
  assumes "mx_process L (JObj r) p job now f = Inr res"
  shows "(\<forall>k\<in>deep_keys (JObj res). \<not> unsafe_key k) \<and> dget (fsub res ''audit'') ''egress'' = JStr ''none'' \<and>
    (\<exists>sha. dget res ''provenance'' = provenance_json r sha)"
  using process_discloses [OF assms] by blast

lemma mail_lib_plain: "soft_staged mail_lib r p f" "sha_text (sha_of mail_lib t)" "sc_date_time (mx_schema mail_lib) t"
proof -
  show "soft_staged mail_lib r p f" by (simp add: soft_staged_def soft_on_def mail_lib_def mail_parsed_def)
  show "sha_text (sha_of mail_lib t)" by (simp add: sha_text_def sha_of_def mail_lib_def list_all_iff hex_digit_def is_digit_def)
  show "sc_date_time (mx_schema mail_lib) t" by (simp add: mail_lib_def)
qed

definition swapped_disk :: fs where
  "swapped_disk = [([], Dir 493), ([''m''], File ''other'' 420)]"

lemma swapped_runs: "\<not> is_symlink swapped_disk [''m'']" "is_file (mw_os mail_lib) swapped_disk [''m'']"
  "read_file (mw_os mail_lib) [''m''] swapped_disk = Inr ''other''" "\<not> as_announced mail_lib mail_request ''other''"
  by code_simp+

theorem accepted_requests_are_answered_witness:
  "(\<exists>res. mx_process mail_lib (JObj mail_request) [''m''] ''job'' ''now'' swapped_disk = Inr res \<and>
     ended_with res ''quarantined'' ''INTEGRITY_MISMATCH'') \<and>
   (\<exists>res. mx_process mail_lib (JObj mail_request) [''gone''] ''job'' ''now'' mail_disk = Inr res \<and>
     ended_with res ''quarantined'' ''SOURCE_INVALID'')"
proof -
  have job: "ends mx_safe_id ''job''" by code_simp
  have gone: "\<not> is_file (mw_os mail_lib) mail_disk [''gone'']" by code_simp
  note run = accepted_requests_are_answered [OF mail_request_ok mail_lib_plain(1) job mail_lib_plain(3) mail_lib_plain(2)]
  show ?thesis
    using run [where p = "[''m'']" and f = swapped_disk] run [where p = "[''gone'']" and f = mail_disk] gone
    by (auto simp: swapped_runs answers_bytes_def)
qed

theorem success_is_about_the_requested_bytes_witness:
  "dget mail_result ''provenance'' = provenance_json mail_request (JStr (replicate 64 CHR ''0''))"
proof -
  have "dget (fsub mail_request ''input'') ''sha256'' = JStr (replicate 64 CHR ''0'')" by (simp add: mail_request_def fsub_def dget_def)
  with success_is_about_the_requested_bytes [OF mail_run_ok [unfolded mail_run_def] mail_result_ok(2)] show ?thesis by auto
qed

theorem success_is_within_the_limits_witness:
  "\<exists>ws. dget mail_result ''attachments'' = JList (map (attachment_json mail_lib) ws) \<and> analyzed_bytes ws \<le> 9"
proof -
  have "limit mail_lib mail_request ''max_total_attachment_bytes'' = 9" by code_simp
  with success_is_within_the_limits [OF mail_run_ok [unfolded mail_run_def] mail_result_ok(2)] show ?thesis by auto
qed

theorem answers_disclose_no_secrets_witness:
  "dget (fsub mail_result ''audit'') ''egress'' = JStr ''none''"
  using answers_disclose_no_secrets [OF mail_run_ok [unfolded mail_run_def]] by blast

end
