(* ===== verification/Api_Mxray.thy ===== *)
theory Api_Mxray
  imports Mxray_Worker Api_Routes
begin

text \<open>
  The development routes of \<^verbatim>\<open>api.py\<close> for the email worker: the synthetic message, its
  analysis, which is filed once per tenant and idempotency key, and the analyst's review.  The
  state is the two dictionaries of \<^verbatim>\<open>create_app\<close> and the runner's volume; the text of the
  synthetic message, uuid4 and the clock are arguments.  An exception no route handles is the 500.
\<close>

record mail_app =
  ma_lib :: mw_lib
  ma_root :: path
  ma_message :: string

record mail_job =
  mj_result :: dict
  mj_status :: string
  mj_tenant :: string
  mj_request :: dict
  mj_review :: "dict option"

record mail_state =
  ms_jobs :: "(string \<times> mail_job) list"
  ms_by_key :: "((string \<times> string) \<times> string) list"
  ms_fs :: fs

text \<open>The texts uuid4 and the clock give to the steps of one request.\<close>

record mail_world =
  mq_request_hex :: string
  mq_corr_hex :: string
  mq_job_hex :: string
  mq_now :: string
  mq_worker_now :: string

type_synonym 'a mail_act = "mail_state \<Rightarrow> mail_state \<times> (http_error + 'a)"

section \<open>The synthetic message\<close>

definition mail_file :: "mail_app \<Rightarrow> path" where
  "mail_file A = ma_root A @ [''mxray'', ''synthetic-message.eml'']"

definition mail_source :: "mail_app \<Rightarrow> fs \<Rightarrow> fs \<times> (sys_error + string)" where
  "mail_source A f =
     (let w = mw_os (ma_lib A); src = mail_file A in
      case mkdir w 448 (butlast src) True f of
        Inl e \<Rightarrow> (f, Inl e)
      | Inr f1 \<Rightarrow>
          (if p_exists w f1 src then (f1, read_file w src f1)
           else case write_file w src (ma_message A) f1 of
             Inl e \<Rightarrow> (f1, Inl e)
           | Inr f2 \<Rightarrow> (f2, read_file w src f2)))"

text \<open>What a client sees of a result.\<close>

definition private_headers :: "string list" where
  "private_headers = [''authorization'', ''cookie'', ''x-api-key'', ''set-cookie'']"

definition mxray_public :: "dict \<Rightarrow> dict" where
  "mxray_public res =
     (let message = fsub res ''message'';
          headers = filter (\<lambda>h. lower (fst h) \<notin> set private_headers) (fsub message ''headers'')
      in AList.update ''message'' (JObj (AList.update ''headers'' (JObj headers) message)) res)"

definition mxray_evidence :: "mail_app \<Rightarrow> principal \<Rightarrow> dict mail_act" where
  "mxray_evidence A p s =
     (case mail_source A (ms_fs s) of
        (f, Inl e) \<Rightarrow> (s\<lparr>ms_fs := f\<rparr>, Inl internal_error)
      | (f, Inr bytes) \<Rightarrow> (s\<lparr>ms_fs := f\<rparr>, Inr [(''synthetic'', JBool True), (''items'', JList [JObj
          [(''evidence_id'', JStr ''email-synthetic-001''), (''subject'', JStr ''Synthetic analyst review''), (''media_type'', JStr ''eml''),
           (''sha256'', JStr (sha_of (ma_lib A) bytes)), (''size_bytes'', JInt (int (length bytes))), (''status'', JStr ''staged''),
           (''review_state'', JStr ''unreviewed'')]])]))"

section \<open>Analysis\<close>

definition mail_limits :: dict where
  "mail_limits = [(''max_attachment_bytes'', JInt 10000000), (''max_total_attachment_bytes'', JInt 50000000), (''max_archive_members'', JInt 100),
     (''max_html_bytes'', JInt 1000000), (''max_findings'', JInt 100), (''max_report_bytes'', JInt 1000000)]"

definition mail_policies :: dict where
  "mail_policies = [(''analysis'', JObj [(''capabilities'', strs implemented_capabilities), (''policy_id'', JStr ''workbench-default''),
       (''version'', JStr ''1.0.0'')]),
     (''enrichment'', JObj [(''enabled'', JBool False), (''network_egress'', JStr ''disabled''), (''providers'', JList []),
       (''approval_required'', JBool True)])]"

definition mail_context :: "principal \<Rightarrow> dict" where
  "mail_context p = [(''tenant_id'', JStr (tenant_id p)), (''case_id'', JStr ''synthetic-case-001''),
     (''evidence_id'', JStr ''email-synthetic-001''), (''source_id'', JStr ''email-source-001'')]"

definition mail_job_key :: "mail_app \<Rightarrow> string \<Rightarrow> string \<Rightarrow> contract_error + string" where
  "mail_job_key A tenant digest = mx_idempotency_key (mx_lib.truncate (ma_lib A))
     [JStr tenant, JStr ''synthetic-case-001'', JStr ''email-synthetic-001'', JStr ''email-source-001'', JStr digest, JStr ''1.0.0'']"

definition mail_payload :: "principal \<Rightarrow> string \<Rightarrow> string \<Rightarrow> int \<Rightarrow> mail_world \<Rightarrow> dict" where
  "mail_payload p key digest n q =
     [(''contract_version'', JStr ''1.0.0''), (''request_id'', JStr (''request-'' @ take 12 (mq_request_hex q))),
      (''submitted_at_utc'', JStr (mq_now q)), (''context'', JObj (mail_context p)),
      (''input'', JObj [(''media_type'', JStr ''eml''), (''sha256'', JStr digest), (''size_bytes'', JInt n),
         (''staged_uri'', JStr ''evidence://synthetic/email-synthetic-001''), (''read_only'', JBool True)]),
      (''toolchain'', JObj [(''worker_version'', JStr ''1.0.0''), (''mxray_version'', JStr ''stdlib-core-1.0.0''),
         (''parser_versions'', JObj [(''email'', JStr ''stdlib'')])]),
      (''policies'', JObj mail_policies), (''limits'', JObj mail_limits),
      (''idempotency'', JObj [(''key'', JStr key), (''scope'', JStr (tenant_id p @ ''/synthetic-case-001''))]),
      (''audit'', JObj [(''correlation_id'', JStr (''corr-'' @ take 12 (mq_corr_hex q))), (''requested_by'', JStr (analyst_id p)),
         (''event_type'', JStr ''mxray.email.analyze'')])]"

definition job_answer :: "string \<Rightarrow> string \<Rightarrow> dict \<Rightarrow> dict" where
  "job_answer jid status res = [(''job_id'', JStr jid), (''status'', JStr status), (''review_required'', JBool (status = ''ready_for_review'')),
     (''result'', JObj (mxray_public res))]"

definition filed_status :: "dict \<Rightarrow> string" where
  "filed_status res = (if dget res ''terminal_state'' = JStr ''succeeded'' then ''ready_for_review'' else ftext res ''terminal_state'')"

text \<open>The worker has run; the job of the same tenant and key is answered if there is one.\<close>

definition file_job :: "principal \<Rightarrow> string \<Rightarrow> dict \<Rightarrow> dict \<Rightarrow> string \<Rightarrow> dict mail_act" where
  "file_job p key request res hex s =
     (case map_of (ms_by_key s) (tenant_id p, key) of
        Some jid \<Rightarrow>
          (case map_of (ms_jobs s) jid of
             None \<Rightarrow> (s, Inl internal_error)
           | Some j \<Rightarrow> (s, Inr (job_answer jid (mj_status j) (mj_result j))))
      | None \<Rightarrow>
          (let jid = ''mxray-'' @ take 12 hex; status = filed_status res in
           (s\<lparr>ms_jobs := AList.update jid \<lparr>mj_result = res, mj_status = status, mj_tenant = tenant_id p, mj_request = request,
                  mj_review = None\<rparr> (ms_jobs s),
              ms_by_key := AList.update (tenant_id p, key) jid (ms_by_key s)\<rparr>,
            Inr (job_answer jid status res))))"

definition mxray_analyze :: "mail_app \<Rightarrow> dict \<Rightarrow> mail_world \<Rightarrow> principal \<Rightarrow> dict mail_act" where
  "mxray_analyze A payload q p s =
     (if dget payload ''evidence_id'' \<noteq> JStr ''email-synthetic-001'' then (s, Inl (Http 404 ''email evidence not found''))
      else case mail_source A (ms_fs s) of
        (f, Inl e) \<Rightarrow> (s\<lparr>ms_fs := f\<rparr>, Inl internal_error)
      | (f, Inr bytes) \<Rightarrow>
          (let s1 = s\<lparr>ms_fs := f\<rparr>; digest = sha_of (ma_lib A) bytes in
           case mail_job_key A (tenant_id p) digest of
             Inl e \<Rightarrow> (s1, Inl internal_error)
           | Inr key \<Rightarrow>
               (let request = mail_payload p key digest (int (length bytes)) q in
                case mx_process (ma_lib A) (JObj request) (mail_file A) ''mxray-local'' (mq_worker_now q) f of
                  Inl e \<Rightarrow> (s1, Inl internal_error)
                | Inr res \<Rightarrow> file_job p key request res (mq_job_hex q) s1)))"

section \<open>Review\<close>

definition mail_review :: "principal \<Rightarrow> string \<Rightarrow> dict" where
  "mail_review p verdict = [(''decision'', JStr verdict), (''analyst_id'', JStr (analyst_id p)),
     (''approved_findings'', JBool (verdict = ''approve''))]"

definition review_event :: "dict \<Rightarrow> string \<Rightarrow> mail_world \<Rightarrow> json" where
  "review_event res verdict q = (let v = fsub res ''provenance'' in
     JObj [(''event_id'', JStr (''event-'' @ take 16 (mq_job_hex q))), (''event_type'', JStr ''mxray.email.review''), (''at_utc'', JStr (mq_now q)),
       (''detail'', JStr ''analyst review decision''), (''tenant_id'', dget v ''tenant_id''), (''case_id'', dget v ''case_id''),
       (''evidence_id'', dget v ''evidence_id''), (''source_sha256'', dget v ''source_sha256''), (''decision'', JStr verdict)])"

text \<open>\<^verbatim>\<open>result["audit"]["events"].append(event)\<close>\<close>

definition with_event :: "json \<Rightarrow> dict \<Rightarrow> dict" where
  "with_event e res =
     (let audit = fsub res ''audit''; events = (case dget audit ''events'' of JList xs \<Rightarrow> xs | _ \<Rightarrow> []) in
      AList.update ''audit'' (JObj (AList.update ''events'' (JList (events @ [e])) audit)) res)"

definition reviewed_job :: "principal \<Rightarrow> string \<Rightarrow> mail_world \<Rightarrow> mail_job \<Rightarrow> mail_job" where
  "reviewed_job p verdict q j =
     j\<lparr>mj_status := (if verdict = ''approve'' then ''approved'' else ''quarantined''), mj_review := Some (mail_review p verdict),
       mj_result := with_event (review_event (mj_result j) verdict q) (mj_result j)\<rparr>"

text \<open>A verdict that is a list or an object cannot be looked up in a set: \<^verbatim>\<open>TypeError\<close>.\<close>

definition mxray_review :: "string \<Rightarrow> dict \<Rightarrow> mail_world \<Rightarrow> principal \<Rightarrow> dict mail_act" where
  "mxray_review jid payload q p s =
     (case map_of (ms_jobs s) jid of
        None \<Rightarrow> (s, Inl (Http 404 ''MXRay job not found''))
      | Some j \<Rightarrow>
          (if mj_tenant j \<noteq> tenant_id p then (s, Inl (Http 404 ''MXRay job not found''))
           else case dget payload ''decision'' of
             JList xs \<Rightarrow> (s, Inl internal_error)
           | JObj d \<Rightarrow> (s, Inl internal_error)
           | v \<Rightarrow>
               (let verdict = text_of v in
                if v \<notin> {JStr ''approve'', JStr ''quarantine''} \<or> mj_status j \<noteq> ''ready_for_review''
                then (s, Inl (Http 400 ''decision must approve or quarantine and job must be ready for review''))
                else (let j' = reviewed_job p verdict q j in
                      (s\<lparr>ms_jobs := AList.update jid j' (ms_jobs s)\<rparr>,
                       Inr [(''job_id'', JStr jid), (''status'', JStr (mj_status j')), (''review'', JObj (mail_review p verdict)),
                            (''result'', JObj (mxray_public (mj_result j')))])))))"

section \<open>Requests\<close>

datatype mail_call =
    MailEvidence principal
  | MailAnalyze dict mail_world principal
  | MailReview string dict mail_world principal

fun mail_caller :: "mail_call \<Rightarrow> principal" where
  "mail_caller (MailEvidence p) = p"
| "mail_caller (MailAnalyze d q p) = p"
| "mail_caller (MailReview j d q p) = p"

fun mail_scopes :: "mail_call \<Rightarrow> string list" where
  "mail_scopes (MailEvidence p) = []"
| "mail_scopes (MailAnalyze d q p) = [''cases:write'']"
| "mail_scopes (MailReview j d q p) = [''cases:write'']"

fun mail_route :: "mail_app \<Rightarrow> mail_call \<Rightarrow> dict mail_act" where
  "mail_route A (MailEvidence p) = mxray_evidence A p"
| "mail_route A (MailAnalyze d q p) = mxray_analyze A d q p"
| "mail_route A (MailReview j d q p) = mxray_review j d q p"

definition mail_step :: "mail_app \<Rightarrow> mail_call \<Rightarrow> dict mail_act" where
  "mail_step A c s = (case require_scopes (mail_scopes c) (mail_caller c) of Inl e \<Rightarrow> (s, Inl e) | Inr p \<Rightarrow> mail_route A c s)"

definition no_mail :: "fs \<Rightarrow> mail_state" where
  "no_mail f = \<lparr>ms_jobs = [], ms_by_key = [], ms_fs = f\<rparr>"

end
