(* ===== verification/Api_Mxray_Correct.thy ===== *)
theory Api_Mxray_Correct
  imports Api_Mxray Mxray_Correct Evidence_Volume
begin

text \<open>
  The properties of the mail routes: what one request may do to the jobs there are, and that the
  synthetic message of a tenant is filed once.
\<close>

section \<open>The volume and the job tables\<close>

lemma mail_source_fs:
  assumes "mail_source A f = (f', out)" "os_plain (mw_os (ma_lib A))" "no_links f" "clean_path (ma_root A)"
  shows "no_links f'" "lookup f (mail_file A) \<noteq> None \<Longrightarrow> lookup f' (mail_file A) = lookup f (mail_file A)"
    and "out = Inr bytes \<Longrightarrow> \<exists>m. lookup f' (mail_file A) = Some (File bytes m)"
proof -
  let ?w = "mw_os (ma_lib A)" and ?src = "mail_file A"
  have cl: "clean_path ?src" "clean_path (butlast ?src)" using assms(4) by (simp_all add: mail_file_def clean_butlast)
  have plain: "realpath ?w g ?src = ?src" "realpath ?w g (butlast ?src) = butlast ?src" if "no_links g" for g
    using assms(2) that cl by (simp_all add: plain_fs)
  show "no_links f'"
    using assms(1,3) plain by (auto simp: mail_source_def Let_def write_file_def
        intro: mkdir_no_links intro!: no_links_set split: sum.splits if_splits option.splits node.splits dest!: mkdir_no_links)
  have keep: "lookup f1 ?src = lookup f ?src" if "mkdir ?w 448 (butlast ?src) True f = Inr f1" for f1
    using lookup_mkdir [OF that, of ?src] by (auto simp: mail_file_def dest: prefix_length_le)
  show "lookup f' ?src = lookup f ?src" if "lookup f ?src \<noteq> None"
    using assms(1) that keep plain mkdir_no_links [OF _ assms(3)]
    by (auto simp: mail_source_def Let_def p_exists_def stat_node_def split: sum.splits if_splits)
  show "\<exists>m. lookup f' ?src = Some (File bytes m)" if "out = Inr bytes"
    using assms(1) that plain mkdir_no_links [OF _ assms(3)] \<open>no_links f'\<close>
    by (auto simp: mail_source_def Let_def read_file_def stat_node_def split: sum.splits if_splits option.splits node.splits)
qed

lemma file_job_cases:
  assumes "file_job p key request res hex s = (s', out)"
  obtains
    (there) jid where "map_of (ms_by_key s) (tenant_id p, key) = Some jid" "s' = s"
      "\<And>a. out = Inr a \<Longrightarrow> \<exists>j. map_of (ms_jobs s) jid = Some j \<and> a = job_answer jid (mj_status j) (mj_result j)"
  | (filed) "map_of (ms_by_key s) (tenant_id p, key) = None"
      "ms_jobs s' = AList.update (''mxray-'' @ take 12 hex) \<lparr>mj_result = res, mj_status = filed_status res, mj_tenant = tenant_id p,
         mj_request = request, mj_review = None\<rparr> (ms_jobs s)"
      "ms_by_key s' = AList.update (tenant_id p, key) (''mxray-'' @ take 12 hex) (ms_by_key s)" "ms_fs s' = ms_fs s"
      "out = Inr (job_answer (''mxray-'' @ take 12 hex) (filed_status res) res)"
  using assms by (auto simp: file_job_def Let_def split: option.splits)

lemma mxray_analyze_cases:
  assumes "mxray_analyze A d q p s = (s', out)"
  obtains
    (quiet) f where "s' = s\<lparr>ms_fs := f\<rparr>" "f = ms_fs s \<or> (\<exists>o'. mail_source A (ms_fs s) = (f, o'))" "\<And>a. out \<noteq> Inr a"
  | (ran) f bytes key res where "mail_source A (ms_fs s) = (f, Inr bytes)" "mail_job_key A (tenant_id p) (sha_of (ma_lib A) bytes) = Inr key"
      "mx_process (ma_lib A) (JObj (mail_payload p key (sha_of (ma_lib A) bytes) (int (length bytes)) q)) (mail_file A)
         ''mxray-local'' (mq_worker_now q) f = Inr res"
      "file_job p key (mail_payload p key (sha_of (ma_lib A) bytes) (int (length bytes)) q) res (mq_job_hex q) (s\<lparr>ms_fs := f\<rparr>) = (s', out)"
proof (cases "dget d ''evidence_id'' = JStr ''email-synthetic-001''")
  case False
  with assms show ?thesis by (intro quiet [of "ms_fs s"]) (auto simp: mxray_analyze_def)
next
  case True
  obtain f o' where src: "mail_source A (ms_fs s) = (f, o')" by (cases "mail_source A (ms_fs s)")
  show ?thesis
  proof (cases o')
    case (Inl e)
    with assms True src show ?thesis by (intro quiet [of f]) (auto simp: mxray_analyze_def)
  next
    case (Inr bytes)
    note run = assms [unfolded mxray_analyze_def src Inr Let_def] 
    show ?thesis
    proof (cases "mail_job_key A (tenant_id p) (sha_of (ma_lib A) bytes)")
      case (Inl e)
      with run True src show ?thesis by (intro quiet [of f]) auto
    next
      case key: (Inr key)
      show ?thesis
      proof (cases "mx_process (ma_lib A) (JObj (mail_payload p key (sha_of (ma_lib A) bytes) (int (length bytes)) q)) (mail_file A)
         ''mxray-local'' (mq_worker_now q) f")
        case (Inl e)
        with run True src key show ?thesis by (intro quiet [of f]) auto
      next
        case (Inr res)
        with run True src key \<open>o' = Inr bytes\<close> show ?thesis by (intro ran [of f bytes key res]) auto
      qed
    qed
  qed
qed

lemma mxray_review_cases:
  assumes "mxray_review jid d q p s = (s', out)"
  obtains
    (quiet) "s' = s" "\<And>a. out \<noteq> Inr a"
  | (reviewed) j v where "map_of (ms_jobs s) jid = Some j" "mj_tenant j = tenant_id p" "mj_status j = ''ready_for_review''"
      "v \<in> {''approve'', ''quarantine''}" "s' = s\<lparr>ms_jobs := AList.update jid (reviewed_job p v q j) (ms_jobs s)\<rparr>"
      "\<And>a. out = Inr a \<Longrightarrow> dget a ''job_id'' = JStr jid"
proof (cases "\<exists>j v. map_of (ms_jobs s) jid = Some j \<and> mj_tenant j = tenant_id p \<and> mj_status j = ''ready_for_review'' \<and>
    v \<in> {''approve'', ''quarantine''} \<and> dget d ''decision'' = JStr v")
  case True
  then obtain j v where j: "map_of (ms_jobs s) jid = Some j" "mj_tenant j = tenant_id p" "mj_status j = ''ready_for_review''"
    "v \<in> {''approve'', ''quarantine''}" "dget d ''decision'' = JStr v" by blast
  then have "s' = s\<lparr>ms_jobs := AList.update jid (reviewed_job p v q j) (ms_jobs s)\<rparr>" "\<And>a. out = Inr a \<Longrightarrow> dget a ''job_id'' = JStr jid"
    using assms by (auto simp: mxray_review_def Let_def text_of_def dget_def)
  with j(1-4) reviewed show ?thesis by blast
next
  case False
  with assms have "s' = s" "\<And>a. out \<noteq> Inr a"
    by (auto simp: mxray_review_def Let_def text_of_def split: option.splits json.splits if_splits)
  with quiet show ?thesis by blast
qed

section \<open>Jobs\<close>

text \<open>A filed job names its tenant in its result and is open, ended without a review, or reviewed once.\<close>

definition mail_job_ok :: "mail_job \<Rightarrow> bool" where
  "mail_job_ok j = (dget (fsub (mj_result j) ''provenance'') ''tenant_id'' = JStr (mj_tenant j) \<and>
     (case mj_review j of
        None \<Rightarrow> mj_status j \<in> {''ready_for_review'', ''failed'', ''quarantined''}
      | Some r \<Rightarrow> (mj_status j, dget r ''decision'') \<in> {(''approved'', JStr ''approve''), (''quarantined'', JStr ''quarantine'')}))"

definition mail_ok :: "mail_state \<Rightarrow> bool" where
  "mail_ok s = ((\<forall>jid j. map_of (ms_jobs s) jid = Some j \<longrightarrow> mail_job_ok j) \<and>
     (\<forall>k jid. map_of (ms_by_key s) k = Some jid \<longrightarrow> (\<exists>j. map_of (ms_jobs s) jid = Some j \<and> mj_tenant j = fst k)))"

fun new_job_id :: "mail_call \<Rightarrow> string list" where
  "new_job_id (MailAnalyze d q p) = [''mxray-'' @ take 12 (mq_job_hex q)]"
| "new_job_id c = []"

definition mail_ids :: "mail_call list \<Rightarrow> string list" where
  "mail_ids cs = concat (map new_job_id cs)"

text \<open>What one request may do to a job that is there.\<close>

definition job_kept :: "mail_call \<Rightarrow> string \<Rightarrow> mail_job \<Rightarrow> mail_job \<Rightarrow> bool" where
  "job_kept c jid j j' = (j' = j \<or> (\<exists>d q p v. c = MailReview jid d q p \<and> tenant_id p = mj_tenant j \<and> mj_status j = ''ready_for_review'' \<and>
     v \<in> {''approve'', ''quarantine''} \<and> j' = reviewed_job p v q j))"

definition mail_moves :: "mail_call \<Rightarrow> mail_state \<Rightarrow> mail_state \<Rightarrow> bool" where
  "mail_moves c s s' = (\<forall>jid. case map_of (ms_jobs s) jid of
      Some j \<Rightarrow> (\<exists>j'. map_of (ms_jobs s') jid = Some j' \<and> job_kept c jid j j')
    | None \<Rightarrow> (\<forall>j'. map_of (ms_jobs s') jid = Some j' \<longrightarrow> jid \<in> set (new_job_id c) \<and> mail_job_ok j' \<and> mj_tenant j' = tenant_id (mail_caller c)))"

lemma job_kept_refl [simp]: "job_kept c jid j j"
  by (simp add: job_kept_def)

lemma mail_moves_same: "ms_jobs s' = ms_jobs s \<Longrightarrow> mail_moves c s s'"
  by (auto simp: mail_moves_def split: option.splits)

lemma terminal_states:
  assumes "mx_validate_result K (JObj res) = Inr res"
  shows "\<exists>t\<in>{''succeeded'', ''failed'', ''quarantined''}. dget res ''terminal_state'' = JStr t"
proof -
  have "valid (mx_schema K) (s_object result_keys result_fields) (JObj res)"
    using assms by (simp add: mx_validate_result_iff result_schema_def)
  from object_dget [OF this, of "''terminal_state''" "s_enum [''succeeded'', ''failed'', ''quarantined'']"] show ?thesis
    by (auto simp: result_keys_def result_fields_def valid_s_enum)
qed

lemma new_job_ok:
  assumes "mx_process L (JObj (mail_payload p key digest n q)) f job now g = Inr res"
  shows "mail_job_ok \<lparr>mj_result = res, mj_status = filed_status res, mj_tenant = tenant_id p, mj_request = rq, mj_review = None\<rparr>"
proof -
  obtain sha where "dget res ''provenance'' = provenance_json (mail_payload p key digest n q) sha"
    using process_discloses(1) [OF assms] by blast
  then have "dget (fsub res ''provenance'') ''tenant_id'' = JStr (tenant_id p)"
    by (simp add: fsub_def provenance_json_def mail_payload_def mail_context_def dget_def Let_def)
  with terminal_states [OF process_discloses(2) [OF assms]] show ?thesis
    by (auto simp: mail_job_ok_def filed_status_def ftext_def)
qed

lemma reviewed_job_ok:
  assumes "mail_job_ok j" "v \<in> {''approve'', ''quarantine''}"
  shows "mail_job_ok (reviewed_job p v q j)" "mj_tenant (reviewed_job p v q j) = mj_tenant j"
  using assms by (auto simp: mail_job_ok_def reviewed_job_def with_event_def mail_review_def fsub_def dget_update Let_def)
    (auto simp: dget_def)

lemma mail_step_moves:
  assumes "mail_step A c s = (s', out)" "mail_ok s" "set (new_job_id c) \<inter> fst ` set (ms_jobs s) = {}"
  shows "mail_moves c s s'"
proof (cases "require_scopes (mail_scopes c) (mail_caller c)")
  case (Inl e)
  with assms(1) show ?thesis by (auto simp: mail_step_def intro: mail_moves_same)
next
  case (Inr p)
  then have p: "p = mail_caller c" by (auto simp: require_scopes_def split: if_splits)
  show ?thesis
  proof (cases c)
    case (MailEvidence p')
    with assms(1) Inr p show ?thesis
      by (auto simp: mail_step_def mxray_evidence_def intro: mail_moves_same split: sum.splits prod.splits)
  next
    case (MailReview jid d q p')
    with assms(1) Inr p have "mxray_review jid d q p s = (s', out)" by (simp add: mail_step_def)
    then show ?thesis
    proof (cases rule: mxray_review_cases)
      case (reviewed j v)
      with MailReview p have "job_kept c jid j (reviewed_job p v q j)" by (auto simp: job_kept_def)
      with reviewed show ?thesis by (auto simp: mail_moves_def dict_get_update split: option.splits)
    qed (auto intro: mail_moves_same)
  next
    case (MailAnalyze d q p')
    with assms(1) Inr p have "mxray_analyze A d q p s = (s', out)" by (simp add: mail_step_def)
    then show ?thesis
    proof (cases rule: mxray_analyze_cases)
      case (ran f bytes key res)
      let ?jid = "''mxray-'' @ take 12 (mq_job_hex q)"
      have fresh: "map_of (ms_jobs s) ?jid = None"
        using assms(3) MailAnalyze by (auto simp: map_of_eq_None_iff)
      from ran(4) show ?thesis
      proof (cases rule: file_job_cases)
        case filed
        then show ?thesis using fresh new_job_ok [OF ran(3)] MailAnalyze p
          by (auto simp: mail_moves_def dict_get_update split: option.splits)
      qed (auto intro: mail_moves_same)
    qed (auto intro: mail_moves_same)
  qed
qed

text \<open>The table of keys only grows, by the new job.\<close>

lemma mail_step_keys:
  assumes "mail_step A c s = (s', out)"
  shows "ms_by_key s' = ms_by_key s \<or> (\<exists>k jid j. map_of (ms_by_key s) k = None \<and> ms_by_key s' = AList.update k jid (ms_by_key s) \<and>
    map_of (ms_jobs s') jid = Some j \<and> mj_tenant j = fst k)"
proof (cases "require_scopes (mail_scopes c) (mail_caller c)")
  case (Inr p)
  then have p: "p = mail_caller c" by (auto simp: require_scopes_def split: if_splits)
  show ?thesis
  proof (cases c)
    case (MailAnalyze d q p')
    with assms Inr p have "mxray_analyze A d q p s = (s', out)" by (simp add: mail_step_def)
    then show ?thesis
    proof (cases rule: mxray_analyze_cases)
      case (ran f bytes key res)
      from ran(4) show ?thesis
      proof (cases rule: file_job_cases)
        case filed
        then show ?thesis
          by (intro disjI2 exI [of _ "(tenant_id p, key)"] exI [of _ "''mxray-'' @ take 12 (mq_job_hex q)"]) (auto simp: dict_get_update)
      qed auto
    qed auto
  next
    case (MailReview jid d q p')
    with assms Inr p have "mxray_review jid d q p s = (s', out)" by (simp add: mail_step_def)
    then show ?thesis by (cases rule: mxray_review_cases) auto
  qed (use assms Inr in \<open>auto simp: mail_step_def mxray_evidence_def split: sum.splits prod.splits\<close>)
qed (use assms in \<open>auto simp: mail_step_def\<close>)

lemma job_kept_ok: "job_kept c jid j j' \<Longrightarrow> mail_job_ok j \<Longrightarrow> mail_job_ok j' \<and> mj_tenant j' = mj_tenant j"
  by (elim disjE exE conjE job_kept_def [THEN iffD1, THEN disjE]) (simp_all add: reviewed_job_ok)

lemma mail_movesD1:
  assumes "mail_moves c s s'" "map_of (ms_jobs s) jid = Some j"
  shows "\<exists>j'. map_of (ms_jobs s') jid = Some j' \<and> job_kept c jid j j'"
  using assms(1) [unfolded mail_moves_def, THEN spec, of jid] unfolding assms(2) option.case .

lemma mail_movesD2:
  assumes "mail_moves c s s'" "map_of (ms_jobs s) jid = None" "map_of (ms_jobs s') jid = Some j'"
  shows "jid \<in> set (new_job_id c) \<and> mail_job_ok j' \<and> mj_tenant j' = tenant_id (mail_caller c)"
  using assms(1) [unfolded mail_moves_def, THEN spec, of jid, unfolded assms(2) option.case, THEN spec, THEN mp, OF assms(3)] .

lemma mail_okD:
  "mail_ok s \<Longrightarrow> map_of (ms_jobs s) jid = Some j \<Longrightarrow> mail_job_ok j"
  "mail_ok s \<Longrightarrow> map_of (ms_by_key s) k = Some jid \<Longrightarrow> \<exists>j. map_of (ms_jobs s) jid = Some j \<and> mj_tenant j = fst k"
  unfolding mail_ok_def by (drule conjunct1, drule spec [of _ jid], simp) (drule conjunct2, drule spec [of _ k], simp)

lemma mail_moves_ok:
  assumes "mail_moves c s s'" "mail_ok s" "mail_step A c s = (s', out)"
  shows "mail_ok s'"
proof -
  have job: "mail_job_ok j'" if "map_of (ms_jobs s') jid = Some j'" for jid j'
  proof (cases "map_of (ms_jobs s) jid")
    case None
    with mail_movesD2 [OF assms(1) _ that] show ?thesis by simp
  next
    case (Some j)
    with mail_movesD1 [OF assms(1) Some] that have "job_kept c jid j j'" by simp
    with job_kept_ok mail_okD(1) [OF assms(2) Some] show ?thesis by blast
  qed
  have keep: "\<exists>j. map_of (ms_jobs s') jid = Some j \<and> mj_tenant j = fst k" if k: "map_of (ms_by_key s) k = Some jid" for k jid
  proof -
    obtain j where j: "map_of (ms_jobs s) jid = Some j" "mj_tenant j = fst k" using mail_okD(2) [OF assms(2) k] by blast
    then obtain j' where "map_of (ms_jobs s') jid = Some j'" "job_kept c jid j j'" using mail_movesD1 [OF assms(1)] by blast
    with j job_kept_ok mail_okD(1) [OF assms(2) j(1)] show ?thesis by metis
  qed
  have "\<exists>j. map_of (ms_jobs s') jid = Some j \<and> mj_tenant j = fst k" if k: "map_of (ms_by_key s') k = Some jid" for k jid
    using mail_step_keys [OF assms(3)]
  proof
    assume "ms_by_key s' = ms_by_key s"
    with k keep show ?thesis by simp
  next
    assume "\<exists>k jid j. map_of (ms_by_key s) k = None \<and> ms_by_key s' = AList.update k jid (ms_by_key s) \<and>
      map_of (ms_jobs s') jid = Some j \<and> mj_tenant j = fst k"
    then obtain k' i j where "ms_by_key s' = AList.update k' i (ms_by_key s)" "map_of (ms_jobs s') i = Some j" "mj_tenant j = fst k'" by blast
    with k keep show ?thesis by (cases "k = k'") (simp_all add: dict_get_update)
  qed
  with job show ?thesis unfolding mail_ok_def by blast
qed

lemma mail_reach_ok:
  "distinct (mail_ids calls) \<Longrightarrow> s = fst (run_ops (mail_step A) calls (no_mail f)) \<Longrightarrow>
   mail_ok s \<and> fst ` set (ms_jobs s) \<subseteq> set (mail_ids calls)"
proof (induction calls arbitrary: s rule: rev_induct)
  case Nil
  then show ?case by (simp add: mail_ok_def no_mail_def)
next
  case (snoc c calls)
  let ?s = "fst (run_ops (mail_step A) calls (no_mail f))"
  obtain out where step: "mail_step A c ?s = (s, out)"
    using snoc.prems(2) by (cases "mail_step A c ?s") (simp add: run_ops_append Let_def split_beta)
  have d: "distinct (mail_ids calls)" "set (new_job_id c) \<inter> set (mail_ids calls) = {}"
    using snoc.prems(1) by (auto simp: mail_ids_def)
  note ih = snoc.IH [OF d(1) refl]
  with d(2) have m: "mail_moves c ?s s" by (intro mail_step_moves [OF step]) auto
  have "fst ` set (ms_jobs s) \<subseteq> fst ` set (ms_jobs ?s) \<union> set (new_job_id c)"
  proof
    fix jid assume "jid \<in> fst ` set (ms_jobs s)"
    then have "map_of (ms_jobs s) jid \<noteq> None" by (simp add: map_of_eq_None_iff)
    then obtain j' where j': "map_of (ms_jobs s) jid = Some j'" by blast
    show "jid \<in> fst ` set (ms_jobs ?s) \<union> set (new_job_id c)"
    proof (cases "map_of (ms_jobs ?s) jid = None")
      case True
      with mail_movesD2 [OF m True j'] show ?thesis by simp
    qed (auto simp: map_of_eq_None_iff)
  qed
  with ih mail_moves_ok [OF m _ step] show ?case by (auto simp: mail_ids_def)
qed

lemma mail_answer_owner:
  assumes "mail_step A c s = (s', Inr a)" "mail_ok s" "mail_ok s'" "\<And>p. c \<noteq> MailEvidence p"
  shows "\<exists>jid j. dget a ''job_id'' = JStr jid \<and> map_of (ms_jobs s') jid = Some j \<and> mj_tenant j = tenant_id (mail_caller c)"
proof -
  obtain p where p: "require_scopes (mail_scopes c) (mail_caller c) = Inr p" "p = mail_caller c"
    using assms(1) by (auto simp: mail_step_def require_scopes_def split: if_splits)
  show ?thesis
  proof (cases c)
    case (MailReview jid d q p')
    with assms(1) p have "mxray_review jid d q p s = (s', Inr a)" by (simp add: mail_step_def)
    then show ?thesis
      by (cases rule: mxray_review_cases) (use p in \<open>auto simp: dict_get_update reviewed_job_def\<close>)
  next
    case (MailAnalyze d q p')
    with assms(1) p have "mxray_analyze A d q p s = (s', Inr a)" by (simp add: mail_step_def)
    then show ?thesis
    proof (cases rule: mxray_analyze_cases)
      case (ran f bytes key res)
      from ran(4) show ?thesis
      proof (cases rule: file_job_cases)
        case (there jid)
        then have "map_of (ms_by_key s) (tenant_id p, key) = Some jid" by simp
        from mail_okD(2) [OF assms(2) this] obtain j where "map_of (ms_jobs s) jid = Some j" "mj_tenant j = tenant_id p" by auto
        with there p(2) show ?thesis by (auto simp: job_answer_def dget_def)
      next
        case filed
        with p(2) show ?thesis by (auto simp: job_answer_def dget_def dict_get_update)
      qed
    qed auto
  qed (use assms(4) in blast)
qed

text \<open>C31: a filed analysis belongs to one tenant and is settled once: in every state the routes reach each job
  is open, ended without a review, or carries exactly one decision, and its result names its
  tenant; a further request of anybody leaves every job as it was, except that a review by its own
  tenant decides a job that is ready for review, and whoever gets a job answered is its tenant.\<close>

theorem mail_jobs_settle_once:
  assumes "distinct (mail_ids (calls @ [c]))" "s = fst (run_ops (mail_step A) calls (no_mail f))" "mail_step A c s = (s', out)"
    and "map_of (ms_jobs s) jid = Some j"
  shows "mail_job_ok j \<and> (\<exists>j'. map_of (ms_jobs s') jid = Some j' \<and> job_kept c jid j j') \<and>
    (\<forall>a. out = Inr a \<and> (\<forall>p. c \<noteq> MailEvidence p) \<longrightarrow>
      (\<exists>i j. dget a ''job_id'' = JStr i \<and> map_of (ms_jobs s') i = Some j \<and> mj_tenant j = tenant_id (mail_caller c)))"
proof -
  have d: "distinct (mail_ids calls)" "set (new_job_id c) \<inter> set (mail_ids calls) = {}"
    using assms(1) by (auto simp: mail_ids_def)
  note ok = mail_reach_ok [OF d(1) assms(2)]
  with d(2) have m: "mail_moves c s s'" by (intro mail_step_moves [OF assms(3)]) auto
  have ok': "mail_ok s'" using mail_moves_ok [OF m _ assms(3)] ok by blast
  have "\<exists>i j. dget a ''job_id'' = JStr i \<and> map_of (ms_jobs s') i = Some j \<and> mj_tenant j = tenant_id (mail_caller c)"
    if "out = Inr a" "\<forall>p. c \<noteq> MailEvidence p" for a
    by (rule mail_answer_owner [of A c s]) (use assms(3) that ok ok' in auto)
  then show ?thesis using mail_okD(1) [OF conjunct1 [OF ok] assms(4)] mail_movesD1 [OF m assms(4)] by blast
qed

section \<open>One analysis per tenant\<close>

text \<open>The message is on the volume, and the tenant's key for it is filed under \<open>jid\<close>.\<close>

definition filed_under :: "mail_app \<Rightarrow> string \<Rightarrow> string \<Rightarrow> string \<Rightarrow> mail_state \<Rightarrow> bool" where
  "filed_under A t bytes jid s = (no_links (ms_fs s) \<and> (\<exists>m. lookup (ms_fs s) (mail_file A) = Some (File bytes m)) \<and>
     (\<exists>key. mail_job_key A t (sha_of (ma_lib A) bytes) = Inr key \<and> map_of (ms_by_key s) (t, key) = Some jid))"

lemma mail_step_fs:
  assumes "mail_step A c s = (s', out)" shows "ms_fs s' = ms_fs s \<or> (\<exists>o'. mail_source A (ms_fs s) = (ms_fs s', o'))"
proof (cases "require_scopes (mail_scopes c) (mail_caller c)")
  case (Inr p)
  then have p: "p = mail_caller c" by (auto simp: require_scopes_def split: if_splits)
  show ?thesis
  proof (cases c)
    case (MailAnalyze d q p')
    with assms Inr p have "mxray_analyze A d q p s = (s', out)" by (simp add: mail_step_def)
    then show ?thesis
    proof (cases rule: mxray_analyze_cases)
      case (ran f bytes key res)
      from ran(4) show ?thesis by (cases rule: file_job_cases) (use ran(1) in auto)
    qed auto
  next
    case (MailReview jid d q p')
    with assms Inr p have "mxray_review jid d q p s = (s', out)" by (simp add: mail_step_def)
    then show ?thesis by (cases rule: mxray_review_cases) auto
  qed (use assms Inr in \<open>auto simp: mail_step_def mxray_evidence_def split: sum.splits prod.splits\<close>)
qed (use assms in \<open>auto simp: mail_step_def\<close>)

lemma filed_under_step:
  assumes "filed_under A t bytes jid s" "os_plain (mw_os (ma_lib A))" "clean_path (ma_root A)"
  shows "filed_under A t bytes jid (fst (mail_step A c s))"
proof -
  obtain s' out where step: "mail_step A c s = (s', out)" by (cases "mail_step A c s")
  have "no_links (ms_fs s') \<and> lookup (ms_fs s') (mail_file A) = lookup (ms_fs s) (mail_file A)"
    using mail_step_fs [OF step] mail_source_fs(1,2) [OF _ assms(2) _ assms(3)] assms(1) by (auto simp: filed_under_def)
  moreover have "map_of (ms_by_key s) k = Some jid \<Longrightarrow> map_of (ms_by_key s') k = Some jid" for k
    using mail_step_keys [OF step] by (auto simp: dict_get_update)
  ultimately show ?thesis using assms(1) by (auto simp: filed_under_def step)
qed

lemma job_answer_id [simp]: "dget (job_answer jid st res) ''job_id'' = JStr jid"
  by (simp add: job_answer_def dget_def)

text \<open>The synthetic message is analyzed once for each tenant: after an analysis was answered with a job,
  every later analysis of the same tenant, whatever requests of any tenant come between, answers
  the same job and files no second one.\<close>

theorem mail_is_filed_once_per_tenant:
  assumes "os_plain (mw_os (ma_lib A))" "no_links (ms_fs s)"
    and "mail_step A (MailAnalyze d q p) s = (s1, Inr a)"
    and "mail_step A (MailAnalyze d' q' p') (fst (run_ops (mail_step A) calls s1)) = (s3, Inr a')" "tenant_id p' = tenant_id p"
    and "clean_path (ma_root A)"
  shows "dget a' ''job_id'' = dget a ''job_id'' \<and> ms_jobs s3 = ms_jobs (fst (run_ops (mail_step A) calls s1))"
proof -
  let ?s2 = "fst (run_ops (mail_step A) calls s1)"
  have run: "mxray_analyze A d q p s = (s1, Inr a)" "mxray_analyze A d' q' p' ?s2 = (s3, Inr a')"
    using assms(3,4) by (auto simp: mail_step_def require_scopes_def split: if_splits)
  from run(1) obtain jid bytes where filed: "filed_under A (tenant_id p) bytes jid s1" and a: "dget a ''job_id'' = JStr jid"
  proof (cases rule: mxray_analyze_cases)
    case (ran f bytes key res)
    note fs = mail_source_fs(1,3) [OF ran(1) assms(1,2,6)]
    from ran(4) show thesis
    proof (cases rule: file_job_cases)
      case (there jid)
      with fs ran(2) that [of bytes jid] show thesis by (auto simp: filed_under_def job_answer_def dget_def)
    next
      case filed
      with fs ran(2) that [of bytes "''mxray-'' @ take 12 (mq_job_hex q)"] show thesis
        by (auto simp: filed_under_def job_answer_def dget_def dict_get_update)
    qed
  qed auto
  have inv: "filed_under A (tenant_id p) bytes jid ?s2"
    by (rule run_ops_invariant [OF filed_under_step [OF _ assms(1,6)] filed])
  from run(2) show ?thesis
  proof (cases rule: mxray_analyze_cases)
    case (ran f b key res)
    have "lookup f (mail_file A) = lookup (ms_fs ?s2) (mail_file A)"
      by (rule mail_source_fs(2) [OF ran(1) assms(1)]) (use inv assms(6) in \<open>auto simp: filed_under_def\<close>)
    moreover obtain m where "lookup f (mail_file A) = Some (File b m)"
      using mail_source_fs(3) [OF ran(1) assms(1)] inv assms(6) by (auto simp: filed_under_def)
    ultimately have "b = bytes" using inv by (auto simp: filed_under_def)
    with ran(2) inv assms(5) have "map_of (ms_by_key ?s2) (tenant_id p', key) = Some jid" by (auto simp: filed_under_def)
    with ran(4) show ?thesis
      by (cases rule: file_job_cases) (auto simp: a)
  qed auto
qed

section \<open>The requests the route builds\<close>

lemma take_safe:
  assumes "list_all id_tail hex" "mx_safe_id pre" "length pre \<le> 16"
  shows "ends mx_safe_id (pre @ take 12 hex)"
proof -
  obtain c cs where "pre = c # cs" using assms(2) by (cases pre) (auto simp: mx_safe_id_def)
  moreover have "list_all id_tail (take 12 hex)" using assms(1) by (auto simp: list_all_iff dest: in_set_takeD)
  moreover have "length (take 12 hex) \<le> 12" by simp
  ultimately have "mx_safe_id (pre @ take 12 hex)" using assms(2,3) by (simp add: mx_safe_id_def del: length_take)
  then show ?thesis by (simp add: ends_def)
qed

lemma route_prefixes: "mx_safe_id (''request-'')" "mx_safe_id (''corr-'')" "mx_safe_id ''synthetic-case-001''"
  "mx_safe_id ''email-synthetic-001''" "mx_safe_id ''email-source-001''"
  by code_simp+

lemma route_version: "ends version_text ''1.0.0''"
  by code_simp

lemma mail_policies_ok: "valid V s_policies (JObj mail_policies)"
proof -
  have "valid V (s_set (s_enum capability_names)) (strs implemented_capabilities)"
    by (auto simp: s_set_def strs_def implemented_capabilities_def capability_names_def s_type_def on_list_def valid_s_enum)
  then have "valid V (s_object [''capabilities'', ''policy_id'', ''version'']
        [(''capabilities'', s_set (s_enum capability_names)), (''policy_id'', s_text), (''version'', s_match (ends version_text))])
      (JObj [(''capabilities'', strs implemented_capabilities), (''policy_id'', JStr ''workbench-default''), (''version'', JStr ''1.0.0'')])"
    by (intro object_ok; simp add: field_fits_rec schema_simps route_version)
  moreover have "valid V (s_object [''enabled'', ''network_egress'', ''providers'', ''approval_required'']
        [(''enabled'', s_type ''boolean''), (''network_egress'', s_enum [''disabled'', ''allowlisted'']),
         (''providers'', s_set (s_enum [''virustotal'', ''dns''])), (''approval_required'', SConst (JBool True))])
      (JObj [(''enabled'', JBool False), (''network_egress'', JStr ''disabled''), (''providers'', JList []), (''approval_required'', JBool True)])"
    by (intro object_ok; simp add: field_fits_rec schema_simps s_set_def on_list_def)
  ultimately show ?thesis
    unfolding s_policies_def mail_policies_def by (intro object_ok; simp add: field_fits_rec)
qed

lemma mail_limits_ok: "valid V s_limits (JObj mail_limits)"
  unfolding s_limits_def mail_limits_def limit_names_def
  by (intro object_ok; simp add: field_fits_rec s_count_def schema_simps at_least_def)

definition route_ready :: "mail_app \<Rightarrow> principal \<Rightarrow> mail_world \<Rightarrow> bool" where
  "route_ready A p q = (mx_safe_id (tenant_id p) \<and> mx_safe_id (analyst_id p) \<and> list_all id_tail (mq_request_hex q) \<and>
     list_all id_tail (mq_corr_hex q) \<and> sc_date_time (mx_schema (ma_lib A)) (mq_now q) \<and>
     sc_date_time (mx_schema (ma_lib A)) (mq_worker_now q))"

lemma mail_payload_valid:
  assumes "route_ready A p q" "sha_text digest" "0 \<le> n" "key_text key"
  shows "valid (mx_schema (ma_lib A)) request_schema (JObj (mail_payload p key digest n q))"
proof -
  let ?V = "mx_schema (ma_lib A)"
  have ids: "ends mx_safe_id (''request-'' @ take 12 (mq_request_hex q))" "ends mx_safe_id (''corr-'' @ take 12 (mq_corr_hex q))"
    using assms(1) take_safe [OF _ route_prefixes(1)] take_safe [OF _ route_prefixes(2)] by (auto simp: route_ready_def)
  have "valid ?V s_context (JObj (mail_context p))"
    unfolding s_context_def mail_context_def context_fields_def using assms(1) route_prefixes(3-5)
    by (intro object_ok; simp add: field_fits_rec s_id_def valid_s_match ends_def route_ready_def)
  moreover have "valid ?V s_input (JObj [(''media_type'', JStr ''eml''), (''sha256'', JStr digest), (''size_bytes'', JInt n),
         (''staged_uri'', JStr ''evidence://synthetic/email-synthetic-001''), (''read_only'', JBool True)])"
    unfolding s_input_def using assms(2,3)
    by (intro object_ok; simp add: field_fits_rec schema_simps s_sha_def ends_def s_count_def at_least_def)
  moreover have "valid ?V s_toolchain (JObj [(''worker_version'', JStr ''1.0.0''), (''mxray_version'', JStr ''stdlib-core-1.0.0''),
         (''parser_versions'', JObj [(''email'', JStr ''stdlib'')])])"
    unfolding s_toolchain_def by (intro object_ok; simp add: field_fits_rec schema_simps s_type_def on_obj_def fits_def)
  moreover have "valid ?V (s_object [''key'', ''scope''] [(''key'', s_key), (''scope'', s_text)])
      (JObj [(''key'', JStr key), (''scope'', JStr (tenant_id p @ ''/synthetic-case-001''))])"
    using assms(4) by (intro object_ok; simp add: field_fits_rec schema_simps s_key_def ends_def)
  moreover have "valid ?V (s_object [''correlation_id'', ''requested_by'', ''event_type'']
         [(''correlation_id'', s_id), (''requested_by'', s_id), (''event_type'', SConst (JStr ''mxray.email.analyze''))])
      (JObj [(''correlation_id'', JStr (''corr-'' @ take 12 (mq_corr_hex q))), (''requested_by'', JStr (analyst_id p)),
         (''event_type'', JStr ''mxray.email.analyze'')])"
    using assms(1) ids(2) by (intro object_ok; simp add: field_fits_rec s_id_def valid_s_match ends_def route_ready_def)
  ultimately show ?thesis
    unfolding request_schema_def mail_payload_def using assms(1) ids(1)
    by (intro object_ok; simp add: request_keys_def field_fits_rec mail_policies_ok mail_limits_ok contract_version_def s_id_def
        valid_s_match s_instant_def schema_simps on_str_def route_ready_def)
qed

lemma mail_payload_clean: "clean_json (JObj (mail_payload p key digest n q))"
  by (simp add: mail_payload_def mail_context_def mail_policies_def mail_limits_def all_safe_names)

lemma mail_payload_accepted:
  assumes "route_ready A p q" "sha_text digest" "0 \<le> n" "mail_job_key A (tenant_id p) digest = Inr key" "key_text key"
  shows "mx_validate_request (mx_lib.truncate (ma_lib A)) (JObj (mail_payload p key digest n q)) = Inr (mail_payload p key digest n q)"
proof -
  let ?r = "mail_payload p key digest n q"
  have "validated (mx_lib.truncate (ma_lib A)) request_schema m (JObj ?r) = Inr ?r" for m
    using mail_payload_valid [OF assms(1-3,5)] by (simp add: validated_Inr mx_lib.truncate_def)
  moreover have "reject_unsafe (JObj ?r) ''contract'' = Inr ()"
    using mail_payload_clean [of p key digest n q] unfolding reject_unsafe_iff clean_json_def .
  moreover have c: "fsub ?r ''context'' = mail_context p" "fsub ?r ''input'' = [(''media_type'', JStr ''eml''), (''sha256'', JStr digest),
      (''size_bytes'', JInt n), (''staged_uri'', JStr ''evidence://synthetic/email-synthetic-001''), (''read_only'', JBool True)]"
    "fsub ?r ''policies'' = mail_policies" "dget (fsub ?r ''toolchain'') ''worker_version'' = JStr ''1.0.0''"
    "dget (fsub ?r ''idempotency'') ''key'' = JStr key"
    by (simp_all add: mail_payload_def fsub_def dget_def)
  moreover have "dget (fsub mail_policies ''enrichment'') ''enabled'' = JBool False" by (simp add: mail_policies_def fsub_def dget_def)
  moreover have "\<exists>ys. r_map (unsafe_id (mail_context p)) context_fields = Inr ys"
    by (rule r_map_unit) (use assms(1) route_prefixes(3-5) in
      \<open>auto simp: unsafe_id_def context_fields_def mail_context_def ftext_def dget_def route_ready_def\<close>)
  moreover have "expected_key (mx_lib.truncate (ma_lib A)) ?r = Inr key"
    using assms(4) c(1,2,4) by (simp add: expected_key_def context_fields_def mail_context_def mail_job_key_def dget_def)
  ultimately show ?thesis by (auto simp: mx_validate_request_def Let_def)
qed

lemma analysis_answers:
  assumes "require_scopes [''cases:write''] p = Inr p" "dget d ''evidence_id'' = JStr ''email-synthetic-001''" "route_ready A p q" "mail_ok s"
    and "mail_source A (ms_fs s) = (f, Inr bytes)" "\<And>b. read_file (mw_os (ma_lib A)) (mail_file A) f = Inr b \<Longrightarrow> soft_on (ma_lib A) b"
    and "\<And>t. sha_text (sha_of (ma_lib A) t)"
    and "\<And>t. length (sha_b64 (mx_host (ma_lib A)) t) = 43 \<and> list_all key_char (sha_b64 (mx_host (ma_lib A)) t)"
  shows "\<exists>jid st res. snd (mail_step A (MailAnalyze d q p) s) = Inr (job_answer jid st res)"
proof -
  let ?L = "ma_lib A"
  let ?digest = "sha_of ?L bytes"
  have "tenant_id p \<noteq> []" "?digest \<noteq> []" using assms(3) assms(7) [of bytes] by (auto simp: route_ready_def mx_safe_id_def sha_text_def)
  then obtain key where key: "mail_job_key A (tenant_id p) ?digest = Inr key" "key_text key"
    using assms(8) by (auto simp: mail_job_key_def mx_idempotency_key_def key_text_def mx_lib.truncate_def)
  let ?r = "mail_payload p key ?digest (int (length bytes)) q"
  have r: "mx_validate_request (mx_lib.truncate ?L) (JObj ?r) = Inr ?r"
    by (rule mail_payload_accepted [OF assms(3) assms(7) _ key]) simp
  have "ends mx_safe_id ''mxray-local''" by code_simp
  then obtain res where res: "mx_process ?L (JObj ?r) (mail_file A) ''mxray-local'' (mq_worker_now q) f = Inr res"
    using process_answers [OF r _ _ _ assms(7), of "mail_file A" f "''mxray-local''" "mq_worker_now q"] assms(3,6)
    by (auto simp: route_ready_def soft_staged_def)
  have filed: "\<exists>jid st v. snd (file_job p key ?r res (mq_job_hex q) (s\<lparr>ms_fs := f\<rparr>)) = Inr (job_answer jid st v)"
  proof (cases "map_of (ms_by_key s) (tenant_id p, key)")
    case None
    then show ?thesis by (auto simp: file_job_def Let_def)
  next
    case (Some jid)
    with mail_okD(2) [OF assms(4)] obtain j where "map_of (ms_jobs s) jid = Some j" by blast
    with Some show ?thesis by (auto simp: file_job_def)
  qed
  show ?thesis using filed
    by (simp add: mail_step_def assms(1,2,5) mxray_analyze_def key(1) res)
qed

text \<open>An authorised analyst is answered: when the message can be staged, the identifiers and the clock are well
  formed and the readers raise only what the worker catches, the request the route builds passes
  the contract and the analysis ends in a filed job, never in an internal error.\<close>

theorem authorised_analysis_is_answered:
  assumes "require_scopes [''cases:write''] p = Inr p" "dget d ''evidence_id'' = JStr ''email-synthetic-001''" "route_ready A p q" "mail_ok s"
    and "mail_source A (ms_fs s) = (f, Inr bytes)" "\<And>b. read_file (mw_os (ma_lib A)) (mail_file A) f = Inr b \<Longrightarrow> soft_on (ma_lib A) b"
    and "\<And>t. sha_text (sha_of (ma_lib A) t)"
    and "\<And>t. length (sha_b64 (mx_host (ma_lib A)) t) = 43 \<and> list_all key_char (sha_b64 (mx_host (ma_lib A)) t)"
  shows "\<exists>jid st res. snd (mail_step A (MailAnalyze d q p) s) = Inr (job_answer jid st res)"
  using analysis_answers [OF assms(1-6)] assms(7,8) by blast

section \<open>A concrete analysis\<close>

definition route_app :: mail_app where
  "route_app = \<lparr>ma_lib = mail_lib\<lparr>mw_parse := (\<lambda>b. Inl (Soft ''ValueError''))\<rparr>, ma_root = [''w''], ma_message = ''mail''\<rparr>"

definition route_user :: principal where
  "route_user = \<lparr>tenant_id = ''t1'', analyst_id = ''a1'', is_synthetic = True, subject = None, roles = [], scopes = [''cases:write'']\<rparr>"

definition route_world :: "string \<Rightarrow> mail_world" where
  "route_world h = \<lparr>mq_request_hex = ''a'', mq_corr_hex = ''b'', mq_job_hex = h, mq_now = ''t'', mq_worker_now = ''t''\<rparr>"

definition route_disk :: fs where "route_disk = [([], Dir 493), ([''w''], Dir 448)]"

definition route_payload :: dict where "route_payload = [(''evidence_id'', JStr ''email-synthetic-001'')]"

definition route_call :: mail_call where "route_call = MailAnalyze route_payload (route_world ''c'') route_user"

lemma route_facts:
  "require_scopes [''cases:write''] route_user = Inr route_user" "dget route_payload ''evidence_id'' = JStr ''email-synthetic-001''"
  "mail_ok (no_mail f)"
  by (simp_all add: require_scopes_def route_user_def route_payload_def dget_def mail_ok_def no_mail_def)

lemma route_runs: "route_ready route_app route_user (route_world ''c'')"
  "snd (mail_source route_app route_disk) = Inr ''mail''"
  "snd (mail_source route_app (fst (mail_source route_app route_disk))) = Inr ''mail''"
  by code_simp+

lemma route_lib: "soft_on (ma_lib route_app) b" "sha_text (sha_of (ma_lib route_app) t)"
  "length (sha_b64 (mx_host (ma_lib route_app)) t) = 43 \<and> list_all key_char (sha_b64 (mx_host (ma_lib route_app)) t)"
  "os_plain (mw_os (ma_lib route_app))"
  using mail_lib_plain(2) [of t] demo_plain
  by (simp_all add: route_app_def soft_on_def mail_lib_def sha_of_def list_all_iff key_char_def is_alnum_def is_alpha_def)

definition route_state :: mail_state where
  "route_state = fst (mail_step route_app route_call (no_mail route_disk))"

lemma route_state_run: "route_state = fst (run_ops (mail_step route_app) [route_call] (no_mail route_disk))"
  by (simp add: route_state_def split_beta)

lemma route_state_ok: "mail_ok route_state"
  using mail_reach_ok [OF _ route_state_run] by (simp add: mail_ids_def route_call_def)

lemma route_answers:
  assumes "mail_ok s" "snd (mail_source route_app (ms_fs s)) = Inr ''mail''"
  shows "\<exists>jid st res. snd (mail_step route_app route_call s) = Inr (job_answer jid st res)"
  using analysis_answers [OF route_facts(1,2) route_runs(1) assms(1) _ route_lib(1) route_lib(2,3), of "fst (mail_source route_app (ms_fs s))" "''mail''"] assms(2)
  by (simp add: route_call_def prod_eq_iff)

lemma route_start: "snd (mail_source route_app (ms_fs (no_mail route_disk))) = Inr ''mail''" "no_links (ms_fs (no_mail route_disk))"
  using route_runs(2) by (auto simp: no_mail_def no_links_def is_symlink_def lookup_def route_disk_def split: option.splits node.splits if_splits)

lemma route_again: "snd (mail_source route_app (ms_fs route_state)) = Inr ''mail''"
proof -
  obtain out where "mail_step route_app route_call (no_mail route_disk) = (route_state, out)"
    by (cases "mail_step route_app route_call (no_mail route_disk)") (simp add: route_state_def)
  from mail_step_fs [OF this] show ?thesis using route_runs(2,3) by (auto simp: no_mail_def)
qed

theorem authorised_analysis_is_answered_witness:
  "\<exists>jid st res. snd (mail_step route_app (MailAnalyze route_payload (route_world ''c'') route_user) (no_mail route_disk)) = Inr (job_answer jid st res)"
proof -
  have "mail_source route_app (ms_fs (no_mail route_disk)) = (fst (mail_source route_app route_disk), Inr ''mail'')"
    using route_runs(2) by (simp add: no_mail_def prod_eq_iff)
  from authorised_analysis_is_answered [OF route_facts(1,2) route_runs(1) route_facts(3) this route_lib(1,2,3)]
  show ?thesis .
qed

theorem mail_is_filed_once_per_tenant_witness:
  "\<exists>a a'. snd (mail_step route_app route_call (no_mail route_disk)) = Inr a \<and> snd (mail_step route_app route_call route_state) = Inr a' \<and>
     dget a' ''job_id'' = dget a ''job_id''"
proof -
  obtain a a' where a: "snd (mail_step route_app route_call (no_mail route_disk)) = Inr a" "snd (mail_step route_app route_call route_state) = Inr a'"
    using route_answers [OF route_facts(3) route_start(1)] route_answers [OF route_state_ok route_again] by blast
  have "mail_step route_app (MailAnalyze route_payload (route_world ''c'') route_user) (no_mail route_disk) = (route_state, Inr a)"
    using a(1) by (simp add: route_call_def route_state_def prod_eq_iff)
  moreover have "mail_step route_app (MailAnalyze route_payload (route_world ''c'') route_user) (fst (run_ops (mail_step route_app) [] route_state)) =
      (fst (mail_step route_app route_call route_state), Inr a')"
    using a(2) by (simp add: route_call_def prod_eq_iff)
  moreover have "clean_path (ma_root route_app)" by (simp add: route_app_def)
  ultimately have "dget a' ''job_id'' = dget a ''job_id''"
    using mail_is_filed_once_per_tenant [OF route_lib(4) route_start(2)] by blast
  with a show ?thesis by blast
qed

theorem mail_jobs_settle_once_witness:
  "\<exists>jid j. map_of (ms_jobs route_state) jid = Some j \<and> mail_job_ok j"
proof -
  obtain a where "snd (mail_step route_app route_call (no_mail route_disk)) = Inr a" using route_answers [OF route_facts(3) route_start(1)] by blast
  then have "mail_step route_app route_call (no_mail route_disk) = (route_state, Inr a)" by (simp add: route_state_def prod_eq_iff)
  from mail_answer_owner [OF this route_facts(3) route_state_ok] obtain jid j where j: "map_of (ms_jobs route_state) jid = Some j"
    by (auto simp: route_call_def)
  obtain s' out where "mail_step route_app (MailEvidence route_user) route_state = (s', out)"
    by (cases "mail_step route_app (MailEvidence route_user) route_state")
  from mail_jobs_settle_once [OF _ route_state_run this j] j show ?thesis by (auto simp: mail_ids_def route_call_def)
qed

end
