(* ===== verification/Byte_Codec.thy ===== *)
theory Byte_Codec
  imports Prelude
begin

text \<open>
  Reading integers out of bytes: slices of a byte string (\<^verbatim>\<open>seek\<close> and \<^verbatim>\<open>read\<close>), \<^verbatim>\<open>struct.unpack\<close>
  of little-endian fields and \<^verbatim>\<open>int.from_bytes\<close>, with the encoders they invert.
\<close>

definition bytes_at :: "nat \<Rightarrow> nat \<Rightarrow> string \<Rightarrow> string" where
  "bytes_at off n b = take n (drop off b)"

definition le_nat :: "string \<Rightarrow> nat" where
  "le_nat b = foldr (\<lambda>c n. of_char c + 256 * n) b 0"

definition be_nat :: "string \<Rightarrow> nat" where
  "be_nat b = le_nat (rev b)"

fun le_bytes :: "nat \<Rightarrow> nat \<Rightarrow> string" where
  "le_bytes 0 n = []"
| "le_bytes (Suc k) n = char_of (n mod 256) # le_bytes k (n div 256)"

named_theorems wb_bytes

lemma le_nat_simps [wb_bytes]: "le_nat [] = 0" "le_nat (c # b) = of_char c + 256 * le_nat b"
  by (simp_all add: le_nat_def)

lemma length_le_bytes [wb_bytes]: "length (le_bytes k n) = k"
  by (induction k arbitrary: n) auto

lemma of_char_bound: "(of_char c :: nat) < 256"
  by (metis of_char_mod_256 mod_less_divisor zero_less_numeral)

lemma le_nat_bound: "le_nat b < 256 ^ length b"
proof (induction b)
  case (Cons c b)
  have "256 * (le_nat b + 1) \<le> 256 * 256 ^ length b" using Cons by simp
  moreover have "of_char c + 256 * le_nat b < 256 * (le_nat b + 1)" using of_char_bound [of c] by simp
  ultimately have "of_char c + 256 * le_nat b < 256 * 256 ^ length b" by (rule less_le_trans [rotated])
  then show ?case by (simp add: wb_bytes)
qed (simp add: wb_bytes)

text \<open>Decoding undoes encoding up to the width, and encoding undoes decoding.\<close>

lemma le_nat_bytes: "le_nat (le_bytes k n) = n mod 256 ^ k"
proof (induction k arbitrary: n)
  case (Suc k)
  have "n mod 256 + 256 * (n div 256 mod 256 ^ k) = n mod (256 * 256 ^ k)"
    by (simp add: mod_mult2_eq)
  with Suc show ?case by (simp add: wb_bytes)
qed (simp add: wb_bytes)

lemma le_bytes_nat: "le_bytes (length b) (le_nat b) = b"
proof (induction b)
  case (Cons c b)
  have "(of_char c + 256 * le_nat b) mod 256 = (of_char c :: nat)" "(of_char c + 256 * le_nat b) div 256 = le_nat b"
    using of_char_bound [of c] by simp_all
  with Cons show ?case by (simp add: wb_bytes)
qed simp

lemma bytes_at_length [wb_bytes]: "length (bytes_at off n b) = min n (length b - off)"
  by (simp add: bytes_at_def)

lemma bytes_at_here: "length b = n \<Longrightarrow> bytes_at 0 n (b @ c) = b"
  by (simp add: bytes_at_def)

lemma bytes_at_skip: "length b \<le> off \<Longrightarrow> bytes_at off n (b @ c) = bytes_at (off - length b) n c"
  by (simp add: bytes_at_def)

lemma bytes_at_before: "off + n \<le> length b \<Longrightarrow> bytes_at off n (b @ c) = bytes_at off n b"
  by (simp add: bytes_at_def)

end
