(* ===== verification/Disk_Image.thy ===== *)
theory Disk_Image
  imports File_System Byte_Codec
begin

text \<open>
  Format detection and partition tables of \<^verbatim>\<open>adapters/disk_memory_adapter.py\<close>, as functions on
  the bytes of the image.  A seek can fail: Python refuses offsets beyond 63 bits, the file
  system those beyond its own limit, which is a parameter.
\<close>

section \<open>Bounded reads\<close>

definition read_at :: "nat \<Rightarrow> string \<Rightarrow> nat \<Rightarrow> nat \<Rightarrow> sys_error + string" where
  "read_at seek_max b off n =
     (if 2 ^ 63 \<le> off then Inl (PyErr ''ValueError'')
      else if seek_max < off then Inl (OsError ''OSError'')
      else Inr (bytes_at off n b))"

definition raw_bytes :: "nat list \<Rightarrow> string" where
  "raw_bytes ns = map char_of ns"

section \<open>Formats\<close>

definition supported_images :: "string list" where
  "supported_images = [''raw'', ''img'', ''vhd'', ''vhdx'', ''vmdk'', ''qcow2'', ''ewf'']"

definition ewf_signature :: string where
  "ewf_signature = ''EVF'' @ raw_bytes [9, 13, 10, 255, 0]"

definition detect_image :: "string \<Rightarrow> string \<times> string" where
  "detect_image b =
     (let head = take 4096 b; size = length b in
      if 512 \<le> size \<and> bytes_at (size - 512) 8 b = ''conectix'' then (''vhd'', ''VHD footer (conectix)'')
      else if take 8 head = ''vmdk'' @ raw_bytes [0, 0, 0, 0] \<or> contains ''# Disk DescriptorFile'' (take 1024 head)
      then (''vmdk'', ''VMDK signature/descriptor'')
      else if take 4 head = ''QFI'' @ raw_bytes [251] then (''qcow2'', ''QCOW2 magic'')
      else if take 8 head = ewf_signature then (''ewf'', ''Expert Witness Format'')
      else (''raw'', ''raw byte stream''))"

definition elf_file :: string where "elf_file = ''ElfFile'' @ raw_bytes [0]"

definition detect_memory :: "string \<Rightarrow> string \<Rightarrow> string \<times> string" where
  "detect_memory ext b =
     (let h = take 4096 b in
      if ext = ''.evtx'' \<or> take 8 h = elf_file \<and> contains ''ElfChnk'' (bytes_at 4096 4096 b)
      then (''windows-event-log'', ''Windows event-log header/chunk'')
      else if ext = ''.etl'' \<or> take 8 h = elf_file \<or> take 4 h = ''ETL'' @ raw_bytes [0]
      then (''windows-etl'', ''Windows ETL/event-trace marker'')
      else if take 4 h = raw_bytes [127] @ ''ELF'' then (''elf-memory'', ''ELF header'')
      else if take 4 h \<in> {''DUMP'', ''DU64''} \<or> contains ''PAGE'' (take 64 h) then (''windows-crash-dump'', ''Windows dump marker'')
      else if take 7 h = ''VMCORE'' @ raw_bytes [0] then (''vmcore'', ''vmcore marker'')
      else (''raw-memory'', ''no recognized dump header; treated as opaque bytes''))"

section \<open>Partition tables\<close>

record partition =
  pt_index :: nat
  pt_offset :: nat
  pt_length :: nat
  pt_type :: string
  pt_fs :: "string option"

definition hex_byte :: "char \<Rightarrow> string" where
  "hex_byte c = [hex_char (of_char c div 16), hex_char (of_char c mod 16)]"

definition hex_bytes :: "string \<Rightarrow> string" where
  "hex_bytes b = concat (map hex_byte b)"

definition mbr_entry :: "string \<Rightarrow> nat \<Rightarrow> partition option" where
  "mbr_entry b i =
     (let e = bytes_at (446 + i * 16) 16 b; typ = e ! 4;
          first = le_nat (bytes_at 8 4 e); sectors = le_nat (bytes_at 12 4 e) in
      if (of_char typ :: nat) \<noteq> 0 \<and> sectors \<noteq> 0
      then Some \<lparr>pt_index = i, pt_offset = first * 512, pt_length = sectors * 512, pt_type = ''mbr-0x'' @ hex_byte typ, pt_fs = None\<rparr>
      else None)"

definition parse_mbr :: "string \<Rightarrow> partition list" where
  "parse_mbr img =
     (let b = take 512 img in
      if length b < 512 \<or> bytes_at 510 2 b \<noteq> raw_bytes [85, 170] then []
      else List.map_filter (mbr_entry b) [0..<4])"

text \<open>An entry shorter than its unique GUID and its two bounds makes \<^verbatim>\<open>unpack_from\<close> raise.\<close>

definition gpt_entry :: "nat \<Rightarrow> string \<Rightarrow> nat \<Rightarrow> nat \<Rightarrow> sys_error + partition option" where
  "gpt_entry seek_max img esz i =
     r_bind (read_at seek_max img (2 * 512 + i * esz) esz) (\<lambda>e.
       if length e < esz \<or> \<not> list_ex (\<lambda>c. (of_char c :: nat) \<noteq> 0) (take 16 e) then Inr None
       else if length e < 48 then Inl (PyErr ''struct.error'')
       else let a = le_nat (bytes_at 32 8 e); z = le_nat (bytes_at 40 8 e) in
         if a \<le> z
         then Inr (Some \<lparr>pt_index = i, pt_offset = a * 512, pt_length = (z - a + 1) * 512,
                pt_type = ''gpt-'' @ hex_bytes (take 16 e), pt_fs = None\<rparr>)
         else Inr None)"

definition gpt_max_entries :: nat where "gpt_max_entries = 4096"

definition parse_gpt :: "nat \<Rightarrow> string \<Rightarrow> sys_error + partition list" where
  "parse_gpt seek_max img =
     r_bind (read_at seek_max img 512 96) (\<lambda>h.
       if length h < 96 \<or> take 8 h \<noteq> ''EFI PART'' then Inr []
       else let nent = le_nat (bytes_at 88 4 h); esz = le_nat (bytes_at 92 4 h) in
         r_bind (r_map (gpt_entry seek_max img esz) [0..<min nent gpt_max_entries]) (\<lambda>ps.
           Inr (List.map_filter id ps)))"

definition fs_at :: "nat \<Rightarrow> string \<Rightarrow> nat \<Rightarrow> sys_error + string option" where
  "fs_at seek_max img off =
     r_bind (read_at seek_max img off 4096) (\<lambda>b.
       if 3 \<le> length b \<and> take 3 b \<in> {''NTFS''} then Inr (Some ''ntfs'')
       else if 90 \<le> length b \<and> bytes_at 3 8 b = ''EXFAT   '' then Inr (Some ''exfat'')
       else if 90 \<le> length b \<and> bytes_at 54 8 b \<in> {''FAT12   '', ''FAT16   '', ''FAT32   ''} then Inr (Some ''fat'')
       else r_bind (if 67 \<le> length b then r_bind (read_at seek_max img (off + 56) 2) (\<lambda>m. Inr (m = raw_bytes [83, 239])) else Inr False) (\<lambda>ext.
         if ext then Inr (Some ''ext'')
         else if 4 \<le> length b \<and> take 4 b = ''XFSB'' then Inr (Some ''xfs'')
         else Inr None))"

definition with_filesystem :: "nat \<Rightarrow> string \<Rightarrow> partition \<Rightarrow> sys_error + partition" where
  "with_filesystem seek_max img p =
     r_bind (fs_at seek_max img (pt_offset p)) (\<lambda>k. Inr (p\<lparr>pt_fs := k\<rparr>))"

definition partitions :: "nat \<Rightarrow> string \<Rightarrow> sys_error + partition list" where
  "partitions seek_max img =
     r_bind (parse_gpt seek_max img) (\<lambda>gpt.
       r_map (with_filesystem seek_max img) (if gpt = [] then parse_mbr img else gpt))"

definition optional_str :: "string option \<Rightarrow> json" where
  "optional_str v = (case v of None \<Rightarrow> JNull | Some s \<Rightarrow> JStr s)"

definition partition_json :: "partition \<Rightarrow> json" where
  "partition_json p = JObj [(''index'', JInt (int (pt_index p))), (''offset_bytes'', JInt (int (pt_offset p))),
     (''length_bytes'', JInt (int (pt_length p))), (''type'', JStr (pt_type p)), (''filesystem'', optional_str (pt_fs p))]"

end
