(* ===== verification/Ewf.thy ===== *)
theory Ewf
  imports Disk_Image Posix_Path
begin

text \<open>
  \<^verbatim>\<open>ewf.py\<close>: the segments of an Expert Witness acquisition, their bounded inventory, the limit
  check, and the optional raw view through an external tool.  Modification times, the text of an
  operating-system error, the seek limit and the external programs are parameters.
\<close>

datatype tool_run = Ran int string string | NotRun string

record disk_lib =
  dl_os :: os
  dl_mtime :: "fs \<Rightarrow> path \<Rightarrow> string"
  dl_seek :: nat
  dl_err :: "sys_error \<Rightarrow> string"
  dl_which :: "string \<Rightarrow> string option"
  dl_run :: "string \<Rightarrow> string list \<Rightarrow> tool_run"

definition abs_text :: "path \<Rightarrow> string" where
  "abs_text p = ''/'' @ join ''/'' p"

definition leaf :: "path \<Rightarrow> string" where
  "leaf p = (if p = [] then [] else last p)"

definition content_sha :: "disk_lib \<Rightarrow> path \<Rightarrow> fs \<Rightarrow> sys_error + string" where
  "content_sha L p f = r_bind (read_file (dl_os L) p f) (\<lambda>c. Inr (sha_bytes (dl_os L) c))"

section \<open>Segments\<close>

definition two_digits :: "string \<Rightarrow> bool" where
  "two_digits s = (2 \<le> length s \<and> list_all is_digit s)"

definition segment_suffix :: "string \<Rightarrow> bool" where
  "segment_suffix s =
     (let t = lower s; u = (if t \<noteq> [] \<and> last t = CHR 0x0A then butlast t else t) in
      prefix ''e'' u \<and> two_digits (drop 1 u) \<or> prefix ''ex'' u \<and> two_digits (drop 2 u))"

text \<open>The lazy stem is the shortest non-empty prefix before a segment suffix.\<close>

fun stem_from :: "string \<Rightarrow> string \<Rightarrow> string option" where
  "stem_from acc [] = None"
| "stem_from acc (c # cs) =
     (if acc \<noteq> [] \<and> segment_suffix (c # cs) then Some acc
      else if c = CHR 0x0A then None else stem_from (acc @ [c]) cs)"

definition segment_stem :: "string \<Rightarrow> string option" where
  "segment_stem n = stem_from [] n"

definition segment_candidates :: "disk_lib \<Rightarrow> path \<Rightarrow> fs \<Rightarrow> path list" where
  "segment_candidates L src f = filter (\<lambda>p. is_file (dl_os L) f p \<and> \<not> is_symlink f p) (iterdir (butlast src) f)"

definition segment_paths :: "disk_lib \<Rightarrow> path \<Rightarrow> fs \<Rightarrow> path list" where
  "segment_paths L src f =
     (case segment_stem (leaf src) of
        None \<Rightarrow> [src]
      | Some stem \<Rightarrow>
          (let selected = filter (\<lambda>p. case segment_stem (leaf p) of None \<Rightarrow> False | Some s \<Rightarrow> lower s = lower stem)
                 (segment_candidates L src f) in
           sort_key (\<lambda>p. lower (leaf p)) (if selected = [] then [src] else selected)))"

definition detect_ewf :: "disk_lib \<Rightarrow> path \<Rightarrow> fs \<Rightarrow> bool \<times> string" where
  "detect_ewf L src f =
     (case read_file (dl_os L) src f of
        Inl e \<Rightarrow> (False, ''source unreadable'')
      | Inr c \<Rightarrow>
          (if take 8 c = ewf_signature then (True, ''EWF signature'')
           else if lower (path_suffix (leaf src)) \<in> {''.e01'', ''.ex01''} then (False, ''EWF segment extension without a valid signature'')
           else (False, ''not an EWF segment'')))"

section \<open>Inventory and limits\<close>

record ewf_segment =
  es_path :: string
  es_size :: int
  es_sha :: string
  es_source :: nat

datatype ewf_fault = SegmentLimit string | SegmentUnreadable string string

record ewf_listing =
  ei_total :: int
  ei_segments :: "ewf_segment list"
  ei_errors :: "ewf_fault list"

text \<open>The size that exceeds the limit stays in the sum; an unreadable segment is passed over.\<close>

fun scan_segments :: "disk_lib \<Rightarrow> fs \<Rightarrow> int \<Rightarrow> ewf_listing \<Rightarrow> path list \<Rightarrow> ewf_listing" where
  "scan_segments L f limit s [] = s"
| "scan_segments L f limit s (p # ps) =
     (case file_size (dl_os L) p f of
        Inl e \<Rightarrow> scan_segments L f limit (s\<lparr>ei_errors := ei_errors s @ [SegmentUnreadable (leaf p) (dl_err L e)]\<rparr>) ps
      | Inr n \<Rightarrow>
          (let s1 = s\<lparr>ei_total := ei_total s + n\<rparr> in
           if limit < ei_total s1 then s1\<lparr>ei_errors := ei_errors s1 @ [SegmentLimit (leaf p)]\<rparr>
           else (case content_sha L p f of
                   Inl e \<Rightarrow> scan_segments L f limit (s1\<lparr>ei_errors := ei_errors s1 @ [SegmentUnreadable (leaf p) (dl_err L e)]\<rparr>) ps
                 | Inr h \<Rightarrow> scan_segments L f limit
                     (s1\<lparr>ei_segments := ei_segments s1 @
                        [\<lparr>es_path = leaf p, es_size = n, es_sha = h, es_source = length (ei_segments s1) + 1\<rparr>]\<rparr>) ps)))"

definition ewf_inventory :: "disk_lib \<Rightarrow> path \<Rightarrow> int \<Rightarrow> fs \<Rightarrow> ewf_listing" where
  "ewf_inventory L src limit f =
     scan_segments L f limit \<lparr>ei_total = 0, ei_segments = [], ei_errors = []\<rparr> (segment_paths L src f)"

definition ewf_status :: "ewf_listing \<Rightarrow> string" where
  "ewf_status s = (if ei_segments s \<noteq> [] \<and> ei_errors s = [] then ''valid''
     else if ei_segments s \<noteq> [] then ''degraded'' else ''unsupported'')"

definition segment_json :: "ewf_segment \<Rightarrow> json" where
  "segment_json e = JObj [(''path'', JStr (es_path e)), (''size'', JInt (es_size e)), (''sha256'', JStr (es_sha e)),
     (''source_id'', JStr (''ewf-segment:'' @ dec_nat (es_source e))), (''kind'', JStr ''ewf_segment''), (''allocated'', JBool True)]"

fun fault_json :: "ewf_fault \<Rightarrow> json" where
  "fault_json (SegmentLimit p) = JObj [(''code'', JStr ''FILE_LIMIT_EXCEEDED''), (''path'', JStr p)]"
| "fault_json (SegmentUnreadable p m) = JObj [(''code'', JStr ''SEGMENT_UNREADABLE''), (''path'', JStr p), (''message'', JStr m)]"

definition ewf_json :: "path \<Rightarrow> ewf_listing \<Rightarrow> json" where
  "ewf_json src s = JObj [(''format'', JStr ''ewf''), (''segment_count'', JInt (int (length (ei_segments s)))),
     (''segments'', JList (map segment_json (ei_segments s))), (''total_bytes'', JInt (ei_total s)),
     (''status'', JStr (ewf_status s)), (''errors'', JList (map fault_json (ei_errors s))),
     (''provenance'', JObj [(''source_path'', JStr (abs_text src)),
        (''segment_order'', JList (map (\<lambda>e. JStr (es_path e)) (ei_segments s)))])]"

fun segments_fit :: "disk_lib \<Rightarrow> fs \<Rightarrow> int \<Rightarrow> path list \<Rightarrow> sys_error + bool" where
  "segments_fit L f limit [] = Inr True"
| "segments_fit L f limit (p # ps) =
     r_bind (file_size (dl_os L) p f) (\<lambda>n. if limit < n then Inr False else segments_fit L f limit ps)"

definition limits_ok :: "disk_lib \<Rightarrow> path \<Rightarrow> int \<Rightarrow> int \<Rightarrow> fs \<Rightarrow> sys_error + (bool \<times> string option)" where
  "limits_ok L src max_file max_sum f =
     r_bind (segments_fit L f max_file (segment_paths L src f)) (\<lambda>fit.
       if \<not> fit then Inr (False, Some ''FILE_LIMIT_EXCEEDED: source segment exceeds max_file_bytes'')
       else if max_sum < ei_total (ewf_inventory L src max_sum f)
       then Inr (False, Some ''FILE_LIMIT_EXCEEDED: EWF segment set exceeds max_total_bytes'')
       else Inr (True, None))"

section \<open>The external tool\<close>

definition line_end :: "char \<Rightarrow> bool" where
  "line_end c = (let n = (of_char c :: nat) in 10 \<le> n \<and> n \<le> 13 \<or> 28 \<le> n \<and> n \<le> 30)"

definition first_line :: "string \<Rightarrow> string" where
  "first_line s = takeWhile (\<lambda>c. \<not> line_end c) s"

definition tool_output :: "string \<Rightarrow> string \<Rightarrow> string" where
  "tool_output out err = strip (if out = [] then err else out)"

definition tool_info :: "disk_lib \<Rightarrow> dict" where
  "tool_info L =
     (let base = (\<lambda>st. [(''name'', JStr ''libewf''), (''status'', JStr st), (''capability'', JStr ''raw_view'')]) in
      case dl_which L ''ewfmount'' of
        None \<Rightarrow> base ''unavailable'' @ [(''tool'', JNull)]
      | Some t \<Rightarrow>
          (if t = [] then base ''unavailable'' @ [(''tool'', JNull)]
           else (case dl_run L t [''-V''] of
              NotRun e \<Rightarrow> base ''degraded'' @ [(''tool'', JStr t), (''error'', JStr e)]
            | Ran rc out err \<Rightarrow>
                (let o1 = tool_output out err in
                 base ''available'' @ [(''tool'', JStr t), (''version'', JStr (if o1 = [] then ''unknown'' else first_line o1))]))))"

text \<open>
  The context manager: the body runs at the \<^verbatim>\<open>yield\<close> with what it is told; mounting is a change of
  the volume made by the tool, or the exception of \<^verbatim>\<open>subprocess.run\<close>; the mount directory, whose
  fresh name is a parameter, is removed whatever the body does.
\<close>

type_synonym 'a view_body = "dict \<Rightarrow> fs \<Rightarrow> fs \<times> (sys_error + 'a)"

definition last_chars :: "nat \<Rightarrow> string \<Rightarrow> string" where
  "last_chars n s = drop (length s - n) s"

definition mounted_view :: "disk_lib \<Rightarrow> path \<Rightarrow> int \<Rightarrow> (fs \<Rightarrow> fs \<times> (sys_error + int \<times> string)) \<Rightarrow> path \<Rightarrow> 'a view_body \<Rightarrow> fs \<Rightarrow>
    fs \<times> (sys_error + 'a)" where
  "mounted_view L src limit mount dir body f =
     (if ewf_status (ewf_inventory L src limit f) = ''unsupported''
      then body [(''status'', JStr ''unsupported''), (''reason'', JStr ''EWF segments exceed configured limits'')] f
      else (case mount f of
          (f1, Inl e) \<Rightarrow> (f1, Inl e)
        | (f1, Inr (rc, err)) \<Rightarrow>
            (if rc \<noteq> 0
             then body [(''status'', JStr ''degraded''), (''reason'', JStr ''libewf raw view failed''),
                    (''stderr'', JStr (last_chars 1000 err)), (''tool'', JObj (tool_info L))] f1
             else (let views = filter (is_file (dl_os L) f1) (iterdir dir f1) in
                   body [(''status'', JStr ''ready''), (''path'', if views = [] then JNull else JStr (abs_text (hd views))),
                         (''root'', JStr (abs_text dir)), (''tool'', JObj (tool_info L))] f1))))"

definition raw_view :: "disk_lib \<Rightarrow> path \<Rightarrow> path \<Rightarrow> int \<Rightarrow> string \<Rightarrow> (fs \<Rightarrow> fs \<times> (sys_error + int \<times> string)) \<Rightarrow> 'a view_body \<Rightarrow> fs \<Rightarrow>
    fs \<times> (sys_error + 'a)" where
  "raw_view L src out_root limit nm mount body f =
     (if dget (tool_info L) ''status'' \<noteq> JStr ''available''
      then body [(''status'', JStr ''degraded''), (''reason'', JStr ''libewf/ewfmount unavailable''), (''tool'', JObj (tool_info L))] f
      else (case r_bind (mkdir (dl_os L) 448 out_root True f) (mkdir (dl_os L) 448 (out_root @ [nm]) False) of
          Inl e \<Rightarrow> (f, Inl e)
        | Inr f1 \<Rightarrow>
            (case mounted_view L src limit mount (out_root @ [nm]) body f1 of
               (f2, r) \<Rightarrow> (rmtree_ignore (out_root @ [nm]) f2, r))))"

end
