(* ===== verification/Memory_Analysis.thy ===== *)
theory Memory_Analysis
  imports Ewf
begin

text \<open>
  \<^verbatim>\<open>memory_analysis.py\<close>: header detection, the profile gate over the capability matrix, bounded
  strings, and the report with its custody check.  Other processes may change the volume between
  two calls of one analysis: it reads from a sequence of volumes.
\<close>

section \<open>Capabilities\<close>

record capability =
  cp_formats :: "string list"
  cp_profiles :: "string list"
  cp_parser :: string
  cp_checks :: "string list"

definition linux_profiles :: "string list" where "linux_profiles = [''linux-x86_64'', ''linux-arm64'']"
definition linux_checks :: "string list" where
  "linux_checks = [''linux.pslist'', ''linux.pstree'', ''linux.lsmod'', ''linux.sockstat'']"

definition capability_matrix :: "(string \<times> capability) list" where
  "capability_matrix =
     [(''windows-crash-dump'', \<lparr>cp_formats = [''windows-crash-dump''], cp_profiles = [''windows-x86'', ''windows-x64''],
         cp_parser = ''volatility3'', cp_checks = [''pslist'', ''psscan'', ''dlllist'', ''netscan'']\<rparr>),
      (''linux-elf'', \<lparr>cp_formats = [''elf-memory''], cp_profiles = linux_profiles, cp_parser = ''volatility3'', cp_checks = linux_checks\<rparr>),
      (''linux-vmcore'', \<lparr>cp_formats = [''vmcore''], cp_profiles = linux_profiles, cp_parser = ''volatility3'', cp_checks = linux_checks\<rparr>),
      (''linux-crash'', \<lparr>cp_formats = [''linux-crash''], cp_profiles = linux_profiles, cp_parser = ''volatility3'', cp_checks = linux_checks\<rparr>)]"

definition str_list :: "string list \<Rightarrow> json" where
  "str_list xs = JList (map JStr xs)"

definition capability_json :: "capability \<Rightarrow> json" where
  "capability_json c = JObj [(''formats'', str_list (cp_formats c)), (''profiles'', str_list (cp_profiles c)),
     (''parser'', JStr (cp_parser c)), (''structured_checks'', str_list (cp_checks c))]"

section \<open>Detection\<close>

definition architecture :: "nat \<Rightarrow> string" where
  "architecture m = (if m = 62 then ''x86_64'' else if m = 183 then ''arm64'' else if m = 3 then ''x86''
     else if m = 40 then ''arm'' else ''unknown'')"

record elf_header =
  el_class :: string
  el_endian :: string
  el_machine :: nat
  el_arch :: string
  el_type :: nat
  el_abi :: nat

definition elf_details :: "string \<Rightarrow> elf_header option" where
  "elf_details b =
     (let h = take 64 b in
      if length h < 20 \<or> take 4 h \<noteq> raw_bytes [127] @ ''ELF'' then None
      else let little = ((of_char (h ! 5) :: nat) = 1); num = (if little then le_nat else be_nat);
               m = num (bytes_at 18 2 h); cls = (of_char (h ! 4) :: nat) in
        Some \<lparr>el_class = (if cls = 1 then ''32-bit'' else if cls = 2 then ''64-bit'' else ''unknown''),
              el_endian = (if little then ''little'' else ''big''), el_machine = m, el_arch = architecture m,
              el_type = num (bytes_at 16 2 h), el_abi = of_char (h ! 7)\<rparr>)"

record detection =
  dt_format :: string
  dt_platform :: "string option"
  dt_reason :: string
  dt_header :: "elf_header option option"
  dt_arch :: "string option"

definition found :: "string \<Rightarrow> string option \<Rightarrow> string \<Rightarrow> detection" where
  "found k plat why = \<lparr>dt_format = k, dt_platform = plat, dt_reason = why, dt_header = None, dt_arch = None\<rparr>"

text \<open>The first comparison with seven bytes is on a slice of eight, as the source has it.\<close>

definition detect_profile :: "string \<Rightarrow> detection" where
  "detect_profile b =
     (let head = take 4096 b in
      if take 4 head = raw_bytes [127] @ ''ELF''
      then (found ''elf-memory'' (Some ''linux-elf'') ''ELF header'')
             \<lparr>dt_header := Some (elf_details b), dt_arch := map_option el_arch (elf_details b)\<rparr>
      else if take 4 head \<in> {''DUMP'', ''DU64''} \<or> contains ''PAGE'' (take 64 head)
      then found ''windows-crash-dump'' (Some ''windows-crash-dump'') ''Windows dump marker''
      else if take 8 head = ''VMCORE'' @ raw_bytes [0] then found ''vmcore'' (Some ''linux-vmcore'') ''vmcore marker''
      else if take 8 head \<in> {''KDUMP'' @ raw_bytes [0, 0], ''CRASH'' @ raw_bytes [0, 0]}
      then found ''linux-crash'' (Some ''linux-crash'') ''Linux crash marker''
      else found ''raw-memory'' None ''unrecognized memory header'')"

definition header_json :: "elf_header option \<Rightarrow> json" where
  "header_json h = (case h of None \<Rightarrow> JObj [] | Some e \<Rightarrow>
     JObj [(''elf_class'', JStr (el_class e)), (''endianness'', JStr (el_endian e)), (''machine'', JInt (int (el_machine e))),
       (''architecture'', JStr (el_arch e)), (''elf_type'', JInt (int (el_type e))), (''os_abi'', JInt (int (el_abi e)))])"

definition detection_json :: "detection \<Rightarrow> json" where
  "detection_json d = JObj ([(''format'', JStr (dt_format d)), (''platform'', optional_str (dt_platform d)), (''reason'', JStr (dt_reason d))]
     @ (case dt_header d of None \<Rightarrow> [] | Some h \<Rightarrow> [(''header'', header_json h), (''detected_architecture'', optional_str (dt_arch d))]))"

section \<open>The profile gate\<close>

datatype profile_check =
    Unsupported "string option" string dict
  | ValidProfile "string option" string "string option"

definition non_blank :: "string option \<Rightarrow> bool" where
  "non_blank r = (r \<noteq> None \<and> r \<noteq> Some [])"

definition validate_profile :: "detection \<Rightarrow> string option \<Rightarrow> profile_check" where
  "validate_profile d requested =
     (case map_of capability_matrix (case dt_platform d of None \<Rightarrow> [] | Some p \<Rightarrow> p) of
        None \<Rightarrow> Unsupported requested ''memory format is not supported'' []
      | Some c \<Rightarrow>
          (let arch = dt_arch d; fits = (\<lambda>p. non_blank arch \<and> contains (the arch) p) in
           if non_blank requested \<and> the requested \<notin> set (cp_profiles c)
           then Unsupported requested ''profile is not supported for detected format'' [(''supported'', str_list (cp_profiles c))]
           else if non_blank arch \<and> \<not> list_ex fits (cp_profiles c)
           then Unsupported requested ''detected architecture has no supported profile'' [(''detected_architecture'', optional_str arch)]
           else (case (if non_blank requested then requested else find fits (cp_profiles c)) of
                   None \<Rightarrow> Unsupported requested ''profile must be selected explicitly for this dump'' []
                 | Some s \<Rightarrow> ValidProfile requested s arch)))"

fun is_valid :: "profile_check \<Rightarrow> bool" where
  "is_valid (Unsupported r m d) = False"
| "is_valid (ValidProfile r s a) = True"

fun profile_json :: "profile_check \<Rightarrow> json" where
  "profile_json (Unsupported r m d) = JObj ([(''status'', JStr ''unsupported''), (''requested'', optional_str r), (''reason'', JStr m)] @ d)"
| "profile_json (ValidProfile r s a) = JObj [(''status'', JStr ''valid''), (''requested'', optional_str r), (''selected'', JStr s),
     (''detected_architecture'', optional_str a)]"

section \<open>Tools\<close>

definition version_line :: "string \<Rightarrow> sys_error + string" where
  "version_line s = (if s = [] then Inl (PyErr ''IndexError'') else Inr (first_line s))"

definition discover_tool :: "disk_lib \<Rightarrow> string \<Rightarrow> sys_error + json" where
  "discover_tool L name =
     (let exe = dl_which L name;
          item = [(''name'', JStr name), (''available'', JBool (non_blank exe)), (''path'', optional_str exe),
            (''license'', JStr (if prefix ''vol'' name then ''GPL-2.0-or-later'' else ''binutils license''))] in
      if \<not> non_blank exe then Inr (JObj item)
      else (case dl_run L (the exe) [''--version''] of
              NotRun e \<Rightarrow> Inr (JObj (item @ [(''version'', JStr ''unknown'')]))
            | Ran rc out err \<Rightarrow>
                r_bind (if rc = 0 then version_line (tool_output out err) else Inr ''unknown'') (\<lambda>v.
                  Inr (JObj (item @ [(''version'', JStr v)])))))"

definition memory_tools :: "string list" where
  "memory_tools = [''volatility3'', ''vol.py'', ''volatility'', ''strings'']"

definition container_tool :: "disk_lib \<Rightarrow> json" where
  "container_tool L = (let podman = dl_which L ''podman'' in
     JObj [(''name'', JStr ''reviewed-parser-container''), (''available'', JBool (non_blank podman)), (''path'', optional_str podman),
       (''isolated'', JBool (non_blank podman)), (''pinned'', JBool False), (''version'', JStr ''unknown''),
       (''license'', JStr ''not established''), (''reason'', JStr ''no pinned parser image is bundled or configured'')])"

definition discover_tools :: "disk_lib \<Rightarrow> sys_error + json list" where
  "discover_tools L = r_bind (r_map (discover_tool L) memory_tools) (\<lambda>ts. Inr (ts @ [container_tool L]))"

section \<open>Residue\<close>

definition printable :: "char \<Rightarrow> bool" where
  "printable c = (let n = (of_char c :: nat) in 32 \<le> n \<and> n \<le> 126)"

text \<open>The maximal runs of printable bytes, left to right.\<close>

function printable_runs :: "string \<Rightarrow> string list" where
  "printable_runs [] = []"
| "printable_runs (c # cs) =
     (if printable c then takeWhile printable (c # cs) # printable_runs (dropWhile printable cs)
      else printable_runs cs)"
  by pat_completeness auto

termination
  by (relation "measure length") (auto simp: le_imp_less_Suc length_dropWhile_le)

definition bounded_strings :: "string \<Rightarrow> int \<Rightarrow> int \<Rightarrow> sys_error + string list" where
  "bounded_strings b limit max_bytes =
     (if limit < 0 \<or> max_bytes < 0 then Inl (PyErr ''ValueError'')
      else Inr (take (nat limit) (filter (\<lambda>r. 4 \<le> length r) (printable_runs (take (nat max_bytes) b)))))"

section \<open>Analysis\<close>

datatype memory_error = MemoryAnalysis string | MemoryRaise sys_error

definition mem :: "sys_error + 'a \<Rightarrow> memory_error + 'a" where
  "mem r = (case r of Inl e \<Rightarrow> Inl (MemoryRaise e) | Inr x \<Rightarrow> Inr x)"

record memory_report =
  mr_source :: path
  mr_size :: int
  mr_before :: string
  mr_detection :: detection
  mr_profile :: profile_check
  mr_tools :: "json list"
  mr_checks :: "string list"
  mr_limitation :: string
  mr_residue :: "string list"
  mr_after :: string

definition checks_for :: "detection \<Rightarrow> profile_check \<Rightarrow> sys_error + string list" where
  "checks_for d p =
     (if \<not> is_valid p then Inr []
      else (case dt_platform d of
              None \<Rightarrow> Inl (PyErr ''KeyError'')
            | Some k \<Rightarrow> (case map_of capability_matrix k of None \<Rightarrow> Inl (PyErr ''KeyError'') | Some c \<Rightarrow> Inr (cp_checks c))))"

definition analyze_memory :: "disk_lib \<Rightarrow> path \<Rightarrow> string option \<Rightarrow> int \<Rightarrow> (nat \<Rightarrow> fs) \<Rightarrow> memory_error + memory_report" where
  "analyze_memory L p requested limit v =
     r_bind (r_guard (\<not> is_symlink (v 0) p \<and> is_file (dl_os L) (v 0) p) (MemoryAnalysis ''memory source must be a regular file'')) (\<lambda>_.
     r_bind (mem (content_sha L p (v 1))) (\<lambda>before.
     r_bind (mem (read_file (dl_os L) p (v 2))) (\<lambda>head.
     r_bind (Inr (detect_profile head)) (\<lambda>d.
     r_bind (Inr (validate_profile d requested)) (\<lambda>profile.
     r_bind (mem (discover_tools L)) (\<lambda>tools.
     r_bind (mem (file_size (dl_os L) p (v 3))) (\<lambda>size.
     r_bind (mem (checks_for d profile)) (\<lambda>checks.
     r_bind (mem (read_file (dl_os L) p (v 4))) (\<lambda>bytes.
     r_bind (mem (bounded_strings bytes limit (2 * 1024 * 1024))) (\<lambda>residue.
     r_bind (mem (content_sha L p (v 5))) (\<lambda>after.
     r_bind (r_guard (before = after) (MemoryAnalysis ''memory source changed during analysis'')) (\<lambda>_.
     Inr \<lparr>mr_source = p, mr_size = size, mr_before = before, mr_detection = d, mr_profile = profile, mr_tools = tools,
       mr_checks = checks,
       mr_limitation = (if is_valid profile
         then ''Volatility execution is unavailable unless a reviewed pinned tool container is configured''
         else ''No parser or structured process/module/network claims are permitted without a valid profile''),
       mr_residue = residue, mr_after = after\<rparr>))))))))))))"

definition memory_json :: "memory_report \<Rightarrow> json" where
  "memory_json r = JObj
     [(''source'', JObj [(''path'', JStr (abs_text (mr_source r))), (''size'', JInt (mr_size r)), (''sha256'', JStr (mr_before r))]),
      (''detection'', detection_json (mr_detection r)), (''profile_validation'', profile_json (mr_profile r)), (''tools'', JList (mr_tools r)),
      (''capabilities'', JObj [(''status'', JStr (if is_valid (mr_profile r) then ''unavailable'' else ''unsupported'')),
         (''structured_checks'', str_list (mr_checks r)), (''findings'', JList []), (''limitations'', JList [JStr (mr_limitation r)])]),
      (''residue'', JObj [(''type'', JStr ''bounded-strings''), (''values'', str_list (mr_residue r)),
         (''interpretation'', JStr ''residue only; not evidence of a running process, loaded module, or network connection'')]),
      (''custody'', JObj [(''sha256_before'', JStr (mr_before r)), (''sha256_after'', JStr (mr_after r)),
         (''unchanged'', JBool (mr_before r = mr_after r))])]"

definition capability_report :: "disk_lib \<Rightarrow> sys_error + json" where
  "capability_report L = r_bind (discover_tools L) (\<lambda>ts.
     Inr (JObj [(''schema_version'', JStr ''1.0''), (''capabilities'', JObj (map (\<lambda>(k, c). (k, capability_json c)) capability_matrix)),
       (''tools'', JList ts), (''policy'', JObj [(''unsupported_profiles_fail_closed'', JBool True), (''strings_are_residue'', JBool True),
          (''native_parser_claims_require_pinned_tool'', JBool True)])]))"

text \<open>Written with indentation and sorted keys by a renderer that is a parameter.\<close>

definition write_capability_report :: "disk_lib \<Rightarrow> (json \<Rightarrow> string) \<Rightarrow> path \<Rightarrow> fs \<Rightarrow> fs \<times> (sys_error + path)" where
  "write_capability_report L pretty dst f =
     (case mkdir (dl_os L) 493 (butlast dst) True f of
        Inl e \<Rightarrow> (f, Inl e)
      | Inr f1 \<Rightarrow>
          (case r_bind (capability_report L) (\<lambda>r. write_file (dl_os L) dst (pretty r @ [CHR 0x0A]) f1) of
             Inl e \<Rightarrow> (f1, Inl e)
           | Inr f2 \<Rightarrow> (f2, Inr dst)))"

end
