(* ===== verification/Disk_Adapter.thy ===== *)
theory Disk_Adapter
  imports Memory_Analysis
begin

text \<open>
  The class \<^verbatim>\<open>DiskMemoryAdapter\<close> of \<^verbatim>\<open>adapters/disk_memory_adapter.py\<close>: validation, inventory,
  report and normalised record read the volume; extraction is the only operation that writes.
  Names chosen by \<^verbatim>\<open>mkstemp\<close> are a parameter; an existing name raises, as its exclusive creation does.
\<close>

datatype disk_error = Adapter string string | DiskRaise sys_error

definition disk :: "sys_error + 'a \<Rightarrow> disk_error + 'a" where
  "disk r = (case r of Inl e \<Rightarrow> Inl (DiskRaise e) | Inr x \<Rightarrow> Inr x)"

record disk_adapter =
  da_evidence :: path
  da_root :: path
  da_id :: string
  da_max_file :: int
  da_max_total :: int

definition adapter_id_char :: "char \<Rightarrow> bool" where
  "adapter_id_char c = (is_alnum c \<or> c \<in> set ''._-'')"

definition id_from_name :: "string \<Rightarrow> string" where
  "id_from_name n = take 120 (map (\<lambda>c. if adapter_id_char c then c else CHR ''_'') n)"

definition make_adapter :: "disk_lib \<Rightarrow> path \<Rightarrow> path \<Rightarrow> string option \<Rightarrow> int \<Rightarrow> int \<Rightarrow> fs \<Rightarrow> disk_error + disk_adapter" where
  "make_adapter L ev root eid max_file max_sum f =
     (if \<not> is_file (dl_os L) f ev \<or> is_symlink f ev then Inl (Adapter ''SOURCE_NOT_FOUND'' ''evidence must be a regular file'')
      else let p = realpath (dl_os L) f ev in
        Inr \<lparr>da_evidence = p, da_root = realpath (dl_os L) f root,
             da_id = (if non_blank eid then the eid else id_from_name (leaf p)), da_max_file = max_file, da_max_total = max_sum\<rparr>)"

section \<open>Validation\<close>

record validation =
  vd_source :: string
  vd_format :: string
  vd_signature :: string
  vd_warnings :: "string list"
  vd_sha :: string
  vd_size :: int

definition detect_source :: "disk_adapter \<Rightarrow> string \<Rightarrow> string \<Rightarrow> string \<times> string" where
  "detect_source A source c =
     (if source = ''disk_image'' then detect_image c else detect_memory (lower (path_suffix (leaf (da_evidence A)))) c)"

definition ewf_warnings :: "disk_lib \<Rightarrow> disk_adapter \<Rightarrow> fs \<Rightarrow> disk_error + string list" where
  "ewf_warnings L A f =
     r_bind (disk (limits_ok L (da_evidence A) (da_max_file A) (da_max_total A) f)) (\<lambda>(ok, reason).
       if \<not> ok then Inl (Adapter ''FILE_LIMIT_EXCEEDED'' (case reason of None \<Rightarrow> ''EWF limits exceeded'' | Some m \<Rightarrow> m))
       else Inr [''EWF metadata is available; raw view requires optional libewf/ewfmount''])"

definition validate_disk :: "disk_lib \<Rightarrow> disk_adapter \<Rightarrow> string \<Rightarrow> fs \<Rightarrow> disk_error + validation" where
  "validate_disk L A source f =
     r_bind (r_guard (source \<in> {''disk_image'', ''memory_dump''})
       (Adapter ''UNSUPPORTED_FORMAT'' ''source_type must be disk_image or memory_dump'')) (\<lambda>_.
     r_bind (disk (read_file (dl_os L) (da_evidence A) f)) (\<lambda>c.
     let (kind, sig) = detect_source A source c; image = (source = ''disk_image'') in
     r_bind (r_guard (\<not> (image \<and> kind \<notin> set supported_images))
       (Adapter ''UNSUPPORTED_FORMAT'' ''unsupported disk image format'')) (\<lambda>_.
     r_bind (if image \<and> kind = ''ewf'' then ewf_warnings L A f else Inr []) (\<lambda>ws.
     r_bind (disk (file_size (dl_os L) (da_evidence A) f)) (\<lambda>n.
     Inr \<lparr>vd_source = source, vd_format = kind, vd_signature = sig,
       vd_warnings = (if image \<and> kind \<in> {''vmdk'', ''qcow2''}
         then [''container recognized; partition parsing requires a readable raw view or native image tool''] else []) @ ws,
       vd_sha = sha_bytes (dl_os L) c, vd_size = n\<rparr>)))))"

definition validation_json :: "validation \<Rightarrow> json" where
  "validation_json v = JObj [(''source_type'', JStr (vd_source v)), (''detected_format'', JStr (vd_format v)),
     (''signature'', JStr (vd_signature v)), (''status'', JStr ''valid''), (''warnings'', str_list (vd_warnings v)),
     (''sha256'', JStr (vd_sha v)), (''size'', JInt (vd_size v))]"

section \<open>Inventory\<close>

definition scan_limit :: int where "scan_limit = 1024 * 1024"

definition event_log_result :: "int \<Rightarrow> string \<Rightarrow> string \<Rightarrow> dict" where
  "event_log_result nbytes fmt reason =
     [(''format'', JStr fmt), (''detection'', JStr reason), (''parser'', JStr ''bounded-timeline''), (''status'', JStr ''unavailable''),
      (''records'', JList []), (''scanned_bytes'', JInt (min nbytes scan_limit)), (''scan_limit_bytes'', JInt scan_limit),
      (''limitations'', str_list [''ETL/event-log binary parser is not bundled; no events inferred''])]"

definition event_formats :: "string list" where "event_formats = [''windows-etl'', ''windows-event-log'']"

record disk_inventory =
  iv_validation :: validation
  iv_entry :: dict
  iv_metadata :: bool
  iv_memory_artifacts :: bool
  iv_event_artifacts :: bool
  iv_notes :: "string list"
  iv_memory :: "dict option"
  iv_event :: "dict option"
  iv_ewf :: "(ewf_listing \<times> dict) option"
  iv_table :: "(string \<times> partition list) option"

definition source_entry :: "disk_lib \<Rightarrow> disk_adapter \<Rightarrow> validation \<Rightarrow> int \<Rightarrow> fs \<Rightarrow> dict" where
  "source_entry L A v nbytes f =
     [(''path'', JStr (leaf (da_evidence A))), (''size'', JInt nbytes), (''mtime'', JStr (dl_mtime L f (da_evidence A))),
      (''sha256'', JStr (vd_sha v)), (''kind'', JStr ''file''), (''allocated'', JBool True), (''source_id'', JStr ''source'')]"

definition memory_dump_entry :: "validation \<Rightarrow> int \<Rightarrow> string \<Rightarrow> string \<Rightarrow> dict" where
  "memory_dump_entry v nbytes fmt reason =
     [(''format'', JStr fmt), (''detection'', JStr reason), (''size_bytes'', JInt nbytes), (''sha256'', JStr (vd_sha v)),
      (''workflow'', JStr ''header-and-profile-validation''), (''profile_required'', JBool True), (''structured_findings'', JStr ''not_claimed'')]"

definition empty_inventory :: "disk_lib \<Rightarrow> disk_adapter \<Rightarrow> validation \<Rightarrow> int \<Rightarrow> fs \<Rightarrow> disk_inventory" where
  "empty_inventory L A v nbytes f =
     \<lparr>iv_validation = v, iv_entry = source_entry L A v nbytes f, iv_metadata = False, iv_memory_artifacts = False,
      iv_event_artifacts = False, iv_notes = [], iv_memory = None, iv_event = None, iv_ewf = None, iv_table = None\<rparr>"

definition memory_inventory :: "disk_adapter \<Rightarrow> validation \<Rightarrow> int \<Rightarrow> string \<Rightarrow> disk_inventory \<Rightarrow> disk_inventory" where
  "memory_inventory A v nbytes c iv =
     (let (fmt, reason) = detect_source A ''memory_dump'' c in
      if fmt \<in> set event_formats
      then iv\<lparr>iv_event := Some (event_log_result nbytes fmt reason), iv_event_artifacts := True,
             iv_notes := [''event log routed to bounded timeline parsing; no memory findings are claimed'']\<rparr>
      else iv\<lparr>iv_memory := Some (memory_dump_entry v nbytes fmt reason), iv_memory_artifacts := True,
             iv_notes := [''memory is represented as one opaque evidence artifact; no process/profile claims are made'']\<rparr>)"

definition image_inventory :: "disk_lib \<Rightarrow> disk_adapter \<Rightarrow> validation \<Rightarrow> string \<Rightarrow> fs \<Rightarrow> disk_inventory \<Rightarrow> disk_error + disk_inventory" where
  "image_inventory L A v c f iv =
     (if vd_format v = ''ewf''
      then Inr (iv\<lparr>iv_ewf := Some (ewf_inventory L (da_evidence A) (da_max_total A) f, tool_info L), iv_table := Some (''ewf'', []),
             iv_notes := [''EWF segment metadata is inventoried; filesystem inventory requires a readable libewf raw view'']\<rparr>)
      else r_bind (disk (partitions (dl_seek L) c)) (\<lambda>ps.
             Inr (iv\<lparr>iv_table := Some (vd_format v, ps), iv_metadata := (ps \<noteq> []),
               iv_notes := [''file inventory is limited to source/container bytes unless a filesystem reader is available'']\<rparr>)))"

definition inventory :: "disk_lib \<Rightarrow> disk_adapter \<Rightarrow> string \<Rightarrow> fs \<Rightarrow> disk_error + disk_inventory" where
  "inventory L A source f =
     r_bind (validate_disk L A source f) (\<lambda>v.
     r_bind (disk (file_size (dl_os L) (da_evidence A) f)) (\<lambda>n.
     r_bind (disk (read_file (dl_os L) (da_evidence A) f)) (\<lambda>c.
     let iv = empty_inventory L A v n f in
     if source = ''memory_dump'' then Inr (memory_inventory A v n c iv) else image_inventory L A v c f iv)))"

definition coverage_json :: "disk_inventory \<Rightarrow> json" where
  "coverage_json iv = JObj ([(''status'', JStr ''substantial''), (''filesystem_metadata'', JBool (iv_metadata iv)), (''allocated_files'', JBool False),
     (''deleted_files'', JBool False), (''unallocated_space'', JBool False), (''memory_artifacts'', JBool (iv_memory_artifacts iv)),
     (''network_artifacts'', JBool False), (''notes'', str_list (iv_notes iv))]
     @ (if iv_event_artifacts iv then [(''event_log_artifacts'', JBool True)] else []))"

definition table_json :: "string \<times> partition list \<Rightarrow> json" where
  "table_json t = JObj [(''image_format'', JStr (fst t)), (''sector_size'', JInt 512), (''partitions'', JList (map partition_json (snd t)))]"

definition optional_obj :: "dict option \<Rightarrow> json" where
  "optional_obj d = (case d of None \<Rightarrow> JNull | Some x \<Rightarrow> JObj x)"

section \<open>Report and normalised record\<close>

definition disk_report :: "disk_lib \<Rightarrow> disk_adapter \<Rightarrow> string \<Rightarrow> fs \<Rightarrow> disk_error + dict" where
  "disk_report L A source f =
     r_bind (inventory L A source f) (\<lambda>iv.
     let base = [(''source_type'', JStr source), (''evidence_id'', JStr (da_id A)), (''validation'', validation_json (iv_validation iv)),
       (''inventory_count'', JInt 1), (''coverage'', coverage_json iv),
       (''partition_filesystem'', case iv_table iv of None \<Rightarrow> JNull | Some t \<Rightarrow> table_json t),
       (''memory_dump'', optional_obj (iv_memory iv)), (''event_log'', optional_obj (iv_event iv)), (''limitations'', str_list (iv_notes iv))] in
     if source = ''memory_dump''
     then r_bind (disk (capability_report L)) (\<lambda>r. Inr (base @ [(''memory_capabilities'', r)]))
     else Inr base)"

definition uri_char :: "char \<Rightarrow> string" where
  "uri_char c = (if is_alnum c \<or> c \<in> set ''_.-~/'' then [c]
     else CHR ''%'' # map (\<lambda>n. if n < 10 then char_of (48 + n) else char_of (55 + n)) [of_char c div 16, of_char c mod 16 :: nat])"

definition as_uri :: "path \<Rightarrow> string" where
  "as_uri p = ''file://'' @ concat (map uri_char (abs_text p))"

definition safe_extraction_json :: "disk_adapter \<Rightarrow> json" where
  "safe_extraction_json A = JObj [(''root'', JStr (abs_text (da_root A))), (''status'', JStr ''not_requested''),
     (''policy_version'', JStr ''safe-extraction-1''), (''max_file_bytes'', JInt (da_max_file A)), (''max_total_bytes'', JInt (da_max_total A)),
     (''extracted_count'', JInt 0), (''rejected_count'', JInt 0), (''errors'', JList [])]"

definition adapter_metadata :: "disk_adapter \<Rightarrow> disk_inventory \<Rightarrow> json" where
  "adapter_metadata A iv = JObj ([(''validation'', validation_json (iv_validation iv))]
     @ (case iv_ewf iv of None \<Rightarrow> [] | Some (e, t) \<Rightarrow> [(''ewf'', ewf_json (da_evidence A) e), (''libewf'', JObj t)])
     @ (case iv_event iv of None \<Rightarrow> [] | Some d \<Rightarrow> [(''event_log'', JObj d)])
     @ (case iv_memory iv of None \<Rightarrow> [] | Some d \<Rightarrow> [(''memory_dump'', JObj d)]))"

definition normalized_record :: "disk_lib \<Rightarrow> disk_adapter \<Rightarrow> string \<Rightarrow> fs \<Rightarrow> disk_error + dict" where
  "normalized_record L A source f =
     r_bind (inventory L A source f) (\<lambda>iv.
     Inr ([(''schema_version'', JStr ''1.0''), (''evidence_id'', JStr (da_id A)),
       (''source_type'', JStr (if iv_event iv = None then source else ''event_log'')), (''original_uri'', JStr (as_uri (da_evidence A))),
       (''archive_validation'', JObj [(''kind'', JStr ''none''), (''status'', JStr ''not_applicable'')]), (''inventory'', JList [JObj (iv_entry iv)]),
       (''safe_extraction'', safe_extraction_json A), (''collection_coverage'', coverage_json iv), (''adapter_metadata'', adapter_metadata A iv)]
       @ (case iv_table iv of None \<Rightarrow> [] | Some t \<Rightarrow> [(''partition_filesystem'', table_json t)])))"

section \<open>Extraction\<close>

record extract_state =
  ex_fs :: fs
  ex_sum :: int
  ex_done :: "(path \<times> int \<times> string) list"
  ex_errors :: "(string \<times> string \<times> string) list"

definition refuse :: "string \<Rightarrow> string \<Rightarrow> string \<Rightarrow> extract_state \<Rightarrow> extract_state" where
  "refuse code msg rel s = s\<lparr>ex_errors := ex_errors s @ [(code, msg, rel)]\<rparr>"

definition make_temp :: "os \<Rightarrow> path \<Rightarrow> fs \<Rightarrow> sys_error + fs" where
  "make_temp w p f = (if lookup f p \<noteq> None then Inl (OsError ''FileExistsError'')
     else r_bind (write_file w p [] f) (chmod w p 384))"

text \<open>The body of the \<^verbatim>\<open>try\<close> keeps the volume it reached when it raises, for the clean-up.\<close>

definition copy_step :: "disk_lib \<Rightarrow> disk_adapter \<Rightarrow> path \<Rightarrow> path \<Rightarrow> path \<Rightarrow> extract_state \<Rightarrow> extract_state \<times> (disk_error + unit)" where
  "copy_step L A root tmp dest s =
     (case disk (r_bind (read_file (dl_os L) (da_evidence A) (ex_fs s)) (\<lambda>c. write_file (dl_os L) tmp c (ex_fs s))) of
        Inl e \<Rightarrow> (s, Inl e)
      | Inr f1 \<Rightarrow>
          (let s1 = s\<lparr>ex_fs := f1\<rparr> in
           case disk (replace_file tmp dest f1) of
             Inl e \<Rightarrow> (s1, Inl e)
           | Inr f2 \<Rightarrow>
               (let s2 = s\<lparr>ex_fs := f2\<rparr> in
                case disk (file_size (dl_os L) dest f2) of
                  Inl e \<Rightarrow> (s2, Inl e)
                | Inr n \<Rightarrow>
                    (let s3 = s2\<lparr>ex_sum := ex_sum s2 + n\<rparr> in
                     if \<not> prefix root (realpath (dl_os L) f2 dest)
                     then (s3, Inl (Adapter ''EXTRACTION_FAILED'' ''output containment check failed''))
                     else (case disk (content_sha L dest f2) of
                             Inl e \<Rightarrow> (s3, Inl e)
                           | Inr h \<Rightarrow> (s3\<lparr>ex_done := ex_done s3 @ [(dest, n, h)]\<rparr>, Inr ()))))))"

definition drop_temp :: "disk_lib \<Rightarrow> path \<Rightarrow> extract_state \<Rightarrow> extract_state" where
  "drop_temp L tmp s = (if p_exists (dl_os L) (ex_fs s) tmp then s\<lparr>ex_fs := del_node tmp (ex_fs s)\<rparr> else s)"

definition refusal :: "disk_lib \<Rightarrow> disk_adapter \<Rightarrow> path \<Rightarrow> extract_state \<Rightarrow> string \<Rightarrow> sys_error + (string \<times> string) option" where
  "refusal L A root s rel =
     (if is_absolute rel \<or> ''..'' \<in> set (path_parts rel) \<or> rel = [] \<or> rel = ''.''
      then Inr (Some (''PATH_TRAVERSAL_REJECTED'', ''extraction path must be a non-empty relative path''))
      else if base_name rel \<noteq> leaf (da_evidence A) \<or> length (path_parts rel) \<noteq> 1
      then Inr (Some (''EXTRACTION_FAILED'', ''only the source artifact is extractable by this adapter''))
      else r_bind (file_size (dl_os L) (da_evidence A) (ex_fs s)) (\<lambda>n.
        if da_max_file A < n \<or> da_max_total A < ex_sum s + n
        then Inr (Some (''FILE_LIMIT_EXCEEDED'', ''configured extraction limit exceeded''))
        else if p_exists (dl_os L) (ex_fs s) (root @ [base_name rel])
        then Inr (Some (''EXTRACTION_FAILED'', ''destination already exists''))
        else Inr None))"

definition extract_one :: "disk_lib \<Rightarrow> disk_adapter \<Rightarrow> path \<Rightarrow> string \<Rightarrow> string \<Rightarrow> (extract_state, disk_error, unit) act" where
  "extract_one L A root nm rel s =
     (case refusal L A root s rel of
        Inl e \<Rightarrow> (s, Inl (DiskRaise e))
      | Inr (Some (code, msg)) \<Rightarrow> (refuse code msg rel s, Inr ())
      | Inr None \<Rightarrow>
          (case make_temp (dl_os L) (root @ [nm]) (ex_fs s) of
             Inl e \<Rightarrow> (s, Inl (DiskRaise e))
           | Inr f \<Rightarrow> a_finally (copy_step L A root (root @ [nm]) (root @ [base_name rel])) (drop_temp L (root @ [nm])) (s\<lparr>ex_fs := f\<rparr>)))"

fun extract_all :: "disk_lib \<Rightarrow> disk_adapter \<Rightarrow> path \<Rightarrow> (nat \<Rightarrow> string) \<Rightarrow> nat \<Rightarrow> string list \<Rightarrow> (extract_state, disk_error, unit) act" where
  "extract_all L A root names k [] = a_ret ()"
| "extract_all L A root names k (rel # rels) =
     a_bind (extract_one L A root (names k) rel) (\<lambda>_. extract_all L A root names (Suc k) rels)"

definition extract_status :: "extract_state \<Rightarrow> string" where
  "extract_status s = (if ex_errors s = [] then ''completed'' else if ex_done s \<noteq> [] then ''partial'' else ''rejected'')"

definition extract_source :: "disk_lib \<Rightarrow> disk_adapter \<Rightarrow> string list \<Rightarrow> path option \<Rightarrow> (nat \<Rightarrow> string) \<Rightarrow> fs \<Rightarrow> fs \<times> (disk_error + path \<times> extract_state)" where
  "extract_source L A rels out names f =
     (let root = (case out of None \<Rightarrow> da_root A | Some p \<Rightarrow> realpath (dl_os L) f p) in
      case mkdir (dl_os L) 448 root True f of
        Inl e \<Rightarrow> (f, Inl (DiskRaise e))
      | Inr f1 \<Rightarrow>
          (case extract_all L A root names 0 rels \<lparr>ex_fs = f1, ex_sum = 0, ex_done = [], ex_errors = []\<rparr> of
             (s, Inl e) \<Rightarrow> (ex_fs s, Inl e)
           | (s, Inr u) \<Rightarrow> (ex_fs s, Inr (root, s))))"

definition extract_json :: "path \<times> extract_state \<Rightarrow> dict" where
  "extract_json r = (case r of (root, s) \<Rightarrow>
     [(''root'', JStr (abs_text root)), (''status'', JStr (extract_status s)),
      (''extracted'', JList (map (\<lambda>(p, n, h). JObj [(''path'', JStr (abs_text p)), (''size'', JInt n), (''sha256'', JStr h)]) (ex_done s))),
      (''errors'', JList (map (\<lambda>(c, m, p). JObj [(''code'', JStr c), (''message'', JStr m), (''retryable'', JBool False), (''path'', JStr p)]) (ex_errors s)))])"

end
