(* ===== verification/Disk_Correct.thy ===== *)
theory Disk_Correct
  imports Disk_Adapter Fixtures
begin

text \<open>
  What disk images and memory dumps may be relied on for: a partition table is read back as it was
  written, reported partitions are well formed, extraction is contained and bounded.
\<close>

section \<open>The hash loop\<close>

text \<open>
  \<^verbatim>\<open>while b := f.read(chunk): h.update(b)\<close>.  The library promises that updating twice is updating
  with the concatenation.
\<close>

partial_function (option) hash_loop :: "('h \<Rightarrow> string \<Rightarrow> 'h) \<Rightarrow> nat \<Rightarrow> string \<Rightarrow> nat \<Rightarrow> 'h \<Rightarrow> 'h option" where
  "hash_loop upd chunk b pos h =
     (let block = bytes_at pos chunk b in
      if block = [] then Some h else hash_loop upd chunk b (pos + length block) (upd h block))"

lemma take_drop_min: "take n xs @ drop (length (take n xs)) xs = xs"
  by (cases "n \<le> length xs") simp_all

lemma hash_loop_at:
  assumes "0 < chunk" "\<And>h x y. upd (upd h x) y = upd h (x @ y)" "\<And>h. upd h [] = h"
  shows "hash_loop upd chunk b pos h = Some (upd h (drop pos b))"
proof (induction "length b - pos" arbitrary: pos h rule: less_induct)
  case less
  show ?case
  proof (cases "bytes_at pos chunk b = []")
    case True
    with assms(1) have "drop pos b = []" by (simp add: bytes_at_def)
    with True assms(3) show ?thesis by (subst hash_loop.simps) simp
  next
    case False
    then have "pos < length b" by (simp add: bytes_at_def)
    then have shorter: "length b - (pos + length (bytes_at pos chunk b)) < length b - pos"
      using False by (simp add: wb_bytes) (use assms(1) in linarith)
    have "drop (pos + length (bytes_at pos chunk b)) b = drop (length (take chunk (drop pos b))) (drop pos b)"
      by (simp add: bytes_at_def add.commute)
    then have "bytes_at pos chunk b @ drop (pos + length (bytes_at pos chunk b)) b = drop pos b"
      by (metis bytes_at_def take_drop_min)
    with less [OF shorter, of "upd h (bytes_at pos chunk b)"] False assms(2)
    show ?thesis by (subst hash_loop.simps) (simp add: Let_def)
  qed
qed

text \<open>C34: Reading a file in chunks and updating a digest ends for every file and every positive
  chunk size, and gives the digest of the whole content.\<close>

theorem hashing_ends_with_the_digest_of_the_file:
  assumes "0 < chunk" "\<And>h x y. upd (upd h x) y = upd h (x @ y)" "\<And>h. upd h [] = h"
  shows "hash_loop upd chunk b 0 h = Some (upd h b)"
  using hash_loop_at [OF assms, of b 0 h] by simp

theorem hashing_ends_with_the_digest_of_the_file_witness:
  "hash_loop (\<lambda>h b. h @ b) (2 :: nat) ''abc'' 0 [] = Some ''abc''"
  using hashing_ends_with_the_digest_of_the_file [of 2 "\<lambda>h b. h @ b" "''abc''" "[]"] by simp

section \<open>Partition tables\<close>

text \<open>A reference encoder: four slots of sixteen bytes after the boot code, the mark at the end.\<close>

record mbr_slot =
  ms_head :: string
  ms_type :: char
  ms_chs :: string
  ms_first :: nat
  ms_sectors :: nat

definition slot_ok :: "mbr_slot \<Rightarrow> bool" where
  "slot_ok s = (length (ms_head s) = 4 \<and> length (ms_chs s) = 3 \<and> ms_first s < 2 ^ 32 \<and> ms_sectors s < 2 ^ 32)"

definition slot_bytes :: "mbr_slot \<Rightarrow> string" where
  "slot_bytes s = ms_head s @ [ms_type s] @ ms_chs s @ le_bytes 4 (ms_first s) @ le_bytes 4 (ms_sectors s)"

definition mbr_image :: "string \<Rightarrow> mbr_slot list \<Rightarrow> string \<Rightarrow> string" where
  "mbr_image boot slots rest = boot @ concat (map slot_bytes slots) @ raw_bytes [85, 170] @ rest"

definition slot_partition :: "nat \<Rightarrow> mbr_slot \<Rightarrow> partition option" where
  "slot_partition i s =
     (if (of_char (ms_type s) :: nat) = 0 \<or> ms_sectors s = 0 then None
      else Some \<lparr>pt_index = i, pt_offset = ms_first s * 512, pt_length = ms_sectors s * 512,
             pt_type = ''mbr-0x'' @ hex_byte (ms_type s), pt_fs = None\<rparr>)"

lemma map_filter_eq: "(\<And>x. x \<in> set xs \<Longrightarrow> g x = h x) \<Longrightarrow> List.map_filter g xs = List.map_filter h xs"
  by (induction xs) (simp_all split: option.split)

lemma slot_bytes_length: "slot_ok s \<Longrightarrow> length (slot_bytes s) = 16"
  by (simp add: slot_ok_def slot_bytes_def wb_bytes)

lemma concat_chunk:
  "(\<And>s. s \<in> set xs \<Longrightarrow> length (g s) = n) \<Longrightarrow> i < length xs \<Longrightarrow>
   take n (drop (i * n) (concat (map g xs) @ rest)) = g (xs ! i)"
proof (induction xs arbitrary: i)
  case (Cons x xs)
  then show ?case by (cases i) (simp_all add: add.commute flip: drop_drop)
qed simp

lemma slot_at:
  assumes "length boot = 446" "\<forall>s\<in>set slots. slot_ok s" "length slots = 4" "i < 4"
  shows "bytes_at (446 + i * 16) 16 (take 512 (mbr_image boot slots rest)) = slot_bytes (slots ! i)"
proof -
  have "take 16 (drop (i * 16) (concat (map slot_bytes slots) @ t)) = slot_bytes (slots ! i)" for t
    using assms slot_bytes_length by (intro concat_chunk) auto
  moreover have "take 512 (mbr_image boot slots rest) = boot @ concat (map slot_bytes slots) @ raw_bytes [85, 170]"
  proof -
    have "length (concat (map slot_bytes slots)) = 64"
    proof -
      have "map length (map slot_bytes slots) = replicate 4 16"
        using assms(2,3) slot_bytes_length by (intro nth_equalityI) auto
      then show ?thesis by (simp add: length_concat numeral_eq_Suc)
    qed
    with assms(1) show ?thesis by (simp add: mbr_image_def raw_bytes_def)
  qed
  ultimately show ?thesis using assms(1) by (simp add: bytes_at_def)
qed

lemma mbr_entry_slot:
  assumes "slot_ok s" "bytes_at (446 + i * 16) 16 b = slot_bytes s"
  shows "mbr_entry b i = slot_partition i s"
proof -
  define F N where "F = le_bytes 4 (ms_first s)" and "N = le_bytes 4 (ms_sectors s)"
  have len: "length F = 4" "length N = 4" by (simp_all add: F_def N_def wb_bytes)
  have vals: "le_nat F = ms_first s" "le_nat N = ms_sectors s"
    using assms(1) by (simp_all add: F_def N_def slot_ok_def le_nat_bytes)
  have e: "slot_bytes s = ms_head s @ [ms_type s] @ ms_chs s @ F @ N" by (simp add: slot_bytes_def F_def N_def)
  have "bytes_at 8 4 (slot_bytes s) = F" "bytes_at 12 4 (slot_bytes s) = N" "slot_bytes s ! 4 = ms_type s"
    using assms(1) len unfolding e by (simp_all add: slot_ok_def bytes_at_def nth_append)
  with vals show ?thesis unfolding mbr_entry_def slot_partition_def assms(2) by (simp add: Let_def)
qed

lemma mbr_table_read:
  assumes "length boot = 446" "\<forall>s\<in>set slots. slot_ok s" "length slots = 4"
  shows "parse_mbr (mbr_image boot slots rest) = List.map_filter (\<lambda>i. slot_partition i (slots ! i)) [0..<4]"
proof -
  have sig: "length (take 512 (mbr_image boot slots rest)) = 512 \<and> bytes_at 510 2 (take 512 (mbr_image boot slots rest)) = raw_bytes [85, 170]"
  proof -
    have "map length (map slot_bytes slots) = replicate 4 16"
      using assms(2,3) slot_bytes_length by (intro nth_equalityI) auto
    then have "length (concat (map slot_bytes slots)) = 64" by (simp add: length_concat numeral_eq_Suc)
    with assms(1) show ?thesis by (simp add: mbr_image_def raw_bytes_def bytes_at_def)
  qed
  have "mbr_entry (take 512 (mbr_image boot slots rest)) i = slot_partition i (slots ! i)" if "i < 4" for i
    using assms that by (intro mbr_entry_slot slot_at) auto
  then have "List.map_filter (mbr_entry (take 512 (mbr_image boot slots rest))) [0..<4] = List.map_filter (\<lambda>i. slot_partition i (slots ! i)) [0..<4]"
    by (intro map_filter_eq) auto
  with sig show ?thesis by (simp add: parse_mbr_def Let_def)
qed

definition demo_slots :: "mbr_slot list" where
  "demo_slots = (let e = \<lparr>ms_head = ''abcd'', ms_type = CHR 0x00, ms_chs = ''xyz'', ms_first = 0, ms_sectors = 0\<rparr> in
     [e\<lparr>ms_type := CHR 0x83, ms_first := 1, ms_sectors := 1024\<rparr>, e, e, e])"

definition demo_image :: string where
  "demo_image = mbr_image (replicate 446 (CHR ''x'')) demo_slots []"

definition demo_partition :: partition where
  "demo_partition = \<lparr>pt_index = 0, pt_offset = 512, pt_length = 524288, pt_type = ''mbr-0x83'', pt_fs = None\<rparr>"

lemma demo_slots_ok: "\<forall>s\<in>set demo_slots. slot_ok s" "length demo_slots = 4"
  by (simp_all add: demo_slots_def Let_def slot_ok_def)

lemma demo_slots_read: "List.map_filter (\<lambda>i. slot_partition i (demo_slots ! i)) [0..<4] = [demo_partition]"
proof -
  have hex: "hex_byte (CHR 0x83) = ''83''" by code_simp
  have "[0..<4] = [0, 1, 2, 3 :: nat]" by (simp add: upt_rec)
  then show ?thesis by (simp add: demo_slots_def Let_def slot_partition_def hex demo_partition_def)
qed

lemma demo_image_read: "parse_mbr demo_image = [demo_partition]"
  unfolding demo_image_def by (subst mbr_table_read) (simp_all add: demo_slots_ok demo_slots_read)

text \<open>C33: A master boot record is read back as it was written: of four slots below any boot code
  and before any rest of the disk, exactly those with a type and a size are reported, in order, with
  their offset and length in bytes.\<close>

theorem mbr_table_round_trip:
  assumes "length boot = 446" "\<forall>s\<in>set slots. slot_ok s" "length slots = 4"
  shows "parse_mbr (mbr_image boot slots rest) = List.map_filter (\<lambda>i. slot_partition i (slots ! i)) [0..<4]"
  using assms by (rule mbr_table_read)

theorem mbr_table_round_trip_witness: "parse_mbr demo_image = [demo_partition]"
  unfolding demo_image_def
  by (subst mbr_table_round_trip) (simp_all add: demo_slots_ok demo_slots_read)

text \<open>What is reported of a table: 512-byte sectors, distinct indices below the entry limit, a size,
  and a file system among the four the code can recognise.\<close>

definition recognised_fs :: "string option set" where
  "recognised_fs = {None, Some ''exfat'', Some ''fat'', Some ''ext'', Some ''xfs''}"

definition partition_ok :: "partition \<Rightarrow> bool" where
  "partition_ok p = (pt_index p < gpt_max_entries \<and> 512 dvd pt_offset p \<and> 512 dvd pt_length p \<and> 0 < pt_length p)"

lemma fs_at_recognised: "fs_at m b off = Inr k \<Longrightarrow> k \<in> recognised_fs"
proof -
  assume "fs_at m b off = Inr k"
  moreover have "take 3 c \<notin> {''NTFS''}" for c :: string
  proof
    assume "take 3 c \<in> {''NTFS''}"
    then have "length (take 3 c) = 4" by simp
    then show False by simp
  qed
  ultimately show ?thesis
    by (auto simp: fs_at_def recognised_fs_def wb_result split: if_splits)
qed

lemma gpt_entry_ok: "gpt_entry m b esz i = Inr (Some p) \<Longrightarrow> i < gpt_max_entries \<Longrightarrow> partition_ok p \<and> pt_index p = i"
  by (auto simp: gpt_entry_def wb_result Let_def partition_ok_def split: if_splits)

lemma mbr_entry_ok: "mbr_entry b i = Some p \<Longrightarrow> i < 4 \<Longrightarrow> partition_ok p \<and> pt_index p = i"
  by (auto simp: mbr_entry_def Let_def partition_ok_def gpt_max_entries_def split: if_splits)

definition indexed_ok :: "nat list \<Rightarrow> partition list \<Rightarrow> bool" where
  "indexed_ok ks ps = (sorted_wrt (<) (map pt_index ps) \<and> set (map pt_index ps) \<subseteq> set ks \<and> (\<forall>p\<in>set ps. partition_ok p))"

lemma map_filter_indexed:
  assumes "\<forall>i\<in>set ks. \<forall>p. g i = Some p \<longrightarrow> partition_ok p \<and> pt_index p = i" "sorted_wrt (<) ks"
  shows "indexed_ok ks (List.map_filter g ks)"
  using assms
proof (induction ks)
  case (Cons i ks)
  then have IH: "indexed_ok ks (List.map_filter g ks)" by simp
  show ?case
  proof (cases "g i")
    case None
    with IH show ?thesis by (auto simp: indexed_ok_def)
  next
    case (Some p)
    with Cons.prems have "partition_ok p" "pt_index p = i" "\<forall>k\<in>set ks. i < k" by auto
    with IH Some show ?thesis unfolding indexed_ok_def by (simp add: subset_iff)
  qed
qed (simp add: indexed_ok_def)

lemma r_map_map_filter:
  "r_map f xs = Inr ys \<Longrightarrow> List.map_filter id ys = List.map_filter (\<lambda>x. case f x of Inl e \<Rightarrow> None | Inr r \<Rightarrow> r) xs"
  by (induction xs arbitrary: ys) (auto simp: wb_result split: option.splits)

lemma parse_mbr_indexed: "indexed_ok [0..<gpt_max_entries] (parse_mbr img)"
proof (cases "parse_mbr img = []")
  case False
  have "indexed_ok [0..<4] (List.map_filter (mbr_entry (take 512 img)) [0..<4])"
    using mbr_entry_ok by (intro map_filter_indexed) (auto simp: sorted_wrt_upt)
  with False show ?thesis by (auto simp: parse_mbr_def Let_def indexed_ok_def gpt_max_entries_def split: if_splits)
qed (simp add: indexed_ok_def)

lemma parse_gpt_indexed:
  assumes "parse_gpt m img = Inr ps" shows "indexed_ok [0..<gpt_max_entries] ps"
proof (cases "ps = []")
  case False
  with assms obtain esz n os where os: "r_map (gpt_entry m img esz) [0..<min n gpt_max_entries] = Inr os" "ps = List.map_filter id os"
    by (auto simp: parse_gpt_def wb_result Let_def split: if_splits)
  have "indexed_ok [0..<min n gpt_max_entries]
      (List.map_filter (\<lambda>x. case gpt_entry m img esz x of Inl e \<Rightarrow> None | Inr r \<Rightarrow> r) [0..<min n gpt_max_entries])"
    using gpt_entry_ok by (intro map_filter_indexed) (auto split: sum.splits simp: sorted_wrt_upt)
  with os r_map_map_filter [OF os(1)] show ?thesis by (auto simp: indexed_ok_def)
qed (simp add: indexed_ok_def)

lemma with_filesystem_Inr: "with_filesystem m img p = Inr q \<longleftrightarrow> (\<exists>k. fs_at m img (pt_offset p) = Inr k \<and> q = p\<lparr>pt_fs := k\<rparr>)"
  by (auto simp: with_filesystem_def wb_result)

lemma with_filesystems:
  assumes "r_map (with_filesystem m img) ps = Inr qs"
  shows "map pt_index qs = map pt_index ps \<and> (\<forall>q\<in>set qs. pt_fs q \<in> recognised_fs \<and> (\<exists>p\<in>set ps. partition_ok p = partition_ok q))"
  using assms
proof (induction ps arbitrary: qs)
  case (Cons p ps)
  then obtain k qs' where q: "fs_at m img (pt_offset p) = Inr k" "r_map (with_filesystem m img) ps = Inr qs'"
      "qs = p\<lparr>pt_fs := k\<rparr> # qs'"
    by (auto simp: wb_result with_filesystem_Inr)
  have "partition_ok (p\<lparr>pt_fs := k\<rparr>) = partition_ok p" by (simp add: partition_ok_def)
  with Cons.IH [OF q(2)] fs_at_recognised [OF q(1)] q(3) show ?case by auto
qed simp

text \<open>Whatever the bytes of an image are, the partitions reported have strictly increasing indices
  below 4096, a positive length and an offset in whole sectors, and a file system that is unknown or
  one of exFAT, FAT, ext and XFS.\<close>

theorem reported_partitions_are_well_formed:
  assumes "partitions m img = Inr ps"
  shows "sorted_wrt (<) (map pt_index ps) \<and> (\<forall>p\<in>set ps. partition_ok p \<and> pt_fs p \<in> recognised_fs)"
proof -
  from assms obtain gpt where gpt: "parse_gpt m img = Inr gpt"
      "r_map (with_filesystem m img) (if gpt = [] then parse_mbr img else gpt) = Inr ps"
    by (auto simp: partitions_def wb_result)
  then have "indexed_ok [0..<gpt_max_entries] (if gpt = [] then parse_mbr img else gpt)"
    using parse_gpt_indexed parse_mbr_indexed by auto
  with with_filesystems [OF gpt(2)] show ?thesis unfolding indexed_ok_def by auto
qed

theorem reported_partitions_are_well_formed_witness:
  "partitions 600 demo_image = Inr [demo_partition] \<and> partition_ok demo_partition"
proof -
  have len: "length demo_image = 512"
  proof -
    have "map length (map slot_bytes demo_slots) = replicate 4 16"
      using demo_slots_ok slot_bytes_length by (intro nth_equalityI) auto
    then show ?thesis by (simp add: demo_image_def mbr_image_def length_concat numeral_eq_Suc raw_bytes_def)
  qed
  have off: "pt_offset demo_partition = 512" by (simp add: demo_partition_def)
  have run: "partitions 600 demo_image = Inr [demo_partition]"
    using len off by (simp add: partitions_def parse_gpt_def read_at_def bytes_at_def demo_image_read with_filesystem_def fs_at_def)
      (simp add: demo_partition_def)
  with reported_partitions_are_well_formed [OF run] show ?thesis by simp
qed

text \<open>A header of the standard's 92 bytes is followed by zeros, which the code takes for the entry size:
  such a table is never read.\<close>

lemma r_map_const: "r_map (\<lambda>i. Inr c) xs = Inr (map (\<lambda>i. c) xs)"
  by (induction xs) simp_all

lemma map_filter_None: "List.map_filter id (map (\<lambda>i. None) xs) = []"
  by (induction xs) simp_all

lemma gpt_with_zero_reserved_is_not_read:
  assumes "bytes_at 604 4 img = raw_bytes [0, 0, 0, 0]" "1024 \<le> m"
  shows "parse_gpt m img = Inr []"
proof -
  have z: "le_nat (bytes_at 92 4 (bytes_at 512 96 img)) = 0"
  proof -
    have "bytes_at 92 4 (bytes_at 512 96 img) = bytes_at 604 4 img" by (simp add: bytes_at_def drop_take min_def)
    with assms(1) show ?thesis by (simp add: raw_bytes_def wb_bytes)
  qed
  have "gpt_entry m img 0 = (\<lambda>i. Inr None)"
    using assms(2) by (simp add: fun_eq_iff gpt_entry_def read_at_def bytes_at_def)
  then show ?thesis using assms(2) z by (simp add: parse_gpt_def read_at_def r_map_const map_filter_None)
qed

end
