(* ===== verification/Extraction_Correct.thy ===== *)
theory Extraction_Correct
  imports Disk_Adapter Fixtures
begin

text \<open>
  Extraction by \<^verbatim>\<open>DiskMemoryAdapter.extract\<close>: on a volume without symbolic links, at most one file
  appears below the output root, it holds the bytes of the evidence, and nothing else changes.
\<close>

section \<open>One extraction\<close>

lemma make_temp_Inr:
  assumes "os_plain w" "no_links f" "clean_path p" "make_temp w p f = Inr f'"
  shows "lookup f p = None" "f' = set_node p (File [] 384) (set_node p (File [] 420) f)"
proof -
  from assms show "lookup f p = None" by (auto simp: make_temp_def split: if_splits)
  from assms obtain g where g: "write_file w p [] f = Inr g" "chmod w p 384 g = Inr f'" "lookup f p = None"
    by (auto simp: make_temp_def wb_result split: if_splits)
  then have "g = set_node p (File [] 420) f"
    using assms(1-3) by (auto simp: write_file_def Let_def plain_fs split: option.splits node.splits if_splits)
  moreover from this have "no_links g" using assms(2) by (simp add: no_links_set)
  ultimately show "f' = set_node p (File [] 384) (set_node p (File [] 420) f)"
    using g assms(1,3) by (simp add: chmod_def Let_def plain_fs wb_fs)
qed

lemma copy_step_plain:
  assumes "os_plain (dl_os L)" "no_links (ex_fs s)" "lookup (ex_fs s) tmp = Some (File [] 384)"
    and "lookup (ex_fs s) (da_evidence A) = Some (File c m)" "prefix root dest"
    and "clean_path tmp" "clean_path dest" "clean_path (da_evidence A)"
  shows "copy_step L A root tmp dest s =
    (if r_bit m
     then (s\<lparr>ex_fs := set_node dest (File c 384) (del_node tmp (set_node tmp (File c 384) (ex_fs s))),
             ex_sum := ex_sum s + int (length c), ex_done := ex_done s @ [(dest, int (length c), sha_bytes (dl_os L) c)]\<rparr>, Inr ())
     else (s, Inl (DiskRaise (OsError ''PermissionError''))))"
proof -
  have bits: "w_bit 384" "r_bit 384" by (simp_all add: w_bit_def r_bit_def)
  have links: "no_links (set_node dest (File c 384) (del_node tmp (set_node tmp (File c 384) (ex_fs s))))"
    using assms(2) by (simp add: no_links_set no_links_del)
  show ?thesis
    using assms bits links
    by (simp add: copy_step_def Let_def disk_def read_file_def write_file_def stat_node_def plain_fs replace_file_def wb_fs
        file_size_def content_sha_def)
qed

text \<open>A volume that differs from another at one path only.\<close>

definition same_but :: "path \<Rightarrow> fs \<Rightarrow> fs \<Rightarrow> bool" where
  "same_but d f g = (\<forall>q. q \<noteq> d \<longrightarrow> lookup g q = lookup f q)"

lemma no_links_same_but: "no_links f \<Longrightarrow> same_but d f g \<Longrightarrow> lookup g d = lookup f d \<or> lookup g d = Some (File c m) \<Longrightarrow> no_links g"
  unfolding no_links_def is_symlink_def same_but_def by (metis node.simps(10) option.simps(5))

definition extracted_ok :: "disk_lib \<Rightarrow> disk_adapter \<Rightarrow> path \<Rightarrow> string \<Rightarrow> fs \<Rightarrow> extract_state \<Rightarrow> bool" where
  "extracted_ok L A d c f s = (same_but d f (ex_fs s) \<and>
     (ex_done s = [] \<and> ex_sum s = 0 \<and> lookup (ex_fs s) d = lookup f d \<or>
      ex_done s = [(d, int (length c), sha_bytes (dl_os L) c)] \<and> ex_sum s = int (length c) \<and> lookup (ex_fs s) d = Some (File c 384) \<and>
      int (length c) \<le> da_max_file A \<and> int (length c) \<le> da_max_total A \<and> lookup f d = None))"

lemma extract_one_keeps:
  assumes plain: "os_plain (dl_os L)" "no_links f" and ev: "lookup f (da_evidence A) = Some (File c m)"
    and cl: "clean_path root" "clean_path (da_evidence A)"
    and nm: "nm \<noteq> leaf (da_evidence A)" "nm \<noteq> ''..''" and ok: "extracted_ok L A (root @ [leaf (da_evidence A)]) c f s"
    and run: "extract_one L A root nm rel s = (s', r)"
  shows "extracted_ok L A (root @ [leaf (da_evidence A)]) c f s' \<and>
    (r = Inr () \<longrightarrow> length (ex_done s') + length (ex_errors s') = Suc (length (ex_done s) + length (ex_errors s)))"
proof -
  let ?d = "root @ [leaf (da_evidence A)]" and ?t = "root @ [nm]"
  from ev have leaf: "leaf (da_evidence A) \<noteq> ''..''"
    using cl(2) by (cases "da_evidence A" rule: rev_cases) (auto simp: leaf_def)
  then have cp: "clean_path ?d" "clean_path ?t" using cl nm(2) by simp_all
  have links: "no_links (ex_fs s)"
    using ok plain(2) no_links_same_but by (auto simp: extracted_ok_def)
  consider (raised) e where "refusal L A root s rel = Inl e" | (refused) code msg where "refusal L A root s rel = Inr (Some (code, msg))"
    | (copied) "refusal L A root s rel = Inr None"
    by (metis old.sum.exhaust option.exhaust prod.exhaust)
  then show ?thesis
  proof cases
    case raised
    with run ok show ?thesis by (auto simp: extract_one_def)
  next
    case refused
    with run ok show ?thesis by (auto simp: extract_one_def refuse_def extracted_ok_def)
  next
    case copied
    then obtain n where n: "file_size (dl_os L) (da_evidence A) (ex_fs s) = Inr n" "n \<le> da_max_file A" "ex_sum s + n \<le> da_max_total A"
        "\<not> p_exists (dl_os L) (ex_fs s) ?d" "base_name rel = leaf (da_evidence A)"
      by (auto simp: refusal_def wb_result split: if_splits)
    then have d: "lookup (ex_fs s) ?d = None" using plain(1) links cp by (simp add: p_exists_plain)
    with ok have fresh: "ex_done s = []" "ex_sum s = 0" "lookup f ?d = None" by (auto simp: extracted_ok_def)
    with ev have "da_evidence A \<noteq> ?d" by auto
    with ok ev have evs: "lookup (ex_fs s) (da_evidence A) = Some (File c m)" by (simp add: extracted_ok_def same_but_def)
    with n(1) plain(1) links cl(2) have size: "n = int (length c)" by (simp add: file_size_def stat_node_def plain_fs)
    show ?thesis
    proof (cases "make_temp (dl_os L) ?t (ex_fs s)")
      case (Inl e)
      with copied run ok show ?thesis by (auto simp: extract_one_def)
    next
      case (Inr f1)
      note t = make_temp_Inr [OF plain(1) links cp(2) Inr]
      with evs have t_ev: "da_evidence A \<noteq> ?t" by auto
      have l1: "lookup f1 q = (if q = ?t then Some (File [] 384) else lookup (ex_fs s) q)" for q
        by (simp add: t(2) wb_fs)
      have nl1: "no_links f1" using links by (simp add: t(2) no_links_set)
      note step = copy_step_plain [OF plain(1), of "s\<lparr>ex_fs := f1\<rparr>" ?t A c m root ?d, OF _ _ _ _ cp(2,1) cl(2)]
      show ?thesis
      proof (cases "r_bit m")
        case False
        with step nl1 l1 evs t_ev plain(1) have cs: "copy_step L A root ?t ?d (s\<lparr>ex_fs := f1\<rparr>) = (s\<lparr>ex_fs := f1\<rparr>, Inl (DiskRaise (OsError ''PermissionError'')))" by simp
        have "p_exists (dl_os L) f1 ?t" using plain(1) nl1 l1 cp(2) by (simp add: p_exists_plain)
        with cs run copied Inr n(5) have "s' = s\<lparr>ex_fs := del_node ?t f1\<rparr>" "r \<noteq> Inr ()"
          by (auto simp: extract_one_def a_finally_def drop_temp_def)
        moreover have "lookup (del_node ?t f1) q = lookup (ex_fs s) q" for q using l1 t(1) by (simp add: wb_fs)
        ultimately show ?thesis using ok by (simp add: extracted_ok_def same_but_def)
      next
        case True
        let ?f2 = "set_node ?d (File c 384) (del_node ?t (set_node ?t (File c 384) f1))"
        let ?s2 = "s\<lparr>ex_fs := ?f2, ex_sum := int (length c), ex_done := [(?d, int (length c), sha_bytes (dl_os L) c)]\<rparr>"
        have cs: "copy_step L A root ?t ?d (s\<lparr>ex_fs := f1\<rparr>) = (?s2, Inr ())"
          using step True nl1 l1 evs t_ev fresh by simp
        have l2: "lookup ?f2 q = (if q = ?d then Some (File c 384) else lookup (ex_fs s) q)" for q
          using l1 t(1) nm by (simp add: wb_fs)
        have nl2: "no_links ?f2" using nl1 by (simp add: no_links_set no_links_del)
        have "\<not> p_exists (dl_os L) ?f2 ?t" using plain(1) nl2 l2 t(1) nm cp(2) by (simp add: p_exists_plain)
        with cs run copied Inr n(5) have "s' = ?s2" "r = Inr ()"
          by (auto simp: extract_one_def a_finally_def drop_temp_def)
        then show ?thesis using ok fresh l2 n(2,3) size by (simp add: extracted_ok_def same_but_def)
      qed
    qed
  qed
qed

lemma extract_all_keeps:
  assumes plain: "os_plain (dl_os L)" "no_links f" and ev: "lookup f (da_evidence A) = Some (File c m)"
    and cl: "clean_path root" "clean_path (da_evidence A)"
    and nm: "\<forall>k. names k \<notin> {leaf (da_evidence A), ''..''}"
  shows "extracted_ok L A (root @ [leaf (da_evidence A)]) c f s \<Longrightarrow> extract_all L A root names k rels s = (s', r) \<Longrightarrow>
    extracted_ok L A (root @ [leaf (da_evidence A)]) c f s' \<and>
    (r = Inr () \<longrightarrow> length (ex_done s') + length (ex_errors s') = length (ex_done s) + length (ex_errors s) + length rels)"
proof (induction rels arbitrary: s k)
  case Nil
  then show ?case by (simp add: wb_act)
next
  case (Cons rel rels)
  obtain s1 r1 where one: "extract_one L A root (names k) rel s = (s1, r1)" by (cases "extract_one L A root (names k) rel s")
  note keeps = extract_one_keeps [OF plain ev cl _ _ Cons.prems(1) one]
  with nm have k1: "extracted_ok L A (root @ [leaf (da_evidence A)]) c f s1"
    "r1 = Inr () \<Longrightarrow> length (ex_done s1) + length (ex_errors s1) = Suc (length (ex_done s) + length (ex_errors s))" by auto
  show ?case
  proof (cases r1)
    case (Inl e)
    with one Cons.prems(2) k1 show ?thesis by (auto simp: wb_act)
  next
    case (Inr u)
    with one Cons.prems(2) have "extract_all L A root names (Suc k) rels s1 = (s', r)" by (simp add: wb_act)
    with Cons.IH [OF k1(1) this] k1(2) Inr show ?thesis by simp
  qed
qed

lemma extraction_contained:
  assumes "os_plain (dl_os L)" "no_links f" "lookup f (da_evidence A) = Some (File c m)"
    and "\<forall>k. names k \<notin> {leaf (da_evidence A), ''..''}"
    and "extract_source L A rels out names f = (f', r)"
    and "root = (case out of None \<Rightarrow> da_root A | Some p \<Rightarrow> collapse p)"
    and "clean_path (da_root A)" "clean_path (da_evidence A)"
  shows "(\<forall>q. lookup f' q = lookup f q \<or> lookup f q = None \<and>
       (prefix q root \<and> (\<exists>k. lookup f' q = Some (Dir k)) \<or>
        q = root @ [leaf (da_evidence A)] \<and> lookup f' q = Some (File c 384))) \<and>
    (\<forall>top s. r = Inr (top, s) \<longrightarrow> top = root \<and> length (ex_done s) + length (ex_errors s) = length rels \<and>
      (ex_done s = [] \<or>
       ex_done s = [(root @ [leaf (da_evidence A)], int (length c), sha_bytes (dl_os L) c)] \<and>
       lookup f' (root @ [leaf (da_evidence A)]) = Some (File c 384) \<and>
       int (length c) \<le> da_max_file A \<and> int (length c) \<le> da_max_total A))"
proof -
  have dir: "(case out of None \<Rightarrow> da_root A | Some p \<Rightarrow> realpath (dl_os L) f p) = root"
    using assms(1,2,6) by (auto simp: plain_resolve split: option.splits)
  have cl: "clean_path root" using assms(6,7) by (auto split: option.splits)
  show ?thesis
proof (cases "mkdir (dl_os L) 448 root True f")
  case (Inl e)
  with assms(5) dir show ?thesis by (auto simp: extract_source_def)
next
  case (Inr f1)
  let ?s0 = "\<lparr>ex_fs = f1, ex_sum = 0, ex_done = [], ex_errors = []\<rparr>"
  obtain s r1 where run: "extract_all L A root names 0 rels ?s0 = (s, r1)"
    by (cases "extract_all L A root names 0 rels ?s0")
  have same: "lookup f1 q = lookup f q \<or> lookup f q = None \<and> prefix q root \<and> (\<exists>k. lookup f1 q = Some (Dir k))" for q
    using lookup_mkdir [OF Inr, of q] by auto
  have ev: "lookup f1 (da_evidence A) = Some (File c m)"
    using lookup_mkdir [OF Inr, of "da_evidence A"] assms(3) by simp
  have ok0: "extracted_ok L A (root @ [leaf (da_evidence A)]) c f1 ?s0"
    by (simp add: extracted_ok_def same_but_def)
  note all = extract_all_keeps [OF assms(1) mkdir_no_links [OF Inr assms(2)] ev cl assms(8,4) ok0 run]
  from assms(5) Inr run dir have f': "f' = ex_fs s" and r: "r = (case r1 of Inl e \<Rightarrow> Inl e | Inr u \<Rightarrow> Inr (root, s))"
    by (auto simp: extract_source_def split: sum.splits)
  have "lookup f' q = lookup f q \<or> lookup f q = None \<and> (prefix q root \<and> (\<exists>k. lookup f' q = Some (Dir k)) \<or>
       q = root @ [leaf (da_evidence A)] \<and> lookup f' q = Some (File c 384))" for q
  proof (cases "q = root @ [leaf (da_evidence A)]")
    case True
    then have "\<not> prefix q root" by auto
    with True all same [of q] f' show ?thesis by (auto simp: extracted_ok_def)
  next
    case False
    with all same [of q] f' show ?thesis by (auto simp: extracted_ok_def same_but_def)
  qed
  then show ?thesis using all f' r by (auto simp: extracted_ok_def split: sum.splits)
qed
qed


definition demo_files :: fs where
  "demo_files = [([], Dir 493), ([''v''], Dir 448), ([''src''], File ''xyz'' 420)]"

lemma demo_files_no_links: "no_links demo_files"
  by (auto simp: no_links_def is_symlink_def lookup_def demo_files_def split: option.splits node.splits if_splits)

definition demo_disk_os :: os where
  "demo_disk_os = \<lparr>realpath = (\<lambda>f p. collapse p), dumps = json_text, loads = (\<lambda>s. None), sha_bytes = (\<lambda>s. s),
     iso_of = (\<lambda>t. ''now''), of_iso = (\<lambda>s. None)\<rparr>"

lemma demo_disk_os_plain: "os_plain demo_disk_os"
  by (simp add: os_plain_def demo_disk_os_def)

definition demo_disk_lib :: disk_lib where
  "demo_disk_lib = \<lparr>dl_os = demo_disk_os, dl_mtime = (\<lambda>f p. ''now''), dl_seek = 600, dl_err = (\<lambda>e. ''error''),
     dl_which = (\<lambda>n. None), dl_run = (\<lambda>t xs. NotRun ''missing'')\<rparr>"

definition demo_adapter :: disk_adapter where
  "demo_adapter = \<lparr>da_evidence = [''src''], da_root = [''v''], da_id = ''src'', da_max_file = 10, da_max_total = 10\<rparr>"

definition demo_names :: "nat \<Rightarrow> string" where
  "demo_names k = ''.partial-x''"


text \<open>Without the condition on links something can be lost: a dangling link in the place of the output
  file counts as absent and is replaced.\<close>

definition dangling_files :: fs where
  "dangling_files = demo_files @ [([''v'', ''src''], Link [''gone''])]"

definition dangling_lib :: disk_lib where
  "dangling_lib = demo_disk_lib\<lparr>dl_os := demo_disk_os\<lparr>realpath := (\<lambda>f p. if is_symlink f p then [''gone''] else collapse p)\<rparr>\<rparr>"

lemma dangling_link_is_replaced:
  "lookup dangling_files [''v'', ''src''] = Some (Link [''gone''])"
  "lookup (fst (extract_source dangling_lib demo_adapter [''src''] None demo_names dangling_files)) [''v'', ''src''] =
     Some (File ''xyz'' 384)"
  by code_simp+

end
