(* ===== verification/Memory_Correct.thy ===== *)
theory Memory_Correct
  imports Disk_Adapter Fixtures
begin

text \<open>
  Memory analysis claims nothing without a supported profile and notices a changed source; a segment
  set that passes the limit check is inventoried completely and within the limits.
\<close>

section \<open>Profiles\<close>

definition platform_mark :: "string \<Rightarrow> string \<Rightarrow> bool" where
  "platform_mark k b =
     (k = ''linux-elf'' \<and> take 4 b = raw_bytes [127] @ ''ELF'' \<or>
      k = ''windows-crash-dump'' \<and> (take 4 b \<in> {''DUMP'', ''DU64''} \<or> contains ''PAGE'' (take 64 b)) \<or>
      k = ''linux-vmcore'' \<and> b = ''VMCORE'' @ raw_bytes [0] \<or>
      k = ''linux-crash'' \<and> take 8 b \<in> {''KDUMP'' @ raw_bytes [0, 0], ''CRASH'' @ raw_bytes [0, 0]})"

text \<open>A slice of eight bytes equals seven only when the file ends there.\<close>

lemma take_eq_short: "take n b = s \<Longrightarrow> length s < n \<Longrightarrow> b = s"
  by (metis length_take min_def nat_neq_iff take_all_iff leI)

lemma detected_mark: "dt_platform (detect_profile b) = Some k \<Longrightarrow> platform_mark k b"
  using take_eq_short [of 8 b "''VMCORE'' @ raw_bytes [0]"]
  by (auto simp: detect_profile_def Let_def platform_mark_def found_def raw_bytes_def split: if_splits)

definition profile_supported :: "detection \<Rightarrow> profile_check \<Rightarrow> string list \<Rightarrow> bool" where
  "profile_supported d p checks = (\<exists>k c r s a. dt_platform d = Some k \<and> map_of capability_matrix k = Some c \<and>
     p = ValidProfile r s a \<and> s \<in> set (cp_profiles c) \<and> checks = cp_checks c)"

lemma find_in: "find P xs = Some x \<Longrightarrow> x \<in> set xs"
  by (induction xs) (auto split: if_splits)

lemma valid_profile_supported:
  assumes "is_valid (validate_profile d r)" "checks_for d (validate_profile d r) = Inr checks"
  shows "profile_supported d (validate_profile d r) checks"
proof -
  have "map_of capability_matrix [] = None" by (simp add: capability_matrix_def)
  with assms(1) obtain k c where k: "dt_platform d = Some k" "map_of capability_matrix k = Some c"
    by (auto simp: validate_profile_def split: option.splits)
  with assms(1) obtain s a where s: "validate_profile d r = ValidProfile r s a" "s \<in> set (cp_profiles c)"
    by (auto simp: validate_profile_def Let_def non_blank_def split: if_splits option.splits dest: find_in)
  with k assms show ?thesis by (simp add: profile_supported_def checks_for_def)
qed

section \<open>Residue\<close>

lemma printable_runs_sub:
  "r \<in> set (printable_runs b) \<Longrightarrow> (\<forall>c\<in>set r. printable c) \<and> contains r b"
proof (induction b rule: printable_runs.induct)
  case (2 c cs)
  show ?case
  proof (cases "printable c")
    case True
    with "2.prems" consider "r = takeWhile printable (c # cs)" | "r \<in> set (printable_runs (dropWhile printable cs))" by auto
    then show ?thesis
    proof cases
      case 1
      have "c # cs = [] @ r @ dropWhile printable (c # cs)" using 1 by simp
      then have "contains r (c # cs)" unfolding contains_iff by blast
      with 1 show ?thesis by (auto dest: set_takeWhileD)
    next
      case 2
      with "2.IH"(1) [OF True] obtain u v where "dropWhile printable cs = u @ r @ v" "\<forall>c\<in>set r. printable c"
        by (auto simp: contains_iff)
      moreover have "cs = takeWhile printable cs @ dropWhile printable cs" by simp
      ultimately have "c # cs = (c # takeWhile printable cs @ u) @ r @ v" by simp
      then have "contains r (c # cs)" unfolding contains_iff by blast
      with \<open>\<forall>c\<in>set r. printable c\<close> show ?thesis by simp
    qed
  next
    case False
    with "2.prems" "2.IH"(2) have "(\<forall>c\<in>set r. printable c) \<and> contains r cs" by simp
    then show ?thesis by simp
  qed
qed simp

lemma bounded_strings_residue:
  assumes "bounded_strings b limit n = Inr rs"
  shows "int (length rs) \<le> limit \<and> (\<forall>r\<in>set rs. 4 \<le> length r \<and> (\<forall>c\<in>set r. printable c) \<and> contains r (take (nat n) b))"
  using assms printable_runs_sub
  by (auto simp: bounded_strings_def split: if_splits dest!: in_set_takeD)

text \<open>C35: An analysis that answers saw a regular file whose digest was the same before and after, even
  when other programs write in between.  It names structured checks only for a platform whose mark the
  dump carries and a profile of that platform; what it prints of the content is a bounded number of
  printable strings of that content.\<close>

theorem memory_analysis_fails_closed:
  assumes "analyze_memory L p requested limit v = Inr rep"
  shows "\<not> is_symlink (v 0) p \<and> (\<exists>c c'. read_file (dl_os L) p (v 1) = Inr c \<and> read_file (dl_os L) p (v 5) = Inr c' \<and>
      sha_bytes (dl_os L) c = mr_before rep \<and> sha_bytes (dl_os L) c' = mr_before rep) \<and>
    (mr_checks rep \<noteq> [] \<longrightarrow> profile_supported (mr_detection rep) (mr_profile rep) (mr_checks rep) \<and>
      (\<exists>k b. dt_platform (mr_detection rep) = Some k \<and> read_file (dl_os L) p (v 2) = Inr b \<and> platform_mark k b)) \<and>
    int (length (mr_residue rep)) \<le> limit \<and>
    (\<exists>b. read_file (dl_os L) p (v 4) = Inr b \<and> (\<forall>r\<in>set (mr_residue rep). 4 \<le> length r \<and> (\<forall>c\<in>set r. printable c) \<and> contains r b))"
proof -
  have mem: "mem r = Inr x \<longleftrightarrow> r = Inr x" for r :: "sys_error + 'c" and x
    by (cases r) (auto simp: mem_def)
  from assms obtain h n b after where
    reg: "\<not> is_symlink (v 0) p" and before: "content_sha L p (v 1) = Inr (mr_before rep)"
    and head: "read_file (dl_os L) p (v 2) = Inr h" and det: "mr_detection rep = detect_profile h"
    and prof: "mr_profile rep = validate_profile (detect_profile h) requested"
    and checks: "checks_for (detect_profile h) (validate_profile (detect_profile h) requested) = Inr (mr_checks rep)"
    and res: "read_file (dl_os L) p (v 4) = Inr b" "bounded_strings b limit (2 * 1024 * 1024) = Inr (mr_residue rep)"
    and after: "content_sha L p (v 5) = Inr (mr_before rep)"
    by (auto simp: analyze_memory_def wb_result mem)
  have "profile_supported (mr_detection rep) (mr_profile rep) (mr_checks rep) \<and>
      (\<exists>k b. dt_platform (mr_detection rep) = Some k \<and> read_file (dl_os L) p (v 2) = Inr b \<and> platform_mark k b)"
    if "mr_checks rep \<noteq> []"
  proof -
    have "is_valid (validate_profile (detect_profile h) requested)"
      using checks that by (auto simp: checks_for_def split: if_splits)
    from valid_profile_supported [OF this checks] have sup: "profile_supported (detect_profile h) (validate_profile (detect_profile h) requested) (mr_checks rep)" .
    then obtain k where "dt_platform (detect_profile h) = Some k" by (auto simp: profile_supported_def)
    with sup detected_mark [OF this] head show ?thesis by (auto simp: det prof)
  qed
  moreover have "contains r (take m b) \<Longrightarrow> contains r b" for r m
    by (metis append.assoc append_take_drop_id contains_iff)
  ultimately show ?thesis
    using reg before after res bounded_strings_residue [OF res(2)] by (auto simp: content_sha_def wb_result)
qed

definition demo_dump_fs :: fs where
  "demo_dump_fs = [([], Dir 493), ([''dump''], File ''DUMP'' 420)]"

definition demo_memory_os :: os where
  "demo_memory_os = \<lparr>realpath = (\<lambda>f p. p), dumps = json_text, loads = (\<lambda>s. None), sha_bytes = (\<lambda>s. s),
     iso_of = (\<lambda>t. ''now''), of_iso = (\<lambda>s. None)\<rparr>"

definition demo_memory_lib :: disk_lib where
  "demo_memory_lib = \<lparr>dl_os = demo_memory_os, dl_mtime = (\<lambda>f p. ''now''), dl_seek = 600, dl_err = (\<lambda>e. ''error''),
     dl_which = (\<lambda>n. None), dl_run = (\<lambda>t xs. NotRun ''missing'')\<rparr>"

lemma demo_dump_facts:
  "stat_node demo_memory_os demo_dump_fs [''dump''] = Some (File ''DUMP'' 420)" "\<not> is_symlink demo_dump_fs [''dump'']"
  "read_file demo_memory_os [''dump''] demo_dump_fs = Inr ''DUMP''"
  by code_simp+

lemma demo_memory_lib_os [simp]: "dl_os demo_memory_lib = demo_memory_os"
  by (simp add: demo_memory_lib_def)

lemma demo_dump_gate:
  "validate_profile (detect_profile ''DUMP'') (Some ''windows-x64'') = ValidProfile (Some ''windows-x64'') ''windows-x64'' None"
  "is_ok (checks_for (detect_profile ''DUMP'') (ValidProfile (Some ''windows-x64'') ''windows-x64'' None))"
  "is_ok (discover_tools demo_memory_lib)"
  by code_simp+

lemma demo_dump_strings: "bounded_strings ''DUMP'' 5 2097152 = Inr [''DUMP'']"
proof -
  have "printable_runs ''DUMP'' = [''DUMP'']" by code_simp
  then show ?thesis by (simp add: bounded_strings_def)
qed

theorem memory_analysis_fails_closed_witness:
  "\<exists>rep. analyze_memory demo_memory_lib [''dump''] (Some ''windows-x64'') 5 (\<lambda>k. demo_dump_fs) = Inr rep \<and>
     int (length (mr_residue rep)) \<le> 5"
proof -
  obtain checks ts where ok: "checks_for (detect_profile ''DUMP'') (ValidProfile (Some ''windows-x64'') ''windows-x64'' None) = Inr checks"
      "discover_tools demo_memory_lib = Inr ts"
    using demo_dump_gate(2,3) by (auto simp: is_ok_iff)
  have "\<exists>rep. analyze_memory demo_memory_lib [''dump''] (Some ''windows-x64'') 5 (\<lambda>k. demo_dump_fs) = Inr rep"
    using ok by (simp add: analyze_memory_def demo_dump_facts is_file_def content_sha_def file_size_def mem_def demo_dump_gate(1) demo_dump_strings)
  then obtain rep where "analyze_memory demo_memory_lib [''dump''] (Some ''windows-x64'') 5 (\<lambda>k. demo_dump_fs) = Inr rep" by blast
  with memory_analysis_fails_closed [OF this] show ?thesis by blast
qed

text \<open>The gate does not compare a requested profile with the detected architecture, and takes a substring
  for a match.\<close>

definition elf_dump :: "nat \<Rightarrow> string" where
  "elf_dump m = raw_bytes [127] @ ''ELF'' @ raw_bytes [1, 1, 1] @ replicate 11 (CHR 0x00) @ le_bytes 2 m"

lemma arm_profile_accepted_for_x86_64:
  "validate_profile (detect_profile (elf_dump 62)) (Some ''linux-arm64'') = ValidProfile (Some ''linux-arm64'') ''linux-arm64'' (Some ''x86_64'')"
  by code_simp

lemma x86_dump_selects_x86_64:
  "validate_profile (detect_profile (elf_dump 3)) None = ValidProfile None ''linux-x86_64'' (Some ''x86'')"
  by code_simp

section \<open>Segments\<close>

definition readable_segment :: "disk_lib \<Rightarrow> fs \<Rightarrow> (path \<Rightarrow> int) \<Rightarrow> path \<Rightarrow> (string \<times> int \<times> string) option" where
  "readable_segment L f sz p = (case content_sha L p f of Inl e \<Rightarrow> None | Inr h \<Rightarrow> Some (leaf p, sz p, h))"

definition segment_row :: "ewf_segment \<Rightarrow> string \<times> int \<times> string" where
  "segment_row e = (es_path e, es_size e, es_sha e)"

lemma scan_segments_complete:
  "\<forall>p\<in>set ps. file_size (dl_os L) p f = Inr (sz p) \<Longrightarrow> ei_total (scan_segments L f limit s ps) \<le> limit \<Longrightarrow>
   ei_total (scan_segments L f limit s ps) = ei_total s + sum_list (map sz ps) \<and>
   map segment_row (ei_segments (scan_segments L f limit s ps)) =
     map segment_row (ei_segments s) @ List.map_filter (readable_segment L f sz) ps"
proof (induction ps arbitrary: s)
  case (Cons p ps)
  then have within: "\<not> limit < ei_total s + sz p" by (auto simp: Let_def)
  show ?case
  proof (cases "content_sha L p f")
    case (Inl e)
    then have "readable_segment L f sz p = None" by (simp add: readable_segment_def)
    with Inl Cons.prems within Cons.IH [of "s\<lparr>ei_total := ei_total s + sz p, ei_errors := ei_errors s @ [SegmentUnreadable (leaf p) (dl_err L e)]\<rparr>"]
    show ?thesis by (simp add: Let_def)
  next
    case (Inr h)
    then have "readable_segment L f sz p = Some (leaf p, sz p, h)" by (simp add: readable_segment_def)
    with Inr Cons.prems within Cons.IH [of "s\<lparr>ei_total := ei_total s + sz p, ei_segments := ei_segments s @
        [\<lparr>es_path = leaf p, es_size = sz p, es_sha = h, es_source = length (ei_segments s) + 1\<rparr>]\<rparr>"]
    show ?thesis by (simp add: Let_def segment_row_def)
  qed
qed simp

lemma segments_fit_sizes:
  "segments_fit L f limit ps = Inr True \<Longrightarrow> \<exists>sz. \<forall>p\<in>set ps. file_size (dl_os L) p f = Inr (sz p) \<and> sz p \<le> limit"
proof -
  assume "segments_fit L f limit ps = Inr True"
  then have "\<forall>p\<in>set ps. \<exists>n. file_size (dl_os L) p f = Inr n \<and> n \<le> limit"
    by (induction ps) (auto simp: wb_result split: if_splits)
  then show ?thesis by metis
qed

text \<open>When the limit check passes, every segment of the acquisition is within the file limit, the
  segments together are within the total limit, and the inventory lists each segment whose bytes can be
  read, in order, with its size and the digest of its bytes.\<close>

theorem checked_segments_are_inventoried:
  assumes "limits_ok L src max_file max_sum f = Inr (True, reason)"
  shows "\<exists>sz. (\<forall>p\<in>set (segment_paths L src f). file_size (dl_os L) p f = Inr (sz p) \<and> sz p \<le> max_file) \<and>
    ei_total (ewf_inventory L src max_sum f) = sum_list (map sz (segment_paths L src f)) \<and>
    sum_list (map sz (segment_paths L src f)) \<le> max_sum \<and>
    map segment_row (ei_segments (ewf_inventory L src max_sum f)) =
      List.map_filter (readable_segment L f sz) (segment_paths L src f)"
proof -
  from assms have fit: "segments_fit L f max_file (segment_paths L src f) = Inr True"
      and sum: "ei_total (ewf_inventory L src max_sum f) \<le> max_sum"
    by (auto simp: limits_ok_def wb_result split: if_splits)
  from segments_fit_sizes [OF fit] obtain sz where
    "\<forall>p\<in>set (segment_paths L src f). file_size (dl_os L) p f = Inr (sz p) \<and> sz p \<le> max_file" by blast
  with scan_segments_complete [of "segment_paths L src f" L f sz max_sum "\<lparr>ei_total = 0, ei_segments = [], ei_errors = []\<rparr>"] sum
  show ?thesis by (intro exI [of _ sz]) (auto simp: ewf_inventory_def)
qed

definition demo_segments :: fs where
  "demo_segments = [([], Dir 493), ([''a.E02''], File ''yz'' 420), ([''a.E01''], File ''x'' 420), ([''b.E01''], File ''w'' 420)]"

theorem checked_segments_are_inventoried_witness:
  "map es_path (ei_segments (ewf_inventory demo_memory_lib [''a.E01''] 10 demo_segments)) = [''a.E01'', ''a.E02''] \<and>
   ei_total (ewf_inventory demo_memory_lib [''a.E01''] 10 demo_segments) \<le> 10"
proof -
  have "limits_ok demo_memory_lib [''a.E01''] 10 10 demo_segments = Inr (True, None)" by code_simp
  from checked_segments_are_inventoried [OF this]
  have "ei_total (ewf_inventory demo_memory_lib [''a.E01''] 10 demo_segments) \<le> 10" by auto
  moreover have "map es_path (ei_segments (ewf_inventory demo_memory_lib [''a.E01''] 10 demo_segments)) = [''a.E01'', ''a.E02'']" by code_simp
  ultimately show ?thesis by simp
qed

end
