(* ===== verification/Uac_Adapter.thy ===== *)
theory Uac_Adapter
  imports Staging Disk_Adapter
begin

text \<open>
  \<^verbatim>\<open>adapters/uac_adapter.py\<close>: validation, inventory and extraction of UAC collections, from
  directories, ZIP and TAR archives and 7z listings.  The archive readers and the 7z program are
  parameters: they map the bytes of the source to members.  A member's content is the bytes its
  stream delivers and, if it breaks, the exception it then raises; the loops of the source test
  their limits on growing sums, so that reading in blocks is the same as testing the whole.
\<close>

section \<open>Sequences of stateful calls\<close>

fun a_each :: "('x \<Rightarrow> ('s, 'e, 'y) act) \<Rightarrow> 'x list \<Rightarrow> ('s, 'e, 'y list) act" where
  "a_each f [] = a_ret []"
| "a_each f (x # xs) = a_bind (f x) (\<lambda>y. a_bind (a_each f xs) (\<lambda>ys. a_ret (y # ys)))"

definition a_lift :: "'e + 'a \<Rightarrow> ('s, 'e, 'a) act" where
  "a_lift r s = (s, r)"

section \<open>Library, errors, state\<close>

type_synonym byte_stream = "string \<times> sys_error option"

record uz_item =
  uz_name :: string
  uz_encrypted :: bool
  uz_offset :: nat
  uz_size :: int
  uz_time :: "string option"
  uz_open :: "sys_error + byte_stream"

datatype tar_member = TmFile | TmDir | TmLink | TmSpecial

record ut_item =
  ut_name :: string
  ut_kind :: tar_member
  ut_offset :: nat
  ut_mtime :: string
  ut_link :: string
  ut_stream :: "sys_error + byte_stream option"

record uac_lib =
  ua_os :: os
  ua_mtime :: "fs \<Rightarrow> path \<Rightarrow> string"
  ua_zip :: "string \<Rightarrow> sys_error + uz_item list"
  ua_crc :: "string \<Rightarrow> sys_error + string option"
  ua_tar :: "string \<Rightarrow> sys_error + ut_item list"
  ua_7z :: "string list \<Rightarrow> string \<Rightarrow> tool_run"

datatype uac_error = Uac string string "string option" | UacRaise sys_error

definition uac_dict :: "string \<Rightarrow> string \<Rightarrow> string option \<Rightarrow> json" where
  "uac_dict code msg p = JObj ([(''code'', JStr code), (''message'', JStr msg), (''retryable'', JBool False)]
     @ (case p of None \<Rightarrow> [] | Some n \<Rightarrow> [(''path'', JStr n)]))"

definition uac_sys :: "sys_error + 'a \<Rightarrow> uac_error + 'a" where
  "uac_sys r = (case r of Inl e \<Rightarrow> Inl (UacRaise e) | Inr x \<Rightarrow> Inr x)"

record uac =
  uc_source :: path
  uc_analysis :: path
  uc_max_file :: int
  uc_max_total :: int
  uc_type :: string

record archive_check =
  av_kind :: string
  av_status :: string
  av_count :: "nat option"
  av_error :: "json option"

record uac_entry =
  ue_path :: string
  ue_size :: int
  ue_mtime :: string
  ue_sha :: string
  ue_kind :: string
  ue_source :: "string option"
  ue_link :: "string option"

record uac_state =
  us_fs :: fs
  us_validation :: "archive_check option"
  us_inventory :: "uac_entry list option"
  us_errors :: "json list"
  us_encrypted :: bool

type_synonym 'a uac_act = "(uac_state, uac_error, 'a) act"

definition zero_sha :: string where "zero_sha = replicate 64 (CHR ''0'')"
definition policy_version :: string where "policy_version = ''safe-extraction-1''"

definition make_uac :: "uac_lib \<Rightarrow> path \<Rightarrow> path \<Rightarrow> int \<Rightarrow> int \<Rightarrow> fs \<Rightarrow> fs \<times> (uac_error + uac \<times> uac_state)" where
  "make_uac L src root max_file max_sum f =
     (let w = ua_os L; dir = realpath w f root in
      case mkdir w 493 dir True f of
        Inl e \<Rightarrow> (f, Inl (UacRaise e))
      | Inr f1 \<Rightarrow> (f1, Inr (\<lparr>uc_source = src, uc_analysis = dir, uc_max_file = max_file, uc_max_total = max_sum,
            uc_type = (if is_dir w f1 src then ''uac_directory'' else ''uac_archive'')\<rparr>,
          \<lparr>us_fs = f1, us_validation = None, us_inventory = None, us_errors = [], us_encrypted = False\<rparr>)))"

definition sha_stream :: "os \<Rightarrow> int option \<Rightarrow> byte_stream \<Rightarrow> uac_error + (string \<times> int)" where
  "sha_stream w limit st =
     (let n = int (length (fst st)) in
      if (case limit of None \<Rightarrow> False | Some l \<Rightarrow> l < n) then Inl (Uac ''FILE_LIMIT_EXCEEDED'' ''file exceeds configured limit'' None)
      else (case snd st of Some e \<Rightarrow> Inl (UacRaise e) | None \<Rightarrow> Inr (sha_bytes w (fst st), n)))"

section \<open>Member names\<close>

text \<open>\<^verbatim>\<open>posixpath.normpath\<close>: dots and empty components go, two dots take the component before them away.\<close>

definition norm_step :: "bool \<Rightarrow> string list \<Rightarrow> string \<Rightarrow> string list" where
  "norm_step rooted acc part =
     (if part = [] \<or> part = ''.'' then acc
      else if part \<noteq> ''..'' \<or> \<not> rooted \<and> acc = [] \<or> acc \<noteq> [] \<and> last acc = ''..'' then acc @ [part]
      else butlast acc)"

definition norm_parts :: "string \<Rightarrow> string list" where
  "norm_parts n = foldl (norm_step (is_absolute n)) [] (split_on slash n)"

definition normpath :: "string \<Rightarrow> string" where
  "normpath n = (let s = root_of n @ join ''/'' (norm_parts n) in if s = [] then ''.'' else s)"

definition uac_member :: "string \<Rightarrow> uac_error + string" where
  "uac_member name =
     (let n = unbackslash name in
      if prefix ''/'' n \<or> 2 \<le> length n \<and> n ! 1 = CHR '':''
      then Inl (Uac ''PATH_TRAVERSAL_REJECTED'' ''absolute archive member rejected'' (Some name))
      else let m = normpath n in
        if m \<in> {[], ''.''} then Inl (Uac ''ARCHIVE_MEMBER_INVALID'' ''empty archive member rejected'' (Some name))
        else if m = ''..'' \<or> prefix ''../'' m
        then Inl (Uac ''PATH_TRAVERSAL_REJECTED'' ''parent traversal archive member rejected'' (Some name))
        else Inr m)"

section \<open>Validation\<close>

definition source_bytes :: "uac_lib \<Rightarrow> uac \<Rightarrow> fs \<Rightarrow> sys_error + string" where
  "source_bytes L A f = read_file (ua_os L) (uc_source A) f"

definition archive_kind :: "uac_lib \<Rightarrow> uac \<Rightarrow> fs \<Rightarrow> sys_error + string" where
  "archive_kind L A f =
     (let n = lower (path_name (uc_source A)) in
      if suffix ''.zip'' n then Inr ''zip''
      else if suffix ''.tar.gz'' n \<or> suffix ''.tgz'' n then Inr ''tar_gz''
      else if suffix ''.tar.xz'' n \<or> suffix ''.txz'' n then Inr ''tar_xz''
      else if suffix ''.tar'' n then Inr ''tar''
      else if suffix ''.7z'' n then Inr ''7z''
      else r_bind (source_bytes L A f) (\<lambda>c.
        if prefix ''PK'' c then Inr ''zip''
        else if prefix (''7z'' @ raw_bytes [188, 175, 39, 28]) c then Inr ''7z''
        else Inr ''other''))"

definition invalid_archive :: "string \<Rightarrow> string \<Rightarrow> archive_check" where
  "invalid_archive kind msg = \<lparr>av_kind = kind, av_status = ''invalid'', av_count = None, av_error = Some (uac_dict ''ARCHIVE_INVALID'' msg None)\<rparr>"

definition bad_zip :: "sys_error \<Rightarrow> bool" where
  "bad_zip e = (case e of OsError n \<Rightarrow> True | PyErr n \<Rightarrow> n = ''BadZipFile'' | _ \<Rightarrow> False)"

definition bad_tar :: "sys_error \<Rightarrow> bool" where
  "bad_tar e = (case e of OsError n \<Rightarrow> True | PyErr n \<Rightarrow> n = ''TarError'' | _ \<Rightarrow> False)"

definition zip_outcome :: "nat \<Rightarrow> sys_error + string option \<Rightarrow> sys_error + archive_check" where
  "zip_outcome n r =
     (case r of
        Inl e \<Rightarrow> if bad_zip e then Inr (invalid_archive ''zip'' ''archive integrity check failed'') else Inl e
      | Inr bad \<Rightarrow> Inr \<lparr>av_kind = ''zip'', av_status = (if non_blank bad then ''invalid'' else ''valid''), av_count = Some n,
          av_error = (if non_blank bad then Some (uac_dict ''ARCHIVE_INVALID'' ''CRC check failed'' bad) else None)\<rparr>)"

definition validate_zip :: "uac_lib \<Rightarrow> uac \<Rightarrow> archive_check uac_act" where
  "validate_zip L A s =
     (case r_bind (source_bytes L A (us_fs s)) (\<lambda>c. r_bind (ua_zip L c) (\<lambda>items. Inr (c, items))) of
        Inl e \<Rightarrow> (s, uac_sys (zip_outcome 0 (Inl e)))
      | Inr (c, items) \<Rightarrow>
          (let enc = list_ex uz_encrypted items in
           (s\<lparr>us_encrypted := enc\<rparr>, uac_sys (zip_outcome (length items) (if enc then Inr None else ua_crc L c)))))"

definition validate_tar :: "uac_lib \<Rightarrow> uac \<Rightarrow> string \<Rightarrow> archive_check uac_act" where
  "validate_tar L A kind = a_read (\<lambda>s.
     case r_bind (source_bytes L A (us_fs s)) (ua_tar L) of
       Inl e \<Rightarrow> if bad_tar e then Inr (invalid_archive kind ''tar integrity check failed'') else Inl (UacRaise e)
     | Inr items \<Rightarrow> Inr \<lparr>av_kind = kind, av_status = ''valid'', av_count = Some (length items), av_error = None\<rparr>)"

definition run_7z :: "uac_lib \<Rightarrow> uac \<Rightarrow> string list \<Rightarrow> fs \<Rightarrow> uac_error + (int \<times> string)" where
  "run_7z L A args f =
     (case ua_7z L args (case source_bytes L A f of Inl e \<Rightarrow> [] | Inr c \<Rightarrow> c) of
        NotRun e \<Rightarrow> Inl (UacRaise (OsError e))
      | Ran rc out err \<Rightarrow> Inr (rc, out))"

definition validate_7z :: "uac_lib \<Rightarrow> uac \<Rightarrow> archive_check uac_act" where
  "validate_7z L A = a_read (\<lambda>s. r_bind (run_7z L A [''t'', ''-y'', path_str (uc_source A)] (us_fs s)) (\<lambda>(rc, out).
     Inr (if rc = 0 then \<lparr>av_kind = ''7z'', av_status = ''valid'', av_count = None, av_error = None\<rparr>
          else invalid_archive ''7z'' ''7z integrity check failed'')))"

definition validate_archive_kind :: "uac_lib \<Rightarrow> uac \<Rightarrow> archive_check uac_act" where
  "validate_archive_kind L A =
     a_bind (a_read (\<lambda>s. uac_sys (archive_kind L A (us_fs s)))) (\<lambda>kind.
       if kind = ''7z'' then validate_7z L A
       else if kind = ''zip'' then validate_zip L A
       else if prefix ''tar'' kind then validate_tar L A kind
       else a_fail (Uac ''UNSUPPORTED_FORMAT'' ''unsupported UAC archive format'' (Some (path_str (uc_source A)))))"

definition validate_uac :: "uac_lib \<Rightarrow> uac \<Rightarrow> archive_check uac_act" where
  "validate_uac L A = a_bind a_get (\<lambda>s.
     let w = ua_os L; src = uc_source A in
     a_bind (a_guard (p_exists w (us_fs s) src) (Uac ''SOURCE_NOT_FOUND'' ''evidence source does not exist'' (Some (path_str src)))) (\<lambda>_.
     a_bind (if is_dir w (us_fs s) src
             then a_ret \<lparr>av_kind = ''none'', av_status = ''not_applicable'', av_count = None, av_error = None\<rparr>
             else validate_archive_kind L A) (\<lambda>v.
     a_bind (a_modify (\<lambda>s. s\<lparr>us_validation := Some v\<rparr>)) (\<lambda>_. a_ret v))))"

text \<open>The stored result, validating first when there is none.\<close>

definition validated_archive :: "uac_lib \<Rightarrow> uac \<Rightarrow> archive_check uac_act" where
  "validated_archive L A = a_bind a_get (\<lambda>s. case us_validation s of Some v \<Rightarrow> a_ret v | None \<Rightarrow> validate_uac L A)"

section \<open>Inventory\<close>

definition uac_entry_of :: "string \<Rightarrow> int \<Rightarrow> string \<Rightarrow> string \<Rightarrow> string \<Rightarrow> string option \<Rightarrow> string option \<Rightarrow> uac_entry" where
  "uac_entry_of p n t h k src lnk =
     \<lparr>ue_path = p, ue_size = n, ue_mtime = t, ue_sha = h, ue_kind = k, ue_source = src, ue_link = lnk\<rparr>"

definition dir_entry :: "uac_lib \<Rightarrow> uac \<Rightarrow> fs \<Rightarrow> path \<Rightarrow> path \<Rightarrow> uac_entry" where
  "dir_entry L A f base p =
     (let rel = relative_to base p; t = ua_mtime L f p in
      case lookup f p of
        Some (File c m) \<Rightarrow>
          (case r_bind (uac_sys (read_file (ua_os L) p f)) (\<lambda>b. sha_stream (ua_os L) (Some (uc_max_file A)) (b, None)) of
             Inl e \<Rightarrow> uac_entry_of rel (int (length c)) t zero_sha ''file'' None None
           | Inr (h, n) \<Rightarrow> uac_entry_of rel n t h ''file'' None None)
      | Some (Dir m) \<Rightarrow> uac_entry_of rel 0 t zero_sha ''directory'' None None
      | Some (Link q) \<Rightarrow> uac_entry_of rel 0 t zero_sha ''symlink'' None (Some (path_str q))
      | None \<Rightarrow> uac_entry_of rel 0 t zero_sha ''special'' None None)"

definition inventory_dir :: "uac_lib \<Rightarrow> uac \<Rightarrow> fs \<Rightarrow> uac_entry list" where
  "inventory_dir L A f =
     (let base = realpath (ua_os L) f (uc_source A) in
      map (dir_entry L A f base) (sort_key (relative_to base) (rglob base f)))"

text \<open>A name that is refused is noted and kept with its slashes turned.\<close>

definition inventory_name :: "string \<Rightarrow> string uac_act" where
  "inventory_name name s =
     (case uac_member name of
        Inr rel \<Rightarrow> (s, Inr rel)
      | Inl (Uac c m p) \<Rightarrow> (s\<lparr>us_errors := us_errors s @ [uac_dict c m p]\<rparr>, Inr (unbackslash name))
      | Inl e \<Rightarrow> (s, Inl e))"

definition caught_member :: "uac_error \<Rightarrow> bool" where
  "caught_member e =
     (case e of
        Uac c m p \<Rightarrow> True
      | UacRaise (OsError n) \<Rightarrow> True
      | UacRaise (PyErr n) \<Rightarrow> n \<in> set [''RuntimeError'', ''NotImplementedError'', ''ValueError'']
      | UacRaise (CodeError c m) \<Rightarrow> False)"

definition zip_time :: "uz_item \<Rightarrow> uac_error + string" where
  "zip_time i = (case uz_time i of None \<Rightarrow> Inl (UacRaise (PyErr ''ValueError'')) | Some t \<Rightarrow> Inr t)"

definition uac_zip_entry :: "uac_lib \<Rightarrow> uac \<Rightarrow> uz_item \<Rightarrow> string \<Rightarrow> uac_error + uac_entry" where
  "uac_zip_entry L A i rel =
     (let src = Some (dec_nat (uz_offset i)) in
      if suffix ''/'' (uz_name i) then r_bind (zip_time i) (\<lambda>t. Inr (uac_entry_of rel 0 t zero_sha ''directory'' src None))
      else (case r_bind (uac_sys (uz_open i)) (\<lambda>st. r_bind (sha_stream (ua_os L) (Some (uc_max_file A)) st) (\<lambda>(h, n).
                   r_bind (zip_time i) (\<lambda>t. Inr (uac_entry_of rel n t h ''file'' src None)))) of
              Inr e \<Rightarrow> Inr e
            | Inl x \<Rightarrow> if caught_member x
                then r_bind (zip_time i) (\<lambda>t. Inr (uac_entry_of rel (uz_size i) t zero_sha ''file'' src None))
                else Inl x))"

definition tar_kind_name :: "tar_member \<Rightarrow> string" where
  "tar_kind_name k = (case k of TmDir \<Rightarrow> ''directory'' | TmLink \<Rightarrow> ''symlink'' | TmFile \<Rightarrow> ''file'' | TmSpecial \<Rightarrow> ''special'')"

definition tar_entry :: "uac_lib \<Rightarrow> uac \<Rightarrow> ut_item \<Rightarrow> string \<Rightarrow> uac_error + uac_entry" where
  "tar_entry L A i rel =
     r_bind (if ut_kind i = TmFile
             then r_bind (uac_sys (ut_stream i)) (\<lambda>st. case st of None \<Rightarrow> Inr (zero_sha, 0)
                    | Some b \<Rightarrow> sha_stream (ua_os L) (Some (uc_max_file A)) b)
             else Inr (zero_sha, 0)) (\<lambda>(h, n).
       Inr (uac_entry_of rel n (ut_mtime i) h (tar_kind_name (ut_kind i)) (Some (dec_nat (ut_offset i)))
         (if ut_kind i = TmLink then Some (ut_link i) else None)))"

text \<open>The technical listing of 7z: blocks of \<^verbatim>\<open>key = value\<close> lines, each ended by a blank line.\<close>

fun cut_at :: "string \<Rightarrow> string \<Rightarrow> string \<Rightarrow> (string \<times> string) option" where
  "cut_at sep acc [] = None"
| "cut_at sep acc (c # cs) = (if prefix sep (c # cs) then Some (acc, drop (length sep) (c # cs)) else cut_at sep (acc @ [c]) cs)"

fun text_lines :: "string \<Rightarrow> string list" where
  "text_lines [] = []"
| "text_lines (c # cs) =
     (if line_end c then [] # text_lines cs
      else (case text_lines cs of [] \<Rightarrow> [[c]] | w # ws \<Rightarrow> (c # w) # ws))"

fun listing_blocks :: "(string \<times> string) list \<Rightarrow> string list \<Rightarrow> (string \<times> string) list list" where
  "listing_blocks cur [] = []"
| "listing_blocks cur (l # ls) =
     (if strip l = [] then cur # listing_blocks [] ls
      else (case cut_at '' = '' [] l of
              None \<Rightarrow> listing_blocks cur ls
            | Some (k, v) \<Rightarrow> listing_blocks (AList.update k v cur) ls))"

fun digits_ok :: "bool \<Rightarrow> string \<Rightarrow> bool" where
  "digits_ok after_digit [] = after_digit"
| "digits_ok after_digit (c # cs) = (if c = CHR ''_'' then after_digit \<and> digits_ok False cs else is_digit c \<and> digits_ok True cs)"

definition py_int_ok :: "string \<Rightarrow> bool" where
  "py_int_ok s = (let t = strip s in digits_ok False (if t \<noteq> [] \<and> hd t \<in> set ''+-'' then tl t else t))"

definition field_or :: "string \<Rightarrow> (string \<times> string) list \<Rightarrow> string \<Rightarrow> string" where
  "field_or k d v0 = (case map_of d k of None \<Rightarrow> v0 | Some v \<Rightarrow> v)"

definition checked_7z :: "uac_lib \<Rightarrow> uac \<Rightarrow> string list \<Rightarrow> fs \<Rightarrow> uac_error + string" where
  "checked_7z L A args f = r_bind (run_7z L A args f) (\<lambda>(rc, out).
     if rc = 0 then Inr out else Inl (UacRaise (PyErr ''CalledProcessError'')))"

definition block_entry :: "uac_lib \<Rightarrow> uac \<Rightarrow> fs \<Rightarrow> (string \<times> string) list \<Rightarrow> uac_error + uac_entry option" where
  "block_entry L A f cur =
     (case map_of cur ''Path'' of
        None \<Rightarrow> Inr None
      | Some p \<Rightarrow>
          if p = path_str (uc_source A) then Inr None
          else r_bind (uac_member p) (\<lambda>rel.
            let folder = (CHR ''D'' \<in> set (field_or ''Attributes'' cur [])); size_text = field_or ''Size'' cur ''0'' in
            r_bind (r_guard (py_int_ok (if size_text = [] then ''0'' else size_text)) (UacRaise (PyErr ''ValueError''))) (\<lambda>_.
            r_bind (if folder then Inr (zero_sha, 0)
                    else r_bind (checked_7z L A [''x'', ''-so'', ''-y'', path_str (uc_source A), p] f) (\<lambda>out.
                         sha_stream (ua_os L) (Some (uc_max_file A)) (out, None))) (\<lambda>(h, n).
            Inr (Some (uac_entry_of rel n (replace_char (CHR '' '') (CHR ''T'') (field_or ''Modified'' cur ''1970-01-01T00:00:00'') @ ''Z'') h
                   (if folder then ''directory'' else ''file'') None None))))))"

definition inventory_7z :: "uac_lib \<Rightarrow> uac \<Rightarrow> fs \<Rightarrow> uac_error + uac_entry list" where
  "inventory_7z L A f =
     r_bind (checked_7z L A [''l'', ''-slt'', path_str (uc_source A)] f) (\<lambda>out.
     r_bind (r_map (block_entry L A f) (listing_blocks [] (text_lines out @ [[]]))) (\<lambda>es.
     Inr (List.map_filter id es)))"

definition inventory_archive :: "uac_lib \<Rightarrow> uac \<Rightarrow> uac_entry list uac_act" where
  "inventory_archive L A =
     a_bind (a_read (\<lambda>s. uac_sys (archive_kind L A (us_fs s)))) (\<lambda>kind.
       if kind = ''7z'' then a_read (\<lambda>s. inventory_7z L A (us_fs s))
       else a_bind (a_read (\<lambda>s. uac_sys (source_bytes L A (us_fs s)))) (\<lambda>c.
         if kind = ''zip''
         then a_bind (a_lift (uac_sys (ua_zip L c))) (a_each (\<lambda>i. a_bind (inventory_name (uz_name i)) (\<lambda>rel. a_lift (uac_zip_entry L A i rel))))
         else a_bind (a_lift (uac_sys (ua_tar L c))) (a_each (\<lambda>i. a_bind (inventory_name (ut_name i)) (\<lambda>rel. a_lift (tar_entry L A i rel))))))"

definition inventory_uac :: "uac_lib \<Rightarrow> uac \<Rightarrow> uac_entry list uac_act" where
  "inventory_uac L A = a_bind a_get (\<lambda>s. case us_inventory s of
     Some es \<Rightarrow> a_ret es
   | None \<Rightarrow>
       a_bind (validated_archive L A) (\<lambda>v.
       a_bind (a_guard (av_status v \<noteq> ''invalid'') (Uac ''ARCHIVE_INVALID'' ''cannot inventory invalid archive'' None)) (\<lambda>_.
       a_bind (if is_dir (ua_os L) (us_fs s) (uc_source A) then a_read (\<lambda>t. Inr (inventory_dir L A (us_fs t)))
               else inventory_archive L A) (\<lambda>es.
       a_bind (a_modify (\<lambda>t. t\<lparr>us_inventory := Some es\<rparr>)) (\<lambda>_. a_ret es)))))"

end
