(* ===== verification/Uac_Extract.thy ===== *)
theory Uac_Extract
  imports Uac_Adapter
begin

text \<open>
  Extraction of allow-listed members and the report of \<^verbatim>\<open>adapters/uac_adapter.py\<close>.  Each copy goes
  through an exclusively created temporary file beside its destination; the random part of its name
  is a parameter.
\<close>

section \<open>One copy\<close>

record uac_extract =
  ux_fs :: fs
  ux_sum :: int
  ux_count :: nat
  ux_rejected :: nat
  ux_errors :: "json list"
  ux_temp :: nat

type_synonym 'a ux_act = "(uac_extract, uac_error, 'a) act"

definition note_error :: "string \<Rightarrow> string \<Rightarrow> string \<Rightarrow> uac_extract \<Rightarrow> uac_extract" where
  "note_error code msg p s = s\<lparr>ux_errors := ux_errors s @ [uac_dict code msg (Some p)]\<rparr>"

definition reject :: "string \<Rightarrow> string \<Rightarrow> string \<Rightarrow> uac_extract \<Rightarrow> uac_extract" where
  "reject code msg p s = note_error code msg p (s\<lparr>ux_rejected := ux_rejected s + 1\<rparr>)"

definition uac_destination :: "uac_lib \<Rightarrow> path \<Rightarrow> string \<Rightarrow> path ux_act" where
  "uac_destination L root rel = a_read (\<lambda>s.
     let dest = realpath (ua_os L) (ux_fs s) (join_path root rel) in
     if prefix root dest then Inr dest
     else Inl (Uac ''PATH_TRAVERSAL_REJECTED'' ''destination escapes extraction root'' (Some rel)))"

definition ux_do :: "(fs \<Rightarrow> sys_error + fs) \<Rightarrow> unit ux_act" where
  "ux_do g = a_step (\<lambda>s. case g (ux_fs s) of Inl e \<Rightarrow> Inl (UacRaise e) | Inr f \<Rightarrow> Inr (s\<lparr>ux_fs := f\<rparr>))"

definition temp_beside :: "path \<Rightarrow> string \<Rightarrow> path" where
  "temp_beside dest r = butlast dest @ [''.'' @ path_name dest @ ''.tmp-'' @ r]"

definition over_limit :: "uac \<Rightarrow> int \<Rightarrow> int \<Rightarrow> bool" where
  "over_limit A used n = (uc_max_file A < n \<or> uc_max_total A < used + n)"

text \<open>The body of the \<^verbatim>\<open>try\<close>: the adapter's own errors are recorded and the temporary file removed, any
  other exception leaves the file with what was written.\<close>

definition fill_temp :: "uac_lib \<Rightarrow> uac \<Rightarrow> path \<Rightarrow> path \<Rightarrow> string \<Rightarrow> byte_stream \<Rightarrow> unit ux_act" where
  "fill_temp L A tmp dest rel st = a_bind a_get (\<lambda>s.
     let n = int (length (fst st)) in
     if over_limit A (ux_sum s) n
     then a_modify (\<lambda>s. reject ''TOTAL_LIMIT_EXCEEDED'' ''extraction size limit exceeded'' rel (s\<lparr>ux_fs := del_node tmp (ux_fs s)\<rparr>))
     else a_bind (ux_do (write_file (ua_os L) tmp (fst st))) (\<lambda>_.
       case snd st of
         Some e \<Rightarrow> a_fail (UacRaise e)
       | None \<Rightarrow> a_bind a_get (\<lambda>s1.
           if p_exists (ua_os L) (ux_fs s1) dest
           then a_modify (\<lambda>s. reject ''ARCHIVE_MEMBER_INVALID'' ''duplicate extraction destination'' rel (s\<lparr>ux_fs := del_node tmp (ux_fs s)\<rparr>))
           else a_bind (ux_do (replace_file tmp dest)) (\<lambda>_.
             a_modify (\<lambda>s. s\<lparr>ux_count := ux_count s + 1, ux_sum := ux_sum s + n\<rparr>)))))"

definition copy_stream :: "uac_lib \<Rightarrow> uac \<Rightarrow> path \<Rightarrow> (nat \<Rightarrow> string) \<Rightarrow> string \<Rightarrow> byte_stream \<Rightarrow> unit ux_act" where
  "copy_stream L A root names rel st =
     a_bind (uac_destination L root rel) (\<lambda>dest.
     a_bind (ux_do (mkdir (ua_os L) 448 (butlast dest) True)) (\<lambda>_.
     a_bind a_get (\<lambda>s.
     a_bind (a_guard (\<not> p_exists (ua_os L) (ux_fs s) dest)
       (Uac ''ARCHIVE_MEMBER_INVALID'' ''duplicate extraction destination'' (Some rel))) (\<lambda>_.
     let tmp = temp_beside dest (names (ux_temp s)) in
     a_bind (a_modify (\<lambda>s. s\<lparr>ux_temp := ux_temp s + 1\<rparr>)) (\<lambda>_.
     a_bind (ux_do (make_temp (ua_os L) tmp)) (\<lambda>_.
     fill_temp L A tmp dest rel st))))))"

section \<open>Members\<close>

definition extract_dir_member :: "uac_lib \<Rightarrow> uac \<Rightarrow> path \<Rightarrow> (nat \<Rightarrow> string) \<Rightarrow> string \<Rightarrow> unit ux_act" where
  "extract_dir_member L A root names rel = a_bind a_get (\<lambda>s.
     let w = ua_os L; p = join_path (uc_source A) rel in
     if \<not> p_exists w (ux_fs s) p \<and> \<not> lstat_link w (ux_fs s) p
     then a_modify (note_error ''SOURCE_UNREADABLE'' ''requested path not found'' rel)
     else if lstat_link w (ux_fs s) p \<or> \<not> is_file w (ux_fs s) p
     then a_modify (reject ''SYMLINK_REJECTED'' ''only regular files may be extracted'' rel)
     else a_bind (a_lift (uac_sys (read_file w p (ux_fs s)))) (\<lambda>c. copy_stream L A root names rel (c, None)))"

definition recorded_name :: "string \<Rightarrow> (string \<Rightarrow> unit ux_act) \<Rightarrow> unit ux_act" where
  "recorded_name name k s =
     (case uac_member name of
        Inr rel \<Rightarrow> k rel s
      | Inl (Uac c m p) \<Rightarrow> (s\<lparr>ux_rejected := ux_rejected s + 1, ux_errors := ux_errors s @ [uac_dict c m p]\<rparr>, Inr ())
      | Inl e \<Rightarrow> (s, Inl e))"

definition extract_zip_member :: "uac_lib \<Rightarrow> uac \<Rightarrow> path \<Rightarrow> (nat \<Rightarrow> string) \<Rightarrow> string list \<Rightarrow> uz_item \<Rightarrow> unit ux_act" where
  "extract_zip_member L A root names wanted i = recorded_name (uz_name i) (\<lambda>rel.
     if rel \<notin> set wanted \<or> suffix ''/'' (uz_name i) then a_ret ()
     else if uz_encrypted i
     then a_modify (reject ''ARCHIVE_MEMBER_INVALID'' ''encrypted archive member cannot be extracted'' rel)
     else a_bind (a_lift (uac_sys (uz_open i))) (copy_stream L A root names rel))"

definition extract_tar_member :: "uac_lib \<Rightarrow> uac \<Rightarrow> path \<Rightarrow> (nat \<Rightarrow> string) \<Rightarrow> string list \<Rightarrow> ut_item \<Rightarrow> unit ux_act" where
  "extract_tar_member L A root names wanted i = recorded_name (ut_name i) (\<lambda>rel.
     if rel \<notin> set wanted then a_ret ()
     else if ut_kind i \<noteq> TmFile
     then a_modify (reject ''SYMLINK_REJECTED'' ''non-regular archive member rejected'' rel)
     else a_bind (a_lift (uac_sys (ut_stream i))) (\<lambda>st. case st of None \<Rightarrow> a_ret () | Some b \<Rightarrow> copy_stream L A root names rel b))"

definition extract_7z_member :: "uac_lib \<Rightarrow> uac \<Rightarrow> path \<Rightarrow> (nat \<Rightarrow> string) \<Rightarrow> string \<Rightarrow> unit ux_act" where
  "extract_7z_member L A root names rel = a_bind (a_lift (uac_member rel)) (\<lambda>_. a_bind a_get (\<lambda>s.
     case checked_7z L A [''x'', ''-so'', ''-y'', path_str (uc_source A), rel] (ux_fs s) of
       Inl (UacRaise (PyErr n)) \<Rightarrow> a_modify (reject ''EXTRACTION_FAILED'' ''7z member extraction failed'' rel)
     | Inl e \<Rightarrow> a_fail e
     | Inr out \<Rightarrow> copy_stream L A root names rel (out, None)))"

fun each_member :: "('x \<Rightarrow> unit ux_act) \<Rightarrow> 'x list \<Rightarrow> unit ux_act" where
  "each_member k [] = a_ret ()"
| "each_member k (x # xs) = a_bind (k x) (\<lambda>_. each_member k xs)"

section \<open>The whole extraction\<close>

text \<open>The allow list: refused names are recorded, the others form a set.\<close>

definition wanted_name :: "string \<Rightarrow> string option ux_act" where
  "wanted_name raw s =
     (case uac_member raw of
        Inr rel \<Rightarrow> (s, Inr (Some rel))
      | Inl (Uac c m p) \<Rightarrow> (s\<lparr>ux_rejected := ux_rejected s + 1, ux_errors := ux_errors s @ [uac_dict c m p]\<rparr>, Inr None)
      | Inl e \<Rightarrow> (s, Inl e))"

definition wanted_names :: "string list \<Rightarrow> string list ux_act" where
  "wanted_names raws = a_bind (a_each wanted_name raws) (\<lambda>ws. a_ret (List.map_filter id ws))"

definition extract_wanted :: "uac_lib \<Rightarrow> uac \<Rightarrow> path \<Rightarrow> (nat \<Rightarrow> string) \<Rightarrow> string list \<Rightarrow> unit ux_act" where
  "extract_wanted L A root names wanted = a_bind a_get (\<lambda>s.
     if is_dir (ua_os L) (ux_fs s) (uc_source A)
     then each_member (extract_dir_member L A root names) (sort (remdups wanted))
     else a_bind (a_lift (uac_sys (archive_kind L A (ux_fs s)))) (\<lambda>kind.
       if kind = ''7z'' then each_member (extract_7z_member L A root names) (sort (remdups wanted))
       else a_bind (a_lift (uac_sys (source_bytes L A (ux_fs s)))) (\<lambda>c.
         if kind = ''zip''
         then a_bind (a_lift (uac_sys (ua_zip L c))) (each_member (extract_zip_member L A root names wanted))
         else a_bind (a_lift (uac_sys (ua_tar L c))) (each_member (extract_tar_member L A root names wanted)))))"

definition uac_extract_status :: "uac_extract \<Rightarrow> string" where
  "uac_extract_status s = (if ux_errors s = [] then ''completed'' else if ux_count s \<noteq> 0 then ''partial'' else ''rejected'')"

definition extraction_json :: "uac \<Rightarrow> path \<Rightarrow> string \<Rightarrow> uac_extract \<Rightarrow> json" where
  "extraction_json A root status s = JObj [(''root'', JStr (path_str root)), (''status'', JStr status), (''policy_version'', JStr policy_version),
     (''max_file_bytes'', JInt (uc_max_file A)), (''max_total_bytes'', JInt (uc_max_total A)), (''extracted_count'', JInt (int (ux_count s))),
     (''rejected_count'', JInt (int (ux_rejected s))), (''errors'', JList (ux_errors s))]"

definition fresh_extract :: "fs \<Rightarrow> uac_extract" where
  "fresh_extract f = \<lparr>ux_fs = f, ux_sum = 0, ux_count = 0, ux_rejected = 0, ux_errors = [], ux_temp = 0\<rparr>"

definition extracted_root :: "uac_lib \<Rightarrow> uac \<Rightarrow> fs \<Rightarrow> path" where
  "extracted_root L A f = realpath (ua_os L) f (uc_analysis A @ [''extracted''])"

definition extract_uac :: "uac_lib \<Rightarrow> uac \<Rightarrow> (nat \<Rightarrow> string) \<Rightarrow> string list \<Rightarrow> (path \<times> uac_extract \<times> string) uac_act" where
  "extract_uac L A names selected = a_bind a_get (\<lambda>s0.
     let root = extracted_root L A (us_fs s0) in
     a_bind (a_step (\<lambda>s. case mkdir (ua_os L) 493 root True (us_fs s) of Inl e \<Rightarrow> Inl (UacRaise e) | Inr f \<Rightarrow> Inr (s\<lparr>us_fs := f\<rparr>))) (\<lambda>_.
     if selected = [] then a_bind a_get (\<lambda>s. a_ret (root, fresh_extract (us_fs s), ''not_requested''))
     else
       a_bind (validated_archive L A) (\<lambda>v.
       a_bind (a_guard (av_status v \<noteq> ''invalid'') (Uac ''ARCHIVE_INVALID'' ''cannot extract invalid archive'' None)) (\<lambda>_.
       (\<lambda>s. case a_bind (wanted_names selected) (extract_wanted L A root names) (fresh_extract (us_fs s)) of
          (x, Inl e) \<Rightarrow> (s\<lparr>us_fs := ux_fs x\<rparr>, Inl e)
        | (x, Inr u) \<Rightarrow> (s\<lparr>us_fs := ux_fs x\<rparr>, Inr (root, x, uac_extract_status x)))))))"

section \<open>The report\<close>

definition uac_entry_json :: "uac_entry \<Rightarrow> json" where
  "uac_entry_json e = JObj ([(''path'', JStr (ue_path e)), (''size'', JInt (ue_size e)), (''mtime'', JStr (ue_mtime e)),
     (''sha256'', JStr (ue_sha e)), (''kind'', JStr (ue_kind e)), (''allocated'', JBool True)]
     @ (case ue_source e of None \<Rightarrow> [] | Some x \<Rightarrow> [(''source_id'', JStr x)])
     @ (case ue_link e of None \<Rightarrow> [] | Some x \<Rightarrow> [(''link_target'', JStr x)]))"

definition archive_check_json :: "archive_check \<Rightarrow> json" where
  "archive_check_json v = JObj ([(''kind'', JStr (av_kind v)), (''status'', JStr (av_status v))]
     @ (case av_count v of None \<Rightarrow> [] | Some n \<Rightarrow> [(''member_count'', JInt (int n))])
     @ (case av_error v of None \<Rightarrow> [] | Some e \<Rightarrow> [(''error'', e)]))"

definition is_entry_file :: "uac_entry \<Rightarrow> bool" where
  "is_entry_file e = (ue_kind e = ''file'')"

definition uac_report :: "uac_lib \<Rightarrow> uac \<Rightarrow> dict uac_act" where
  "uac_report L A =
     a_bind (inventory_uac L A) (\<lambda>es.
     a_bind (validated_archive L A) (\<lambda>v.
     a_bind a_get (\<lambda>s. a_ret
       [(''schema_version'', JStr ''1.0''), (''evidence_id'', JStr (take 32 (sha_bytes (ua_os L) (path_str (uc_source A))))),
        (''source_type'', JStr (uc_type A)), (''original_uri'', JStr (as_uri (uc_source A))), (''archive_validation'', archive_check_json v),
        (''inventory'', JList (map uac_entry_json es)),
        (''safe_extraction'', extraction_json A (extracted_root L A (us_fs s)) ''not_requested'' (fresh_extract (us_fs s))),
        (''collection_coverage'', JObj [(''status'', JStr ''substantial''), (''filesystem_metadata'', JBool True),
           (''allocated_files'', JBool (list_ex is_entry_file es)), (''deleted_files'', JBool False), (''unallocated_space'', JBool False),
           (''memory_artifacts'', JBool False), (''network_artifacts'', JBool False),
           (''notes'', str_list [''Archive/directory inventory does not establish complete collection coverage.''])]),
        (''adapter_metadata'', JObj [(''adapter'', JStr ''uac_adapter''), (''policy_version'', JStr policy_version),
           (''inventory_file_count'', JInt (int (length (filter is_entry_file es)))),
           (''inventory_hashed_count'', JInt (int (length (filter (\<lambda>e. is_entry_file e \<and> ue_sha e \<noteq> zero_sha) es)))),
           (''encryption_detected'', JBool (us_encrypted s)), (''inventory_errors'', JList (us_errors s))])])))"

end
