(* ===== verification/Uac_Correct.thy ===== *)
theory Uac_Correct
  imports Uac_Extract Extraction_Correct
begin

text \<open>
  What the UAC adapter promises: an accepted member name is relative and climbs nowhere, and an
  extraction writes below its own root only, within the limits, whatever the archive holds and
  whether it ends in an answer or in an exception.
\<close>

section \<open>Member names\<close>

definition plain_part :: "string \<Rightarrow> bool" where
  "plain_part p = (p \<noteq> [] \<and> p \<noteq> ''.'' \<and> slash \<notin> set p)"

text \<open>Normalising a relative name leaves two dots only at the front.\<close>

definition climbs_first :: "string list \<Rightarrow> bool" where
  "climbs_first ps = ((\<forall>p\<in>set ps. plain_part p) \<and> (\<exists>k qs. ps = replicate k ''..'' @ qs \<and> ''..'' \<notin> set qs))"

lemma climbs_step:
  assumes "climbs_first acc" "slash \<notin> set part" shows "climbs_first (norm_step False acc part)"
proof -
  from assms(1) obtain k qs where acc: "acc = replicate k ''..'' @ qs" "''..'' \<notin> set qs" and ok: "\<forall>p\<in>set acc. plain_part p"
    by (auto simp: climbs_first_def)
  consider (skip) "part = [] \<or> part = ''.''" | (down) "part \<noteq> []" "part \<noteq> ''.''" "part \<noteq> ''..''"
    | (up) "part = ''..''" "qs = []" | (pop) "part = ''..''" "qs \<noteq> []" by blast
  then show ?thesis
  proof cases
    case skip
    with assms(1) show ?thesis by (auto simp: norm_step_def)
  next
    case down
    then have "norm_step False acc part = replicate k ''..'' @ (qs @ [part])" by (simp add: norm_step_def acc(1))
    moreover have "\<forall>p\<in>set (replicate k ''..'' @ (qs @ [part])). plain_part p"
      using ok down assms(2) unfolding acc(1) by (auto simp: plain_part_def)
    moreover have "''..'' \<notin> set (qs @ [part])" using acc(2) down by simp
    ultimately show ?thesis unfolding climbs_first_def by metis
  next
    case up
    have last: "acc = [] \<or> last acc = ''..''" using acc(1) up(2) by (cases k) (simp_all del: replicate_Suc add: last_replicate)
    then have "norm_step False acc part = replicate (Suc k) ''..'' @ []"
      using acc(1) up by (auto simp: norm_step_def replicate_append_same)
    moreover have "plain_part ''..''" by (simp add: plain_part_def slash_def)
    ultimately show ?thesis unfolding climbs_first_def by (metis append_Nil2 empty_iff in_set_replicate list.set(1))
  next
    case pop
    then have l: "last acc = last qs" "butlast acc = replicate k ''..'' @ butlast qs" by (simp_all add: acc(1) butlast_append)
    have "last qs \<noteq> ''..''" using pop acc(2) last_in_set by metis
    with l pop acc(1) have "norm_step False acc part = replicate k ''..'' @ butlast qs" by (simp add: norm_step_def)
    moreover have "\<forall>p\<in>set (replicate k ''..'' @ butlast qs). plain_part p"
      using ok l(2) by (metis in_set_butlastD)
    moreover have "''..'' \<notin> set (butlast qs)" using acc(2) in_set_butlastD by metis
    ultimately show ?thesis unfolding climbs_first_def by metis
  qed
qed

lemma climbs_fold: "climbs_first acc \<Longrightarrow> \<forall>p\<in>set ps. slash \<notin> set p \<Longrightarrow> climbs_first (foldl (norm_step False) acc ps)"
  by (induction ps arbitrary: acc) (auto intro: climbs_step)

lemma join_head: "join ''/'' (p # ps) = p \<or> prefix (p @ ''/'') (join ''/'' (p # ps))"
  by (cases ps) simp_all

lemma relative_join:
  assumes "slash \<notin> set p" "p \<noteq> []" shows "\<not> is_absolute (join ''/'' (p # ps))"
proof -
  obtain c r where p: "p = c # r" using assms(2) by (cases p) auto
  with assms(1) join_head [of p ps] show ?thesis
    by (auto simp: is_absolute_def root_of_def slash_def prefix_def)
qed

text \<open>A name an extraction may use: it stays below whatever it is joined to.\<close>

definition safe_rel :: "string \<Rightarrow> bool" where
  "safe_rel rel = (\<not> is_absolute rel \<and> path_parts rel \<noteq> [] \<and> clean_path (path_parts rel))"

lemma safe_rel_join: "safe_rel rel \<Longrightarrow> join_path root rel = root @ path_parts rel"
  by (simp add: safe_rel_def join_path_def)

lemma uac_member_Inr:
  assumes "uac_member name = Inr m"
  shows "\<exists>ps. ps \<noteq> [] \<and> m = join ''/'' ps \<and> path_parts m = ps \<and> ''..'' \<notin> set ps"
proof -
  let ?n = "unbackslash name"
  from assms have abs: "\<not> prefix ''/'' ?n" and m: "m = normpath ?n" "m \<noteq> []" "m \<noteq> ''.''" "m \<noteq> ''..''" "\<not> prefix ''../'' m"
    by (auto simp: uac_member_def Let_def split: if_splits)
  have root: "root_of ?n = []"
  proof -
    have "prefix ''/'' s" if "prefix ''///'' s \<or> prefix ''//'' s" for s :: string
      using that by (auto simp: prefix_def)
    with abs show ?thesis unfolding root_of_def by (metis)
  qed
  define ps where "ps = norm_parts ?n"
  have climb: "climbs_first ps"
    unfolding ps_def norm_parts_def using root
    by (auto simp: is_absolute_def climbs_first_def intro!: climbs_fold [unfolded climbs_first_def] dest: split_on_clean)
  have mj: "m = join ''/'' ps" "ps \<noteq> []"
    using m root by (auto simp: normpath_def ps_def Let_def split: if_splits)
  from climb obtain k qs where k: "ps = replicate k ''..'' @ qs" "''..'' \<notin> set qs" and pl: "\<forall>p\<in>set ps. plain_part p"
    by (auto simp: climbs_first_def)
  have "k = 0"
  proof (rule ccontr)
    assume "k \<noteq> 0"
    then obtain j where "k = Suc j" by (cases k) auto
    with k(1) have "ps = ''..'' # (replicate j ''..'' @ qs)" by simp
    with join_head [of "''..''" "replicate j ''..'' @ qs"] mj(1) m(4,5) show False by simp
  qed
  with k have "''..'' \<notin> set ps" by simp
  moreover have "path_parts m = ps" unfolding mj(1) using pl by (intro path_parts_join) (auto simp: plain_part_def)
  ultimately show ?thesis using mj by blast
qed

section \<open>The area an extraction may write to\<close>

text \<open>A volume that agrees with \<open>f0\<close> outside \<open>root\<close>, where the root and what is above it exist and every
  new file below it is within the size limit.\<close>

definition area :: "path \<Rightarrow> int \<Rightarrow> fs \<Rightarrow> fs \<Rightarrow> bool" where
  "area root limit f0 f = (no_links f \<and> same_outside root f0 f \<and> (\<forall>q. prefix q root \<longrightarrow> lookup f q \<noteq> None) \<and>
     (\<forall>p c m. lookup f p = Some (File c m) \<longrightarrow> lookup f0 p = Some (File c m) \<or> int (length c) \<le> limit))"

lemma area_set:
  "area root limit f0 f \<Longrightarrow> prefix root p \<Longrightarrow> int (length c) \<le> limit \<Longrightarrow> area root limit f0 (set_node p (File c m) f)"
  by (auto simp: area_def same_outside_def wb_fs intro: no_links_set)

lemma area_del: "area root limit f0 f \<Longrightarrow> strict_prefix root p \<Longrightarrow> area root limit f0 (del_node p f)"
  by (auto simp: area_def same_outside_def wb_fs strict_prefix_def intro: no_links_del dest: prefix_order.antisym)

lemma area_mkdir:
  assumes "area root limit f0 f" "mkdir w m p ok f = Inr f'" "prefix root p" shows "area root limit f0 f'"
proof -
  have "same_outside root f f'"
    using mkdir_outside [OF assms(2,3)] assms(1) by (auto simp: area_def)
  moreover have "lookup f' q = Some (File c k) \<Longrightarrow> lookup f q = Some (File c k)" for q c k
    using lookup_mkdir [OF assms(2), of q] by (auto split: if_splits)
  moreover have "lookup f q \<noteq> None \<Longrightarrow> lookup f' q \<noteq> None" for q
    using lookup_mkdir [OF assms(2), of q] by auto
  ultimately show ?thesis using assms(1) mkdir_no_links [OF assms(2)] unfolding area_def same_outside_def by metis
qed

definition within :: "uac \<Rightarrow> path \<Rightarrow> fs \<Rightarrow> uac_extract \<Rightarrow> bool" where
  "within A root f0 s = (area root (uc_max_file A) f0 (ux_fs s) \<and> ux_sum s \<le> uc_max_total A)"

lemma keeps_ux_do:
  assumes "\<And>f f'. area root (uc_max_file A) f0 f \<Longrightarrow> g f = Inr f' \<Longrightarrow> area root (uc_max_file A) f0 f'"
  shows "keeps (within A root f0) (ux_do g) (\<lambda>_. True)"
  unfolding ux_do_def by (rule keeps_step) (auto simp: within_def intro: assms split: sum.splits)

lemma keeps_lift: "(\<And>x. r = Inr x \<Longrightarrow> V x) \<Longrightarrow> keeps (within A root f0) (a_lift r) V"
  by (auto simp: keeps_def a_lift_def)

lemma keeps_reject: "keeps (within A root f0) (a_modify (reject c m p)) (\<lambda>_. True)" "keeps (within A root f0) (a_modify (note_error c m p)) (\<lambda>_. True)"
  by (rule keeps_modify; simp add: within_def reject_def note_error_def)+

lemma below_parent:
  assumes "strict_prefix root dest" shows "prefix root (butlast dest)" "strict_prefix root (temp_beside dest r)"
    "clean_path dest \<Longrightarrow> clean_path (temp_beside dest r)"
proof -
  from assms obtain z zs where "dest = root @ z # zs" by (rule strict_prefixE')
  then have "butlast dest = root @ butlast (z # zs)" by (simp add: butlast_append)
  then show "prefix root (butlast dest)" "strict_prefix root (temp_beside dest r)"
    by (auto simp: temp_beside_def strict_prefix_def)
  have "length (''.'' @ path_name dest @ ''.tmp-'' @ r) \<noteq> length ''..''" by simp
  then have "''.'' @ path_name dest @ ''.tmp-'' @ r \<noteq> ''..''" by metis
  then show "clean_path dest \<Longrightarrow> clean_path (temp_beside dest r)"
    unfolding temp_beside_def by (simp add: clean_butlast del: append.simps)
qed

lemma keeps_fill_temp:
  assumes plain: "os_plain (ua_os L)" and d: "strict_prefix root dest" and t: "strict_prefix root tmp" "clean_path tmp"
  shows "keeps (within A root f0) (fill_temp L A tmp dest rel st) (\<lambda>_. True)"
proof (rule keepsI)
  fix s s' r assume I: "within A root f0 s" and run: "fill_temp L A tmp dest rel st s = (s', r)"
  let ?n = "int (length (fst st))"
  have del: "within A root f0 (reject c m p (s1\<lparr>ux_fs := del_node tmp (ux_fs s1)\<rparr>))" if "within A root f0 s1" for c m p s1
    using that area_del [OF _ t(1)] by (simp add: within_def reject_def note_error_def)
  show "within A root f0 s' \<and> (\<forall>x. r = Inr x \<longrightarrow> True)"
  proof (cases "over_limit A (ux_sum s) ?n")
    case True
    with run del [OF I] show ?thesis by (auto simp: fill_temp_def wb_act a_bind_def)
  next
    case False
    then have small: "?n \<le> uc_max_file A" "ux_sum s + ?n \<le> uc_max_total A" by (auto simp: over_limit_def)
    show ?thesis
    proof (cases "write_file (ua_os L) tmp (fst st) (ux_fs s)")
      case (Inl e)
      with run False I show ?thesis by (auto simp: fill_temp_def wb_act a_bind_def ux_do_def a_step_def)
    next
      case (Inr f1)
      have "no_links (ux_fs s)" using I by (simp add: within_def area_def)
      with plain_write_file(1) [OF plain _ t(2) Inr] obtain m where f1: "f1 = set_node tmp (File (fst st) m) (ux_fs s)" by blast
      have I1: "within A root f0 (s\<lparr>ux_fs := f1\<rparr>)"
        using I small t unfolding f1 within_def by (auto intro!: area_set simp: strict_prefix_def)
      have moved: "within A root f0 (s\<lparr>ux_fs := f2, ux_count := Suc (ux_count s), ux_sum := ux_sum s + ?n\<rparr>)" if "replace_file tmp dest f1 = Inr f2" for f2
      proof -
        have "f2 = set_node dest (File (fst st) m) (del_node tmp f1)"
          using that by (simp add: replace_file_def f1 wb_fs)
        then show ?thesis using I1 small d t unfolding within_def
          by (auto intro!: area_set area_del simp: strict_prefix_def)
      qed
      show ?thesis
        using run False Inr I1 moved del [OF I1]
        by (auto simp: fill_temp_def wb_act a_bind_def ux_do_def a_step_def split: option.splits sum.splits if_splits)
    qed
  qed
qed

lemma keeps_copy_stream:
  assumes plain: "os_plain (ua_os L)" and limits: "0 \<le> uc_max_file A" and rel: "safe_rel rel" and rc: "clean_path root"
  shows "keeps (within A root f0) (copy_stream L A root names rel st) (\<lambda>_. True)"
  unfolding copy_stream_def Let_def
proof (rule keeps_bind [where V = "\<lambda>d. strict_prefix root d \<and> clean_path d"])
  show "keeps (within A root f0) (uac_destination L root rel) (\<lambda>d. strict_prefix root d \<and> clean_path d)"
    unfolding uac_destination_def Let_def safe_rel_join [OF rel]
    by (rule keeps_read)
      (use rel rc plain in \<open>auto simp: within_def area_def plain_fs strict_prefix_def safe_rel_def split: if_splits\<close>)
next
  fix dest assume "strict_prefix root dest \<and> clean_path dest"
  then have d: "strict_prefix root dest" and dc: "clean_path dest" by simp_all
  then have b: "prefix root (butlast dest)" using below_parent(1) by blast
  show "keeps (within A root f0) (a_bind (ux_do (mkdir (ua_os L) 448 (butlast dest) True)) (\<lambda>_.
     a_bind a_get (\<lambda>s.
     a_bind (a_guard (\<not> p_exists (ua_os L) (ux_fs s) dest)
       (Uac ''ARCHIVE_MEMBER_INVALID'' ''duplicate extraction destination'' (Some rel))) (\<lambda>_.
     a_bind (a_modify (\<lambda>s. s\<lparr>ux_temp := ux_temp s + 1\<rparr>)) (\<lambda>_.
     a_bind (ux_do (make_temp (ua_os L) (temp_beside dest (names (ux_temp s))))) (\<lambda>_.
     fill_temp L A (temp_beside dest (names (ux_temp s))) dest rel st)))))) (\<lambda>_. True)"
  proof (intro keeps_bind [where V = "\<lambda>_. True"] keeps_guard keeps_get keeps_ux_do keeps_modify keeps_fill_temp plain d below_parent(2) below_parent(3) [OF d dc] TrueI)
    fix f f' assume "area root (uc_max_file A) f0 f" "mkdir (ua_os L) 448 (butlast dest) True f = Inr f'"
    then show "area root (uc_max_file A) f0 f'" using b by (rule area_mkdir)
  next
    fix s :: uac_extract assume "within A root f0 s"
    then show "within A root f0 (s\<lparr>ux_temp := ux_temp s + 1\<rparr>)" by (simp add: within_def)
  next
    fix s f f' assume a: "area root (uc_max_file A) f0 f" and mk: "make_temp (ua_os L) (temp_beside dest (names (ux_temp s))) f = Inr f'"
    have "prefix root (temp_beside dest (names (ux_temp s)))" using below_parent(2) [OF d] by (simp add: strict_prefix_def)
    with a limits make_temp_Inr(2) [OF plain _ below_parent(3) [OF d dc] mk] show "area root (uc_max_file A) f0 f'"
      by (auto intro!: area_set simp: area_def [of _ _ _ f])
  qed
qed

section \<open>Members of every format\<close>

lemma uac_member_parts: assumes "uac_member name = Inr rel" shows "safe_rel rel"
proof -
  from uac_member_Inr [OF assms] obtain p ps where ps: "rel = join ''/'' (p # ps)" "path_parts rel = p # ps"
    "''..'' \<notin> set (p # ps)" by (metis list.exhaust)
  then have "slash \<notin> set p" "p \<noteq> []" using path_parts_clean [of p rel] by simp_all
  with ps relative_join show ?thesis by (simp add: safe_rel_def clean_path_def)
qed

lemma keeps_recorded_name:
  assumes "\<And>rel. uac_member name = Inr rel \<Longrightarrow> keeps (within A root f0) (k rel) (\<lambda>_. True)"
  shows "keeps (within A root f0) (recorded_name name k) (\<lambda>_. True)"
proof (cases "uac_member name")
  case (Inr rel)
  with assms [OF Inr] show ?thesis by (simp add: recorded_name_def keeps_def)
next
  case (Inl e)
  then show ?thesis by (cases e) (auto simp: recorded_name_def keeps_def within_def)
qed

lemma keeps_each_member:
  "(\<And>x. x \<in> set xs \<Longrightarrow> keeps (within A root f0) (k x) (\<lambda>_. True)) \<Longrightarrow> keeps (within A root f0) (each_member k xs) (\<lambda>_. True)"
  by (induction xs) (auto intro!: wb_keeps keeps_bind [where V = "\<lambda>_. True"])

lemmas keeps_extract = keeps_bind [where V = "\<lambda>_. True"] keeps_get keeps_lift keeps_reject keeps_if keeps_option keeps_ret keeps_fail TrueI

lemma keeps_dir_member:
  assumes "os_plain (ua_os L)" "0 \<le> uc_max_file A" "safe_rel rel" "clean_path root"
  shows "keeps (within A root f0) (extract_dir_member L A root names rel) (\<lambda>_. True)"
  unfolding extract_dir_member_def Let_def by (intro keeps_extract keeps_copy_stream assms)

lemma keeps_zip_member:
  assumes "os_plain (ua_os L)" "0 \<le> uc_max_file A" "clean_path root"
  shows "keeps (within A root f0) (extract_zip_member L A root names wanted i) (\<lambda>_. True)"
  unfolding extract_zip_member_def
  by (intro keeps_recorded_name keeps_extract keeps_copy_stream assms uac_member_parts)

lemma keeps_tar_member:
  assumes "os_plain (ua_os L)" "0 \<le> uc_max_file A" "clean_path root"
  shows "keeps (within A root f0) (extract_tar_member L A root names wanted i) (\<lambda>_. True)"
  unfolding extract_tar_member_def
  by (intro keeps_recorded_name keeps_extract keeps_copy_stream assms uac_member_parts)

lemma keeps_7z_member:
  assumes "os_plain (ua_os L)" "0 \<le> uc_max_file A" "safe_rel rel" "clean_path root"
  shows "keeps (within A root f0) (extract_7z_member L A root names rel) (\<lambda>_. True)"
  unfolding extract_7z_member_def
  by (intro keeps_extract)
     (auto split: sum.split uac_error.split sys_error.split intro!: keeps_reject keeps_fail keeps_copy_stream assms)

definition named :: "string list \<Rightarrow> bool" where
  "named ws = (\<forall>w\<in>set ws. safe_rel w)"

lemma keeps_wanted:
  "keeps (within A root f0) (wanted_names raws) named"
proof -
  have one: "keeps (within A root f0) (wanted_name raw) (\<lambda>w. \<forall>x. w = Some x \<longrightarrow> safe_rel x)" for raw
  proof (cases "uac_member raw")
    case (Inr rel)
    with uac_member_parts [OF Inr] show ?thesis by (simp add: wanted_name_def keeps_def)
  next
    case (Inl e)
    then show ?thesis by (cases e) (auto simp: wanted_name_def keeps_def within_def)
  qed
  have "keeps (within A root f0) (a_each wanted_name raws) (\<lambda>ws. named (List.map_filter id ws))"
  proof (induction raws)
    case (Cons raw raws)
    show ?case unfolding a_each.simps
      by (intro keeps_bind [OF one] keeps_bind [OF Cons.IH] keeps_ret) (auto simp: named_def split: option.splits)
  qed (auto intro!: keeps_ret simp: named_def)
  then show ?thesis unfolding wanted_names_def by (rule keeps_bind) (auto intro: keeps_ret)
qed

lemma keeps_extract_wanted:
  assumes "os_plain (ua_os L)" "0 \<le> uc_max_file A" "clean_path root" "named ws"
  shows "keeps (within A root f0) (extract_wanted L A root names ws) (\<lambda>_. True)"
  unfolding extract_wanted_def
  by (intro keeps_extract keeps_each_member keeps_dir_member keeps_7z_member keeps_zip_member keeps_tar_member assms(1-3))
     (use assms(4) in \<open>auto simp: named_def\<close>)

section \<open>The whole extraction\<close>

lemma keeps_volume:
  "keeps (\<lambda>s. us_fs s = f) (validated_archive L A) (\<lambda>_. True)"
proof -
  let ?I = "\<lambda>s. us_fs s = f"
  have zip: "keeps ?I (validate_zip L A) (\<lambda>_. True)"
    by (auto simp: keeps_def validate_zip_def Let_def split: sum.splits prod.splits)
  have others: "keeps ?I (validate_tar L A k) (\<lambda>_. True)" "keeps ?I (validate_7z L A) (\<lambda>_. True)" for k
    unfolding validate_tar_def validate_7z_def by (rule keeps_read, simp)+
  have "keeps ?I (validate_uac L A) (\<lambda>_. True)"
    unfolding validate_uac_def validate_archive_kind_def Let_def
    by (intro keeps_bind [where V = "\<lambda>_. True"] keeps_get keeps_guard keeps_if keeps_ret keeps_fail keeps_modify keeps_read zip others TrueI) simp
  then show ?thesis unfolding validated_archive_def
    by (intro keeps_bind [where V = "\<lambda>_. True"] keeps_get keeps_option keeps_ret TrueI)
qed

lemma extract_loop_within:
  assumes "os_plain (ua_os L)" "0 \<le> uc_max_file A" "0 \<le> uc_max_total A"
    and "clean_path root" "no_links f" "\<And>q. prefix q root \<Longrightarrow> lookup f q \<noteq> None"
    and "a_bind (wanted_names sel) (extract_wanted L A root names) (fresh_extract f) = (x, r)"
  shows "within A root f x"
proof -
  have "within A root f (fresh_extract f)"
    using assms(3-6) by (simp add: within_def area_def same_outside_def fresh_extract_def)
  moreover have "keeps (within A root f) (a_bind (wanted_names sel) (extract_wanted L A root names)) (\<lambda>_. True)"
    by (rule keeps_bind [OF keeps_wanted keeps_extract_wanted]) (use assms(1,2,4) in auto)
  ultimately show ?thesis using assms(7) by (auto simp: keeps_def dest: spec [of _ "fresh_extract f"])
qed


definition demo_collection :: fs where
  "demo_collection = [([], Dir 493), ([''an''], Dir 448), ([''col''], Dir 493), ([''col'', ''a''], File ''xyz'' 420)]"

definition demo_uac_lib :: uac_lib where
  "demo_uac_lib = \<lparr>ua_os = demo_disk_os, ua_mtime = (\<lambda>f p. ''now''), ua_zip = (\<lambda>c. Inl (PyErr ''BadZipFile'')),
     ua_crc = (\<lambda>c. Inr None), ua_tar = (\<lambda>c. Inl (PyErr ''TarError'')), ua_7z = (\<lambda>xs c. NotRun ''missing'')\<rparr>"

definition demo_uac :: uac where
  "demo_uac = \<lparr>uc_source = [''col''], uc_analysis = [''an''], uc_max_file = 5, uc_max_total = 5, uc_type = ''uac_directory''\<rparr>"

definition demo_uac_state :: uac_state where
  "demo_uac_state = \<lparr>us_fs = demo_collection, us_validation = None, us_inventory = None, us_errors = [], us_encrypted = False\<rparr>"

lemma demo_collection_ok: "no_links demo_collection" "tree_ok demo_collection"
proof -
  have keys: "lookup demo_collection p \<noteq> None \<longleftrightarrow> p \<in> {[], [''an''], [''col''], [''col'', ''a'']}" for p
    by (auto simp: lookup_def demo_collection_def)
  show "no_links demo_collection"
    by (auto simp: no_links_def is_symlink_def lookup_def demo_collection_def split: option.splits node.splits if_splits)
  show "tree_ok demo_collection" unfolding tree_ok_def keys by (auto simp: prefix_Cons)
qed


text \<open>An accepted name is relative, climbs nowhere and is its own normal form.\<close>

theorem uac_member_names_are_safe:
  assumes "uac_member name = Inr m"
  shows "\<exists>ps. ps \<noteq> [] \<and> m = join ''/'' ps \<and> path_parts m = ps \<and> ''..'' \<notin> set ps"
  using assms by (rule uac_member_Inr)

text \<open>The drive letter is looked for before normalisation only.\<close>

lemma drive_letter_behind_a_dot: "uac_member ''./C:/x'' = Inr ''C:/x''"
  by code_simp

end
