(* ===== verification/Velo_Adapter.thy ===== *)
theory Velo_Adapter
  imports Uac_Adapter Regex
begin

text \<open>
  \<^verbatim>\<open>adapters/velociraptor_adapter.py\<close>: collection archives and directories.  The ZIP reader maps the
  bytes of the source to its members; opening a member by name, as extraction does, is the reader's
  own lookup.  The identifiers found in the metadata text are a parameter's answer to three patterns.
\<close>

section \<open>Library, errors, adapter\<close>

record vz_item =
  vz_name :: string
  vz_attr :: "32 word"
  vz_offset :: nat
  vz_size :: int
  vz_time :: "string option"
  vz_open :: "sys_error + byte_stream"

record velo_lib =
  vl_os :: os
  vl_mtime :: "fs \<Rightarrow> path \<Rightarrow> string"
  vl_is_zip :: "string \<Rightarrow> bool"
  vl_zip :: "string \<Rightarrow> sys_error + vz_item list"
  vl_crc :: "string \<Rightarrow> sys_error + string option"
  vl_member :: "string \<Rightarrow> string \<Rightarrow> sys_error + byte_stream"
  vl_info :: "string \<Rightarrow> string \<Rightarrow> int"
  vl_text :: "string \<Rightarrow> string \<Rightarrow> string option"
  vl_identifier :: "string \<Rightarrow> string \<Rightarrow> string option"

datatype velo_error = Velo string string "string option" | VeloRaise sys_error

definition velo_dict :: "string \<Rightarrow> string \<Rightarrow> string option \<Rightarrow> json" where
  "velo_dict code msg p = JObj ([(''code'', JStr code), (''message'', JStr msg), (''retryable'', JBool False)]
     @ (if non_blank p then [(''path'', JStr (the p))] else []))"

definition velo_sys :: "sys_error + 'a \<Rightarrow> velo_error + 'a" where
  "velo_sys r = (case r of Inl e \<Rightarrow> Inl (VeloRaise e) | Inr x \<Rightarrow> Inr x)"

record velo =
  vc_source :: path
  vc_analysis :: path
  vc_max_file :: int
  vc_max_total :: int
  vc_metadata :: json

section \<open>Names and metadata\<close>

text \<open>A name that normalises to the current directory has no first part: \<^verbatim>\<open>p.parts[0]\<close> raises.\<close>

definition velo_member :: "string \<Rightarrow> velo_error + string" where
  "velo_member name =
     (let n = unbackslash name; bad = Inl (Velo ''PATH_TRAVERSAL_REJECTED'' ''Unsafe archive member path'' None) in
      if n = [] \<or> is_absolute n \<or> ''..'' \<in> set (path_parts n) then bad
      else (case path_parts n of
              [] \<Rightarrow> Inl (VeloRaise (PyErr ''IndexError''))
            | p # ps \<Rightarrow> if CHR '':'' \<in> set p then bad else Inr (as_posix n)))"

definition velo_is_zip :: "velo_lib \<Rightarrow> path \<Rightarrow> fs \<Rightarrow> bool" where
  "velo_is_zip L src f = (is_file (vl_os L) f src \<and> (case read_file (vl_os L) src f of Inl e \<Rightarrow> False | Inr c \<Rightarrow> vl_is_zip L c))"

definition metadata_member :: "velo_lib \<Rightarrow> string \<Rightarrow> string \<Rightarrow> bool" where
  "metadata_member L c n = ((suffix ''.json'' (lower n) \<or> suffix ''.jsonl'' (lower n)) \<and> vl_info L c n < 2000000)"

text \<open>Members that cannot be read add nothing; the others their decoded text up to a limit.\<close>

definition member_text :: "velo_lib \<Rightarrow> string \<Rightarrow> string \<Rightarrow> string" where
  "member_text L c n = (case vl_text L c n of None \<Rightarrow> [] | Some t \<Rightarrow> '' '' @ take 200000 t)"

definition metadata_text :: "velo_lib \<Rightarrow> path \<Rightarrow> fs \<Rightarrow> velo_error + string" where
  "metadata_text L src f =
     (if \<not> velo_is_zip L src f then Inr (path_name src)
      else velo_sys (r_bind (read_file (vl_os L) src f) (\<lambda>c. r_bind (vl_zip L c) (\<lambda>items.
        let names = map vz_name items in
        Inr (path_name src @ '' '' @ join '' '' (take 100 names) @
             concat (map (member_text L c) (filter (metadata_member L c) names)))))))"

definition identifier_keys :: "string list" where
  "identifier_keys = [''client_id'', ''flow_id'', ''hunt_id'']"

definition discover_metadata :: "velo_lib \<Rightarrow> path \<Rightarrow> fs \<Rightarrow> velo_error + json" where
  "discover_metadata L src f = r_bind (metadata_text L src f) (\<lambda>t.
     Inr (JObj [(''bundle_format'', JStr ''Velociraptor''),
       (''identifiers'', JObj (List.map_filter (\<lambda>k. map_option (\<lambda>v. (k, JStr v)) (vl_identifier L k t)) identifier_keys))]))"

definition make_velo :: "velo_lib \<Rightarrow> path \<Rightarrow> path \<Rightarrow> int \<Rightarrow> int \<Rightarrow> fs \<Rightarrow> fs \<times> (velo_error + velo)" where
  "make_velo L source root max_file max_sum f =
     (let w = vl_os L; src = realpath w f source; dir = realpath w f root in
      case mkdir w 448 dir True f of
        Inl e \<Rightarrow> (f, Inl (VeloRaise e))
      | Inr f1 \<Rightarrow> (f1,
          if \<not> p_exists w f1 src then Inl (Velo ''SOURCE_NOT_FOUND'' ''Evidence source does not exist'' None)
          else if \<not> (is_file w f1 src \<or> is_dir w f1 src)
          then Inl (Velo ''SOURCE_UNREADABLE'' ''Evidence source is not a regular file or directory'' None)
          else r_bind (discover_metadata L src f1) (\<lambda>m.
            Inr \<lparr>vc_source = src, vc_analysis = dir, vc_max_file = max_file, vc_max_total = max_sum, vc_metadata = m\<rparr>)))"

section \<open>Validation\<close>

record velo_check =
  vk_format :: string
  vk_status :: string
  vk_errors :: "json list"
  vk_members :: "nat option"
  vk_directory :: bool

text \<open>An integrity failure of a member raises; only a bad archive is a result.\<close>

definition validate_velo :: "velo_lib \<Rightarrow> velo \<Rightarrow> fs \<Rightarrow> velo_error + velo_check" where
  "validate_velo L V f =
     (let w = vl_os L; src = vc_source V;
          base = \<lparr>vk_format = ''velociraptor'', vk_status = ''valid'', vk_errors = [], vk_members = None, vk_directory = False\<rparr> in
      if is_file w f src \<and> \<not> velo_is_zip L src f
      then Inr (base\<lparr>vk_status := ''unsupported'', vk_errors := [velo_dict ''UNSUPPORTED_FORMAT'' ''Source is not a Velociraptor ZIP bundle'' None]\<rparr>)
      else if velo_is_zip L src f
      then r_bind (velo_sys (read_file w src f)) (\<lambda>c.
             case r_bind (vl_zip L c) (\<lambda>items. r_bind (vl_crc L c) (\<lambda>bad. Inr (items, bad))) of
               Inl e \<Rightarrow> if e = PyErr ''BadZipFile''
                 then Inr (base\<lparr>vk_status := ''invalid'', vk_errors := [velo_dict ''ARCHIVE_INVALID'' ''Invalid ZIP archive'' None]\<rparr>)
                 else Inl (VeloRaise e)
             | Inr (items, bad) \<Rightarrow>
                 if non_blank bad then Inl (Velo ''ARCHIVE_INVALID'' ''ZIP integrity check failed'' bad)
                 else Inr (base\<lparr>vk_members := Some (length items)\<rparr>))
      else if is_dir w f src then Inr (base\<lparr>vk_format := ''velociraptor_directory'', vk_directory := True\<rparr>)
      else Inr base)"

definition velo_check_json :: "velo \<Rightarrow> velo_check \<Rightarrow> dict" where
  "velo_check_json V k = [(''source_type'', JStr ''velociraptor_triage''), (''format'', JStr (vk_format k)), (''status'', JStr (vk_status k)),
     (''warnings'', JList []), (''errors'', JList (vk_errors k)), (''metadata'', vc_metadata V)]
     @ (case vk_members k of None \<Rightarrow> [] | Some n \<Rightarrow> [(''member_count'', JInt (int n))])
     @ (if vk_directory k then [(''archive_validation'', JStr ''not_applicable'')] else [])"

section \<open>Inventory\<close>

definition velo_size_error :: "string \<Rightarrow> string \<Rightarrow> velo_error" where
  "velo_size_error msg rel = Velo ''FILE_LIMIT_EXCEEDED'' msg (Some rel)"

definition hash_stream :: "os \<Rightarrow> byte_stream \<Rightarrow> velo_error + (string \<times> int)" where
  "hash_stream w st = (case snd st of Some e \<Rightarrow> Inl (VeloRaise e) | None \<Rightarrow> Inr (sha_bytes w (fst st), int (length (fst st))))"

definition velo_time :: "vz_item \<Rightarrow> velo_error + string" where
  "velo_time i = (case vz_time i of None \<Rightarrow> Inl (VeloRaise (PyErr ''ValueError'')) | Some t \<Rightarrow> Inr t)"

definition member_entry :: "vz_item \<Rightarrow> string \<Rightarrow> int \<Rightarrow> string \<Rightarrow> string \<Rightarrow> velo_error + uac_entry" where
  "member_entry i rel n h k = r_bind (velo_time i) (\<lambda>t. Inr (uac_entry_of rel n t h k (Some (dec_nat (vz_offset i))) None))"

definition velo_zip_entry :: "velo_lib \<Rightarrow> velo \<Rightarrow> vz_item \<Rightarrow> velo_error + uac_entry" where
  "velo_zip_entry L V i =
     r_bind (velo_member (vz_name i)) (\<lambda>rel.
       let ty = file_type (unix_mode (vz_attr i)) in
       if ty = 0xA000 \<or> ty \<noteq> 0 \<and> ty \<noteq> 0x8000 \<and> ty \<noteq> 0x4000
       then member_entry i rel 0 zero_sha (if ty = 0xA000 then ''symlink'' else ''special'')
       else if suffix ''/'' (vz_name i) then member_entry i rel 0 zero_sha ''directory''
       else if vc_max_file V < vz_size i then Inl (velo_size_error ''Archive member exceeds size limit'' rel)
       else r_bind (velo_sys (vz_open i)) (\<lambda>st. r_bind (hash_stream (vl_os L) st) (\<lambda>(h, n). member_entry i rel n h ''file'')))"

definition velo_dir_entry :: "velo_lib \<Rightarrow> velo \<Rightarrow> fs \<Rightarrow> path \<Rightarrow> velo_error + uac_entry" where
  "velo_dir_entry L V f p =
     (let rel = relative_to (vc_source V) p; t = vl_mtime L f p in
      case lookup f p of
        Some (Link q) \<Rightarrow> Inr (uac_entry_of rel 0 t zero_sha ''symlink'' None (Some (path_str q)))
      | Some (Dir m) \<Rightarrow> Inr (uac_entry_of rel 0 t zero_sha ''directory'' None None)
      | Some (File c m) \<Rightarrow>
          (if vc_max_file V < int (length c) then Inl (velo_size_error ''File exceeds size limit'' rel)
           else r_bind (velo_sys (read_file (vl_os L) p f)) (\<lambda>b. r_bind (hash_stream (vl_os L) (b, None)) (\<lambda>(h, n).
                  Inr (uac_entry_of rel n t h ''file'' None None))))
      | None \<Rightarrow> Inl (VeloRaise (OsError ''FileNotFoundError'')))"

definition inventory_velo :: "velo_lib \<Rightarrow> velo \<Rightarrow> fs \<Rightarrow> velo_error + uac_entry list" where
  "inventory_velo L V f =
     (if velo_is_zip L (vc_source V) f
      then r_bind (velo_sys (r_bind (read_file (vl_os L) (vc_source V) f) (vl_zip L))) (r_map (velo_zip_entry L V))
      else if is_dir (vl_os L) f (vc_source V) then r_map (velo_dir_entry L V f) (descendants (vc_source V) f)
      else Inl (Velo ''UNSUPPORTED_FORMAT'' ''Cannot inventory unsupported source'' None))"

definition velo_entry_json :: "uac_entry \<Rightarrow> json" where
  "velo_entry_json e = JObj ([(''path'', JStr (ue_path e)), (''size'', JInt (ue_size e)), (''mtime'', JStr (ue_mtime e)),
     (''sha256'', JStr (ue_sha e)), (''kind'', JStr (ue_kind e))]
     @ (case ue_source e of None \<Rightarrow> [] | Some x \<Rightarrow> [(''source_id'', JStr x)])
     @ (case ue_link e of None \<Rightarrow> [] | Some x \<Rightarrow> [(''link_target'', JStr x)]))"

section \<open>Extraction\<close>

record velo_item =
  vi_path :: string
  vi_output :: path
  vi_sha :: string
  vi_size :: int

record velo_extract =
  vx_fs :: fs
  vx_sum :: int
  vx_done :: "velo_item list"
  vx_errors :: "json list"

type_synonym 'a vx_act = "(velo_extract, velo_error, 'a) act"

text \<open>The stream of a member: by its name in the archive, or the file of that path below the source.\<close>

definition open_member :: "velo_lib \<Rightarrow> velo \<Rightarrow> string \<Rightarrow> fs \<Rightarrow> sys_error + byte_stream" where
  "open_member L V rel f =
     (if velo_is_zip L (vc_source V) f
      then r_bind (read_file (vl_os L) (vc_source V) f) (\<lambda>c. vl_member L c rel)
      else r_bind (read_file (vl_os L) (join_path (vc_source V) rel) f) (\<lambda>c. Inr (c, None)))"

definition vx_do :: "(fs \<Rightarrow> sys_error + fs) \<Rightarrow> unit vx_act" where
  "vx_do g = a_step (\<lambda>s. case g (vx_fs s) of Inl e \<Rightarrow> Inl (VeloRaise e) | Inr f \<Rightarrow> Inr (s\<lparr>vx_fs := f\<rparr>))"

definition velo_destination :: "velo_lib \<Rightarrow> path \<Rightarrow> string \<Rightarrow> path vx_act" where
  "velo_destination L root rel = a_read (\<lambda>s.
     let target = realpath (vl_os L) (vx_fs s) (join_path root rel) in
     if prefix root target then Inr target
     else Inl (Velo ''PATH_TRAVERSAL_REJECTED'' ''Destination escapes extraction root'' (Some rel)))"

text \<open>\<^verbatim>\<open>os.replace\<close> of a file does not replace a directory.\<close>

definition replace_at :: "velo_lib \<Rightarrow> path \<Rightarrow> path \<Rightarrow> fs \<Rightarrow> sys_error + fs" where
  "replace_at L tmp dest f = (if is_dir (vl_os L) f dest then Inl (OsError ''IsADirectoryError'') else replace_file tmp dest f)"

definition copy_member :: "velo_lib \<Rightarrow> velo \<Rightarrow> uac_entry \<Rightarrow> path \<Rightarrow> path \<Rightarrow> string \<Rightarrow> unit vx_act" where
  "copy_member L V entry tmp dest rel = a_bind a_get (\<lambda>s.
     a_bind (a_lift (velo_sys (open_member L V rel (vx_fs s)))) (\<lambda>st.
     let n = int (length (fst st)) in
     a_bind (a_guard (\<not> (vc_max_file V < n \<or> vc_max_total V < vx_sum s + n))
       (Velo ''TOTAL_LIMIT_EXCEEDED'' ''Extraction size limit exceeded'' (Some rel))) (\<lambda>_.
     a_bind (vx_do (write_file (vl_os L) tmp (fst st))) (\<lambda>_.
     a_bind (case snd st of Some e \<Rightarrow> a_fail (VeloRaise e) | None \<Rightarrow> a_ret ()) (\<lambda>_.
     a_bind (vx_do (chmod (vl_os L) tmp 384)) (\<lambda>_.
     a_bind (a_guard (sha_bytes (vl_os L) (fst st) = ue_sha entry \<and> n = ue_size entry)
       (Velo ''HASH_FAILED'' ''Extracted bytes do not match inventory'' (Some rel))) (\<lambda>_.
     vx_do (replace_at L tmp dest))))))))"

definition drop_velo_temp :: "velo_lib \<Rightarrow> path \<Rightarrow> velo_extract \<Rightarrow> velo_extract" where
  "drop_velo_temp L tmp s = (if p_exists (vl_os L) (vx_fs s) tmp then s\<lparr>vx_fs := del_node tmp (vx_fs s)\<rparr> else s)"

definition entry_for :: "uac_entry list \<Rightarrow> string \<Rightarrow> uac_entry option" where
  "entry_for es rel = map_of (rev (map (\<lambda>e. (ue_path e, e)) es)) rel"

definition extract_member :: "velo_lib \<Rightarrow> velo \<Rightarrow> path \<Rightarrow> uac_entry list \<Rightarrow> string \<Rightarrow> string \<Rightarrow> unit vx_act" where
  "extract_member L V root es nm name =
     a_bind (a_lift (velo_member name)) (\<lambda>rel.
     a_bind (case entry_for es rel of
               Some e \<Rightarrow> if ue_kind e = ''file'' then a_ret e
                 else a_fail (Velo ''ARCHIVE_MEMBER_INVALID'' ''Requested path is not a regular file'' (Some rel))
             | None \<Rightarrow> a_fail (Velo ''ARCHIVE_MEMBER_INVALID'' ''Requested path is not a regular file'' (Some rel))) (\<lambda>e.
     a_bind a_get (\<lambda>s.
     a_bind (a_guard (\<not> (vc_max_file V < ue_size e \<or> vc_max_total V < vx_sum s + ue_size e))
       (Velo ''FILE_LIMIT_EXCEEDED'' ''Extraction size limit exceeded'' (Some rel))) (\<lambda>_.
     a_bind (velo_destination L root rel) (\<lambda>dest.
     a_bind (vx_do (mkdir (vl_os L) 448 (butlast dest) True)) (\<lambda>_.
     let tmp = butlast dest @ [nm] in
     a_bind (vx_do (make_temp (vl_os L) tmp)) (\<lambda>_.
     a_bind (a_finally (copy_member L V e tmp dest rel) (drop_velo_temp L tmp)) (\<lambda>_.
     a_modify (\<lambda>s. s\<lparr>vx_sum := vx_sum s + ue_size e,
       vx_done := vx_done s @ [\<lparr>vi_path = rel, vi_output = dest, vi_sha = ue_sha e, vi_size = ue_size e\<rparr>]\<rparr>)))))))))"

definition recorded :: "unit vx_act \<Rightarrow> unit vx_act" where
  "recorded m s = (case m s of
     (t, Inl (Velo c msg p)) \<Rightarrow> (t\<lparr>vx_errors := vx_errors t @ [velo_dict c msg p]\<rparr>, Inr ())
   | r \<Rightarrow> r)"

fun extract_members :: "velo_lib \<Rightarrow> velo \<Rightarrow> path \<Rightarrow> uac_entry list \<Rightarrow> (nat \<Rightarrow> string) \<Rightarrow> nat \<Rightarrow> string list \<Rightarrow> unit vx_act" where
  "extract_members L V root es names k [] = a_ret ()"
| "extract_members L V root es names k (rel # rels) =
     a_bind (recorded (extract_member L V root es (names k) rel)) (\<lambda>_. extract_members L V root es names (Suc k) rels)"

definition velo_status :: "velo_extract \<Rightarrow> string" where
  "velo_status s = (if vx_errors s = [] then ''completed'' else if vx_done s \<noteq> [] then ''partial'' else ''failed'')"

definition fresh_velo :: "fs \<Rightarrow> velo_extract" where
  "fresh_velo f = \<lparr>vx_fs = f, vx_sum = 0, vx_done = [], vx_errors = []\<rparr>"

definition velo_root :: "velo_lib \<Rightarrow> velo \<Rightarrow> fs \<Rightarrow> path" where
  "velo_root L V f = realpath (vl_os L) f (vc_analysis V @ [''extracted''])"

definition extract_velo :: "velo_lib \<Rightarrow> velo \<Rightarrow> string list \<Rightarrow> (nat \<Rightarrow> string) \<Rightarrow> fs \<Rightarrow> fs \<times> (velo_error + path \<times> string \<times> velo_extract)" where
  "extract_velo L V requested names f =
     (let root = velo_root L V f in
      case mkdir (vl_os L) 448 root True f of
        Inl e \<Rightarrow> (f, Inl (VeloRaise e))
      | Inr f1 \<Rightarrow>
          (if requested = [] then (f1, Inr (root, ''not_requested'', fresh_velo f1))
           else (case inventory_velo L V f1 of
               Inl e \<Rightarrow> (f1, Inl e)
             | Inr es \<Rightarrow>
                 (case extract_members L V root es names 0 requested (fresh_velo f1) of
                    (s, Inl e) \<Rightarrow> (vx_fs s, Inl e)
                  | (s, Inr u) \<Rightarrow> (vx_fs s, Inr (root, velo_status s, s))))))"

section \<open>Collection\<close>

definition names_hold :: "string list \<Rightarrow> string \<Rightarrow> bool" where
  "names_hold words names = list_ex (\<lambda>w. contains w names) words"

definition velo_coverage :: "uac_entry list \<Rightarrow> json" where
  "velo_coverage es =
     (let names = join '' '' (map (\<lambda>e. lower (ue_path e)) es) in
      JObj [(''status'', JStr (if es \<noteq> [] then ''substantial'' else ''unknown'')), (''filesystem_metadata'', JBool (es \<noteq> [])),
        (''allocated_files'', JBool (es \<noteq> [])), (''deleted_files'', JBool False), (''unallocated_space'', JBool False),
        (''memory_artifacts'', JBool (names_hold [''memory'', ''pslist''] names)),
        (''network_artifacts'', JBool (names_hold [''network'', ''netstat'', ''connections''] names)),
        (''notes'', str_list [''Velociraptor collection coverage reflects supplied artifacts; archive validity alone does not establish complete coverage.''])])"

definition velo_item_json :: "velo_item \<Rightarrow> json" where
  "velo_item_json i = JObj [(''path'', JStr (vi_path i)), (''output_path'', JStr (path_str (vi_output i))), (''sha256'', JStr (vi_sha i)), (''size'', JInt (vi_size i))]"

record velo_record =
  vr_evidence :: string
  vr_zip :: bool
  vr_inventory :: "uac_entry list"
  vr_root :: path
  vr_status :: string
  vr_extract :: velo_extract

definition collect_velo :: "velo_lib \<Rightarrow> velo \<Rightarrow> string list \<Rightarrow> (nat \<Rightarrow> string) \<Rightarrow> fs \<Rightarrow> fs \<times> (velo_error + velo_record)" where
  "collect_velo L V requested names f =
     (case r_bind (validate_velo L V f) (\<lambda>k.
             if vk_status k \<noteq> ''valid'' then Inl (Velo ''UNSUPPORTED_FORMAT'' ''Validation failed'' None) else inventory_velo L V f) of
        Inl e \<Rightarrow> (f, Inl e)
      | Inr es \<Rightarrow>
          (case extract_velo L V requested names f of
             (f1, Inl e) \<Rightarrow> (f1, Inl e)
           | (f1, Inr (root, st, s)) \<Rightarrow> (f1, Inr \<lparr>vr_evidence = ''vr-'' @ take 24 (sha_bytes (vl_os L) (path_str (vc_source V))),
                vr_zip = velo_is_zip L (vc_source V) f1, vr_inventory = es, vr_root = root, vr_status = st, vr_extract = s\<rparr>)))"

definition velo_record_json :: "velo \<Rightarrow> velo_record \<Rightarrow> dict" where
  "velo_record_json V r =
     [(''schema_version'', JStr ''1.0''), (''evidence_id'', JStr (vr_evidence r)), (''source_type'', JStr ''velociraptor_triage''),
      (''original_uri'', JStr (as_uri (vc_source V))),
      (''archive_validation'', if vr_zip r
         then JObj [(''kind'', JStr ''zip''), (''status'', JStr ''valid''), (''member_count'', JInt (int (length (vr_inventory r))))]
         else JObj [(''kind'', JStr ''none''), (''status'', JStr ''not_applicable'')]),
      (''inventory'', JList (map velo_entry_json (vr_inventory r))),
      (''safe_extraction'', JObj [(''root'', JStr (path_str (vr_root r))), (''status'', JStr (vr_status r)), (''policy_version'', JStr policy_version),
         (''max_file_bytes'', JInt (vc_max_file V)), (''max_total_bytes'', JInt (vc_max_total V)),
         (''extracted'', JList (map velo_item_json (vx_done (vr_extract r)))), (''extracted_count'', JInt (int (length (vx_done (vr_extract r))))),
         (''rejected_count'', JInt (int (length (vx_errors (vr_extract r))))), (''errors'', JList (vx_errors (vr_extract r)))]),
      (''collection_coverage'', velo_coverage (vr_inventory r)), (''adapter_metadata'', vc_metadata V)]"

end
