(* ===== verification/Velo_Correct.thy ===== *)
theory Velo_Correct
  imports Velo_Adapter Uac_Correct
begin

text \<open>
  What the Velociraptor adapter promises: an accepted member name is relative and climbs nowhere, and
  an extraction writes below its own root only; every file it lists is there, with the digest and the
  size it lists.
\<close>

section \<open>Member names\<close>

lemma velo_member_Inr:
  assumes "velo_member name = Inr m"
  shows "path_parts m = path_parts (unbackslash name)" "path_parts m \<noteq> []" "''..'' \<notin> set (path_parts m)"
    "m = join ''/'' (path_parts m)"
proof -
  let ?n = "unbackslash name"
  from assms have m: "\<not> is_absolute ?n" "''..'' \<notin> set (path_parts ?n)" "path_parts ?n \<noteq> []" "m = as_posix ?n"
    by (auto simp: velo_member_def Let_def split: list.splits if_splits)
  then have parts: "path_parts m = path_parts ?n" by (simp add: path_parts_as_posix)
  with m show "path_parts m = path_parts ?n" "path_parts m \<noteq> []" "''..'' \<notin> set (path_parts m)" by simp_all
  have "prefix ''/'' s" if "prefix ''///'' s \<or> prefix ''//'' s" for s :: string
    using that by (auto simp: prefix_def)
  with m(1) have "root_of ?n = []" unfolding root_of_def is_absolute_def by metis
  moreover have "join ''/'' (path_parts ?n) \<noteq> []"
  proof -
    from m(3) obtain p ps where ps: "path_parts ?n = p # ps" by (cases "path_parts ?n") auto
    then have "p \<in> set (path_parts ?n)" by simp
    then have "p \<noteq> []" by (simp add: path_parts_def)
    with join_head [of p ps] ps show ?thesis by (auto simp: prefix_def)
  qed
  ultimately show "m = join ''/'' (path_parts m)" unfolding parts by (simp add: m(4) as_posix_def)
qed

lemma velo_member_safe: assumes "velo_member name = Inr m" shows "safe_rel m"
proof -
  note m = velo_member_Inr [OF assms]
  obtain p ps where ps: "path_parts m = p # ps" using m(2) by (cases "path_parts m") auto
  then have "slash \<notin> set p" "p \<noteq> []" using path_parts_clean [of p m] by simp_all
  from relative_join [OF this, of ps] m(4) ps have "\<not> is_absolute m" by simp
  with m(2,3) show ?thesis by (simp add: safe_rel_def clean_path_def)
qed

text \<open>The name of the archive itself raises instead of being refused.\<close>

lemma velo_member_dot: "velo_member ''.'' = Inl (VeloRaise (PyErr ''IndexError''))"
  by code_simp

section \<open>One member\<close>

text \<open>After the clean-up the temporary file is gone; only the destination of a copy that succeeded
  has changed, and it holds verified bytes.\<close>

definition copied :: "velo_lib \<Rightarrow> velo \<Rightarrow> uac_entry \<Rightarrow> path \<Rightarrow> path \<Rightarrow> fs \<Rightarrow> velo_error + unit \<Rightarrow> fs \<Rightarrow> bool" where
  "copied L V e tmp dest f r h = (no_links h \<and> (case r of
       Inl x \<Rightarrow> \<forall>q. lookup h q = (if q = tmp then None else lookup f q)
     | Inr u \<Rightarrow> \<exists>c. sha_bytes (vl_os L) c = ue_sha e \<and> int (length c) = ue_size e \<and> int (length c) \<le> vc_max_file V \<and>
         (\<forall>q. lookup h q = (if q = tmp then None else if q = dest then Some (File c 384) else lookup f q))))"

lemma copy_then_drop:
  assumes plain: "os_plain (vl_os L)" and links: "no_links (vx_fs s)" and other: "tmp \<noteq> dest"
    and cl: "clean_path tmp"
    and there: "lookup (vx_fs s) tmp \<noteq> None"
    and run: "a_finally (copy_member L V e tmp dest rel) (drop_velo_temp L tmp) s = (s', r)"
  shows "\<exists>h. s' = s\<lparr>vx_fs := h\<rparr> \<and> copied L V e tmp dest (vx_fs s) r h"
proof -
  obtain s1 where copy: "copy_member L V e tmp dest rel s = (s1, r)" and s': "s' = drop_velo_temp L tmp s1"
    using run by (auto simp: a_finally_def split: prod.splits)
  have dropped: ?thesis if s1: "s1 = s\<lparr>vx_fs := f1\<rparr>" and nl: "no_links f1"
      and fails: "\<And>x. r = Inl x \<Longrightarrow> \<forall>q. q \<noteq> tmp \<longrightarrow> lookup f1 q = lookup (vx_fs s) q"
      and moved: "r = Inr () \<Longrightarrow> \<exists>c. sha_bytes (vl_os L) c = ue_sha e \<and> int (length c) = ue_size e \<and> int (length c) \<le> vc_max_file V \<and>
        (\<forall>q. q \<noteq> tmp \<longrightarrow> lookup f1 q = (if q = dest then Some (File c 384) else lookup (vx_fs s) q))" for f1
  proof -
    define h where "h = (if p_exists (vl_os L) f1 tmp then del_node tmp f1 else f1)"
    have "s' = s\<lparr>vx_fs := h\<rparr>" by (simp add: s' s1 drop_velo_temp_def h_def)
    moreover have h: "lookup h q = (if q = tmp then None else lookup f1 q)" for q
      using p_exists_plain [OF plain nl cl] by (simp add: h_def wb_fs)
    moreover have "no_links h" using nl by (simp add: h_def no_links_del)
    moreover have "copied L V e tmp dest (vx_fs s) r h" if "no_links h"
    proof (cases r)
      case (Inl x)
      with fails that show ?thesis by (simp add: copied_def h)
    next
      case (Inr u)
      with moved obtain c where "sha_bytes (vl_os L) c = ue_sha e" "int (length c) = ue_size e" "int (length c) \<le> vc_max_file V"
        "\<forall>q. q \<noteq> tmp \<longrightarrow> lookup f1 q = (if q = dest then Some (File c 384) else lookup (vx_fs s) q)" by auto
      with Inr that show ?thesis unfolding copied_def by (auto simp: h intro!: exI [of _ c])
    qed
    ultimately show ?thesis by blast
  qed
  define n where "n = vx_fs s"
  consider (bad) x where "r = Inl x" "s1 = s"
    | (half) x f1 where "r = Inl x" "s1 = s\<lparr>vx_fs := f1\<rparr>" "no_links f1" "\<And>q. q \<noteq> tmp \<Longrightarrow> lookup f1 q = lookup n q"
    | (ok) c f1 where "r = Inr ()" "s1 = s\<lparr>vx_fs := f1\<rparr>" "no_links f1" "sha_bytes (vl_os L) c = ue_sha e" "int (length c) = ue_size e"
        "int (length c) \<le> vc_max_file V" "\<And>q. q \<noteq> tmp \<Longrightarrow> lookup f1 q = (if q = dest then Some (File c 384) else lookup n q)"
  proof (cases "open_member L V rel (vx_fs s)")
    case (Inl x)
    with copy that(1) show ?thesis by (auto simp: copy_member_def wb_act a_bind_def a_lift_def velo_sys_def)
  next
    case st: (Inr st)
    show ?thesis
    proof (cases "vc_max_file V < int (length (fst st)) \<or> vc_max_total V < vx_sum s + int (length (fst st))")
      case True
      with st copy that(1) show ?thesis by (auto simp: copy_member_def wb_act a_bind_def a_lift_def velo_sys_def Let_def)
    next
      case fits: False
      show ?thesis
      proof (cases "write_file (vl_os L) tmp (fst st) (vx_fs s)")
        case (Inl x)
        with st fits copy that(1) show ?thesis by (auto simp: copy_member_def wb_act a_bind_def a_lift_def velo_sys_def Let_def vx_do_def a_step_def)
      next
        case w: (Inr f1)
        obtain m where f1: "f1 = set_node tmp (File (fst st) m) n" and nl1: "no_links f1"
          using plain_write_file [OF plain links cl w] by (auto simp: n_def)
        have ch: "chmod (vl_os L) tmp 384 f1 = Inr (set_node tmp (File (fst st) 384) f1)"
          using plain nl1 cl by (simp add: chmod_def Let_def plain_fs) (simp add: f1 wb_fs)
        define f2 where "f2 = set_node tmp (File (fst st) 384) f1"
        have f2: "no_links f2" "\<And>q. q \<noteq> tmp \<Longrightarrow> lookup f2 q = lookup n q" "lookup f2 tmp = Some (File (fst st) 384)"
          using nl1 by (simp_all add: f2_def f1 wb_fs no_links_set)
        note go = st fits w ch [folded f2_def] copy
        show ?thesis
        proof (cases "snd st = None \<and> sha_bytes (vl_os L) (fst st) = ue_sha e \<and> int (length (fst st)) = ue_size e \<and> \<not> is_dir (vl_os L) f2 dest")
          case True
          then have "s1 = s\<lparr>vx_fs := set_node dest (File (fst st) 384) (del_node tmp f2)\<rparr>" "r = Inr ()"
            using go f2(3) by (auto simp: copy_member_def wb_act a_bind_def a_lift_def velo_sys_def Let_def vx_do_def a_step_def replace_at_def replace_file_def)
          with True fits f2 show ?thesis by (intro that(3) [of "set_node dest (File (fst st) 384) (del_node tmp f2)" "fst st"]) (auto simp: wb_fs no_links_set no_links_del)
        next
          case False
          then have "\<exists>x. r = Inl x \<and> (s1 = s\<lparr>vx_fs := f1\<rparr> \<or> s1 = s\<lparr>vx_fs := f2\<rparr>)"
            using go by (cases "snd st") (auto simp: copy_member_def wb_act a_bind_def a_lift_def velo_sys_def Let_def vx_do_def a_step_def replace_at_def split: if_splits)
          then show ?thesis using that(2) [of _ f1] that(2) [of _ f2] nl1 f2 by (auto simp: f1 wb_fs)
        qed
      qed
    qed
  qed
  then show ?thesis
  proof cases
    case bad
    with links show ?thesis by (intro dropped [of "vx_fs s"]) auto
  next
    case half
    then show ?thesis by (intro dropped) (auto simp: n_def)
  next
    case ok
    then show ?thesis by (intro dropped) (auto simp: n_def)
  qed
qed

section \<open>What is listed is stored\<close>

definition held :: "velo_lib \<Rightarrow> fs \<Rightarrow> velo_item \<Rightarrow> bool" where
  "held L f i = (\<exists>c m. lookup f (vi_output i) = Some (File c m) \<and> sha_bytes (vl_os L) c = vi_sha i \<and> int (length c) = vi_size i)"

definition listed :: "path \<Rightarrow> uac_entry list \<Rightarrow> velo_item \<Rightarrow> bool" where
  "listed root es i = (vi_output i = root @ path_parts (vi_path i) \<and> vi_path i = join ''/'' (path_parts (vi_path i)) \<and>
     (\<exists>e. entry_for es (vi_path i) = Some e \<and> ue_kind e = ''file'' \<and> vi_sha i = ue_sha e \<and> vi_size i = ue_size e))"

definition items_stored :: "velo_lib \<Rightarrow> velo \<Rightarrow> path \<Rightarrow> uac_entry list \<Rightarrow> fs \<Rightarrow> velo_extract \<Rightarrow> bool" where
  "items_stored L V root es f0 s = (area root (vc_max_file V) f0 (vx_fs s) \<and> (\<forall>i\<in>set (vx_done s). listed root es i \<and> held L (vx_fs s) i \<and> vi_size i \<le> vc_max_file V) \<and>
     vx_sum s = sum_list (map vi_size (vx_done s)) \<and> vx_sum s \<le> vc_max_total V)"

lemma stored_frame:
  assumes "items_stored L V root es f0 s" "area root (vc_max_file V) f0 h" "\<And>i. i \<in> set (vx_done s) \<Longrightarrow> held L (vx_fs s) i \<Longrightarrow> listed root es i \<Longrightarrow> held L h i"
  shows "items_stored L V root es f0 (s\<lparr>vx_fs := h\<rparr>)"
  using assms by (auto simp: items_stored_def)

lemma area_lookup:
  assumes "area root limit f0 f" "no_links h" "strict_prefix root tmp" "strict_prefix root dest"
    and "\<And>q. lookup h q = (if q = tmp then None else if q = dest then Some (File c k) else lookup f q)" "int (length c) \<le> limit"
  shows "area root limit f0 h"
  using assms by (auto simp: area_def same_outside_def strict_prefix_def dest: prefix_order.antisym)

lemma area_without:
  assumes "area root limit f0 f" "no_links h" "strict_prefix root tmp" "\<And>q. lookup h q = (if q = tmp then None else lookup f q)"
  shows "area root limit f0 h"
  using assms by (auto simp: area_def same_outside_def strict_prefix_def dest: prefix_order.antisym)

lemma held_same: "held L f i \<Longrightarrow> lookup h (vi_output i) = lookup f (vi_output i) \<Longrightarrow> held L h i"
  by (simp add: held_def)

text \<open>One requested name adds one item or raises; the items before it stay stored.\<close>

lemma extract_member_stored:
  assumes plain: "os_plain (vl_os L)" and small: "0 \<le> vc_max_file V"
    and st: "items_stored L V root es f0 s" and nm: "nm \<notin> set (path_parts (unbackslash name))" "nm \<noteq> ''..''"
    and rc: "clean_path root"
    and run: "extract_member L V root es nm name s = (s', r)"
  shows "items_stored L V root es f0 s' \<and> vx_errors s' = vx_errors s \<and>
    length (vx_done s') = length (vx_done s) + (case r of Inl e \<Rightarrow> 0 | Inr u \<Rightarrow> 1)"
proof -
  have same: ?thesis if "s' = s" "r = Inl x" for x using that st by simp
  have area: "area root (vc_max_file V) f0 (vx_fs s)" and links: "no_links (vx_fs s)"
    using st by (auto simp: items_stored_def area_def)
  show ?thesis
  proof (cases "velo_member name")
    case (Inl x)
    with run same show ?thesis by (auto simp: extract_member_def wb_act a_bind_def a_lift_def)
  next
    case rel: (Inr rel)
    note parts = velo_member_Inr [OF rel]
    let ?dest = "root @ path_parts rel" and ?tmp = "butlast (root @ path_parts rel) @ [nm]"
    have below: "strict_prefix root ?dest" using parts(2) by (auto simp: strict_prefix_def)
    have "?tmp \<noteq> ?dest"
    proof
      assume "?tmp = ?dest"
      with parts(2) have "butlast (path_parts rel) @ [nm] = path_parts rel" by (simp add: butlast_append)
      then have "nm \<in> set (path_parts rel)" by (metis in_set_conv_decomp)
      with nm(1) parts(1) show False by simp
    qed
    moreover have "strict_prefix root ?tmp" using parts(2) by (auto simp: strict_prefix_def butlast_append)
    ultimately have tmp: "strict_prefix root ?tmp" "?tmp \<noteq> ?dest" by simp_all
    have dc: "clean_path ?dest" using rc velo_member_safe [OF rel] by (simp add: safe_rel_def)
    then have tc: "clean_path ?tmp" using nm(2) clean_butlast [OF dc] by simp
    show ?thesis
    proof (cases "\<exists>e. entry_for es rel = Some e \<and> ue_kind e = ''file'' \<and> ue_size e \<le> vc_max_file V \<and> vx_sum s + ue_size e \<le> vc_max_total V")
      case False
      then have "\<exists>x. s' = s \<and> r = Inl x"
        using run rel by (auto simp: extract_member_def wb_act a_bind_def a_lift_def split: option.splits if_splits)
      with same show ?thesis by blast
    next
      case True
      then obtain e where e: "entry_for es rel = Some e" "ue_kind e = ''file''"
        and fits: "ue_size e \<le> vc_max_file V" "vx_sum s + ue_size e \<le> vc_max_total V" by blast
      have dest: "velo_destination L root rel s = (s, Inr ?dest)"
        using plain links dc by (simp add: velo_destination_def a_read_def Let_def plain_fs safe_rel_join [OF velo_member_safe [OF rel]])
      note go = run rel e fits dest
      show ?thesis
      proof (cases "mkdir (vl_os L) 448 (butlast ?dest) True (vx_fs s)")
        case (Inl x)
        with go have "s' = s \<and> r = Inl (VeloRaise x)"
          by (simp add: extract_member_def wb_act a_bind_def a_lift_def vx_do_def a_step_def)
        with same show ?thesis by blast
      next
        case mk: (Inr f1)
        have area1: "area root (vc_max_file V) f0 f1"
          using area_mkdir [OF area mk] below_parent(1) [OF below] .
        have held1: "held L f1 i" if "held L (vx_fs s) i" for i
          using that lookup_mkdir [OF mk, of "vi_output i"] by (auto simp: held_def)
        have st1: "items_stored L V root es f0 (s\<lparr>vx_fs := f1\<rparr>)" using stored_frame [OF st area1] held1 by blast
        show ?thesis
        proof (cases "make_temp (vl_os L) ?tmp f1")
          case (Inl x)
          with go mk have "s' = s\<lparr>vx_fs := f1\<rparr> \<and> r = Inl (VeloRaise x)"
            by (simp add: extract_member_def wb_act a_bind_def a_lift_def vx_do_def a_step_def Let_def)
          with st1 show ?thesis by simp
        next
          case mt: (Inr f2)
          have links1: "no_links f1" using area1 by (simp add: area_def)
          note fresh = make_temp_Inr [OF plain links1 tc mt]
          let ?s2 = "s\<lparr>vx_fs := f2\<rparr>"
          have f2: "no_links f2" "lookup f2 ?tmp \<noteq> None" "\<And>q. q \<noteq> ?tmp \<Longrightarrow> lookup f2 q = lookup f1 q"
            using links1 by (simp_all add: fresh(2) wb_fs no_links_set)
          obtain s3 u where copy: "a_finally (copy_member L V e ?tmp ?dest rel) (drop_velo_temp L ?tmp) ?s2 = (s3, u)"
            by (cases "a_finally (copy_member L V e ?tmp ?dest rel) (drop_velo_temp L ?tmp) ?s2")
          with copy_then_drop [OF plain _ tmp(2) tc, of ?s2 V e rel s3 u] f2
          obtain h where h: "s3 = s\<lparr>vx_fs := h\<rparr>" "copied L V e ?tmp ?dest f2 u h" by auto
          have notmp: "vi_output i \<noteq> ?tmp" if "held L f1 i" for i using that fresh(1) by (auto simp: held_def)
          have links_h: "no_links h" using h(2) by (simp add: copied_def)
          show ?thesis
          proof (cases u)
            case (Inl x)
            then have look: "lookup h q = (if q = ?tmp then None else lookup f1 q)" for q
              using h(2) f2(3) by (simp add: copied_def)
            have "items_stored L V root es f0 (s\<lparr>vx_fs := f1, vx_fs := h\<rparr>)"
              by (rule stored_frame [OF st1 area_without [OF _ links_h tmp(1) look]])
                (use area1 notmp in \<open>auto intro: held_same [of L f1] simp: look\<close>)
            moreover from go mk mt copy h(1) Inl have "s' = s\<lparr>vx_fs := h\<rparr> \<and> r = Inl x"
              by (simp add: extract_member_def wb_act a_bind_def a_lift_def vx_do_def a_step_def Let_def)
            ultimately show ?thesis by simp
          next
            case (Inr v)
            then obtain c where c: "sha_bytes (vl_os L) c = ue_sha e" "int (length c) = ue_size e" "int (length c) \<le> vc_max_file V"
              and look: "lookup h q = (if q = ?tmp then None else if q = ?dest then Some (File c 384) else lookup f1 q)" for q
              using h(2) f2(3) by (fastforce simp: copied_def)
            let ?i = "\<lparr>vi_path = rel, vi_output = ?dest, vi_sha = ue_sha e, vi_size = ue_size e\<rparr>"
            have new: "listed root es ?i" "held L h ?i"
              using e parts(4) c tmp(2) by (auto simp: listed_def held_def look)
            have old: "held L h i" if i: "held L f1 i" "listed root es i" for i
            proof (cases "vi_output i = ?dest")
              case True
              with i(2) parts(4) have "vi_path i = rel" by (simp add: listed_def)
              with i(2) e(1) c tmp(2) True show ?thesis by (auto simp: listed_def held_def look)
            next
              case False
              with i(1) notmp [OF i(1)] show ?thesis by (auto intro: held_same [of L f1] simp: look)
            qed
            have "items_stored L V root es f0 (s\<lparr>vx_fs := f1, vx_fs := h\<rparr>)"
              by (rule stored_frame [OF st1 area_lookup [OF area1 links_h tmp(1) below look c(3)]]) (use old in simp)
            then have "items_stored L V root es f0 (s\<lparr>vx_fs := h, vx_sum := vx_sum s + ue_size e, vx_done := vx_done s @ [?i]\<rparr>)"
              using new fits by (auto simp: items_stored_def)
            moreover from go mk mt copy h(1) Inr
            have "s' = s\<lparr>vx_fs := h, vx_sum := vx_sum s + ue_size e, vx_done := vx_done s @ [?i]\<rparr> \<and> r = Inr ()"
              by (simp add: extract_member_def wb_act a_bind_def a_lift_def vx_do_def a_step_def Let_def)
            ultimately show ?thesis by simp
          qed
        qed
      qed
    qed
  qed
qed


lemma extract_members_stored:
  assumes "os_plain (vl_os L)" "0 \<le> vc_max_file V" "items_stored L V root es f0 s"
    and "\<forall>k. \<forall>name\<in>set ns. names k \<notin> insert ''..'' (set (path_parts (unbackslash name)))"
    and "clean_path root" "extract_members L V root es names k ns s = (s', r)"
  shows "items_stored L V root es f0 s' \<and>
    (r = Inr () \<longrightarrow> length (vx_done s') + length (vx_errors s') = length (vx_done s) + length (vx_errors s) + length ns)"
  using assms(3,4,6)
proof (induction ns arbitrary: k s)
  case (Cons n ns)
  obtain s1 u where one: "extract_member L V root es (names k) n s = (s1, u)"
    by (cases "extract_member L V root es (names k) n s")
  have s1: "items_stored L V root es f0 s1 \<and> vx_errors s1 = vx_errors s \<and>
      length (vx_done s1) = length (vx_done s) + (case u of Inl e \<Rightarrow> 0 | Inr u \<Rightarrow> 1)"
    by (rule extract_member_stored [OF assms(1,2) Cons.prems(1) _ _ assms(5) one]) (use Cons.prems(2) in simp_all)
  show ?case
  proof (cases "recorded (extract_member L V root es (names k) n) s")
    case (Pair s2 v)
    have s2: "items_stored L V root es f0 s2" using s1 one Pair
      by (auto simp: recorded_def items_stored_def split: sum.splits velo_error.splits)
    show ?thesis
    proof (cases v)
      case (Inl x)
      with Cons.prems(3) Pair s2 show ?thesis by (auto simp: a_bind_def)
    next
      case (Inr w)
      then have "length (vx_done s2) + length (vx_errors s2) = Suc (length (vx_done s) + length (vx_errors s))"
        using s1 one Pair by (auto simp: recorded_def split: sum.splits velo_error.splits)
      with Inr Cons.prems(2,3) Pair Cons.IH [OF s2, of "Suc k"] show ?thesis by (simp add: a_bind_def)
    qed
  qed
qed (simp add: wb_act a_ret_def)

section \<open>The whole extraction\<close>



definition demo_velo_lib :: velo_lib where
  "demo_velo_lib = \<lparr>vl_os = demo_disk_os, vl_mtime = (\<lambda>f p. ''now''), vl_is_zip = (\<lambda>c. False), vl_zip = (\<lambda>c. Inl (PyErr ''BadZipFile'')),
     vl_crc = (\<lambda>c. Inr None), vl_member = (\<lambda>c n. Inl (PyErr ''KeyError'')), vl_info = (\<lambda>c n. 0), vl_text = (\<lambda>c n. None), vl_identifier = (\<lambda>k t. None)\<rparr>"

definition demo_velo :: velo where
  "demo_velo = \<lparr>vc_source = [''col''], vc_analysis = [''an''], vc_max_file = 5, vc_max_total = 5, vc_metadata = JNull\<rparr>"


end
