(* ===== verification/Tsk_Workflow.thy ===== *)
theory Tsk_Workflow
  imports Uac_Correct Regex
begin

text \<open>
  \<^verbatim>\<open>tsk_workflow.py\<close>: the Sleuth Kit is run on a raw image, its listings are read, selected files are
  taken out by inode or everything is recovered.  The tools are parameters: what a command answers on a
  volume, and what the recovery tool does to it.  A destination is used as the system resolves the
  directory above it.
\<close>

section \<open>Groups of a pattern\<close>

text \<open>The groups of \<^verbatim>\<open>re.match\<close>, in the order the engine tries them; a lazy piece tries the shortest first.\<close>

datatype piece = Skip re | Grab re | GrabLazy re | AtEnd

fun captures :: "piece list \<Rightarrow> bool \<Rightarrow> string \<Rightarrow> string list list" where
  "captures [] b s = [[]]"
| "captures (AtEnd # ps) b s = (if s = [] \<or> s = [CHR 0x0A] then captures ps b s else [])"
| "captures (Skip r # ps) b s = concat (map (\<lambda>t. captures ps (b \<and> length t = length s) t) (rmatch r b s))"
| "captures (Grab r # ps) b s =
     concat (map (\<lambda>t. map ((#) (take (length s - length t) s)) (captures ps (b \<and> length t = length s) t)) (rmatch r b s))"
| "captures (GrabLazy r # ps) b s =
     concat (map (\<lambda>t. map ((#) (take (length s - length t) s)) (captures ps (b \<and> length t = length s) t)) (rev (rmatch r b s)))"

definition re_groups :: "piece list \<Rightarrow> string \<Rightarrow> string list option" where
  "re_groups ps s = (case captures ps True s of [] \<Rightarrow> None | g # _ \<Rightarrow> Some g)"

section \<open>Library and errors\<close>

datatype tsk_run = Exits int string string | TimesOut | CannotRun | NotText

record tsk_lib =
  tk_os :: os
  tk_mtime :: "fs \<Rightarrow> path \<Rightarrow> string"
  tk_pretty :: "json \<Rightarrow> string"
  tk_which :: "string \<Rightarrow> string option"
  tk_run :: "string list \<Rightarrow> fs \<Rightarrow> tsk_run"
  tk_recover :: "string list \<Rightarrow> fs \<Rightarrow> fs \<times> tsk_run"

datatype tsk_error = Tsk string string bool | TskRaise sys_error

definition tsk_sys :: "sys_error + 'a \<Rightarrow> tsk_error + 'a" where
  "tsk_sys r = (case r of Inl e \<Rightarrow> Inl (TskRaise e) | Inr x \<Rightarrow> Inr x)"

definition tsk_tools :: "string list" where
  "tsk_tools = [''img_stat'', ''mmls'', ''fsstat'', ''fls'', ''istat'', ''icat'', ''tsk_recover'']"

definition tsk_sha :: "tsk_lib \<Rightarrow> path \<Rightarrow> fs \<Rightarrow> tsk_error + string" where
  "tsk_sha L p f = tsk_sys (r_bind (read_file (tk_os L) p f) (\<lambda>c. Inr (sha_bytes (tk_os L) c)))"

definition tsk_source :: "tsk_lib \<Rightarrow> path \<Rightarrow> fs \<Rightarrow> tsk_error + path" where
  "tsk_source L p f =
     (let src = realpath (tk_os L) f p in
      if prefix [''dev''] src then Inl (Tsk ''HOST_DEVICE_REJECTED'' ''normal mode does not accept host /dev devices'' False)
      else if lstat_link (tk_os L) f src \<or> \<not> is_file (tk_os L) f src
      then Inl (Tsk ''SOURCE_INVALID'' ''image must be a regular, non-symlink file'' False) else Inr src)"

definition tsk_root :: "tsk_lib \<Rightarrow> path \<Rightarrow> fs \<Rightarrow> tsk_error + (path \<times> fs)" where
  "tsk_root L p f = (let root = realpath (tk_os L) f p in
     tsk_sys (r_bind (mkdir (tk_os L) 448 root True f) (\<lambda>f1. Inr (root, f1))))"

definition tsk_argv :: "tsk_lib \<Rightarrow> string \<Rightarrow> string list \<Rightarrow> tsk_error + string list" where
  "tsk_argv L tool args = (case tk_which L tool of
     None \<Rightarrow> Inl (Tsk ''TOOL_UNAVAILABLE'' (''required Sleuth Kit tool is unavailable: '' @ tool) False)
   | Some cmd \<Rightarrow> Inr (cmd # args))"

definition tsk_outcome :: "string \<Rightarrow> tsk_run \<Rightarrow> tsk_error + (int \<times> string \<times> string)" where
  "tsk_outcome tool r = (case r of
     Exits code out err \<Rightarrow> Inr (code, out, err)
   | TimesOut \<Rightarrow> Inl (Tsk ''TOOL_TIMEOUT'' (''Sleuth Kit tool timed out: '' @ tool) True)
   | CannotRun \<Rightarrow> Inl (Tsk ''TOOL_FAILED'' (''could not execute Sleuth Kit tool: '' @ tool) True)
   | NotText \<Rightarrow> Inl (TskRaise (PyErr ''UnicodeDecodeError'')))"

definition run_tsk :: "tsk_lib \<Rightarrow> string \<Rightarrow> string list \<Rightarrow> fs \<Rightarrow> tsk_error + (int \<times> string \<times> string)" where
  "run_tsk L tool args f = r_bind (tsk_argv L tool args) (\<lambda>argv. tsk_outcome tool (tk_run L argv f))"

section \<open>The tools found\<close>

definition tool_record :: "tsk_lib \<Rightarrow> fs \<Rightarrow> string \<Rightarrow> tsk_error + json" where
  "tool_record L f tool =
     (case tk_which L tool of
        None \<Rightarrow> Inr (JObj [(''name'', JStr tool), (''available'', JBool False), (''license'', JStr ''unknown'')])
      | Some cmd \<Rightarrow>
          r_bind (run_tsk L tool [''-V''] f) (\<lambda>(code, out, err).
          let exe = realpath (tk_os L) f (path_parts cmd); text = tool_output out err in
          r_bind (tsk_sha L exe f) (\<lambda>h.
          Inr (JObj [(''name'', JStr tool), (''available'', JBool (code = 0)), (''path'', JStr (path_str exe)),
            (''version'', JStr (if text = [] then ''unknown'' else first_line text)), (''sha256'', JStr h),
            (''license'', JStr ''GPL-2.0-or-later (verify package notice before redistribution)'')]))))"

definition tool_manifest :: "tsk_lib \<Rightarrow> string \<Rightarrow> fs \<Rightarrow> tsk_error + json" where
  "tool_manifest L now f = r_bind (r_map (tool_record L f) tsk_tools) (\<lambda>rs.
     Inr (JObj [(''schema_version'', JStr ''1.0''), (''captured_at_utc'', JStr now), (''tools'', JList rs)]))"

text \<open>The first line of a diagnostic: there is none in a diagnostic of white space.\<close>

definition diagnostic :: "string \<Rightarrow> tsk_error + string" where
  "diagnostic s = (if strip s = [] then Inl (TskRaise (PyErr ''IndexError'')) else Inr (first_line (strip s)))"

definition either_text :: "string \<Rightarrow> string \<Rightarrow> string" where
  "either_text a b = (if a = [] then b else a)"

definition require_success :: "string \<Rightarrow> int \<times> string \<times> string \<Rightarrow> tsk_error + string" where
  "require_success tool r = (case r of (code, out, err) \<Rightarrow>
     if code = 0 then Inr out
     else r_bind (diagnostic (either_text err (either_text out ''command failed'')))
       (\<lambda>d. Inl (Tsk ''TOOL_FAILED'' (tool @ '' failed: '' @ d) False)))"

section \<open>Listings\<close>

definition digit_run :: re where "digit_run = plus1 (Ch is_digit)"
definition spaces :: re where "spaces = plus1 ws"
definition not_ws :: re where "not_ws = Ch (\<lambda>c. \<not> is_ws c)"
definition any_char :: re where "any_char = Ch (\<lambda>c. c \<noteq> CHR 0x0A)"

definition mmls_pattern :: "piece list" where
  "mmls_pattern = [Skip Bol, Skip (Star ws), Grab digit_run, Skip (fold_ch (CHR '':'')), Skip spaces, Skip (opt (Cat (plus1 not_ws) spaces)),
     Grab digit_run, Skip spaces, Grab digit_run, Skip spaces, Grab digit_run, Skip spaces, GrabLazy (plus1 any_char), Skip (Star ws), AtEnd]"

definition fls_pattern :: "piece list" where
  "fls_pattern = [Skip Bol, Skip (Star ws), Grab (plus1 (Ch (\<lambda>c. c \<noteq> CHR '':''))), Skip (fold_ch (CHR '':'')), Skip spaces, Grab (Star any_char), AtEnd]"

fun dec_value :: "nat \<Rightarrow> string \<Rightarrow> nat" where
  "dec_value n [] = n"
| "dec_value n (c # cs) = dec_value (10 * n + (of_char c - 48)) cs"

definition rstrip :: "string \<Rightarrow> string" where
  "rstrip s = rev (dropWhile is_ws (rev s))"

record tsk_part =
  tp_index :: nat
  tp_start :: nat
  tp_end :: nat
  tp_length :: nat
  tp_text :: string
  tp_raw :: string

definition mmls_line :: "string \<Rightarrow> tsk_part option" where
  "mmls_line l = (case re_groups mmls_pattern l of
     Some [i, s, e, n, d] \<Rightarrow>
       (if prefix ''unallocated'' (lower d) \<or> prefix ''metadata'' (lower d) then None
        else Some \<lparr>tp_index = dec_value 0 i, tp_start = dec_value 0 s, tp_end = dec_value 0 e, tp_length = dec_value 0 n, tp_text = d, tp_raw = rstrip l\<rparr>)
   | _ \<Rightarrow> None)"

definition parse_mmls :: "string \<Rightarrow> tsk_part list" where
  "parse_mmls out = List.map_filter mmls_line (text_lines out)"

record tsk_entry =
  te_path :: string
  te_inode :: string
  te_type :: string
  te_raw :: string
  te_part :: nat
  te_offset :: nat

fun first_number :: "string \<Rightarrow> string option" where
  "first_number [] = None"
| "first_number (c # cs) = (if is_digit c then Some (takeWhile is_digit (c # cs)) else first_number cs)"

definition fls_line :: "tsk_part \<Rightarrow> string \<Rightarrow> tsk_entry option" where
  "fls_line P l = (case re_groups fls_pattern l of
     Some [src, p] \<Rightarrow>
       (let t = dropWhile is_ws l in
        if prefix ''d/d'' t \<or> prefix ''r/r'' t \<or> prefix ''-/'' t
        then map_option (\<lambda>i. \<lparr>te_path = strip p, te_inode = i, te_type = strip src, te_raw = rstrip l, te_part = tp_index P, te_offset = tp_start P\<rparr>) (first_number src)
        else None)
   | _ \<Rightarrow> None)"

definition parse_fls :: "tsk_part \<Rightarrow> string \<Rightarrow> tsk_entry list" where
  "parse_fls P out = List.map_filter (fls_line P) (text_lines out)"

section \<open>Inspection\<close>

record tsk_flow =
  tw_source :: path
  tw_root :: path
  tw_max_file :: int
  tw_max_total :: int

definition make_tsk :: "tsk_lib \<Rightarrow> path \<Rightarrow> path \<Rightarrow> int \<Rightarrow> int \<Rightarrow> fs \<Rightarrow> tsk_error + (tsk_flow \<times> fs)" where
  "make_tsk L source root max_file max_sum f =
     r_bind (tsk_source L source f) (\<lambda>src. r_bind (tsk_root L root f) (\<lambda>(dir, f1).
     Inr (\<lparr>tw_source = src, tw_root = dir, tw_max_file = max_file, tw_max_total = max_sum\<rparr>, f1)))"

record tsk_filesystem =
  tf_part :: tsk_part
  tf_stat :: string
  tf_entries :: "tsk_entry list"

definition on_image :: "tsk_lib \<Rightarrow> tsk_flow \<Rightarrow> fs \<Rightarrow> string \<Rightarrow> string list \<Rightarrow> tsk_error + (int \<times> string \<times> string)" where
  "on_image L W f tool args = run_tsk L tool (args @ [path_str (tw_source W)]) f"

definition inspect_part :: "tsk_lib \<Rightarrow> tsk_flow \<Rightarrow> fs \<Rightarrow> tsk_part \<Rightarrow> tsk_error + tsk_filesystem" where
  "inspect_part L W f P =
     (let offset = dec_nat (tp_start P) in
      r_bind (on_image L W f ''fsstat'' [''-o'', offset]) (\<lambda>(code, out, err).
      r_bind (if code = 0 then Inr ()
        else r_bind (diagnostic (either_text err ''filesystem is not supported'')) (\<lambda>d.
          Inl (Tsk ''UNSUPPORTED_FILESYSTEM'' (''fsstat could not read partition '' @ dec_nat (tp_index P) @ '': '' @ d) False))) (\<lambda>_.
      r_bind (on_image L W f ''fls'' [''-o'', offset, ''-r'', ''-p'', ''-m'', ''/'']) (\<lambda>r.
      r_bind (require_success ''fls'' r) (\<lambda>listing.
      Inr \<lparr>tf_part = P, tf_stat = out, tf_entries = parse_fls P listing\<rparr>)))))"

definition part_json :: "tsk_part \<Rightarrow> json" where
  "part_json P = JObj [(''index'', JInt (int (tp_index P))), (''start_sector'', JInt (int (tp_start P))), (''end_sector'', JInt (int (tp_end P))),
     (''length_sectors'', JInt (int (tp_length P))), (''description'', JStr (tp_text P)), (''raw'', JStr (tp_raw P))]"

definition tsk_entry_json :: "tsk_entry \<Rightarrow> json" where
  "tsk_entry_json e = JObj [(''path'', JStr (te_path e)), (''source_id'', JStr (te_inode e)), (''tsk_type'', JStr (te_type e)), (''raw'', JStr (te_raw e)),
     (''partition_index'', JInt (int (te_part e))), (''partition_offset_sectors'', JInt (int (te_offset e)))]"

definition filesystem_json :: "tsk_filesystem \<Rightarrow> json" where
  "filesystem_json s = JObj [(''partition'', part_json (tf_part s)), (''fsstat'', JStr (tf_stat s)), (''entries'', JList (map tsk_entry_json (tf_entries s)))]"

definition listed_entry :: "tsk_entry \<Rightarrow> json" where
  "listed_entry e = JObj [(''path'', JStr (te_path e)), (''size'', JInt 0), (''mtime'', JStr ''1970-01-01T00:00:00Z''), (''sha256'', JStr (replicate 64 (CHR ''0''))),
     (''kind'', JStr (if prefix ''d/'' (te_type e) then ''directory'' else ''file'')), (''allocated'', JBool True),
     (''source_id'', JStr (''partition:'' @ dec_nat (te_part e) @ '':inode:'' @ te_inode e))]"

definition tsk_record :: "tsk_lib \<Rightarrow> tsk_flow \<Rightarrow> fs \<Rightarrow> json \<Rightarrow> string \<Rightarrow> tsk_part list \<Rightarrow> tsk_filesystem list \<Rightarrow> tsk_error + dict" where
  "tsk_record L W f manifest img parts volumes =
     r_bind (tsk_sys (file_size (tk_os L) (tw_source W) f)) (\<lambda>n.
     r_bind (tsk_sha L (tw_source W) f) (\<lambda>h.
     let name = JStr (path_name (tw_source W)); some = JBool (volumes \<noteq> []) in
     Inr [(''schema_version'', JStr ''1.0''), (''evidence_id'', name), (''source_type'', JStr ''disk_image''), (''original_uri'', JStr (as_uri (tw_source W))),
       (''archive_validation'', JObj [(''kind'', JStr ''none''), (''status'', JStr ''not_applicable'')]),
       (''inventory'', JList (JObj [(''path'', name), (''size'', JInt n), (''mtime'', JStr (tk_mtime L f (tw_source W))), (''sha256'', JStr h),
            (''kind'', JStr ''file''), (''allocated'', JBool True), (''source_id'', JStr ''image'')] # map listed_entry (concat (map tf_entries volumes)))),
       (''safe_extraction'', JObj [(''root'', JStr (path_str (tw_root W @ [''extracted'']))), (''status'', JStr ''not_requested''), (''policy_version'', JStr ''tsk-safe-extraction-1''),
            (''extracted_count'', JInt 0), (''rejected_count'', JInt 0), (''errors'', JList [])]),
       (''collection_coverage'', JObj [(''status'', JStr ''substantial''), (''filesystem_metadata'', some), (''allocated_files'', some), (''deleted_files'', JBool False),
            (''unallocated_space'', JBool False), (''memory_artifacts'', JBool False), (''network_artifacts'', JBool False),
            (''notes'', str_list [''TSK output is read-only; deleted and unallocated artifacts require explicit recovery/analysis steps''])]),
       (''partition_filesystem'', JObj [(''image_format'', JStr ''raw''), (''partitions'', JList (map part_json parts))]),
       (''adapter_metadata'', JObj [(''img_stat'', JStr img), (''filesystems'', JList (map filesystem_json volumes)), (''tool_manifest'', manifest)])]))"

definition write_json :: "tsk_lib \<Rightarrow> path \<Rightarrow> json \<Rightarrow> fs \<Rightarrow> tsk_error + fs" where
  "write_json L p v f = tsk_sys (write_file (tk_os L) p (tk_pretty L v @ [CHR 0x0A]) f)"

definition inspected :: "tsk_lib \<Rightarrow> tsk_flow \<Rightarrow> nat option \<Rightarrow> json \<Rightarrow> fs \<Rightarrow> tsk_error + dict" where
  "inspected L W index manifest f =
     r_bind (r_bind (on_image L W f ''img_stat'' []) (require_success ''img_stat'')) (\<lambda>img.
     r_bind (r_bind (on_image L W f ''mmls'' [''-B'']) (require_success ''mmls'')) (\<lambda>table.
     let parts = parse_mmls table in
     r_bind (r_map (inspect_part L W f) (filter (\<lambda>P. index = None \<or> index = Some (tp_index P)) parts)) (\<lambda>volumes.
     tsk_record L W f manifest img parts volumes)))"

definition tsk_failure :: "tsk_flow \<Rightarrow> json \<Rightarrow> string \<Rightarrow> string \<Rightarrow> bool \<Rightarrow> dict" where
  "tsk_failure W manifest code msg again =
     [(''schema_version'', JStr ''1.0''),
      (''status'', JStr (if code = ''TOOL_UNAVAILABLE'' then ''unavailable'' else if code = ''UNSUPPORTED_FILESYSTEM'' then ''unsupported'' else ''failed'')),
      (''error'', JObj [(''code'', JStr code), (''message'', JStr msg), (''retryable'', JBool again)]), (''evidence_id'', JStr (path_name (tw_source W))),
      (''source_type'', JStr ''disk_image''), (''original_uri'', JStr (as_uri (tw_source W))), (''tool_manifest'', manifest)]"

text \<open>The tools are looked for before the \<^verbatim>\<open>try\<close>; a record that is written stays when the manifest cannot be.\<close>

definition inspect_image :: "tsk_lib \<Rightarrow> tsk_flow \<Rightarrow> nat option \<Rightarrow> string \<Rightarrow> fs \<Rightarrow> fs \<times> (tsk_error + dict)" where
  "inspect_image L W index now f =
     (case tool_manifest L now f of
        Inl e \<Rightarrow> (f, Inl e)
      | Inr m \<Rightarrow>
          (let manifest_path = tw_root W @ [''tool-manifest.json''] in
           case inspected L W index m f of
             Inr d \<Rightarrow>
               (case write_json L (tw_root W @ [''normalized-evidence.json'']) (JObj d) f of
                  Inl e \<Rightarrow> (f, Inl e)
                | Inr f1 \<Rightarrow> (case write_json L manifest_path m f1 of Inl e \<Rightarrow> (f1, Inl e) | Inr f2 \<Rightarrow> (f2, Inr d)))
           | Inl (Tsk code msg again) \<Rightarrow>
               (case write_json L manifest_path m f of Inl e \<Rightarrow> (f, Inl e) | Inr f1 \<Rightarrow> (f1, Inr (tsk_failure W m code msg again)))
           | Inl e \<Rightarrow> (f, Inl e)))"

definition run_tsk_image :: "tsk_lib \<Rightarrow> path \<Rightarrow> path \<Rightarrow> nat option \<Rightarrow> string \<Rightarrow> fs \<Rightarrow> fs \<times> (tsk_error + dict)" where
  "run_tsk_image L source root index now f =
     (case make_tsk L source root (512 * 1024 * 1024) (4 * 1024 * 1024 * 1024) f of
        Inl e \<Rightarrow> (f, Inl e) | Inr (W, f1) \<Rightarrow> inspect_image L W index now f1)"

section \<open>Extraction by inode\<close>

record tsk_item =
  ti_path :: path
  ti_inode :: string
  ti_source :: string
  ti_size :: int
  ti_sha :: string
  ti_stat :: string

record tsk_extract =
  tx_fs :: fs
  tx_sum :: int
  tx_done :: "tsk_item list"
  tx_errors :: "(string \<times> string) list"

type_synonym 'a tx_act = "(tsk_extract, tsk_error, 'a) act"

definition tx_error :: "string \<Rightarrow> string \<Rightarrow> unit tx_act" where
  "tx_error code p = a_modify (\<lambda>s. s\<lparr>tx_errors := tx_errors s @ [(code, p)]\<rparr>)"

definition tx_do :: "(fs \<Rightarrow> sys_error + fs) \<Rightarrow> unit tx_act" where
  "tx_do g = a_step (\<lambda>s. case g (tx_fs s) of Inl e \<Rightarrow> Inl (TskRaise e) | Inr f \<Rightarrow> Inr (s\<lparr>tx_fs := f\<rparr>))"

text \<open>The node a path names: links above its last component are followed, and one there for two dots.\<close>

definition node_of :: "os \<Rightarrow> fs \<Rightarrow> path \<Rightarrow> path" where
  "node_of w f p = (if p = [] \<or> last p = ''..'' then realpath w f p else realpath w f (butlast p) @ [last p])"

definition move_to :: "tsk_lib \<Rightarrow> path \<Rightarrow> path \<Rightarrow> fs \<Rightarrow> sys_error + fs" where
  "move_to L tmp dest f = (case lookup f (node_of (tk_os L) f dest) of
     Some (Dir m) \<Rightarrow> Inl (OsError ''IsADirectoryError'') | _ \<Rightarrow> replace_file tmp (node_of (tk_os L) f dest) f)"

definition take_out :: "tsk_lib \<Rightarrow> tsk_flow \<Rightarrow> string \<Rightarrow> path \<Rightarrow> path \<Rightarrow> string \<Rightarrow> string \<Rightarrow> unit tx_act" where
  "take_out L W offset tmp dest inode rel =
     (let args = [''-o'', offset, path_str (tw_source W), inode] in
      a_bind a_get (\<lambda>s.
      a_bind (a_lift (run_tsk L ''istat'' args (tx_fs s))) (\<lambda>(code, info, err).
      a_bind (a_lift (run_tsk L ''icat'' args (tx_fs s))) (\<lambda>(code2, content, err2).
      let n = int (length content) in
      if code \<noteq> 0 \<or> code2 \<noteq> 0 then tx_error ''EXTRACTION_FAILED'' rel
      else if tw_max_file W < n \<or> tw_max_total W < tx_sum s + n then tx_error ''FILE_LIMIT_EXCEEDED'' rel
      else a_bind (tx_do (write_file (tk_os L) tmp content)) (\<lambda>_.
           a_bind (tx_do (move_to L tmp dest)) (\<lambda>_.
           a_bind (tx_do (chmod (tk_os L) dest 384)) (\<lambda>_.
           a_bind (a_modify (\<lambda>s. s\<lparr>tx_sum := tx_sum s + n\<rparr>)) (\<lambda>_.
           a_bind a_get (\<lambda>s1.
           a_bind (a_lift (tsk_sha L dest (tx_fs s1))) (\<lambda>h.
           a_modify (\<lambda>s. s\<lparr>tx_done := tx_done s @ [\<lparr>ti_path = dest, ti_inode = inode, ti_source = rel, ti_size = n, ti_sha = h, ti_stat = info\<rparr>]\<rparr>)))))))))))"

definition drop_tsk_temp :: "path \<Rightarrow> tsk_extract \<Rightarrow> tsk_extract" where
  "drop_tsk_temp tmp s = s\<lparr>tx_fs := unlink_missing_ok tmp (tx_fs s)\<rparr>"

definition lstrip_slash :: "string \<Rightarrow> string" where
  "lstrip_slash s = dropWhile (\<lambda>c. c = slash) s"

text \<open>\<^verbatim>\<open>mkdir(parents=True)\<close> of an unresolved path: with two dots in it the directories passed on the
  way are made too.\<close>

fun mkdir_each :: "os \<Rightarrow> path \<Rightarrow> path list \<Rightarrow> fs \<Rightarrow> sys_error + fs" where
  "mkdir_each w p [] f = Inr f"
| "mkdir_each w p (q # qs) f =
     (case mkdir w (if q = p then 448 else 493) (realpath w f q) True f of
        Inl e \<Rightarrow> Inl (if q = p then e else OsError ''NotADirectoryError'')
      | Inr g \<Rightarrow> mkdir_each w p qs g)"

definition mkdir_raw :: "os \<Rightarrow> path \<Rightarrow> fs \<Rightarrow> sys_error + fs" where
  "mkdir_raw w p f = mkdir_each w p (prefixes p) f"

definition extract_inode :: "tsk_lib \<Rightarrow> tsk_flow \<Rightarrow> path \<Rightarrow> string \<Rightarrow> string \<Rightarrow> dict \<Rightarrow> unit tx_act" where
  "extract_inode L W root offset nm sel =
     (let inode = py_str (dget_or sel ''source_id'' (JStr [])); rel = py_str (dget_or sel ''path'' (JStr []));
          dest = root @ path_parts (lstrip_slash rel); tmp = root @ [nm] in
      if \<not> (inode \<noteq> [] \<and> list_all is_digit inode \<and> prefix ''/'' rel) then tx_error ''INVALID_SELECTION'' rel
      else a_bind a_get (\<lambda>s.
        if \<not> prefix root (realpath (tk_os L) (tx_fs s) dest) then tx_error ''PATH_TRAVERSAL_REJECTED'' rel
        else a_bind (tx_do (mkdir_raw (tk_os L) (butlast dest))) (\<lambda>_.
             a_bind (tx_do (make_temp (tk_os L) tmp)) (\<lambda>_.
             a_finally (take_out L W offset tmp dest inode rel) (drop_tsk_temp tmp)))))"

fun extract_inodes :: "tsk_lib \<Rightarrow> tsk_flow \<Rightarrow> path \<Rightarrow> string \<Rightarrow> (nat \<Rightarrow> string) \<Rightarrow> nat \<Rightarrow> dict list \<Rightarrow> unit tx_act" where
  "extract_inodes L W root offset names k [] = a_ret ()"
| "extract_inodes L W root offset names k (sel # sels) =
     a_bind (extract_inode L W root offset (names k) sel) (\<lambda>_. extract_inodes L W root offset names (Suc k) sels)"

definition tsk_status :: "tsk_extract \<Rightarrow> string" where
  "tsk_status s = (if tx_errors s = [] then ''completed'' else if tx_done s \<noteq> [] then ''partial'' else ''rejected'')"

definition extract_tsk :: "tsk_lib \<Rightarrow> tsk_flow \<Rightarrow> dict list \<Rightarrow> int \<Rightarrow> (nat \<Rightarrow> string) \<Rightarrow> fs \<Rightarrow> fs \<times> (tsk_error + path \<times> tsk_extract)" where
  "extract_tsk L W sels offset names f =
     (case tsk_root L (tw_root W @ [''extracted'']) f of
        Inl e \<Rightarrow> (f, Inl e)
      | Inr (root, f1) \<Rightarrow>
          (case extract_inodes L W root (dec_int offset) names 0 sels \<lparr>tx_fs = f1, tx_sum = 0, tx_done = [], tx_errors = []\<rparr> of
             (s, Inl e) \<Rightarrow> (tx_fs s, Inl e)
           | (s, Inr u) \<Rightarrow> (tx_fs s, Inr (root, s))))"

definition tsk_extract_json :: "nat \<Rightarrow> path \<times> tsk_extract \<Rightarrow> dict" where
  "tsk_extract_json index x =
     [(''status'', JStr (tsk_status (snd x))), (''root'', JStr (path_str (fst x))),
      (''extracted'', JList (map (\<lambda>i. JObj [(''path'', JStr (path_str (ti_path i))), (''source_id'', JStr (ti_inode i)), (''source_path'', JStr (ti_source i)),
         (''partition_index'', JInt (int index)), (''size'', JInt (ti_size i)), (''sha256'', JStr (ti_sha i)), (''istat'', JStr (ti_stat i))]) (tx_done (snd x)))),
      (''errors'', JList (map (\<lambda>(c, p). JObj [(''code'', JStr c), (''path'', JStr p)]) (tx_errors (snd x))))]"

section \<open>Recovery\<close>

definition recover_all :: "tsk_lib \<Rightarrow> tsk_flow \<Rightarrow> int \<Rightarrow> fs \<Rightarrow> fs \<times> (tsk_error + dict)" where
  "recover_all L W offset f =
     (case tsk_root L (tw_root W @ [''recovered'']) f of
        Inl e \<Rightarrow> (f, Inl e)
      | Inr (root, f1) \<Rightarrow>
          if iterdir root f1 \<noteq> [] then (f1, Inl (Tsk ''ANALYSIS_ROOT_NOT_EMPTY'' ''recovery root must be empty'' False))
          else (case tsk_argv L ''tsk_recover'' [''-a'', ''-o'', dec_int offset, path_str (tw_source W), path_str root] of
              Inl e \<Rightarrow> (f1, Inl e)
            | Inr argv \<Rightarrow>
                (case tk_recover L argv f1 of (f2, r) \<Rightarrow> (f2,
                   r_bind (tsk_outcome ''tsk_recover'' r) (\<lambda>(code, out, err).
                   Inr (if code \<noteq> 0
                     then [(''status'', JStr ''failed''), (''root'', JStr (path_str root)), (''errors'', JList [JObj [(''code'', JStr ''RECOVERY_FAILED''),
                       (''message'', JStr (take 200 (either_text err ''tsk_recover failed'')))]])]
                     else [(''status'', JStr ''completed''), (''root'', JStr (path_str root)), (''stdout'', JStr out)])))))) "

text \<open>
  What the Sleuth Kit workflow promises: extraction by inode writes below its own root only and within
  its limits, and an inspection answers with a record or with a failure of a known status; and what its
  readers do with the listings the tools print.
\<close>

section \<open>Listings\<close>

text \<open>With \<^verbatim>\<open>-B\<close> the table has a column of sizes, which becomes part of the description: free space is
  no longer recognised by it.\<close>

lemma mmls_size_column:
  "map tp_text (parse_mmls ''001:  -------   0000000000   0000002047   0000002048   0001M   Unallocated'') = [''0001M   Unallocated'']"
  "parse_mmls ''001:  -------   0000000000   0000002047   0000002048   Unallocated'' = []"
  by code_simp+

text \<open>With \<^verbatim>\<open>-m\<close> the listing is in the body format, whose lines start with a digest: none is an entry.\<close>

lemma takes_the_type: "fls_line P l = Some e \<Longrightarrow> \<exists>t. t \<in> {''d/d'', ''r/r'', ''-/''} \<and> prefix t (dropWhile is_ws l)"
  by (auto simp: fls_line_def Let_def split: option.splits list.splits if_splits)

lemma body_line_ignored: "fls_line P (CHR ''0'' # CHR ''|'' # s) = None"
proof (cases "fls_line P (CHR ''0'' # CHR ''|'' # s)")
  case (Some e)
  from takes_the_type [OF Some] show ?thesis by (auto simp: is_ws_def)
qed simp

section \<open>Extraction\<close>

definition tsk_within :: "tsk_flow \<Rightarrow> path \<Rightarrow> fs \<Rightarrow> tsk_extract \<Rightarrow> bool" where
  "tsk_within W root f0 s = (area root (tw_max_file W) f0 (tx_fs s) \<and> tx_sum s \<le> tw_max_total W)"

lemma keeps_tx_do:
  assumes "\<And>f f'. area root (tw_max_file W) f0 f \<Longrightarrow> g f = Inr f' \<Longrightarrow> area root (tw_max_file W) f0 f'"
  shows "keeps (tsk_within W root f0) (tx_do g) (\<lambda>_. True)"
  unfolding tx_do_def by (rule keeps_step) (auto simp: tsk_within_def intro: assms split: sum.splits)

lemma keeps_tx_error: "keeps (tsk_within W root f0) (tx_error c p) (\<lambda>_. True)"
  unfolding tx_error_def by (rule keeps_modify) (simp_all add: tsk_within_def)

lemma area_write:
  assumes "os_plain w" "area root limit f0 f" "prefix root p" "clean_path p" "int (length c) \<le> limit" "write_file w p c f = Inr f'"
  shows "area root limit f0 f'"
proof -
  have "no_links f" using assms(2) by (simp add: area_def)
  from plain_write_file(1) [OF assms(1) this assms(4,6)] area_set [OF assms(2,3,5)] show ?thesis by blast
qed

lemma area_temp:
  assumes "os_plain w" "area root limit f0 f" "prefix root p" "clean_path p" "0 \<le> limit" "make_temp w p f = Inr f'"
  shows "area root limit f0 f'"
proof -
  have "no_links f" using assms(2) by (simp add: area_def)
  from make_temp_Inr(2) [OF assms(1) this assms(4,6)] assms(2,3,5) show ?thesis by (auto intro!: area_set)
qed

lemma node_of_plain:
  assumes "os_plain w" "no_links f" "clean_path p" shows "node_of w f p = p"
proof (cases "p = []")
  case False
  with assms(3) have "last p \<noteq> ''..''" "clean_path (butlast p)" by (auto simp: clean_path_def dest: in_set_butlastD last_in_set)
  with False assms show ?thesis by (simp add: node_of_def plain_fs)
qed (simp add: node_of_def plain_fs [OF assms(1,2)])

text \<open>The file that is moved into place is the one just written: its size has been tested.\<close>

lemma keeps_take_out:
  assumes plain: "os_plain (tk_os L)" and t: "strict_prefix root tmp" and d: "prefix root dest"
    and cl: "clean_path tmp" "clean_path dest"
  shows "keeps (tsk_within W root f0) (take_out L W offset tmp dest inode rel) (\<lambda>_. True)"
proof (rule keepsI)
  fix s s' r assume I: "tsk_within W root f0 s" and run: "take_out L W offset tmp dest inode rel s = (s', r)"
  let ?args = "[''-o'', offset, path_str (tw_source W), inode]"
  have err: "tsk_within W root f0 s'" if "tx_error c rel s = (s', r)" for c using I that by (auto simp: tx_error_def wb_act tsk_within_def)
  show "tsk_within W root f0 s' \<and> (\<forall>x. r = Inr x \<longrightarrow> True)"
  proof (cases "run_tsk L ''istat'' ?args (tx_fs s)")
    case (Inl e)
    with run I show ?thesis by (auto simp: take_out_def wb_act a_bind_def a_lift_def Let_def)
  next
    case (Inr x)
    obtain code info e1 where x: "x = (code, info, e1)" by (cases x)
    show ?thesis
    proof (cases "run_tsk L ''icat'' ?args (tx_fs s)")
      case Inl': (Inl e)
      with run I Inr x show ?thesis by (auto simp: take_out_def wb_act a_bind_def a_lift_def Let_def)
    next
      case Inr': (Inr y)
      obtain code2 content e2 where y: "y = (code2, content, e2)" by (cases y)
      let ?n = "int (length content)"
      show ?thesis
      proof (cases "(code \<noteq> 0 \<or> code2 \<noteq> 0) \<or> (tw_max_file W < ?n \<or> tw_max_total W < tx_sum s + ?n)")
        case True
        with run Inr Inr' x y err show ?thesis by (auto simp: take_out_def wb_act a_bind_def a_lift_def Let_def split: if_splits)
      next
        case False
        then have small: "?n \<le> tw_max_file W" "tx_sum s + ?n \<le> tw_max_total W" by auto
        note go = run Inr Inr' x y False
        show ?thesis
        proof (cases "write_file (tk_os L) tmp content (tx_fs s)")
          case (Inl e)
          with go I show ?thesis by (auto simp: take_out_def wb_act a_bind_def a_lift_def tx_do_def a_step_def Let_def)
        next
          case wr: (Inr f1)
          have a0: "area root (tw_max_file W) f0 (tx_fs s)" using I by (simp add: tsk_within_def)
          have a1: "area root (tw_max_file W) f0 f1"
            by (rule area_write [OF plain a0 _ cl(1) small(1) wr]) (use t in \<open>simp add: strict_prefix_def\<close>)
          have nl: "no_links (tx_fs s)" "no_links f1" using a0 a1 by (simp_all add: area_def)
          obtain m where f1: "f1 = set_node tmp (File content m) (tx_fs s)" using plain_write_file(1) [OF plain nl(1) cl(1) wr] by blast
          have w1: "tsk_within W root f0 (s\<lparr>tx_fs := f1\<rparr>)" using I a1 by (simp add: tsk_within_def)
          show ?thesis
          proof (cases "move_to L tmp dest f1")
            case (Inl e)
            with go wr w1 show ?thesis by (auto simp: take_out_def wb_act a_bind_def a_lift_def tx_do_def a_step_def Let_def)
          next
            case mv: (Inr f2)
            then have f2: "f2 = set_node dest (File content m) (del_node tmp f1)"
              using node_of_plain [OF plain nl(2) cl(2)] by (auto simp: move_to_def replace_file_def f1 wb_fs split: option.splits node.splits)
            have a2: "area root (tw_max_file W) f0 f2"
              unfolding f2 by (intro area_set area_del a1 t d small(1))
            have nl2: "no_links f2" using a2 by (simp add: area_def)
            have ch: "chmod (tk_os L) dest 384 f2 = Inr (set_node dest (File content 384) f2)"
              using plain_fs [OF plain nl2 cl(2)] by (simp add: chmod_def Let_def) (simp add: f2 wb_fs)
            have a3: "area root (tw_max_file W) f0 (set_node dest (File content 384) f2)"
              by (intro area_set a2 d small(1))
            have "tx_fs s' = set_node dest (File content 384) f2 \<and> tx_sum s' = tx_sum s + ?n"
              using go wr mv ch by (auto simp: take_out_def wb_act a_bind_def a_lift_def tx_do_def a_step_def Let_def split: sum.splits)
            with a3 small(2) show ?thesis by (simp add: tsk_within_def)
          qed
        qed
      qed
    qed
  qed
qed

lemma area_mkdir_each:
  assumes plain: "os_plain w"
    and "\<forall>q\<in>set qs. clean_path q \<and> (prefix root q \<or> prefix q root)" "area root limit f0 f" "mkdir_each w p qs f = Inr f'"
  shows "area root limit f0 f'"
  using assms(2-4)
proof (induction qs arbitrary: f)
  case (Cons q qs)
  let ?m = "if q = p then 448 else 493"
  have nl: "no_links f" using Cons.prems(2) by (simp add: area_def)
  have at: "realpath w f q = q" using Cons.prems(1) by (simp add: plain_fs [OF plain nl])
  with Cons.prems(3) obtain g where g: "mkdir w ?m q True f = Inr g" "mkdir_each w p qs g = Inr f'"
    by (auto split: sum.splits)
  have "area root limit f0 g"
  proof (cases "prefix root q")
    case True
    then show ?thesis using area_mkdir [OF Cons.prems(2) g(1)] by simp
  next
    case False
    with Cons.prems(1) have "prefix q root" by simp
    then have "lookup f q \<noteq> None" using Cons.prems(2) unfolding area_def by blast
    with g(1) at have "g = f" by (auto simp: mkdir_def p_exists_def stat_node_def split: if_splits)
    with Cons.prems(2) show ?thesis by simp
  qed
  with Cons.IH [OF _ this g(2)] Cons.prems(1) show ?case by simp
qed simp

text \<open>The name a selection gives a file, and when it has no two dots.\<close>

definition selected_path :: "dict \<Rightarrow> string list" where
  "selected_path sel = path_parts (lstrip_slash (py_str (dget_or sel ''path'' (JStr []))))"

lemma keeps_extract_inode:
  assumes "os_plain (tk_os L)" "0 \<le> tw_max_file W" "clean_path root" "nm \<noteq> ''..''" "clean_path (selected_path sel)"
  shows "keeps (tsk_within W root f0) (extract_inode L W root offset nm sel) (\<lambda>_. True)"
proof -
  define rel where "rel = py_str (dget_or sel ''path'' (JStr []))"
  define dest where "dest = root @ path_parts (lstrip_slash rel)"
  have dest: "prefix root dest" by (simp add: dest_def)
  have cl: "clean_path (root @ [nm])" "clean_path dest"
    using assms(3-5) by (simp_all add: dest_def rel_def selected_path_def)
  have made: "area root (tw_max_file W) f0 f'"
    if "area root (tw_max_file W) f0 f" "mkdir_raw (tk_os L) (butlast dest) f = Inr f'" for f f'
  proof (rule area_mkdir_each [OF assms(1) _ that(1) that(2) [unfolded mkdir_raw_def]])
    show "\<forall>q\<in>set (prefixes (butlast dest)). clean_path q \<and> (prefix root q \<or> prefix q root)"
    proof
      fix q assume "q \<in> set (prefixes (butlast dest))"
      then have "prefix q dest" using prefix_order.trans [OF _ prefixeq_butlast [of dest]] by simp
      with cl(2) dest show "clean_path q \<and> (prefix root q \<or> prefix q root)"
        using clean_prefix prefix_same_cases by blast
    qed
  qed
  have temp: "area root (tw_max_file W) f0 f'"
    if "area root (tw_max_file W) f0 f" "make_temp (tk_os L) (root @ [nm]) f = Inr f'" for f f'
    by (rule area_temp [OF assms(1) that(1) _ cl(1) assms(2) that(2)]) simp
  show ?thesis
    unfolding extract_inode_def Let_def rel_def [symmetric] dest_def [symmetric]
    by (intro keeps_if keeps_tx_error keeps_bind [where V = "\<lambda>_. True"] keeps_get keeps_tx_do keeps_finally keeps_take_out assms(1) dest cl TrueI)
      (use assms made in \<open>auto simp: tsk_within_def drop_tsk_temp_def unlink_missing_ok_def strict_prefix_def intro: temp area_del\<close>)
qed

lemma keeps_extract_inodes:
  assumes "os_plain (tk_os L)" "0 \<le> tw_max_file W" "clean_path root" "\<forall>k. names k \<noteq> ''..''" "\<forall>sel\<in>set sels. clean_path (selected_path sel)"
  shows "keeps (tsk_within W root f0) (extract_inodes L W root offset names k sels) (\<lambda>_. True)"
  using assms(5)
  by (induction sels arbitrary: k) (auto intro!: wb_keeps keeps_bind [where V = "\<lambda>_. True"] keeps_extract_inode assms(1-3) simp: assms(4))

text \<open>Whatever is selected, as long as no name holds two dots, and whatever the tools answer, only the extraction root changes, no new file is
  above the limit for one file and the sum above the limit for all.\<close>

theorem inode_extraction_is_contained:
  assumes "os_plain (tk_os L)" "no_links f" "tree_ok f" "0 \<le> tw_max_file W" "0 \<le> tw_max_total W"
    and "extract_tsk L W sels offset names f = (f', r)" "clean_path (tw_root W)" "\<forall>k. names k \<noteq> ''..''"
    and "\<forall>sel\<in>set sels. clean_path (selected_path sel)"
  shows "(\<forall>q. \<not> prefix (tw_root W @ [''extracted'']) q \<and> \<not> prefix q (tw_root W @ [''extracted'']) \<longrightarrow> lookup f' q = lookup f q) \<and>
    (\<forall>root s. r = Inr (root, s) \<longrightarrow> tx_sum s \<le> tw_max_total W)"
proof -
  let ?root = "tw_root W @ [''extracted'']"
  have root: "realpath (tk_os L) f ?root = ?root" using assms(1,2,7) by (simp add: plain_fs)
  have rc: "clean_path ?root" using assms(7) by simp
  show ?thesis
  proof (cases "mkdir (tk_os L) 448 ?root True f")
    case (Inl e)
    with assms(6) root show ?thesis by (auto simp: extract_tsk_def tsk_root_def Let_def tsk_sys_def)
  next
    case (Inr f1)
    have f1: "no_links f1" "\<And>q. prefix q ?root \<Longrightarrow> lookup f1 q \<noteq> None"
      using mkdir_no_links [OF Inr assms(2)] mkdir_there [OF Inr root assms(3)] by auto
    let ?s = "\<lparr>tx_fs = f1, tx_sum = 0, tx_done = [], tx_errors = []\<rparr>"
    have start: "tsk_within W ?root f1 ?s"
      using f1 assms(5) by (simp add: tsk_within_def area_def same_outside_def)
    obtain s u where loop: "extract_inodes L W ?root (dec_int offset) names 0 sels ?s = (s, u)"
      by (cases "extract_inodes L W ?root (dec_int offset) names 0 sels ?s")
    have s: "tsk_within W ?root f1 s"
      using keepsD [OF keeps_extract_inodes [OF assms(1,4) rc assms(8,9)] start loop] by simp
    have "f' = tx_fs s \<and> (\<forall>root x. r = Inr (root, x) \<longrightarrow> x = s)"
      using assms(6) root Inr loop by (auto simp: extract_tsk_def tsk_root_def Let_def tsk_sys_def split: sum.splits)
    moreover have "lookup (tx_fs s) q = lookup f q" if "\<not> prefix ?root q" "\<not> prefix q ?root" for q
      using lookup_mkdir [OF Inr, of q] that s unfolding tsk_within_def area_def same_outside_def by metis
    ultimately show ?thesis using s by (auto simp: tsk_within_def)
  qed
qed

text \<open>With two dots directories can be made outside: the resolved destination is tested, the way to it is
  not.\<close>

lemma dots_make_directories_outside:
  assumes "os_plain w" "no_links f" "lookup f [] = Some (Dir 493)" "lookup f [''an''] = Some (Dir 448)"
    and "lookup f [''an'', ''extracted''] = Some (Dir 448)" "lookup f [''an'', ''zz''] = None"
  shows "prefix [''an'', ''extracted''] (realpath w f [''an'', ''extracted'', ''..'', ''zz'', ''..'', ''extracted'', ''x''])"
    "\<exists>f'. mkdir_raw w [''an'', ''extracted'', ''..'', ''zz'', ''..'', ''extracted''] f = Inr f' \<and> lookup f' [''an'', ''zz''] = Some (Dir 493)"
proof -
  let ?g = "set_node [''an'', ''zz''] (Dir 493) f"
  have g: "no_links ?g" using assms(2) by (rule no_links_set) simp
  note r = plain_resolve [OF assms(1,2)] plain_resolve [OF assms(1) g]
  show "prefix [''an'', ''extracted''] (realpath w f [''an'', ''extracted'', ''..'', ''zz'', ''..'', ''extracted'', ''x''])"
    by (simp add: r collapse_def)
  show "\<exists>f'. mkdir_raw w [''an'', ''extracted'', ''..'', ''zz'', ''..'', ''extracted''] f = Inr f' \<and> lookup f' [''an'', ''zz''] = Some (Dir 493)"
    using assms(3-6)
    by (simp add: mkdir_raw_def mkdir_def r collapse_def p_exists_def is_dir_def is_file_def stat_node_def wb_fs)
qed

section \<open>Inspection\<close>

text \<open>An inspection that answers has left the manifest of the tools below the analysis root, and its answer
  is a full record or a failure of one of three statuses.\<close>

theorem inspection_answers:
  assumes "inspect_image L W index now f = (f', Inr d)"
  shows "(\<exists>m f1. tool_manifest L now f = Inr m \<and> write_json L (tw_root W @ [''tool-manifest.json'']) m f1 = Inr f') \<and>
    (dget d ''status'' = JNull \<and> dget d ''source_type'' = JStr ''disk_image'' \<or>
     dget d ''status'' \<in> {JStr ''unavailable'', JStr ''unsupported'', JStr ''failed''})"
proof -
  from assms obtain m where m: "tool_manifest L now f = Inr m" by (auto simp: inspect_image_def split: sum.splits)
  show ?thesis
  proof (cases "inspected L W index m f")
    case (Inr x)
    from Inr have "dget x ''status'' = JNull" "dget x ''source_type'' = JStr ''disk_image''"
      by (auto simp: inspected_def tsk_record_def wb_result Let_def dget_def)
    with assms m Inr show ?thesis by (auto simp: inspect_image_def Let_def split: sum.splits)
  next
    case (Inl e)
    show ?thesis
    proof (cases e)
      case (Tsk code msg again)
      with assms m Inl have "d = tsk_failure W m code msg again" "\<exists>f1. write_json L (tw_root W @ [''tool-manifest.json'']) m f1 = Inr f'"
        by (auto simp: inspect_image_def Let_def split: sum.splits)
      with m show ?thesis by (auto simp: tsk_failure_def dget_def)
    next
      case (TskRaise x)
      with assms m Inl show ?thesis by (simp add: inspect_image_def Let_def)
    qed
  qed
qed

end
