(* ===== verification/Manifest_Worker.thy ===== *)
theory Manifest_Worker
  imports Uac_Correct
begin

text \<open>
  \<^verbatim>\<open>workers/openrelik-manifest-worker\<close>: the worker hashes and lists a staged input and writes one metadata
  record to its output directory.  Modification times, the clock and the digest are parameters; so is
  the text of the line it prints.
\<close>

section \<open>Library and errors\<close>

record worker_lib =
  wk_os :: os
  wk_mtime :: "fs \<Rightarrow> path \<Rightarrow> string"
  wk_line :: "json \<Rightarrow> string"

datatype manifest_error = Worker string string | WorkerRaise sys_error

definition worker_sys :: "sys_error + 'a \<Rightarrow> manifest_error + 'a" where
  "worker_sys r = (case r of Inl e \<Rightarrow> Inl (WorkerRaise e) | Inr x \<Rightarrow> Inr x)"

definition worker_name :: string where "worker_name = ''dfir.openrelik.manifest''"

definition error_dict :: "string \<Rightarrow> string \<Rightarrow> json" where
  "error_dict code msg = JObj [(''code'', JStr code), (''message'', JStr msg), (''retryable'', JBool False)]"

definition worker_id_char :: "char \<Rightarrow> bool" where
  "worker_id_char c = (is_alnum c \<or> c \<in> set ''._-'')"

definition worker_id :: "string \<Rightarrow> string \<Rightarrow> manifest_error + string" where
  "worker_id v field_name = (if v = [] \<or> 128 < length v \<or> \<not> list_all worker_id_char v
     then Inl (Worker ''INVALID_ID'' (field_name @ '' is invalid'')) else Inr v)"

definition hash_file :: "worker_lib \<Rightarrow> path \<Rightarrow> fs \<Rightarrow> manifest_error + (string \<times> int)" where
  "hash_file L p f = worker_sys (r_bind (read_file (wk_os L) p f) (\<lambda>c. Inr (sha_bytes (wk_os L) c, int (length c))))"

section \<open>The inventory\<close>

record worker_entry =
  we_path :: string
  we_size :: int
  we_sha :: string
  we_mtime :: string

text \<open>\<^verbatim>\<open>bytes.fromhex\<close> of a digest.\<close>

definition hex_value :: "char \<Rightarrow> nat" where
  "hex_value c = (if is_digit c then of_char c - 48 else of_char (lower_char c) - 87)"

fun from_hex :: "string \<Rightarrow> string" where
  "from_hex (a # b # cs) = char_of (16 * hex_value a + hex_value b) # from_hex cs"
| "from_hex s = []"

fun list_files :: "worker_lib \<Rightarrow> path \<Rightarrow> fs \<Rightarrow> path list \<Rightarrow> manifest_error + worker_entry list" where
  "list_files L src f [] = Inr []"
| "list_files L src f (p # ps) =
     (if is_symlink f p then Inl (Worker ''SYMLINK_REJECTED'' ''input contains a symlink'')
      else if is_dir (wk_os L) f p then list_files L src f ps
      else if \<not> is_file (wk_os L) f p then Inl (Worker ''SPECIAL_FILE_REJECTED'' ''input contains a special file'')
      else r_bind (hash_file L p f) (\<lambda>(h, n).
           r_bind (list_files L src f ps) (\<lambda>es.
           Inr (\<lparr>we_path = relative_to src p, we_size = n, we_sha = h, we_mtime = wk_mtime L f p\<rparr> # es))))"

definition tree_bytes :: "worker_entry list \<Rightarrow> string" where
  "tree_bytes es = concat (map (\<lambda>e. we_path e @ from_hex (we_sha e)) es)"

definition source_inventory :: "worker_lib \<Rightarrow> path \<Rightarrow> fs \<Rightarrow> manifest_error + (string \<times> int \<times> worker_entry list)" where
  "source_inventory L src f =
     (if is_file (wk_os L) f src \<and> \<not> lstat_link (wk_os L) f src
      then r_bind (hash_file L src f) (\<lambda>(h, n).
             Inr (h, n, [\<lparr>we_path = path_name src, we_size = n, we_sha = h, we_mtime = wk_mtime L f src\<rparr>]))
      else if \<not> is_dir (wk_os L) f src \<or> lstat_link (wk_os L) f src
      then Inl (Worker ''SOURCE_INVALID'' ''input must be a regular file or directory'')
      else r_bind (list_files L src f (descendants src f)) (\<lambda>es.
             Inr (sha_bytes (wk_os L) (tree_bytes es), sum_list (map we_size es), es)))"

section \<open>The task\<close>

definition worker_entry_json :: "worker_entry \<Rightarrow> json" where
  "worker_entry_json e = JObj [(''path'', JStr (we_path e)), (''size'', JInt (we_size e)), (''sha256'', JStr (we_sha e)), (''mtime'', JStr (we_mtime e)), (''kind'', JStr ''file'')]"

definition id_or :: "string option \<Rightarrow> string \<Rightarrow> string \<Rightarrow> string \<Rightarrow> manifest_error + string" where
  "id_or given field_name pre h = (if non_blank given then worker_id (the given) field_name else Inr (pre @ take 24 h))"

definition metadata_json :: "path \<Rightarrow> string \<Rightarrow> string \<Rightarrow> string \<Rightarrow> string \<Rightarrow> string \<Rightarrow> int \<Rightarrow> worker_entry list \<Rightarrow> string \<Rightarrow> json" where
  "metadata_json src task evidence artifact report h n es now = JObj
     [(''schema_version'', JStr ''1.0''), (''worker'', JStr worker_name), (''worker_version'', JStr ''0.1.0''), (''task_id'', JStr task), (''status'', JStr ''completed''),
      (''artifact_id'', JStr artifact), (''report_id'', JStr report), (''sha256'', JStr h), (''size'', JInt n), (''inventory'', JList (map worker_entry_json es)),
      (''provenance'', JObj [(''evidence_id'', JStr evidence), (''source_uri'', JStr (as_uri src)), (''staged_input'', JBool True), (''read_only'', JBool True), (''generated_at_utc'', JStr now)])]"

definition task_result :: "path \<Rightarrow> path \<Rightarrow> string \<Rightarrow> string \<Rightarrow> string \<Rightarrow> string \<Rightarrow> string \<Rightarrow> dict" where
  "task_result src dest task evidence artifact report h =
     (let uri = JStr (as_uri dest); row = (\<lambda>k v. JList [JObj [(k, JStr v), (''task_id'', JStr task), (''sha256'', JStr h), (''metadata_uri'', uri)]]) in
      [(''schema_version'', JStr ''1.0''), (''task_id'', JStr task), (''status'', JStr ''completed''), (''artifacts'', row ''artifact_id'' artifact),
       (''reports'', row ''report_id'' report), (''metadata_uri'', uri), (''sha256'', JStr h),
       (''provenance'', JObj [(''evidence_id'', JStr evidence), (''source_uri'', JStr (as_uri src)), (''worker'', JStr worker_name)])])"

definition metadata_at :: "path \<Rightarrow> string \<Rightarrow> path" where
  "metadata_at out task = out @ [task @ ''.metadata.json'']"

definition write_metadata :: "worker_lib \<Rightarrow> path \<Rightarrow> json \<Rightarrow> fs \<Rightarrow> fs \<times> (manifest_error + unit)" where
  "write_metadata L dest v f =
     (case write_file (wk_os L) dest (canonical_json v) f of
        Inl e \<Rightarrow> (f, Inl (WorkerRaise e))
      | Inr f1 \<Rightarrow> (case chmod (wk_os L) dest 384 f1 of Inl e \<Rightarrow> (f1, Inl (WorkerRaise e)) | Inr f2 \<Rightarrow> (f2, Inr ())))"

definition run_task :: "worker_lib \<Rightarrow> path \<Rightarrow> path \<Rightarrow> string \<Rightarrow> string \<Rightarrow> string option \<Rightarrow> string option \<Rightarrow> string \<Rightarrow> fs \<Rightarrow> fs \<times> (manifest_error + dict)" where
  "run_task L source output task evidence artifact_arg report_arg now f =
     (case r_bind (worker_id task ''task_id'') (\<lambda>_. worker_id evidence ''evidence_id'') of
        Inl e \<Rightarrow> (f, Inl e)
      | Inr _ \<Rightarrow>
          (let w = wk_os L; src = realpath w f source; out = realpath w f output in
           if \<not> p_exists w f src then (f, Inl (Worker ''SOURCE_NOT_FOUND'' ''staged input does not exist''))
           else if prefix src out then (f, Inl (Worker ''OUTPUT_INSIDE_SOURCE'' ''output directory must be separate from staged input''))
           else (case mkdir w 448 out True f of
               Inl e \<Rightarrow> (f, Inl (WorkerRaise e))
             | Inr f1 \<Rightarrow>
                 (case r_bind (source_inventory L src f1) (\<lambda>(h, n, es).
                         r_bind (id_or artifact_arg ''artifact_id'' ''artifact-'' h) (\<lambda>a.
                         r_bind (id_or report_arg ''report_id'' ''report-'' h) (\<lambda>r. Inr (h, n, es, a, r)))) of
                    Inl e \<Rightarrow> (f1, Inl e)
                  | Inr (h, n, es, a, r) \<Rightarrow>
                      (case write_metadata L (metadata_at out task) (metadata_json src task evidence a r h n es now) f1 of
                         (f2, Inl e) \<Rightarrow> (f2, Inl e)
                       | (f2, Inr u) \<Rightarrow> (f2, Inr (task_result src (metadata_at out task) task evidence a r h)))))))"

text \<open>The command line: the line printed and the exit code; other exceptions end the process.\<close>

definition worker_main :: "worker_lib \<Rightarrow> path \<Rightarrow> path \<Rightarrow> string \<Rightarrow> string \<Rightarrow> string \<Rightarrow> fs \<Rightarrow> fs \<times> (sys_error + string \<times> int)" where
  "worker_main L source output task evidence now f =
     (case run_task L source output task evidence None None now f of
        (f1, Inr d) \<Rightarrow> (f1, Inr (wk_line L (JObj d), 0))
      | (f1, Inl (Worker code msg)) \<Rightarrow> (f1, Inr (wk_line L (JObj [(''status'', JStr ''failed''), (''error'', error_dict code msg)]), 2))
      | (f1, Inl (WorkerRaise e)) \<Rightarrow> (f1, Inl e))"

text \<open>
  What the manifest worker promises: it writes nowhere under its input, and what it lists are the files
  of the input, each with its digest and size.
\<close>

text \<open>The output directory is above a file input: the record can have the input's own name.\<close>

definition overlap_files :: fs where
  "overlap_files = [([], Dir 493), ([''o''], Dir 493), ([''o'', ''t.metadata.json''], File ''evidence'' 420)]"

definition overlap_lib :: worker_lib where
  "overlap_lib = \<lparr>wk_os = demo_disk_os, wk_mtime = (\<lambda>f p. ''now''), wk_line = json_text\<rparr>"

lemma worker_overwrites_its_input:
  "case run_task overlap_lib [''o'', ''t.metadata.json''] [''o''] ''t'' ''e'' None None ''now'' overlap_files of
     (f, r) \<Rightarrow> is_ok r \<and> lookup f [''o'', ''t.metadata.json''] \<noteq> Some (File ''evidence'' 420)"
  by code_simp

text \<open>Otherwise the input is left alone, whatever the outcome.\<close>

lemma write_metadata_frame:
  assumes "os_plain (wk_os L)" "no_links f" "clean_path dest" "write_metadata L dest v f = (f', r)" "q \<noteq> dest"
  shows "lookup f' q = lookup f q"
proof (cases "write_file (wk_os L) dest (canonical_json v) f")
  case (Inl e)
  with assms(4) show ?thesis by (simp add: write_metadata_def)
next
  case (Inr f1)
  with plain_write_file [OF assms(1-3) Inr] obtain m where f1: "f1 = set_node dest (File (canonical_json v) m) f" "no_links f1" by blast
  then have "chmod (wk_os L) dest 384 f1 = Inr (set_node dest (File (canonical_json v) 384) f1)"
    using plain_fs [OF assms(1) f1(2) assms(3)] by (simp add: chmod_def Let_def wb_fs)
  with Inr assms(4,5) f1 show ?thesis by (auto simp: write_metadata_def wb_fs)
qed

theorem worker_leaves_its_input_alone:
  assumes "os_plain (wk_os L)" "no_links f" "run_task L source output task evidence a b now f = (f', r)"
    and "is_dir (wk_os L) f source \<or> source \<noteq> metadata_at output task" "prefix source q"
    and "clean_path source" "clean_path output"
  shows "lookup f' q = lookup f q"
proof -
  have plain: "realpath (wk_os L) f p = p" if "clean_path p" for p using assms(1,2) that by (simp add: plain_fs)
  let ?dest = "metadata_at output task"
  have dc: "clean_path ?dest" using assms(7) by (auto simp: metadata_at_def)
  note run = assms(3) [unfolded run_task_def Let_def plain [OF assms(6)] plain [OF assms(7)]]
  show ?thesis
  proof (cases "prefix source output \<or> (\<exists>e. mkdir (wk_os L) 448 output True f = Inl e)")
    case True
    with run show ?thesis by (auto split: sum.splits if_splits)
  next
    case False
    then obtain f1 where apart: "\<not> prefix source output" and mk: "mkdir (wk_os L) 448 output True f = Inr f1"
      by (cases "mkdir (wk_os L) 448 output True f") auto
    have nl: "no_links f1" by (rule mkdir_no_links [OF mk assms(2)])
    have same: "lookup f1 p = lookup f p" if "prefix source p" for p
      using lookup_mkdir [OF mk, of p] apart that prefix_order.trans by auto
    consider "f' = f" | "f' = f1" | v u where "write_metadata L ?dest v f1 = (f', u)"
      using run mk by (auto split: sum.splits if_splits prod.splits)
    then show ?thesis
    proof cases
      case (3 v u)
      show ?thesis
      proof (cases "q = ?dest")
        case True
        then have "source = ?dest" using assms(5) apart by (auto simp: metadata_at_def)
        with assms(4) obtain m where "lookup f ?dest = Some (Dir m)"
          using plain [OF dc] by (auto simp: is_dir_def stat_node_def split: option.splits node.splits)
        with same [of ?dest] \<open>source = ?dest\<close> have "write_file (wk_os L) ?dest (canonical_json v) f1 = Inl (OsError ''IsADirectoryError'')"
          using plain_fs [OF assms(1) nl dc] by (simp add: write_file_def)
        with 3 have "f' = f1" by (simp add: write_metadata_def)
        with same [OF assms(5)] show ?thesis by simp
      next
        case False
        from write_metadata_frame [OF assms(1) nl dc 3 False] same [OF assms(5)] show ?thesis by simp
      qed
    qed (use same [OF assms(5)] in simp_all)
  qed
qed

text \<open>The list of a directory: its files in the order of their paths, nothing else, nothing left out.\<close>

theorem worker_lists_every_file:
  assumes "os_plain (wk_os L)" "no_links f" "list_files L src f ps = Inr es" "\<And>p. p \<in> set ps \<Longrightarrow> lookup f p \<noteq> None \<and> clean_path p"
  shows "list_all2 (\<lambda>p e. we_path e = relative_to src p \<and>
      (\<exists>c m. lookup f p = Some (File c m) \<and> we_sha e = sha_bytes (wk_os L) c \<and> we_size e = int (length c)))
    (filter (\<lambda>p. \<forall>m. lookup f p \<noteq> Some (Dir m)) ps) es"
  using assms(3,4)
proof (induction ps arbitrary: es)
  case (Cons p ps)
  have at: "stat_node (wk_os L) f p = lookup f p" using assms(1,2) Cons.prems(2) [of p] by (simp add: stat_node_def plain_fs)
  have nolink: "\<not> is_symlink f p" using assms(2) by (simp add: no_links_def)
  show ?case
  proof (cases "lookup f p")
    case None
    with Cons.prems(2) [of p] show ?thesis by simp
  next
    case (Some n)
    show ?thesis
    proof (cases n)
      case (File c m)
      then have reg: "is_file (wk_os L) f p" "\<not> is_dir (wk_os L) f p" using Some at by (simp_all add: is_file_def is_dir_def)
      with Cons.prems(1) nolink obtain h k es' where e: "hash_file L p f = Inr (h, k)" "list_files L src f ps = Inr es'"
        "es = \<lparr>we_path = relative_to src p, we_size = k, we_sha = h, we_mtime = wk_mtime L f p\<rparr> # es'"
        by (auto simp: wb_result split: prod.splits)
      have "h = sha_bytes (wk_os L) c" "k = int (length c)"
        using e(1) Some File at by (auto simp: hash_file_def worker_sys_def read_file_def split: if_splits)
      then show ?thesis using Some File e Cons.IH [OF e(2)] Cons.prems(2) by simp
    next
      case (Dir m)
      with Cons Some at nolink show ?thesis by (auto simp: is_dir_def)
    next
      case (Link t)
      with Some nolink show ?thesis by (simp add: is_symlink_def)
    qed
  qed
qed simp

end
