(* ===== verification/Velo_Workflow.thy ===== *)
theory Velo_Workflow
  imports Velo_Adapter Openrelik Evidence_Store
begin

text \<open>
  \<^verbatim>\<open>velociraptor_openrelik.py\<close>: a collection archive is hashed, claimed as an OpenRelik job, stored as
  evidence, collected, and its timeline rows become the outputs of the job.  The state is the volume,
  the job store, the readings of the clock taken so far and the audit events.  Text decoding, the JSON
  and CSV readers and \<^verbatim>\<open>datetime.fromisoformat\<close> are parameters; an error the adapter of OpenRelik raises is
  kept as the cause of the one raised from it.
\<close>

record fast_lib =
  fl_velo :: velo_lib
  fl_relik :: relik
  fl_text :: "string \<Rightarrow> string option"
  fl_csv :: "string \<Rightarrow> json list option"
  fl_loads :: "string \<Rightarrow> json option"
  fl_utc :: "string \<Rightarrow> sys_error + string option"

datatype fast_error =
    FastPath string | FastFrom or_error | FastVelo velo_error | FastStore sys_error | FastRelik or_error | FastRaise sys_error

record fast_path =
  fa_store :: "store option"
  fa_principal :: "principal option"
  fa_max_upload :: int
  fa_timeout :: int
  fa_max_file :: int
  fa_max_total :: int
  fa_audited :: bool

record fast_state =
  fp_fs :: fs
  fp_jobs :: relik_state
  fp_reads :: nat
  fp_audit :: "dict list"

type_synonym 'a fast_act = "(fast_state, fast_error, 'a) act"

definition make_fast_path :: "store option \<Rightarrow> principal option \<Rightarrow> int \<Rightarrow> int \<Rightarrow> int \<Rightarrow> int \<Rightarrow> bool \<Rightarrow> sys_error + fast_path" where
  "make_fast_path st p max_upload timeout max_file max_sum audited =
     (if max_upload \<le> 0 \<or> timeout \<le> 0 then Inl (PyErr ''ValueError'')
      else Inr \<lparr>fa_store = st, fa_principal = p, fa_max_upload = max_upload, fa_timeout = timeout, fa_max_file = max_file, fa_max_total = max_sum, fa_audited = audited\<rparr>)"

section \<open>Steps on the parts of the state\<close>

definition on_volume :: "('e \<Rightarrow> fast_error) \<Rightarrow> (fs \<Rightarrow> fs \<times> ('e + 'a)) \<Rightarrow> 'a fast_act" where
  "on_volume h m s = (case m (fp_fs s) of (f, r) \<Rightarrow> (s\<lparr>fp_fs := f\<rparr>, case r of Inl e \<Rightarrow> Inl (h e) | Inr x \<Rightarrow> Inr x))"

definition on_jobs :: "(or_error \<Rightarrow> fast_error) \<Rightarrow> 'a relik_act \<Rightarrow> 'a fast_act" where
  "on_jobs h m s = (case m (fp_jobs s) of (j, r) \<Rightarrow> (s\<lparr>fp_jobs := j\<rparr>, case r of Inl e \<Rightarrow> Inl (h e) | Inr x \<Rightarrow> Inr x))"

definition fp_read :: "('e \<Rightarrow> fast_error) \<Rightarrow> (fs \<Rightarrow> 'e + 'a) \<Rightarrow> 'a fast_act" where
  "fp_read h g = on_volume h (\<lambda>f. (f, g f))"

definition tick :: "(nat \<Rightarrow> int) \<Rightarrow> int fast_act" where
  "tick clock s = (s\<lparr>fp_reads := Suc (fp_reads s)\<rparr>, Inr (clock (fp_reads s)))"

definition deadline :: "(nat \<Rightarrow> int) \<Rightarrow> fast_path \<Rightarrow> int \<Rightarrow> unit fast_act" where
  "deadline clock P started = a_bind (tick clock) (\<lambda>t. a_guard (\<not> fa_timeout P < t - started) (FastPath ''TIMEOUT''))"

fun blocks_in_time :: "(nat \<Rightarrow> int) \<Rightarrow> fast_path \<Rightarrow> int \<Rightarrow> nat \<Rightarrow> unit fast_act" where
  "blocks_in_time clock P started 0 = a_ret ()"
| "blocks_in_time clock P started (Suc n) = a_bind (deadline clock P started) (\<lambda>_. blocks_in_time clock P started n)"

definition block_count :: "string \<Rightarrow> nat" where
  "block_count c = nat ((int (length c) + 1048575) div 1048576)"

definition timed_hash :: "fast_lib \<Rightarrow> (nat \<Rightarrow> int) \<Rightarrow> fast_path \<Rightarrow> path \<Rightarrow> string fast_act" where
  "timed_hash L clock P p =
     a_bind (tick clock) (\<lambda>started.
     a_bind (fp_read FastRaise (read_file (vl_os (fl_velo L)) p)) (\<lambda>c.
     a_bind (blocks_in_time clock P started (block_count c)) (\<lambda>_.
     a_ret (sha_bytes (vl_os (fl_velo L)) c))))"

definition fast_audit :: "fast_path \<Rightarrow> dict \<Rightarrow> unit fast_act" where
  "fast_audit P event = a_modify (\<lambda>s. if fa_audited P then s\<lparr>fp_audit := fp_audit s @ [event]\<rparr> else s)"

definition caught_submit :: "or_error \<Rightarrow> bool" where
  "caught_submit e = (case e of
     ContractError m \<Rightarrow> True | ValueErr m \<Rightarrow> True | PermissionErr m \<Rightarrow> True | RuntimeErr m \<Rightarrow> True
   | TransportErr n \<Rightarrow> n \<in> {''ValueError'', ''PermissionError'', ''RuntimeError''} | _ \<Rightarrow> False)"

section \<open>The request\<close>

definition job_request :: "string \<Rightarrow> string \<Rightarrow> string \<Rightarrow> string \<Rightarrow> string \<Rightarrow> string \<Rightarrow> string \<Rightarrow> json" where
  "job_request tenant case_id asset evidence sha workflow key =
     (let short = take 16 (drop 3 key); start = JStr ''2026-01-01T00:00:00Z'' in
      JObj [(''contract_version'', JStr ''1.0.0''), (''request_id'', JStr (''req-'' @ short)), (''submitted_at_utc'', start),
        (''immutable_context'', JObj [(''tenant'', JObj [(''tenant_id'', JStr tenant)]), (''case'', JObj [(''case_id'', JStr case_id)]),
           (''asset'', JObj [(''asset_id'', JStr asset), (''asset_type'', JStr ''endpoint'')]),
           (''evidence'', JObj [(''evidence_id'', JStr evidence), (''sha256'', JStr sha), (''metadata_uri'', JStr (''metadata://'' @ evidence))]),
           (''acquisition'', JObj [(''acquisition_id'', JStr (''acq-'' @ short)), (''method'', JStr ''velociraptor''), (''acquired_at_utc'', start)])]),
        (''execution'', JObj [(''read_only'', JBool True), (''tool_profile'', JStr workflow), (''capability_requirements'', JList [JStr ''filesystem_read'']),
           (''reviewer'', JObj [(''reviewer_id'', JStr ''pending''), (''approval_reference'', JStr ''pending'')]),
           (''retention'', JObj [(''policy_id'', JStr ''case-default''), (''retain_until_utc'', JStr ''2099-01-01T00:00:00Z'')]),
           (''expected_outputs'', JList [JObj [(''output_type'', JStr ''report''), (''logical_name'', JStr ''timeline''), (''required'', JBool True)]])]),
        (''idempotency'', JObj [(''key'', JStr key), (''scope'', JStr (tenant @ '':'' @ case_id @ '':'' @ evidence))]),
        (''retry_policy'', JObj [(''max_attempts'', JInt 3), (''backoff_seconds'', JInt 0)]),
        (''redaction_policy'', JObj [(''policy_id'', JStr ''safe-v1''), (''version'', JStr ''1.0.0'')])])"

section \<open>Timeline rows\<close>

definition candidate_paths :: "uac_entry list \<Rightarrow> string list" where
  "candidate_paths es = take 100 (map ue_path (filter (\<lambda>e. ue_kind e = ''file'' \<and>
     names_hold [''plaso'', ''hayabusa'', ''timeline'', ''event''] (lower (ue_path e))) es))"

definition all_loaded :: "fast_lib \<Rightarrow> string list \<Rightarrow> json list option" where
  "all_loaded L ls = (let vs = map (fl_loads L) ls in if None \<in> set vs then None else Some (map the vs))"

text \<open>\<open>None\<close>: an error the caller skips the file for.\<close>

definition read_rows :: "fast_lib \<Rightarrow> path \<Rightarrow> fs \<Rightarrow> json list option" where
  "read_rows L p f =
     (case read_file (vl_os (fl_velo L)) p f of
        Inl e \<Rightarrow> None
      | Inr c \<Rightarrow>
          (case fl_text L c of
             None \<Rightarrow> None
           | Some t \<Rightarrow>
               (let kind = lower (path_suffix (path_name p)) in
                if kind = ''.jsonl'' then all_loaded L (filter (\<lambda>l. strip l \<noteq> []) (text_lines t))
                else if kind = ''.json'' then map_option (\<lambda>v. case v of JList xs \<Rightarrow> xs | _ \<Rightarrow> [v]) (fl_loads L t)
                else if kind = ''.csv'' then fl_csv L c
                else Some [])))"

definition row_utc :: "fast_lib \<Rightarrow> json \<Rightarrow> fast_error + json" where
  "row_utc L v =
     (if \<not> truthy v then Inr JNull
      else (case fl_utc L (str_replace ''Z'' ''+00:00'' (strip (py_str v))) of
              Inl e \<Rightarrow> Inl (FastRaise e) | Inr None \<Rightarrow> Inr JNull | Inr (Some t) \<Rightarrow> Inr (JStr t)))"

definition stamp_keys :: "string list" where "stamp_keys = [''timestamp'', ''timestamp_utc'', ''datetime'', ''Timestamp'']"
definition text_keys :: "string list" where "text_keys = [''message'', ''Message'', ''description'']"

definition first_of :: "dict \<Rightarrow> string list \<Rightarrow> json" where
  "first_of d ks = (case ks of [] \<Rightarrow> JNull | k # rest \<Rightarrow> foldl (\<lambda>v j. py_or v (dget d j)) (dget d k) rest)"

definition timeline_row :: "fast_lib \<Rightarrow> velo_item \<Rightarrow> nat \<Rightarrow> json \<Rightarrow> fast_error + json" where
  "timeline_row L i n raw = (case raw of
     JObj d \<Rightarrow>
       (let ts = first_of d stamp_keys in
        r_bind (row_utc L ts) (\<lambda>utc.
        Inr (JObj [(''occurred_at_utc'', utc), (''timestamp_raw'', ts), (''message'', JStr (py_str (py_or (first_of d text_keys) (JStr [])))),
          (''artifact_type'', JStr (if contains ''hayabusa'' (lower (vi_path i)) then ''hayabusa'' else ''plaso'')),
          (''source_path'', JStr (vi_path i)), (''source_row'', JInt (int n)), (''source_sha256'', JStr (vi_sha i)),
          (''provenance'', JObj [(''mapping_version'', JStr ''timeline-normalizer-1''), (''analyst_review_required'', JBool True)]),
          (''fields'', JObj (filter (\<lambda>kv. fst kv \<notin> set (stamp_keys @ text_keys)) d))])))
   | _ \<Rightarrow> Inl (FastRaise (PyErr ''AttributeError'')))"

definition item_rows :: "fast_lib \<Rightarrow> fs \<Rightarrow> velo_item \<Rightarrow> fast_error + json list" where
  "item_rows L f i = (case read_rows L (vi_output i) f of
     None \<Rightarrow> Inr [] | Some rows \<Rightarrow> r_map (\<lambda>(n, raw). timeline_row L i n raw) (enumerate 1 rows))"

definition normalized_outputs :: "fast_lib \<Rightarrow> velo_record \<Rightarrow> fs \<Rightarrow> fast_error + json list" where
  "normalized_outputs L r f = r_bind (r_map (item_rows L f) (vx_done (vr_extract r))) (\<lambda>xs. Inr (concat xs))"

section \<open>Results\<close>

definition job_text :: "string option \<Rightarrow> json" where
  "job_text x = (case x of None \<Rightarrow> JNull | Some s \<Rightarrow> JStr s)"

fun list_of :: "json \<Rightarrow> json list" where
  "list_of (JList xs) = xs"
| "list_of v = []"

definition fast_result :: "or_job \<Rightarrow> string \<Rightarrow> int \<Rightarrow> json \<Rightarrow> dict \<Rightarrow> dict" where
  "fast_result job sha n outputs evidence =
     [(''job'', JObj [(''job_id'', JStr (or_id job)), (''workflow_id'', job_text (or_workflow job)), (''task_id'', job_text (or_task job)),
         (''status'', JStr (or_status job)), (''review_state'', JStr (or_review job)), (''output_count'', JInt (int (length (list_of outputs))))]),
      (''evidence'', JObj (if evidence \<noteq> [] then evidence else [(''evidence_id'', JStr (or_evidence job)), (''sha256'', JStr sha), (''size'', JInt n)])),
      (''timeline'', outputs),
      (''provenance'', JObj [(''source'', JStr ''velociraptor''), (''workflow_id'', job_text (or_workflow job)), (''task_id'', job_text (or_task job)), (''mapping_version'', JStr ''timeline-normalizer-1'')]),
      (''timesketch'', JObj [(''status'', JStr ''optional-downstream''), (''exported'', JBool False)])]"

definition submission_event :: "string \<Rightarrow> string \<Rightarrow> string \<Rightarrow> string \<Rightarrow> string \<Rightarrow> dict" where
  "submission_event action res tenant case_id evidence =
     [(''action'', JStr action), (''result'', JStr res), (''tenant_id'', JStr tenant), (''case_id'', JStr case_id), (''evidence_id'', JStr evidence)]"

section \<open>The submission\<close>

record fast_call =
  fc_source :: path
  fc_tenant :: string
  fc_case :: string
  fc_asset :: string
  fc_evidence :: string
  fc_expected :: "string option"
  fc_workflow :: string
  fc_answer :: answer
  fc_uuid :: string
  fc_temp :: string
  fc_names :: "nat \<Rightarrow> string"
  fc_now :: int

definition quarantine_for_retry :: "fast_lib \<Rightarrow> store \<Rightarrow> fast_call \<Rightarrow> path \<Rightarrow> string \<Rightarrow> quarantine_record fast_act" where
  "quarantine_for_retry L st C src sha =
     a_bind (fp_read FastStore (find_quarantine_by_sha (vl_os (fl_velo L)) st sha)) (\<lambda>hit.
     case hit of
       Some q \<Rightarrow> a_ret q
     | None \<Rightarrow> on_volume FastStore (ingest_to_quarantine (vl_os (fl_velo L)) st src (fc_uuid C) (fc_temp C) (fc_now C)))"

definition stored_evidence :: "fast_lib \<Rightarrow> fast_path \<Rightarrow> fast_call \<Rightarrow> path \<Rightarrow> string \<Rightarrow> evidence_manifest option fast_act" where
  "stored_evidence L P C src sha = (case fa_store P of
     None \<Rightarrow> a_ret None
   | Some st \<Rightarrow>
       a_bind (quarantine_for_retry L st C src sha) (\<lambda>q.
       a_bind (on_volume FastStore (promote_to_evidence (vl_os (fl_velo L)) st (fc_case C) (fc_evidence C) (q_id q) sha None (fc_now C))) (\<lambda>m.
       a_ret (Some m))))"

definition complete_job :: "fast_lib \<Rightarrow> (nat \<Rightarrow> int) \<Rightarrow> fast_path \<Rightarrow> fast_call \<Rightarrow> velo \<Rightarrow> path \<Rightarrow> string \<Rightarrow> int \<Rightarrow> int \<Rightarrow> or_job \<Rightarrow> dict fast_act" where
  "complete_job L clock P C V src sha n started job =
     a_bind (stored_evidence L P C src sha) (\<lambda>manifest.
     a_bind (fp_read FastVelo (inventory_velo (fl_velo L) V)) (\<lambda>es.
     a_bind (on_volume FastVelo (collect_velo (fl_velo L) V (candidate_paths es) (fc_names C))) (\<lambda>collected.
     a_bind (deadline clock P started) (\<lambda>_.
     a_bind (fp_read id (normalized_outputs L collected)) (\<lambda>outputs.
     a_bind (on_jobs FastRelik (jobs_write (add_outputs (or_id job) (fc_tenant C) (fc_case C) (JList outputs)))) (\<lambda>job1.
     a_bind (on_jobs FastRelik (jobs_write (update_job (or_id job1) (\<lambda>r. r\<lparr>or_attempts := or_attempts job1 + 1\<rparr>)))) (\<lambda>job2.
     let evidence = [(''evidence_id'', JStr (fc_evidence C)), (''sha256'', JStr sha), (''size'', JInt n), (''collection'', velo_coverage (vr_inventory collected))]
           @ (case manifest of None \<Rightarrow> [] | Some m \<Rightarrow> [(''case_id'', JStr (m_case m)), (''source_quarantine_id'', JStr (m_source_quarantine m))]) in
     a_bind (fast_audit P (submission_event ''submission_completed'' ''success'' (fc_tenant C) (fc_case C) (fc_evidence C))) (\<lambda>_.
     a_ret (fast_result job2 sha n (JList outputs) evidence)))))))))"

definition audited_failure :: "fast_path \<Rightarrow> fast_call \<Rightarrow> 'a fast_act \<Rightarrow> 'a fast_act" where
  "audited_failure P C m s = (case m s of
     (t, Inl e) \<Rightarrow> a_bind (fast_audit P (submission_event ''submission_incomplete'' ''failed'' (fc_tenant C) (fc_case C) (fc_evidence C))) (\<lambda>_. a_fail e) t
   | r \<Rightarrow> r)"

definition fast_caller :: "fast_path \<Rightarrow> fast_call \<Rightarrow> principal" where
  "fast_caller P C = (case fa_principal P of
     Some p \<Rightarrow> p
   | None \<Rightarrow> \<lparr>tenant_id = fc_tenant C, analyst_id = ''local-analyst'', is_synthetic = False, subject = None, roles = [], scopes = []\<rparr>)"

definition claim_job :: "fast_lib \<Rightarrow> fast_path \<Rightarrow> fast_call \<Rightarrow> string \<Rightarrow> or_job fast_act" where
  "claim_job L P C sha =
     (let key = build_idempotency_key (fl_relik L) (fc_tenant C) (fc_case C) (fc_evidence C) sha (fc_workflow C);
          request = job_request (fc_tenant C) (fc_case C) (fc_asset C) (fc_evidence C) sha (fc_workflow C) key in
      on_jobs (\<lambda>e. if caught_submit e then FastFrom e else FastRelik e) (submit (fl_relik L) (fast_caller P C) request (fc_answer C)))"

definition reusable :: "or_job \<Rightarrow> bool" where
  "reusable job = (or_status job = ''succeeded'' \<and> truthy (or_outputs job))"

definition submit_collection :: "fast_lib \<Rightarrow> (nat \<Rightarrow> int) \<Rightarrow> fast_path \<Rightarrow> fast_call \<Rightarrow> dict fast_act" where
  "submit_collection L clock P C =
     (let w = vl_os (fl_velo L) in
      a_bind (tick clock) (\<lambda>started.
      a_bind (fp_read FastRaise (\<lambda>f. Inr (realpath w f (fc_source C)))) (\<lambda>src.
      a_bind (fp_read FastPath (\<lambda>f. if \<not> is_file w f src \<or> lstat_link w f src
        then Inl ''source must be a regular non-symlink collection archive'' else Inr ())) (\<lambda>_.
      a_bind (fp_read FastRaise (file_size w src)) (\<lambda>n.
      a_bind (a_guard (n \<le> fa_max_upload P) (FastPath ''UPLOAD_LIMIT_EXCEEDED'')) (\<lambda>_.
      a_bind (timed_hash L clock P src) (\<lambda>sha.
      a_bind (a_guard (fc_expected C = None \<or> fc_expected C = Some sha) (FastPath ''CHECKSUM_MISMATCH'')) (\<lambda>_.
      a_bind (deadline clock P started) (\<lambda>_.
      a_bind (on_volume FastVelo (make_velo (fl_velo L) src (butlast src @ path_parts (''.analysis-'' @ fc_evidence C)) (fa_max_file P) (fa_max_total P))) (\<lambda>V.
      a_bind (fp_read FastVelo (validate_velo (fl_velo L) V)) (\<lambda>k.
      a_bind (a_guard (vk_status k = ''valid'') (FastPath ''COLLECTION_INVALID'')) (\<lambda>_.
      a_bind (a_guard (fa_store P = None \<or> (case fa_principal P of None \<Rightarrow> False | Some p \<Rightarrow> tenant_id p = fc_tenant C)) (FastPath ''TENANT_SCOPE_MISMATCH'')) (\<lambda>_.
      a_bind (claim_job L P C sha) (\<lambda>job.
      if \<not> reusable job then audited_failure P C (complete_job L clock P C V src sha n started job)
      else a_bind (fast_audit P (submission_event ''submission_reused'' ''success'' (fc_tenant C) (fc_case C) (fc_evidence C) @ [(''reused'', JBool True)])) (\<lambda>_.
           a_ret (fast_result job sha n (or_outputs job) []))))))))))))))))"

definition fast_approve :: "fast_path \<Rightarrow> string \<Rightarrow> string \<Rightarrow> or_job fast_act" where
  "fast_approve P jid case_id = (case fa_principal P of
     None \<Rightarrow> a_fail (FastRelik (PermissionErr ''authenticated principal required''))
   | Some p \<Rightarrow> on_jobs FastRelik (approve_job p jid case_id))"

definition export_timesketch :: "dict \<Rightarrow> (json \<Rightarrow> json) option \<Rightarrow> json" where
  "export_timesketch res exporter = (case exporter of
     None \<Rightarrow> JObj [(''status'', JStr ''not_configured''), (''exported'', JBool False)]
   | Some ex \<Rightarrow> ex (dget_or res ''timeline'' (JList [])))"

end
