(* ===== verification/Velo_Workflow_Correct.thy ===== *)
theory Velo_Workflow_Correct
  imports Velo_Workflow Openrelik_Correct
begin

text \<open>
  What the collection workflow promises: its audit trail tells how a claimed submission ended, and what it
  reports as the timeline is what the job store holds for a job that succeeded.
\<close>

section \<open>The audit trail\<close>

text \<open>\<open>tells A B m\<close>: from a trail \<open>a\<close>, an error leaves one of \<open>A\<close>, an answer one of \<open>B\<close>.\<close>

definition tells :: "dict list \<Rightarrow> dict list set \<Rightarrow> dict list set \<Rightarrow> 'a fast_act \<Rightarrow> bool" where
  "tells a A B m = (\<forall>s s' r. fp_audit s = a \<longrightarrow> m s = (s', r) \<longrightarrow> fp_audit s' \<in> (case r of Inl e \<Rightarrow> A | Inr x \<Rightarrow> B))"

definition quiet :: "'a fast_act \<Rightarrow> bool" where
  "quiet m = (\<forall>s. fp_audit (fst (m s)) = fp_audit s)"

named_theorems wb_quiet

lemma quiet_volume [wb_quiet]: "quiet (on_volume h m)"
  by (simp add: quiet_def on_volume_def split_beta)

lemma quiet_jobs [wb_quiet]: "quiet (on_jobs h m)"
  by (simp add: quiet_def on_jobs_def split_beta)

lemma quiet_read [wb_quiet]: "quiet (fp_read h g)"
  by (simp add: fp_read_def quiet_volume)

lemma quiet_basic [wb_quiet]: "quiet (tick clock)" "quiet (a_ret x)" "quiet (a_guard b e)"
  by (simp_all add: quiet_def tick_def a_ret_def a_guard_def)

lemma quiet_bind [wb_quiet]: "quiet m \<Longrightarrow> (\<And>x. quiet (k x)) \<Longrightarrow> quiet (a_bind m k)"
  by (auto simp: quiet_def a_bind_def split: prod.splits sum.splits) (metis fst_conv)+

lemma quiet_deadline [wb_quiet]: "quiet (deadline clock P t)"
  unfolding deadline_def by (intro wb_quiet)

lemma quiet_blocks [wb_quiet]: "quiet (blocks_in_time clock P t n)"
  by (induction n) (auto intro: wb_quiet)

lemma quiet_hash [wb_quiet]: "quiet (timed_hash L clock P p)"
  unfolding timed_hash_def by (intro wb_quiet)

lemma quiet_claim [wb_quiet]: "quiet (claim_job L P C sha)"
  by (simp add: claim_job_def Let_def quiet_jobs)

lemma quiet_stored [wb_quiet]: "quiet (stored_evidence L P C src sha)"
  unfolding stored_evidence_def quarantine_for_retry_def
  by (auto split: option.split intro!: wb_quiet)

lemma tellsD: "tells a A B m \<Longrightarrow> fp_audit s = a \<Longrightarrow> m s = (s', r) \<Longrightarrow> fp_audit s' \<in> (case r of Inl e \<Rightarrow> A | Inr x \<Rightarrow> B)"
  by (simp add: tells_def)

lemma tells_quiet:
  assumes "quiet m" "a \<in> A" "\<And>x. tells a A B (k x)" shows "tells a A B (a_bind m k)"
  unfolding tells_def
proof (intro allI impI)
  fix s s' r assume a: "fp_audit s = a" and run: "a_bind m k s = (s', r)"
  obtain s1 u where m: "m s = (s1, u)" by (cases "m s")
  with assms(1) a have s1: "fp_audit s1 = a" by (metis fst_conv quiet_def)
  show "fp_audit s' \<in> (case r of Inl e \<Rightarrow> A | Inr x \<Rightarrow> B)"
  proof (cases u)
    case (Inl e)
    with run m s1 assms(2) show ?thesis by (auto simp: a_bind_def)
  next
    case (Inr x)
    with run m have "k x s1 = (s', r)" by (simp add: a_bind_def)
    with tellsD [OF assms(3) s1] show ?thesis .
  qed
qed

lemma tells_audit:
  assumes "tells (a @ (if fa_audited P then [ev] else [])) A B (k ())" shows "tells a A B (a_bind (fast_audit P ev) k)"
  unfolding tells_def
proof (intro allI impI)
  fix s s' r assume a: "fp_audit s = a" and run: "a_bind (fast_audit P ev) k s = (s', r)"
  show "fp_audit s' \<in> (case r of Inl e \<Rightarrow> A | Inr x \<Rightarrow> B)"
    by (rule tellsD [OF assms, of "fst (fast_audit P ev s)"]) (use a run in \<open>simp_all add: a_bind_def fast_audit_def a_modify_def\<close>)
qed

lemma tells_ret: "a \<in> B \<Longrightarrow> tells a A B (a_ret x)"
  by (simp add: tells_def a_ret_def)

definition noted :: "fast_path \<Rightarrow> dict \<Rightarrow> dict list" where
  "noted P ev = (if fa_audited P then [ev] else [])"

definition event_of :: "fast_call \<Rightarrow> string \<Rightarrow> string \<Rightarrow> dict" where
  "event_of C action res = submission_event action res (fc_tenant C) (fc_case C) (fc_evidence C)"

lemma complete_job_ends:
  "tells a {a} {a @ noted P (event_of C ''submission_completed'' ''success'')} (complete_job L clock P C V src sha n started job)"
  unfolding complete_job_def Let_def noted_def event_of_def
  by (intro tells_quiet wb_quiet tells_audit tells_ret insertI1)

lemma audited_failure_ends:
  assumes "tells a {a} B m"
  shows "tells a {a @ noted P (event_of C ''submission_incomplete'' ''failed'')} B (audited_failure P C m)"
  unfolding tells_def
proof (intro allI impI)
  fix s s' r assume a: "fp_audit s = a" and run: "audited_failure P C m s = (s', r)"
  obtain s1 u where m: "m s = (s1, u)" by (cases "m s")
  from tellsD [OF assms a m] run m
  show "fp_audit s' \<in> (case r of Inl e \<Rightarrow> {a @ noted P (event_of C ''submission_incomplete'' ''failed'')} | Inr x \<Rightarrow> B)"
    by (cases u) (auto simp: audited_failure_def noted_def event_of_def a_bind_def fast_audit_def a_modify_def a_fail_def)
qed

lemma tells_mono: "tells a A B m \<Longrightarrow> A \<subseteq> A' \<Longrightarrow> B \<subseteq> B' \<Longrightarrow> tells a A' B' m"
  unfolding tells_def by (fastforce split: sum.splits)

text \<open>A submission leaves the trail alone when it fails before the job is claimed, and otherwise adds the one
  event that tells its outcome: a result is reported as completed or reused, never an error as a success.\<close>

theorem submission_outcome_is_audited:
  assumes "submit_collection L clock P C s = (s', r)"
  shows "case r of
      Inl e \<Rightarrow> fp_audit s' \<in> {fp_audit s, fp_audit s @ noted P (event_of C ''submission_incomplete'' ''failed'')}
    | Inr d \<Rightarrow> fp_audit s' \<in> {fp_audit s @ noted P (event_of C ''submission_completed'' ''success''),
        fp_audit s @ noted P (event_of C ''submission_reused'' ''success'' @ [(''reused'', JBool True)])}"
proof -
  let ?a = "fp_audit s" and ?fail = "fp_audit s @ noted P (event_of C ''submission_incomplete'' ''failed'')"
  let ?done = "fp_audit s @ noted P (event_of C ''submission_completed'' ''success'')"
  let ?again = "fp_audit s @ noted P (event_of C ''submission_reused'' ''success'' @ [(''reused'', JBool True)])"
  have fresh: "tells ?a {?a, ?fail} {?done, ?again} (audited_failure P C (complete_job L clock P C V src sha n started job))"
    for V src sha n started job
    by (rule tells_mono [OF audited_failure_ends [OF complete_job_ends]]) auto
  have again: "tells ?a {?a, ?fail} {?done, ?again} (a_bind (fast_audit P (submission_event ''submission_reused'' ''success''
      (fc_tenant C) (fc_case C) (fc_evidence C) @ [(''reused'', JBool True)])) (\<lambda>_. a_ret x))" for x :: dict
    by (intro tells_audit tells_ret) (simp add: noted_def event_of_def)
  have "tells ?a {?a, ?fail} {?done, ?again} (submit_collection L clock P C)"
    unfolding submit_collection_def Let_def by (intro tells_quiet wb_quiet insertI1) (use fresh again in simp)
  from tellsD [OF this refl assms] show ?thesis by (cases r) simp_all
qed

section \<open>The job a result describes\<close>

lemma get_row_member: "get_row j t = Inr r \<Longrightarrow> r \<in> set t \<and> or_id r = j"
  by (auto simp: get_row_def dest: select_one_SomeD split: option.splits)

lemma update_job_member: "update_job j f t = Inr (t', r) \<Longrightarrow> t' = update_rows (\<lambda>x. or_id x = j) f t \<and> r \<in> set t' \<and> or_id r = j"
  by (auto simp: update_job_def Let_def wb_result dest: get_row_member)

lemma submit_returns_a_row:
  assumes "submit k p request a s = (s', Inr r)" shows "r \<in> set (rs_jobs s')"
proof -
  from assms obtain tenant analyst where body: "submit_body k tenant analyst request a s = (s', Inr r)"
    by (auto simp: submit_def scope_def wb_act a_bind_def deny_def emit_def split: prod.splits sum.splits or_error.splits if_splits)
  then obtain c key t rec where chk: "submit_checks k tenant request = Inr (c, key)"
    and mk: "create_job request tenant c analyst key (rs_jobs s) = Inr (t, rec)"
    by (auto simp: submit_body_def split: sum.splits prod.splits)
  define s1 where "s1 = s\<lparr>rs_jobs := t, rs_audit := rs_audit s @ [(''openrelik.submit'', job_event (or_id rec) tenant c)]\<rparr>"
  have run: "(if has_workflow rec then a_ret rec else hand_over a rec) s1 = (s', Inr r)"
    using body chk mk by (simp add: submit_body_def s1_def)
  have member: "rec \<in> set t"
    using create_job_Inr [OF mk] by auto
  show ?thesis
  proof (cases "has_workflow rec")
    case True
    with run member show ?thesis by (auto simp: a_ret_def s1_def)
  next
    case False
    with run obtain w f where "(case update_job (or_id rec) f (rs_jobs s1) of Inl e \<Rightarrow> (s1, Inl e) | Inr (t, x) \<Rightarrow> (s1\<lparr>rs_jobs := t\<rparr>, Inr x)) = (s', Inr r)"
      by (auto simp: hand_over_def jobs_write_def split: sum.splits answer.splits if_splits)
    then show ?thesis by (auto dest: update_job_member split: sum.splits)
  qed
qed

definition shows_job :: "dict \<Rightarrow> fast_state \<Rightarrow> bool" where
  "shows_job d s = (\<exists>job\<in>set (rs_jobs (fp_jobs s)). or_status job = ''succeeded'' \<and> or_outputs job = dget d ''timeline'' \<and>
     dget d ''job'' = dget (fast_result job [] 0 (or_outputs job) []) ''job'')"

definition answers_with :: "'a fast_act \<Rightarrow> ('a \<Rightarrow> fast_state \<Rightarrow> bool) \<Rightarrow> bool" where
  "answers_with m Q = (\<forall>s s' x. m s = (s', Inr x) \<longrightarrow> Q x s')"

lemma answers_bind: "(\<And>x. answers_with (k x) Q) \<Longrightarrow> answers_with (a_bind m k) Q"
  unfolding answers_with_def a_bind_def by (auto split: prod.splits sum.splits)

lemma answers_bind_fact: "answers_with m R \<Longrightarrow> (\<And>x s s' y. R x s \<Longrightarrow> k x s = (s', Inr y) \<Longrightarrow> Q y s') \<Longrightarrow> answers_with (a_bind m k) Q"
  unfolding answers_with_def a_bind_def by (auto split: prod.splits sum.splits) blast

lemma complete_job_answers: "answers_with (complete_job L clock P C V src sha n started job) shows_job"
  unfolding complete_job_def
proof (rule answers_bind, rule answers_bind, rule answers_bind, rule answers_bind, rule answers_bind)
  fix manifest es collected outputs and u :: unit
  show "answers_with (a_bind (on_jobs FastRelik (jobs_write (add_outputs (or_id job) (fc_tenant C) (fc_case C) (JList outputs)))) (\<lambda>job1.
     a_bind (on_jobs FastRelik (jobs_write (update_job (or_id job1) (\<lambda>r. r\<lparr>or_attempts := or_attempts job1 + 1\<rparr>)))) (\<lambda>job2.
     let evidence = [(''evidence_id'', JStr (fc_evidence C)), (''sha256'', JStr sha), (''size'', JInt n), (''collection'', velo_coverage (vr_inventory collected))]
           @ (case manifest of None \<Rightarrow> [] | Some m \<Rightarrow> [(''case_id'', JStr (m_case m)), (''source_quarantine_id'', JStr (m_source_quarantine m))]) in
     a_bind (fast_audit P (submission_event ''submission_completed'' ''success'' (fc_tenant C) (fc_case C) (fc_evidence C))) (\<lambda>_.
     a_ret (fast_result job2 sha n (JList outputs) evidence))))) shows_job" (is "answers_with (a_bind ?add ?rest) _")
  proof (rule answers_bind_fact [where R = "\<lambda>job1 s. or_id job1 = or_id job \<and> (\<forall>x\<in>set (rs_jobs (fp_jobs s)). or_id x = or_id job \<longrightarrow>
      or_status x = ''succeeded'' \<and> or_outputs x = JList outputs)"])
    show "answers_with ?add (\<lambda>job1 s. or_id job1 = or_id job \<and> (\<forall>x\<in>set (rs_jobs (fp_jobs s)). or_id x = or_id job \<longrightarrow>
        or_status x = ''succeeded'' \<and> or_outputs x = JList outputs))"
      unfolding answers_with_def on_jobs_def jobs_write_def add_outputs_def
      by (auto simp: wb_result set_update_rows dest!: update_job_member split: sum.splits prod.splits)
  next
    fix job1 s s' d
    assume R: "or_id job1 = or_id job \<and> (\<forall>x\<in>set (rs_jobs (fp_jobs s)). or_id x = or_id job \<longrightarrow> or_status x = ''succeeded'' \<and> or_outputs x = JList outputs)"
      and run: "?rest job1 s = (s', Inr d)"
    then obtain t r ev where up: "update_job (or_id job1) (\<lambda>r. r\<lparr>or_attempts := or_attempts job1 + 1\<rparr>) (rs_jobs (fp_jobs s)) = Inr (t, r)"
      and s': "rs_jobs (fp_jobs s') = t" "d = fast_result r sha n (JList outputs) ev"
      by (auto simp: a_bind_def on_jobs_def jobs_write_def fast_audit_def a_modify_def a_ret_def Let_def split: sum.splits prod.splits)
    from update_job_member [OF up] R have "r \<in> set t" "or_status r = ''succeeded''" "or_outputs r = JList outputs"
      by (auto simp: set_update_rows)
    with s' show "shows_job d s'" by (auto simp: shows_job_def fast_result_def dget_def intro!: bexI [of _ r])
  qed
qed

text \<open>What a submission reports, freshly collected or reused, is a job of the store that succeeded, with its own
  identifiers, and the timeline it holds.\<close>

theorem reported_timeline_is_the_stored_one:
  assumes "submit_collection L clock P C s = (s', Inr d)" shows "shows_job d s'"
proof -
  have "answers_with (submit_collection L clock P C) shows_job"
    unfolding submit_collection_def Let_def
  proof (rule answers_bind, rule answers_bind, rule answers_bind, rule answers_bind, rule answers_bind, rule answers_bind,
      rule answers_bind, rule answers_bind, rule answers_bind, rule answers_bind, rule answers_bind, rule answers_bind)
    fix started src u n u1 sha u2 u3 V k u4 u5
    show "answers_with (a_bind (claim_job L P C sha) (\<lambda>job.
      if \<not> reusable job then audited_failure P C (complete_job L clock P C V src sha n started job)
      else a_bind (fast_audit P (submission_event ''submission_reused'' ''success'' (fc_tenant C) (fc_case C) (fc_evidence C) @ [(''reused'', JBool True)])) (\<lambda>_.
           a_ret (fast_result job sha n (or_outputs job) [])))) shows_job"
    proof (rule answers_bind_fact [where R = "\<lambda>job s. job \<in> set (rs_jobs (fp_jobs s))"])
      show "answers_with (claim_job L P C sha) (\<lambda>job s. job \<in> set (rs_jobs (fp_jobs s)))"
        unfolding answers_with_def claim_job_def Let_def on_jobs_def
        by (auto dest: submit_returns_a_row split: prod.splits sum.splits)
    next
      fix job s s' d
      assume job: "job \<in> set (rs_jobs (fp_jobs s))"
        and run: "(if \<not> reusable job then audited_failure P C (complete_job L clock P C V src sha n started job)
          else a_bind (fast_audit P (submission_event ''submission_reused'' ''success'' (fc_tenant C) (fc_case C) (fc_evidence C) @ [(''reused'', JBool True)])) (\<lambda>_.
           a_ret (fast_result job sha n (or_outputs job) []))) s = (s', Inr d)"
      show "shows_job d s'"
      proof (cases "reusable job")
        case True
        with run have "d = fast_result job sha n (or_outputs job) []" "fp_jobs s' = fp_jobs s"
          by (auto simp: a_bind_def fast_audit_def a_modify_def a_ret_def)
        with job True show ?thesis
          by (auto simp: shows_job_def reusable_def fast_result_def dget_def intro!: bexI [of _ job])
      next
        case False
        with run have "complete_job L clock P C V src sha n started job s = (s', Inr d)"
          by (auto simp: audited_failure_def a_bind_def fast_audit_def a_modify_def a_fail_def split: prod.splits sum.splits)
        with complete_job_answers show ?thesis unfolding answers_with_def by blast
      qed
    qed
  qed
  with assms show ?thesis by (auto simp: answers_with_def)
qed

end
