(* ===== verification/Corpus_Verify.thy ===== *)
theory Corpus_Verify
  imports Uac_Adapter
begin

text \<open>
  \<^verbatim>\<open>corpus/verify.py\<close>: a corpus release is a directory with a manifest of JSON lines, the digest of the
  manifest, and the members the manifest names.  Decoding text (with universal newlines), the JSON
  reader and the comparison of a float with an integer are parameters.
\<close>

record corpus_lib =
  cl_os :: os
  cl_text :: "string \<Rightarrow> string option"
  cl_loads :: "string \<Rightarrow> json option"
  cl_float_is :: "string \<Rightarrow> int \<Rightarrow> bool"

datatype corpus_error = Manifest string | CorpusRaise sys_error

definition corp :: "sys_error + 'a \<Rightarrow> corpus_error + 'a" where
  "corp r = (case r of Inl e \<Rightarrow> Inl (CorpusRaise e) | Inr x \<Rightarrow> Inr x)"

definition file_digest :: "corpus_lib \<Rightarrow> fs \<Rightarrow> path \<Rightarrow> corpus_error + string" where
  "file_digest L f p = corp (r_bind (read_file (cl_os L) p f) (\<lambda>c. Inr (sha_bytes (cl_os L) c)))"

definition read_text :: "corpus_lib \<Rightarrow> fs \<Rightarrow> path \<Rightarrow> corpus_error + string" where
  "read_text L f p = corp (r_bind (read_file (cl_os L) p f) (\<lambda>c.
     case cl_text L c of None \<Rightarrow> Inl (PyErr ''UnicodeDecodeError'') | Some t \<Rightarrow> Inr t))"

section \<open>Rows\<close>

text \<open>\<^verbatim>\<open>os.path.abspath(root / relative)\<close> below a resolved root.\<close>

definition confined :: "path \<Rightarrow> string \<Rightarrow> corpus_error + path" where
  "confined root rel =
     (let p = foldl (norm_step True) root (path_parts rel) in
      if is_absolute rel \<or> \<not> prefix root p then Inl (Manifest (''path escapes release: '' @ rel)) else Inr p)"

definition same_number :: "corpus_lib \<Rightarrow> int \<Rightarrow> json \<Rightarrow> bool" where
  "same_number L n v = (case v of JInt i \<Rightarrow> i = n | JBool b \<Rightarrow> n = (if b then 1 else 0) | JFloat r \<Rightarrow> cl_float_is L r n | _ \<Rightarrow> False)"

definition prohibited :: "string list" where
  "prohibited = [''password='', ''api_key'', ''bearer '', ''client evidence'']"

definition expected_name :: "dict \<Rightarrow> corpus_error + string" where
  "expected_name d = (case dget_or d ''expected_answer'' (JStr []) of JStr s \<Rightarrow> Inr s | _ \<Rightarrow> Inl (CorpusRaise (PyErr ''TypeError'')))"

definition row_object :: "json \<Rightarrow> corpus_error + dict" where
  "row_object row = (case row of JObj d \<Rightarrow> Inr d | _ \<Rightarrow> Inl (CorpusRaise (PyErr ''AttributeError'')))"

definition row_names :: "dict \<Rightarrow> corpus_error + (string \<times> string)" where
  "row_names d = (case (dget d ''fixture_id'', dget d ''relative_path'') of
     (JStr i, JStr r) \<Rightarrow> Inr (i, r) | _ \<Rightarrow> Inl (Manifest ''fixture_id and relative_path are required''))"

definition verify_member :: "corpus_lib \<Rightarrow> path \<Rightarrow> fs \<Rightarrow> dict \<Rightarrow> string \<Rightarrow> corpus_error + unit" where
  "verify_member L root f d rel =
     (let w = cl_os L in
      r_bind (confined root rel) (\<lambda>src.
      r_bind (expected_name d) (\<lambda>en.
      r_bind (confined root en) (\<lambda>expected.
      r_bind (r_guard (\<not> lstat_link w f src \<and> \<not> lstat_link w f expected) (Manifest (''symlink is not allowed: '' @ rel))) (\<lambda>_.
      r_bind (r_guard (is_file w f src \<and> is_file w f expected) (Manifest (''missing release member: '' @ rel))) (\<lambda>_.
      r_bind (corp (file_size w src f)) (\<lambda>n.
      r_bind (r_guard (same_number L n (dget d ''size_bytes'')) (Manifest (''size mismatch: '' @ rel))) (\<lambda>_.
      r_bind (file_digest L f src) (\<lambda>h.
      r_bind (r_guard (dget d ''sha256'' = JStr h) (Manifest (''sha256 mismatch: '' @ rel))) (\<lambda>_.
      r_bind (read_text L f expected) (\<lambda>t.
      r_guard (\<not> list_ex (\<lambda>k. contains k (lower t)) prohibited) (Manifest (''prohibited content: '' @ path_str expected)))))))))))))"

fun verify_rows :: "corpus_lib \<Rightarrow> path \<Rightarrow> fs \<Rightarrow> string list \<Rightarrow> string list \<Rightarrow> json list \<Rightarrow> corpus_error + unit" where
  "verify_rows L root f ids paths [] = Inr ()"
| "verify_rows L root f ids paths (row # rows) =
     r_bind (row_object row) (\<lambda>d.
     r_bind (row_names d) (\<lambda>(i, rel).
     r_bind (r_guard (i \<notin> set ids) (Manifest (''duplicate fixture_id: '' @ i))) (\<lambda>_.
     r_bind (r_guard (rel \<notin> set paths) (Manifest (''duplicate relative_path: '' @ rel))) (\<lambda>_.
     r_bind (verify_member L root f d rel) (\<lambda>_.
     verify_rows L root f (i # ids) (rel # paths) rows)))))"

section \<open>Releases\<close>

definition release_manifest :: "path \<Rightarrow> path" where "release_manifest root = root @ [''manifest.jsonl'']"

definition load_line :: "corpus_lib \<Rightarrow> string \<Rightarrow> corpus_error + json" where
  "load_line L l = (case cl_loads L l of None \<Rightarrow> Inl (CorpusRaise (PyErr ''JSONDecodeError'')) | Some v \<Rightarrow> Inr v)"

definition manifest_rows :: "corpus_lib \<Rightarrow> path \<Rightarrow> fs \<Rightarrow> corpus_error + json list" where
  "manifest_rows L root f =
     r_bind (r_guard (is_file (cl_os L) f (release_manifest root)) (Manifest ''manifest.jsonl is missing'')) (\<lambda>_.
     r_bind (read_text L f (release_manifest root)) (\<lambda>t. r_map (load_line L) (filter (\<lambda>l. l \<noteq> []) (text_lines t))))"

text \<open>\<^verbatim>\<open>split()[0]\<close>: the first word, which an empty file does not have.\<close>

definition first_word :: "string \<Rightarrow> string" where
  "first_word t = takeWhile (\<lambda>c. \<not> is_ws c) (dropWhile is_ws t)"

definition recorded_digest :: "corpus_lib \<Rightarrow> path \<Rightarrow> fs \<Rightarrow> corpus_error + string" where
  "recorded_digest L root f = r_bind (read_text L f (root @ [''manifest.sha256''])) (\<lambda>t.
     if first_word t = [] then Inl (CorpusRaise (PyErr ''IndexError'')) else Inr (first_word t))"

definition checked_manifest :: "corpus_lib \<Rightarrow> path \<Rightarrow> fs \<Rightarrow> corpus_error + (json list \<times> string)" where
  "checked_manifest L root f =
     r_bind (manifest_rows L root f) (\<lambda>rows.
     r_bind (recorded_digest L root f) (\<lambda>h.
     r_bind (file_digest L f (release_manifest root)) (\<lambda>d.
     r_bind (r_guard (d = h) (Manifest ''manifest hash mismatch'')) (\<lambda>_. Inr (rows, h)))))"

definition verify_release :: "corpus_lib \<Rightarrow> path \<Rightarrow> fs \<Rightarrow> corpus_error + dict" where
  "verify_release L dir f =
     (let root = realpath (cl_os L) f dir in
      r_bind (checked_manifest L root f) (\<lambda>(rows, h).
      r_bind (verify_rows L root f [] [] rows) (\<lambda>_.
      Inr [(''status'', JStr ''verified''), (''release_root'', JStr (path_str root)), (''fixture_count'', JInt (int (length rows))),
           (''manifest_sha256'', JStr h)])))"

definition fixture_rows :: "string \<Rightarrow> json list \<Rightarrow> corpus_error + json list" where
  "fixture_rows k rows = r_bind (r_map row_object rows) (\<lambda>ds.
     let selected = filter (\<lambda>d. dget d ''fixture_id'' = JStr k) ds in
     if selected = [] then Inl (Manifest (''unknown fixture: '' @ k)) else Inr (map JObj selected))"

definition load_and_verify_manifest :: "corpus_lib \<Rightarrow> string \<Rightarrow> path \<Rightarrow> fs \<Rightarrow> corpus_error + json list" where
  "load_and_verify_manifest L k dir f =
     (let root = realpath (cl_os L) f dir in
      r_bind (checked_manifest L root f) (\<lambda>(rows, h).
      r_bind (fixture_rows k rows) (\<lambda>selected.
      r_bind (verify_rows L root f [] [] rows) (\<lambda>_. Inr selected))))"

end
