(* ===== verification/Corpus_Correct.thy ===== *)
theory Corpus_Correct
  imports Corpus_Verify Extraction_Correct
begin

text \<open>
  What a verified corpus release is: every member lies below the release, is a plain file with the
  size and digest its row declares, and the digest of the manifest determines all of them.
\<close>

lemma corp_Inr: "corp r = Inr x \<longleftrightarrow> r = Inr x"
  by (cases r) (auto simp: corp_def)

definition member_ok :: "corpus_lib \<Rightarrow> path \<Rightarrow> fs \<Rightarrow> dict \<Rightarrow> bool" where
  "member_ok L root f d = (\<exists>rel src c. dget d ''relative_path'' = JStr rel \<and> confined root rel = Inr src \<and> prefix root src \<and>
     \<not> lstat_link (cl_os L) f src \<and> read_file (cl_os L) src f = Inr c \<and>
     same_number L (int (length c)) (dget d ''size_bytes'') \<and> dget d ''sha256'' = JStr (sha_bytes (cl_os L) c))"

lemma confined_below: "confined root rel = Inr p \<Longrightarrow> prefix root p"
  by (auto simp: confined_def Let_def split: if_splits)

lemma verify_member_ok:
  assumes "verify_member L root f d rel = Inr u" "dget d ''relative_path'' = JStr rel" shows "member_ok L root f d"
proof -
  from assms(1) obtain src n h where m: "confined root rel = Inr src" "\<not> lstat_link (cl_os L) f src"
      "file_size (cl_os L) src f = Inr n" "same_number L n (dget d ''size_bytes'')"
      "file_digest L f src = Inr h" "dget d ''sha256'' = JStr h"
    by (auto simp: verify_member_def Let_def wb_result corp_Inr)
  then obtain c where c: "read_file (cl_os L) src f = Inr c" "h = sha_bytes (cl_os L) c"
    by (auto simp: file_digest_def corp_Inr wb_result)
  then have "n = int (length c)"
    using m(3) by (auto simp: read_file_def file_size_def split: option.splits node.splits if_splits)
  with assms(2) m c confined_below [OF m(1)] show ?thesis by (auto simp: member_ok_def)
qed

lemma verify_rows_members:
  "verify_rows L root f ids paths rows = Inr u \<Longrightarrow> row \<in> set rows \<Longrightarrow> \<exists>d. row = JObj d \<and> member_ok L root f d"
proof (induction rows arbitrary: ids paths)
  case (Cons r rows)
  from Cons.prems(1) obtain d i rel where d: "row_object r = Inr d" "row_names d = Inr (i, rel)"
      "verify_member L root f d rel = Inr ()" "verify_rows L root f (i # ids) (rel # paths) rows = Inr u"
    by (auto simp: wb_result)
  from d(1) have "r = JObj d" by (cases r) (auto simp: row_object_def)
  moreover from d(2) have "dget d ''relative_path'' = JStr rel"
    by (auto simp: row_names_def split: json.splits prod.splits)
  ultimately show ?case using Cons.IH [OF d(4)] Cons.prems(2) verify_member_ok [OF d(3)] by auto
qed simp

lemma verify_rows_distinct:
  "verify_rows L root f ids paths rows = Inr u \<Longrightarrow> distinct ids \<Longrightarrow>
   distinct (rev ids @ map (\<lambda>r. case r of JObj d \<Rightarrow> (case dget d ''fixture_id'' of JStr i \<Rightarrow> i | _ \<Rightarrow> []) | _ \<Rightarrow> []) rows)"
proof (induction rows arbitrary: ids paths)
  case (Cons r rows)
  from Cons.prems(1) obtain d i rel where d: "row_object r = Inr d" "row_names d = Inr (i, rel)" "i \<notin> set ids"
      "verify_rows L root f (i # ids) (rel # paths) rows = Inr u"
    by (auto simp: wb_result)
  from d(1) have r: "r = JObj d" by (cases r) (auto simp: row_object_def)
  moreover from d(2) have "dget d ''fixture_id'' = JStr i"
    by (auto simp: row_names_def split: json.splits prod.splits)
  ultimately show ?case using Cons.IH [OF d(4)] Cons.prems(2) d(3) by simp
qed simp

lemma verify_release_Inr:
  assumes "verify_release L dir f = Inr res"
  obtains rows h c where "manifest_rows L (realpath (cl_os L) f dir) f = Inr rows"
    "read_file (cl_os L) (release_manifest (realpath (cl_os L) f dir)) f = Inr c" "h = sha_bytes (cl_os L) c"
    "verify_rows L (realpath (cl_os L) f dir) f [] [] rows = Inr ()" "dget res ''manifest_sha256'' = JStr h"
proof -
  from assms obtain rows h where "checked_manifest L (realpath (cl_os L) f dir) f = Inr (rows, h)"
      "verify_rows L (realpath (cl_os L) f dir) f [] [] rows = Inr ()" "dget res ''manifest_sha256'' = JStr h"
    by (auto simp: verify_release_def Let_def wb_result dget_def)
  moreover from this obtain c where "manifest_rows L (realpath (cl_os L) f dir) f = Inr rows"
      "read_file (cl_os L) (release_manifest (realpath (cl_os L) f dir)) f = Inr c" "h = sha_bytes (cl_os L) c"
    by (auto simp: checked_manifest_def file_digest_def wb_result corp_Inr)
  ultimately show thesis by (intro that [of rows c h])
qed

lemma manifest_rows_cong:
  assumes "read_file (cl_os L) (release_manifest root) f = Inr c" "read_file (cl_os L) (release_manifest root) f' = Inr c"
  shows "manifest_rows L root f = manifest_rows L root f'"
proof -
  have "is_file (cl_os L) g p" if "read_file (cl_os L) p g = Inr c" for g p
    using that by (auto simp: read_file_def is_file_def split: option.splits node.splits)
  with assms show ?thesis by (simp add: manifest_rows_def read_text_def)
qed

text \<open>C37: A verified corpus release is fixed by the digest of its manifest.  On two volumes on which the
  verification succeeds with the same digest the manifests are the same, or they are two different
  texts with one digest.  When they are the same, every row names, on both volumes, a member below the
  release that is not a link, whose bytes have the digest and the size the row declares, so that the
  two contents are equal or have one digest.\<close>

definition manifests_collide :: "corpus_lib \<Rightarrow> path \<Rightarrow> fs \<Rightarrow> fs \<Rightarrow> bool" where
  "manifests_collide L root f f' = (case (read_file (cl_os L) (release_manifest root) f, read_file (cl_os L) (release_manifest root) f') of
     (Inr c, Inr c') \<Rightarrow> c \<noteq> c' \<and> sha_bytes (cl_os L) c = sha_bytes (cl_os L) c' | _ \<Rightarrow> False)"

theorem verified_release_is_fixed_by_its_digest:
  assumes "verify_release L dir f = Inr res" "verify_release L dir f' = Inr res'"
    and "realpath (cl_os L) f dir = root" "realpath (cl_os L) f' dir = root"
    and "dget res ''manifest_sha256'' = dget res' ''manifest_sha256''"
  shows "manifests_collide L root f f' \<or>
    (\<exists>rows. manifest_rows L root f = Inr rows \<and> manifest_rows L root f' = Inr rows \<and>
    (\<forall>row\<in>set rows. \<exists>d rel src c c'. row = JObj d \<and> dget d ''relative_path'' = JStr rel \<and> confined root rel = Inr src \<and> prefix root src \<and>
       read_file (cl_os L) src f = Inr c \<and> read_file (cl_os L) src f' = Inr c' \<and>
       \<not> lstat_link (cl_os L) f src \<and> \<not> lstat_link (cl_os L) f' src \<and>
       dget d ''sha256'' = JStr (sha_bytes (cl_os L) c) \<and> sha_bytes (cl_os L) c' = sha_bytes (cl_os L) c \<and>
       same_number L (int (length c)) (dget d ''size_bytes'') \<and> same_number L (int (length c')) (dget d ''size_bytes'')))"
proof -
  from verify_release_Inr [OF assms(1)] assms(3) obtain rows c where a: "manifest_rows L root f = Inr rows"
      "read_file (cl_os L) (release_manifest root) f = Inr c" "verify_rows L root f [] [] rows = Inr ()"
      "dget res ''manifest_sha256'' = JStr (sha_bytes (cl_os L) c)" by metis
  from verify_release_Inr [OF assms(2)] assms(4) obtain rows' c' where b: "manifest_rows L root f' = Inr rows'"
      "read_file (cl_os L) (release_manifest root) f' = Inr c'" "verify_rows L root f' [] [] rows' = Inr ()"
      "dget res' ''manifest_sha256'' = JStr (sha_bytes (cl_os L) c')" by metis
  show ?thesis
  proof (cases "c' = c")
    case False
    with a(2,4) b(2,4) assms(5) show ?thesis by (simp add: manifests_collide_def)
  next
    case True
    with b(2) have "read_file (cl_os L) (release_manifest root) f' = Inr c" by simp
    from manifest_rows_cong [OF a(2) this] a(1) b(1) have rows: "rows' = rows" by simp
    have "\<exists>d rel src c c'. row = JObj d \<and> dget d ''relative_path'' = JStr rel \<and> confined root rel = Inr src \<and> prefix root src \<and>
       read_file (cl_os L) src f = Inr c \<and> read_file (cl_os L) src f' = Inr c' \<and>
       \<not> lstat_link (cl_os L) f src \<and> \<not> lstat_link (cl_os L) f' src \<and>
       dget d ''sha256'' = JStr (sha_bytes (cl_os L) c) \<and> sha_bytes (cl_os L) c' = sha_bytes (cl_os L) c \<and>
       same_number L (int (length c)) (dget d ''size_bytes'') \<and> same_number L (int (length c')) (dget d ''size_bytes'')"
      if "row \<in> set rows" for row
    proof -
      from verify_rows_members [OF a(3) that] obtain d where d: "row = JObj d" "member_ok L root f d" by blast
      with verify_rows_members [OF b(3)] that rows have d': "member_ok L root f' d" by blast
      from d(2) obtain rel src x where x: "dget d ''relative_path'' = JStr rel" "confined root rel = Inr src" "prefix root src"
          "\<not> lstat_link (cl_os L) f src" "read_file (cl_os L) src f = Inr x"
          "same_number L (int (length x)) (dget d ''size_bytes'')" "dget d ''sha256'' = JStr (sha_bytes (cl_os L) x)"
        unfolding member_ok_def by blast
      from d' x(1,2) obtain y where y: "\<not> lstat_link (cl_os L) f' src" "read_file (cl_os L) src f' = Inr y"
          "same_number L (int (length y)) (dget d ''size_bytes'')" "dget d ''sha256'' = JStr (sha_bytes (cl_os L) y)"
        unfolding member_ok_def by auto
      have "sha_bytes (cl_os L) y = sha_bytes (cl_os L) x" using x(7) y(4) by simp
      with d(1) x y(1-3) show ?thesis by blast
    qed
    with a(1) b(1) rows show ?thesis by blast
  qed
qed

definition demo_row :: dict where
  "demo_row = [(''fixture_id'', JStr ''f1''), (''relative_path'', JStr ''a''), (''expected_answer'', JStr ''b''),
     (''size_bytes'', JInt 3), (''sha256'', JStr ''xyz'')]"

definition demo_corpus_lib :: corpus_lib where
  "demo_corpus_lib = \<lparr>cl_os = demo_disk_os, cl_text = Some, cl_loads = (\<lambda>s. if s = ''row'' then Some (JObj demo_row) else None),
     cl_float_is = (\<lambda>r n. False)\<rparr>"

definition demo_release :: fs where
  "demo_release = [([], Dir 493), ([''r''], Dir 493), ([''r'', ''manifest.jsonl''], File ''row'' 420), ([''r'', ''manifest.sha256''], File ''row'' 420),
     ([''r'', ''a''], File ''xyz'' 420), ([''r'', ''b''], File ''none'' 420)]"

theorem verified_release_is_fixed_by_its_digest_witness:
  "read_file demo_disk_os [''r'', ''a''] demo_release = read_file demo_disk_os [''r'', ''a''] (([''x''], File ''other'' 420) # demo_release)"
proof -
  have ok: "case verify_release demo_corpus_lib [''r''] demo_release of Inl e \<Rightarrow> False | Inr res \<Rightarrow> dget res ''manifest_sha256'' = JStr ''row''"
      "case verify_release demo_corpus_lib [''r''] (([''x''], File ''other'' 420) # demo_release) of Inl e \<Rightarrow> False | Inr res \<Rightarrow> dget res ''manifest_sha256'' = JStr ''row''"
    by code_simp+
  then obtain res res' where res: "verify_release demo_corpus_lib [''r''] demo_release = Inr res"
      "verify_release demo_corpus_lib [''r''] (([''x''], File ''other'' 420) # demo_release) = Inr res'"
      "dget res ''manifest_sha256'' = dget res' ''manifest_sha256''" by (auto split: sum.splits)
  have lib: "cl_os demo_corpus_lib = demo_disk_os" by (simp add: demo_corpus_lib_def)
  have root: "realpath (cl_os demo_corpus_lib) g [''r''] = [''r'']" for g by (simp add: lib demo_disk_os_def)
  have apart: "\<not> manifests_collide demo_corpus_lib root g h" for root g h
    by (simp add: manifests_collide_def lib demo_disk_os_def split: sum.split)
  have rows: "manifest_rows demo_corpus_lib [''r''] demo_release = Inr [JObj demo_row]" by code_simp
  have src: "confined [''r''] ''a'' = Inr [''r'', ''a'']" "dget demo_row ''relative_path'' = JStr ''a''" by code_simp+
  from verified_release_is_fixed_by_its_digest [OF res(1,2) root root res(3)] apart rows src lib
  show ?thesis by (auto simp: demo_disk_os_def)
qed

end
