(* ===== verification/Disk_Workflow.thy ===== *)
theory Disk_Workflow
  imports Staging Disk_Adapter
begin

text \<open>
  \<^verbatim>\<open>disk_workflow.py\<close>: the staging harness runs the disk adapter on the staged copy, the record keeps the
  identifier of the acquisition, an extraction is folded into it, and it is written below the
  analysis root.  An \<^verbatim>\<open>AdapterError\<close> of the adapter is the exception the processor raises.
\<close>

record workflow_lib =
  wl_stage :: stage_lib
  wl_disk :: disk_lib

datatype workflow_error = StageFails stage_error | DiskFails disk_error

definition default_file_limit :: int where "default_file_limit = 4 * 1024 * 1024 * 1024"
definition default_total_limit :: int where "default_total_limit = 8 * 1024 * 1024 * 1024"

definition raised_disk :: "disk_error \<Rightarrow> sys_error" where
  "raised_disk e = (case e of Adapter c m \<Rightarrow> CodeError c m | DiskRaise x \<Rightarrow> x)"

definition image_adapter :: "workflow_lib \<Rightarrow> path \<Rightarrow> path \<Rightarrow> fs \<Rightarrow> disk_error + disk_adapter" where
  "image_adapter W p root f = make_adapter (wl_disk W) p root None default_file_limit default_total_limit f"

definition image_processor :: "workflow_lib \<Rightarrow> path \<Rightarrow> processor" where
  "image_processor W root staged f =
     (f, case r_bind (image_adapter W staged root f) (\<lambda>A. normalized_record (wl_disk W) A ''disk_image'' f) of
           Inl e \<Rightarrow> Inl (raised_disk e) | Inr d \<Rightarrow> Inr (JObj d))"

fun obj_of :: "json \<Rightarrow> dict" where
  "obj_of (JObj d) = d"
| "obj_of v = []"

definition with_extraction :: "dict \<Rightarrow> path \<times> extract_state \<Rightarrow> dict" where
  "with_extraction d x =
     (let s = snd x; safe = obj_of (dget d ''safe_extraction'') in
      AList.update ''safe_extraction'' (JObj
        (AList.update ''errors'' (dget (extract_json x) ''errors'')
        (AList.update ''status'' (JStr (extract_status s))
        (AList.update ''rejected_count'' (JInt (int (length (ex_errors s))))
        (AList.update ''extracted_count'' (JInt (int (length (ex_done s)))) safe))))) d)"

definition extraction_step :: "workflow_lib \<Rightarrow> path \<Rightarrow> path \<Rightarrow> (nat \<Rightarrow> string) \<Rightarrow> fs \<Rightarrow> fs \<times> (workflow_error + path \<times> extract_state)" where
  "extraction_step W staged root names f =
     (case image_adapter W staged root f of
        Inl e \<Rightarrow> (f, Inl (DiskFails e))
      | Inr A \<Rightarrow>
          (case extract_source (wl_disk W) A [path_name staged] (Some (root @ [''extracted''])) names f of
             (f1, Inl e) \<Rightarrow> (f1, Inl (DiskFails e))
           | (f1, Inr x) \<Rightarrow> (f1, Inr x)))"

definition write_record :: "workflow_lib \<Rightarrow> path \<Rightarrow> dict \<Rightarrow> fs \<Rightarrow> fs \<times> (workflow_error + unit)" where
  "write_record W root d f =
     (case write_file (sl_os (wl_stage W)) (root @ [''normalized-evidence.json'']) (sl_pretty (wl_stage W) (JObj d) @ [CHR 0x0A]) f of
        Inl e \<Rightarrow> (f, Inl (StageFails (OsFail e)))
      | Inr f1 \<Rightarrow> (f1, Inr ()))"

record workflow_result =
  wr_root :: path
  wr_unchanged :: json
  wr_record :: dict
  wr_extraction :: "(path \<times> extract_state) option"

definition image_stager :: "path \<Rightarrow> path \<Rightarrow> stager" where
  "image_stager src root = \<lparr>sr_source = src, sr_root = root, sr_limits = standard_limits\<rparr>"

definition start_state :: "fs \<Rightarrow> stager_state" where
  "start_state f = \<lparr>sg_fs = f, sg_manifest = None, sg_events = []\<rparr>"

definition run_disk_fixture :: "workflow_lib \<Rightarrow> path \<Rightarrow> path \<Rightarrow> bool \<Rightarrow> (nat \<Rightarrow> string) \<Rightarrow> (nat \<Rightarrow> string) \<Rightarrow> fs \<Rightarrow> fs \<times> (workflow_error + workflow_result)" where
  "run_disk_fixture W source root_arg extract_it clock names f =
     (let w = sl_os (wl_stage W); src = realpath w f source; root = realpath w f root_arg in
      case run_stager (wl_stage W) (image_stager src root) (Some (image_processor W root)) True clock (start_state f) of
        (s, Inl e) \<Rightarrow> (sg_fs s, Inl (StageFails e))
      | (s, Inr run) \<Rightarrow>
          (let d = AList.update ''original_uri'' (JStr (as_uri src)) (obj_of (dget run ''result''));
               unchanged = dget (obj_of (dget (obj_of (dget run ''manifest'')) ''verification'')) ''source_unchanged'';
               staged = staged_path (image_stager src root) in
           case (if extract_it
                 then (case extraction_step W staged root names (sg_fs s) of
                         (f1, Inl e) \<Rightarrow> (f1, Inl e) | (f1, Inr x) \<Rightarrow> (f1, Inr (Some x)))
                 else (sg_fs s, Inr None)) of
             (f1, Inl e) \<Rightarrow> (f1, Inl e)
           | (f1, Inr x) \<Rightarrow>
               (let d1 = (case x of None \<Rightarrow> d | Some y \<Rightarrow> with_extraction d y) in
                case write_record W root d1 f1 of
                  (f2, Inl e) \<Rightarrow> (f2, Inl e)
                | (f2, Inr u) \<Rightarrow> (f2, Inr \<lparr>wr_root = root, wr_unchanged = unchanged, wr_record = d1, wr_extraction = x\<rparr>))))"

end
