(* ===== verification/Workflow_Correct.thy ===== *)
theory Workflow_Correct
  imports Disk_Workflow Staging_Correct Extraction_Correct
begin

text \<open>
  Staging and the disk adapter together: the record of a run describes the bytes of the acquisition,
  which the run leaves as they were.
\<close>

section \<open>A run whose processor only reads\<close>

lemma reading_run_Inr:
  assumes "run_stager L S (Some g) copied clock s = (s', Inr out)" "\<And>p f. fst (g p f) = f"
  obtains s1 staged r s2 snap m where "stage L S copied clock s = (s1, Inr staged)" "snd (g staged (sg_fs s1)) = Inr r"
    "dget out ''result'' = r" "write_records L S s2 = (s', Inr ())" "sg_fs s2 = sg_fs s1" "sg_manifest s2 = Some (snap, m)"
    "\<exists>after. dget out ''manifest'' = JObj m \<and> dget m ''verification'' = verification_json (sr_source S) after"
proof -
  from assms(1) obtain s1 staged where st: "stage L S copied clock s = (s1, Inr staged)"
    by (auto simp: run_stager_def Let_def wb_act_Inr)
  note steps = run_stager_def Let_def wb_act_Inr on_fs_Inr a_get_def a_modify_def a_ret_def stage_event_def process_staged_def split_beta
  obtain r where r: "snd (g staged (sg_fs s1)) = Inr r"
    using assms st by (auto simp: steps sys_def split: sum.splits)
  obtain snap b x ev e q where wr: "write_records L S (s1\<lparr>sg_events := ev, sg_manifest := Some (snap, AList.update ''verification'' (verification_json (sr_source S) x) b)\<rparr>) = (s', Inr ())"
    and out: "out = [(''manifest'', JObj (AList.update ''verification'' (verification_json (sr_source S) x) b)), (''events'', e), (''result'', r), (''analysis_root'', q)]"
    using assms st r by (auto simp: steps sys_def split: option.splits)
  show thesis
    by (rule that [OF st r _ wr]) (auto simp: out dget_def update_conv')
qed

section \<open>What the record says\<close>

lemma disk_Inr: "disk r = Inr x \<longleftrightarrow> r = Inr x"
  by (cases r) (auto simp: disk_def)

definition describes :: "os \<Rightarrow> string \<Rightarrow> dict \<Rightarrow> bool" where
  "describes w c d = (\<exists>e. dget d ''inventory'' = JList [JObj e] \<and> dget e ''sha256'' = JStr (sha_bytes w c) \<and> dget e ''size'' = JInt (int (length c)))"

lemma inventory_entry:
  assumes "inventory L A source f = Inr iv" "read_file (dl_os L) (da_evidence A) f = Inr c"
  shows "\<exists>v. iv_entry iv = source_entry L A v (int (length c)) f \<and> vd_sha v = sha_bytes (dl_os L) c"
proof -
  from assms obtain v n where v: "validate_disk L A source f = Inr v" "file_size (dl_os L) (da_evidence A) f = Inr n"
    and iv: "iv_entry iv = source_entry L A v n f"
    by (auto simp: inventory_def wb_result disk_Inr Let_def memory_inventory_def image_inventory_def empty_inventory_def split: if_splits prod.splits)
  have "n = int (length c)"
    using v(2) assms(2) by (auto simp: read_file_def file_size_def split: option.splits node.splits if_splits)
  moreover have "vd_sha v = sha_bytes (dl_os L) c"
    using v(1) assms(2) by (auto simp: validate_disk_def wb_result disk_Inr Let_def split: prod.splits)
  ultimately show ?thesis using iv by blast
qed

lemma record_describes:
  assumes "normalized_record L A source f = Inr d" "read_file (dl_os L) (da_evidence A) f = Inr c"
  shows "describes (dl_os L) c d"
proof -
  from assms(1) obtain iv where iv: "inventory L A source f = Inr iv" and d: "dget d ''inventory'' = JList [JObj (iv_entry iv)]"
    by (auto simp: normalized_record_def wb_result dget_def)
  from inventory_entry [OF iv assms(2)] d show ?thesis by (auto simp: describes_def source_entry_def dget_def)
qed

lemma describes_update: "describes w c d \<Longrightarrow> k \<noteq> ''inventory'' \<Longrightarrow> describes w c (AList.update k v d)"
  by (simp add: describes_def dget_update)

section \<open>The frame of a run\<close>

text \<open>Agreement outside an analysis root whose missing directories may be made.\<close>

definition outside_same :: "path \<Rightarrow> fs \<Rightarrow> fs \<Rightarrow> bool" where
  "outside_same root f g = (\<forall>p. \<not> prefix root p \<longrightarrow> lookup g p = lookup f p \<or> prefix p root \<and> lookup f p = None)"

lemma outside_same_trans: "outside_same root f g \<Longrightarrow> outside_same root g h \<Longrightarrow> outside_same root f h"
  unfolding outside_same_def by metis

lemma outside_same_set: "prefix root q \<Longrightarrow> outside_same root f (set_node q n f)"
  by (auto simp: outside_same_def wb_fs)

lemma write_outside:
  assumes "os_plain w" "no_links f" "clean_path p" "write_file w p c f = Inr f'" "prefix root p"
  shows "outside_same root f f'" "no_links f'"
  using plain_write_file [OF assms(1-4)] outside_same_set [OF assms(5)] by auto

lemma records_outside:
  assumes "write_records L S s = (s', Inr u)" "sg_manifest s = Some x" "os_plain (sl_os L)" "no_links (sg_fs s)"
    and "clean_path (sr_root S)"
  shows "outside_same (sr_root S) (sg_fs s) (sg_fs s')" "no_links (sg_fs s')"
proof -
  from write_records_Inr [OF assms(1,2)] obtain a b f1 f2 where w: "write_file (sl_os L) (manifest_file S) a (sg_fs s) = Inr f1"
    "write_file (sl_os L) (events_file S) b f1 = Inr f2" and s': "s' = s\<lparr>sg_fs := f2\<rparr>" by blast
  have below: "prefix (sr_root S) (manifest_file S)" "prefix (sr_root S) (events_file S)"
    by (simp_all add: manifest_file_def events_file_def)
  have cl: "clean_path (manifest_file S)" "clean_path (events_file S)"
    using assms(5) by (simp_all add: manifest_file_def events_file_def)
  note one = write_outside [OF assms(3,4) cl(1) w(1) below(1)]
  note two = write_outside [OF assms(3) one(2) cl(2) w(2) below(2)]
  show "outside_same (sr_root S) (sg_fs s) (sg_fs s')" "no_links (sg_fs s')"
    using one two outside_same_trans by (auto simp: s')
qed

lemma extraction_outside:
  assumes "os_plain (dl_os L)" "no_links f" "lookup f (da_evidence A) = Some (File c m)" "\<forall>k. names k \<notin> {leaf (da_evidence A), ''..''}"
    and "extract_source L A rels (Some (root @ [x])) names f = (f', r)"
    and "clean_path (root @ [x])" "clean_path (da_root A)" "clean_path (da_evidence A)"
  shows "outside_same root f f' \<and> no_links f'"
proof -
  let ?d = "(root @ [x]) @ [leaf (da_evidence A)]"
  from extraction_contained [OF assms(1-5) _ assms(7,8), of "root @ [x]"] assms(6)
  have frame: "lookup f' q = lookup f q \<or> lookup f q = None \<and> (prefix q (root @ [x]) \<and> (\<exists>k. lookup f' q = Some (Dir k)) \<or>
      q = ?d \<and> lookup f' q = Some (File c 384))" for q
    by simp
  have "\<not> is_symlink f' q" for q
  proof
    assume "is_symlink f' q"
    then obtain t where "lookup f' q = Some (Link t)" by (auto simp: is_symlink_def split: option.splits node.splits)
    with frame [of q] have "lookup f q = Some (Link t)" by auto
    then have "is_symlink f q" by (simp add: is_symlink_def)
    with assms(2) show False by (simp add: no_links_def)
  qed
  moreover have "outside_same root f f'" unfolding outside_same_def
  proof (intro allI impI)
    fix p assume "\<not> prefix root p"
    then show "lookup f' p = lookup f p \<or> prefix p root \<and> lookup f p = None"
      using frame [of p] by (auto simp: prefix_snoc)
  qed
  ultimately show ?thesis by (simp add: no_links_def)
qed

section \<open>The workflow\<close>

lemma image_adapter_Inr:
  assumes "image_adapter W p root f = Inr A" "os_plain (dl_os (wl_disk W))" "no_links f" "clean_path p"
  shows "da_evidence A = p" "clean_path (da_root A)"
  using assms by (auto simp: image_adapter_def make_adapter_def Let_def plain_fs plain_resolve split: if_splits)

lemma processor_describes:
  assumes "snd (image_processor W root staged f) = Inr r" "os_plain (dl_os (wl_disk W))" "no_links f"
    and "lookup f staged = Some (File c 384)" "clean_path staged"
  shows "describes (dl_os (wl_disk W)) c (obj_of r)"
proof -
  from assms(1) obtain A d where A: "image_adapter W staged root f = Inr A" "normalized_record (wl_disk W) A ''disk_image'' f = Inr d" "r = JObj d"
    by (auto simp: image_processor_def wb_result split: sum.splits)
  have "read_file (dl_os (wl_disk W)) (da_evidence A) f = Inr c"
    using image_adapter_Inr [OF A(1) assms(2,3,5)] assms(2-5) by (simp add: read_file_def stat_node_def plain_fs r_bit_def)
  from record_describes [OF A(2) this] A(3) show ?thesis by simp
qed

lemma extraction_step_outside:
  assumes "extraction_step W staged root names f = (f', r)" "os_plain (dl_os (wl_disk W))" "no_links f"
    and "lookup f staged = Some (File c m)" "\<forall>k. names k \<notin> {leaf staged, ''..''}" "clean_path staged" "clean_path root"
  shows "outside_same root f f' \<and> no_links f'"
proof (cases "image_adapter W staged root f")
  case (Inl e)
  with assms(1,3) show ?thesis by (auto simp: extraction_step_def outside_same_def)
next
  case (Inr A)
  note ev = image_adapter_Inr [OF Inr assms(2,3,6)]
  obtain g x where "extract_source (wl_disk W) A [path_name staged] (Some (root @ [''extracted''])) names f = (g, x)"
    by (cases "extract_source (wl_disk W) A [path_name staged] (Some (root @ [''extracted''])) names f")
  moreover from this have "outside_same root f g \<and> no_links g"
    using assms(4-7) by (intro extraction_outside [OF assms(2,3)]) (auto simp: ev)
  ultimately show ?thesis using assms(1) Inr by (auto simp: extraction_step_def split: sum.splits)
qed

lemma with_extraction_describes: "describes w c d \<Longrightarrow> describes w c (with_extraction d x)"
  unfolding with_extraction_def Let_def by (rule describes_update) auto

lemma run_disk_fixture_parts:
  assumes "run_disk_fixture W source root_arg x clock names f = (f', Inr res)" "os_plain (sl_os (wl_stage W))" "no_links f"
    and "clean_path root_arg" "clean_path source"
  obtains s run f1 ext where
    "run_stager (wl_stage W) (image_stager source root_arg) (Some (image_processor W root_arg)) True clock (start_state f) = (s, Inr run)"
    "f1 = sg_fs s \<and> ext = None \<or> (\<exists>y. extraction_step W (staged_path (image_stager source root_arg)) root_arg names (sg_fs s) = (f1, Inr y) \<and> ext = Some y)"
    "wr_record res = (let d = AList.update ''original_uri'' (JStr (as_uri source)) (obj_of (dget run ''result'')) in
       case ext of None \<Rightarrow> d | Some y \<Rightarrow> with_extraction d y)"
    "wr_unchanged res = dget (obj_of (dget (obj_of (dget run ''manifest'')) ''verification'')) ''source_unchanged''"
    "write_record W root_arg (wr_record res) f1 = (f', Inr ())"
  using assms plain_fs [OF assms(2,3,4)] plain_fs [OF assms(2,3,5)]
  by (auto simp: run_disk_fixture_def Let_def split: prod.splits sum.splits if_splits) (rule that, assumption, auto)+


definition demo_workflow :: workflow_lib where
  "demo_workflow = \<lparr>wl_stage = \<lparr>sl_os = demo_disk_os, sl_mtime = (\<lambda>f p. ''t''), sl_pretty = (\<lambda>j. ''{}''), sl_line = (\<lambda>j. ''{}''),
     sl_zip = (\<lambda>c. None), sl_tar = (\<lambda>c. None)\<rparr>, wl_disk = demo_disk_lib\<rparr>"

text \<open>The run at a fixed volume, step by step.\<close>

lemma demo_files_lookup: "lookup demo_files p = (if p = [] then Some (Dir 493) else if p = [''v''] then Some (Dir 448)
   else if p = [''src''] then Some (File ''xyz'' 420) else None)"
  by (simp add: lookup_def demo_files_def)

lemma demo_disk_os_fields: "realpath demo_disk_os = (\<lambda>f p. collapse p)" "sha_bytes demo_disk_os = (\<lambda>s. s)"
  by (simp_all add: demo_disk_os_def)

lemma demo_bits: "w_bit 448" "w_bit 493" "r_bit 420" "w_bit 420" "r_bit 384" "w_bit 384"
  by (simp_all add: w_bit_def r_bit_def)

lemma demo_workflow_fields:
  "sl_os (wl_stage demo_workflow) = demo_disk_os" "sl_pretty (wl_stage demo_workflow) = (\<lambda>j. ''{}'')"
  "sl_line (wl_stage demo_workflow) = (\<lambda>j. ''{}'')" "wl_disk demo_workflow = demo_disk_lib"
  "dl_os demo_disk_lib = demo_disk_os" "dl_seek demo_disk_lib = 600"
  by (simp_all add: demo_workflow_def demo_disk_lib_def)

lemmas demo_workflow_env = demo_files_lookup demo_disk_os_fields demo_bits demo_workflow_fields

lemma demo_snapshot: "lookup f [''src''] = Some (File ''xyz'' 420) \<Longrightarrow>
  take_snapshot (wl_stage demo_workflow) standard_limits [''src''] f = Inr (FileSnap 3 ''xyz'' 420 ''t'')"
  by (simp add: take_snapshot_def regular_source_def is_symlink_def p_exists_def is_file_def stat_node_def sys_def file_sha_def
      read_file_def demo_disk_os_fields demo_bits standard_limits_def demo_workflow_def)

lemma demo_no_archive: "lookup f [''src''] = Some (File ''xyz'' 420) \<Longrightarrow>
  validate_archive (wl_stage demo_workflow) standard_limits [''src''] (FileSnap 3 ''xyz'' 420 ''t'') f = Inr ()"
  by (simp add: validate_archive_def sys_def read_file_def stat_node_def demo_disk_os_fields demo_bits validate_content_def
      demo_workflow_def path_name_def lower_def lower_char_def archive_suffixes_def suffix_def)

lemma demo_staged_names: "leaf [''v'', ''source''] = ''source''" "path_name [''v'', ''source''] = ''source''" "base_name ''source'' = ''source''"
    "path_parts ''source'' = [''source'']" "\<not> is_absolute ''source''"
  by code_simp+

lemma demo_raw_image: "detect_image ''xyz'' = (''raw'', ''raw byte stream'')" "partitions 600 ''xyz'' = Inr []"
  by code_simp (simp add: partitions_def parse_gpt_def read_at_def bytes_at_def parse_mbr_def)

lemma demo_image_adapter: "lookup f [''v'', ''source''] = Some (File ''xyz'' 384) \<Longrightarrow>
  image_adapter demo_workflow [''v'', ''source''] [''v''] f = Inr \<lparr>da_evidence = [''v'', ''source''], da_root = [''v''],
    da_id = id_from_name ''source'', da_max_file = default_file_limit, da_max_total = default_total_limit\<rparr>"
  by (simp add: image_adapter_def make_adapter_def is_file_def is_symlink_def stat_node_def demo_workflow_fields demo_disk_os_fields
      non_blank_def demo_staged_names)

lemmas demo_volume_steps = is_symlink_def p_exists_def is_file_def is_dir_def stat_node_def mkdir_def read_file_def write_file_def
  chmod_def file_size_def replace_file_def wb_fs

lemmas demo_staging_steps = run_stager_def stage_def on_fs_def to_fs_def a_step_def staged_path_def copy_source_to_def sys_def
  source_sha_def file_sha_def stage_event_def write_records_def manifest_file_def events_file_def process_staged_def image_stager_def start_state_def

lemmas demo_adapter_steps = image_processor_def normalized_record_def inventory_def validate_disk_def disk_def detect_source_def
  supported_images_def image_inventory_def extraction_step_def extract_source_def extract_one_def refusal_def make_temp_def a_finally_def
  copy_step_def content_sha_def drop_temp_def demo_names_def default_file_limit_def default_total_limit_def

lemma demo_workflow_ok: "\<exists>f' res. run_disk_fixture demo_workflow [''src''] [''v''] True (\<lambda>n. ''t'') demo_names demo_files = (f', Inr res)"
  by (simp add: run_disk_fixture_def Let_def wb_act demo_workflow_env demo_snapshot demo_no_archive demo_raw_image demo_image_adapter
      demo_staged_names demo_volume_steps demo_staging_steps demo_adapter_steps write_record_def)


text \<open>Without the condition on links a record can land elsewhere: the name of the normalized record in an
  existing analysis root is followed when it is a link.\<close>

definition linked_workflow :: workflow_lib where
  "linked_workflow = demo_workflow\<lparr>wl_stage := (wl_stage demo_workflow)\<lparr>sl_os := demo_disk_os\<lparr>realpath := (\<lambda>f p.
     if is_symlink f p then [''gone''] else collapse p)\<rparr>\<rparr>\<rparr>"

lemma normalized_record_follows_links:
  "write_record linked_workflow [''v''] [] (demo_files @ [([''gone''], File ''old'' 420), ([''v'', ''normalized-evidence.json''], Link [''gone''])]) =
     (fst (write_record linked_workflow [''v''] [] (demo_files @ [([''gone''], File ''old'' 420), ([''v'', ''normalized-evidence.json''], Link [''gone''])])), Inr ())"
  "lookup (fst (write_record linked_workflow [''v''] [] (demo_files @ [([''gone''], File ''old'' 420), ([''v'', ''normalized-evidence.json''], Link [''gone''])]))) [''gone''] =
     Some (File ([CHR ''{'', CHR ''}'', CHR 0x0A]) 420)"
  by code_simp+

end
