(* ===== verification/Api_Http.thy ===== *)
theory Api_Http
  imports Api_Routes
begin

text \<open>
  The shell of \<^verbatim>\<open>create_app\<close> in \<^verbatim>\<open>api.py\<close>: the settings' validators, the two middlewares around a route, the
  error handlers, and the health, metrics and alert endpoints.  A route is any function on the state that
  answers or raises; the clocks, uuid4 and what the probes of the database and the storage met are
  arguments.  Header names are in lower case.
\<close>

section \<open>Settings\<close>

record deployment =
  dp_settings :: settings
  dp_database_url :: "string option"
  dp_storage_path :: "string option"
  dp_min_free :: int
  dp_cors :: string

definition env_ok :: "string \<Rightarrow> bool" where
  "env_ok v = (v \<in> {''dev'', ''test'', ''prod''})"

definition synthetic_tenant_ok :: "string \<Rightarrow> bool" where
  "synthetic_tenant_ok v = (v \<noteq> [])"

definition database_url_ok :: "string option \<Rightarrow> bool" where
  "database_url_ok v = (case v of None \<Rightarrow> True | Some u \<Rightarrow> prefix ''postgresql://'' u \<or> prefix ''postgres://'' u)"

definition deployment_ok :: "deployment \<Rightarrow> bool" where
  "deployment_ok d = (env_ok (se_env (dp_settings d)) \<and> synthetic_tenant_ok (se_synthetic_tenant (dp_settings d)) \<and>
     database_url_ok (dp_database_url d) \<and> 0 \<le> dp_min_free d \<and>
     1 \<le> length (se_ai_policy (dp_settings d)) \<and> length (se_ai_policy (dp_settings d)) \<le> 100)"

definition has_text :: "string option \<Rightarrow> bool" where
  "has_text x = (case x of None \<Rightarrow> False | Some s \<Rightarrow> s \<noteq> [])"

definition cors_origins :: "deployment \<Rightarrow> string list" where
  "cors_origins d = (if se_env (dp_settings d) = ''prod'' then []
     else filter (\<lambda>x. x \<noteq> []) (map strip (split_on (CHR '','') (dp_cors d))))"

text \<open>\<^verbatim>\<open>get_db_pool\<close>: whether there is a pool.\<close>

definition db_pool :: "deployment \<Rightarrow> bool \<Rightarrow> http_error + unit" where
  "db_pool d pool = (if pool then Inr ()
     else if has_text (dp_database_url d) then Inl (Http 503 ''database pool unavailable or failed to initialize'')
     else Inl (Http 503 ''database not configured (set DFIRWB_DATABASE_URL)''))"

section \<open>Errors\<close>

definition structured_error :: "string \<Rightarrow> string \<Rightarrow> bool \<Rightarrow> json" where
  "structured_error code msg again =
     JObj [(''error'', JObj [(''code'', JStr code), (''message'', JStr msg), (''retryable'', JBool again)])]"

record response =
  rp_status :: int
  rp_headers :: "(string \<times> string) list"
  rp_body :: json

definition answer_of :: "int \<Rightarrow> json \<Rightarrow> response" where
  "answer_of code body = \<lparr>rp_status = code, rp_headers = [], rp_body = body\<rparr>"

text \<open>\<^verbatim>\<open>_http_exception_handler\<close>, on the detail of the exception.\<close>

definition http_exception :: "int \<Rightarrow> json \<Rightarrow> response" where
  "http_exception code detail =
     (let (msg, again) = (case detail of
            JObj d \<Rightarrow> (py_str (dget_or d ''message'' (JStr ''request failed'')), truthy (dget_or d ''retryable'' (JBool False)))
          | _ \<Rightarrow> (py_str detail, code < 500)) in
      answer_of code (structured_error (''HTTP_'' @ dec_int code) msg again))"

definition unhandled_exception :: response where
  "unhandled_exception = answer_of 500 (structured_error ''INTERNAL_ERROR'' ''internal server error'' False)"

section \<open>Middlewares\<close>

record request =
  rq_method :: string
  rq_path :: string
  rq_length :: "string option"
  rq_correlation :: "string option"
  rq_auth :: string

text \<open>A route leaves the parameters the router found in the path.  An exception it raises reaches the
  middlewares by name.\<close>

type_synonym 's endpoint = "'s \<Rightarrow> 's \<times> (string + (response \<times> (string \<times> string) list))"

definition too_large :: "request \<Rightarrow> bool" where
  "too_large q = (case rq_length q of None \<Rightarrow> False
     | Some s \<Rightarrow> s \<noteq> [] \<and> list_all is_digit s \<and> 1048576 < foldl (\<lambda>n c. 10 * n + (of_char c - 48)) (0::int) s)"

definition request_size_limit :: "request \<Rightarrow> 's endpoint \<Rightarrow> 's endpoint" where
  "request_size_limit q app s =
     (if too_large q then (s, Inr (answer_of 413 (structured_error ''REQUEST_TOO_LARGE'' ''request exceeds 1 MiB'' False), []))
      else app s)"

definition object_params :: "string list" where
  "object_params = [''case_id'', ''envelope_id'', ''evidence_id'', ''finding_id'', ''timeline_entry_id'']"

definition object_of :: "(string \<times> string) list \<Rightarrow> (string \<times> string) option" where
  "object_of params = (case List.find (\<lambda>k. map_of params k \<noteq> None) object_params of
     None \<Rightarrow> None | Some k \<Rightarrow> Some (take (length k - 3) k, the (map_of params k)))"

definition outcome_of :: "int \<Rightarrow> string" where
  "outcome_of code = (if code < 400 then ''success'' else if code \<in> {401, 403} then ''denied'' else ''error'')"

definition unaudited_paths :: "string list" where
  "unaudited_paths = [''/healthz'', ''/readyz'', ''/metrics'', ''/alerts'']"

definition principal_for_audit :: "crypto \<Rightarrow> settings \<Rightarrow> request \<Rightarrow> int \<Rightarrow> principal option" where
  "principal_for_audit c st q now = (case current_principal c st (rq_auth q) now of Inl e \<Rightarrow> None | Inr p \<Rightarrow> Some p)"

definition http_event :: "request \<Rightarrow> string \<Rightarrow> int \<Rightarrow> principal option \<Rightarrow> (string \<times> string) list \<Rightarrow> audit_event" where
  "http_event q cid code p params =
     \<lparr>ev_id = [], ev_tenant = (case p of None \<Rightarrow> None | Some x \<Rightarrow> if is_uuid (tenant_id x) then Some (tenant_id x) else None), ev_case = None,
      ev_actor_type = (case p of None \<Rightarrow> ''system'' | Some x \<Rightarrow> ''user''), ev_actor_id = map_option analyst_id p,
      ev_object_type = map_option fst (object_of params), ev_object_id = map_option snd (object_of params),
      ev_action = ''http.'' @ lower (rq_method q), ev_result = outcome_of code, ev_correlation = cid, ev_source = ''api'',
      ev_occurred = [], ev_recorded = None, ev_metadata = [(''path'', JStr (rq_path q)), (''status_code'', JInt code)]\<rparr>"

definition count_request :: "request \<Rightarrow> string \<Rightarrow> 'f::{plus,zero,one} registry_state \<Rightarrow> 'f registry_state" where
  "count_request q code m = inc_counter ''http_requests_total'' [(''path'', rq_path q), (''method'', rq_method q), (''status'', code)] 1 m"

definition set_metrics :: "('f registry_state \<Rightarrow> 'f registry_state) \<Rightarrow> 'f audit_state \<Rightarrow> 'f audit_state" where
  "set_metrics g a = a\<lparr>au_metrics := g (au_metrics a)\<rparr>"

text \<open>The sink of the request's event; an event it refuses is counted.\<close>

definition audit_request :: "pg \<Rightarrow> (int \<Rightarrow> string) \<Rightarrow> bool \<Rightarrow> audit_event \<Rightarrow> audit_world \<Rightarrow> 'f::{plus,zero,one} audit_state \<Rightarrow> 'f audit_state" where
  "audit_request g recorded pool e w a = (case record_event g recorded pool e w a of
     (a', Inr ev) \<Rightarrow> a' | (a', Inl err) \<Rightarrow> set_metrics (inc_counter ''audit_write_failures_total'' [] 1) a')"

record 'f http_world =
  hw_uuid :: string
  hw_seconds :: 'f
  hw_now :: int
  hw_audit :: audit_world

definition correlation_of :: "request \<Rightarrow> string \<Rightarrow> string" where
  "correlation_of q fresh = (case rq_correlation q of None \<Rightarrow> fresh | Some c \<Rightarrow> if c = [] then fresh else c)"

definition observability ::
  "api_lib \<Rightarrow> crypto \<Rightarrow> deployment \<Rightarrow> bool \<Rightarrow> request \<Rightarrow> 'f::{plus,zero,one} http_world \<Rightarrow> ('s \<times> 'f audit_state) endpoint \<Rightarrow> 's \<times> 'f audit_state \<Rightarrow>
   ('s \<times> 'f audit_state) \<times> (string + response)" where
  "observability A c d pool q w app s0 =
     (let cid = correlation_of q (hw_uuid w) in
      case app s0 of
        ((s, a), Inl e) \<Rightarrow> ((s, set_metrics (count_request q ''500'') a), Inl e)
      | ((s, a), Inr (r, params)) \<Rightarrow>
          (let a1 = set_metrics (\<lambda>m. observe_histogram ''http_request_duration_seconds'' (hw_seconds w) [(''path'', rq_path q)]
                 (count_request q (dec_int (rp_status r)) m)) a;
               a2 = (if rq_path q \<in> set unaudited_paths then a1
                     else audit_request (al_pg A) (al_instant A) pool
                       (http_event q cid (rp_status r) (principal_for_audit c (dp_settings d) q (hw_now w)) params) (hw_audit w) a1) in
           ((s, a2), Inr (r\<lparr>rp_headers := AList.update ''x-correlation-id'' cid (rp_headers r)\<rparr>))))"

text \<open>The application on a request: the size limit is inside the observer, the generic handler outside of both.\<close>

definition serve_request ::
  "api_lib \<Rightarrow> crypto \<Rightarrow> deployment \<Rightarrow> bool \<Rightarrow> request \<Rightarrow> 'f::{plus,zero,one} http_world \<Rightarrow> ('s \<times> 'f audit_state) endpoint \<Rightarrow> 's \<times> 'f audit_state \<Rightarrow>
   ('s \<times> 'f audit_state) \<times> response" where
  "serve_request A c d pool q w app s =
     (case observability A c d pool q w (request_size_limit q app) s of
        (t, Inl e) \<Rightarrow> (t, unhandled_exception) | (t, Inr r) \<Rightarrow> (t, r))"

section \<open>Health\<close>

definition app_version :: string where "app_version = ''0.1.0a1''"

definition healthz :: response where
  "healthz = answer_of 200 (JObj [(''status'', JStr ''healthy''), (''version'', JStr app_version), (''service'', JStr ''dfir-evidence-workbench'')])"

text \<open>What the probes met: whether \<^verbatim>\<open>SELECT 1\<close> ran, and the free bytes of the storage.\<close>

record probes =
  pb_database :: bool
  pb_free :: "int option"

definition database_status :: "deployment \<Rightarrow> probes \<Rightarrow> string" where
  "database_status d b = (if has_text (dp_database_url d) then (if pb_database b then ''ok'' else ''unreachable'') else ''not_configured'')"

definition storage_status :: "deployment \<Rightarrow> probes \<Rightarrow> string" where
  "storage_status d b = (if has_text (dp_storage_path d)
     then (case pb_free b of None \<Rightarrow> ''unreachable'' | Some n \<Rightarrow> if dp_min_free d \<le> n then ''ok'' else ''low_space'')
     else ''not_configured'')"

definition auth_status :: "deployment \<Rightarrow> string" where
  "auth_status d = (let s = dp_settings d in
     if se_env s = ''prod'' \<and> (\<not> has_text (se_issuer s) \<or> \<not> has_text (se_audience s) \<or> \<not> (has_text (se_hs256_secret s) \<or> has_text (se_jwks_json s)))
     then ''misconfigured'' else ''configured'')"

definition dependency_ok :: "deployment \<Rightarrow> probes \<Rightarrow> bool" where
  "dependency_ok d b = (database_status d b \<in> {''ok'', ''not_configured''} \<and> storage_status d b \<in> {''ok'', ''not_configured''} \<and> auth_status d = ''configured'')"

definition readyz :: "deployment \<Rightarrow> probes \<Rightarrow> response" where
  "readyz d b =
     (let s = dp_settings d; prod = (se_env s = ''prod''); db = has_text (dp_database_url d); ok = dependency_ok d b;
          info = (if prod then JNull else JObj [(''tenant_id'', JStr (se_synthetic_tenant s)), (''is_synthetic'', JBool True)]);
          free = (if has_text (dp_storage_path d) then (case pb_free b of None \<Rightarrow> JNull | Some n \<Rightarrow> JInt n) else JNull) in
      answer_of (if ok then 200 else 503) (JObj [(''status'', JStr (if ok then ''ready'' else ''degraded'')), (''version'', JStr app_version), (''env'', JStr (se_env s)),
        (''dependencies'', JObj [(''config'', JStr ''ok''),
           (''reviewed_adapters'', JList (map JStr [''disk_memory'', ''uac'', ''velociraptor'', ''thehive_ingest'', ''dfir_iris_ingest''])),
           (''interop'', JStr ''wired''), (''ingest_boundary'', JStr ''wired (preview redaction idempotency quarantine using projections)''),
           (''principal_seam'', JStr (if prod then ''not_wired_prod'' else ''synthetic-dev-only'')), (''persistence'', JStr (if db then ''wired'' else ''not_configured'')),
           (''database'', JStr (database_status d b)), (''db_driver'', JStr ''psycopg''), (''ingest'', JStr ''wired (preview/approve/commit/quarantine)''),
           (''audit_sink'', JStr (if db then ''wired'' else ''degraded (logging fallback only)'')), (''storage'', JStr (storage_status d b)), (''auth'', JStr (auth_status d))]),
        (''storage_free_bytes'', free), (''principal'', info),
        (''note'', JStr (if prod then ''production shell - no synthetic data''
           else ''synthetic context only where explicitly labeled dev-only. Postgres migrations + TimelineFlagRepository wired via seams; use DFIRWB_DATABASE_URL for real DB (tenant isolation at repo layer).''))]))"

definition metrics_endpoint :: "'f::linorder numerals \<Rightarrow> 'f registry_state \<Rightarrow> string" where
  "metrics_endpoint nu m = render_prometheus_text nu m"

definition alerts_endpoint :: "'f::{linorder,plus,zero,divide} numerals \<Rightarrow> 'f registry_state \<Rightarrow> json" where
  "alerts_endpoint nu m =
     (let rs = evaluate_all nu m in
      JObj [(''alerts'', JList (map (\<lambda>r. JObj [(''name'', JStr (al_name r)), (''firing'', JBool (al_firing r)), (''detail'', JStr (al_detail r))]) rs)),
        (''any_firing'', JBool (list_ex al_firing rs))])"

definition whoami :: "principal \<Rightarrow> json" where
  "whoami p = JObj [(''tenant_id'', JStr (tenant_id p)), (''analyst_id'', JStr (analyst_id p)),
     (''roles'', JList (map JStr (sort (remdups (roles p))))), (''scopes'', JList (map JStr (sort (remdups (scopes p)))))]"

end
