(* ===== verification/Api_Http_Correct.thy ===== *)
theory Api_Http_Correct
  imports Api_Http Api_Correct
begin

text \<open>
  What the shell around the routes promises: an oversized request never reaches its route, every answer
  carries the correlation id and leaves an audit event in the table or in the log, a request that crashed
  is counted, and readiness is the conjunction of the probes.
\<close>

section \<open>The size limit\<close>

lemma oversized_request_is_refused:
  assumes "too_large q"
  shows "\<exists>a2 r. serve_request A c d pool q w app (s, a) = ((s, a2), r) \<and> rp_status r = 413"
  using assms by (simp add: serve_request_def observability_def request_size_limit_def answer_of_def Let_def)

lemma undeclared_size_passes: "rq_length q = None \<Longrightarrow> request_size_limit q app s = app s"
  by (simp add: request_size_limit_def too_large_def)

section \<open>The audit event of a request\<close>

lemma outcome_valid: "outcome_of code \<in> set valid_results"
  by (simp add: outcome_of_def valid_results_def)

lemma http_event_fields [simp]:
  "ev_correlation (http_event q cid code p params) = cid"
  "ev_result (http_event q cid code p params) = outcome_of code"
  "ev_action (http_event q cid code p params) = ''http.'' @ lower (rq_method q)"
  "ev_actor_id (http_event q cid code p params) = map_option analyst_id p"
  "ev_metadata (http_event q cid code p params) = [(''path'', JStr (rq_path q)), (''status_code'', JInt code)]"
  by (simp_all add: http_event_def)

text \<open>The sink never refuses it, so the handler of the middleware for that has nothing to count.\<close>

lemma http_event_accepted:
  assumes "cid \<noteq> []"
  shows "check_event (http_event q cid code p params) = Inr ()"
proof -
  have "ev_actor_type (http_event q cid code p params) \<in> set valid_actor_types"
    by (simp add: http_event_def valid_actor_types_def split: option.splits)
  with assms outcome_valid [of code] show ?thesis by (simp add: check_event_def)
qed

definition same_event :: "audit_event \<Rightarrow> audit_event \<Rightarrow> bool" where
  "same_event e x = (ev_correlation x = ev_correlation e \<and> ev_result x = ev_result e \<and> ev_action x = ev_action e \<and>
     ev_actor_id x = ev_actor_id e \<and> ev_metadata x = ev_metadata e)"

text \<open>The event is the next row of the table, or a line of the log.\<close>

definition traced :: "audit_event \<Rightarrow> 'f audit_state \<Rightarrow> 'f audit_state \<Rightarrow> bool" where
  "traced e a a' = (\<exists>x. same_event e x \<and>
     ((\<exists>t. au_rows a' = au_rows a @ [(x, t)]) \<and> au_log a' = au_log a \<or>
      au_rows a' = au_rows a \<and> (\<exists>f. au_log a' = au_log a @ [(f, redact (event_json x))])))"

lemma insert_audit_same:
  assumes "insert_audit g e t rows = Inr rows'"
  shows "\<exists>x. rows' = rows @ [(x, t)] \<and> same_event e x"
  using assms by (force simp: insert_audit_def wb_result same_event_def)

lemma accepted_event_is_traced:
  assumes "check_event e = Inr u"
  shows "\<exists>y. snd (record_event g rt pool e w a) = Inr y \<and> traced e a (fst (record_event g rt pool e w a))"
proof -
  define x where "x = e\<lparr>ev_id := aw_uuid w, ev_occurred := str_replace ''+00:00'' ''Z'' (aw_now w), ev_recorded := None\<rparr>"
  have x: "same_event e x" by (simp add: x_def same_event_def)
  show ?thesis
  proof (cases pool)
    case False
    with assms x show ?thesis by (auto simp: record_event_def traced_def simp flip: x_def)
  next
    case True
    show ?thesis
    proof (cases "write_audit g w x (au_rows a)")
      case (Inl n)
      with assms x True show ?thesis by (auto simp: record_event_def traced_def simp flip: x_def)
    next
      case (Inr rows)
      then have "insert_audit g x (aw_clock w) (au_rows a) = Inr rows"
        by (auto simp: write_audit_def split: option.splits sum.splits)
      from insert_audit_same [OF this] obtain y where "rows = au_rows a @ [(y, aw_clock w)]" "same_event x y" by blast
      with x have "rows = au_rows a @ [(y, aw_clock w)]" "same_event e y" by (simp_all add: same_event_def)
      with assms Inr True show ?thesis by (auto simp: record_event_def traced_def simp flip: x_def)
    qed
  qed
qed

lemma audit_request_traces:
  assumes "check_event e = Inr u"
  shows "traced e a (audit_request g rt pool e w a)"
  using accepted_event_is_traced [OF assms, of g rt pool w a]
  by (auto simp: audit_request_def split: prod.splits sum.splits)

lemma traced_metrics: "traced e (set_metrics f a) a' = traced e a a'"
  by (simp add: traced_def set_metrics_def)

section \<open>Counting\<close>

lemma label_match_key:
  assumes "distinct (map fst l)"
  shows "label_match l (label_key l)"
proof -
  have "mset (map fst (sort l)) = mset (map fst l)" by simp
  with assms have "distinct (map fst (sort l))" by (metis mset_eq_imp_distinct_iff)
  then show ?thesis by (auto simp: label_match_def label_key_def list_all_iff)
qed

lemma counted_once_more:
  fixes m :: "'f::semiring_1 registry_state"
  assumes "dict_ok (mt_counters m)" "distinct (map fst l)"
  shows "counter_total name l (inc_counter name l 1 m) = counter_total name l m + 1"
  using sum_series_update [OF assms(1), of "\<lambda>(n, k). n = name \<and> label_match l k" "(name, label_key l)" 1 0]
    label_match_key [OF assms(2)]
  by (simp add: counter_total_def inc_counter_def Let_def)

lemma other_counter:
  fixes m :: "'f::semiring_1 registry_state"
  assumes "dict_ok (mt_counters m)" "n \<noteq> name"
  shows "counter_total name l (inc_counter n k v m) = counter_total name l m"
  using sum_series_update [OF assms(1), of "\<lambda>(n, k). n = name \<and> label_match l k" "(n, label_key k)" v 0] assms(2)
  by (simp add: counter_total_def inc_counter_def Let_def)

definition request_total :: "request \<Rightarrow> string \<Rightarrow> 'f::semiring_1 audit_state \<Rightarrow> 'f" where
  "request_total q code a = counter_total ''http_requests_total'' [(''path'', rq_path q), (''method'', rq_method q), (''status'', code)] (au_metrics a)"

definition counters_ok :: "'f audit_state \<Rightarrow> bool" where
  "counters_ok a = dict_ok (mt_counters (au_metrics a))"

lemma request_counted:
  "counters_ok a \<Longrightarrow> request_total q code (set_metrics (count_request q code) a) = request_total q code a + 1"
  by (simp add: request_total_def set_metrics_def count_request_def counters_ok_def counted_once_more)

lemma request_timed:
  "request_total q code (set_metrics (\<lambda>m. observe_histogram n v l (g m)) a) = request_total q code (set_metrics g a)"
  by (simp add: request_total_def set_metrics_def observe_histogram_def counter_total_def Let_def)

lemma count_keeps_ok: "counters_ok a \<Longrightarrow> counters_ok (set_metrics (\<lambda>m. observe_histogram n v l (count_request q code m)) a)"
  by (simp add: counters_ok_def set_metrics_def observe_histogram_def count_request_def inc_counter_def Let_def dict_ok_update)

text \<open>Recording an event touches no counter but its own.\<close>

lemma audit_keeps_requests:
  assumes "counters_ok a"
  shows "request_total q code (audit_request g rt pool e w a) = request_total q code a"
proof -
  obtain a' r where r: "record_event g rt pool e w a = (a', r)" by (cases "record_event g rt pool e w a")
  then have "audit_request g rt pool e w a = (case r of Inr ev \<Rightarrow> a' | Inl err \<Rightarrow> set_metrics (inc_counter ''audit_write_failures_total'' [] 1) a')"
    by (simp add: audit_request_def)
  with r assms show ?thesis
    by (cases rule: record_event_cases) (auto simp: request_total_def set_metrics_def counters_ok_def other_counter)
qed

section \<open>Requests\<close>

definition audited_event :: "crypto \<Rightarrow> deployment \<Rightarrow> request \<Rightarrow> 'f http_world \<Rightarrow> int \<Rightarrow> (string \<times> string) list \<Rightarrow> audit_event" where
  "audited_event c d q w code params =
     http_event q (correlation_of q (hw_uuid w)) code (principal_for_audit c (dp_settings d) q (hw_now w)) params"

lemma correlation_nonempty: "hw_uuid w \<noteq> [] \<Longrightarrow> correlation_of q (hw_uuid w) \<noteq> []"
  by (simp add: correlation_of_def split: option.split)

lemma answer_is_traced:
  fixes w :: "'f::semiring_1 http_world"
  assumes run: "request_size_limit q app (s, a) = ((s1, a1), Inr (r, params))" and ok: "counters_ok a1" and id: "hw_uuid w \<noteq> []"
  shows "\<exists>a2. serve_request A c d pool q w app (s, a) =
      ((s1, a2), r\<lparr>rp_headers := AList.update ''x-correlation-id'' (correlation_of q (hw_uuid w)) (rp_headers r)\<rparr>) \<and>
    (if rq_path q \<in> set unaudited_paths then au_rows a2 = au_rows a1 \<and> au_log a2 = au_log a1
     else traced (audited_event c d q w (rp_status r) params) a1 a2) \<and>
    request_total q (dec_int (rp_status r)) a2 = request_total q (dec_int (rp_status r)) a1 + 1"
proof -
  let ?m = "\<lambda>m. observe_histogram ''http_request_duration_seconds'' (hw_seconds w) [(''path'', rq_path q)]
    (count_request q (dec_int (rp_status r)) m)"
  let ?e = "audited_event c d q w (rp_status r) params"
  let ?a2 = "audit_request (al_pg A) (al_instant A) pool ?e (hw_audit w) (set_metrics ?m a1)"
  have count: "request_total q (dec_int (rp_status r)) (set_metrics ?m a1) = request_total q (dec_int (rp_status r)) a1 + 1"
    using ok by (simp add: request_timed request_counted)
  show ?thesis
  proof (cases "rq_path q \<in> set unaudited_paths")
    case True
    with run count show ?thesis by (simp add: serve_request_def observability_def Let_def) (simp add: set_metrics_def)
  next
    case False
    have "check_event ?e = Inr ()"
      unfolding audited_event_def by (rule http_event_accepted [OF correlation_nonempty [OF id]])
    then have "traced ?e a1 ?a2"
      using audit_request_traces [of ?e "()" "set_metrics ?m a1"] by (simp add: traced_metrics)
    moreover have "request_total q (dec_int (rp_status r)) ?a2 = request_total q (dec_int (rp_status r)) a1 + 1"
      using ok count by (simp add: audit_keeps_requests count_keeps_ok)
    moreover have "serve_request A c d pool q w app (s, a) =
        ((s1, ?a2), r\<lparr>rp_headers := AList.update ''x-correlation-id'' (correlation_of q (hw_uuid w)) (rp_headers r)\<rparr>)"
      using run False by (simp add: serve_request_def observability_def Let_def audited_event_def)
    ultimately show ?thesis using False by auto
  qed
qed

text \<open>A crash is counted as 500, but neither audited nor given the correlation id.\<close>

lemma crash_is_not_audited:
  fixes w :: "'f::semiring_1 http_world"
  assumes "request_size_limit q app (s, a) = ((s1, a1), Inl e)" "counters_ok a1"
  shows "\<exists>a2. serve_request A c d pool q w app (s, a) = ((s1, a2), unhandled_exception) \<and>
    au_rows a2 = au_rows a1 \<and> au_log a2 = au_log a1 \<and> request_total q ''500'' a2 = request_total q ''500'' a1 + 1"
  using assms request_counted [OF assms(2)] by (simp add: serve_request_def observability_def Let_def) (simp add: set_metrics_def)

section \<open>Readiness\<close>

lemma ready_iff_dependencies:
  "(rp_status (readyz d b) = 200) = dependency_ok d b"
  by (simp add: readyz_def answer_of_def Let_def)

text \<open>A production deployment without an issuer, an audience or a key is never ready.\<close>

lemma ready_in_production:
  assumes "rp_status (readyz d b) = 200" "se_env (dp_settings d) = ''prod''"
  shows "has_text (se_issuer (dp_settings d)) \<and> has_text (se_audience (dp_settings d)) \<and>
    (has_text (se_hs256_secret (dp_settings d)) \<or> has_text (se_jwks_json (dp_settings d)))"
  using assms by (auto simp: ready_iff_dependencies dependency_ok_def auth_status_def Let_def split: if_splits)

section \<open>The trace of an answer\<close>

text \<open>C40: a request that is answered (by its route or by the size limit), on whatever path, is answered as the route
  said, with the correlation id the client sent or a fresh one, and is counted once under its path, method and
  status.  Away from the four probe paths it leaves exactly one audit event more, in the table or as a redacted
  log line, with that correlation id, the outcome of the status and the analyst the bearer token stands for; on a
  probe path it leaves none.  An oversized request is answered 413 without running its route.\<close>

theorem every_answer_is_traced:
  fixes w :: "'f::semiring_1 http_world"
  assumes "request_size_limit q app (s, a) = ((s1, a1), Inr (r, params))" "counters_ok a1" "hw_uuid w \<noteq> []"
  shows "\<exists>a2 ans. serve_request A c d pool q w app (s, a) = ((s1, a2), ans) \<and>
    rp_status ans = rp_status r \<and> rp_body ans = rp_body r \<and>
    map_of (rp_headers ans) ''x-correlation-id'' = Some (correlation_of q (hw_uuid w)) \<and>
    request_total q (dec_int (rp_status r)) a2 = request_total q (dec_int (rp_status r)) a1 + 1 \<and>
    (if rq_path q \<in> {''/healthz'', ''/readyz'', ''/metrics'', ''/alerts''} then au_rows a2 = au_rows a1 \<and> au_log a2 = au_log a1
     else \<exists>x. ev_correlation x = correlation_of q (hw_uuid w) \<and> ev_result x = outcome_of (rp_status r) \<and>
       ev_actor_id x = map_option analyst_id (principal_for_audit c (dp_settings d) q (hw_now w)) \<and>
       ((\<exists>t. au_rows a2 = au_rows a1 @ [(x, t)]) \<and> au_log a2 = au_log a1 \<or>
        au_rows a2 = au_rows a1 \<and> (\<exists>f. au_log a2 = au_log a1 @ [(f, redact (event_json x))]))) \<and>
    (too_large q \<longrightarrow> rp_status ans = 413 \<and> s1 = s \<and> a1 = a)"
proof -
  let ?ans = "r\<lparr>rp_headers := AList.update ''x-correlation-id'' (correlation_of q (hw_uuid w)) (rp_headers r)\<rparr>"
  from answer_is_traced [OF assms] obtain a2 where
    run: "serve_request A c d pool q w app (s, a) = ((s1, a2), ?ans)"
    and tr: "if rq_path q \<in> set unaudited_paths then au_rows a2 = au_rows a1 \<and> au_log a2 = au_log a1
      else traced (audited_event c d q w (rp_status r) params) a1 a2"
    and n: "request_total q (dec_int (rp_status r)) a2 = request_total q (dec_int (rp_status r)) a1 + 1" by blast
  have big: "too_large q \<Longrightarrow> rp_status r = 413 \<and> s1 = s \<and> a1 = a"
    using assms(1) by (auto simp: request_size_limit_def answer_of_def)
  have "if rq_path q \<in> {''/healthz'', ''/readyz'', ''/metrics'', ''/alerts''} then au_rows a2 = au_rows a1 \<and> au_log a2 = au_log a1
     else \<exists>x. ev_correlation x = correlation_of q (hw_uuid w) \<and> ev_result x = outcome_of (rp_status r) \<and>
       ev_actor_id x = map_option analyst_id (principal_for_audit c (dp_settings d) q (hw_now w)) \<and>
       ((\<exists>t. au_rows a2 = au_rows a1 @ [(x, t)]) \<and> au_log a2 = au_log a1 \<or>
        au_rows a2 = au_rows a1 \<and> (\<exists>f. au_log a2 = au_log a1 @ [(f, redact (event_json x))]))"
  proof (cases "rq_path q \<in> set unaudited_paths")
    case True
    with tr show ?thesis by (simp add: unaudited_paths_def)
  next
    case False
    with tr obtain x where "same_event (audited_event c d q w (rp_status r) params) x"
      "(\<exists>t. au_rows a2 = au_rows a1 @ [(x, t)]) \<and> au_log a2 = au_log a1 \<or>
       au_rows a2 = au_rows a1 \<and> (\<exists>f. au_log a2 = au_log a1 @ [(f, redact (event_json x))])"
      by (auto simp: traced_def)
    with False show ?thesis by (auto simp: unaudited_paths_def same_event_def audited_event_def)
  qed
  with run n big show ?thesis
    by (intro exI [of _ a2] exI [of _ ?ans]) (simp add: update_Some_unfold)
qed

definition demo_deployment :: deployment where
  "demo_deployment = \<lparr>dp_settings = demo_settings, dp_database_url = None, dp_storage_path = None, dp_min_free = 0, dp_cors = []\<rparr>"

definition demo_http_request :: request where
  "demo_http_request = \<lparr>rq_method = ''GET'', rq_path = ''/cases'', rq_length = None, rq_correlation = Some ''cid'', rq_auth = []\<rparr>"

definition demo_http :: "int http_world" where
  "demo_http = \<lparr>hw_uuid = ''u'', hw_seconds = 1, hw_now = 3, hw_audit = demo_world ''a'' None\<rparr>"

definition denying_route :: "(nat \<times> int audit_state) endpoint" where
  "denying_route s = (s, Inr (answer_of 403 JNull, []))"

theorem every_answer_is_traced_witness:
  "\<exists>a2 ans x. serve_request demo_api demo_crypto demo_deployment False demo_http_request demo_http denying_route (0, no_audit) = ((0, a2), ans) \<and>
    rp_status ans = 403 \<and> map_of (rp_headers ans) ''x-correlation-id'' = Some ''cid'' \<and>
    ev_result (x :: audit_event) = ''denied'' \<and> ev_correlation x = ''cid'' \<and> request_total demo_http_request (dec_int 403) a2 = 1"
proof -
  have run: "request_size_limit demo_http_request denying_route (0, no_audit) = ((0, no_audit), Inr (answer_of 403 JNull, []))"
    by (simp add: request_size_limit_def too_large_def demo_http_request_def denying_route_def)
  have ok: "counters_ok (no_audit :: int audit_state)" and none: "request_total demo_http_request k (no_audit :: int audit_state) = 0" for k
    by (simp_all add: counters_ok_def request_total_def no_audit_def no_metrics_def counter_total_def)
  have id: "hw_uuid demo_http \<noteq> []" and path: "rq_path demo_http_request \<notin> {''/healthz'', ''/readyz'', ''/metrics'', ''/alerts''}"
    by (simp_all add: demo_http_def demo_http_request_def)
  from every_answer_is_traced [OF run ok id, of demo_api demo_crypto demo_deployment False]
  obtain a2 ans where a:
    "serve_request demo_api demo_crypto demo_deployment False demo_http_request demo_http denying_route (0, no_audit) = ((0, a2), ans)"
    "rp_status ans = rp_status (answer_of 403 JNull)"
    "map_of (rp_headers ans) ''x-correlation-id'' = Some (correlation_of demo_http_request (hw_uuid demo_http))"
    "request_total demo_http_request (dec_int (rp_status (answer_of 403 JNull))) a2 =
      request_total demo_http_request (dec_int (rp_status (answer_of 403 JNull))) (no_audit :: int audit_state) + 1"
    and x: "\<exists>x :: audit_event. ev_correlation x = correlation_of demo_http_request (hw_uuid demo_http) \<and> ev_result x = outcome_of (rp_status (answer_of 403 JNull))"
    unfolding if_not_P [OF path] by (elim exE conjE) (rule that, blast+)
  from x obtain x :: audit_event where x': "ev_correlation x = correlation_of demo_http_request (hw_uuid demo_http)"
    "ev_result x = outcome_of (rp_status (answer_of 403 JNull))" by blast
  have "correlation_of demo_http_request (hw_uuid demo_http) = ''cid''" "outcome_of 403 = ''denied''" "rp_status (answer_of 403 JNull) = 403"
    by (simp_all add: correlation_of_def demo_http_request_def outcome_of_def answer_of_def)
  with a x' show ?thesis by (intro exI [of _ a2] exI [of _ ans] exI [of _ x]) (simp add: none)
qed

end
