(* ===== verification/Api_Dev.thy ===== *)
theory Api_Dev
  imports Api_Auth Local_Runner Interop
begin

text \<open>
  The development-only routes of \<^verbatim>\<open>api.py\<close> besides the mail ones: the local runner's, the intake preview,
  the principal's, and the synthetic cases with the process-local store behind them.  They exist only
  outside of production.  Every route has the principal of the request as its caller; uuid4 and what
  processing a fixture did are arguments.
\<close>

section \<open>Errors of the runner\<close>

text \<open>\<^verbatim>\<open>str(exc)\<close> of an exception that is a \<^verbatim>\<open>ValueError\<close>, or one that is an \<^verbatim>\<open>OSError\<close>.\<close>

definition value_errors :: "string list" where
  "value_errors = [''ValueError'', ''ManifestError'', ''JSONDecodeError'', ''UnicodeDecodeError'']"

definition os_errors :: "string list" where
  "os_errors = [''OSError'', ''FileNotFoundError'', ''FileExistsError'', ''PermissionError'', ''IsADirectoryError'', ''NotADirectoryError'']"

definition raised_as :: "string list \<Rightarrow> runner_error \<Rightarrow> string option" where
  "raised_as names e = (case e of
     BadValue m \<Rightarrow> if ''ValueError'' \<in> set names then Some m else None
   | CorpusError n m \<Rightarrow> if n \<in> set names then Some m else None
   | KeyMissing k \<Rightarrow> None
   | StopIteration \<Rightarrow> None)"

definition crashed :: http_error where
  "crashed = Http 500 ''internal server error''"

text \<open>\<^verbatim>\<open>except (ValueError, OSError)\<close> of registration and submission.\<close>

definition fixture_error :: "runner_error \<Rightarrow> http_error" where
  "fixture_error e = (case raised_as (value_errors @ os_errors) e of Some m \<Rightarrow> Http 400 m | None \<Rightarrow> crashed)"

definition missing_job :: http_error where
  "missing_job = Http 404 ''job not found for authenticated tenant''"

definition status_error :: "runner_error \<Rightarrow> http_error" where
  "status_error e = (case e of KeyMissing k \<Rightarrow> missing_job | _ \<Rightarrow> crashed)"

definition review_error :: "runner_error \<Rightarrow> http_error" where
  "review_error e = (case e of KeyMissing k \<Rightarrow> missing_job
     | _ \<Rightarrow> (case raised_as value_errors e of Some m \<Rightarrow> Http 400 m | None \<Rightarrow> crashed))"

definition retry_error :: "runner_error \<Rightarrow> http_error" where
  "retry_error e = (case e of KeyMissing k \<Rightarrow> Http 409 ''job is not retryable for authenticated tenant'' | _ \<Rightarrow> crashed)"

definition on_error :: "('e \<Rightarrow> http_error) \<Rightarrow> 'e + 'a \<Rightarrow> http_error + 'a" where
  "on_error g r = (case r of Inl e \<Rightarrow> Inl (g e) | Inr x \<Rightarrow> Inr x)"

section \<open>State\<close>

record dev_case =
  dc_id :: string
  dc_title :: string
  dc_tenant :: string
  dc_created_by :: string

record dev_state =
  dv_runner :: runner
  dv_cases :: "(string \<times> dev_case list) list"
  dv_seq :: int

type_synonym dev_answer = "http_error + dict"

definition with_runner :: "(runner \<Rightarrow> runner \<times> 'a) \<Rightarrow> ('a \<Rightarrow> dev_answer) \<Rightarrow> dev_state \<Rightarrow> dev_state \<times> dev_answer" where
  "with_runner op answer s = (let (r, x) = op (dv_runner s) in (s\<lparr>dv_runner := r\<rparr>, answer x))"

section \<open>Runner routes\<close>

definition fixture_json :: "corpus_row \<Rightarrow> json" where
  "fixture_json r = JObj [(''fixture_id'', JStr (cr_fixture r)), (''class'', JStr (cr_class r)), (''scenario'', cr_scenario r),
     (''format'', JStr (cr_format r)), (''synthetic'', JBool True)]"

definition registration_json :: "registration \<Rightarrow> json" where
  "registration_json g = JObj [(''registration_id'', JStr (rg_id g)), (''fixture_id'', JStr (rg_fixture g)), (''class'', JStr (rg_class g)),
     (''scenario'', rg_scenario g), (''sha256'', JStr (rg_sha g)), (''status'', JStr ''registered''), (''synthetic'', JBool True)]"

definition runner_catalog :: "corpus \<Rightarrow> dev_state \<Rightarrow> dev_state \<times> dev_answer" where
  "runner_catalog c s = (s, r_bind (on_error (\<lambda>e. crashed) (catalog c)) (\<lambda>rows.
     Inr [(''synthetic'', JBool True), (''fixtures'', JList (map fixture_json rows)), (''tenant_scope'', JStr ''trusted-principal'')]))"

definition with_fixture :: "dict \<Rightarrow> (string \<Rightarrow> dev_state \<Rightarrow> dev_state \<times> dev_answer) \<Rightarrow> dev_state \<Rightarrow> dev_state \<times> dev_answer" where
  "with_fixture payload go s = (case dget payload ''fixture_id'' of JStr f \<Rightarrow> go f s | _ \<Rightarrow> (s, Inl (Http 400 ''fixture_id required'')))"

definition runner_register :: "corpus \<Rightarrow> dict \<Rightarrow> string \<Rightarrow> principal \<Rightarrow> dev_state \<Rightarrow> dev_state \<times> dev_answer" where
  "runner_register c payload uuid_hex p = with_fixture payload (\<lambda>f.
     with_runner (register_fixture c (tenant_id p) f uuid_hex) (\<lambda>r. r_bind (on_error fixture_error r) (\<lambda>g.
       Inr [(''registration'', registration_json g), (''synthetic'', JBool True)])))"

definition dev_job_answer :: "(runner_error \<Rightarrow> http_error) \<Rightarrow> runner_error + job \<Rightarrow> dev_answer" where
  "dev_job_answer g r = r_bind (on_error g r) (\<lambda>j. Inr (public_job j))"

definition runner_submit :: "corpus \<Rightarrow> dict \<Rightarrow> string \<Rightarrow> processing \<Rightarrow> principal \<Rightarrow> dev_state \<Rightarrow> dev_state \<times> dev_answer" where
  "runner_submit c payload uuid_hex q p = with_fixture payload (\<lambda>f.
     with_runner (submit_job c (tenant_id p) f uuid_hex q) (dev_job_answer fixture_error))"

definition runner_status :: "string \<Rightarrow> principal \<Rightarrow> dev_state \<Rightarrow> dev_state \<times> dev_answer" where
  "runner_status jid p = with_runner (get_job (tenant_id p) jid) (dev_job_answer status_error)"

text \<open>The decision is any JSON value: a list or an object is not hashable, and any other value that is not
  one of the two texts is refused.  The job is looked up first.\<close>

definition unhashable :: "json \<Rightarrow> bool" where
  "unhashable v = (case v of JObj d \<Rightarrow> True | JList xs \<Rightarrow> True | _ \<Rightarrow> False)"

definition decision_text :: "json \<Rightarrow> string" where
  "decision_text v = (case v of JStr t \<Rightarrow> t | _ \<Rightarrow> [])"

definition runner_review :: "string \<Rightarrow> dict \<Rightarrow> principal \<Rightarrow> dev_state \<Rightarrow> dev_state \<times> dev_answer" where
  "runner_review jid payload p s =
     (let v = dget_or payload ''decision'' (JStr []) in
      if unhashable v \<and> is_ok (own_job (tenant_id p) jid (dv_runner s)) then (s, Inl crashed)
      else with_runner (review_job (tenant_id p) jid (decision_text v)) (dev_job_answer review_error) s)"

definition runner_retry :: "corpus \<Rightarrow> string \<Rightarrow> processing \<Rightarrow> principal \<Rightarrow> dev_state \<Rightarrow> dev_state \<times> dev_answer" where
  "runner_retry c jid q p = with_runner (retry_job c (tenant_id p) jid q) (dev_job_answer retry_error)"

definition runner_teardown :: "principal \<Rightarrow> dev_state \<Rightarrow> dev_state \<times> dev_answer" where
  "runner_teardown p = with_runner (teardown (tenant_id p)) (\<lambda>n.
     Inr [(''status'', JStr ''torn_down''), (''synthetic'', JBool True), (''jobs_removed'', JInt (int n))])"

section \<open>Intake preview and principal\<close>

definition preview_error :: "ingest_error \<Rightarrow> http_error" where
  "preview_error e = (case e of Validation m \<Rightarrow> Http 400 m | Raised n \<Rightarrow> Http 400 (''preview failed: '' @ n))"

definition dev_ingest_preview :: "host \<Rightarrow> dict \<Rightarrow> principal \<Rightarrow> dev_answer" where
  "dev_ingest_preview h payload p =
     on_error preview_error
       (r_bind (idempotency_key h (JStr ''dev-shell'') (JStr ''in'') (JStr ''synthetic'') (JStr ''preview'') (JStr ''shell-1'') (JStr ''v1'')) (\<lambda>idem.
        r_bind (reject_secret_keys (JObj payload) ''payload'') (\<lambda>_.
          Inr [(''status'', JStr ''preview''), (''payload_sha256'', JStr (payload_sha256 h (JObj payload))), (''idempotency_key'', JStr idem),
            (''synthetic'', JBool True), (''tenant_id'', JStr (tenant_id p)),
            (''note'', JStr ''dev-only synthetic use of reviewed interop module (scoped to principal)'')])))"

definition principal_fields :: "principal \<Rightarrow> dict" where
  "principal_fields p = [(''tenant_id'', JStr (tenant_id p)), (''analyst_id'', JStr (analyst_id p)), (''is_synthetic'', JBool (is_synthetic p))]"

definition dev_principal :: "principal \<Rightarrow> dev_answer" where
  "dev_principal p = Inr (principal_fields p @ [(''note'', JStr ''explicitly synthetic dev-only principal seam (auth card will harden)'')])"

definition synthetic_whoami :: "principal \<Rightarrow> dev_answer" where
  "synthetic_whoami p = Inr (principal_fields p @ [(''note'', JStr (concat
     [''principal derived from trusted context seam only. '', ''Future Entra ID / OIDC adapter will validate tokens here '',
      ''and map claims to (tenant_id, analyst_id). '', ''Sensitive fields (raw emails, object ids, tokens) are never '',
      ''present in this interface or responses.'']))])"

section \<open>Synthetic cases\<close>

definition case_json :: "dev_case \<Rightarrow> json" where
  "case_json x = JObj [(''id'', JStr (dc_id x)), (''title'', JStr (dc_title x)), (''tenant_id'', JStr (dc_tenant x)), (''created_by'', JStr (dc_created_by x))]"

definition tenant_cases :: "string \<Rightarrow> dev_state \<Rightarrow> dev_case list" where
  "tenant_cases t s = (case map_of (dv_cases s) t of None \<Rightarrow> [] | Some xs \<Rightarrow> xs)"

definition next_case_id :: "dev_state \<Rightarrow> dev_state \<times> string" where
  "next_case_id s = (s\<lparr>dv_seq := dv_seq s + 1\<rparr>, ''case-'' @ dec_int (dv_seq s + 1))"

definition reset_dev_store :: "dev_state \<Rightarrow> dev_state" where
  "reset_dev_store s = s\<lparr>dv_cases := [], dv_seq := 0\<rparr>"

definition synthetic_list_cases :: "principal \<Rightarrow> dev_state \<Rightarrow> dev_state \<times> dev_answer" where
  "synthetic_list_cases p s =
     (let cases = tenant_cases (tenant_id p) s in
      (s, Inr [(''tenant_id'', JStr (tenant_id p)), (''cases'', JList (map case_json cases)), (''count'', JInt (int (length cases))),
        (''note'', JStr ''server-enforced scope from principal.tenant_id; caller-supplied tenant claims ignored'')]))"

definition synthetic_create_case :: "dict \<Rightarrow> principal \<Rightarrow> dev_state \<Rightarrow> dev_state \<times> dev_answer" where
  "synthetic_create_case payload p s =
     (case dget_or payload ''title'' (JStr ''untitled'') of
        JStr title \<Rightarrow>
          if strip title = [] then (s, Inl (Http 400 ''title required''))
          else (let (s1, cid) = next_case_id s;
                    x = \<lparr>dc_id = cid, dc_title = strip title, dc_tenant = tenant_id p, dc_created_by = analyst_id p\<rparr> in
                (s1\<lparr>dv_cases := AList.update (tenant_id p) (tenant_cases (tenant_id p) s1 @ [x]) (dv_cases s1)\<rparr>,
                 Inr [(''case'', case_json x), (''synthetic'', JBool True), (''note'', JStr ''scope from principal.tenant_id (body tenant ignored)'')]))
      | _ \<Rightarrow> (s, Inl (Http 400 ''title required'')))"

definition synthetic_get_case :: "string \<Rightarrow> principal \<Rightarrow> dev_state \<Rightarrow> dev_state \<times> dev_answer" where
  "synthetic_get_case cid p s = (s, case List.find (\<lambda>x. dc_id x = cid) (tenant_cases (tenant_id p) s) of
     None \<Rightarrow> Inl (Http 404 ''case not found for authenticated tenant'') | Some x \<Rightarrow> Inr [(''case'', case_json x)])"

section \<open>Routing\<close>

datatype dev_call =
    DevCatalog principal
  | DevRegister dict string principal
  | DevSubmit dict string processing principal
  | DevStatus string principal
  | DevReview string dict principal
  | DevRetry string processing principal
  | DevTeardown principal
  | DevPreview dict principal
  | DevPrincipal principal
  | DevWhoami principal
  | DevListCases principal
  | DevCreateCase dict principal
  | DevGetCase string principal

fun dev_caller :: "dev_call \<Rightarrow> principal" where
  "dev_caller (DevCatalog p) = p"
| "dev_caller (DevRegister d u p) = p"
| "dev_caller (DevSubmit d u q p) = p"
| "dev_caller (DevStatus j p) = p"
| "dev_caller (DevReview j d p) = p"
| "dev_caller (DevRetry j q p) = p"
| "dev_caller (DevTeardown p) = p"
| "dev_caller (DevPreview d p) = p"
| "dev_caller (DevPrincipal p) = p"
| "dev_caller (DevWhoami p) = p"
| "dev_caller (DevListCases p) = p"
| "dev_caller (DevCreateCase d p) = p"
| "dev_caller (DevGetCase i p) = p"

fun dev_route :: "host \<Rightarrow> corpus \<Rightarrow> dev_call \<Rightarrow> dev_state \<Rightarrow> dev_state \<times> dev_answer" where
  "dev_route h c (DevCatalog p) s = runner_catalog c s"
| "dev_route h c (DevRegister d u p) s = runner_register c d u p s"
| "dev_route h c (DevSubmit d u q p) s = runner_submit c d u q p s"
| "dev_route h c (DevStatus j p) s = runner_status j p s"
| "dev_route h c (DevReview j d p) s = runner_review j d p s"
| "dev_route h c (DevRetry j q p) s = runner_retry c j q p s"
| "dev_route h c (DevTeardown p) s = runner_teardown p s"
| "dev_route h c (DevPreview d p) s = (s, dev_ingest_preview h d p)"
| "dev_route h c (DevPrincipal p) s = (s, dev_principal p)"
| "dev_route h c (DevWhoami p) s = (s, synthetic_whoami p)"
| "dev_route h c (DevListCases p) s = synthetic_list_cases p s"
| "dev_route h c (DevCreateCase d p) s = synthetic_create_case d p s"
| "dev_route h c (DevGetCase i p) s = synthetic_get_case i p s"

text \<open>In production the routes are not registered.\<close>

definition dev_serve :: "settings \<Rightarrow> host \<Rightarrow> corpus \<Rightarrow> dev_call \<Rightarrow> dev_state \<Rightarrow> dev_state \<times> dev_answer" where
  "dev_serve st h c call s = (if se_env st = ''prod'' then (s, Inl (Http 404 ''Not Found'')) else dev_route h c call s)"

end
