(* ===== verification/Api_Dev_Correct.thy ===== *)
theory Api_Dev_Correct
  imports Api_Dev Runner_Correct "HOL-Library.Multiset"
begin

text \<open>
  What the development routes promise: outside of production only, every call reaches the runner as at most
  one call of its own tenant, so the runner's life cycle is kept; and the synthetic cases are filed under the
  tenant of their creator, with ids that no two cases of any tenants share.
\<close>

lemma with_runner_eq: "with_runner op answer s = (s\<lparr>dv_runner := fst (op (dv_runner s))\<rparr>, answer (snd (op (dv_runner s))))"
  by (simp add: with_runner_def split_beta)

section \<open>The runner behind the routes\<close>

text \<open>A route is at most one call of the runner, on behalf of the caller's tenant.\<close>

inductive runner_use :: "corpus \<Rightarrow> string \<Rightarrow> runner \<Rightarrow> runner \<Rightarrow> bool" where
  unused: "runner_use c t r r"
| used: "runner_tenant k = t \<Longrightarrow> runner_use c t r (fst (runner_step c k r))"

lemma runner_use_ok: "runner_use c t r r' \<Longrightarrow> runner_ok r \<Longrightarrow> runner_ok r'"
  by (induction rule: runner_use.induct) (auto intro: runner_step_ok)

lemma use_register: "runner_use c t r (fst (register_fixture c t f u r))"
  using runner_use.used [of "Register t f u" t c r] by (simp add: split_beta)

lemma use_submit: "runner_use c t r (fst (submit_job c t f u q r))"
  using runner_use.used [of "SubmitJob t f u q" t c r] by (simp add: split_beta)

lemma use_get: "runner_use c t r (fst (get_job t j r))"
  using runner_use.used [of "GetJob t j" t c r] by (simp add: split_beta)

lemma use_review: "runner_use c t r (fst (review_job t j d r))"
  using runner_use.used [of "ReviewJob t j d" t c r] by (simp add: split_beta)

lemma use_retry: "runner_use c t r (fst (retry_job c t j q r))"
  using runner_use.used [of "RetryJob t j q" t c r] by (simp add: split_beta)

lemma use_teardown: "runner_use c t r (fst (teardown t r))"
  using runner_use.used [of "Teardown t" t c r] by (simp add: split_beta)

lemmas uses = runner_use.unused use_register use_submit use_get use_review use_retry use_teardown

lemma create_runner: "dv_runner (fst (synthetic_create_case d p s)) = dv_runner s"
  by (simp add: synthetic_create_case_def next_case_id_def Let_def split: json.split)

lemma route_runner: "runner_use c (tenant_id (dev_caller call)) (dv_runner s) (dv_runner (fst (dev_route h c call s)))"
  by (cases call) (auto simp: runner_catalog_def runner_register_def runner_submit_def runner_status_def runner_review_def
      runner_retry_def runner_teardown_def with_fixture_def with_runner_eq Let_def synthetic_list_cases_def create_runner
      synthetic_get_case_def intro: uses split: json.split)

section \<open>The synthetic cases\<close>

definition all_cases :: "dev_state \<Rightarrow> dev_case list" where
  "all_cases s = concat (map snd (dv_cases s))"

definition cases_ok :: "dev_state \<Rightarrow> bool" where
  "cases_ok s = (0 \<le> dv_seq s \<and> dict_ok (dv_cases s) \<and> distinct (map dc_id (all_cases s)) \<and>
     (\<forall>e\<in>set (dv_cases s). \<forall>x\<in>set (snd e). dc_tenant x = fst e) \<and>
     (\<forall>x\<in>set (all_cases s). \<exists>k. 1 \<le> k \<and> k \<le> dv_seq s \<and> dc_id x = ''case-'' @ dec_int k))"

lemma concat_update:
  "mset (concat (map snd (AList.update t ((case map_of d t of None \<Rightarrow> [] | Some xs \<Rightarrow> xs) @ [x]) d))) =
     add_mset x (mset (concat (map snd d)))"
  by (induction d) auto

lemma update_memberD: "e \<in> set (AList.update t v d) \<Longrightarrow> e \<in> set d \<or> e = (t, v)"
  by (induction d) (auto split: if_splits)

lemma tenant_cases_own:
  assumes "cases_ok s" "y \<in> set (tenant_cases t s)"
  shows "dc_tenant y = t"
proof (cases "map_of (dv_cases s) t")
  case (Some xs)
  with assms(2) have "(t, xs) \<in> set (dv_cases s)" "y \<in> set xs" by (simp_all add: map_of_SomeD tenant_cases_def)
  with assms(1) show ?thesis by (force simp: cases_ok_def)
qed (use assms(2) in \<open>simp add: tenant_cases_def\<close>)

lemma cases_ok_create:
  assumes "cases_ok s" "strip title \<noteq> []" "dget_or payload ''title'' (JStr ''untitled'') = JStr title"
  shows "cases_ok (fst (synthetic_create_case payload p s))"
proof -
  let ?t = "tenant_id p"
  define x where "x = \<lparr>dc_id = ''case-'' @ dec_int (dv_seq s + 1), dc_title = strip title, dc_tenant = ?t, dc_created_by = analyst_id p\<rparr>"
  define s' where "s' = s\<lparr>dv_seq := dv_seq s + 1, dv_cases := AList.update ?t (tenant_cases ?t s @ [x]) (dv_cases s)\<rparr>"
  have s': "fst (synthetic_create_case payload p s) = s'"
    using assms by (simp add: synthetic_create_case_def next_case_id_def Let_def s'_def x_def tenant_cases_def)
  have m: "mset (all_cases s') = add_mset x (mset (all_cases s))"
    by (simp add: all_cases_def s'_def tenant_cases_def concat_update)
  then have set': "set (all_cases s') = insert x (set (all_cases s))"
    by (metis set_mset_add_mset_insert set_mset_mset)
  have fresh: "dc_id x \<noteq> dc_id y" if "y \<in> set (all_cases s)" for y
    using assms(1) that by (auto simp: cases_ok_def x_def dec_int_inject)
  have "mset (map dc_id (all_cases s')) = mset (map dc_id (x # all_cases s))" using m by simp
  then have "distinct (map dc_id (all_cases s')) = distinct (map dc_id (x # all_cases s))"
    by (rule mset_eq_imp_distinct_iff)
  then have ids: "distinct (map dc_id (all_cases s'))" using assms(1) fresh by (auto simp: cases_ok_def)
  have own: "\<forall>e\<in>set (dv_cases s'). \<forall>y\<in>set (snd e). dc_tenant y = fst e"
  proof
    fix e assume "e \<in> set (dv_cases s')"
    then have "e \<in> set (dv_cases s) \<or> e = (?t, tenant_cases ?t s @ [x])" by (auto simp: s'_def dest: update_memberD)
    moreover have "dc_tenant y = ?t" if "y \<in> set (tenant_cases ?t s)" for y using assms(1) that by (rule tenant_cases_own)
    ultimately show "\<forall>y\<in>set (snd e). dc_tenant y = fst e" using assms(1) by (auto simp: cases_ok_def x_def)
  qed
  have "\<exists>k. 1 \<le> k \<and> k \<le> dv_seq s' \<and> dc_id y = ''case-'' @ dec_int k" if "y \<in> set (all_cases s')" for y
  proof (cases "y = x")
    case True
    then show ?thesis using assms(1) by (intro exI [of _ "dv_seq s + 1"]) (simp add: x_def s'_def cases_ok_def)
  next
    case False
    with that set' assms(1) obtain k where "1 \<le> k" "k \<le> dv_seq s" "dc_id y = ''case-'' @ dec_int k"
      by (auto simp: cases_ok_def)
    then show ?thesis by (intro exI [of _ k]) (simp add: s'_def)
  qed
  with ids own assms(1) show ?thesis by (simp add: s' cases_ok_def) (simp add: s'_def dict_ok_update)
qed

lemma create_refused:
  assumes "\<not> (\<exists>title. dget_or payload ''title'' (JStr ''untitled'') = JStr title \<and> strip title \<noteq> [])"
  shows "synthetic_create_case payload p s = (s, Inl (Http 400 ''title required''))"
  using assms by (auto simp: synthetic_create_case_def split: json.split)

lemma create_ok: "cases_ok s \<Longrightarrow> cases_ok (fst (synthetic_create_case payload p s))"
  by (metis cases_ok_create create_refused fst_conv)

lemma cases_ok_runner [simp]: "cases_ok (s\<lparr>dv_runner := r\<rparr>) = cases_ok s"
  by (simp add: cases_ok_def all_cases_def)

lemma route_cases:
  "cases_ok s \<Longrightarrow> cases_ok (fst (dev_route h c call s))"
  by (cases call) (auto simp: runner_catalog_def runner_register_def runner_submit_def runner_status_def runner_review_def
      runner_retry_def runner_teardown_def with_fixture_def with_runner_eq Let_def synthetic_list_cases_def create_ok
      synthetic_get_case_def split: json.split)

definition dev_ok :: "dev_state \<Rightarrow> bool" where
  "dev_ok s = (runner_ok (dv_runner s) \<and> cases_ok s)"

lemma dev_serve_ok: "dev_ok s \<Longrightarrow> dev_ok (fst (dev_serve st h c call s))"
  using runner_use_ok [OF route_runner] route_cases by (auto simp: dev_ok_def dev_serve_def)

definition empty_dev :: dev_state where
  "empty_dev = \<lparr>dv_runner = \<lparr>rn_jobs = [], rn_registrations = [], rn_dirs = []\<rparr>, dv_cases = [], dv_seq = 0\<rparr>"

lemma empty_dev_ok: "dev_ok empty_dev"
  by (simp add: dev_ok_def empty_dev_def runner_ok_def cases_ok_def all_cases_def)

text \<open>After any run of development routes the runner's jobs are settled, the synthetic cases have distinct ids
  across all tenants, and each is filed under the tenant it names.\<close>

theorem dev_runs_keep_order: "dev_ok (fst (run_ops (dev_serve st h c) calls empty_dev))"
  by (rule run_ops_invariant [of dev_ok]) (simp_all add: dev_serve_ok empty_dev_ok)

text \<open>A case is read by its own tenant only.\<close>

lemma case_read_is_own:
  assumes "cases_ok s" "synthetic_get_case cid p s = (s', Inr d)"
  shows "\<exists>x\<in>set (all_cases s). d = [(''case'', case_json x)] \<and> dc_id x = cid \<and> dc_tenant x = tenant_id p"
proof -
  obtain x where f: "List.find (\<lambda>x. dc_id x = cid) (tenant_cases (tenant_id p) s) = Some x" and d: "d = [(''case'', case_json x)]"
    using assms(2) by (auto simp: synthetic_get_case_def split: option.splits)
  from f have x: "x \<in> set (tenant_cases (tenant_id p) s)" "dc_id x = cid" by (auto simp: find_Some_iff)
  then obtain xs where m: "map_of (dv_cases s) (tenant_id p) = Some xs" and xm: "x \<in> set xs"
    by (cases "map_of (dv_cases s) (tenant_id p)") (auto simp: tenant_cases_def)
  from map_of_SomeD [OF m] xm have xs: "(tenant_id p, xs) \<in> set (dv_cases s)" "x \<in> set xs" .
  then have "x \<in> set (all_cases s)" by (force simp: all_cases_def)
  moreover have "dc_tenant x = tenant_id p" using assms(1) x(1) by (rule tenant_cases_own)
  ultimately show ?thesis using d x by blast
qed

text \<open>No route of one tenant changes the cases of another.\<close>

lemma foreign_cases_stay:
  "tenant_id (dev_caller call) \<noteq> t \<Longrightarrow> tenant_cases t (fst (dev_route h c call s)) = tenant_cases t s"
  by (cases call) (auto simp: runner_catalog_def runner_register_def runner_submit_def runner_status_def runner_review_def
      runner_retry_def runner_teardown_def with_fixture_def with_runner_eq Let_def synthetic_list_cases_def
      synthetic_create_case_def next_case_id_def synthetic_get_case_def tenant_cases_def dict_get_update split: json.split)

lemma demo_title: "strip ''untitled'' = ''untitled''"
  by (simp add: strip_def is_ws_def)

text \<open>The ids are drawn from one counter, so the id a tenant is given tells how many cases all others made.\<close>

lemma case_ids_tell_of_others:
  assumes "tenant_id p \<noteq> tenant_id q"
  shows "\<exists>s s'. tenant_cases (tenant_id p) s = tenant_cases (tenant_id p) s' \<and>
    s' = fst (synthetic_create_case [] q s) \<and> snd (synthetic_create_case [] p s) \<noteq> snd (synthetic_create_case [] p s')"
proof (intro exI conjI)
  show "tenant_cases (tenant_id p) empty_dev = tenant_cases (tenant_id p) (fst (synthetic_create_case [] q empty_dev))"
    using foreign_cases_stay [of "DevCreateCase [] q"] assms by simp
  show "snd (synthetic_create_case [] p empty_dev) \<noteq> snd (synthetic_create_case [] p (fst (synthetic_create_case [] q empty_dev)))"
    by (simp add: synthetic_create_case_def next_case_id_def Let_def dget_or_def case_json_def empty_dev_def demo_title dec_int_inject)
qed simp

section \<open>Errors\<close>

text \<open>A retry of an owned job that has failed ends in a server error when its corpus no longer verifies, and the
  attempt stays counted.\<close>

lemma retry_on_a_broken_corpus:
  assumes "own_job (tenant_id p) jid (dv_runner s) = Inr j" "jb_status j = ''error''" "co_verified c (jb_fixture j) = Inl (''ManifestError'', m)"
  shows "snd (runner_retry c jid q p s) = Inl crashed \<and>
    map_of (rn_jobs (dv_runner (fst (runner_retry c jid q p s)))) jid = Some (j\<lparr>jb_attempt := jb_attempt j + 1\<rparr>)"
  using assms by (simp add: runner_retry_def with_runner_eq retry_job_def manifest_row_def dev_job_answer_def on_error_def retry_error_def
      dict_get_update)

lemma production_has_no_dev_routes: "se_env st = ''prod'' \<Longrightarrow> dev_serve st h c call s = (s, Inl (Http 404 ''Not Found''))"
  by (simp add: dev_serve_def)

end
