(* ===== verification/Tools_Check.thy ===== *)
theory Tools_Check
  imports Json
begin

text \<open>
  \<^verbatim>\<open>tools/check-forensic-tools.py\<close>: the manifest of the forensic tools, validated as a whole before the
  artifact of a tool is compared with its pinned digest.  Reading the manifest and the artifact, the JSON
  reader, SHA-256 and the comparison of a float with 1 are parameters; names are compared as JSON values.
  An exception that \<^verbatim>\<open>main\<close> catches is \<open>Caught\<close> with its text, any other \<open>Escaped\<close>.
\<close>

datatype tool_exc = Caught string | Escaped string

record tool_lib =
  tl_manifest :: "string + string"
  tl_loads :: "string \<Rightarrow> json option"
  tl_float_one :: "string \<Rightarrow> bool"
  tl_sha :: "string \<Rightarrow> string"
  tl_read :: "string \<Rightarrow> string + string"

definition tool_statuses :: "string list" where
  "tool_statuses = [''available'', ''unavailable-unpinned'', ''excluded-license-review'']"

definition tool_fields :: "string list" where
  "tool_fields = [''name'', ''status'', ''source'', ''artifact_sha256'', ''license_notice'', ''container_image'', ''capabilities'',
     ''network_policy'', ''mounts'', ''golden_smoke_test'']"

definition missing_fields :: "dict \<Rightarrow> string list" where
  "missing_fields t = sort (filter (\<lambda>k. \<not> has_key t k) tool_fields)"

definition is_one :: "tool_lib \<Rightarrow> json \<Rightarrow> bool" where
  "is_one L v = (case v of JInt i \<Rightarrow> i = 1 | JBool b \<Rightarrow> b | JFloat r \<Rightarrow> tl_float_one L r | _ \<Rightarrow> False)"

definition as_object :: "json \<Rightarrow> tool_exc + dict" where
  "as_object v = (case v of JObj d \<Rightarrow> Inr d | _ \<Rightarrow> Inl (Escaped ''AttributeError''))"

definition hashed :: "json \<Rightarrow> tool_exc + unit" where
  "hashed v = (case v of JObj d \<Rightarrow> Inl (Escaped ''TypeError'') | JList xs \<Rightarrow> Inl (Escaped ''TypeError'') | _ \<Rightarrow> Inr ())"

definition lower_sha :: "string \<Rightarrow> bool" where
  "lower_sha s = (length s = 64 \<and> list_all (\<lambda>c. c \<in> set ''0123456789abcdef'') s)"

definition tool_digest_ok :: "json \<Rightarrow> tool_exc + bool" where
  "tool_digest_ok v = (case v of JNull \<Rightarrow> Inr True | JStr s \<Rightarrow> Inr (lower_sha s) | _ \<Rightarrow> Inl (Escaped ''TypeError''))"

text \<open>\<^verbatim>\<open>"@sha256:" in (container_image or "")\<close>.\<close>

definition image_pinned :: "json \<Rightarrow> tool_exc + bool" where
  "image_pinned v = (case py_or v (JStr []) of
     JStr s \<Rightarrow> Inr (contains ''@sha256:'' s)
   | JList xs \<Rightarrow> Inr (JStr ''@sha256:'' \<in> set xs)
   | JObj d \<Rightarrow> Inr (has_key d ''@sha256:'')
   | _ \<Rightarrow> Inl (Escaped ''TypeError''))"

definition tool_pinned :: "dict \<Rightarrow> tool_exc + bool" where
  "tool_pinned t =
     (if \<not> truthy (dget t ''version'') \<or> \<not> truthy (dget t ''artifact'') \<or> \<not> truthy (dget t ''artifact_sha256'') then Inr False
      else image_pinned (dget t ''container_image''))"

definition tool_message :: "dict \<Rightarrow> string \<Rightarrow> string" where
  "tool_message t m = py_str (dget t ''name'') @ '': '' @ m"

text \<open>One round of the loop of \<^verbatim>\<open>load\<close>, on the names before this tool; it answers the name.\<close>

definition check_tool :: "json list \<Rightarrow> json \<Rightarrow> tool_exc + json" where
  "check_tool names v =
     r_bind (case v of JObj t \<Rightarrow> Inr t | _ \<Rightarrow> Inl (Escaped ''AttributeError'')) (\<lambda>t.
     r_bind (r_guard (missing_fields t = [])
       (Caught (py_str (dget_or t ''name'' (JStr ''<unnamed>'')) @ '': missing '' @ py_repr (JList (map JStr (missing_fields t)))))) (\<lambda>_.
     r_bind (hashed (dget t ''name'')) (\<lambda>_.
     r_bind (r_guard (dget t ''name'' \<notin> set names) (Caught (''duplicate tool: '' @ py_str (dget t ''name'')))) (\<lambda>_.
     r_bind (hashed (dget t ''status'')) (\<lambda>_.
     r_bind (r_guard (dget t ''status'' \<in> JStr ` set tool_statuses)
       (Caught (tool_message t (''unsupported status '' @ py_repr (dget t ''status''))))) (\<lambda>_.
     r_bind (r_guard (dget t ''network_policy'' = JStr ''none'') (Caught (tool_message t ''forensic tools must use network_policy=none''))) (\<lambda>_.
     r_bind (as_object (dget t ''mounts'')) (\<lambda>m.
     r_bind (r_guard (dget m ''input'' = JStr ''/input:ro'' \<and> dget m ''output'' = JStr ''/output:rw'')
       (Caught (tool_message t ''invalid evidence mount policy''))) (\<lambda>_.
     r_bind (tool_digest_ok (dget t ''artifact_sha256'')) (\<lambda>good.
     r_bind (r_guard good (Caught (tool_message t ''artifact_sha256 must be lowercase SHA-256''))) (\<lambda>_.
     r_bind (if dget t ''status'' = JStr ''available'' then tool_pinned t else Inr True) (\<lambda>pinned.
     r_bind (r_guard pinned (Caught (tool_message t ''available tool is not pinned''))) (\<lambda>_.
       Inr (dget t ''name''))))))))))))))"

fun check_tools :: "json list \<Rightarrow> json list \<Rightarrow> tool_exc + unit" where
  "check_tools names [] = Inr ()"
| "check_tools names (v # vs) = r_bind (check_tool names v) (\<lambda>n. check_tools (names @ [n]) vs)"

text \<open>\<^verbatim>\<open>load\<close>: the tools of a valid manifest.\<close>

definition load_tools :: "tool_lib \<Rightarrow> tool_exc + json list" where
  "load_tools L =
     (case tl_manifest L of Inl e \<Rightarrow> Inl (Caught e)
      | Inr text \<Rightarrow> (case tl_loads L text of None \<Rightarrow> Inl (Caught ''JSONDecodeError'')
          | Some v \<Rightarrow> r_bind (as_object v) (\<lambda>d.
              (case dget d ''tools'' of
                 JList tools \<Rightarrow> if is_one L (dget d ''schema_version'') then r_bind (check_tools [] tools) (\<lambda>_. Inr tools)
                   else Inl (Caught ''invalid forensic-tool manifest schema'')
               | _ \<Rightarrow> Inl (Caught ''invalid forensic-tool manifest schema'')))))"

definition not_approved :: "string \<Rightarrow> json \<Rightarrow> tool_exc" where
  "not_approved name status = Caught (name @ '': unsupported ('' @ py_str status @ ''); no executable artifact is approved'')"

definition verify_artifact :: "tool_lib \<Rightarrow> dict \<Rightarrow> string \<Rightarrow> tool_exc + unit" where
  "verify_artifact L t artifact =
     r_bind (r_guard (dget t ''status'' = JStr ''available'' \<and> truthy (dget t ''artifact_sha256''))
       (not_approved (py_str (dget t ''name'')) (dget t ''status''))) (\<lambda>_.
     case tl_read L artifact of Inl e \<Rightarrow> Inl (Caught e)
     | Inr b \<Rightarrow> r_guard (JStr (tl_sha L b) = dget t ''artifact_sha256'') (Caught (tool_message t ''artifact SHA-256 mismatch'')))"

text \<open>The tools of a valid manifest are objects.\<close>

definition object_fields :: "json \<Rightarrow> dict" where
  "object_fields v = (case v of JObj d \<Rightarrow> d | _ \<Rightarrow> [])"

text \<open>\<^verbatim>\<open>main\<close>, on the arguments \<^verbatim>\<open>--tool\<close> and \<^verbatim>\<open>--artifact\<close>: the number of tools of the line it prints, or
  what made it fail.\<close>

definition tools_main :: "tool_lib \<Rightarrow> string option \<Rightarrow> string option \<Rightarrow> tool_exc + nat" where
  "tools_main L tool artifact =
     r_bind (load_tools L) (\<lambda>tools.
     r_bind (case tool of None \<Rightarrow> Inr ()
       | Some name \<Rightarrow> if name = [] then Inr () else
          (case List.find (\<lambda>v. dget (object_fields v) ''name'' = JStr name) tools of
             None \<Rightarrow> Inl (Caught (''unknown forensic tool: '' @ name))
           | Some v \<Rightarrow> (case artifact of None \<Rightarrow> Inl (not_approved name (dget (object_fields v) ''status''))
               | Some a \<Rightarrow> verify_artifact L (object_fields v) a))) (\<lambda>_.
       Inr (length tools)))"

section \<open>What a pass means\<close>

text \<open>A tool that passed the checks.\<close>

definition tool_ok :: "dict \<Rightarrow> bool" where
  "tool_ok t = (missing_fields t = [] \<and> dget t ''status'' \<in> JStr ` set tool_statuses \<and> dget t ''network_policy'' = JStr ''none'' \<and>
     (\<exists>m. dget t ''mounts'' = JObj m \<and> dget m ''input'' = JStr ''/input:ro'' \<and> dget m ''output'' = JStr ''/output:rw'') \<and>
     (dget t ''status'' = JStr ''available'' \<longrightarrow>
        (\<exists>s. dget t ''artifact_sha256'' = JStr s \<and> lower_sha s) \<and> image_pinned (dget t ''container_image'') = Inr True))"

lemma tool_digest_text: "tool_digest_ok v = Inr True \<Longrightarrow> truthy v \<Longrightarrow> \<exists>s. v = JStr s \<and> lower_sha s"
  by (cases v) (auto simp: tool_digest_ok_def)

lemma as_object_Inr: "as_object v = Inr m \<longleftrightarrow> v = JObj m"
  by (cases v) (auto simp: as_object_def)

lemma check_tool_Inr:
  assumes "check_tool names v = Inr n"
  shows "\<exists>t. v = JObj t \<and> tool_ok t \<and> n = dget t ''name'' \<and> n \<notin> set names"
proof -
  from assms obtain t where v: "v = JObj t" by (cases v) (auto simp: check_tool_def)
  with assms obtain m pinned where f: "missing_fields t = []" "dget t ''status'' \<in> JStr ` set tool_statuses"
    "dget t ''network_policy'' = JStr ''none''" "dget t ''mounts'' = JObj m" "dget m ''input'' = JStr ''/input:ro''"
    "dget m ''output'' = JStr ''/output:rw''" "tool_digest_ok (dget t ''artifact_sha256'') = Inr True"
    "(if dget t ''status'' = JStr ''available'' then tool_pinned t else Inr True) = Inr True"
    and n: "n = dget t ''name''" "n \<notin> set names"
    by (auto simp: check_tool_def wb_result as_object_Inr)
  have "(\<exists>s. dget t ''artifact_sha256'' = JStr s \<and> lower_sha s) \<and> image_pinned (dget t ''container_image'') = Inr True"
    if "dget t ''status'' = JStr ''available''"
    using f(7,8) that tool_digest_text by (auto simp: tool_pinned_def split: if_splits)
  with f v n show ?thesis by (auto simp: tool_ok_def)
qed

definition tool_name :: "json \<Rightarrow> json" where
  "tool_name v = dget (object_fields v) ''name''"

lemma check_tools_Inr:
  "check_tools names vs = Inr u \<Longrightarrow> distinct names \<Longrightarrow>
    (\<forall>v\<in>set vs. \<exists>t. v = JObj t \<and> tool_ok t) \<and> distinct (names @ map tool_name vs)"
proof (induction names vs rule: check_tools.induct)
  case (2 names v vs)
  then obtain n where n: "check_tool names v = Inr n" "check_tools (names @ [n]) vs = Inr u" by (auto simp: wb_result)
  from check_tool_Inr [OF n(1)] obtain t where t: "v = JObj t" "tool_ok t" "n = dget t ''name''" "n \<notin> set names" by blast
  with "2.IH" [OF n(2)] "2.prems"(2) show ?case by (auto simp: tool_name_def object_fields_def)
qed simp

lemma load_tools_Inr:
  assumes "load_tools L = Inr tools"
  shows "(\<forall>v\<in>set tools. \<exists>t. v = JObj t \<and> tool_ok t) \<and> distinct (map tool_name tools)"
proof -
  from assms obtain src v d where "tl_manifest L = Inr src" "tl_loads L src = Some v" and v: "as_object v = Inr d"
    by (auto simp: load_tools_def wb_result split: sum.splits option.splits)
  with assms have "check_tools [] tools = Inr ()"
    by (cases "dget d ''tools''") (auto simp: load_tools_def wb_result split: if_splits)
  from check_tools_Inr [OF this] show ?thesis by simp
qed

text \<open>An artifact is approved only for an available tool of a wholly valid manifest, whose entry pins an image by
  digest, keeps the network out, mounts the evidence read-only, and names the artifact's own SHA-256.\<close>

theorem approved_artifact_is_pinned:
  assumes "tools_main L (Some name) (Some a) = Inr n" "name \<noteq> []"
  shows "\<exists>t b. dget t ''name'' = JStr name \<and> tool_ok t \<and> dget t ''status'' = JStr ''available'' \<and>
    tl_read L a = Inr b \<and> dget t ''artifact_sha256'' = JStr (tl_sha L b) \<and> lower_sha (tl_sha L b)"
proof -
  from assms obtain tools v where load: "load_tools L = Inr tools"
    and found: "List.find (\<lambda>v. dget (object_fields v) ''name'' = JStr name) tools = Some v"
    and ok: "verify_artifact L (object_fields v) a = Inr ()"
    by (auto simp: tools_main_def wb_result split: option.splits)
  from found have v: "v \<in> set tools" "dget (object_fields v) ''name'' = JStr name" by (auto simp: find_Some_iff)
  with load_tools_Inr [OF load] obtain t where t: "v = JObj t" "tool_ok t" by blast
  with ok obtain b where b: "dget t ''status'' = JStr ''available''" "tl_read L a = Inr b" "dget t ''artifact_sha256'' = JStr (tl_sha L b)"
    by (auto simp: verify_artifact_def object_fields_def wb_result split: sum.splits)
  with t have "lower_sha (tl_sha L b)" by (auto simp: tool_ok_def)
  with b t v show ?thesis by (auto simp: object_fields_def)
qed

text \<open>Without an artifact no tool is approved.\<close>

lemma no_artifact_no_approval: "name \<noteq> [] \<Longrightarrow> \<exists>e. tools_main L (Some name) None = Inl e"
  by (cases "load_tools L") (auto simp: tools_main_def split: option.splits)

text \<open>Mounts beside the two that are looked at are not.\<close>

lemma extra_mounts_pass:
  "check_tool [] (JObj [(''name'', JStr ''t''), (''status'', JStr ''excluded-license-review''), (''source'', JNull), (''artifact_sha256'', JNull),
     (''license_notice'', JNull), (''container_image'', JNull), (''capabilities'', JNull), (''network_policy'', JStr ''none''),
     (''mounts'', JObj [(''input'', JStr ''/input:ro''), (''output'', JStr ''/output:rw''), (''host'', JStr ''/:rw'')]), (''golden_smoke_test'', JNull)]) =
   Inr (JStr ''t'')"
  by code_simp

end
