(* ===== verification/Db_Bootstrap.thy ===== *)
theory Db_Bootstrap
  imports Timeline_Flags
begin

text \<open>
  The migrations as \<^verbatim>\<open>db.py\<close> applies them: which tables of the schema \<^verbatim>\<open>dfir\<close> exist, the statements of the
  four files under \<^verbatim>\<open>migrations/\<close> that create tables, and the functions that run them.  A file is one
  transaction (\<^verbatim>\<open>BEGIN\<close> to \<^verbatim>\<open>COMMIT\<close>); an index comes and goes with its table.  The columns and constraints of
  the tables are those of the repositories' theories.
\<close>

record db_schema =
  sc_present :: bool
  sc_tables :: "string list"
  sc_analysts :: "(string \<times> string \<times> string) list"

text \<open>\<^verbatim>\<open>CREATE TABLE\<close>: its name, whether it says \<^verbatim>\<open>IF NOT EXISTS\<close>, and the table a foreign key refers to.\<close>

record create_table =
  ct_table :: string
  ct_if_missing :: bool
  ct_refers :: "string option"

definition run_create :: "create_table \<Rightarrow> db_schema \<Rightarrow> repo_error + db_schema" where
  "run_create t s =
     (if \<not> sc_present s then Inl (DatabaseError ''InvalidSchemaName'')
      else if ct_table t \<in> set (sc_tables s) then (if ct_if_missing t then Inr s else Inl (DatabaseError ''DuplicateTable''))
      else if (case ct_refers t of None \<Rightarrow> False | Some r \<Rightarrow> r \<notin> set (sc_tables s)) then Inl (DatabaseError ''UndefinedTable'')
      else Inr (s\<lparr>sc_tables := sc_tables s @ [ct_table t]\<rparr>))"

fun run_script :: "create_table list \<Rightarrow> db_schema \<Rightarrow> repo_error + db_schema" where
  "run_script [] s = Inr s"
| "run_script (t # ts) s = r_bind (run_create t s) (run_script ts)"

definition migration_0001 :: "create_table list" where
  "migration_0001 = [\<lparr>ct_table = ''timeline_entry_flag'', ct_if_missing = False, ct_refers = Some ''analyst''\<rparr>]"

definition migration_0002 :: "create_table list" where
  "migration_0002 = [\<lparr>ct_table = ''ingest_envelope'', ct_if_missing = False, ct_refers = Some ''analyst''\<rparr>]"

definition migration_0003 :: "create_table list" where
  "migration_0003 = map (\<lambda>n. \<lparr>ct_table = n, ct_if_missing = True, ct_refers = None\<rparr>) [''case_record'', ''evidence_metadata'', ''finding'']"

definition migration_0004 :: "create_table list" where
  "migration_0004 = [\<lparr>ct_table = ''audit_event'', ct_if_missing = False, ct_refers = None\<rparr>]"

text \<open>The directory of migrations in lexical order of the names.\<close>

definition migrations :: "(string \<times> create_table list) list" where
  "migrations = [(''0001_create_timeline_entry_flags.sql'', migration_0001), (''0002_create_ingest_envelopes.sql'', migration_0002),
     (''0003_create_api_resources.sql'', migration_0003), (''0004_create_audit_events.sql'', migration_0004)]"

datatype boot_error = FileMissing | Sql repo_error

text \<open>Each file is committed by itself: what ran before a failure stays.\<close>

fun apply_files :: "(string \<times> create_table list) list \<Rightarrow> string list \<Rightarrow> db_schema \<Rightarrow> db_schema \<times> (boot_error + string list)" where
  "apply_files [] applied s = (s, Inr applied)"
| "apply_files ((n, sql) # rest) applied s =
     (case run_script sql s of Inl e \<Rightarrow> (s, Inl (Sql e)) | Inr s' \<Rightarrow> apply_files rest (applied @ [n]) s')"

text \<open>\<^verbatim>\<open>apply_migrations\<close>, on the files of its directory, if that exists.\<close>

definition apply_migrations :: "(string \<times> create_table list) list option \<Rightarrow> db_schema \<Rightarrow> db_schema \<times> (boot_error + string list)" where
  "apply_migrations dir s = (case dir of
     None \<Rightarrow> (s, Inl FileMissing) | Some files \<Rightarrow> apply_files (sort_key fst files) [] s)"

definition ensure_schema :: "db_schema \<Rightarrow> db_schema" where
  "ensure_schema s = s\<lparr>sc_present := True,
     sc_tables := (if ''analyst'' \<in> set (sc_tables s) then sc_tables s else sc_tables s @ [''analyst''])\<rparr>"

definition migration_targets :: "(string \<times> string) list" where
  "migration_targets = [(''0001_create_timeline_entry_flags.sql'', ''timeline_entry_flag''), (''0002_create_ingest_envelopes.sql'', ''ingest_envelope''),
     (''0003_create_api_resources.sql'', ''case_record''), (''0004_create_audit_events.sql'', ''audit_event'')]"

fun apply_missing :: "(string \<Rightarrow> create_table list option) \<Rightarrow> (string \<times> string) list \<Rightarrow> string list \<Rightarrow> db_schema \<Rightarrow> db_schema \<times> (boot_error + string list)" where
  "apply_missing dir [] applied s = (s, Inr applied)"
| "apply_missing dir ((n, table) # rest) applied s =
     (if table \<in> set (sc_tables s) then apply_missing dir rest applied s
      else (case dir n of
          None \<Rightarrow> (s, Inl FileMissing)
        | Some sql \<Rightarrow> (case run_script sql s of Inl e \<Rightarrow> (s, Inl (Sql e)) | Inr s' \<Rightarrow> apply_missing dir rest (applied @ [n]) s')))"

definition ensure_dev_schema_and_migrations :: "(string \<Rightarrow> create_table list option) \<Rightarrow> db_schema \<Rightarrow> db_schema \<times> (boot_error + string list)" where
  "ensure_dev_schema_and_migrations dir s = apply_missing dir migration_targets [] (ensure_schema s)"

definition setup_clean_test_schema :: "db_schema \<Rightarrow> db_schema" where
  "setup_clean_test_schema s = \<lparr>sc_present = True, sc_tables = [''analyst''], sc_analysts = []\<rparr>"

text \<open>\<^verbatim>\<open>INSERT \<dots> ON CONFLICT DO NOTHING\<close>, with the casts to uuid.\<close>

definition analyst_pkey :: "string \<times> string \<times> string \<Rightarrow> string \<times> string" where
  "analyst_pkey r = (fst r, fst (snd r))"

definition ensure_test_analyst :: "pg \<Rightarrow> principal \<Rightarrow> string option \<Rightarrow> db_schema \<Rightarrow> db_schema \<times> (repo_error + unit)" where
  "ensure_test_analyst g p name s =
     (if \<not> is_uuid (tenant_id p) \<or> \<not> is_uuid (analyst_id p) then (s, Inr ())
      else if ''analyst'' \<notin> set (sc_tables s) then (s, Inl (DatabaseError ''UndefinedTable''))
      else (case r_bind (uuid_column g (tenant_id p)) (\<lambda>t. r_bind (uuid_column g (analyst_id p)) (\<lambda>a. Inr (t, a))) of
          Inl e \<Rightarrow> (s, Inl e)
        | Inr (t, a) \<Rightarrow> (s\<lparr>sc_analysts := insert_or_ignore analyst_pkey
              (t, a, (case name of None \<Rightarrow> analyst_id p | Some n \<Rightarrow> if n = [] then analyst_id p else n)) (sc_analysts s)\<rparr>, Inr ())))"

section \<open>The bootstrap\<close>

definition all_tables :: "string list" where
  "all_tables = [''timeline_entry_flag'', ''ingest_envelope'', ''case_record'', ''evidence_metadata'', ''finding'', ''audit_event'']"

text \<open>A schema this program made: the three tables of 0003 come together.\<close>

definition made_whole :: "db_schema \<Rightarrow> bool" where
  "made_whole s = (''case_record'' \<in> set (sc_tables s) \<longrightarrow> {''evidence_metadata'', ''finding''} \<subseteq> set (sc_tables s))"

lemma ensure_schema_tables: "set (sc_tables (ensure_schema s)) = insert ''analyst'' (set (sc_tables s))" "sc_present (ensure_schema s)"
  by (auto simp: ensure_schema_def)

lemma run_create_new:
  assumes "sc_present s" "ct_if_missing t \<or> ct_table t \<notin> set (sc_tables s)" "\<And>r. ct_refers t = Some r \<Longrightarrow> r \<in> set (sc_tables s)"
  shows "\<exists>s'. run_create t s = Inr s' \<and> sc_present s' \<and> set (sc_tables s') = insert (ct_table t) (set (sc_tables s))"
  using assms by (cases "ct_refers t") (auto simp: run_create_def)

lemma run_script_new:
  assumes "sc_present s" "\<forall>t\<in>set ts. ct_if_missing t \<or> ct_table t \<notin> set (sc_tables s)" "distinct (map ct_table ts)"
    "\<forall>t\<in>set ts. \<forall>r. ct_refers t = Some r \<longrightarrow> r \<in> set (sc_tables s)"
  shows "\<exists>s'. run_script ts s = Inr s' \<and> sc_present s' \<and> set (sc_tables s') = set (sc_tables s) \<union> ct_table ` set ts"
  using assms
proof (induction ts arbitrary: s)
  case (Cons t ts)
  from Cons.prems obtain s1 where s1: "run_create t s = Inr s1" "sc_present s1" "set (sc_tables s1) = insert (ct_table t) (set (sc_tables s))"
    using run_create_new [of s t] by auto
  have "\<exists>s'. run_script ts s1 = Inr s' \<and> sc_present s' \<and> set (sc_tables s') = set (sc_tables s1) \<union> ct_table ` set ts"
    by (rule Cons.IH) (use s1 Cons.prems in \<open>auto simp: image_iff\<close>)
  with s1 show ?case by auto
qed simp

text \<open>The file of a target creates it, refers to the analysts only, creates no other target, and meets no table
  it could not skip when the target is missing.\<close>

definition file_ok :: "(string \<Rightarrow> create_table list option) \<Rightarrow> string set \<Rightarrow> string \<times> string \<Rightarrow> bool" where
  "file_ok dir targets nt = (\<exists>sql. dir (fst nt) = Some sql \<and> snd nt \<in> ct_table ` set sql \<and> distinct (map ct_table sql) \<and>
     ct_table ` set sql \<inter> targets \<subseteq> {snd nt} \<and>
     (\<forall>t\<in>set sql. (ct_if_missing t \<or> ct_table t = snd nt) \<and> (ct_refers t = None \<or> ct_refers t = Some ''analyst'')))"

definition created :: "(string \<Rightarrow> create_table list option) \<Rightarrow> string \<times> string \<Rightarrow> string set" where
  "created dir nt = (case dir (fst nt) of None \<Rightarrow> {} | Some sql \<Rightarrow> ct_table ` set sql)"

definition missing_targets :: "db_schema \<Rightarrow> (string \<times> string) list \<Rightarrow> (string \<times> string) list" where
  "missing_targets s todo = filter (\<lambda>nt. snd nt \<notin> set (sc_tables s)) todo"

lemma apply_missing_completes:
  assumes "sc_present s" "''analyst'' \<in> set (sc_tables s)" "\<forall>nt\<in>set todo. file_ok dir targets nt" "snd ` set todo \<subseteq> targets" "distinct (map snd todo)"
  shows "\<exists>s'. apply_missing dir todo applied s = (s', Inr (applied @ map fst (missing_targets s todo))) \<and> sc_present s' \<and>
    set (sc_tables s') = set (sc_tables s) \<union> \<Union> (created dir ` set (missing_targets s todo))"
  using assms
proof (induction todo arbitrary: s applied)
  case (Cons nt todo)
  obtain n t where nt: "nt = (n, t)" by (cases nt)
  show ?case
  proof (cases "t \<in> set (sc_tables s)")
    case True
    with Cons.IH [of s applied] Cons.prems nt show ?thesis by (simp add: missing_targets_def)
  next
    case False
    from Cons.prems nt obtain sql where sql: "dir n = Some sql" "t \<in> ct_table ` set sql" "distinct (map ct_table sql)"
      "ct_table ` set sql \<inter> targets \<subseteq> {t}" "\<forall>u\<in>set sql. (ct_if_missing u \<or> ct_table u = t) \<and> (ct_refers u = None \<or> ct_refers u = Some ''analyst'')"
      by (auto simp: file_ok_def)
    have "\<exists>s1. run_script sql s = Inr s1 \<and> sc_present s1 \<and> set (sc_tables s1) = set (sc_tables s) \<union> ct_table ` set sql"
      by (rule run_script_new) (use sql Cons.prems(1,2) False in auto)
    then obtain s1 where s1: "run_script sql s = Inr s1" "sc_present s1" "set (sc_tables s1) = set (sc_tables s) \<union> ct_table ` set sql"
      by blast
    have "snd x \<notin> ct_table ` set sql" if "x \<in> set todo" for x
    proof -
      from that Cons.prems(4,5) nt have "snd x \<in> targets" "snd x \<noteq> t" by auto
      with sql(4) show ?thesis by blast
    qed
    then have same: "missing_targets s1 todo = missing_targets s todo"
      unfolding missing_targets_def s1(3) by (intro filter_cong) simp_all
    have "\<exists>s'. apply_missing dir todo (applied @ [n]) s1 = (s', Inr ((applied @ [n]) @ map fst (missing_targets s1 todo))) \<and> sc_present s' \<and>
        set (sc_tables s') = set (sc_tables s1) \<union> \<Union> (created dir ` set (missing_targets s1 todo))"
      by (rule Cons.IH) (use s1 Cons.prems in simp_all)
    with False sql s1 nt same show ?thesis by (auto simp: missing_targets_def created_def)
  qed
qed (simp add: missing_targets_def)

lemmas migration_defs = migrations_def migration_0001_def migration_0002_def migration_0003_def migration_0004_def

lemma migration_files:
  "\<forall>nt\<in>set migration_targets. file_ok (map_of migrations) (set (map snd migration_targets)) nt"
  by (simp add: migration_targets_def file_ok_def migration_defs)

text \<open>The bootstrap makes every table there is to make, names exactly the files it ran, drops nothing, and a second
  run finds nothing to do.\<close>

theorem bootstrap_completes:
  "\<exists>s'. ensure_dev_schema_and_migrations (map_of migrations) s =
      (s', Inr (map fst (missing_targets s migration_targets))) \<and>
    set (sc_tables s) \<union> snd ` set migration_targets \<subseteq> set (sc_tables s') \<and> (made_whole s \<longrightarrow> set all_tables \<subseteq> set (sc_tables s')) \<and>
    ensure_dev_schema_and_migrations (map_of migrations) s' = (s', Inr [])"
proof -
  let ?m = "map_of migrations" and ?targets = "set (map snd migration_targets)"
  have dist: "distinct (map snd migration_targets)" and analyst: "''analyst'' \<notin> ?targets" by (simp_all add: migration_targets_def)
  have sub: "snd ` set migration_targets \<subseteq> ?targets" by simp
  note completes = apply_missing_completes [OF _ _ migration_files sub dist]
  have same: "missing_targets (ensure_schema s) migration_targets = missing_targets s migration_targets"
    unfolding missing_targets_def by (rule filter_cong) (use analyst in \<open>force simp: ensure_schema_tables\<close>)+
  from completes [of "ensure_schema s" "[]"] obtain s' where
    s': "ensure_dev_schema_and_migrations ?m s = (s', Inr (map fst (missing_targets s migration_targets)))" "sc_present s'"
    and t: "set (sc_tables s') = insert ''analyst'' (set (sc_tables s)) \<union> \<Union> (created ?m ` set (missing_targets s migration_targets))"
    by (auto simp: ensure_dev_schema_and_migrations_def ensure_schema_tables same)
  have own: "snd nt \<in> created ?m nt" if "nt \<in> set migration_targets" for nt
    using migration_files that by (auto simp: file_ok_def created_def)
  have targets: "snd ` set migration_targets \<subseteq> set (sc_tables s')" using own by (auto simp: t missing_targets_def)
  have "set all_tables \<subseteq> set (sc_tables s')" if "made_whole s"
  proof -
    have "created ?m (''0003_create_api_resources.sql'', ''case_record'') = {''case_record'', ''evidence_metadata'', ''finding''}"
      by (auto simp: created_def migration_defs)
    then have "{''evidence_metadata'', ''finding''} \<subseteq> set (sc_tables s')"
      using that by (cases "''case_record'' \<in> set (sc_tables s)") (auto simp: made_whole_def t missing_targets_def migration_targets_def)
    with targets show ?thesis by (auto simp: all_tables_def migration_targets_def)
  qed
  moreover have "ensure_dev_schema_and_migrations ?m s' = (s', Inr [])"
  proof -
    have e: "ensure_schema s' = s'" using s'(2) t by (simp add: ensure_schema_def)
    have none: "missing_targets s' migration_targets = []" using targets by (auto simp: missing_targets_def filter_empty_conv)
    have skip: "apply_missing ?m todo applied s' = (s', Inr applied)" if "snd ` set todo \<subseteq> set (sc_tables s')" for todo applied
      using that by (induction todo) auto
    show ?thesis using skip [OF targets] by (simp add: ensure_dev_schema_and_migrations_def e)
  qed
  moreover have "set (sc_tables s) \<subseteq> set (sc_tables s')" by (auto simp: t)
  ultimately show ?thesis using targets s'(1) by (intro exI [of _ s'] conjI) simp_all
qed

text \<open>The runner of all files has no such memory: run again, the first file fails.\<close>

lemma migrations_run_once:
  assumes "sc_present s" "''timeline_entry_flag'' \<in> set (sc_tables s)"
  shows "apply_migrations (Some migrations) s = (s, Inl (Sql (DatabaseError ''DuplicateTable'')))"
proof -
  have "sort_key fst migrations = migrations" by (simp add: migrations_def)
  with assms show ?thesis by (simp add: apply_migrations_def migration_defs run_create_def)
qed

text \<open>An analyst is inserted once per tenant and id.\<close>

lemma test_analyst_unique:
  "unique_by analyst_pkey (sc_analysts s) \<Longrightarrow> unique_by analyst_pkey (sc_analysts (fst (ensure_test_analyst g p name s)))"
  by (auto simp: ensure_test_analyst_def unique_by_insert split: sum.split)

end
