(* ===== verification/Spec2Isabelle.thy ===== *)
theory Spec2Isabelle
  imports Intake_Correct Ingest_Refine Evidence_Correct Context_Correct Gateway_Correct Runner_Correct Openrelik_Correct Ingest_Correct Audit_Correct Api_Correct Staging_Correct Artifact_Correct Mxray_Correct Api_Mxray_Correct Disk_Correct Extraction_Correct Memory_Correct Uac_Correct Velo_Correct Tsk_Workflow Manifest_Worker Velo_Workflow_Correct Corpus_Correct Workflow_Correct Api_Http_Correct Api_Dev_Correct Tools_Check Db_Bootstrap
begin

text \<open>
  A model of the DFIR evidence workbench and the proofs of its core contracts.
\<close>

end
